(* ===== verification/Prelude.thy ===== *)
theory Prelude
  imports Main "HOL-Library.Multiset"
begin

text \<open>
  Shared vocabulary of the development: the parts of the JavaScript language
  that the modelled code relies on, and the generic lemmas the component
  theories use.

  \<^item> Numbers.  The modelled code computes on integers, so a JavaScript number
    is an \<^typ>\<open>int\<close>.  The bitwise operators of the language first convert
    their operands to 32-bit signed integers (\<open>ToInt32\<close>); \<open>toInt32\<close> and the
    operators \<open>jand\<close>, \<open>jor\<close>, \<open>jnot\<close>, \<open>jshl\<close> and \<open>jshr\<close> write that wrap-around
    out.  \<open>jdiv\<close> is the idiom \<open>0 | a / b\<close>: the quotient truncated towards zero
    and converted to 32 bits (a division by zero gives \<open>0 | Infinity = 0\<close>).
    \<open>jrem\<close> is the operator \<open>%\<close>, whose result has the sign of the dividend.
  \<^item> Arrays.  An array whose holes, \<open>undefined\<close> and \<open>null\<close> entries the code
    does not distinguish (it only compares with \<open>== null\<close>) is an
    \<open>'a option list\<close>.  Reading out of range gives \<open>None\<close>; writing past the end
    extends the array, as in JavaScript.
  \<^item> Loops over an integer range are folds, searches and filters over the
    list \<open>[a..b]\<close> of the positions in the order in which the loop visits them.
\<close>

unbundle bit_operations_syntax

named_theorems js_arith \<open>arithmetic of 32-bit JavaScript numbers\<close>
named_theorems js_array \<open>reading and writing arrays\<close>
named_theorems slot_simps \<open>slots of the item store\<close>
named_theorems keeps_intro \<open>preservation of an invariant by a computation\<close>

section \<open>Numbers\<close>

definition toInt32 :: "int \<Rightarrow> int" where
  "toInt32 x = (x + 2147483648) mod 4294967296 - 2147483648"

definition jand :: "int \<Rightarrow> int \<Rightarrow> int" where
  "jand a b = and (toInt32 a) (toInt32 b)"

definition jor :: "int \<Rightarrow> int \<Rightarrow> int" where
  "jor a b = or (toInt32 a) (toInt32 b)"

definition jnot :: "int \<Rightarrow> int" where
  "jnot a = not (toInt32 a)"

definition jshl :: "int \<Rightarrow> int \<Rightarrow> int" where
  "jshl a n = toInt32 (toInt32 a * 2 ^ nat (n mod 32))"

definition jshr :: "int \<Rightarrow> int \<Rightarrow> int" where
  "jshr a n = toInt32 a div 2 ^ nat (n mod 32)"

definition jdiv :: "int \<Rightarrow> int \<Rightarrow> int" where
  "jdiv a b = toInt32 (sgn a * sgn b * (\<bar>a\<bar> div \<bar>b\<bar>))"

definition jrem :: "int \<Rightarrow> int \<Rightarrow> int" where
  "jrem a b = sgn a * (\<bar>a\<bar> mod \<bar>b\<bar>)"

abbreviation int32 :: "int \<Rightarrow> bool" where
  "int32 x \<equiv> - 2147483648 \<le> x \<and> x \<le> 2147483647"

lemma toInt32_range: "int32 (toInt32 x)"
  by (simp add: toInt32_def)

lemma toInt32_lower [simp]: "- 2147483648 \<le> toInt32 x"
  and toInt32_upper [simp]: "toInt32 x \<le> 2147483647"
  using toInt32_range by blast+

lemma toInt32_id [js_arith]: "int32 x \<Longrightarrow> toInt32 x = x"
  by (simp add: toInt32_def)

lemma toInt32_idem [simp]: "toInt32 (toInt32 x) = toInt32 x"
  by (rule toInt32_id [OF toInt32_range])

lemma toInt32_zero [simp]: "toInt32 0 = 0" and toInt32_one [simp]: "toInt32 1 = 1"
  by (simp_all add: toInt32_def)

text \<open>\<open>toInt32\<close> keeps the low 32 bits and repeats the sign bit above them.\<close>

lemma toInt32_signed_take_bit: "toInt32 x = signed_take_bit 31 x"
  by (simp add: toInt32_def signed_take_bit_eq_take_bit_shift take_bit_eq_mod)

lemma bit_toInt32: "bit (toInt32 x) n = bit x (min n 31)"
  by (auto simp: toInt32_signed_take_bit bit_signed_take_bit_iff min_def)

lemma toInt32_eqI: "(\<And>n. n \<le> 31 \<Longrightarrow> bit x n = bit y n) \<Longrightarrow> toInt32 x = toInt32 y"
  by (rule bit_eqI) (simp add: bit_toInt32)

lemma int32_and: "int32 x \<Longrightarrow> int32 y \<Longrightarrow> int32 (and x y)" for x y :: int
proof -
  assume "int32 x" "int32 y"
  then have "and x y = and (toInt32 x) (toInt32 y)" by (simp add: toInt32_id)
  also have "\<dots> = toInt32 (and x y)"
    by (rule bit_eqI) (simp add: bit_toInt32 bit_and_iff)
  finally show ?thesis using toInt32_range by metis
qed

lemma jand_range: "int32 (jand a b)"
  unfolding jand_def by (rule int32_and) (simp_all)

lemma jdiv_range: "int32 (jdiv a b)"
  by (simp add: jdiv_def)

lemma jdiv_nonneg [js_arith]:
  "0 \<le> a \<Longrightarrow> 0 < b \<Longrightarrow> a \<le> 2147483647 \<Longrightarrow> jdiv a b = a div b"
proof -
  assume a: "0 \<le> a" "0 < b" "a \<le> 2147483647"
  then have "0 \<le> a div b" "a div b \<le> a"
    using zdiv_mono2 [of a 1 b] by (simp_all add: pos_imp_zdiv_nonneg_iff)
  with a show ?thesis
    by (cases "a = 0") (simp_all add: jdiv_def toInt32_id)
qed

lemma jrem_nonneg [js_arith]: "0 \<le> a \<Longrightarrow> 0 < b \<Longrightarrow> jrem a b = a mod b"
  by (cases "a = 0") (simp_all add: jrem_def)

lemma jrem_abs_less: "b \<noteq> 0 \<Longrightarrow> \<bar>jrem a b\<bar> < \<bar>b\<bar>"
  by (cases "a = 0") (simp_all add: jrem_def abs_mult sgn_if)

section \<open>Arrays\<close>

definition jget :: "'a option list \<Rightarrow> int \<Rightarrow> 'a option" where
  "jget xs i = (if 0 \<le> i \<and> i < int (length xs) then xs ! nat i else None)"

definition jset :: "'a option list \<Rightarrow> int \<Rightarrow> 'a option \<Rightarrow> 'a option list" where
  "jset xs i v =
     (if i < 0 then xs
      else if i < int (length xs) then xs[nat i := v]
      else xs @ replicate (nat i - length xs) None @ [v])"

lemma jget_neg [simp]: "i < 0 \<Longrightarrow> jget xs i = None"
  by (simp add: jget_def)

lemma jget_Some_D: "jget xs i = Some v \<Longrightarrow> 0 \<le> i \<and> i < int (length xs)"
  by (simp add: jget_def split: if_splits)

lemma jget_jset_same [js_array]: "0 \<le> i \<Longrightarrow> jget (jset xs i v) i = v"
  by (auto simp: jget_def jset_def nth_append nat_less_iff)

lemma jget_jset_other [js_array]: "0 \<le> i \<Longrightarrow> i \<noteq> j \<Longrightarrow> jget (jset xs i v) j = jget xs j"
  by (auto simp: jget_def jset_def nth_append nth_list_update nat_less_iff nth_Cons'
      split: if_splits)

lemma jget_jset: "0 \<le> i \<Longrightarrow> jget (jset xs i v) j = (if j = i then v else jget xs j)"
  by (simp add: jget_jset_same jget_jset_other)

lemma length_jset [js_array]: "i < int (length xs) \<Longrightarrow> length (jset xs i v) = length xs"
  by (simp add: jset_def)

lemma jset_same_slot [js_array]: "0 \<le> i \<Longrightarrow> jset (jset xs i v) i w = jset xs i w"
  by (auto simp: jset_def list_update_append nat_less_iff)

section \<open>Lists of positions\<close>

lemma find_Some_least:
  assumes "find P [a..b] = Some (i::int)"
  shows "a \<le> i \<and> i \<le> b \<and> P i \<and> (\<forall>j. a \<le> j \<and> j < i \<longrightarrow> \<not> P j)"
proof -
  from assms obtain k where k: "k < length [a..b]" "P ([a..b] ! k)" "i = [a..b] ! k"
      "\<forall>m<k. \<not> P ([a..b] ! m)"
    by (auto simp: find_Some_iff)
  have i: "i = a + int k" using k(1,3) by simp
  have "\<not> P j" if "a \<le> j" "j < i" for j
  proof -
    have "nat (j - a) < k" "[a..b] ! nat (j - a) = j"
      using that i k(1) by auto
    with k(4) show ?thesis by metis
  qed
  with i k(1,2,3) show ?thesis by auto
qed

lemma find_None_all: "find P [a..b] = None \<longleftrightarrow> (\<forall>j. a \<le> j \<and> j \<le> (b::int) \<longrightarrow> \<not> P j)"
  by (auto simp: find_None_iff)

lemma sum_list_change_one:
  fixes h h' :: "'a \<Rightarrow> int"
  assumes "distinct ps" "p \<in> set ps" "\<And>q. q \<noteq> p \<Longrightarrow> q \<in> set ps \<Longrightarrow> h' q = h q"
  shows "sum_list (map h' ps) = sum_list (map h ps) - h p + h' p"
  using assms
proof (induction ps)
  case (Cons q ps)
  show ?case
  proof (cases "q = p")
    case True
    have "h' x = h x" if "x \<in> set ps" for x
      using that True Cons.prems(1) by (intro Cons.prems(3)) auto
    then have "sum_list (map h' ps) = sum_list (map h ps)"
      by (intro arg_cong [where f = sum_list] map_cong) auto
    with True show ?thesis by simp
  next
    case False
    with Cons show ?thesis by auto
  qed
qed simp

lemma sum_list_nonneg_int: "(\<And>x. x \<in> set xs \<Longrightarrow> 0 \<le> (f x :: int)) \<Longrightarrow> 0 \<le> sum_list (map f xs)"
  by (induction xs) auto

end
