(* ===== verification/Define.thy ===== *)
theory Define
  imports Prelude
begin

text \<open>
  The table of constants and the classification functions of the module
  \<open>Define\<close> of the client bundle that the modelled components use: item types,
  powers, skill areas, attack types and buffer states, with the source's names
  and values.  The description texts of the module are not modelled.
\<close>

section \<open>Constants\<close>

subsection \<open>Item types\<close>

abbreviation (input) ITEM_TYPE_ARMOR_HEAD :: int where "ITEM_TYPE_ARMOR_HEAD \<equiv> 0"
abbreviation (input) ITEM_TYPE_ARMOR_CLOTHES :: int where "ITEM_TYPE_ARMOR_CLOTHES \<equiv> 1"
abbreviation (input) ITEM_TYPE_ARMOR_TROUSERS :: int where "ITEM_TYPE_ARMOR_TROUSERS \<equiv> 2"
abbreviation (input) ITEM_TYPE_ARMOR_SHOULDER :: int where "ITEM_TYPE_ARMOR_SHOULDER \<equiv> 3"
abbreviation (input) ITEM_TYPE_ARMOR_WAIST :: int where "ITEM_TYPE_ARMOR_WAIST \<equiv> 4"
abbreviation (input) ITEM_TYPE_ARMOR_BACK :: int where "ITEM_TYPE_ARMOR_BACK \<equiv> 5"
abbreviation (input) ITEM_TYPE_ARMOR_SHOES :: int where "ITEM_TYPE_ARMOR_SHOES \<equiv> 6"
abbreviation (input) ITEM_TYPE_ARMOR_HAND :: int where "ITEM_TYPE_ARMOR_HAND \<equiv> 7"
abbreviation (input) ITEM_TYPE_ARMOR_NECKLACE :: int where "ITEM_TYPE_ARMOR_NECKLACE \<equiv> 8"
abbreviation (input) ITEM_TYPE_ARMOR_RING :: int where "ITEM_TYPE_ARMOR_RING \<equiv> 9"
abbreviation (input) ITEM_TYPE_ARMOR_AMULET :: int where "ITEM_TYPE_ARMOR_AMULET \<equiv> 10"
abbreviation (input) ITEM_TYPE_ARMOR_TRANSPORT :: int where "ITEM_TYPE_ARMOR_TRANSPORT \<equiv> 11"
abbreviation (input) ITEM_TYPE_ARMOR_FASHION :: int where "ITEM_TYPE_ARMOR_FASHION \<equiv> 12"
abbreviation (input) ITEM_TYPE_WEAPON_ONEHAND_SWORD :: int where "ITEM_TYPE_WEAPON_ONEHAND_SWORD \<equiv> 13"
abbreviation (input) ITEM_TYPE_WEAPON_TWOHAND_SWORD :: int where "ITEM_TYPE_WEAPON_TWOHAND_SWORD \<equiv> 14"
abbreviation (input) ITEM_TYPE_WEAPON_ONEHAND_BLADE :: int where "ITEM_TYPE_WEAPON_ONEHAND_BLADE \<equiv> 15"
abbreviation (input) ITEM_TYPE_WEAPON_TWOHAND_BLADE :: int where "ITEM_TYPE_WEAPON_TWOHAND_BLADE \<equiv> 16"
abbreviation (input) ITEM_TYPE_WEAPON_ONEHAND_HEAVY :: int where "ITEM_TYPE_WEAPON_ONEHAND_HEAVY \<equiv> 17"
abbreviation (input) ITEM_TYPE_WEAPON_TWOHAND_HEAVY :: int where "ITEM_TYPE_WEAPON_TWOHAND_HEAVY \<equiv> 18"
abbreviation (input) ITEM_TYPE_WEAPON_TWOHAND_STAFF :: int where "ITEM_TYPE_WEAPON_TWOHAND_STAFF \<equiv> 19"
abbreviation (input) ITEM_TYPE_WEAPON_TWOHAND_LANCE :: int where "ITEM_TYPE_WEAPON_TWOHAND_LANCE \<equiv> 20"
abbreviation (input) ITEM_TYPE_WEAPON_ONEHAND_CROSSBOW :: int where "ITEM_TYPE_WEAPON_ONEHAND_CROSSBOW \<equiv> 21"
abbreviation (input) ITEM_TYPE_WEAPON_TWOHAND_CROSSBOW :: int where "ITEM_TYPE_WEAPON_TWOHAND_CROSSBOW \<equiv> 22"
abbreviation (input) ITEM_TYPE_WEAPON_TWOHAND_BOW :: int where "ITEM_TYPE_WEAPON_TWOHAND_BOW \<equiv> 23"
abbreviation (input) ITEM_TYPE_WEAPON_ONEHAND_HAND :: int where "ITEM_TYPE_WEAPON_ONEHAND_HAND \<equiv> 24"
abbreviation (input) ITEM_TYPE_TASK :: int where "ITEM_TYPE_TASK \<equiv> 25"
abbreviation (input) ITEM_TYPE_BATTLE_USE :: int where "ITEM_TYPE_BATTLE_USE \<equiv> 26"
abbreviation (input) ITEM_TYPE_ANYTIME_USE :: int where "ITEM_TYPE_ANYTIME_USE \<equiv> 27"
abbreviation (input) ITEM_TYPE_NOT_BATTLE_USE :: int where "ITEM_TYPE_NOT_BATTLE_USE \<equiv> 28"
abbreviation (input) ITEM_TYPE_BUILD_MATERIAL :: int where "ITEM_TYPE_BUILD_MATERIAL \<equiv> 29"
abbreviation (input) ITEM_TYPE_GEM :: int where "ITEM_TYPE_GEM \<equiv> 30"
abbreviation (input) ITEM_TYPE_SKILL_BOOK :: int where "ITEM_TYPE_SKILL_BOOK \<equiv> 31"
abbreviation (input) ITEM_TYPE_PET :: int where "ITEM_TYPE_PET \<equiv> 32"
abbreviation (input) ITEM_TYPE_SPECEAIL :: int where "ITEM_TYPE_SPECEAIL \<equiv> 33"
abbreviation (input) ITEM_TYPE_WEAPON_BALL :: int where "ITEM_TYPE_WEAPON_BALL \<equiv> 34"
abbreviation (input) ITEM_TYPE_WEAPON_ONEHAND_GUN :: int where "ITEM_TYPE_WEAPON_ONEHAND_GUN \<equiv> 35"
abbreviation (input) ITEM_TYPE_WEAPON_TWOHAND_GUN :: int where "ITEM_TYPE_WEAPON_TWOHAND_GUN \<equiv> 36"
abbreviation (input) ITEM_TYPE_WEAPON_ONEHAND_HAMMER :: int where "ITEM_TYPE_WEAPON_ONEHAND_HAMMER \<equiv> 37"
abbreviation (input) ITEM_TYPE_WEAPON_TWOHAND_HAMMER :: int where "ITEM_TYPE_WEAPON_TWOHAND_HAMMER \<equiv> 38"
abbreviation (input) ITEM_TYPE_WEAPON_TWOHAND_FAN :: int where "ITEM_TYPE_WEAPON_TWOHAND_FAN \<equiv> 39"
abbreviation (input) ITEM_TYPE_BLOOD_BOTTLE :: int where "ITEM_TYPE_BLOOD_BOTTLE \<equiv> 40"
abbreviation (input) ITEM_TYPE_PET_EQUIP :: int where "ITEM_TYPE_PET_EQUIP \<equiv> 41"
abbreviation (input) ITEM_TYPE_PET_EQUIP_EXP_BOOK :: int where "ITEM_TYPE_PET_EQUIP_EXP_BOOK \<equiv> 42"
abbreviation (input) ITEM_TYPE_SEAL :: int where "ITEM_TYPE_SEAL \<equiv> 43"

subsection \<open>Powers: the effect codes of items, skills and buffers\<close>

abbreviation (input) POWER_ADD_MOENY1 :: int where "POWER_ADD_MOENY1 \<equiv> 301"
abbreviation (input) POWER_ADD_MOENY2 :: int where "POWER_ADD_MOENY2 \<equiv> 302"
abbreviation (input) POWER_ADD_MOENY3 :: int where "POWER_ADD_MOENY3 \<equiv> 303"
abbreviation (input) POWER_ADD_ITEM :: int where "POWER_ADD_ITEM \<equiv> 304"
abbreviation (input) POWER_NONE :: int where "POWER_NONE \<equiv> 0"
abbreviation (input) POWER_STR :: int where "POWER_STR \<equiv> 1"
abbreviation (input) POWER_STR_PERCENT :: int where "POWER_STR_PERCENT \<equiv> 2"
abbreviation (input) POWER_CON :: int where "POWER_CON \<equiv> 3"
abbreviation (input) POWER_CON_PERCENT :: int where "POWER_CON_PERCENT \<equiv> 4"
abbreviation (input) POWER_AGI :: int where "POWER_AGI \<equiv> 5"
abbreviation (input) POWER_AGI_PERCENT :: int where "POWER_AGI_PERCENT \<equiv> 6"
abbreviation (input) POWER_ILT :: int where "POWER_ILT \<equiv> 7"
abbreviation (input) POWER_ILT_PERCENT :: int where "POWER_ILT_PERCENT \<equiv> 8"
abbreviation (input) POWER_WIS :: int where "POWER_WIS \<equiv> 9"
abbreviation (input) POWER_WIS_PERCENT :: int where "POWER_WIS_PERCENT \<equiv> 10"
abbreviation (input) POWER_HPMAX :: int where "POWER_HPMAX \<equiv> 11"
abbreviation (input) POWER_HPMAX_PERCENT :: int where "POWER_HPMAX_PERCENT \<equiv> 12"
abbreviation (input) POWER_MPMAX :: int where "POWER_MPMAX \<equiv> 13"
abbreviation (input) POWER_MPMAX_PERCENT :: int where "POWER_MPMAX_PERCENT \<equiv> 14"
abbreviation (input) POWER_SPEED_PERCENT :: int where "POWER_SPEED_PERCENT \<equiv> 23"
abbreviation (input) POWER_HITRATE_PERCENT :: int where "POWER_HITRATE_PERCENT \<equiv> 24"
abbreviation (input) POWER_DODGE_PERCENT :: int where "POWER_DODGE_PERCENT \<equiv> 25"
abbreviation (input) POWER_MAGIC_HITRATE_PERCENT :: int where "POWER_MAGIC_HITRATE_PERCENT \<equiv> 26"
abbreviation (input) POWER_CRITICAL_PERCENT :: int where "POWER_CRITICAL_PERCENT \<equiv> 27"
abbreviation (input) POWER_ATK_STR_PERCENT :: int where "POWER_ATK_STR_PERCENT \<equiv> 28"
abbreviation (input) POWER_ATK_AGI_PERCENT :: int where "POWER_ATK_AGI_PERCENT \<equiv> 29"
abbreviation (input) POWER_ATK_MAGIC_PERCENT :: int where "POWER_ATK_MAGIC_PERCENT \<equiv> 30"
abbreviation (input) POWER_DEF_STR_PERCENT :: int where "POWER_DEF_STR_PERCENT \<equiv> 31"
abbreviation (input) POWER_DEF_AGI_PERCENT :: int where "POWER_DEF_AGI_PERCENT \<equiv> 32"
abbreviation (input) POWER_DEF_MAGIC_PERCENT :: int where "POWER_DEF_MAGIC_PERCENT \<equiv> 33"
abbreviation (input) POWER_WIL_PERCENT :: int where "POWER_WIL_PERCENT \<equiv> 34"
abbreviation (input) POWER_TOUGH_PERCENT :: int where "POWER_TOUGH_PERCENT \<equiv> 35"
abbreviation (input) POWER_REFLECTION_PERCENT :: int where "POWER_REFLECTION_PERCENT \<equiv> 36"
abbreviation (input) POWER_BLOCK_PERCENT :: int where "POWER_BLOCK_PERCENT \<equiv> 37"
abbreviation (input) POWER_INSIGHT_PERCENT :: int where "POWER_INSIGHT_PERCENT \<equiv> 38"
abbreviation (input) POWER_PENETRATION_PERCENT :: int where "POWER_PENETRATION_PERCENT \<equiv> 39"
abbreviation (input) POWER_DEF_FIELD_PERCENT :: int where "POWER_DEF_FIELD_PERCENT \<equiv> 40"
abbreviation (input) POWER_BACK_PERCENT :: int where "POWER_BACK_PERCENT \<equiv> 41"
abbreviation (input) POWER_MAGIC_BACK_PERCENT :: int where "POWER_MAGIC_BACK_PERCENT \<equiv> 42"
abbreviation (input) POWER_LIFE_ABSORPTION_PERCENT :: int where "POWER_LIFE_ABSORPTION_PERCENT \<equiv> 43"
abbreviation (input) POWER_MANA_ABSORPTION_PERCENT :: int where "POWER_MANA_ABSORPTION_PERCENT \<equiv> 44"
abbreviation (input) POWER_MAGIC_PENETRATION_PERCENT :: int where "POWER_MAGIC_PENETRATION_PERCENT \<equiv> 45"
abbreviation (input) POWER_HIT_FORCE_PERCENT :: int where "POWER_HIT_FORCE_PERCENT \<equiv> 46"
abbreviation (input) POWER_HEAL_RECOVERY_PERCENT :: int where "POWER_HEAL_RECOVERY_PERCENT \<equiv> 47"
abbreviation (input) POWER_MANA_RECOVERY_PERCENT :: int where "POWER_MANA_RECOVERY_PERCENT \<equiv> 48"
abbreviation (input) POWER_HP :: int where "POWER_HP \<equiv> 49"
abbreviation (input) POWER_HP_PERCENT :: int where "POWER_HP_PERCENT \<equiv> 50"
abbreviation (input) POWER_MP :: int where "POWER_MP \<equiv> 51"
abbreviation (input) POWER_MP_PERCENT :: int where "POWER_MP_PERCENT \<equiv> 52"
abbreviation (input) POWER_SPEED :: int where "POWER_SPEED \<equiv> 53"
abbreviation (input) POWER_HITRATE :: int where "POWER_HITRATE \<equiv> 54"
abbreviation (input) POWER_DODGE :: int where "POWER_DODGE \<equiv> 55"
abbreviation (input) POWER_MAGIC_HITRATE :: int where "POWER_MAGIC_HITRATE \<equiv> 56"
abbreviation (input) POWER_CRITICAL :: int where "POWER_CRITICAL \<equiv> 57"
abbreviation (input) POWER_ATK_STR :: int where "POWER_ATK_STR \<equiv> 58"
abbreviation (input) POWER_ATK_AGI :: int where "POWER_ATK_AGI \<equiv> 59"
abbreviation (input) POWER_ATK_MAGIC :: int where "POWER_ATK_MAGIC \<equiv> 60"
abbreviation (input) POWER_DEF_STR :: int where "POWER_DEF_STR \<equiv> 61"
abbreviation (input) POWER_DEF_AGI :: int where "POWER_DEF_AGI \<equiv> 62"
abbreviation (input) POWER_DEF_MAGIC :: int where "POWER_DEF_MAGIC \<equiv> 63"
abbreviation (input) POWER_WIL :: int where "POWER_WIL \<equiv> 64"
abbreviation (input) POWER_TOUGH :: int where "POWER_TOUGH \<equiv> 65"
abbreviation (input) POWER_REFLECTION :: int where "POWER_REFLECTION \<equiv> 66"
abbreviation (input) POWER_BLOCK :: int where "POWER_BLOCK \<equiv> 67"
abbreviation (input) POWER_INSIGHT :: int where "POWER_INSIGHT \<equiv> 68"
abbreviation (input) POWER_PENETRATION :: int where "POWER_PENETRATION \<equiv> 69"
abbreviation (input) POWER_DEF_FIELD :: int where "POWER_DEF_FIELD \<equiv> 70"
abbreviation (input) POWER_BACK :: int where "POWER_BACK \<equiv> 71"
abbreviation (input) POWER_MAGIC_BACK :: int where "POWER_MAGIC_BACK \<equiv> 72"
abbreviation (input) POWER_LIFE_ABSORPTION :: int where "POWER_LIFE_ABSORPTION \<equiv> 73"
abbreviation (input) POWER_MANA_ABSORPTION :: int where "POWER_MANA_ABSORPTION \<equiv> 74"
abbreviation (input) POWER_MAGIC_PENETRATION :: int where "POWER_MAGIC_PENETRATION \<equiv> 75"
abbreviation (input) POWER_HIT_FORCE :: int where "POWER_HIT_FORCE \<equiv> 76"
abbreviation (input) POWER_HEAL_RECOVERY :: int where "POWER_HEAL_RECOVERY \<equiv> 77"
abbreviation (input) POWER_MANA_RECOVERY :: int where "POWER_MANA_RECOVERY \<equiv> 78"
abbreviation (input) POWER_REMOVE_STATUS :: int where "POWER_REMOVE_STATUS \<equiv> 79"
abbreviation (input) POWER_RECOVER :: int where "POWER_RECOVER \<equiv> 80"
abbreviation (input) POWER_SKILL_DAMAGE :: int where "POWER_SKILL_DAMAGE \<equiv> 81"
abbreviation (input) POWER_SKILL_HITRATE :: int where "POWER_SKILL_HITRATE \<equiv> 82"
abbreviation (input) POWER_SELF_CRITICAL :: int where "POWER_SELF_CRITICAL \<equiv> 84"
abbreviation (input) POWER_SKILL_HIT_FORCE :: int where "POWER_SKILL_HIT_FORCE \<equiv> 85"
abbreviation (input) POWER_SKILL_MAGIC_PENETRATION :: int where "POWER_SKILL_MAGIC_PENETRATION \<equiv> 86"
abbreviation (input) POWER_SKILL_BRK_ARMOR :: int where "POWER_SKILL_BRK_ARMOR \<equiv> 87"
abbreviation (input) POWER_SKILL_REMOVE_STATUS :: int where "POWER_SKILL_REMOVE_STATUS \<equiv> 88"
abbreviation (input) POWER_PET_DAMAGE :: int where "POWER_PET_DAMAGE \<equiv> 89"
abbreviation (input) POWER_PET_HPMAX_PERCENT :: int where "POWER_PET_HPMAX_PERCENT \<equiv> 90"
abbreviation (input) POWER_PET_MPMAX_PERCENT :: int where "POWER_PET_MPMAX_PERCENT \<equiv> 91"
abbreviation (input) POWER_PET_STR_PERCENT :: int where "POWER_PET_STR_PERCENT \<equiv> 92"
abbreviation (input) POWER_PET_CON_PERCENT :: int where "POWER_PET_CON_PERCENT \<equiv> 93"
abbreviation (input) POWER_PET_AGI_PERCENT :: int where "POWER_PET_AGI_PERCENT \<equiv> 94"
abbreviation (input) POWER_PET_ILT_PERCENT :: int where "POWER_PET_ILT_PERCENT \<equiv> 95"
abbreviation (input) POWER_PET_WIS_PERCENT :: int where "POWER_PET_WIS_PERCENT \<equiv> 96"
abbreviation (input) POWER_RECOVER_PERCENT :: int where "POWER_RECOVER_PERCENT \<equiv> 97"
abbreviation (input) POWER_HPMP_RECOVER :: int where "POWER_HPMP_RECOVER \<equiv> 98"
abbreviation (input) POWER_OPEN_STORE :: int where "POWER_OPEN_STORE \<equiv> 99"
abbreviation (input) POWER_CHEST_LV1 :: int where "POWER_CHEST_LV1 \<equiv> 100"
abbreviation (input) POWER_CHEST_LV2 :: int where "POWER_CHEST_LV2 \<equiv> 101"
abbreviation (input) POWER_CHEST_LV3 :: int where "POWER_CHEST_LV3 \<equiv> 102"
abbreviation (input) POWER_REQ_SLOT :: int where "POWER_REQ_SLOT \<equiv> 103"
abbreviation (input) POWER_TO_WORLDMAP :: int where "POWER_TO_WORLDMAP \<equiv> 104"
abbreviation (input) POWER_TO_GXGY :: int where "POWER_TO_GXGY \<equiv> 105"
abbreviation (input) POWER_EXPIRE_TIME :: int where "POWER_EXPIRE_TIME \<equiv> 106"
abbreviation (input) POWER_RESET_MISSION :: int where "POWER_RESET_MISSION \<equiv> 107"
abbreviation (input) POWER_CHEST_KEY_LEVEL :: int where "POWER_CHEST_KEY_LEVEL \<equiv> 108"
abbreviation (input) POWER_PET_EGG :: int where "POWER_PET_EGG \<equiv> 109"
abbreviation (input) POWER_COSTUME :: int where "POWER_COSTUME \<equiv> 110"
abbreviation (input) POWER_TRANSPORT :: int where "POWER_TRANSPORT \<equiv> 111"
abbreviation (input) POWER_POWER_TITLE :: int where "POWER_POWER_TITLE \<equiv> 112"
abbreviation (input) POWER_GUARD_STR_ATTACK :: int where "POWER_GUARD_STR_ATTACK \<equiv> 113"
abbreviation (input) POWER_GUARD_AGI_ATTACK :: int where "POWER_GUARD_AGI_ATTACK \<equiv> 114"
abbreviation (input) POWER_GUARD_MAGIC_ATTACK :: int where "POWER_GUARD_MAGIC_ATTACK \<equiv> 115"
abbreviation (input) POWER_GUARD_CURSE_ATTACK :: int where "POWER_GUARD_CURSE_ATTACK \<equiv> 116"
abbreviation (input) POWER_GUARD_ALL_ATTACK :: int where "POWER_GUARD_ALL_ATTACK \<equiv> 117"
abbreviation (input) POWER_PET_ADD_EXP :: int where "POWER_PET_ADD_EXP \<equiv> 118"
abbreviation (input) POWER_ADD_EXP :: int where "POWER_ADD_EXP \<equiv> 119"
abbreviation (input) POWER_EXP_BY_TIME :: int where "POWER_EXP_BY_TIME \<equiv> 120"
abbreviation (input) POWER_IDENTIFY :: int where "POWER_IDENTIFY \<equiv> 121"
abbreviation (input) POWER_SWORD_ATK_TIME :: int where "POWER_SWORD_ATK_TIME \<equiv> 122"
abbreviation (input) POWER_BLADE_ATK_TIME :: int where "POWER_BLADE_ATK_TIME \<equiv> 123"
abbreviation (input) POWER_HEAVY_ATK_TIME :: int where "POWER_HEAVY_ATK_TIME \<equiv> 124"
abbreviation (input) POWER_LANCE_ATK_TIME :: int where "POWER_LANCE_ATK_TIME \<equiv> 125"
abbreviation (input) POWER_STAFF_ATK_TIME :: int where "POWER_STAFF_ATK_TIME \<equiv> 126"
abbreviation (input) POWER_HAND_ATK_TIME :: int where "POWER_HAND_ATK_TIME \<equiv> 127"
abbreviation (input) POWER_BOW_ATK_TIME :: int where "POWER_BOW_ATK_TIME \<equiv> 128"
abbreviation (input) POWER_HAND_ITEM_ATK_TIME :: int where "POWER_HAND_ITEM_ATK_TIME \<equiv> 129"
abbreviation (input) POWER_ALL_ATK_TIME :: int where "POWER_ALL_ATK_TIME \<equiv> 130"
abbreviation (input) POWER_COMPOSITE :: int where "POWER_COMPOSITE \<equiv> 131"
abbreviation (input) POWER_SWORD_PERCENT :: int where "POWER_SWORD_PERCENT \<equiv> 133"
abbreviation (input) POWER_BLADE_PERCENT :: int where "POWER_BLADE_PERCENT \<equiv> 134"
abbreviation (input) POWER_HEAVY_PERCENT :: int where "POWER_HEAVY_PERCENT \<equiv> 135"
abbreviation (input) POWER_LANCE_PERCENT :: int where "POWER_LANCE_PERCENT \<equiv> 136"
abbreviation (input) POWER_STAFF_PERCENT :: int where "POWER_STAFF_PERCENT \<equiv> 137"
abbreviation (input) POWER_HAND_PERCENT :: int where "POWER_HAND_PERCENT \<equiv> 138"
abbreviation (input) POWER_BOW_PERCENT :: int where "POWER_BOW_PERCENT \<equiv> 139"
abbreviation (input) POWER_HAND_ITEM_PERCENT :: int where "POWER_HAND_ITEM_PERCENT \<equiv> 140"
abbreviation (input) POWER_ALL_PERCENT :: int where "POWER_ALL_PERCENT \<equiv> 141"
abbreviation (input) POWER_EQUIP_ARMOR_DUR_PERCENT :: int where "POWER_EQUIP_ARMOR_DUR_PERCENT \<equiv> 142"
abbreviation (input) POWER_SKILL_HP :: int where "POWER_SKILL_HP \<equiv> 145"
abbreviation (input) POWER_SKILL_HP_PERCENT :: int where "POWER_SKILL_HP_PERCENT \<equiv> 146"
abbreviation (input) POWER_SKILL_MP :: int where "POWER_SKILL_MP \<equiv> 147"
abbreviation (input) POWER_SKILL_MP_PERCENT :: int where "POWER_SKILL_MP_PERCENT \<equiv> 148"
abbreviation (input) POWER_SKILL_LIFE_ABSORPTION :: int where "POWER_SKILL_LIFE_ABSORPTION \<equiv> 149"
abbreviation (input) POWER_SKILL_MANA_ABSORPTION :: int where "POWER_SKILL_MANA_ABSORPTION \<equiv> 150"
abbreviation (input) POWER_SKILL_TARGET_BACK :: int where "POWER_SKILL_TARGET_BACK \<equiv> 151"
abbreviation (input) POWER_SKILL_TARGET_MAGIC_BACK :: int where "POWER_SKILL_TARGET_MAGIC_BACK \<equiv> 152"
abbreviation (input) POWER_SKILL_TARGET_BLOCK :: int where "POWER_SKILL_TARGET_BLOCK \<equiv> 153"
abbreviation (input) POWER_SKILL_TARGET_INSIGHT :: int where "POWER_SKILL_TARGET_INSIGHT \<equiv> 154"
abbreviation (input) POWER_SKILL_TARGET_WIL :: int where "POWER_SKILL_TARGET_WIL \<equiv> 155"
abbreviation (input) POWER_SKILL_TARGET_TOUCH :: int where "POWER_SKILL_TARGET_TOUCH \<equiv> 156"
abbreviation (input) POWER_GRARD_MASTER_STR_ATTACK :: int where "POWER_GRARD_MASTER_STR_ATTACK \<equiv> 157"
abbreviation (input) POWER_GRARD_MASTER_AGI_ATTACK :: int where "POWER_GRARD_MASTER_AGI_ATTACK \<equiv> 158"
abbreviation (input) POWER_GRARD_MASTER_MAGIC_ATTACK :: int where "POWER_GRARD_MASTER_MAGIC_ATTACK \<equiv> 159"
abbreviation (input) POWER_GRARD_MASTER_CURSE_ATTACK :: int where "POWER_GRARD_MASTER_CURSE_ATTACK \<equiv> 160"
abbreviation (input) POWER_GRARD_MASTER_ALL_ATTACK :: int where "POWER_GRARD_MASTER_ALL_ATTACK \<equiv> 161"
abbreviation (input) POWER_PET_GRARD_STR_ATTACK :: int where "POWER_PET_GRARD_STR_ATTACK \<equiv> 162"
abbreviation (input) POWER_PET_GRARD_AGI_ATTACK :: int where "POWER_PET_GRARD_AGI_ATTACK \<equiv> 163"
abbreviation (input) POWER_PET_GRARD_MAGIC_ATTACK :: int where "POWER_PET_GRARD_MAGIC_ATTACK \<equiv> 164"
abbreviation (input) POWER_PET_GRARD_CURSE_ATTACK :: int where "POWER_PET_GRARD_CURSE_ATTACK \<equiv> 165"
abbreviation (input) POWER_PET_GRARD_ALL_ATTACK :: int where "POWER_PET_GRARD_ALL_ATTACK \<equiv> 166"
abbreviation (input) POWER_EXP_MISSION_BY_TIME :: int where "POWER_EXP_MISSION_BY_TIME \<equiv> 167"
abbreviation (input) POWER_IGNORE_BACK :: int where "POWER_IGNORE_BACK \<equiv> 168"
abbreviation (input) POWER_IGNORE_MAGIC_BACK :: int where "POWER_IGNORE_MAGIC_BACK \<equiv> 169"
abbreviation (input) POWER_IGNORE_BLOCK :: int where "POWER_IGNORE_BLOCK \<equiv> 170"
abbreviation (input) POWER_IGNORE_INSIGHT :: int where "POWER_IGNORE_INSIGHT \<equiv> 171"
abbreviation (input) POWER_IGNORE_WIL :: int where "POWER_IGNORE_WIL \<equiv> 172"
abbreviation (input) POWER_IGNORE_TOUCH :: int where "POWER_IGNORE_TOUCH \<equiv> 173"
abbreviation (input) POWER_BALL_ATK_TIME :: int where "POWER_BALL_ATK_TIME \<equiv> 174"
abbreviation (input) POWER_BALL_PERCENT :: int where "POWER_BALL_PERCENT \<equiv> 175"
abbreviation (input) POWER_SKILL_SCROLL :: int where "POWER_SKILL_SCROLL \<equiv> 176"
abbreviation (input) POWER_SKILL_SCROLL_PET :: int where "POWER_SKILL_SCROLL_PET \<equiv> 177"
abbreviation (input) POWER_KEEPOUT_ATK_TIME :: int where "POWER_KEEPOUT_ATK_TIME \<equiv> 178"
abbreviation (input) POWER_NEW_GET_PET :: int where "POWER_NEW_GET_PET \<equiv> 179"
abbreviation (input) POWER_NEW_GET_ITEM :: int where "POWER_NEW_GET_ITEM \<equiv> 180"
abbreviation (input) POWER_ENCHANT_ITEM :: int where "POWER_ENCHANT_ITEM \<equiv> 181"
abbreviation (input) POWER_FORMATION_BOOK :: int where "POWER_FORMATION_BOOK \<equiv> 182"
abbreviation (input) POWER_CHEST_LV4 :: int where "POWER_CHEST_LV4 \<equiv> 183"
abbreviation (input) POWER_COLOR_BOX :: int where "POWER_COLOR_BOX \<equiv> 184"
abbreviation (input) POWER_TURN_MONSTER_CARD :: int where "POWER_TURN_MONSTER_CARD \<equiv> 185"
abbreviation (input) POWER_SKILL_BOOK_PET :: int where "POWER_SKILL_BOOK_PET \<equiv> 186"
abbreviation (input) POWER_GUN_ATK_TIME :: int where "POWER_GUN_ATK_TIME \<equiv> 190"
abbreviation (input) POWER_GUN_PERCENT :: int where "POWER_GUN_PERCENT \<equiv> 191"
abbreviation (input) POWER_HAMMER_ATK_TIME :: int where "POWER_HAMMER_ATK_TIME \<equiv> 192"
abbreviation (input) POWER_HAMMER_PERCENT :: int where "POWER_HAMMER_PERCENT \<equiv> 193"
abbreviation (input) POWER_FAN_ATK_TIME :: int where "POWER_FAN_ATK_TIME \<equiv> 194"
abbreviation (input) POWER_FAN_PERCENT :: int where "POWER_FAN_PERCENT \<equiv> 195"
abbreviation (input) POWER_MAGIC_PERCENT :: int where "POWER_MAGIC_PERCENT \<equiv> 196"
abbreviation (input) POWER_PHYSICS_PERCENT :: int where "POWER_PHYSICS_PERCENT \<equiv> 197"
abbreviation (input) POWER_HP_MP :: int where "POWER_HP_MP \<equiv> 197"

subsection \<open>Skill areas\<close>

abbreviation (input) SKILL_AREA_SEARCH_ALL :: int where "SKILL_AREA_SEARCH_ALL \<equiv> 0"
abbreviation (input) SKILL_AREA_SEARCH_ENEMY :: int where "SKILL_AREA_SEARCH_ENEMY \<equiv> 1"
abbreviation (input) SKILL_AREA_SEARCH_FRIEND :: int where "SKILL_AREA_SEARCH_FRIEND \<equiv> 2"
abbreviation (input) SKILL_AREA_SEARCH_MY_SELF :: int where "SKILL_AREA_SEARCH_MY_SELF \<equiv> 3"
abbreviation (input) SKILL_AREA_SEARCH_MY_OWNER :: int where "SKILL_AREA_SEARCH_MY_OWNER \<equiv> 4"
abbreviation (input) SKILL_AREA_CURSOR_1 :: int where "SKILL_AREA_CURSOR_1 \<equiv> 1"
abbreviation (input) SKILL_AREA_CURSOR_2 :: int where "SKILL_AREA_CURSOR_2 \<equiv> 2"
abbreviation (input) SKILL_AREA_CURSOR_3 :: int where "SKILL_AREA_CURSOR_3 \<equiv> 3"
abbreviation (input) SKILL_AREA_CURSOR_4 :: int where "SKILL_AREA_CURSOR_4 \<equiv> 4"
abbreviation (input) SKILL_AREA_CURSOR_5 :: int where "SKILL_AREA_CURSOR_5 \<equiv> 5"
abbreviation (input) SKILL_AREA_CURSOR_6 :: int where "SKILL_AREA_CURSOR_6 \<equiv> 6"
abbreviation (input) SKILL_AREA_CURSOR_ALL :: int where "SKILL_AREA_CURSOR_ALL \<equiv> - 1"
abbreviation (input) SKILL_AREA_SINGLE :: int where "SKILL_AREA_SINGLE \<equiv> 0"
abbreviation (input) SKILL_AREA_FRONT_BACK_TWO :: int where "SKILL_AREA_FRONT_BACK_TWO \<equiv> 1"
abbreviation (input) SKILL_AREA_UP_DOWN_TWO :: int where "SKILL_AREA_UP_DOWN_TWO \<equiv> 2"
abbreviation (input) SKILL_AREA_UP_DOWN_THREE :: int where "SKILL_AREA_UP_DOWN_THREE \<equiv> 3"
abbreviation (input) SKILL_AREA_UP_DOWN_FOUR :: int where "SKILL_AREA_UP_DOWN_FOUR \<equiv> 4"
abbreviation (input) SKILL_AREA_UP_DOWN_FIVE :: int where "SKILL_AREA_UP_DOWN_FIVE \<equiv> 5"
abbreviation (input) SKILL_AREA_TEN :: int where "SKILL_AREA_TEN \<equiv> 6"
abbreviation (input) SKILL_AREA_SQUARE :: int where "SKILL_AREA_SQUARE \<equiv> 7"
abbreviation (input) SKILL_AREA_AROUND_SIX :: int where "SKILL_AREA_AROUND_SIX \<equiv> 8"
abbreviation (input) SKILL_AREA_ALL :: int where "SKILL_AREA_ALL \<equiv> 9"
abbreviation (input) SKILL_AREA_ENEMY_SINGLE :: int where "SKILL_AREA_ENEMY_SINGLE \<equiv> 10"
abbreviation (input) SKILL_AREA_ENEMY_FONT_BACK_TWO :: int where "SKILL_AREA_ENEMY_FONT_BACK_TWO \<equiv> 11"
abbreviation (input) SKILL_AREA_ENEMY_UP_DOWN_TWO :: int where "SKILL_AREA_ENEMY_UP_DOWN_TWO \<equiv> 12"
abbreviation (input) SKILL_AREA_ENEMY_UP_DOWN_THREE :: int where "SKILL_AREA_ENEMY_UP_DOWN_THREE \<equiv> 13"
abbreviation (input) SKILL_AREA_ENEMY_UP_DOWN_FOUR :: int where "SKILL_AREA_ENEMY_UP_DOWN_FOUR \<equiv> 14"
abbreviation (input) SKILL_AREA_ENEMY_UP_DOWN_FIVE :: int where "SKILL_AREA_ENEMY_UP_DOWN_FIVE \<equiv> 15"
abbreviation (input) SKILL_AREA_ENEMY_TEN :: int where "SKILL_AREA_ENEMY_TEN \<equiv> 16"
abbreviation (input) SKILL_AREA_ENEMY_SQUARE :: int where "SKILL_AREA_ENEMY_SQUARE \<equiv> 17"
abbreviation (input) SKILL_AREA_ENEMY_AROUND_SIX :: int where "SKILL_AREA_ENEMY_AROUND_SIX \<equiv> 18"
abbreviation (input) SKILL_AREA_ENEMY_ALL :: int where "SKILL_AREA_ENEMY_ALL \<equiv> 19"
abbreviation (input) SKILL_AREA_ME_SIGHLE :: int where "SKILL_AREA_ME_SIGHLE \<equiv> 20"
abbreviation (input) SKILL_AREA_ME_FONT_BACK_TWO :: int where "SKILL_AREA_ME_FONT_BACK_TWO \<equiv> 21"
abbreviation (input) SKILL_AREA_ME_UP_DOWN_TWO :: int where "SKILL_AREA_ME_UP_DOWN_TWO \<equiv> 22"
abbreviation (input) SKILL_AREA_ME_UP_DOWN_THREE :: int where "SKILL_AREA_ME_UP_DOWN_THREE \<equiv> 23"
abbreviation (input) SKILL_AREA_ME_UP_DOWN_FOUR :: int where "SKILL_AREA_ME_UP_DOWN_FOUR \<equiv> 24"
abbreviation (input) SKILL_AREA_ME_UP_DOWN_FIVE :: int where "SKILL_AREA_ME_UP_DOWN_FIVE \<equiv> 25"
abbreviation (input) SKILL_AREA_ME_TEN :: int where "SKILL_AREA_ME_TEN \<equiv> 26"
abbreviation (input) SKILL_AREA_ME_SQUARE :: int where "SKILL_AREA_ME_SQUARE \<equiv> 27"
abbreviation (input) SKILL_AREA_ME_AROUND_SIX :: int where "SKILL_AREA_ME_AROUND_SIX \<equiv> 28"
abbreviation (input) SKILL_AREA_ME_ALL :: int where "SKILL_AREA_ME_ALL \<equiv> 29"
abbreviation (input) SKILL_AREA_MY_SELF :: int where "SKILL_AREA_MY_SELF \<equiv> 30"
abbreviation (input) SKILL_AREA_ENEMY_HP_LEAST :: int where "SKILL_AREA_ENEMY_HP_LEAST \<equiv> 31"
abbreviation (input) SKILL_AREA_ENEMY_HP_MOST :: int where "SKILL_AREA_ENEMY_HP_MOST \<equiv> 32"
abbreviation (input) SKILL_AREA_ME_HP_LEAST :: int where "SKILL_AREA_ME_HP_LEAST \<equiv> 33"
abbreviation (input) SKILL_AREA_ME_HP_MOST :: int where "SKILL_AREA_ME_HP_MOST \<equiv> 34"
abbreviation (input) SKILL_AREA_MY_OWNER :: int where "SKILL_AREA_MY_OWNER \<equiv> 35"
abbreviation (input) SKILL_AREA_ME_ALL_NO_SELF :: int where "SKILL_AREA_ME_ALL_NO_SELF \<equiv> 36"
abbreviation (input) SKILL_AREA_ALL_NO_SELF :: int where "SKILL_AREA_ALL_NO_SELF \<equiv> 37"
abbreviation (input) SKILL_AREA_PLAYER_AND_PET :: int where "SKILL_AREA_PLAYER_AND_PET \<equiv> 38"

subsection \<open>Skill kinds\<close>

abbreviation (input) SKILL_TYPE_PASSIVE :: int where "SKILL_TYPE_PASSIVE \<equiv> 1"
abbreviation (input) SKILL_TYPE_ROUND :: int where "SKILL_TYPE_ROUND \<equiv> 2"
abbreviation (input) SKILL_TYPE_ACTIVE :: int where "SKILL_TYPE_ACTIVE \<equiv> 3"
abbreviation (input) SKILL_TYPE_FORMATION :: int where "SKILL_TYPE_FORMATION \<equiv> 4"

subsection \<open>Attack types\<close>

abbreviation (input) ATKTYPE_STR :: int where "ATKTYPE_STR \<equiv> 0"
abbreviation (input) ATKTYPE_RANGE_STR :: int where "ATKTYPE_RANGE_STR \<equiv> 1"
abbreviation (input) ATKTYPE_AGI :: int where "ATKTYPE_AGI \<equiv> 2"
abbreviation (input) ATKTYPE_RANGE_AGI :: int where "ATKTYPE_RANGE_AGI \<equiv> 3"
abbreviation (input) ATKTYPE_MAGIC :: int where "ATKTYPE_MAGIC \<equiv> 4"
abbreviation (input) ATKTYPE_CURSE :: int where "ATKTYPE_CURSE \<equiv> 5"
abbreviation (input) ATKTYPE_BLESS :: int where "ATKTYPE_BLESS \<equiv> 6"

subsection \<open>Buffer states\<close>

abbreviation (input) BUFFER_NONE :: int where "BUFFER_NONE \<equiv> 0"
abbreviation (input) BUFFER_POISON :: int where "BUFFER_POISON \<equiv> 1"
abbreviation (input) BUFFER_BURN :: int where "BUFFER_BURN \<equiv> 2"
abbreviation (input) BUFFER_BLOOD :: int where "BUFFER_BLOOD \<equiv> 3"
abbreviation (input) BUFFER_ATTR_DOWN :: int where "BUFFER_ATTR_DOWN \<equiv> 4"
abbreviation (input) BUFFER_BLOCK_TALK :: int where "BUFFER_BLOCK_TALK \<equiv> 5"
abbreviation (input) BUFFER_BLOCK_SKILL :: int where "BUFFER_BLOCK_SKILL \<equiv> 6"
abbreviation (input) BUFFER_SILENCE :: int where "BUFFER_SILENCE \<equiv> 7"
abbreviation (input) BUFFER_STUN :: int where "BUFFER_STUN \<equiv> 8"
abbreviation (input) BUFFER_CHAO :: int where "BUFFER_CHAO \<equiv> 9"
abbreviation (input) BUFFER_WEAK :: int where "BUFFER_WEAK \<equiv> 10"
abbreviation (input) BUFFER_SNEER :: int where "BUFFER_SNEER \<equiv> 31"
abbreviation (input) BUFFER_ATTR_UP :: int where "BUFFER_ATTR_UP \<equiv> 11"
abbreviation (input) BUFFER_ADD_MP :: int where "BUFFER_ADD_MP \<equiv> 12"
abbreviation (input) BUFFER_ADD_HP :: int where "BUFFER_ADD_HP \<equiv> 13"
abbreviation (input) BUFFER_HIDE :: int where "BUFFER_HIDE \<equiv> 14"
abbreviation (input) BUFFER_RESIST_MAGIC :: int where "BUFFER_RESIST_MAGIC \<equiv> 15"
abbreviation (input) BUFFER_RESIST_PHYSIC :: int where "BUFFER_RESIST_PHYSIC \<equiv> 16"
abbreviation (input) BUFFER_RESIST_SILENCE :: int where "BUFFER_RESIST_SILENCE \<equiv> 17"
abbreviation (input) BUFFER_RESIST_STUN :: int where "BUFFER_RESIST_STUN \<equiv> 18"
abbreviation (input) BUFFER_RESIST_CHAO :: int where "BUFFER_RESIST_CHAO \<equiv> 19"
abbreviation (input) BUFFER_RESIST_DEBUFF :: int where "BUFFER_RESIST_DEBUFF \<equiv> 20"
abbreviation (input) BUFFER_INVINCIBLE :: int where "BUFFER_INVINCIBLE \<equiv> 21"
abbreviation (input) BUFFER_RESIST_TALK :: int where "BUFFER_RESIST_TALK \<equiv> 22"
abbreviation (input) BUFFER_RESIST_SKILL :: int where "BUFFER_RESIST_SKILL \<equiv> 23"
abbreviation (input) BUFFER_RESIST_WEAK :: int where "BUFFER_RESIST_WEAK \<equiv> 24"
abbreviation (input) BUFFER_RESIST_SNEER :: int where "BUFFER_RESIST_SNEER \<equiv> 32"
abbreviation (input) BUFFER_TYPE_BUFF :: int where "BUFFER_TYPE_BUFF \<equiv> 25"
abbreviation (input) BUFFER_TYPE_DEBUFF :: int where "BUFFER_TYPE_DEBUFF \<equiv> 26"
abbreviation (input) BUFFER_RESIST_DIE_1HP :: int where "BUFFER_RESIST_DIE_1HP \<equiv> 27"
abbreviation (input) BUFFER_RESIST_DIE_FULLHP :: int where "BUFFER_RESIST_DIE_FULLHP \<equiv> 28"
abbreviation (input) BUFFER_RESIST_DIE_DELAY :: int where "BUFFER_RESIST_DIE_DELAY \<equiv> 29"
abbreviation (input) BUFFER_DIE_CANNOT_RELIVE :: int where "BUFFER_DIE_CANNOT_RELIVE \<equiv> 30"
abbreviation (input) BUFFER_VALUE_MAX :: int where "BUFFER_VALUE_MAX \<equiv> 32"

subsection \<open>Monster AI targets\<close>

abbreviation (input) AI_HATE_MIN :: int where "AI_HATE_MIN \<equiv> 1"
abbreviation (input) AI_HATE_MAX :: int where "AI_HATE_MAX \<equiv> 2"
abbreviation (input) AI_HP_MIN_ENEMY :: int where "AI_HP_MIN_ENEMY \<equiv> 3"
abbreviation (input) AI_HP_MAX_ENEMY :: int where "AI_HP_MAX_ENEMY \<equiv> 4"
abbreviation (input) AI_SPEED_MIN_ENEMY :: int where "AI_SPEED_MIN_ENEMY \<equiv> 5"
abbreviation (input) AI_SPEED_MAX_ENEMY :: int where "AI_SPEED_MAX_ENEMY \<equiv> 6"
abbreviation (input) AI_HP_MIN_FRIEND :: int where "AI_HP_MIN_FRIEND \<equiv> 7"
abbreviation (input) AI_HP_MAX_FRIEND :: int where "AI_HP_MAX_FRIEND \<equiv> 8"
abbreviation (input) AI_SPEED_MIN_FRIEND :: int where "AI_SPEED_MIN_FRIEND \<equiv> 9"
abbreviation (input) AI_SPEED_MAX_FRIEND :: int where "AI_SPEED_MAX_FRIEND \<equiv> 10"
abbreviation (input) AI_RAND_ENEMY :: int where "AI_RAND_ENEMY \<equiv> 11"
abbreviation (input) AI_RAND_FRIEND :: int where "AI_RAND_FRIEND \<equiv> 12"
abbreviation (input) AI_SELF :: int where "AI_SELF \<equiv> 13"
abbreviation (input) AI_RAND_FRIEND_DEAD :: int where "AI_RAND_FRIEND_DEAD \<equiv> 14"
abbreviation (input) AI_RAND_ALL_ALIVE :: int where "AI_RAND_ALL_ALIVE \<equiv> 15"
abbreviation (input) AI_ESCAPE :: int where "AI_ESCAPE \<equiv> 16"

subsection \<open>Item ids\<close>

abbreviation (input) ITEM_ID_PET :: int where "ITEM_ID_PET \<equiv> 24"
abbreviation (input) ITEM_ID_IDENTIFY_SCROLL :: int where "ITEM_ID_IDENTIFY_SCROLL \<equiv> 40000"
abbreviation (input) ITEM_ID_IDENTIFY_SCROLL_BIND :: int where "ITEM_ID_IDENTIFY_SCROLL_BIND \<equiv> 40001"
abbreviation (input) ITEM_ID_COMMAND_BOOK :: int where "ITEM_ID_COMMAND_BOOK \<equiv> 40002"
abbreviation (input) ITEM_ID_PET_RESET :: int where "ITEM_ID_PET_RESET \<equiv> 40004"
abbreviation (input) ITEM_ID_PET_AGE :: int where "ITEM_ID_PET_AGE \<equiv> 40005"
abbreviation (input) ITEM_ID_REPAIR :: int where "ITEM_ID_REPAIR \<equiv> 40008"
abbreviation (input) ITEM_ID_PET_RESET2 :: int where "ITEM_ID_PET_RESET2 \<equiv> 40015"
abbreviation (input) ITEM_ID_CHANGE_NAME :: int where "ITEM_ID_CHANGE_NAME \<equiv> 40016"
abbreviation (input) ITEM_ID_PET_ADD_SKILL :: int where "ITEM_ID_PET_ADD_SKILL \<equiv> 40020"
abbreviation (input) ITEM_ID_CHANGE_SEX :: int where "ITEM_ID_CHANGE_SEX \<equiv> 42000"
abbreviation (input) ITEM_ID_CP_POINT_ADD :: int where "ITEM_ID_CP_POINT_ADD \<equiv> 42001"
abbreviation (input) ITEM_ID_SP_POINT_ADD :: int where "ITEM_ID_SP_POINT_ADD \<equiv> 42002"
abbreviation (input) ITEM_ID_PROSPERITY_DEGREE_POINT_ADD :: int where "ITEM_ID_PROSPERITY_DEGREE_POINT_ADD \<equiv> 42003"
abbreviation (input) ITEM_ID_SKILL_PLAYER :: int where "ITEM_ID_SKILL_PLAYER \<equiv> 42004"
abbreviation (input) ITEM_ID_SKILL_PET :: int where "ITEM_ID_SKILL_PET \<equiv> 42005"
abbreviation (input) ITEM_ID_SKILL_PLAYER_2 :: int where "ITEM_ID_SKILL_PLAYER_2 \<equiv> 42006"
abbreviation (input) ITEM_ID_SKILL_PET_2 :: int where "ITEM_ID_SKILL_PET_2 \<equiv> 42007"
abbreviation (input) ITEM_ID_HIGH_IDENTIFY_SCROLL :: int where "ITEM_ID_HIGH_IDENTIFY_SCROLL \<equiv> 40022"
abbreviation (input) ITEM_ID_HIGH_IDENTIFY_SCROLL_BIND :: int where "ITEM_ID_HIGH_IDENTIFY_SCROLL_BIND \<equiv> 40023"
abbreviation (input) ITEM_ID_UPGRADE_IDENTIFY_SCROLL :: int where "ITEM_ID_UPGRADE_IDENTIFY_SCROLL \<equiv> 40024"
abbreviation (input) ITEM_ID_UPGRAND_IDENTIFY_SCROLL_BIND :: int where "ITEM_ID_UPGRAND_IDENTIFY_SCROLL_BIND \<equiv> 40025"
abbreviation (input) ITEM_ID_UPGRADE_INTENSIFY_SCROLL :: int where "ITEM_ID_UPGRADE_INTENSIFY_SCROLL \<equiv> 40026"
abbreviation (input) ITEM_ID_UPGRAND_INTENSIFY_SCROLL_BIND :: int where "ITEM_ID_UPGRAND_INTENSIFY_SCROLL_BIND \<equiv> 40027"
abbreviation (input) ITEM_ID_PET_EXPERIENCE_BOOK :: int where "ITEM_ID_PET_EXPERIENCE_BOOK \<equiv> 40047"
abbreviation (input) ITEM_ID_PET_EXPERIENCE_BOOK2 :: int where "ITEM_ID_PET_EXPERIENCE_BOOK2 \<equiv> 40043"
abbreviation (input) ITEM_ID_PET_EXPERIENCE_BOOK3 :: int where "ITEM_ID_PET_EXPERIENCE_BOOK3 \<equiv> 40006"
abbreviation (input) ITEM_ID_SKILL_PLAYER_3 :: int where "ITEM_ID_SKILL_PLAYER_3 \<equiv> 42017"
abbreviation (input) ITEM_ID_SKILL_PET_3 :: int where "ITEM_ID_SKILL_PET_3 \<equiv> 42018"
abbreviation (input) ITEM_ID_ADD_BAG_SIZE :: int where "ITEM_ID_ADD_BAG_SIZE \<equiv> 288"

subsection \<open>Result codes\<close>

abbreviation (input) SUCCESS :: int where "SUCCESS \<equiv> 1"
abbreviation (input) BACK_ERROR_DUR :: int where "BACK_ERROR_DUR \<equiv> - 400"
abbreviation (input) BACK_ERROR_NULL_HAND :: int where "BACK_ERROR_NULL_HAND \<equiv> - 401"

section \<open>Skill areas and attack types\<close>

definition getSearchTypeByArea :: "int \<Rightarrow> int" where
  "getSearchTypeByArea t =
     (if t \<ge> SKILL_AREA_ENEMY_SINGLE \<and> t \<le> SKILL_AREA_ENEMY_ALL
         \<or> t = SKILL_AREA_ENEMY_HP_LEAST \<or> t = SKILL_AREA_ENEMY_HP_MOST
      then SKILL_AREA_SEARCH_ENEMY
      else if t \<ge> SKILL_AREA_ME_SIGHLE \<and> t \<le> SKILL_AREA_ME_ALL
         \<or> t = SKILL_AREA_ME_HP_LEAST \<or> t = SKILL_AREA_ME_HP_MOST
         \<or> t = SKILL_AREA_ME_ALL_NO_SELF
      then SKILL_AREA_SEARCH_FRIEND
      else if t = SKILL_AREA_MY_SELF then SKILL_AREA_SEARCH_MY_SELF
      else if t = SKILL_AREA_MY_OWNER then SKILL_AREA_SEARCH_MY_OWNER
      else SKILL_AREA_SEARCH_ALL)"

definition getSkillAreaPlayerNum :: "int \<Rightarrow> int" where
  "getSkillAreaPlayerNum t =
     (if t \<in> set [SKILL_AREA_PLAYER_AND_PET,
        SKILL_AREA_FRONT_BACK_TWO,
        SKILL_AREA_UP_DOWN_TWO,
        SKILL_AREA_ENEMY_FONT_BACK_TWO,
        SKILL_AREA_ENEMY_UP_DOWN_TWO,
        SKILL_AREA_ME_FONT_BACK_TWO,
        SKILL_AREA_ME_UP_DOWN_TWO] then SKILL_AREA_CURSOR_2 else
     (if t \<in> set [SKILL_AREA_UP_DOWN_THREE,
        SKILL_AREA_ENEMY_UP_DOWN_THREE,
        SKILL_AREA_ME_UP_DOWN_THREE] then SKILL_AREA_CURSOR_3 else
     (if t \<in> set [SKILL_AREA_UP_DOWN_FOUR,
        SKILL_AREA_ENEMY_UP_DOWN_FOUR,
        SKILL_AREA_ME_UP_DOWN_FOUR,
        SKILL_AREA_SQUARE,
        SKILL_AREA_ENEMY_SQUARE,
        SKILL_AREA_ME_SQUARE,
        SKILL_AREA_TEN,
        SKILL_AREA_ENEMY_TEN,
        SKILL_AREA_ME_TEN] then SKILL_AREA_CURSOR_4 else
     (if t \<in> set [SKILL_AREA_UP_DOWN_FIVE,
        SKILL_AREA_ENEMY_UP_DOWN_FIVE,
        SKILL_AREA_ME_UP_DOWN_FIVE] then SKILL_AREA_CURSOR_5 else
     (if t \<in> set [SKILL_AREA_AROUND_SIX,
        SKILL_AREA_ENEMY_AROUND_SIX,
        SKILL_AREA_ME_AROUND_SIX] then SKILL_AREA_CURSOR_6 else
     (if t \<in> set [SKILL_AREA_ALL,
        SKILL_AREA_ENEMY_ALL,
        SKILL_AREA_ME_ALL,
        SKILL_AREA_ME_ALL_NO_SELF,
        SKILL_AREA_ALL_NO_SELF] then SKILL_AREA_CURSOR_ALL else
      SKILL_AREA_CURSOR_1))))))"

definition isPhysicalAtkType :: "int \<Rightarrow> bool" where
  "isPhysicalAtkType e = (e \<le> ATKTYPE_RANGE_AGI)"

section \<open>Weapon pairs\<close>

text \<open>The two arguments are the item types held in the left and the right
  hand; a negative number stands for an empty hand.\<close>

definition isNullHand :: "int \<Rightarrow> int \<Rightarrow> bool" where
  "isNullHand e t = (0 > e \<and> 0 > t)"

definition isTwoHand :: "int \<Rightarrow> int \<Rightarrow> bool" where
  "isTwoHand e t = (e > 0 \<and> t > 0)"

definition isNoHeavyTypeWeapon :: "int \<Rightarrow> bool" where
  "isNoHeavyTypeWeapon t =
     (t > 0 \<and> t \<in> set [ITEM_TYPE_WEAPON_ONEHAND_SWORD, ITEM_TYPE_WEAPON_ONEHAND_BLADE,
        ITEM_TYPE_WEAPON_ONEHAND_HEAVY, ITEM_TYPE_WEAPON_ONEHAND_CROSSBOW,
        ITEM_TYPE_WEAPON_ONEHAND_HEAVY, ITEM_TYPE_WEAPON_ONEHAND_GUN,
        ITEM_TYPE_WEAPON_ONEHAND_HAMMER])"

definition isHeavyTypeWeapon :: "int \<Rightarrow> bool" where
  "isHeavyTypeWeapon t =
     (t > 0 \<and> t \<in> set [ITEM_TYPE_WEAPON_TWOHAND_SWORD, ITEM_TYPE_WEAPON_TWOHAND_BLADE,
        ITEM_TYPE_WEAPON_TWOHAND_HEAVY, ITEM_TYPE_WEAPON_TWOHAND_STAFF,
        ITEM_TYPE_WEAPON_TWOHAND_LANCE, ITEM_TYPE_WEAPON_TWOHAND_CROSSBOW,
        ITEM_TYPE_WEAPON_TWOHAND_BOW, ITEM_TYPE_WEAPON_BALL, ITEM_TYPE_WEAPON_TWOHAND_GUN,
        ITEM_TYPE_WEAPON_TWOHAND_HAMMER, ITEM_TYPE_WEAPON_TWOHAND_FAN])"

definition isOneHandWeapon :: "int \<Rightarrow> int \<Rightarrow> bool" where
  "isOneHandWeapon t i =
     (if isNullHand t i then False
      else if isTwoHand t i \<and> t \<noteq> ITEM_TYPE_WEAPON_ONEHAND_HAND
              \<and> i \<noteq> ITEM_TYPE_WEAPON_ONEHAND_HAND then False
      else isNoHeavyTypeWeapon t \<or> isNoHeavyTypeWeapon i)"

definition isValidLance :: "int \<Rightarrow> int \<Rightarrow> bool" where
  "isValidLance t i = (ITEM_TYPE_WEAPON_TWOHAND_LANCE = t \<or> ITEM_TYPE_WEAPON_TWOHAND_LANCE = i)"

definition isValidOneSword :: "int \<Rightarrow> int \<Rightarrow> bool" where
  "isValidOneSword t i = (ITEM_TYPE_WEAPON_ONEHAND_SWORD = t \<or> ITEM_TYPE_WEAPON_ONEHAND_SWORD = i)"

definition isValidTwoSword :: "int \<Rightarrow> int \<Rightarrow> bool" where
  "isValidTwoSword t i = (ITEM_TYPE_WEAPON_TWOHAND_SWORD = t \<or> ITEM_TYPE_WEAPON_TWOHAND_SWORD = i)"

definition isValidOneBlade :: "int \<Rightarrow> int \<Rightarrow> bool" where
  "isValidOneBlade t i = (ITEM_TYPE_WEAPON_ONEHAND_BLADE = t \<or> ITEM_TYPE_WEAPON_ONEHAND_BLADE = i)"

definition isValidTwoBlade :: "int \<Rightarrow> int \<Rightarrow> bool" where
  "isValidTwoBlade t i = (ITEM_TYPE_WEAPON_TWOHAND_BLADE = t \<or> ITEM_TYPE_WEAPON_TWOHAND_BLADE = i)"

definition isValidOneHeavy :: "int \<Rightarrow> int \<Rightarrow> bool" where
  "isValidOneHeavy t i = (ITEM_TYPE_WEAPON_ONEHAND_HEAVY = t \<or> ITEM_TYPE_WEAPON_ONEHAND_HEAVY = i)"

definition isValidTwoHeavy :: "int \<Rightarrow> int \<Rightarrow> bool" where
  "isValidTwoHeavy t i = (ITEM_TYPE_WEAPON_TWOHAND_HEAVY = t \<or> ITEM_TYPE_WEAPON_TWOHAND_HEAVY = i)"

definition isValidOneCrossrow :: "int \<Rightarrow> int \<Rightarrow> bool" where
  "isValidOneCrossrow t i = (ITEM_TYPE_WEAPON_ONEHAND_CROSSBOW = t \<or> ITEM_TYPE_WEAPON_ONEHAND_CROSSBOW = i)"

definition isValidTwoCrossrow :: "int \<Rightarrow> int \<Rightarrow> bool" where
  "isValidTwoCrossrow t i = (ITEM_TYPE_WEAPON_TWOHAND_CROSSBOW = t \<or> ITEM_TYPE_WEAPON_TWOHAND_CROSSBOW = i)"

definition isValidBow :: "int \<Rightarrow> int \<Rightarrow> bool" where
  "isValidBow t i = (ITEM_TYPE_WEAPON_TWOHAND_BOW = t \<or> ITEM_TYPE_WEAPON_TWOHAND_BOW = i)"

definition isValidStaff :: "int \<Rightarrow> int \<Rightarrow> bool" where
  "isValidStaff t i = (ITEM_TYPE_WEAPON_TWOHAND_STAFF = t \<or> ITEM_TYPE_WEAPON_TWOHAND_STAFF = i)"

definition isValidBall :: "int \<Rightarrow> int \<Rightarrow> bool" where
  "isValidBall t i = (ITEM_TYPE_WEAPON_BALL = t \<or> ITEM_TYPE_WEAPON_BALL = i)"

definition isValidOneGun :: "int \<Rightarrow> int \<Rightarrow> bool" where
  "isValidOneGun t i = (ITEM_TYPE_WEAPON_ONEHAND_GUN = t \<or> ITEM_TYPE_WEAPON_ONEHAND_GUN = i)"

definition isValidTwoGun :: "int \<Rightarrow> int \<Rightarrow> bool" where
  "isValidTwoGun t i = (ITEM_TYPE_WEAPON_TWOHAND_GUN = t \<or> ITEM_TYPE_WEAPON_TWOHAND_GUN = i)"

definition isValidOneHammer :: "int \<Rightarrow> int \<Rightarrow> bool" where
  "isValidOneHammer t i = (ITEM_TYPE_WEAPON_ONEHAND_HAMMER = t \<or> ITEM_TYPE_WEAPON_ONEHAND_HAMMER = i)"

definition isValidTwoHammer :: "int \<Rightarrow> int \<Rightarrow> bool" where
  "isValidTwoHammer t i = (ITEM_TYPE_WEAPON_TWOHAND_HAMMER = t \<or> ITEM_TYPE_WEAPON_TWOHAND_HAMMER = i)"

definition isValidTwoFan :: "int \<Rightarrow> int \<Rightarrow> bool" where
  "isValidTwoFan t i = (ITEM_TYPE_WEAPON_TWOHAND_FAN = t \<or> ITEM_TYPE_WEAPON_TWOHAND_FAN = i)"

definition isValidSword :: "int \<Rightarrow> int \<Rightarrow> bool" where
  "isValidSword t i = (isValidOneSword t i \<or> isValidTwoSword t i)"

definition isValidBlade :: "int \<Rightarrow> int \<Rightarrow> bool" where
  "isValidBlade t i = (isValidOneBlade t i \<or> isValidTwoBlade t i)"

definition isValidHeavy :: "int \<Rightarrow> int \<Rightarrow> bool" where
  "isValidHeavy t i = (isValidOneHeavy t i \<or> isValidTwoHeavy t i)"

definition isValidCrossrow :: "int \<Rightarrow> int \<Rightarrow> bool" where
  "isValidCrossrow t i = (isValidOneCrossrow t i \<or> isValidTwoCrossrow t i)"

definition isValidGun :: "int \<Rightarrow> int \<Rightarrow> bool" where
  "isValidGun t i = (isValidOneGun t i \<or> isValidTwoGun t i)"

definition isValidHammer :: "int \<Rightarrow> int \<Rightarrow> bool" where
  "isValidHammer t i = (isValidOneHammer t i \<or> isValidTwoHammer t i)"

definition isValidFan :: "int \<Rightarrow> int \<Rightarrow> bool" where
  "isValidFan t i = isValidTwoFan t i"

section \<open>Buffer states\<close>

text \<open>The shift \<open>1 << t\<close> counts modulo 32, so state 32 has the bit of state 0.\<close>

definition getBufferBitValue :: "int \<Rightarrow> int" where
  "getBufferBitValue t = (if t = BUFFER_NONE then 0 else jshl 1 t)"

definition getBufferType :: "int \<Rightarrow> bool \<Rightarrow> int" where
  "getBufferType t i =
     (if i then
        (if t \<ge> getBufferBitValue BUFFER_POISON \<and> t \<le> getBufferBitValue BUFFER_WEAK
         then BUFFER_TYPE_DEBUFF
         else if t = getBufferBitValue BUFFER_DIE_CANNOT_RELIVE then BUFFER_TYPE_DEBUFF
         else if t = getBufferBitValue BUFFER_SNEER then BUFFER_TYPE_DEBUFF
         else BUFFER_TYPE_BUFF)
      else
        (if t \<ge> BUFFER_POISON \<and> t \<le> BUFFER_WEAK then BUFFER_TYPE_DEBUFF
         else if t = BUFFER_DIE_CANNOT_RELIVE then BUFFER_TYPE_DEBUFF
         else if t = BUFFER_SNEER then BUFFER_TYPE_DEBUFF
         else BUFFER_TYPE_BUFF))"

end
