(* ===== verification/Item.thy ===== *)
theory Item
  imports Complex_Main Define
begin

text \<open>
  Items (module \<open>ItemData\<close> of the bundle): the record of an item, its status
  bits, the predicates that decide how an item may be used, and the attribute
  and power values an equipped item contributes.

  Every number of an item is an integer except the durability, which the code
  scales by a percentage and which is therefore a rational (the client keeps it
  as a double; rounding of that double is not modelled).  Fields that the
  constructor leaves undefined until a server message sets them read as 0, the
  value the guards of the code treat like \<open>undefined\<close>.
\<close>

abbreviation (input) EQUIP_POS_START :: int where "EQUIP_POS_START \<equiv> 0"
abbreviation (input) EQUIP_POS_END :: int where "EQUIP_POS_END \<equiv> 30"
abbreviation (input) MAX_VALUE_short :: int where "MAX_VALUE_short \<equiv> 32767"

abbreviation (input) EQP_DEF_STR :: int where "EQP_DEF_STR \<equiv> 1"
abbreviation (input) EQP_DEF_AGI :: int where "EQP_DEF_AGI \<equiv> 2"
abbreviation (input) EQP_DEF_MAGIC :: int where "EQP_DEF_MAGIC \<equiv> 3"
abbreviation (input) EQP_HITRATE :: int where "EQP_HITRATE \<equiv> 4"
abbreviation (input) EQP_ATK_MIN :: int where "EQP_ATK_MIN \<equiv> 5"
abbreviation (input) EQP_ATK_MAX :: int where "EQP_ATK_MAX \<equiv> 6"
abbreviation (input) EQP_HIT_TIME :: int where "EQP_HIT_TIME \<equiv> 7"
abbreviation (input) EQP_ATK_TYPE :: int where "EQP_ATK_TYPE \<equiv> 8"
abbreviation (input) EQP_ITEM_TYPE :: int where "EQP_ITEM_TYPE \<equiv> 9"
abbreviation (input) EQP_ITEM_SET_ID :: int where "EQP_ITEM_SET_ID \<equiv> 10"

abbreviation (input) CAN_USE_WORLD :: int where "CAN_USE_WORLD \<equiv> 1"
abbreviation (input) CAN_USE_BATTLE :: int where "CAN_USE_BATTLE \<equiv> 2"
abbreviation (input) CAN_USE_ALL :: int where "CAN_USE_ALL \<equiv> 3"

abbreviation (input) STATUS_TIME_ITEM :: int where "STATUS_TIME_ITEM \<equiv> 1"
abbreviation (input) STATUS_BINDED :: int where "STATUS_BINDED \<equiv> 2"
abbreviation (input) STATUS_SHOP_LOCKED :: int where "STATUS_SHOP_LOCKED \<equiv> 4"
abbreviation (input) STATUS_TIME_OUT :: int where "STATUS_TIME_OUT \<equiv> 8"
abbreviation (input) STATUS_CAN_IDENTIFY :: int where "STATUS_CAN_IDENTIFY \<equiv> 16"
abbreviation (input) STATUS_ATTACK_BROKEN :: int where "STATUS_ATTACK_BROKEN \<equiv> 32"
abbreviation (input) STATUS_VIP_TIME_OUT :: int where "STATUS_VIP_TIME_OUT \<equiv> 64"
abbreviation (input) STATUS_SELLING :: int where "STATUS_SELLING \<equiv> 256"
abbreviation (input) STATUS_MAIL_SELECT :: int where "STATUS_MAIL_SELECT \<equiv> 2048"
abbreviation (input) STATUS_INTEGRAL :: int where "STATUS_INTEGRAL \<equiv> 4096"
abbreviation (input) STATUS_ENCHANT :: int where "STATUS_ENCHANT \<equiv> 8192"

abbreviation (input) ITEM_CLASS_WEAPON :: int where "ITEM_CLASS_WEAPON \<equiv> 1"
abbreviation (input) ITEM_CLASS_ARMOR :: int where "ITEM_CLASS_ARMOR \<equiv> 2"
abbreviation (input) ITEM_CLASS_PET :: int where "ITEM_CLASS_PET \<equiv> 3"
abbreviation (input) ITEM_CLASS_USE_ITEM :: int where "ITEM_CLASS_USE_ITEM \<equiv> 4"
abbreviation (input) ITEM_CLASS_QUEST :: int where "ITEM_CLASS_QUEST \<equiv> 5"
abbreviation (input) ITEM_CLASS_GEM :: int where "ITEM_CLASS_GEM \<equiv> 6"
abbreviation (input) ITEM_CLASS_BLOOD_BOTTLE :: int where "ITEM_CLASS_BLOOD_BOTTLE \<equiv> 8"
abbreviation (input) ITEM_CLASS_PET_EQUIP :: int where "ITEM_CLASS_PET_EQUIP \<equiv> 9"
abbreviation (input) ITEM_CLASS_PET_EQUIP_EXP_BOOK :: int where "ITEM_CLASS_PET_EQUIP_EXP_BOOK \<equiv> 10"
abbreviation (input) ITEM_CLASS_SEAL :: int where "ITEM_CLASS_SEAL \<equiv> 12"

abbreviation (input) VIP_ITEM_SIGN_START :: int where "VIP_ITEM_SIGN_START \<equiv> 41000"
abbreviation (input) VIP_TIEM_ITEM_SIGN_START :: int where "VIP_TIEM_ITEM_SIGN_START \<equiv> 41008"

section \<open>The item record\<close>

text \<open>The base part holds what the bag handles, the extension what the
  attribute computations read.\<close>

record item_base =
  item_id :: int
  name :: string
  item_type :: int
  grade :: int
  quantity :: int
  stackNum :: int
  slotPos :: int
  durability :: rat
  durMax :: int
  status :: int
  expireTime :: int
  autoBinding :: int
  vipLevelReq :: int
  showNewSign :: bool

record item_power =
  power1 :: int
  powerValue1 :: int
  power2 :: int
  powerValue2 :: int
  power3 :: int
  powerValue3 :: int
  bindPower1 :: int
  bindPowerValue1 :: int
  bindPower2 :: int
  bindPowerValue2 :: int
  power4 :: int
  powerValue4 :: int
  power5 :: int
  powerValue5 :: int
  power6 :: int
  powerValue6 :: int
  power7 :: int
  powerValue7 :: int

record item = item_base +
  powers :: item_power
  ascensionStar :: int
  star :: int
  upgradeAscensionStar :: int
  upgradeStar :: int
  attachDone :: int
  attachPower :: int
  attachValue :: int
  attachCount :: int
  enchantPower1 :: int
  enchantPowerValue1 :: int
  enchantPower2 :: int
  enchantPowerValue2 :: int
  cssLeftHasItem :: bool
  cssRightHasItem :: bool
  cssLeftItemPower :: "(int \<times> int) list"
  cssRightItemPower :: "(int \<times> int) list"
  atkType :: int
  atk_time :: int
  atkMin :: int
  atkMax :: int
  def_str :: int
  def_agi :: int
  def_mag :: int
  hitrate :: int
  itemSet :: int
  item_area :: int
  item_round :: int
  reqLv :: int
  reqStr :: int
  reqCon :: int
  reqAgi :: int
  reqIlt :: int
  reqWis :: int

section \<open>Status bits\<close>

definition hasStatus :: "int \<Rightarrow> item \<Rightarrow> bool" where
  "hasStatus b m = (jand (status m) b > 0)"

definition isStatusBit :: "int \<Rightarrow> item \<Rightarrow> bool" where
  "isStatusBit b m = (jand (status m) b \<noteq> 0)"

definition setStatusBit :: "bool \<Rightarrow> int \<Rightarrow> item \<Rightarrow> item" where
  "setStatusBit e t m =
     (if e then m\<lparr>status := jor (status m) t\<rparr> else m\<lparr>status := jand (status m) (jnot t)\<rparr>)"

definition isAutoBinding :: "item \<Rightarrow> bool" where
  "isAutoBinding m = (autoBinding m \<noteq> 0)"

definition isBinded :: "item \<Rightarrow> bool" where
  "isBinded m = (if isAutoBinding m then True else hasStatus STATUS_BINDED m)"

definition setBinded :: "item \<Rightarrow> item" where
  "setBinded m = m\<lparr>status := jor (status m) STATUS_BINDED\<rparr>"

definition isShopLocked :: "item \<Rightarrow> bool" where
  "isShopLocked = hasStatus STATUS_SHOP_LOCKED"

definition setShopLocked :: "bool \<Rightarrow> item \<Rightarrow> item" where
  "setShopLocked e = setStatusBit e STATUS_SHOP_LOCKED"

definition isSelling :: "item \<Rightarrow> bool" where
  "isSelling = hasStatus STATUS_SELLING"

definition setSelling :: "bool \<Rightarrow> item \<Rightarrow> item" where
  "setSelling e = setStatusBit e STATUS_SELLING"

definition isMailSelect :: "item \<Rightarrow> bool" where
  "isMailSelect = hasStatus STATUS_MAIL_SELECT"

definition setMailSelect :: "bool \<Rightarrow> item \<Rightarrow> item" where
  "setMailSelect e = setStatusBit e STATUS_MAIL_SELECT"

definition isIntegral :: "item \<Rightarrow> bool" where
  "isIntegral = hasStatus STATUS_INTEGRAL"

definition setIntegral :: "bool \<Rightarrow> item \<Rightarrow> item" where
  "setIntegral e = setStatusBit e STATUS_INTEGRAL"

definition isEnchant :: "item \<Rightarrow> bool" where
  "isEnchant = hasStatus STATUS_ENCHANT"

definition setEnchant :: "bool \<Rightarrow> item \<Rightarrow> item" where
  "setEnchant e = setStatusBit e STATUS_ENCHANT"

definition isIdentifyItem :: "item \<Rightarrow> bool" where
  "isIdentifyItem = hasStatus STATUS_CAN_IDENTIFY"

definition isTimeItem :: "item \<Rightarrow> bool" where
  "isTimeItem = hasStatus STATUS_TIME_ITEM"

definition isTimeItemTimeOut :: "item \<Rightarrow> bool" where
  "isTimeItemTimeOut = hasStatus STATUS_TIME_OUT"

definition isVipItemTimeOut :: "item \<Rightarrow> bool" where
  "isVipItemTimeOut = hasStatus STATUS_VIP_TIME_OUT"

definition isNotOperate :: "item \<Rightarrow> bool" where
  "isNotOperate m = (isShopLocked m \<or> isSelling m)"

text \<open>Expiry: \<open>now\<close> is the server time the client keeps.\<close>

definition isExpired :: "int \<Rightarrow> item \<Rightarrow> bool" where
  "isExpired now m =
     (if expireTime m \<le> 0 then False else if expireTime m - now > 0 then False else True)"

definition checkTimeItem :: "int \<Rightarrow> item \<Rightarrow> item" where
  "checkTimeItem now m =
     (if isExpired now m then m\<lparr>status := jor (status m) STATUS_TIME_OUT\<rparr>
      else m\<lparr>status := jand (status m) (jnot STATUS_TIME_OUT)\<rparr>)"

definition setExpireTime :: "int \<Rightarrow> int \<Rightarrow> item \<Rightarrow> item" where
  "setExpireTime now e m = checkTimeItem now (m\<lparr>expireTime := now + 1 * e * 60000\<rparr>)"

section \<open>Kinds of items\<close>

definition getIsItemPetEquip :: "item \<Rightarrow> bool" where
  "getIsItemPetEquip m = (item_type m = ITEM_TYPE_PET_EQUIP)"

definition getItemClass :: "item \<Rightarrow> int" where
  "getItemClass m =
     (if item_type m = ITEM_TYPE_PET then ITEM_CLASS_PET
      else if item_type m = ITEM_TYPE_GEM then ITEM_CLASS_GEM
      else if item_type m = ITEM_TYPE_TASK \<or> item_type m = ITEM_TYPE_BUILD_MATERIAL
              \<or> item_type m = ITEM_TYPE_SPECEAIL then ITEM_CLASS_QUEST
      else if item_type m \<ge> ITEM_TYPE_WEAPON_ONEHAND_SWORD
              \<and> item_type m \<le> ITEM_TYPE_WEAPON_ONEHAND_HAND
              \<or> item_type m \<ge> ITEM_TYPE_WEAPON_BALL
              \<and> item_type m \<le> ITEM_TYPE_WEAPON_TWOHAND_FAN then ITEM_CLASS_WEAPON
      else if item_type m \<ge> ITEM_TYPE_BATTLE_USE \<and> item_type m \<le> ITEM_TYPE_NOT_BATTLE_USE
              \<or> item_type m = ITEM_TYPE_SKILL_BOOK then ITEM_CLASS_USE_ITEM
      else if item_type m = ITEM_TYPE_BLOOD_BOTTLE then ITEM_CLASS_BLOOD_BOTTLE
      else if getIsItemPetEquip m then ITEM_CLASS_PET_EQUIP
      else if item_type m = ITEM_TYPE_PET_EQUIP_EXP_BOOK then ITEM_CLASS_PET_EQUIP_EXP_BOOK
      else if item_type m = ITEM_TYPE_SEAL then ITEM_CLASS_SEAL
      else ITEM_CLASS_ARMOR)"

text \<open>The tab of the bag window an item is shown in: 0 weapons and armour,
  1 props, 2 materials, 3 pets; \<open>None\<close> for a type the switch does not list.\<close>

definition getItemType :: "item \<Rightarrow> int option" where
  "getItemType m =
     (if item_type m \<in> set [ITEM_TYPE_WEAPON_ONEHAND_SWORD, ITEM_TYPE_WEAPON_TWOHAND_SWORD,
        ITEM_TYPE_WEAPON_ONEHAND_BLADE, ITEM_TYPE_WEAPON_TWOHAND_BLADE,
        ITEM_TYPE_WEAPON_ONEHAND_HEAVY, ITEM_TYPE_WEAPON_TWOHAND_HEAVY,
        ITEM_TYPE_WEAPON_TWOHAND_STAFF, ITEM_TYPE_WEAPON_TWOHAND_LANCE,
        ITEM_TYPE_WEAPON_ONEHAND_CROSSBOW, ITEM_TYPE_WEAPON_TWOHAND_CROSSBOW,
        ITEM_TYPE_WEAPON_TWOHAND_BOW, ITEM_TYPE_WEAPON_ONEHAND_HAND, ITEM_TYPE_WEAPON_BALL,
        ITEM_TYPE_WEAPON_ONEHAND_GUN, ITEM_TYPE_WEAPON_TWOHAND_GUN,
        ITEM_TYPE_WEAPON_ONEHAND_HAMMER, ITEM_TYPE_WEAPON_TWOHAND_HAMMER,
        ITEM_TYPE_WEAPON_TWOHAND_FAN, ITEM_TYPE_ARMOR_HEAD, ITEM_TYPE_ARMOR_CLOTHES,
        ITEM_TYPE_ARMOR_TROUSERS, ITEM_TYPE_ARMOR_SHOULDER, ITEM_TYPE_ARMOR_WAIST,
        ITEM_TYPE_ARMOR_BACK, ITEM_TYPE_ARMOR_SHOES, ITEM_TYPE_ARMOR_HAND,
        ITEM_TYPE_ARMOR_TRANSPORT, ITEM_TYPE_ARMOR_NECKLACE, ITEM_TYPE_ARMOR_RING,
        ITEM_TYPE_ARMOR_AMULET, ITEM_TYPE_ARMOR_FASHION] then Some 0
      else if item_type m \<in> set [ITEM_TYPE_BATTLE_USE, ITEM_TYPE_ANYTIME_USE,
        ITEM_TYPE_NOT_BATTLE_USE, ITEM_TYPE_SKILL_BOOK, ITEM_TYPE_SPECEAIL,
        ITEM_TYPE_BLOOD_BOTTLE, ITEM_TYPE_SEAL] then Some 1
      else if item_type m \<in> set [ITEM_TYPE_TASK, ITEM_TYPE_BUILD_MATERIAL, ITEM_TYPE_GEM]
      then Some 2
      else if item_type m \<in> set [ITEM_TYPE_PET_EQUIP, ITEM_TYPE_PET_EQUIP_EXP_BOOK,
        ITEM_TYPE_PET] then Some 3
      else None)"

definition isCanEquip :: "item \<Rightarrow> bool" where
  "isCanEquip m =
     (item_type m \<ge> ITEM_TYPE_ARMOR_HEAD \<and> item_type m \<le> ITEM_TYPE_WEAPON_ONEHAND_HAND
      \<or> item_type m = ITEM_TYPE_PET
      \<or> item_type m \<ge> ITEM_TYPE_WEAPON_BALL \<and> item_type m \<le> ITEM_TYPE_WEAPON_TWOHAND_GUN
      \<or> item_type m = ITEM_TYPE_BLOOD_BOTTLE \<or> item_type m = ITEM_TYPE_PET_EQUIP)"

definition isEquipClass :: "item \<Rightarrow> bool" where
  "isEquipClass m =
     (getItemClass m = ITEM_CLASS_ARMOR \<or> getItemClass m = ITEM_CLASS_WEAPON)"

text \<open>A pet's equipment is worn when its slot position is negative
  (\<open>Pet.isEquited\<close>).\<close>

definition pet_isEquited :: "item \<Rightarrow> bool" where
  "pet_isEquited m = (if slotPos m \<ge> 0 then False else True)"

definition isEquited :: "item \<Rightarrow> bool" where
  "isEquited m =
     (if slotPos m \<ge> EQUIP_POS_START \<and> slotPos m < EQUIP_POS_END then True
      else if getIsItemPetEquip m then pet_isEquited m else False)"

definition isCanAttach :: "item \<Rightarrow> bool" where
  "isCanAttach m = (attachCount m > 0)"

definition isStackable :: "item \<Rightarrow> bool" where
  "isStackable m =
     (if isTimeItem m then False else if isShopLocked m then False else stackNum m > 1)"

definition isVipItem :: "item \<Rightarrow> bool" where
  "isVipItem m = (vipLevelReq m > 0)"

definition isDestroy :: "item \<Rightarrow> bool" where
  "isDestroy m = (durability m \<le> 0)"

definition isWillDestroy :: "item \<Rightarrow> bool" where
  "isWillDestroy m = (durability m < 10)"

definition isAttackBroken :: "item \<Rightarrow> bool" where
  "isAttackBroken = hasStatus STATUS_ATTACK_BROKEN"

definition isCountryBook :: "item \<Rightarrow> bool" where
  "isCountryBook m = (item_id m = ITEM_ID_COMMAND_BOOK)"

definition isChangeNameItem :: "item \<Rightarrow> bool" where
  "isChangeNameItem m = (item_id m = ITEM_ID_CHANGE_NAME)"

definition isRepairItem :: "item \<Rightarrow> bool" where
  "isRepairItem m = (item_id m = ITEM_ID_REPAIR)"

definition isPetExpBook :: "item \<Rightarrow> bool" where
  "isPetExpBook m = (item_id m = ITEM_ID_PET_EXPERIENCE_BOOK
      \<or> item_id m = ITEM_ID_PET_EXPERIENCE_BOOK2
      \<or> item_id m = ITEM_ID_PET_EXPERIENCE_BOOK3)"

definition isPetAddSkill :: "item \<Rightarrow> bool" where
  "isPetAddSkill m = (item_id m = ITEM_ID_PET_ADD_SKILL)"

definition isPetReset1 :: "item \<Rightarrow> bool" where
  "isPetReset1 m = (item_id m = ITEM_ID_PET_RESET)"

definition isPetReset2 :: "item \<Rightarrow> bool" where
  "isPetReset2 m = (item_id m = ITEM_ID_PET_RESET2)"

definition isPetAgeItem :: "item \<Rightarrow> bool" where
  "isPetAgeItem m = (item_id m = ITEM_ID_PET_AGE)"

definition isPetResetItem :: "item \<Rightarrow> bool" where
  "isPetResetItem m = (item_id m = ITEM_ID_PET_RESET
      \<or> item_id m = ITEM_ID_PET_RESET2)"

definition isIdentifyScrollItem :: "item \<Rightarrow> bool" where
  "isIdentifyScrollItem m = (item_id m = ITEM_ID_IDENTIFY_SCROLL
      \<or> item_id m = ITEM_ID_IDENTIFY_SCROLL_BIND)"

definition isHighIdentifyScrollItem :: "item \<Rightarrow> bool" where
  "isHighIdentifyScrollItem m = (item_id m = ITEM_ID_HIGH_IDENTIFY_SCROLL
      \<or> item_id m = ITEM_ID_HIGH_IDENTIFY_SCROLL_BIND)"

definition isUpgradeIdentifyScrollItem :: "item \<Rightarrow> bool" where
  "isUpgradeIdentifyScrollItem m = (item_id m = ITEM_ID_UPGRADE_IDENTIFY_SCROLL
      \<or> item_id m = ITEM_ID_UPGRAND_IDENTIFY_SCROLL_BIND)"

definition isUpgradeIntensifyScroll :: "item \<Rightarrow> bool" where
  "isUpgradeIntensifyScroll m = (item_id m = ITEM_ID_UPGRADE_INTENSIFY_SCROLL
      \<or> item_id m = ITEM_ID_UPGRAND_INTENSIFY_SCROLL_BIND)"

definition isAddBagSizeItem :: "item \<Rightarrow> bool" where
  "isAddBagSizeItem m = (item_id m = ITEM_ID_ADD_BAG_SIZE)"

definition isChangeSexItem :: "item \<Rightarrow> bool" where
  "isChangeSexItem m = (item_id m = ITEM_ID_CHANGE_SEX)"

definition isCpPointAddItem :: "item \<Rightarrow> bool" where
  "isCpPointAddItem m = (item_id m = ITEM_ID_CP_POINT_ADD)"

definition isSkillPlayerItem :: "item \<Rightarrow> bool" where
  "isSkillPlayerItem m = (item_id m = ITEM_ID_SKILL_PLAYER
      \<or> item_id m = ITEM_ID_SKILL_PLAYER_2
      \<or> item_id m = ITEM_ID_SKILL_PLAYER_3)"

definition isSkillPetItem :: "item \<Rightarrow> bool" where
  "isSkillPetItem m = (item_id m = ITEM_ID_SKILL_PET
      \<or> item_id m = ITEM_ID_SKILL_PET_2
      \<or> item_id m = ITEM_ID_SKILL_PET_3)"

definition isSpPointAddItem :: "item \<Rightarrow> bool" where
  "isSpPointAddItem m = (item_id m = ITEM_ID_SP_POINT_ADD)"

definition isProsperityDegreePointAddItem :: "item \<Rightarrow> bool" where
  "isProsperityDegreePointAddItem m = (item_id m = ITEM_ID_PROSPERITY_DEGREE_POINT_ADD)"

definition isPetEgg :: "item \<Rightarrow> bool" where
  "isPetEgg m = (power1 (powers m) = POWER_PET_EGG)"

definition isOpenStoreItem :: "item \<Rightarrow> bool" where
  "isOpenStoreItem m = (power1 (powers m) = POWER_OPEN_STORE)"

definition isPetSealSkillBook :: "item \<Rightarrow> bool" where
  "isPetSealSkillBook m = (power1 (powers m) = POWER_SKILL_BOOK_PET)"

definition isPetExpItem :: "item \<Rightarrow> bool" where
  "isPetExpItem m = (power1 (powers m) = POWER_PET_ADD_EXP)"

definition isTitleItem :: "item \<Rightarrow> bool" where
  "isTitleItem m = (power1 (powers m) = POWER_POWER_TITLE)"

definition isPlayerExpItem :: "item \<Rightarrow> bool" where
  "isPlayerExpItem m = (power1 (powers m) = POWER_ADD_EXP)"

definition isChestItem :: "item \<Rightarrow> bool" where
  "isChestItem m = (power1 (powers m) = POWER_CHEST_LV1
      \<or> power1 (powers m) = POWER_CHEST_LV2
      \<or> power1 (powers m) = POWER_CHEST_LV3
      \<or> power1 (powers m) = POWER_CHEST_LV4
      \<or> power1 (powers m) = POWER_COLOR_BOX)"

definition isColorBox :: "item \<Rightarrow> bool" where
  "isColorBox m = (power1 (powers m) = POWER_COLOR_BOX)"

definition isPetSkillBook :: "item \<Rightarrow> bool" where
  "isPetSkillBook m = (item_type m = ITEM_TYPE_SKILL_BOOK \<and> power1 (powers m) = POWER_SKILL_SCROLL_PET)"

definition isPetCanUseItem :: "item \<Rightarrow> bool" where
  "isPetCanUseItem m = (isPetAgeItem m \<or> isPetResetItem m \<or> isPetExpItem m \<or> isPetAddSkill m
      \<or> isPetSkillBook m \<or> isSkillPetItem m \<or> isPetSealSkillBook m)"

definition isPetCanUseItem2 :: "item \<Rightarrow> bool" where
  "isPetCanUseItem2 m = (isPetAgeItem m \<or> isPetExpItem m \<or> isPetSkillBook m \<or> isSkillPetItem m
      \<or> isPetSealSkillBook m)"

definition isCanUseByOneKeyItem :: "item \<Rightarrow> bool" where
  "isCanUseByOneKeyItem m = (isPetExpItem m \<or> isCountryBook m \<or> isPlayerExpItem m)"

definition isVipTimeItem :: "item \<Rightarrow> bool" where
  "isVipTimeItem m = (VIP_ITEM_SIGN_START \<le> item_id m \<and> item_id m \<le> VIP_TIEM_ITEM_SIGN_START)"

definition isCanUse :: "item \<Rightarrow> int \<Rightarrow> bool" where
  "isCanUse m t =
     (if t = CAN_USE_WORLD then
        item_type m \<in> set [ITEM_TYPE_ANYTIME_USE, ITEM_TYPE_NOT_BATTLE_USE, ITEM_TYPE_SKILL_BOOK]
      else if t = CAN_USE_BATTLE then
        item_type m \<in> set [ITEM_TYPE_ANYTIME_USE, ITEM_TYPE_BATTLE_USE]
      else t = CAN_USE_ALL)"

definition isRebornItem :: "item \<Rightarrow> bool" where
  "isRebornItem m =
     (if power1 (powers m) = POWER_RECOVER \<or> power1 (powers m) = POWER_RECOVER_PERCENT then True
      else power2 (powers m) = POWER_RECOVER \<or> power2 (powers m) = POWER_RECOVER_PERCENT)"

definition isReplaceInlayGem :: "int \<Rightarrow> bool" where
  "isReplaceInlayGem e = (e \<in> set [POWER_STR, POWER_CON, POWER_AGI, POWER_ILT, POWER_WIS])"

text \<open>The powers whose value the ascension stars do not raise.\<close>

definition isAscension :: "int \<Rightarrow> bool" where
  "isAscension e =
     (e \<notin> set [
        POWER_RECOVER, POWER_SKILL_DAMAGE, POWER_SKILL_HITRATE, POWER_SELF_CRITICAL,
        POWER_SKILL_HIT_FORCE, POWER_SKILL_MAGIC_PENETRATION, POWER_SKILL_BRK_ARMOR,
        POWER_SKILL_REMOVE_STATUS, POWER_PET_DAMAGE, POWER_PET_HPMAX_PERCENT,
        POWER_PET_MPMAX_PERCENT, POWER_PET_STR_PERCENT, POWER_PET_CON_PERCENT,
        POWER_PET_AGI_PERCENT, POWER_PET_ILT_PERCENT, POWER_PET_WIS_PERCENT,
        POWER_RECOVER_PERCENT, POWER_OPEN_STORE, POWER_CHEST_LV1, POWER_CHEST_LV2,
        POWER_CHEST_LV3, POWER_COLOR_BOX, POWER_REQ_SLOT, POWER_TO_WORLDMAP,
        POWER_TO_GXGY, POWER_EXPIRE_TIME, POWER_RESET_MISSION, POWER_CHEST_KEY_LEVEL,
        POWER_PET_EGG, POWER_COSTUME, POWER_TRANSPORT, POWER_POWER_TITLE,
        POWER_GUARD_STR_ATTACK, POWER_GUARD_AGI_ATTACK, POWER_GUARD_MAGIC_ATTACK,
        POWER_GUARD_CURSE_ATTACK, POWER_GUARD_ALL_ATTACK, POWER_PET_ADD_EXP,
        POWER_ADD_EXP, POWER_IDENTIFY, POWER_COMPOSITE, POWER_SKILL_HP,
        POWER_SKILL_HP_PERCENT, POWER_SKILL_MP, POWER_SKILL_MP_PERCENT,
        POWER_SKILL_LIFE_ABSORPTION, POWER_SKILL_MANA_ABSORPTION,
        POWER_SKILL_TARGET_BACK, POWER_SKILL_TARGET_MAGIC_BACK,
        POWER_SKILL_TARGET_BLOCK, POWER_SKILL_TARGET_INSIGHT, POWER_SKILL_TARGET_WIL,
        POWER_SKILL_TARGET_TOUCH, POWER_GRARD_MASTER_STR_ATTACK,
        POWER_GRARD_MASTER_AGI_ATTACK, POWER_GRARD_MASTER_MAGIC_ATTACK,
        POWER_GRARD_MASTER_CURSE_ATTACK, POWER_GRARD_MASTER_ALL_ATTACK,
        POWER_PET_GRARD_STR_ATTACK, POWER_PET_GRARD_AGI_ATTACK,
        POWER_PET_GRARD_MAGIC_ATTACK, POWER_PET_GRARD_CURSE_ATTACK,
        POWER_PET_GRARD_ALL_ATTACK, POWER_SKILL_SCROLL, POWER_SKILL_SCROLL_PET,
        POWER_NEW_GET_PET, POWER_NEW_GET_ITEM, POWER_ENCHANT_ITEM,
        POWER_FORMATION_BOOK, POWER_CHEST_LV4, POWER_TURN_MONSTER_CARD,
        POWER_SKILL_BOOK_PET])"

definition setAttackBroken :: "bool \<Rightarrow> item \<Rightarrow> item" where
  "setAttackBroken t m =
     (let m' = m\<lparr>status := jand (status m) (jnot STATUS_ATTACK_BROKEN)\<rparr>
      in if t then m'\<lparr>status := jor (status m') STATUS_ATTACK_BROKEN\<rparr> else m')"

section \<open>Attributes and powers of an item\<close>

definition getItemSetID :: "item \<Rightarrow> int" where
  "getItemSetID m = jand 255 (itemSet m)"

definition getItemHitRate :: "item \<Rightarrow> int" where
  "getItemHitRate m = jand 255 (hitrate m)"

text \<open>Equipment that is broken or has expired contributes nothing; a pet's
  equipment does not wear.  These are the three early returns \<open>get\<close> and
  \<open>getPowerValue\<close> share.\<close>

definition isIneffective :: "item \<Rightarrow> bool" where
  "isIneffective m =
     (\<not> getIsItemPetEquip m \<and> durability m \<le> 0
      \<or> \<not> getIsItemPetEquip m \<and> isTimeItem m \<and> isTimeItemTimeOut m
      \<or> \<not> getIsItemPetEquip m \<and> isVipItem m \<and> isVipItemTimeOut m)"

definition item_get :: "item \<Rightarrow> int \<Rightarrow> int" where
  "item_get m t =
     (if t = EQP_ITEM_TYPE then (if durability m > 0 then item_type m else BACK_ERROR_DUR)
      else if isIneffective m then 0
      else if t = EQP_ATK_MIN then atkMin m
      else if t = EQP_ATK_MAX then atkMax m
      else if t = EQP_HIT_TIME then
        (if item_type m = ITEM_TYPE_WEAPON_ONEHAND_HAND then - 1 else atk_time m)
      else if t = EQP_ATK_TYPE then
        (if item_type m = ITEM_TYPE_WEAPON_ONEHAND_HAND then - 1 else atkType m)
      else if t = EQP_DEF_STR then def_str m
      else if t = EQP_DEF_AGI then def_agi m
      else if t = EQP_DEF_MAGIC then def_mag m
      else if t = EQP_HITRATE then getItemHitRate m
      else if t = EQP_ITEM_SET_ID then getItemSetID m
      else 0)"

text \<open>The star bonus: \<open>|v| * ascension * star\<close> percent, rounded half up, added
  to \<open>v\<close> and capped at the largest 16-bit value.\<close>

definition getpowerValueAdd :: "int \<Rightarrow> int \<Rightarrow> int \<Rightarrow> bool \<Rightarrow> bool \<Rightarrow> int" where
  "getpowerValueAdd v asc st bound ok =
     (if \<not> bound \<or> \<not> ok then v
      else if asc \<le> 0 then v
      else if st \<le> 0 then v
      else let a = (if 0 > v then - v else v);
               r = jdiv (a * asc * st + 50) 100;
               r' = (if r + v > MAX_VALUE_short then MAX_VALUE_short else r + v)
           in toInt32 r')"

definition getPower1AndPower2 :: "item \<Rightarrow> int \<Rightarrow> int" where
  "getPower1AndPower2 m t =
     (if power1 (powers m) = t then getpowerValueAdd (powerValue1 (powers m)) (ascensionStar m) (star m) (isBinded m)
        (isAscension (power1 (powers m))) else 0)
      + (if power2 (powers m) = t then getpowerValueAdd (powerValue2 (powers m)) (ascensionStar m) (star m) (isBinded m)
        (isAscension (power2 (powers m))) else 0)
      + (if power3 (powers m) = t then getpowerValueAdd (powerValue3 (powers m)) (ascensionStar m) (star m) (isBinded m)
        (isAscension (power3 (powers m))) else 0)"

text \<open>The two sockets hold a table from powers to values; a missing entry
  counts 0.\<close>

definition socketPower :: "bool \<Rightarrow> (int \<times> int) list \<Rightarrow> int \<Rightarrow> int" where
  "socketPower has tab t =
     (if has then (case map_of tab t of Some v \<Rightarrow> v | None \<Rightarrow> 0) else 0)"

definition bindPowerPart :: "item \<Rightarrow> int \<Rightarrow> int" where
  "bindPowerPart m t =
     (if isBinded m then
        (if bindPower1 (powers m) = t then getpowerValueAdd (bindPowerValue1 (powers m)) (ascensionStar m) (star m) (isBinded m)
        (isAscension (bindPower1 (powers m))) else 0)
      + (if bindPower2 (powers m) = t then getpowerValueAdd (bindPowerValue2 (powers m)) (ascensionStar m) (star m) (isBinded m)
        (isAscension (bindPower2 (powers m))) else 0)
      else 0)"

text \<open>The four powers of an upgraded item: a pet's equipment adds them as they
  are, other equipment only when bound and the upgrade system is open.\<close>

definition upgradePowerPart :: "bool \<Rightarrow> item \<Rightarrow> int \<Rightarrow> int" where
  "upgradePowerPart upgradeOpen m t =
     (if getIsItemPetEquip m then
        (if power4 (powers m) = t then powerValue4 (powers m) else 0)
      + (if power5 (powers m) = t then powerValue5 (powers m) else 0)
      + (if power6 (powers m) = t then powerValue6 (powers m) else 0)
      + (if power7 (powers m) = t then powerValue7 (powers m) else 0)
      else if isBinded m \<and> upgradeOpen then
        (if power4 (powers m) = t then getpowerValueAdd (powerValue4 (powers m)) (upgradeAscensionStar m) (upgradeStar m) (isBinded m)
        (isAscension (power4 (powers m))) else 0)
      + (if power5 (powers m) = t then getpowerValueAdd (powerValue5 (powers m)) (upgradeAscensionStar m) (upgradeStar m) (isBinded m)
        (isAscension (power5 (powers m))) else 0)
      + (if power6 (powers m) = t then getpowerValueAdd (powerValue6 (powers m)) (upgradeAscensionStar m) (upgradeStar m) (isBinded m)
        (isAscension (power6 (powers m))) else 0)
      + (if power7 (powers m) = t then getpowerValueAdd (powerValue7 (powers m)) (upgradeAscensionStar m) (upgradeStar m) (isBinded m)
        (isAscension (power7 (powers m))) else 0)
      else 0)"

definition item_getPowerValue :: "bool \<Rightarrow> item \<Rightarrow> int \<Rightarrow> int" where
  "item_getPowerValue upgradeOpen m t =
     (if isIneffective m then 0
      else getPower1AndPower2 m t + bindPowerPart m t
         + (if attachPower m = t then attachValue m else 0)
         + (if enchantPower1 m = t then enchantPowerValue1 m else 0)
         + (if enchantPower2 m = t then enchantPowerValue2 m else 0)
         + socketPower (cssLeftHasItem m) (cssLeftItemPower m) t
         + socketPower (cssRightHasItem m) (cssRightItemPower m) t
         + upgradePowerPart upgradeOpen m t)"

definition isHasPower :: "item \<Rightarrow> bool" where
  "isHasPower m =
     (let p = powers m in
      power1 p \<noteq> 0 \<and> powerValue1 p \<noteq> 0 \<or> power2 p \<noteq> 0 \<and> powerValue2 p \<noteq> 0
      \<or> power3 p \<noteq> 0 \<and> powerValue3 p \<noteq> 0 \<or> bindPower1 p \<noteq> 0 \<and> bindPowerValue1 p \<noteq> 0
      \<or> bindPower2 p \<noteq> 0 \<and> bindPowerValue2 p \<noteq> 0)"

section \<open>Copying an item\<close>

text \<open>\<open>setItemDataTo\<close> copies the fixed data and starts the copy at full
  durability; \<open>setVarItemDataTo\<close> copies what changes while the item is owned.\<close>

definition setItemDataTo :: "item \<Rightarrow> item \<Rightarrow> item" where
  "setItemDataTo m e =
     m\<lparr>durability := of_int (durMax m), quantity := quantity e, slotPos := slotPos e,
       status := status e, expireTime := expireTime e, showNewSign := showNewSign e\<rparr>"

definition setVarItemDataTo :: "item \<Rightarrow> item \<Rightarrow> item" where
  "setVarItemDataTo m e =
     e\<lparr>quantity := quantity m, durability := durability m, attachDone := attachDone m,
       attachPower := attachPower m, attachValue := attachValue m, slotPos := slotPos m,
       status := status m, expireTime := expireTime m\<rparr>"

text \<open>A fresh item, as the constructor makes it.\<close>

definition no_powers :: item_power where
  "no_powers = \<lparr>power1 = 0, powerValue1 = 0, power2 = 0, powerValue2 = 0, power3 = 0,
     powerValue3 = 0, bindPower1 = 0, bindPowerValue1 = 0, bindPower2 = 0,
     bindPowerValue2 = 0, power4 = 0, powerValue4 = 0, power5 = 0, powerValue5 = 0,
     power6 = 0, powerValue6 = 0, power7 = 0, powerValue7 = 0\<rparr>"

definition new_item :: item where
  "new_item = \<lparr>item_id = 0, name = [], item_type = 0, grade = 0, quantity = 0, stackNum = 0,
     slotPos = - 1, durability = 0, durMax = 0, status = 0, expireTime = - 1, autoBinding = 0,
     vipLevelReq = 0, showNewSign = False, powers = no_powers, ascensionStar = 0, star = 0,
     upgradeAscensionStar = 0, upgradeStar = 0, attachDone = 0, attachPower = 0,
     attachValue = 0, attachCount = 0, enchantPower1 = 0, enchantPowerValue1 = 0,
     enchantPower2 = 0, enchantPowerValue2 = 0, cssLeftHasItem = False,
     cssRightHasItem = False, cssLeftItemPower = [], cssRightItemPower = [], atkType = 0,
     atk_time = 0, atkMin = 0, atkMax = 0, def_str = 0, def_agi = 0, def_mag = 0, hitrate = 0,
     itemSet = 0, item_area = 0, item_round = 0, reqLv = 0, reqStr = 0, reqCon = 0, reqAgi = 0,
     reqIlt = 0, reqWis = 0\<rparr>"

definition item_clone :: "item \<Rightarrow> bool \<Rightarrow> item" where
  "item_clone m t =
     (let i = setItemDataTo m new_item in if t then setVarItemDataTo m i else i)"

section \<open>Lemmas\<close>

text \<open>The status bits are independent powers of two, so setting one bit
  decides that bit and leaves every other alone.\<close>

lemma toInt32_pow2: "k < 31 \<Longrightarrow> toInt32 (2 ^ k) = 2 ^ k"
proof -
  assume "k < 31"
  then have "(2::int) ^ k \<le> 2 ^ 30" by (intro power_increasing) auto
  moreover have "(0::int) \<le> 2 ^ k" by simp
  ultimately have "- 2147483648 \<le> (2::int) ^ k" "(2::int) ^ k \<le> 2147483647"
    by (linarith, simp)
  then show ?thesis by (intro toInt32_id conjI)
qed

lemma jand_pow2: "k < 31 \<Longrightarrow> jand a (2 ^ k) = (if bit a k then 2 ^ k else 0)"
  by (rule bit_eqI)
    (auto simp: jand_def toInt32_pow2 bit_and_iff bit_toInt32 bit_exp_iff min_def)

lemma hasStatus_bit: "k < 31 \<Longrightarrow> hasStatus (2 ^ k) m = bit (status m) k"
  by (simp add: hasStatus_def jand_pow2)

lemma isStatusBit_bit: "k < 31 \<Longrightarrow> isStatusBit (2 ^ k) m = bit (status m) k"
  by (simp add: isStatusBit_def jand_pow2)

lemma bit_setStatusBit:
  "k < 31 \<Longrightarrow> j < 31 \<Longrightarrow>
     bit (status (setStatusBit e (2 ^ k) m)) j = (if j = k then e else bit (status m) j)"
  by (auto simp: setStatusBit_def jor_def jand_def jnot_def toInt32_pow2 bit_or_iff bit_and_iff
      bit_not_iff bit_toInt32 bit_exp_iff min_def)

lemma hasStatus_setStatusBit:
  "k < 31 \<Longrightarrow> j < 31 \<Longrightarrow>
     hasStatus (2 ^ j) (setStatusBit e (2 ^ k) m) = (if j = k then e else hasStatus (2 ^ j) m)"
  by (simp add: hasStatus_bit bit_setStatusBit)

lemmas isShopLocked_set =
  hasStatus_setStatusBit [of 2 2, simplified] hasStatus_setStatusBit [of 8 2, simplified]

lemma setStatusBit_fields [simp]:
  "slotPos (setStatusBit e t m) = slotPos m" "quantity (setStatusBit e t m) = quantity m"
  "item_id (setStatusBit e t m) = item_id m" "stackNum (setStatusBit e t m) = stackNum m"
  "durability (setStatusBit e t m) = durability m" "durMax (setStatusBit e t m) = durMax m"
  "item_type (setStatusBit e t m) = item_type m"
  by (simp_all add: setStatusBit_def)

lemma checkTimeItem_fields [simp]:
  "slotPos (checkTimeItem now m) = slotPos m" "quantity (checkTimeItem now m) = quantity m"
  "item_id (checkTimeItem now m) = item_id m" "stackNum (checkTimeItem now m) = stackNum m"
  "durability (checkTimeItem now m) = durability m" "durMax (checkTimeItem now m) = durMax m"
  by (simp_all add: checkTimeItem_def)

text \<open>An item is a time item past its time exactly when its expiry date has
  passed, once \<open>checkTimeItem\<close> has run.\<close>

lemma checkTimeItem_timeOut: "isTimeItemTimeOut (checkTimeItem now m) = isExpired now m"
  using hasStatus_setStatusBit [of 3 3 True m] hasStatus_setStatusBit [of 3 3 False m]
  by (simp add: isTimeItemTimeOut_def checkTimeItem_def setStatusBit_def)

text \<open>The star bonus never lowers a non-negative value, never exceeds the
  16-bit range, and is the identity on unbound items.\<close>

lemma getpowerValueAdd_bonus:
  assumes "0 \<le> v" "v \<le> MAX_VALUE_short" "bound" "ok" "0 < asc" "0 < st"
    and "v * asc * st + 50 \<le> 2147483647"
  shows "getpowerValueAdd v asc st bound ok = min MAX_VALUE_short (v + (v * asc * st + 50) div 100)"
proof -
  have nn: "0 \<le> v * asc * st" using assms(1,5,6) by simp
  have r: "jdiv (v * asc * st + 50) 100 = (v * asc * st + 50) div 100"
    using nn assms(7) by (intro jdiv_nonneg) auto
  have "0 \<le> (v * asc * st + 50) div 100" using nn by simp
  with assms r show ?thesis
    by (simp add: getpowerValueAdd_def Let_def toInt32_id min_def)
qed

end
