(* ===== verification/Arrays.thy ===== *)
theory Arrays
  imports Prelude
begin

text \<open>
  The array helpers of the module \<open>ArrayUtil\<close> and the growable \<open>Vector\<close> class
  built on them.  \<open>insertAt\<close> and \<open>removeAt\<close> move the elements one by one with
  index assignments; the theory models those loops and shows that for an index
  in range they are the usual insertion and deletion.
\<close>

section \<open>ArrayUtil\<close>

definition shiftUp :: "int list \<Rightarrow> 'a option list \<Rightarrow> 'a option list" where
  "shiftUp os e = fold (\<lambda>k e. jset e k (jget e (k - 1))) os e"

definition insertAt :: "'a option list \<Rightarrow> int \<Rightarrow> 'a option \<Rightarrow> 'a option list" where
  "insertAt e t i =
     (let n = int (length e);
          t1 = (if 0 > t then t + n + 1 else t);
          t2 = (if 0 > t1 then 0 else t1);
          e1 = fold (\<lambda>k e. jset e k None) (rev [n..t2 - 1]) e;
          e2 = shiftUp (rev [t2 + 1..n]) e1
      in jset e2 t2 i)"

text \<open>Removing from an empty array assigns \<open>length = -1\<close>, which raises a
  \<open>RangeError\<close>: the result \<open>None\<close>.\<close>

definition removeAt :: "'a option list \<Rightarrow> int \<Rightarrow> ('a option \<times> 'a option list) option" where
  "removeAt e t =
     (let n = int (length e);
          t1 = (if 0 > t then t + n else t);
          t2 = (if 0 > t1 then 0 else if t1 \<ge> n then n - 1 else t1);
          x = jget e t2;
          e1 = fold (\<lambda>k e. jset e (k - 1) (jget e k)) [t2 + 1..n - 1] e
      in if n = 0 then None else Some (x, take (nat (n - 1)) e1))"

section \<open>Vector\<close>

definition elementAt :: "'a option list \<Rightarrow> int \<Rightarrow> 'a option" where
  "elementAt v i = jget v i"

definition insertElementAt :: "'a option list \<Rightarrow> 'a option \<Rightarrow> int \<Rightarrow> 'a option list" where
  "insertElementAt v x i = insertAt v i x"

definition addElement :: "'a option list \<Rightarrow> 'a option \<Rightarrow> 'a option list" where
  "addElement v x = v @ [x]"

fun indexOf :: "'a list \<Rightarrow> 'a \<Rightarrow> int \<Rightarrow> int" where
  "indexOf [] x k = - 1"
| "indexOf (y # ys) x k = (if y = x then k else indexOf ys x (k + 1))"

definition removeElement :: "'a option list \<Rightarrow> 'a option \<Rightarrow> 'a option list" where
  "removeElement v x =
     (let t = indexOf v x 0
      in if 0 > t then v else (case removeAt v t of Some (_, v') \<Rightarrow> v' | None \<Rightarrow> v))"

definition lastElement :: "'a option list \<Rightarrow> 'a option" where
  "lastElement v = jget v (int (length v) - 1)"

section \<open>Lemmas\<close>

lemma jget_eqI:
  assumes "length xs = length ys" "\<And>j. 0 \<le> j \<Longrightarrow> j < int (length ys) \<Longrightarrow> jget xs j = jget ys j"
  shows "xs = ys"
proof (rule nth_equalityI)
  show "xs ! k = ys ! k" if "k < length xs" for k
    using assms(2)[of "int k"] that assms(1) by (simp add: jget_def)
qed (fact assms(1))

lemma jget_nth: "k < length xs \<Longrightarrow> jget xs (int k) = xs ! k"
  by (simp add: jget_def)

lemma jget_append:
  "jget (xs @ ys) j = (if j < int (length xs) then jget xs j else jget ys (j - int (length xs)))"
  by (auto simp: jget_def nth_append nat_less_iff nat_diff_distrib)

lemma jget_Cons: "jget (x # xs) j = (if j = 0 then x else jget xs (j - 1))"
  by (auto simp: jget_def nth_Cons' nat_diff_distrib)

lemma jget_replicate_None [simp]: "jget (replicate n None) j = None"
  by (auto simp: jget_def)

lemma jget_take: "0 \<le> m \<Longrightarrow> jget (take (nat m) xs) j = (if j < m then jget xs j else None)"
  by (auto simp: jget_def)

lemma jget_drop: "0 \<le> m \<Longrightarrow> jget (drop (nat m) xs) j = (if 0 \<le> j then jget xs (j + m) else None)"
  by (auto simp: jget_def nat_add_distrib add.commute)

lemma length_jset_max: "0 \<le> i \<Longrightarrow> length (jset xs i v) = max (length xs) (nat i + 1)"
  by (auto simp: jset_def)

lemma rev_upto_snoc: "a \<le> (b::int) \<Longrightarrow> rev [a..b] = b # rev [a..b - 1]"
  by (simp add: upto_rec2)

lemma shiftUp_step: "a \<le> b \<Longrightarrow> shiftUp (rev [a..b]) e = shiftUp (rev [a..b - 1]) (jset e b (jget e (b - 1)))"
  by (simp add: shiftUp_def rev_upto_snoc)

lemma jget_shiftUp:
  "1 \<le> a \<Longrightarrow> jget (shiftUp (rev [a..b]) e) j = (if a \<le> j \<and> j \<le> b then jget e (j - 1) else jget e j)"
proof (induction "nat (b - a + 1)" arbitrary: b e)
  case 0
  then show ?case by (simp add: shiftUp_def)
next
  case (Suc n)
  then have ab: "a \<le> b" by simp
  have "n = nat (b - 1 - a + 1)" using Suc.hyps(2) by simp
  from Suc.hyps(1)[OF this Suc.prems] ab Suc.prems show ?case
    by (auto simp: shiftUp_step jget_jset)
qed

lemma length_shiftUp:
  "1 \<le> a \<Longrightarrow> a \<le> b \<Longrightarrow> length (shiftUp (rev [a..b]) e) = max (length e) (nat b + 1)"
proof (induction "nat (b - a)" arbitrary: b e)
  case 0
  then have "b = a" by simp
  with 0 show ?case by (simp add: shiftUp_def length_jset_max)
next
  case (Suc n)
  then have "n = nat (b - 1 - a)" "a \<le> b - 1" by auto
  from Suc.hyps(1)[OF this(1) Suc.prems(1) this(2)] Suc.prems show ?case
    by (simp add: shiftUp_step length_jset_max)
qed

text \<open>The element-moving loop of \<open>insertAt\<close> is list insertion.\<close>

lemma insertAt_in_range:
  assumes "0 \<le> t" "t \<le> int (length e)"
  shows "insertAt e t i = take (nat t) e @ i # drop (nat t) e"
proof -
  let ?e2 = "shiftUp (rev [t + 1..int (length e)]) e"
  have def: "insertAt e t i = jset ?e2 t i"
    using assms by (simp add: insertAt_def Let_def)
  have len: "length ?e2 = (if t = int (length e) then length e else length e + 1)"
  proof (cases "t = int (length e)")
    case True then show ?thesis by (simp add: shiftUp_def)
  next
    case False
    with assms show ?thesis by (simp add: length_shiftUp)
  qed
  show ?thesis
  proof (rule jget_eqI)
    show "length (insertAt e t i) = length (take (nat t) e @ i # drop (nat t) e)"
      using assms len by (auto simp: def length_jset_max)
  next
    fix j :: int
    assume "0 \<le> j" "j < int (length (take (nat t) e @ i # drop (nat t) e))"
    with assms show "jget (insertAt e t i) j = jget (take (nat t) e @ i # drop (nat t) e) j"
      by (auto simp: def jget_jset jget_shiftUp jget_append jget_Cons jget_take jget_drop min_def
          algebra_simps)
  qed
qed

lemma jget_shiftDown:
  "1 \<le> a \<Longrightarrow> jget (fold (\<lambda>k e. jset e (k - 1) (jget e k)) [a..b] e) j =
     (if a - 1 \<le> j \<and> j < b then jget e (j + 1) else jget e j)"
proof (induction "nat (b - a + 1)" arbitrary: a e)
  case 0
  then show ?case by simp
next
  case (Suc n)
  then have "n = nat (b - (a + 1) + 1)" "a \<le> b" "1 \<le> a + 1" by auto
  from Suc.hyps(1)[OF this(1,3)] this(2) Suc.prems show ?case
    by (auto simp: upto_rec1 jget_jset)
qed

lemma length_shiftDown:
  "1 \<le> a \<Longrightarrow> b < int (length e) \<Longrightarrow>
   length (fold (\<lambda>k e. jset e (k - 1) (jget e k)) [a..b] e) = length e"
proof (induction "nat (b - a + 1)" arbitrary: a e)
  case 0
  then show ?case by simp
next
  case (Suc n)
  then have *: "n = nat (b - (a + 1) + 1)" "a \<le> b" "1 \<le> a + 1" by auto
  have "length (jset e (a - 1) (jget e a)) = length e"
    using Suc.prems *(2) by (simp add: length_jset)
  with Suc.hyps(1)[OF *(1,3)] Suc.prems *(2) show ?case
    by (simp add: upto_rec1)
qed

lemma removeAt_in_range:
  assumes "0 \<le> t" "t < int (length e)"
  shows "removeAt e t = Some (e ! nat t, take (nat t) e @ drop (nat (t + 1)) e)"
proof -
  let ?e1 = "fold (\<lambda>k e. jset e (k - 1) (jget e k)) [t + 1..int (length e) - 1] e"
  have "take (nat (int (length e) - 1)) ?e1 = take (nat t) e @ drop (nat (t + 1)) e" (is "?l = ?r")
  proof (rule jget_eqI)
    show "length ?l = length ?r"
      using assms by (simp add: length_shiftDown)
  next
    fix j :: int assume "0 \<le> j" "j < int (length ?r)"
    with assms show "jget ?l j = jget ?r j"
      by (auto simp: jget_take jget_shiftDown jget_append jget_drop min_def algebra_simps)
  qed
  with assms show ?thesis
    by (auto simp: removeAt_def Let_def jget_def)
qed

end
