(* ===== verification/Bag.thy ===== *)
theory Bag
  imports Item Arrays
begin

text \<open>
  The item store of a player (module \<open>PlayerBag\<close>): one array of slots that
  holds the worn equipment (positions 0..29), the bag (from position 30 to
  \<open>bagEnd\<close>), the storage and two storages for paying players.

  Items are objects with identity: the code keeps references to them, changes
  them through one reference and reads them through another.  The model keeps
  an explicit heap from references to item records, and the array holds
  references.  The owner's data that the bag reads (\<open>numStroe\<close>, the VIP levels)
  are fields of the state, and the notifications the bag sends to the rest of
  the client are appended to \<open>sent\<close>.
\<close>

section \<open>Positions\<close>

abbreviation (input) ARMOR_NECKLACE_POS :: int where "ARMOR_NECKLACE_POS \<equiv> 0"
abbreviation (input) PET_POS :: int where "PET_POS \<equiv> 1"
abbreviation (input) ARMOR_RING_LEFT_POS :: int where "ARMOR_RING_LEFT_POS \<equiv> 2"
abbreviation (input) ARMOR_FASHION_POS :: int where "ARMOR_FASHION_POS \<equiv> 3"
abbreviation (input) ARMOR_BACK_POS :: int where "ARMOR_BACK_POS \<equiv> 4"
abbreviation (input) ARMOR_CLOTHES_POS :: int where "ARMOR_CLOTHES_POS \<equiv> 5"
abbreviation (input) ARMOR_HAND_POS :: int where "ARMOR_HAND_POS \<equiv> 6"
abbreviation (input) ARMOR_HEAD_POS :: int where "ARMOR_HEAD_POS \<equiv> 7"
abbreviation (input) WEAPON_LEFT_POS :: int where "WEAPON_LEFT_POS \<equiv> 8"
abbreviation (input) ARMOR_SHOES_POS :: int where "ARMOR_SHOES_POS \<equiv> 9"
abbreviation (input) WEAPON_RIGHT_POS :: int where "WEAPON_RIGHT_POS \<equiv> 10"
abbreviation (input) ARMOR_WAIST_POS :: int where "ARMOR_WAIST_POS \<equiv> 11"
abbreviation (input) ARMOR_TROUSERS_POS :: int where "ARMOR_TROUSERS_POS \<equiv> 12"
abbreviation (input) ARMOR_SHOULDER_POS :: int where "ARMOR_SHOULDER_POS \<equiv> 13"
abbreviation (input) ARMOR_AMULET_POS :: int where "ARMOR_AMULET_POS \<equiv> 14"
abbreviation (input) ARMOR_TRANSPORT_POS :: int where "ARMOR_TRANSPORT_POS \<equiv> 15"
abbreviation (input) ARMOR_RING_RIGHT_POS :: int where "ARMOR_RING_RIGHT_POS \<equiv> 16"
abbreviation (input) SPIRIT_POS :: int where "SPIRIT_POS \<equiv> 17"
abbreviation (input) BLOOD_BOTTLE_POS :: int where "BLOOD_BOTTLE_POS \<equiv> 18"
abbreviation (input) BAG_START :: int where "BAG_START \<equiv> 30"
abbreviation (input) MAX_STORE_SIZE :: int where "MAX_STORE_SIZE \<equiv> 60"
abbreviation (input) STORE_START :: int where "STORE_START \<equiv> 630"
abbreviation (input) VIPSTORE_START :: int where "VIPSTORE_START \<equiv> 690"
abbreviation (input) VIPSTORE_END :: int where "VIPSTORE_END \<equiv> 780"
abbreviation (input) VIP7STORE_END :: int where "VIP7STORE_END \<equiv> 792"
abbreviation (input) VIP8STORE_END :: int where "VIP8STORE_END \<equiv> 804"
abbreviation (input) VIP9STORE_END :: int where "VIP9STORE_END \<equiv> 816"
abbreviation (input) HIGHT_VIPSTORE_START :: int where "HIGHT_VIPSTORE_START \<equiv> 816"
abbreviation (input) HIGHT_VIP_5_STORE_END :: int where "HIGHT_VIP_5_STORE_END \<equiv> 836"
abbreviation (input) HIGHT_VIP_6_STORE_END :: int where "HIGHT_VIP_6_STORE_END \<equiv> 856"
abbreviation (input) HIGHT_VIP_7_STORE_END :: int where "HIGHT_VIP_7_STORE_END \<equiv> 876"
abbreviation (input) HIGHT_VIP_8_STORE_END :: int where "HIGHT_VIP_8_STORE_END \<equiv> 896"
abbreviation (input) HIGHT_VIP_9_STORE_END :: int where "HIGHT_VIP_9_STORE_END \<equiv> 916"
abbreviation (input) MAX_VIP9STORE_SIZE :: int where "MAX_VIP9STORE_SIZE \<equiv> 126"
abbreviation (input) MAX_HIGHT_VIP_9_STORE_SIZE :: int where "MAX_HIGHT_VIP_9_STORE_SIZE \<equiv> 100"
abbreviation (input) TYPE_EQUIP_POS :: int where "TYPE_EQUIP_POS \<equiv> 1"
abbreviation (input) TYPE_BAG_POS :: int where "TYPE_BAG_POS \<equiv> 2"
abbreviation (input) TYPE_STORAGE_POS :: int where "TYPE_STORAGE_POS \<equiv> 3"
abbreviation (input) TYPE_VIPSTORAGE_POS :: int where "TYPE_VIPSTORAGE_POS \<equiv> 4"
abbreviation (input) TYPE_HIGHT_VIPSTORAGE_POS :: int where "TYPE_HIGHT_VIPSTORAGE_POS \<equiv> 5"
abbreviation (input) DUR_CHANGE_TYPE_POINT :: int where "DUR_CHANGE_TYPE_POINT \<equiv> 1"
abbreviation (input) DUR_CHANGE_TYPE_PERCENT :: int where "DUR_CHANGE_TYPE_PERCENT \<equiv> 2"
abbreviation (input) DEAD_DUR_DOWN :: int where "DEAD_DUR_DOWN \<equiv> 10"
abbreviation (input) DUR_DOWN_POINT :: int where "DUR_DOWN_POINT \<equiv> 1"
abbreviation (input) CLEAR_BAG_SELLING_STATUS :: int where "CLEAR_BAG_SELLING_STATUS \<equiv> 0"
abbreviation (input) CLEAR_BAG_MAIL_SELECT :: int where "CLEAR_BAG_MAIL_SELECT \<equiv> 1"
abbreviation (input) CLEAR_BAG_SHOP_LOCKED :: int where "CLEAR_BAG_SHOP_LOCKED \<equiv> 2"
abbreviation (input) CLEAR_BAG_INTEGRAL :: int where "CLEAR_BAG_INTEGRAL \<equiv> 3"

section \<open>The bag\<close>

type_synonym item_ref = nat

datatype notice =
    ON_BAG_HINT bool
  | NEW_EQUIP item_ref
  | BAG_CHANGE_DURABILITY bool
  | ROLE_ARTIFACT_UP_RED "item_ref list"

record bag =
  heap :: "item_ref \<Rightarrow> item"
  store :: "item_ref option list"
  bagSize :: int
  bagEnd :: int
  numStroe :: int
  vipLevel :: int
  maxVIP :: int
  sent :: "notice list"

definition new_bag :: "(item_ref \<Rightarrow> item) \<Rightarrow> int \<Rightarrow> int \<Rightarrow> int \<Rightarrow> bag" where
  "new_bag h num vip mvip =
     \<lparr>heap = h,
      store = replicate (nat (600 + MAX_STORE_SIZE + MAX_VIP9STORE_SIZE
                              + MAX_HIGHT_VIP_9_STORE_SIZE)) None,
      bagSize = 0, bagEnd = 0, numStroe = num, vipLevel = vip, maxVIP = mvip, sent = []\<rparr>"

text \<open>The setter \<open>BagSize\<close> of the owner.\<close>

definition setBagSize :: "int \<Rightarrow> bag \<Rightarrow> bag" where
  "setBagSize e b = b\<lparr>bagSize := e, bagEnd := EQUIP_POS_END + e - 1\<rparr>"

text \<open>Assignment to a field of the object behind a reference, to a slot, and
  sending a notification.\<close>

definition modify :: "item_ref \<Rightarrow> (item \<Rightarrow> item) \<Rightarrow> bag \<Rightarrow> bag" where
  "modify r f b = b\<lparr>heap := (heap b)(r := f (heap b r))\<rparr>"

definition put :: "int \<Rightarrow> item_ref option \<Rightarrow> bag \<Rightarrow> bag" where
  "put i v b = b\<lparr>store := jset (store b) i v\<rparr>"

definition sendNt :: "notice \<Rightarrow> bag \<Rightarrow> bag" where
  "sendNt n b = b\<lparr>sent := sent b @ [n]\<rparr>"

abbreviation slot :: "bag \<Rightarrow> int \<Rightarrow> item_ref option" where
  "slot b i \<equiv> jget (store b) i"

section \<open>Ranges of positions\<close>

definition isValidPos :: "bag \<Rightarrow> int \<Rightarrow> bool" where
  "isValidPos b e = (e \<ge> 0 \<and> e < int (length (store b)))"

definition isValidBagPos :: "bag \<Rightarrow> int \<Rightarrow> bool" where
  "isValidBagPos b t = (t \<ge> BAG_START \<and> t \<le> bagEnd b)"

definition isValidEquipPos :: "int \<Rightarrow> bool" where
  "isValidEquipPos t = (t \<ge> EQUIP_POS_START \<and> t < EQUIP_POS_END)"

definition isValidWeaponPos :: "int \<Rightarrow> bool" where
  "isValidWeaponPos t = (t = WEAPON_LEFT_POS \<or> t = WEAPON_RIGHT_POS)"

definition getVipStorageEnd :: "bag \<Rightarrow> int" where
  "getVipStorageEnd b =
     (if maxVIP b = 7 then VIP7STORE_END - 1 else if maxVIP b = 8 then VIP8STORE_END - 1
      else if maxVIP b = 9 then VIP9STORE_END - 1 else VIPSTORE_END - 1)"

definition getHightVipStorageEnd :: "bag \<Rightarrow> int" where
  "getHightVipStorageEnd b =
     (if maxVIP b = 5 then HIGHT_VIP_5_STORE_END - 1
      else if maxVIP b = 6 then HIGHT_VIP_6_STORE_END - 1
      else if maxVIP b = 7 then HIGHT_VIP_7_STORE_END - 1
      else if maxVIP b = 8 then HIGHT_VIP_8_STORE_END - 1
      else if maxVIP b = 9 then HIGHT_VIP_9_STORE_END - 1 else - 1)"

definition isValidVipStoragePos :: "bag \<Rightarrow> int \<Rightarrow> bool" where
  "isValidVipStoragePos b t = (t \<ge> VIPSTORE_START \<and> t \<le> getVipStorageEnd b)"

definition isValidHightVipStoragePos :: "bag \<Rightarrow> int \<Rightarrow> bool" where
  "isValidHightVipStoragePos b t = (t \<ge> HIGHT_VIPSTORE_START \<and> t \<le> getHightVipStorageEnd b)"

definition getStorageNum :: "bag \<Rightarrow> int" where
  "getStorageNum b = numStroe b"

definition getStorageEnd :: "bag \<Rightarrow> int" where
  "getStorageEnd b = STORE_START + numStroe b - 1"

definition isValidStoragePos :: "bag \<Rightarrow> int \<Rightarrow> bool" where
  "isValidStoragePos b t = (t \<ge> STORE_START \<and> t \<le> getStorageEnd b)"

definition getStartEndPos :: "bag \<Rightarrow> int \<Rightarrow> int \<times> int" where
  "getStartEndPos b t =
     (if t = TYPE_EQUIP_POS then (EQUIP_POS_START, EQUIP_POS_END - 1)
      else if t = TYPE_BAG_POS then (BAG_START, bagEnd b)
      else if t = TYPE_STORAGE_POS then (STORE_START, getStorageEnd b)
      else if t = TYPE_VIPSTORAGE_POS then (VIPSTORE_START, getVipStorageEnd b)
      else if t = TYPE_HIGHT_VIPSTORAGE_POS
      then (HIGHT_VIPSTORE_START, getHightVipStorageEnd b)
      else (0, 0))"

section \<open>Reading slots\<close>

definition getItem :: "bag \<Rightarrow> int \<Rightarrow> item_ref option" where
  "getItem b e = (if isValidPos b e then slot b e else None)"

definition getBagItemBySlotPos :: "bag \<Rightarrow> int \<Rightarrow> item_ref option" where
  "getBagItemBySlotPos b e = (if isValidBagPos b e then getItem b e else None)"

text \<open>The references and items found at a list of positions, in order.\<close>

definition refsAt :: "bag \<Rightarrow> int list \<Rightarrow> item_ref list" where
  "refsAt b ps = map the (filter (\<lambda>x. x \<noteq> None) (map (getItem b) ps))"

definition isStorageFull :: "bag \<Rightarrow> bool" where
  "isStorageFull b =
     (let (i, e) = getStartEndPos b TYPE_STORAGE_POS
      in list_all (\<lambda>p. getItem b p \<noteq> None) [i..e - 1])"

definition findFreePos :: "bag \<Rightarrow> int \<Rightarrow> int \<Rightarrow> int" where
  "findFreePos b e t =
     (case find (\<lambda>i. isValidPos b i \<and> slot b i = None) [e..t] of Some i \<Rightarrow> i | None \<Rightarrow> - 1)"

definition nextFreePosForType :: "bag \<Rightarrow> int \<Rightarrow> int" where
  "nextFreePosForType b e = (let t = getStartEndPos b e in findFreePos b (fst t) (snd t))"

text \<open>A stack that can take \<open>n\<close> more of the item \<open>m\<close>.\<close>

definition canMerge :: "bag \<Rightarrow> item \<Rightarrow> int \<Rightarrow> int \<Rightarrow> bool" where
  "canMerge b m n l =
     (isValidPos b l \<and>
      (case slot b l of None \<Rightarrow> False
       | Some r \<Rightarrow> \<not> (isShopLocked (heap b r) \<or> item_id (heap b r) \<noteq> item_id m
                       \<or> quantity (heap b r) + n > stackNum (heap b r))))"

definition nextFreePos :: "bag \<Rightarrow> int \<Rightarrow> item_ref option \<Rightarrow> int \<Rightarrow> bool \<Rightarrow> int" where
  "nextFreePos b e t i o' =
     (case t of None \<Rightarrow> - 1
      | Some t' \<Rightarrow>
         let (r, s) = getStartEndPos b e;
             n = (if isStackable (heap b t')
                  then (case find (canMerge b (heap b t') i) [r..s] of Some l \<Rightarrow> l | None \<Rightarrow> - 1)
                  else - 1)
         in if isValidPos b n then n else if \<not> o' then n else nextFreePosForType b e)"

definition countFreePos :: "bag \<Rightarrow> int" where
  "countFreePos b = int (length (filter (\<lambda>i. slot b i = None) [BAG_START..bagEnd b]))"

definition countUsedSlot_1 :: "bag \<Rightarrow> int list \<Rightarrow> int" where
  "countUsedSlot_1 b e =
     int (length (filter (\<lambda>p. isValidPos b p \<and> slot b p \<noteq> None) e))"

definition countUsedSlot_2 :: "bag \<Rightarrow> int \<Rightarrow> int \<Rightarrow> int" where
  "countUsedSlot_2 b e t = countUsedSlot_1 b [e..t]"

section \<open>Changing slots\<close>

definition clearItem :: "int \<Rightarrow> int \<Rightarrow> bag \<Rightarrow> bag" where
  "clearItem e t b = fold (\<lambda>i. put i None) [e..t] b"

definition clearStorageItem :: "bag \<Rightarrow> bag" where
  "clearStorageItem b = clearItem STORE_START (getStorageEnd b) b"

definition clearVipStorageItem :: "bag \<Rightarrow> bag" where
  "clearVipStorageItem b = clearItem VIPSTORE_START (getVipStorageEnd b) b"

definition clearHightVipStorageItem :: "bag \<Rightarrow> bag" where
  "clearHightVipStorageItem b = clearItem HIGHT_VIPSTORE_START (getHightVipStorageEnd b) b"

definition clearEquipAndBagItem :: "bag \<Rightarrow> bag" where
  "clearEquipAndBagItem b = clearItem EQUIP_POS_START (bagEnd b) b"

text \<open>The argument \<open>t\<close> of \<open>setItem\<close> is optional; a missing position and position
  0 are both replaced by the item's own slot position.\<close>

definition setItem :: "item_ref option \<Rightarrow> int option \<Rightarrow> bag \<Rightarrow> int \<times> bag" where
  "setItem e t b =
     (case e of None \<Rightarrow> (- 2, b)
      | Some r \<Rightarrow>
         let p = (case t of None \<Rightarrow> slotPos (heap b r)
                  | Some p \<Rightarrow> if p = 0 then slotPos (heap b r) else p)
         in if \<not> isValidPos b p then (- 3, b)
            else (SUCCESS, put p (Some r) (modify r (\<lambda>m. m\<lparr>slotPos := p\<rparr>) b)))"

definition initBagItem :: "item_ref list option \<Rightarrow> bag \<Rightarrow> int \<times> bag" where
  "initBagItem e b =
     (case e of None \<Rightarrow> (- 2, b)
      | Some rs \<Rightarrow>
         (SUCCESS, sendNt (ON_BAG_HINT False) (sendNt (ROLE_ARTIFACT_UP_RED rs)
            (fold (\<lambda>r b. snd (setItem (Some r) None b)) rs b))))"

definition removeItem :: "int \<Rightarrow> bag \<Rightarrow> int \<times> bag" where
  "removeItem e b =
     (if \<not> isValidPos b e then (- 1, b)
      else case getItem b e of None \<Rightarrow> (- 2, b) | Some _ \<Rightarrow> (1, put e None b))"

definition removeBagItemByPos :: "int \<Rightarrow> int \<Rightarrow> bag \<Rightarrow> int \<times> bag" where
  "removeBagItemByPos e t b =
     (case getItem b e of None \<Rightarrow> (- 3, b)
      | Some i \<Rightarrow>
         if t > quantity (heap b i) then (- 4, b)
         else if 0 > t then (- 5, b)
         else let b1 = modify i (\<lambda>m. m\<lparr>quantity := quantity m - t\<rparr>) b
              in (SUCCESS, if quantity (heap b1 i) \<le> 0 then put e None b1 else b1))"

definition removeBagItemByPosProto :: "int \<Rightarrow> int \<Rightarrow> bag \<Rightarrow> int \<times> bag" where
  "removeBagItemByPosProto e t b =
     (case getItem b e of None \<Rightarrow> (- 3, b)
      | Some i \<Rightarrow>
         let b1 = modify i (\<lambda>m. m\<lparr>quantity := t\<rparr>) b
         in (SUCCESS, if quantity (heap b1 i) \<le> 0 then put e None b1 else b1))"

definition getItemNumByID :: "bag \<Rightarrow> int \<Rightarrow> int" where
  "getItemNumByID b t =
     sum_list (map (\<lambda>r. quantity (heap b r))
       (filter (\<lambda>r. item_id (heap b r) = t) (refsAt b [BAG_START..bagEnd b])))"

fun removeLoop :: "int list \<Rightarrow> int \<Rightarrow> int \<Rightarrow> bag \<Rightarrow> int \<times> bag" where
  "removeLoop [] t i b = (if i > 0 then (- 1, b) else (1, b))"
| "removeLoop (n # ns) t i b =
     (case getItem b n of
        Some a \<Rightarrow>
          if item_id (heap b a) = t then
            (if quantity (heap b a) > i
             then (1, modify a (\<lambda>m. m\<lparr>quantity := quantity m - i\<rparr>) b)
             else if quantity (heap b a) = i then (1, put n None b)
             else removeLoop ns t (i - quantity (heap b a)) (put n None b))
          else removeLoop ns t i b
      | None \<Rightarrow> removeLoop ns t i b)"

definition removeBagItemByNum :: "int \<Rightarrow> int \<Rightarrow> bag \<Rightarrow> int \<times> bag" where
  "removeBagItemByNum t i b =
     (if i > getItemNumByID b t then (- 1, b)
      else removeLoop (rev [BAG_START..bagEnd b]) t i b)"

definition changeItemPos :: "item_ref option \<Rightarrow> int \<Rightarrow> int \<Rightarrow> bag \<Rightarrow> bool \<times> bag" where
  "changeItemPos e t i b =
     (case e of None \<Rightarrow> (False, b)
      | Some r \<Rightarrow>
         let b1 = (case slot b i of
                     Some q \<Rightarrow>
                       if name (heap b q) = name (heap b r) \<and> isStackable (heap b q)
                       then modify q (\<lambda>m. m\<lparr>quantity := quantity m + quantity (heap b r)\<rparr>) b
                       else modify r (\<lambda>m. m\<lparr>slotPos := i\<rparr>) (put i (Some r) b)
                   | None \<Rightarrow> modify r (\<lambda>m. m\<lparr>slotPos := i\<rparr>) (put i (Some r) b))
         in (True, put t None b1))"

text \<open>Exchanging two slots; an item that leaves the equipment loses the
  durability above its own maximum.\<close>

definition moveTo :: "int \<Rightarrow> item \<Rightarrow> item" where
  "moveTo i m =
     (let m1 = m\<lparr>slotPos := i\<rparr>
      in if \<not> isValidEquipPos i \<and> durability m1 > of_int (durMax m1)
         then m1\<lparr>durability := of_int (durMax m1)\<rparr> else m1)"

definition swapItem :: "int \<Rightarrow> int \<Rightarrow> bag \<Rightarrow> int \<times> bag" where
  "swapItem t i b =
     (if \<not> isValidPos b t then (- 501, b)
      else if \<not> isValidPos b i then (- 502, b)
      else let x = slot b t; y = slot b i;
               b1 = put i x (case x of None \<Rightarrow> b | Some r \<Rightarrow> modify r (moveTo i) b);
               b2 = put t y (case y of None \<Rightarrow> b1 | Some r \<Rightarrow> modify r (moveTo t) b1)
           in (1, b2))"

section \<open>Adding items\<close>

definition addItem_3 :: "int \<Rightarrow> item_ref option \<Rightarrow> int \<Rightarrow> bag \<Rightarrow> int \<times> bag" where
  "addItem_3 e t i b =
     (case t of None \<Rightarrow> (- 1, b)
      | Some r \<Rightarrow>
         if 0 \<ge> i then (- 2, b)
         else if isStackable (heap b r) \<and> i > stackNum (heap b r) then (- 3, b)
         else let p = nextFreePos b e t i True
              in if \<not> isValidPos b p then (- 4, b)
                 else (case slot b p of
                    Some q \<Rightarrow>
                      if \<not> isStackable (heap b r) then (- 5, b)
                      else if quantity (heap b q) + i > stackNum (heap b q) then (- 6, b)
                      else (p, modify q (\<lambda>m. m\<lparr>quantity := quantity m + i\<rparr>) b)
                  | None \<Rightarrow>
                      (p, sendNt (NEW_EQUIP r) (sendNt (ON_BAG_HINT True)
                         (put p (Some r) (modify r
                            (\<lambda>m. m\<lparr>quantity := (if \<not> isStackable m then 1 else i),
                                   slotPos := p, showNewSign := True\<rparr>) b))))))"

definition addItem_2 :: "item_ref option \<Rightarrow> int \<Rightarrow> bag \<Rightarrow> int \<times> bag" where
  "addItem_2 t i b = addItem_3 TYPE_BAG_POS t i b"

definition addItem_1 :: "item_ref option \<Rightarrow> bag \<Rightarrow> int \<times> bag" where
  "addItem_1 e b = (case e of None \<Rightarrow> (- 1, b) | Some r \<Rightarrow> addItem_2 e (quantity (heap b r)) b)"

definition addStorageItem :: "item_ref option \<Rightarrow> bag \<Rightarrow> int \<times> bag" where
  "addStorageItem t b =
     (case t of None \<Rightarrow> (- 1, b) | Some r \<Rightarrow> addItem_3 TYPE_STORAGE_POS t (quantity (heap b r)) b)"

definition addVIPStorageItem :: "item_ref option \<Rightarrow> bag \<Rightarrow> int \<times> bag" where
  "addVIPStorageItem t b =
     (case t of None \<Rightarrow> (- 1, b)
      | Some r \<Rightarrow> addItem_3 TYPE_VIPSTORAGE_POS t (quantity (heap b r)) b)"

definition addHightVIPStorageItem :: "item_ref option \<Rightarrow> bag \<Rightarrow> int \<times> bag" where
  "addHightVIPStorageItem t b =
     (case t of None \<Rightarrow> (- 1, b)
      | Some r \<Rightarrow> addItem_3 TYPE_HIGHT_VIPSTORAGE_POS t (quantity (heap b r)) b)"

text \<open>The six transfers between the bag and a storage have one shape: the item
  has to lie in the source range, is added to the target range, and leaves its
  old slot when the position it was given is in the target range.\<close>

definition transfer ::
  "(bag \<Rightarrow> int \<Rightarrow> bool) \<Rightarrow> (item_ref option \<Rightarrow> bag \<Rightarrow> int \<times> bag) \<Rightarrow> (bag \<Rightarrow> int \<Rightarrow> bool) \<Rightarrow>
   item_ref option \<Rightarrow> bag \<Rightarrow> bool \<times> bag" where
  "transfer from_ok add to_ok e b =
     (case e of None \<Rightarrow> (False, b)
      | Some r \<Rightarrow>
         let t = slotPos (heap b r)
         in if \<not> from_ok b t then (False, b)
            else let (i, b1) = add e b
                 in if \<not> to_ok b1 i then (False, b1) else (True, put t None b1))"

definition putItemByStorage :: "item_ref option \<Rightarrow> bag \<Rightarrow> bool \<times> bag" where
  "putItemByStorage = transfer isValidBagPos addStorageItem isValidStoragePos"

definition putItemByVIPStorage :: "item_ref option \<Rightarrow> bag \<Rightarrow> bool \<times> bag" where
  "putItemByVIPStorage = transfer isValidBagPos addVIPStorageItem isValidVipStoragePos"

definition putItemByHightVIPStorage :: "item_ref option \<Rightarrow> bag \<Rightarrow> bool \<times> bag" where
  "putItemByHightVIPStorage =
     transfer isValidBagPos addHightVIPStorageItem isValidHightVipStoragePos"

definition getItemByStorage :: "item_ref option \<Rightarrow> bag \<Rightarrow> bool \<times> bag" where
  "getItemByStorage = transfer isValidStoragePos addItem_1 isValidBagPos"

definition getItemByVIPStorage :: "item_ref option \<Rightarrow> bag \<Rightarrow> bool \<times> bag" where
  "getItemByVIPStorage = transfer isValidVipStoragePos addItem_1 isValidBagPos"

definition getItemByHightVIPStorage :: "item_ref option \<Rightarrow> bag \<Rightarrow> bool \<times> bag" where
  "getItemByHightVIPStorage = transfer isValidHightVipStoragePos addItem_1 isValidBagPos"

section \<open>Equipment\<close>

definition getEquipPosByType :: "int \<Rightarrow> int list option" where
  "getEquipPosByType t =
     (if t = ITEM_TYPE_ARMOR_HEAD then Some [ARMOR_HEAD_POS]
      else if t = ITEM_TYPE_ARMOR_CLOTHES then Some [ARMOR_CLOTHES_POS]
      else if t = ITEM_TYPE_ARMOR_TROUSERS then Some [ARMOR_TROUSERS_POS]
      else if t = ITEM_TYPE_ARMOR_SHOULDER then Some [ARMOR_SHOULDER_POS]
      else if t = ITEM_TYPE_ARMOR_WAIST then Some [ARMOR_WAIST_POS]
      else if t = ITEM_TYPE_ARMOR_BACK then Some [ARMOR_BACK_POS]
      else if t = ITEM_TYPE_ARMOR_SHOES then Some [ARMOR_SHOES_POS]
      else if t = ITEM_TYPE_ARMOR_HAND then Some [ARMOR_HAND_POS]
      else if t = ITEM_TYPE_ARMOR_NECKLACE then Some [ARMOR_NECKLACE_POS]
      else if t = ITEM_TYPE_ARMOR_RING then Some [ARMOR_RING_LEFT_POS, ARMOR_RING_RIGHT_POS]
      else if t = ITEM_TYPE_ARMOR_AMULET then Some [ARMOR_AMULET_POS]
      else if t = ITEM_TYPE_ARMOR_TRANSPORT then Some [ARMOR_TRANSPORT_POS]
      else if t = ITEM_TYPE_ARMOR_FASHION then Some [ARMOR_FASHION_POS]
      else if t \<in> set [ITEM_TYPE_WEAPON_ONEHAND_SWORD, ITEM_TYPE_WEAPON_TWOHAND_SWORD,
        ITEM_TYPE_WEAPON_ONEHAND_BLADE, ITEM_TYPE_WEAPON_TWOHAND_BLADE,
        ITEM_TYPE_WEAPON_ONEHAND_HEAVY, ITEM_TYPE_WEAPON_TWOHAND_HEAVY,
        ITEM_TYPE_WEAPON_TWOHAND_STAFF, ITEM_TYPE_WEAPON_TWOHAND_LANCE,
        ITEM_TYPE_WEAPON_ONEHAND_CROSSBOW, ITEM_TYPE_WEAPON_TWOHAND_CROSSBOW,
        ITEM_TYPE_WEAPON_TWOHAND_BOW, ITEM_TYPE_WEAPON_ONEHAND_HAND, ITEM_TYPE_WEAPON_BALL,
        ITEM_TYPE_WEAPON_ONEHAND_GUN, ITEM_TYPE_WEAPON_TWOHAND_GUN,
        ITEM_TYPE_WEAPON_ONEHAND_HAMMER, ITEM_TYPE_WEAPON_TWOHAND_HAMMER,
        ITEM_TYPE_WEAPON_TWOHAND_FAN] then Some [WEAPON_LEFT_POS, WEAPON_RIGHT_POS]
      else if t = ITEM_TYPE_PET then Some [PET_POS]
      else if t = ITEM_TYPE_BLOOD_BOTTLE then Some [BLOOD_BOTTLE_POS]
      else None)"

definition isOneHandWeaponType :: "int \<Rightarrow> bool" where
  "isOneHandWeaponType e =
     (e = ITEM_TYPE_WEAPON_ONEHAND_SWORD \<or> e = ITEM_TYPE_WEAPON_ONEHAND_BLADE
      \<or> e = ITEM_TYPE_WEAPON_ONEHAND_CROSSBOW \<or> e = ITEM_TYPE_WEAPON_ONEHAND_GUN)"

definition isTwoHandWeaponType :: "int \<Rightarrow> bool" where
  "isTwoHandWeaponType e =
     (e \<in> set [ITEM_TYPE_WEAPON_TWOHAND_SWORD, ITEM_TYPE_WEAPON_TWOHAND_BLADE,
        ITEM_TYPE_WEAPON_TWOHAND_HEAVY, ITEM_TYPE_WEAPON_TWOHAND_STAFF,
        ITEM_TYPE_WEAPON_TWOHAND_LANCE, ITEM_TYPE_WEAPON_TWOHAND_CROSSBOW,
        ITEM_TYPE_WEAPON_BALL, ITEM_TYPE_WEAPON_TWOHAND_BOW, ITEM_TYPE_WEAPON_TWOHAND_GUN,
        ITEM_TYPE_WEAPON_TWOHAND_HAMMER, ITEM_TYPE_WEAPON_TWOHAND_FAN])"

definition isValidByEquipTypeAndPos :: "int \<Rightarrow> int \<Rightarrow> bool" where
  "isValidByEquipTypeAndPos t i =
     (case getEquipPosByType i of None \<Rightarrow> False | Some ps \<Rightarrow> t \<in> set ps)"

text \<open>The type of the item at a slot, -1 for an empty slot.\<close>

definition typeAt :: "bag \<Rightarrow> int \<Rightarrow> int" where
  "typeAt b p = (case slot b p of None \<Rightarrow> - 1 | Some r \<Rightarrow> item_type (heap b r))"

definition isHaveEquipOneHandHand :: "bag \<Rightarrow> int" where
  "isHaveEquipOneHandHand b =
     (if slot b WEAPON_LEFT_POS \<noteq> None
         \<and> typeAt b WEAPON_LEFT_POS = ITEM_TYPE_WEAPON_ONEHAND_HAND then WEAPON_LEFT_POS
      else if slot b WEAPON_RIGHT_POS \<noteq> None
         \<and> typeAt b WEAPON_RIGHT_POS = ITEM_TYPE_WEAPON_ONEHAND_HAND then WEAPON_RIGHT_POS
      else - 1)"

definition isSameWeaponType :: "bag \<Rightarrow> int \<Rightarrow> int" where
  "isSameWeaponType b t =
     (if t = ITEM_TYPE_WEAPON_ONEHAND_HAND then
        (let i = typeAt b WEAPON_LEFT_POS; j = typeAt b WEAPON_RIGHT_POS
         in if (\<not> isOneHandWeaponType i \<or> j \<noteq> - 1 \<and> j \<noteq> ITEM_TYPE_WEAPON_ONEHAND_HAND)
               \<and> (\<not> isOneHandWeaponType j \<or> i \<noteq> - 1 \<and> i \<noteq> ITEM_TYPE_WEAPON_ONEHAND_HAND)
            then - 5 else 3)
      else if slot b WEAPON_LEFT_POS \<noteq> None \<and> t \<noteq> typeAt b WEAPON_LEFT_POS then - 3
      else if slot b WEAPON_RIGHT_POS \<noteq> None \<and> t \<noteq> typeAt b WEAPON_RIGHT_POS then - 4
      else if slot b WEAPON_LEFT_POS = None \<and> slot b WEAPON_RIGHT_POS = None then 2
      else 1)"

definition equipWeapon :: "int \<Rightarrow> bag \<Rightarrow> int \<times> bag" where
  "equipWeapon t b =
     (let i = countUsedSlot_1 b [WEAPON_LEFT_POS, WEAPON_RIGHT_POS]
      in if i = 2 then
           (if countFreePos b < i - 1 then (- 11, b)
            else let p = nextFreePosForType b TYPE_BAG_POS;
                     (n, b1) = swapItem WEAPON_LEFT_POS t b
                 in if n \<noteq> 1 then (- 12, b1)
                    else let (n', b2) = swapItem WEAPON_RIGHT_POS p b1
                         in if n' \<noteq> 1 then (- 13, snd (swapItem t WEAPON_LEFT_POS b2))
                            else (1, b2))
         else if i = 1 then
           (let (a, b1) = (if slot b WEAPON_RIGHT_POS \<noteq> None
                           then swapItem WEAPON_LEFT_POS WEAPON_RIGHT_POS b else (1, b))
            in if a \<noteq> 1 then (- 14, b1)
               else let (n, b2) = swapItem WEAPON_LEFT_POS t b1
                    in if n \<noteq> 1 then (- 15, b2) else (1, b2))
         else if i = 0 then
           (let (n, b1) = swapItem WEAPON_LEFT_POS t b
            in if n \<noteq> 1 then (- 16, b1) else (1, b1))
         else (1, b))"

text \<open>The second loop of \<open>equipItem\<close>: the first position that is free, or holds a
  weapon the new one may replace.  \<open>None\<close> when the loop runs to its end.\<close>

fun equipLoop :: "int list \<Rightarrow> item_ref \<Rightarrow> bool \<Rightarrow> bag \<Rightarrow> (int \<times> bag) option" where
  "equipLoop [] r one b = None"
| "equipLoop (l # ls) r one b =
     (if \<not> isValidEquipPos l then Some (- 5, b)
      else (case slot b l of
              None \<Rightarrow> Some (swapItem l (slotPos (heap b r)) b)
            | Some u \<Rightarrow>
                if item_type (heap b r) = ITEM_TYPE_WEAPON_ONEHAND_HAND then
                  (if item_type (heap b u) = ITEM_TYPE_WEAPON_ONEHAND_HAND
                   then Some (swapItem l (slotPos (heap b r)) b) else equipLoop ls r one b)
                else if one \<and> isOneHandWeaponType (item_type (heap b u))
                then Some (swapItem l (slotPos (heap b r)) b)
                else equipLoop ls r one b))"

definition equipItem :: "int \<Rightarrow> int list option \<Rightarrow> bag \<Rightarrow> int \<times> bag" where
  "equipItem t i b =
     (case getItem b t of None \<Rightarrow> (- 2, b)
      | Some r \<Rightarrow>
        (case i of None \<Rightarrow> (- 3, b)
         | Some ps \<Rightarrow>
           if ps = [] then (- 3, b)
           else if \<not> list_all (\<lambda>p. isValidByEquipTypeAndPos p (item_type (heap b r))) ps
           then (- 4, b)
           else
             let ty = item_type (heap b r);
                 one = (isHaveEquipOneHandHand b > 0 \<and> isOneHandWeaponType ty)
             in if \<not> one \<and> isValidWeaponPos (hd ps)
                   \<and> (isSameWeaponType b ty < 0 \<or> isTwoHandWeaponType ty)
                then (if ty = ITEM_TYPE_WEAPON_ONEHAND_HAND then (- 5, b)
                      else equipWeapon (slotPos (heap b r)) b)
                else (case equipLoop ps r one b of
                        Some res \<Rightarrow> res
                      | None \<Rightarrow>
                          if ty = ITEM_TYPE_WEAPON_ONEHAND_HAND then (- 6, b)
                          else if one then (- 7, b)
                          else swapItem (hd ps) (slotPos (heap b r)) b)))"

definition equipItemForPos :: "int \<Rightarrow> bag \<Rightarrow> int \<times> bag" where
  "equipItemForPos t b =
     (case getItem b t of None \<Rightarrow> (- 23, b)
      | Some r \<Rightarrow> equipItem t (getEquipPosByType (item_type (heap b r))) b)"

definition unequipItem :: "item_ref option \<Rightarrow> bag \<Rightarrow> int \<times> bag" where
  "unequipItem t b =
     (case t of None \<Rightarrow> (- 1, b)
      | Some r \<Rightarrow>
         let i = slotPos (heap b r)
         in if \<not> isValidEquipPos i then (- 2, b)
            else let p = nextFreePosForType b TYPE_BAG_POS
                 in if 0 > p then (- 3, b)
                    else let a = isHaveEquipOneHandHand b;
                             n = (isOneHandWeaponType (item_type (heap b r)) \<and> a > 0)
                         in if n \<and> countFreePos b < 2 then (- 4, b)
                            else let b1 = snd (swapItem i p b)
                                 in if n then
                                      (let p' = nextFreePosForType b1 TYPE_BAG_POS
                                       in (p', if isValidBagPos b1 p'
                                               then snd (swapItem a p' b1) else b1))
                                    else (p, b1))"

definition getCompareEquip :: "bag \<Rightarrow> int \<Rightarrow> item_ref option" where
  "getCompareEquip b i =
     (case getEquipPosByType i of None \<Rightarrow> None
      | Some ps \<Rightarrow>
         (case filter (\<lambda>r. \<not> (i = ITEM_TYPE_WEAPON_ONEHAND_HAND \<and> item_type (heap b r) \<noteq> i))
                 (refsAt b (filter isValidEquipPos ps)) of
            [] \<Rightarrow> None | r # _ \<Rightarrow> Some r))"

section \<open>Attributes of the worn equipment\<close>

definition getForPos :: "bag \<Rightarrow> int \<Rightarrow> int \<Rightarrow> int" where
  "getForPos b e t =
     (if \<not> isValidPos b t then - 1
      else case slot b t of None \<Rightarrow> - 1 | Some r \<Rightarrow> item_get (heap b r) e)"

text \<open>The loop checks the index of the position in the array, not the
  position.\<close>

fun forArrayLoop :: "bag \<Rightarrow> int \<Rightarrow> int list \<Rightarrow> int \<Rightarrow> int" where
  "forArrayLoop b e [] k = 0"
| "forArrayLoop b e (n # ns) k =
     (if isValidPos b k
      then (case slot b n of None \<Rightarrow> 0 | Some r \<Rightarrow> item_get (heap b r) e) else 0)
     + forArrayLoop b e ns (k + 1)"

definition getForArray :: "bag \<Rightarrow> int \<Rightarrow> int list \<Rightarrow> int" where
  "getForArray b e t = forArrayLoop b e t 0"

definition get_3 :: "bag \<Rightarrow> int \<Rightarrow> int \<Rightarrow> int \<Rightarrow> int" where
  "get_3 b e t i =
     sum_list (map (\<lambda>r. item_get (heap b r) e) (refsAt b [t..i - 1]))"

definition getItemAtkType :: "bag \<Rightarrow> int" where
  "getItemAtkType b =
     (let t = getForPos b EQP_ATK_TYPE WEAPON_LEFT_POS
      in if - 1 \<noteq> t then t
         else let t' = getForPos b EQP_ATK_TYPE WEAPON_RIGHT_POS
              in if - 1 \<noteq> t' then t' else ATKTYPE_STR)"

definition bag_get :: "bag \<Rightarrow> int \<Rightarrow> int" where
  "bag_get b t =
     (if t \<in> set [EQP_ATK_MAX, EQP_ATK_MIN, EQP_HIT_TIME, EQP_HITRATE]
      then getForArray b t [WEAPON_LEFT_POS, WEAPON_RIGHT_POS]
      else if t \<in> set [EQP_DEF_STR, EQP_DEF_AGI, EQP_DEF_MAGIC]
      then get_3 b t EQUIP_POS_START EQUIP_POS_END
      else if t = EQP_ATK_TYPE then getItemAtkType b
      else 0)"

definition getEquipPowerValue :: "bool \<Rightarrow> bag \<Rightarrow> int \<Rightarrow> int" where
  "getEquipPowerValue upgradeOpen b t =
     (if 0 \<ge> t then 0
      else sum_list (map (\<lambda>o'. case slot b o' of None \<Rightarrow> 0
                               | Some r \<Rightarrow> item_getPowerValue upgradeOpen (heap b r) t)
             [EQUIP_POS_START..EQUIP_POS_END - 1]))"

definition getEquipItemSetNum :: "bag \<Rightarrow> int \<Rightarrow> int" where
  "getEquipItemSetNum b t =
     (if 0 \<ge> t then 0
      else int (length (filter (\<lambda>n. case slot b n of None \<Rightarrow> False
                                 | Some r \<Rightarrow> item_get (heap b r) EQP_ITEM_SET_ID = t)
             [EQUIP_POS_START..EQUIP_POS_END - 1])))"

section \<open>Wear and status of items\<close>

definition isVipOverDue :: "int \<Rightarrow> bag \<Rightarrow> bool" where
  "isVipOverDue now b =
     (case getItem b SPIRIT_POS of None \<Rightarrow> True
      | Some r \<Rightarrow> \<not> (expireTime (heap b r) - now > 0))"

text \<open>Applies an update to the item at each position of a list that holds one.\<close>

definition updateAt :: "int list \<Rightarrow> (int \<Rightarrow> item \<Rightarrow> item) \<Rightarrow> bag \<Rightarrow> bag" where
  "updateAt ps f b =
     fold (\<lambda>p b. case getItem b p of None \<Rightarrow> b | Some r \<Rightarrow> modify r (f p) b) ps b"

definition checkEquipTimeItem :: "int \<Rightarrow> bag \<Rightarrow> bag" where
  "checkEquipTimeItem now b =
     (let t = (vipLevel b > 0 \<and> isVipOverDue now b)
      in updateAt [EQUIP_POS_START..EQUIP_POS_END - 1]
           (\<lambda>_ n. let n1 = setStatusBit False STATUS_VIP_TIME_OUT (checkTimeItem now n)
                  in if isVipItem n1 \<and> t then setStatusBit True STATUS_VIP_TIME_OUT n1 else n1) b)"

definition wear :: "int \<Rightarrow> int \<Rightarrow> rat \<Rightarrow> rat" where
  "wear t i a =
     (if 0 > t then
        (let a1 = (if i = DUR_CHANGE_TYPE_POINT then a + of_int t
                   else if i = DUR_CHANGE_TYPE_PERCENT then a * of_int (100 + t) / 100 else a)
         in if 0 > a1 then 0 else a1)
      else a)"

definition changeDurability :: "int \<Rightarrow> int \<Rightarrow> bag \<Rightarrow> bag" where
  "changeDurability t i b =
     sendNt (BAG_CHANGE_DURABILITY True)
       (updateAt [EQUIP_POS_START..EQUIP_POS_END - 1]
          (\<lambda>p n. if p \<noteq> SPIRIT_POS \<and> durability n \<noteq> 0
                 then n\<lparr>durability := wear t i (durability n)\<rparr> else n) b)"

definition handlePlayerDurability :: "bool \<Rightarrow> bag \<Rightarrow> bag" where
  "handlePlayerDurability t b =
     (if t then changeDurability (- DEAD_DUR_DOWN) DUR_CHANGE_TYPE_PERCENT b
      else changeDurability (- DUR_DOWN_POINT) DUR_CHANGE_TYPE_POINT b)"

definition clearBagAllItemStatus :: "int \<Rightarrow> bag \<Rightarrow> bool \<times> bag" where
  "clearBagAllItemStatus i b =
     (True, updateAt [BAG_START..bagEnd b]
        (\<lambda>_ a. if i = CLEAR_BAG_SELLING_STATUS then setSelling False a
               else if i = CLEAR_BAG_MAIL_SELECT then setMailSelect False a
               else if i = CLEAR_BAG_SHOP_LOCKED then setShopLocked False a
               else if i = CLEAR_BAG_INTEGRAL then setIntegral False a else a) b)"

definition isDestroyEquip :: "bag \<Rightarrow> bool \<Rightarrow> bool" where
  "isDestroyEquip b t =
     list_ex (\<lambda>a. isDestroy (heap b a) \<or> \<not> t \<and> isWillDestroy (heap b a))
       (refsAt b (filter (\<lambda>n. n \<noteq> PET_POS \<and> n \<noteq> SPIRIT_POS \<and> n \<noteq> BLOOD_BOTTLE_POS)
          [EQUIP_POS_START..EQUIP_POS_END - 1]))"

section \<open>Searching the bag\<close>

text \<open>The lists the windows of the client ask for: the items of a range of slots
  that are not locked by a shop or being sold and satisfy a predicate.\<close>

definition operable :: "bag \<Rightarrow> int \<Rightarrow> (item \<Rightarrow> bool) \<Rightarrow> item_ref list" where
  "operable b from P =
     filter (\<lambda>r. \<not> isNotOperate (heap b r) \<and> P (heap b r)) (refsAt b [from..bagEnd b])"

definition getCanUsePetItemList :: "bag \<Rightarrow> item_ref list" where
  "getCanUsePetItemList b = operable b BAG_START isPetCanUseItem"

definition getCanUsePetItemList2 :: "bag \<Rightarrow> item_ref list" where
  "getCanUsePetItemList2 b = operable b BAG_START isPetCanUseItem2"

definition getPetItemReset1 :: "bag \<Rightarrow> item_ref list" where
  "getPetItemReset1 b = operable b BAG_START isPetReset1"

definition getMyBagPetItemReset1Num :: "bag \<Rightarrow> int" where
  "getMyBagPetItemReset1Num b = getItemNumByID b ITEM_ID_PET_RESET"

definition getPetItemReset2 :: "bag \<Rightarrow> item_ref list" where
  "getPetItemReset2 b = operable b BAG_START isPetReset2"

definition getMyBagPetItemReset2Num :: "bag \<Rightarrow> int" where
  "getMyBagPetItemReset2Num b = getItemNumByID b ITEM_ID_PET_RESET2"

definition getPetAgeItem :: "bag \<Rightarrow> item_ref list" where
  "getPetAgeItem b = operable b BAG_START isPetAgeItem"

definition getPetItemAddSkillList :: "bag \<Rightarrow> item_ref list" where
  "getPetItemAddSkillList b = operable b BAG_START isPetAddSkill"

definition getMyBagPetItemAddSkillNum :: "bag \<Rightarrow> int" where
  "getMyBagPetItemAddSkillNum b = getItemNumByID b ITEM_ID_PET_ADD_SKILL"

definition getItemByType :: "bag \<Rightarrow> int \<Rightarrow> int \<Rightarrow> item_ref list" where
  "getItemByType b e t = operable b t (\<lambda>n. item_type n = e)"

definition getItemByTypeList :: "bag \<Rightarrow> int list \<Rightarrow> int \<Rightarrow> item_ref list" where
  "getItemByTypeList b e t = operable b t (\<lambda>n. item_type n \<in> set e)"

definition getItemByIdList :: "bag \<Rightarrow> int list \<Rightarrow> item_ref list" where
  "getItemByIdList b t = operable b BAG_START (\<lambda>n. item_id n \<in> set t)"

definition getCanUseItemList :: "int \<Rightarrow> bag \<Rightarrow> int \<Rightarrow> item_ref list" where
  "getCanUseItemList now b t =
     operable b BAG_START (\<lambda>r. \<not> isPetCanUseItem r \<and> \<not> vipLevelReq r > vipLevel b
        \<and> power1 (powers r) \<notin> set [POWER_NEW_GET_PET, POWER_NEW_GET_ITEM, POWER_ENCHANT_ITEM,
             POWER_FORMATION_BOOK, POWER_TURN_MONSTER_CARD]
        \<and> \<not> isColorBox r \<and> \<not> isUpgradeIntensifyScroll r
        \<and> \<not> (isVipItem r \<and> vipLevel b > 0 \<and> isVipOverDue now b)
        \<and> isCanUse r t)"

definition getAttachGemItemList :: "bag \<Rightarrow> item \<Rightarrow> item_ref list" where
  "getAttachGemItemList b t =
     operable b BAG_START (\<lambda>a. item_type a = ITEM_TYPE_GEM
        \<and> \<not> (\<not> isAttackBroken t \<and> attachDone t > 0 \<and> attachPower t \<noteq> power1 (powers a)))"

definition getCanChangeAttachGemItemList :: "bag \<Rightarrow> item_ref list" where
  "getCanChangeAttachGemItemList b =
     operable b BAG_START (\<lambda>r. item_type r = ITEM_TYPE_GEM \<and> isReplaceInlayGem (power1 (powers r))
        \<and> powerValue1 (powers r) \<noteq> 1)"

definition getItemByID :: "bag \<Rightarrow> int \<Rightarrow> item_ref option" where
  "getItemByID b t = find (\<lambda>r. item_id (heap b r) = t) (refsAt b [BAG_START..bagEnd b])"

definition getBagItemByID :: "bag \<Rightarrow> int \<Rightarrow> item_ref list" where
  "getBagItemByID b t =
     filter (\<lambda>r. item_id (heap b r) = t) (refsAt b [BAG_START..bagEnd b])"

definition isEquipItemByIdInEquip :: "bag \<Rightarrow> int \<Rightarrow> bool" where
  "isEquipItemByIdInEquip b t =
     list_ex (\<lambda>r. item_id (heap b r) = t) (refsAt b [EQUIP_POS_START..EQUIP_POS_END - 1])"

definition quantityOf :: "bag \<Rightarrow> (item \<Rightarrow> bool) \<Rightarrow> int" where
  "quantityOf b P =
     sum_list (map (\<lambda>r. quantity (heap b r))
       (filter (\<lambda>r. P (heap b r)) (refsAt b [BAG_START..bagEnd b])))"

definition getIdentifyScrollNum :: "bag \<Rightarrow> int" where
  "getIdentifyScrollNum b = quantityOf b isIdentifyScrollItem"

definition getHighIdentifyScrollNum :: "bag \<Rightarrow> int" where
  "getHighIdentifyScrollNum b = quantityOf b isHighIdentifyScrollItem"

definition getUpgradeIdentifyScrollNum :: "bag \<Rightarrow> int" where
  "getUpgradeIdentifyScrollNum b = quantityOf b isUpgradeIdentifyScrollItem"

definition getIdentifyItemVector :: "bag \<Rightarrow> item_ref list" where
  "getIdentifyItemVector b =
     filter (\<lambda>r. isIdentifyItem (heap b r) \<and> \<not> isNotOperate (heap b r))
       (refsAt b [BAG_START..bagEnd b])"

definition getPagItemVector :: "bag \<Rightarrow> item_ref list" where
  "getPagItemVector b = refsAt b [BAG_START..bagEnd b]"

definition getAllEquip :: "bag \<Rightarrow> item_ref list" where
  "getAllEquip b = filter (\<lambda>r. isCanEquip (heap b r)) (refsAt b [0..bagEnd b])"

text \<open>The healing items ordered by strength.  The insertion loop reads the length
  of the growing list, and may in principle not end; \<open>None\<close> stands for that.\<close>

partial_function (option) quickInsert ::
  "(item_ref \<Rightarrow> int) \<Rightarrow> item_ref \<Rightarrow> nat \<Rightarrow> item_ref list \<Rightarrow> item_ref list option" where
  "quickInsert val l k xs =
     (if k < length xs then
        (if val l \<le> val (xs ! k) then Some (take k xs @ l # drop k xs)
         else quickInsert val l (k + 1) (if k = length xs - 1 then xs @ [l] else xs))
      else Some xs)"

definition quickStep ::
  "(item_ref \<Rightarrow> int) \<Rightarrow> item_ref \<Rightarrow> item_ref list option \<Rightarrow> item_ref list option" where
  "quickStep val l acc =
     (case acc of None \<Rightarrow> None
      | Some xs \<Rightarrow> if xs = [] then Some [l] else quickInsert val l 0 xs)"

definition getQuickHPItemVector :: "bag \<Rightarrow> item_ref list option" where
  "getQuickHPItemVector b =
     (let val = (\<lambda>r. getPower1AndPower2 (heap b r) POWER_HP_PERCENT)
      in fold (quickStep val)
           (filter (\<lambda>r. \<not> (0 \<ge> val r \<or> \<not> isCanUse (heap b r) CAN_USE_WORLD
                               \<and> \<not> isCanUse (heap b r) CAN_USE_ALL))
              (refsAt b [BAG_START..bagEnd b])) (Some []))"

section \<open>Room in the bag\<close>

text \<open>The slots a list of rewards needs, and the slots a choice of one reward
  from a second list needs: the second loop stops at the first item that needs
  a slot.\<close>

definition needsSlot :: "bag \<Rightarrow> item_ref \<Rightarrow> bool" where
  "needsSlot b a =
     (if isStackable (heap b a)
      then \<not> isValidBagPos b (nextFreePos b TYPE_BAG_POS (Some a) (quantity (heap b a)) False)
      else True)"

definition isBagFullForList ::
  "bag \<Rightarrow> item_ref option list option \<Rightarrow> item_ref option list option \<Rightarrow> bool" where
  "isBagFullForList b t i =
     (let free = countFreePos b;
          refs = (\<lambda>xs. case xs of None \<Rightarrow> [] | Some ys \<Rightarrow> map the (filter (\<lambda>y. y \<noteq> None) ys));
          n = length (filter (needsSlot b) (refs t));
          m = (if list_ex (needsSlot b) (refs i) then 1 else 0)
      in int n + m > free)"

definition isBagFull :: "bag \<Rightarrow> item_ref option \<Rightarrow> bool" where
  "isBagFull b e = isBagFullForList b (Some [e]) None"

definition isBagFullForItem ::
  "bag \<Rightarrow> item_ref option list option \<Rightarrow> item_ref option \<Rightarrow> bool" where
  "isBagFullForItem b e t = isBagFullForList b e (Some [t])"

section \<open>Copying the worn equipment\<close>

text \<open>\<open>setPlayerBagData\<close> clones the worn items into another bag; the clones are
  new objects, whose references \<open>fresh\<close> supplies.\<close>

definition setPlayerBagData :: "(int \<Rightarrow> item_ref) \<Rightarrow> bag \<Rightarrow> bag \<Rightarrow> bag" where
  "setPlayerBagData fresh b t =
     fold (\<lambda>p t. case getItem b p of None \<Rightarrow> t
           | Some r \<Rightarrow>
              let c = setVarItemDataTo (heap b r) (item_clone (heap b r) False)
              in snd (setItem (Some (fresh p)) None (modify (fresh p) (\<lambda>_. c) t)))
       [EQUIP_POS_START..EQUIP_POS_END - 1] (t\<lparr>bagEnd := bagEnd b\<rparr>)"

end
