(* ===== verification/Slots.thy ===== *)
theory Slots
  imports Bag
begin

text \<open>
  The contract the operations of the bag rely on, as two locales.  \<open>slot_store\<close>
  is an array of slots that hold references: what a slot holds after a write.
  \<open>object_store\<close> adds that every object knows the slot it lies in; its invariant
  \<open>ok\<close> says that the two views agree, which also means that no object lies in
  two slots.  Both are interpreted on the bag, \<open>object_store\<close> once for each way
  the code writes the position of an item.
\<close>

section \<open>Slots\<close>

locale slot_store =
  fixes look :: "'s \<Rightarrow> int \<Rightarrow> 'r option"
    and store_at :: "int \<Rightarrow> 'r option \<Rightarrow> 's \<Rightarrow> 's"
    and valid :: "'s \<Rightarrow> int \<Rightarrow> bool"
  assumes look_store: "valid s i \<Longrightarrow> look (store_at i v s) j = (if j = i then v else look s j)"
    and valid_store: "valid s i \<Longrightarrow> valid (store_at i v s) j = valid s j"
    and look_valid: "look s i = Some r \<Longrightarrow> valid s i"
begin

definition refs :: "'s \<Rightarrow> int list \<Rightarrow> 'r list" where
  "refs s ps = map the (filter (\<lambda>x. x \<noteq> None) (map (look s) ps))"

lemma refs_Nil [simp]: "refs s [] = []"
  by (simp add: refs_def)

lemma refs_Cons: "refs s (p # ps) = (case look s p of None \<Rightarrow> refs s ps | Some r \<Rightarrow> r # refs s ps)"
  by (simp add: refs_def split: option.splits)

lemma refs_append: "refs s (ps @ qs) = refs s ps @ refs s qs"
  by (simp add: refs_def)

lemma set_refs: "set (refs s ps) = {r. \<exists>p\<in>set ps. look s p = Some r}"
  by (induction ps) (auto simp: refs_Cons split: option.splits)

lemma refs_cong: "(\<And>p. p \<in> set ps \<Longrightarrow> look s p = look s' p) \<Longrightarrow> refs s ps = refs s' ps"
  by (induction ps) (auto simp: refs_Cons split: option.splits)

lemma refs_store_outside: "valid s i \<Longrightarrow> i \<notin> set ps \<Longrightarrow> refs (store_at i v s) ps = refs s ps"
  by (rule refs_cong) (auto simp: look_store)

text \<open>Writing one slot of a range exchanges one element of the multiset of the
  references in it.\<close>

lemma mset_refs_store:
  assumes "valid s i" "distinct ps" "i \<in> set ps"
  shows "mset (refs (store_at i v s) ps) + mset (refs s [i]) =
         mset (refs s ps) + mset (case v of None \<Rightarrow> [] | Some r \<Rightarrow> [r])"
  using assms(2,3)
proof (induction ps)
  case (Cons p ps)
  show ?case
  proof (cases "p = i")
    case True
    then have "refs (store_at i v s) ps = refs s ps"
      using Cons.prems assms(1) by (intro refs_store_outside) auto
    with True assms(1) show ?thesis
      by (auto simp: refs_Cons look_store split: option.splits)
  next
    case False
    with Cons assms(1) show ?thesis
      by (auto simp: refs_Cons look_store split: option.splits)
  qed
qed simp

lemma exchange_look:
  assumes "valid s i" "valid s j"
  shows "look (store_at j (look s i) (store_at i (look s j) s)) k =
     (if k = j then look s i else if k = i then look s j else look s k)"
  using assms by (simp add: look_store valid_store)

end

section \<open>Objects that know their slot\<close>

locale object_store = slot_store look store_at valid
  for look :: "'s \<Rightarrow> int \<Rightarrow> 'r option" and store_at valid +
  fixes pos :: "'s \<Rightarrow> 'r \<Rightarrow> int"
    and move :: "int \<Rightarrow> 'r \<Rightarrow> 's \<Rightarrow> 's"
  assumes pos_move: "pos (move i r s) r' = (if r' = r then i else pos s r')"
    and look_move: "look (move i r s) = look s"
    and valid_move: "valid (move i r s) = valid s"
    and pos_store: "pos (store_at i v s) = pos s"
begin

definition ok :: "'s \<Rightarrow> bool" where
  "ok s = (\<forall>i r. look s i = Some r \<longrightarrow> pos s r = i)"

lemma okD: "ok s \<Longrightarrow> look s i = Some r \<Longrightarrow> pos s r = i"
  by (simp add: ok_def)

lemma ok_unaliased: "ok s \<Longrightarrow> look s i = Some r \<Longrightarrow> look s j = Some r \<Longrightarrow> i = j"
  by (auto simp: ok_def)

lemma ok_refs_distinct: "ok s \<Longrightarrow> distinct ps \<Longrightarrow> distinct (refs s ps)"
  by (induction ps) (auto simp: refs_Cons set_refs dest: ok_unaliased split: option.splits)

lemma ok_clear: "ok s \<Longrightarrow> valid s i \<Longrightarrow> ok (store_at i None s)"
  by (auto simp: ok_def look_store pos_store split: if_splits)

text \<open>An object that lies in no slot, or only in the slot it is written to, can
  be put anywhere.\<close>

lemma ok_place:
  assumes "ok s" "valid s i" "\<And>j. look s j = Some r \<Longrightarrow> j = i"
  shows "ok (store_at i (Some r) (move i r s))"
  using assms by (auto simp: ok_def look_store look_move valid_move pos_store pos_move split: if_splits)

text \<open>Moving an object to another slot and clearing its old one.\<close>

lemma ok_relocate:
  assumes "ok s" "valid s i" "valid s k" "look s k = Some r"
  shows "ok (store_at k None (store_at i (Some r) (move i r s)))"
proof -
  let ?s = "store_at k None (store_at i (Some r) (move i r s))"
  have lk: "look ?s j = (if j = k then None else if j = i then Some r else look s j)" for j
    using assms(2,3) by (simp add: look_store valid_store look_move valid_move)
  have ps: "pos ?s q = (if q = r then i else pos s q)" for q
    by (simp add: pos_store pos_move)
  have "pos ?s q = j" if "look ?s j = Some q" for j q
  proof (cases "j = i")
    case True
    with that show ?thesis by (simp add: lk ps split: if_splits)
  next
    case False
    with that have q: "look s j = Some q" "j \<noteq> k" by (simp_all add: lk split: if_splits)
    with ok_unaliased [OF assms(1,4)] have "q \<noteq> r" by blast
    with q assms(1) show ?thesis by (simp add: ps okD)
  qed
  then show ?thesis unfolding ok_def by blast
qed

definition placed :: "int \<Rightarrow> 'r option \<Rightarrow> 's \<Rightarrow> 's" where
  "placed i v s = store_at i v (case v of None \<Rightarrow> s | Some r \<Rightarrow> move i r s)"

lemma look_placed:
  "valid s i \<Longrightarrow> look (placed i v s) j = (if j = i then v else look s j)"
  by (simp add: placed_def look_store look_move valid_move split: option.splits)

lemma valid_placed: "valid s i \<Longrightarrow> valid (placed i v s) j = valid s j"
  by (simp add: placed_def valid_store valid_move split: option.splits)

lemma pos_placed: "pos (placed i v s) r = (if v = Some r then i else pos s r)"
  by (simp add: placed_def pos_store pos_move split: option.splits)

text \<open>Exchanging two slots, with the positions of both objects rewritten.\<close>

lemma ok_exchange:
  assumes "ok s" "valid s i" "valid s j"
  shows "ok (placed i (look s j) (placed j (look s i) s))"
  using assms by (auto simp: ok_def look_placed valid_placed pos_placed dest: ok_unaliased
      split: if_splits)

lemma look_exchange:
  assumes "valid s i" "valid s j"
  shows "look (placed i (look s j) (placed j (look s i) s)) k =
     (if k = i then look s j else if k = j then look s i else look s k)"
  using assms by (simp add: look_placed valid_placed)

end

section \<open>The bag as a store\<close>

lemma modify_simps [simp]:
  "store (modify r f b) = store b" "bagEnd (modify r f b) = bagEnd b"
  "bagSize (modify r f b) = bagSize b" "numStroe (modify r f b) = numStroe b"
  "maxVIP (modify r f b) = maxVIP b" "vipLevel (modify r f b) = vipLevel b"
  "sent (modify r f b) = sent b"
  "heap (modify r f b) r' = (if r' = r then f (heap b r) else heap b r')"
  by (simp_all add: modify_def)

lemma put_simps [simp]:
  "heap (put i v b) = heap b" "bagEnd (put i v b) = bagEnd b" "bagSize (put i v b) = bagSize b"
  "numStroe (put i v b) = numStroe b" "maxVIP (put i v b) = maxVIP b"
  "vipLevel (put i v b) = vipLevel b" "store (put i v b) = jset (store b) i v"
  by (simp_all add: put_def)

lemma sendNt_simps [simp]:
  "heap (sendNt n b) = heap b" "bagEnd (sendNt n b) = bagEnd b" "bagSize (sendNt n b) = bagSize b"
  "numStroe (sendNt n b) = numStroe b" "maxVIP (sendNt n b) = maxVIP b"
  "vipLevel (sendNt n b) = vipLevel b" "store (sendNt n b) = store b"
  by (simp_all add: sendNt_def)

lemma isValidPos_modify [simp]: "isValidPos (modify r f b) = isValidPos b"
  by (rule ext) (simp add: isValidPos_def)

lemma isValidPos_sendNt [simp]: "isValidPos (sendNt n b) = isValidPos b"
  by (rule ext) (simp add: isValidPos_def)

lemma isValidPos_put [simp]: "isValidPos b i \<Longrightarrow> isValidPos (put i v b) j = isValidPos b j"
  by (simp add: isValidPos_def length_jset)

lemma getItem_slot: "getItem b i = slot b i"
  by (simp add: getItem_def isValidPos_def jget_def)

lemma getItem_modify [simp]: "getItem (modify r f b) = getItem b"
  by (rule ext) (simp add: getItem_slot)

lemma getItem_sendNt [simp]: "getItem (sendNt n b) = getItem b"
  by (rule ext) (simp add: getItem_slot)

lemma getItem_put: "isValidPos b i \<Longrightarrow> getItem (put i v b) j = (if j = i then v else getItem b j)"
  by (simp add: getItem_slot jget_jset isValidPos_def)

lemma getItem_valid: "getItem b i = Some r \<Longrightarrow> isValidPos b i"
  by (auto simp: getItem_def split: if_splits)

interpretation bag_slots: slot_store getItem put isValidPos
  by unfold_locales (auto simp: getItem_put getItem_valid)

lemma refsAt_refs: "refsAt = bag_slots.refs"
  by (intro ext) (simp add: refsAt_def bag_slots.refs_def)

lemma slotPos_moveTo [simp]: "slotPos (moveTo i m) = i"
  by (simp add: moveTo_def Let_def)

interpretation bag_swap: object_store getItem put isValidPos
  "\<lambda>b r. slotPos (heap b r)" "\<lambda>i r. modify r (moveTo i)"
  by unfold_locales auto

interpretation bag_set: object_store getItem put isValidPos
  "\<lambda>b r. slotPos (heap b r)" "\<lambda>i r. modify r (\<lambda>m. m\<lparr>slotPos := i\<rparr>)"
  by unfold_locales auto

text \<open>The invariant of the bag: the item in slot \<open>i\<close> has slot position \<open>i\<close>.\<close>

definition slots_ok :: "bag \<Rightarrow> bool" where
  "slots_ok b =
     list_all (\<lambda>i. case slot b i of None \<Rightarrow> True | Some r \<Rightarrow> slotPos (heap b r) = i)
       [0..int (length (store b)) - 1]"

lemma slots_ok_iff: "slots_ok b = (\<forall>i r. getItem b i = Some r \<longrightarrow> slotPos (heap b r) = i)"
proof -
  have "getItem b i = Some r \<Longrightarrow> 0 \<le> i \<and> i \<le> int (length (store b)) - 1" for i r
    by (drule getItem_valid) (simp add: isValidPos_def)
  then show ?thesis
    by (fastforce simp: slots_ok_def list_all_iff getItem_slot split: option.splits)
qed

lemma slots_ok_swap: "slots_ok = bag_swap.ok" and slots_ok_set: "slots_ok = bag_set.ok"
  by (intro ext, simp add: slots_ok_iff bag_swap.ok_def bag_set.ok_def)+

lemma slots_okD: "slots_ok b \<Longrightarrow> getItem b i = Some r \<Longrightarrow> slotPos (heap b r) = i"
  by (simp add: slots_ok_iff)

lemma slots_ok_unaliased: "slots_ok b \<Longrightarrow> getItem b i = Some r \<Longrightarrow> getItem b j = Some r \<Longrightarrow> i = j"
  by (auto simp: slots_ok_iff)

end
