(* ===== verification/BagOps.thy ===== *)
theory BagOps
  imports Slots
begin

text \<open>
  What each operation of the bag does to the slots and the items, branch by
  branch, and that every operation keeps the invariant \<open>bag_inv\<close>.  The step
  relation \<open>bag_step\<close> collects the operations with the conditions under which
  the client calls them; \<open>bag_inv\<close> holds in every reachable bag.
\<close>

section \<open>The invariant\<close>

definition qty_ok :: "bag \<Rightarrow> bool" where
  "qty_ok b =
     list_all (\<lambda>x. case x of None \<Rightarrow> True | Some r \<Rightarrow> 0 < quantity (heap b r)) (store b)"

definition bag_inv :: "bag \<Rightarrow> bool" where
  "bag_inv b = (slots_ok b \<and> qty_ok b \<and> 886 \<le> length (store b))"

lemma getItem_in_store: "(\<exists>i. getItem b i = Some r) = (Some r \<in> set (store b))"
proof
  assume "\<exists>i. getItem b i = Some r"
  then show "Some r \<in> set (store b)"
    by (auto simp: getItem_slot jget_def in_set_conv_nth split: if_splits) (metis nat_less_iff)
next
  assume "Some r \<in> set (store b)"
  then obtain k where "k < length (store b)" "store b ! k = Some r"
    by (auto simp: in_set_conv_nth)
  then have "getItem b (int k) = Some r" by (simp add: getItem_slot jget_nth)
  then show "\<exists>i. getItem b i = Some r" ..
qed

lemma qty_ok_iff: "qty_ok b = (\<forall>i r. getItem b i = Some r \<longrightarrow> 0 < quantity (heap b r))"
  by (auto simp: qty_ok_def list_all_iff getItem_in_store [symmetric] split: option.splits)

lemma bag_invI:
  assumes "\<And>i r. getItem b i = Some r \<Longrightarrow> slotPos (heap b r) = i \<and> 0 < quantity (heap b r)"
    "886 \<le> length (store b)"
  shows "bag_inv b"
  using assms by (auto simp: bag_inv_def slots_ok_iff qty_ok_iff)

lemma bag_invD:
  "bag_inv b \<Longrightarrow> getItem b i = Some r \<Longrightarrow> slotPos (heap b r) = i"
  "bag_inv b \<Longrightarrow> getItem b i = Some r \<Longrightarrow> 0 < quantity (heap b r)"
  by (simp_all add: bag_inv_def slots_ok_iff qty_ok_iff)

lemma length_put: "isValidPos b i \<Longrightarrow> length (jset (store b) i v) = length (store b)"
  by (simp add: isValidPos_def length_jset)

section \<open>Changes that keep positions\<close>

lemma bag_inv_modify:
  assumes "bag_inv b" "slotPos (f (heap b r)) = slotPos (heap b r)"
    "getItem b (slotPos (heap b r)) = Some r \<Longrightarrow> 0 < quantity (f (heap b r))"
  shows "bag_inv (modify r f b)"
  using assms bag_invD [OF assms(1)]
  by (intro bag_invI) (auto simp: bag_inv_def)

lemma bag_inv_sendNt [simp]: "bag_inv (sendNt n b) = bag_inv b"
  by (simp add: bag_inv_def slots_ok_iff qty_ok_iff)

lemma bag_inv_clear: "bag_inv b \<Longrightarrow> 0 \<le> i \<Longrightarrow> bag_inv (put i None b)"
proof (rule bag_invI)
  assume a: "bag_inv b" "0 \<le> i"
  show "slotPos (heap (put i None b) r) = j \<and> 0 < quantity (heap (put i None b) r)"
    if "getItem (put i None b) j = Some r" for j r
    using that a(2) bag_invD [OF a(1), of j r] by (simp add: getItem_slot jget_jset split: if_splits)
  show "886 \<le> length (store (put i None b))"
    using a by (auto simp: bag_inv_def length_jset_max)
qed

lemma bag_inv_clearItem: "bag_inv b \<Longrightarrow> 0 \<le> e \<Longrightarrow> bag_inv (clearItem e t b)"
proof (induction "nat (t - e + 1)" arbitrary: e b)
  case 0
  then show ?case by (simp add: clearItem_def)
next
  case (Suc n)
  then have "n = nat (t - (e + 1) + 1)" "e \<le> t" "0 \<le> e + 1" by auto
  with Suc.hyps(1)[of "e + 1" "put e None b"] Suc.prems show ?case
    by (simp add: clearItem_def upto_rec1 bag_inv_clear)
qed

text \<open>Bulk updates of the items in a list of slots.\<close>

lemma updateAt_Nil [simp]: "updateAt [] f b = b"
  by (simp add: updateAt_def)

lemma updateAt_Cons:
  "updateAt (p # ps) f b =
     updateAt ps f (case getItem b p of None \<Rightarrow> b | Some r \<Rightarrow> modify r (f p) b)"
  by (simp add: updateAt_def split: option.splits)

lemma updateAt_store [simp]: "store (updateAt ps f b) = store b"
  by (induction ps arbitrary: b) (auto simp: updateAt_Cons split: option.splits)

lemma getItem_updateAt [simp]: "getItem (updateAt ps f b) = getItem b"
  by (rule ext) (simp add: getItem_slot)

lemma heap_updateAt:
  assumes "slots_ok b" "distinct ps" "\<And>p m. slotPos (f p m) = slotPos m"
  shows "heap (updateAt ps f b) r =
     (if \<exists>p\<in>set ps. getItem b p = Some r then f (slotPos (heap b r)) (heap b r) else heap b r)"
  using assms(1,2)
proof (induction ps arbitrary: b)
  case (Cons p ps)
  show ?case
  proof (cases "getItem b p")
    case None
    with Cons show ?thesis by (simp add: updateAt_Cons)
  next
    case (Some q)
    let ?b = "modify q (f p) b"
    have ok: "slots_ok ?b" using Cons.prems(1) assms(3) by (simp add: slots_ok_iff)
    have q: "slotPos (heap b q) = p" using Cons.prems(1) Some by (rule slots_okD)
    have u: "\<not> (\<exists>p'\<in>set ps. getItem b p' = Some q)"
      using Cons.prems Some slots_ok_unaliased by fastforce
    show ?thesis
      using Cons.IH [OF ok] Cons.prems(2) Some q u
      by (cases "r = q") (auto simp: updateAt_Cons)
  qed
qed simp

lemma bag_inv_updateAt:
  assumes "bag_inv b" "\<And>p m. slotPos (f p m) = slotPos m" "\<And>p m. quantity (f p m) = quantity m"
  shows "bag_inv (updateAt ps f b)"
  using assms(1)
proof (induction ps arbitrary: b)
  case (Cons p ps)
  have "bag_inv (case getItem b p of None \<Rightarrow> b | Some r \<Rightarrow> modify r (f p) b)"
    using Cons.prems assms(2,3) by (auto intro!: bag_inv_modify dest: bag_invD split: option.splits)
  with Cons.IH show ?case by (simp add: updateAt_Cons)
qed simp

section \<open>Setting, removing and exchanging\<close>

lemma bag_inv_place:
  assumes "bag_inv b" "isValidPos b p" "Some r \<notin> set (store b)"
    "slotPos (f (heap b r)) = p" "0 < quantity (f (heap b r))"
  shows "bag_inv (put p (Some r) (modify r f b))"
proof (rule bag_invI)
  have fresh: "getItem b j \<noteq> Some r" for j using assms(3) getItem_in_store by metis
  show "slotPos (heap (put p (Some r) (modify r f b)) q) = j
      \<and> 0 < quantity (heap (put p (Some r) (modify r f b)) q)"
    if "getItem (put p (Some r) (modify r f b)) j = Some q" for j q
    using that assms(2,4,5) fresh bag_invD [OF assms(1), of j q]
    by (auto simp: getItem_put split: if_splits)
  show "886 \<le> length (store (put p (Some r) (modify r f b)))"
    using assms(1,2) by (simp add: bag_inv_def length_put)
qed

lemma bag_inv_setItem:
  "bag_inv b \<Longrightarrow> Some r \<notin> set (store b) \<Longrightarrow> 0 < quantity (heap b r) \<Longrightarrow>
   bag_inv (snd (setItem (Some r) t b))"
  by (auto simp: setItem_def Let_def intro: bag_inv_place)

lemma bag_inv_removeItem: "bag_inv b \<Longrightarrow> bag_inv (snd (removeItem e b))"
  by (auto simp: removeItem_def isValidPos_def intro: bag_inv_clear split: option.splits)

text \<open>Lowering the quantity of a stored item and dropping it when nothing is
  left.\<close>

lemma bag_inv_setQuantity:
  assumes "bag_inv b" "getItem b e = Some i" "b1 = modify i (\<lambda>m. m\<lparr>quantity := g m\<rparr>) b"
  shows "bag_inv (if quantity (heap b1 i) \<le> 0 then put e None b1 else b1)"
proof -
  have e: "0 \<le> e" "isValidPos b e" using getItem_valid [OF assms(2)] by (simp_all add: isValidPos_def)
  have other: "j = e" if "getItem b j = Some i" for j
    using that assms(1,2) slots_ok_unaliased unfolding bag_inv_def by metis
  show ?thesis
  proof (cases "0 < g (heap b i)")
    case True
    with assms show ?thesis by (auto intro!: bag_inv_modify)
  next
    case False
    have "bag_inv (put e None b1)"
    proof (rule bag_invI)
      show "slotPos (heap (put e None b1) r) = j \<and> 0 < quantity (heap (put e None b1) r)"
        if "getItem (put e None b1) j = Some r" for j r
        using that assms(3) e other bag_invD [OF assms(1), of j r]
        by (auto simp: getItem_put split: if_splits)
      show "886 \<le> length (store (put e None b1))"
        using assms(1,3) e by (simp add: bag_inv_def length_put)
    qed
    with False assms(3) show ?thesis by simp
  qed
qed

lemma bag_inv_removeBagItemByPos: "bag_inv b \<Longrightarrow> bag_inv (snd (removeBagItemByPos e t b))"
  using bag_inv_setQuantity [OF _ _ refl, of b e _ "\<lambda>m. quantity m - t"]
  by (auto simp: removeBagItemByPos_def Let_def simp del: modify_simps split: option.splits)

lemma bag_inv_removeBagItemByPosProto: "bag_inv b \<Longrightarrow> bag_inv (snd (removeBagItemByPosProto e t b))"
  using bag_inv_setQuantity [OF _ _ refl, of b e _ "\<lambda>m. t"]
  by (auto simp: removeBagItemByPosProto_def Let_def simp del: modify_simps split: option.splits)

lemma bag_inv_removeLoop: "bag_inv b \<Longrightarrow> bag_inv (snd (removeLoop ns t i b))"
proof (induction ns t i b rule: removeLoop.induct)
  case (2 n ns t i b)
  show ?case
  proof (cases "getItem b n")
    case None
    with 2 show ?thesis by simp
  next
    case (Some a)
    then have n: "0 \<le> n" by (auto dest: getItem_valid simp: isValidPos_def)
    have "bag_inv (modify a (\<lambda>m. m\<lparr>quantity := quantity m - i\<rparr>) b)" if "quantity (heap b a) > i"
      using 2(4) that by (auto intro!: bag_inv_modify)
    moreover have "bag_inv (put n None b)" using 2(4) n by (rule bag_inv_clear)
    ultimately show ?thesis using 2 Some by auto
  qed
qed simp

lemma bag_inv_removeBagItemByNum: "bag_inv b \<Longrightarrow> bag_inv (snd (removeBagItemByNum t i b))"
  by (simp add: removeBagItemByNum_def bag_inv_removeLoop)

text \<open>Exchange of two slots.\<close>

lemma swapItem_valid:
  assumes "isValidPos b t" "isValidPos b i"
  shows "swapItem t i b =
     (1, bag_swap.placed t (getItem b i) (bag_swap.placed i (getItem b t) b))"
  using assms by (simp add: swapItem_def Let_def bag_swap.placed_def getItem_slot)

lemma getItem_swapItem:
  assumes "isValidPos b t" "isValidPos b i"
  shows "getItem (snd (swapItem t i b)) k =
     (if k = t then getItem b i else if k = i then getItem b t else getItem b k)"
  using bag_swap.look_exchange [OF assms] by (simp add: swapItem_valid [OF assms])

lemma heap_placed:
  "heap (bag_swap.placed i v b) r = (if v = Some r then moveTo i (heap b r) else heap b r)"
  by (simp add: bag_swap.placed_def split: option.splits)

lemma placed_fields [simp]:
  "bagEnd (bag_swap.placed i v b) = bagEnd b" "maxVIP (bag_swap.placed i v b) = maxVIP b"
  "numStroe (bag_swap.placed i v b) = numStroe b" "vipLevel (bag_swap.placed i v b) = vipLevel b"
  by (simp_all add: bag_swap.placed_def split: option.splits)

lemma length_placed: "isValidPos b i \<Longrightarrow> length (store (bag_swap.placed i v b)) = length (store b)"
  by (simp add: bag_swap.placed_def length_put split: option.splits)

lemma swapItem_fields [simp]:
  "bagEnd (snd (swapItem t i b)) = bagEnd b" "maxVIP (snd (swapItem t i b)) = maxVIP b"
  "numStroe (snd (swapItem t i b)) = numStroe b" "vipLevel (snd (swapItem t i b)) = vipLevel b"
  by (simp_all add: swapItem_def Let_def split: option.splits)

lemma length_swapItem [simp]: "length (store (snd (swapItem t i b))) = length (store b)"
  by (auto simp: swapItem_def Let_def isValidPos_def length_jset split: option.splits)

lemma isValidPos_swapItem [simp]: "isValidPos (snd (swapItem t i b)) = isValidPos b"
  by (rule ext) (simp add: isValidPos_def)

lemma moveTo_fields [simp]:
  "quantity (moveTo i m) = quantity m" "item_id (moveTo i m) = item_id m"
  "item_type (moveTo i m) = item_type m" "stackNum (moveTo i m) = stackNum m"
  "durMax (moveTo i m) = durMax m" "status (moveTo i m) = status m" "name (moveTo i m) = name m"
  by (simp_all add: moveTo_def Let_def)

lemma heap_swapItem_fields [simp]:
  "quantity (heap (snd (swapItem t i b)) r) = quantity (heap b r)"
  "item_id (heap (snd (swapItem t i b)) r) = item_id (heap b r)"
  "item_type (heap (snd (swapItem t i b)) r) = item_type (heap b r)"
  "stackNum (heap (snd (swapItem t i b)) r) = stackNum (heap b r)"
  "name (heap (snd (swapItem t i b)) r) = name (heap b r)"
  by (auto simp: swapItem_def Let_def split: option.splits)

lemma bag_inv_swapItem: "bag_inv b \<Longrightarrow> bag_inv (snd (swapItem t i b))"
proof (cases "isValidPos b t \<and> isValidPos b i")
  case True
  assume inv: "bag_inv b"
  with True have ok: "slots_ok (snd (swapItem t i b))"
    using bag_swap.ok_exchange [of b t i]
    by (simp add: swapItem_valid slots_ok_swap bag_inv_def)
  have "qty_ok (snd (swapItem t i b))"
    using True bag_invD(2) [OF inv] by (auto simp: qty_ok_iff getItem_swapItem split: if_splits)
  with ok inv show ?thesis by (simp add: bag_inv_def)
qed (auto simp: swapItem_def)

section \<open>Adding and transferring\<close>

lemma findFreePos_cases:
  "findFreePos b e t = - 1 \<and> (\<forall>i. e \<le> i \<and> i \<le> t \<longrightarrow> \<not> (isValidPos b i \<and> getItem b i = None))
   \<or> (e \<le> findFreePos b e t \<and> findFreePos b e t \<le> t \<and> isValidPos b (findFreePos b e t)
      \<and> getItem b (findFreePos b e t) = None
      \<and> (\<forall>j. e \<le> j \<and> j < findFreePos b e t \<longrightarrow> \<not> (isValidPos b j \<and> getItem b j = None)))"
  unfolding findFreePos_def
  by (auto simp: find_None_all getItem_slot dest!: find_Some_least split: option.splits)

lemma isValidPos_neg [simp]: "\<not> isValidPos b (- 1)"
  by (simp add: isValidPos_def)

lemma nextFreePos_range:
  assumes "isValidPos b (nextFreePos b e t i o')"
  shows "fst (getStartEndPos b e) \<le> nextFreePos b e t i o'
       \<and> nextFreePos b e t i o' \<le> snd (getStartEndPos b e)"
proof (cases t)
  case None
  with assms show ?thesis by (simp add: nextFreePos_def)
next
  case (Some r)
  obtain x y where xy: "getStartEndPos b e = (x, y)" by fastforce
  show ?thesis
  proof (cases "isStackable (heap b r) \<and> find (canMerge b (heap b r) i) [x..y] \<noteq> None")
    case True
    then obtain l where l: "find (canMerge b (heap b r) i) [x..y] = Some l" by auto
    have "isValidPos b l" using find_Some_least [OF l] by (simp add: canMerge_def)
    with True l find_Some_least [OF l] Some xy show ?thesis by (simp add: nextFreePos_def)
  next
    case False
    then have "nextFreePos b e t i o' = (if \<not> o' then - 1 else findFreePos b x y)"
      using Some xy by (auto simp: nextFreePos_def nextFreePosForType_def)
    with assms findFreePos_cases [of b x y] xy show ?thesis
      by (auto split: if_splits)
  qed
qed

text \<open>The three outcomes of an addition: refused without a change, merged into a
  stack that has room, or placed in a free slot.\<close>

lemma addItem_3_outcome:
  obtains (refused) c where "c < 0" "addItem_3 e t i b = (c, b)"
  | (merged) r p q where "t = Some r" "0 < i" "isValidPos b p" "getItem b p = Some q"
      "isStackable (heap b r)" "quantity (heap b q) + i \<le> stackNum (heap b q)"
      "p = nextFreePos b e t i True"
      "addItem_3 e t i b = (p, modify q (\<lambda>m. m\<lparr>quantity := quantity m + i\<rparr>) b)"
  | (placed) r p where "t = Some r" "0 < i" "isValidPos b p" "getItem b p = None"
      "p = nextFreePos b e t i True"
      "addItem_3 e t i b = (p, sendNt (NEW_EQUIP r) (sendNt (ON_BAG_HINT True)
         (put p (Some r) (modify r (\<lambda>m. m\<lparr>quantity := (if \<not> isStackable m then 1 else i),
             slotPos := p, showNewSign := True\<rparr>) b))))"
proof (cases t)
  case None
  then show ?thesis using refused [of "- 1"] by (simp add: addItem_3_def)
next
  case (Some r)
  let ?p = "nextFreePos b e t i True"
  consider "i \<le> 0" | "0 < i" "isStackable (heap b r)" "i > stackNum (heap b r)"
    | "0 < i" "\<not> (isStackable (heap b r) \<and> i > stackNum (heap b r))" by fastforce
  then show ?thesis
  proof cases
    case 1 with Some show ?thesis using refused [of "- 2"] by (simp add: addItem_3_def)
  next
    case 2 with Some show ?thesis using refused [of "- 3"] by (simp add: addItem_3_def)
  next
    case 3
    show ?thesis
    proof (cases "isValidPos b ?p")
      case False with 3 Some show ?thesis using refused [of "- 4"]
        by (simp add: addItem_3_def Let_def)
    next
      case valid: True
      show ?thesis
      proof (cases "getItem b ?p")
        case None
        then show ?thesis using placed [of r ?p] 3 Some valid
          by (simp add: addItem_3_def Let_def getItem_slot)
      next
        case (Some q)
        then show ?thesis
          using merged [of r ?p q] refused [of "- 5"] refused [of "- 6"] 3 \<open>t = Some r\<close> valid
          by (cases "isStackable (heap b r)";
              cases "quantity (heap b q) + i > stackNum (heap b q)")
            (auto simp: addItem_3_def Let_def getItem_slot)
      qed
    qed
  qed
qed

text \<open>When the item has no slot yet, or its old slot is cleared afterwards.\<close>

lemma bag_inv_addItem_3:
  assumes "bag_inv b" "Some r \<notin> set (store b)"
  shows "bag_inv (snd (addItem_3 e (Some r) i b))"
proof (cases e "Some r" i b rule: addItem_3_outcome)
  case (merged r' p q)
  then have "bag_inv (modify q (\<lambda>m. m\<lparr>quantity := quantity m + i\<rparr>) b)"
    using assms(1) by (auto intro!: bag_inv_modify dest: bag_invD)
  with merged show ?thesis by simp
next
  case (placed r' p)
  then show ?thesis using assms by (auto intro!: bag_inv_place)
qed (use assms in simp)

lemma bag_inv_relocate:
  assumes "bag_inv b" "getItem b k = Some r" "isValidPos b p" "k \<noteq> p"
    "slotPos (f (heap b r)) = p" "0 < quantity (f (heap b r))"
  shows "bag_inv (put k None (put p (Some r) (modify r f b)))"
proof (rule bag_invI)
  have k: "isValidPos b k" using assms(2) by (rule getItem_valid)
  have only: "j = k" if "getItem b j = Some r" for j
    using that assms(1,2) slots_ok_unaliased unfolding bag_inv_def by metis
  let ?b = "put k None (put p (Some r) (modify r f b))"
  have lk: "getItem ?b j = (if j = k then None else if j = p then Some r else getItem b j)" for j
    using k assms(3) by (simp add: getItem_put)
  show "slotPos (heap ?b q) = j \<and> 0 < quantity (heap ?b q)" if "getItem ?b j = Some q" for j q
    using that assms(5,6) only bag_invD [OF assms(1), of j q] by (auto simp: lk split: if_splits)
  show "886 \<le> length (store ?b)"
    using assms(1,3) k by (simp add: bag_inv_def isValidPos_def length_jset)
qed

lemma bag_inv_transfer:
  assumes "bag_inv b" "getItem b (slotPos (heap b r)) = Some r"
    and add: "add = (\<lambda>e b. case e of None \<Rightarrow> (- 1, b) | Some r \<Rightarrow> addItem_3 ty e (quantity (heap b r)) b)"
    and rng: "\<And>b' p. bagEnd b' = bagEnd b \<Longrightarrow> numStroe b' = numStroe b \<Longrightarrow> maxVIP b' = maxVIP b \<Longrightarrow>
      fst (getStartEndPos b ty) \<le> p \<Longrightarrow> p \<le> snd (getStartEndPos b ty) \<Longrightarrow> to_ok b' p"
  shows "bag_inv (snd (transfer from_ok add to_ok (Some r) b))"
proof (cases "from_ok b (slotPos (heap b r))")
  case True
  let ?t = "slotPos (heap b r)" and ?n = "quantity (heap b r)"
  have t: "0 \<le> ?t" using getItem_valid [OF assms(2)] by (simp add: isValidPos_def)
  show ?thesis
  proof (cases ty "Some r" ?n b rule: addItem_3_outcome)
    case (refused c)
    with True assms(1) t add show ?thesis
      by (auto simp: transfer_def Let_def bag_inv_clear)
  next
    case (merged r' p q)
    let ?b = "modify q (\<lambda>m. m\<lparr>quantity := quantity m + ?n\<rparr>) b"
    have "bag_inv ?b" using merged assms(1) by (auto intro!: bag_inv_modify dest: bag_invD)
    with merged True t add show ?thesis
      by (auto simp: transfer_def Let_def bag_inv_clear)
  next
    case (placed r' p)
    then have pt: "p \<noteq> ?t" using assms(2) by auto
    have p: "fst (getStartEndPos b ty) \<le> p" "p \<le> snd (getStartEndPos b ty)"
      using placed nextFreePos_range by metis+
    let ?f = "\<lambda>m. m\<lparr>quantity := (if \<not> isStackable m then 1 else ?n), slotPos := p, showNewSign := True\<rparr>"
    let ?b = "sendNt (NEW_EQUIP r) (sendNt (ON_BAG_HINT True) (put p (Some r) (modify r ?f b)))"
    have ok: "to_ok ?b p" by (rule rng) (use p in simp_all)
    have eq: "put ?t None ?b = sendNt (NEW_EQUIP r) (sendNt (ON_BAG_HINT True)
        (put ?t None (put p (Some r) (modify r ?f b))))"
      by (simp add: put_def sendNt_def)
    have "bag_inv (put ?t None (put p (Some r) (modify r ?f b)))"
      using assms(1,2) placed pt by (intro bag_inv_relocate) auto
    then have "bag_inv (put ?t None ?b)" by (simp only: eq bag_inv_sendNt)
    with placed True ok add show ?thesis
      by (simp add: transfer_def Let_def)
  qed
qed (use assms(1) in \<open>simp add: transfer_def\<close>)

lemma addItem_1_as_addItem_3:
  "addItem_1 = (\<lambda>e b. case e of None \<Rightarrow> (- 1, b)
      | Some r \<Rightarrow> addItem_3 TYPE_BAG_POS e (quantity (heap b r)) b)"
  by (intro ext) (simp add: addItem_1_def addItem_2_def split: option.splits)

lemmas add_as_addItem_3 =
  addItem_1_as_addItem_3 ext [OF ext, OF addStorageItem_def]
  ext [OF ext, OF addVIPStorageItem_def] ext [OF ext, OF addHightVIPStorageItem_def]

lemmas storage_range_defs =
  getStartEndPos_def isValidBagPos_def isValidStoragePos_def getStorageEnd_def
  isValidVipStoragePos_def getVipStorageEnd_def isValidHightVipStoragePos_def
  getHightVipStorageEnd_def

lemma bag_inv_storage:
  assumes "bag_inv b" "getItem b (slotPos (heap b r)) = Some r"
  shows "bag_inv (snd (putItemByStorage (Some r) b))"
    "bag_inv (snd (putItemByVIPStorage (Some r) b))"
    "bag_inv (snd (putItemByHightVIPStorage (Some r) b))"
    "bag_inv (snd (getItemByStorage (Some r) b))"
    "bag_inv (snd (getItemByVIPStorage (Some r) b))"
    "bag_inv (snd (getItemByHightVIPStorage (Some r) b))"
  unfolding putItemByStorage_def putItemByVIPStorage_def putItemByHightVIPStorage_def
    getItemByStorage_def getItemByVIPStorage_def getItemByHightVIPStorage_def
  by (rule bag_inv_transfer [OF assms], rule add_as_addItem_3,
      auto simp: storage_range_defs split: if_splits)+

lemma bag_inv_changeItemPos:
  assumes "bag_inv b" "getItem b t = Some r" "isValidPos b i"
  shows "bag_inv (snd (changeItemPos (Some r) t i b))"
proof -
  have t: "0 \<le> t" using getItem_valid [OF assms(2)] by (simp add: isValidPos_def)
  have mv: "bag_inv (put t None (modify r (\<lambda>m. m\<lparr>slotPos := i\<rparr>) (put i (Some r) b)))"
  proof (cases "t = i")
    case False
    have "modify r (\<lambda>m. m\<lparr>slotPos := i\<rparr>) (put i (Some r) b)
        = put i (Some r) (modify r (\<lambda>m. m\<lparr>slotPos := i\<rparr>) b)"
      by (simp add: put_def modify_def)
    with assms False show ?thesis
      by (auto intro!: bag_inv_relocate dest: bag_invD)
  next
    case True
    have "slotPos (heap b r) = i" using bag_invD(1) [OF assms(1,2)] True by simp
    then have "(heap b)(r := (heap b r)\<lparr>slotPos := i\<rparr>) = heap b" by (intro ext) simp
    then have "put t None (modify r (\<lambda>m. m\<lparr>slotPos := i\<rparr>) (put i (Some r) b)) = put t None b"
      using True t by (simp add: put_def modify_def jset_same_slot)
    with assms(1) t show ?thesis by (simp add: bag_inv_clear)
  qed
  have mg: "bag_inv (modify q (\<lambda>m. m\<lparr>quantity := quantity m + quantity (heap b r)\<rparr>) b)"
    if "slot b i = Some q" for q
    using assms that bag_invD(2)[OF assms(1)]
    by (auto intro!: bag_inv_modify add_pos_pos simp: getItem_slot)
  show ?thesis
    using mv mg t by (auto simp: changeItemPos_def Let_def bag_inv_clear split: option.splits)
qed

section \<open>Equipping keeps the invariant\<close>

lemma bag_inv_equipWeapon: "bag_inv b \<Longrightarrow> bag_inv (snd (equipWeapon t b))"
  by (simp add: equipWeapon_def Let_def case_prod_beta bag_inv_swapItem)

lemma bag_inv_equipLoop: "bag_inv b \<Longrightarrow> equipLoop ls r one b = Some res \<Longrightarrow> bag_inv (snd res)"
  by (induction ls) (auto simp: bag_inv_swapItem split: if_splits option.splits)

lemma bag_inv_equipItem: "bag_inv b \<Longrightarrow> bag_inv (snd (equipItem t i b))"
  by (simp add: equipItem_def Let_def bag_inv_equipWeapon bag_inv_swapItem
      split: option.splits) (auto dest: bag_inv_equipLoop)

lemma bag_inv_equipItemForPos: "bag_inv b \<Longrightarrow> bag_inv (snd (equipItemForPos t b))"
  by (simp add: equipItemForPos_def bag_inv_equipItem split: option.splits)

lemma bag_inv_unequipItem: "bag_inv b \<Longrightarrow> bag_inv (snd (unequipItem t b))"
  by (simp add: unequipItem_def Let_def bag_inv_swapItem split: option.splits)

lemma bag_inv_changeDurability: "bag_inv b \<Longrightarrow> bag_inv (changeDurability t i b)"
  by (simp add: changeDurability_def) (rule bag_inv_updateAt, simp_all)

lemma bag_inv_checkEquipTimeItem: "bag_inv b \<Longrightarrow> bag_inv (checkEquipTimeItem now b)"
  unfolding checkEquipTimeItem_def Let_def by (rule bag_inv_updateAt) simp_all

lemma bag_inv_clearBagAllItemStatus: "bag_inv b \<Longrightarrow> bag_inv (snd (clearBagAllItemStatus i b))"
  unfolding clearBagAllItemStatus_def snd_conv
  by (rule bag_inv_updateAt)
    (simp_all add: setSelling_def setMailSelect_def setShopLocked_def setIntegral_def)

lemma bag_inv_setBagSize [simp]: "bag_inv (setBagSize e b) = bag_inv b"
  by (simp add: setBagSize_def bag_inv_def slots_ok_iff qty_ok_iff getItem_slot)

lemma bag_inv_new: "bag_inv (new_bag h num vip mvip)"
proof (rule bag_invI)
  show "slotPos (heap (new_bag h num vip mvip) r) = i \<and> 0 < quantity (heap (new_bag h num vip mvip) r)"
    if "getItem (new_bag h num vip mvip) i = Some r" for i r
    using that by (simp add: new_bag_def getItem_slot jget_def split: if_splits)
qed (simp add: new_bag_def)

section \<open>The bag as a state machine\<close>

text \<open>The operations with the conditions of their call sites: an item that is
  added is a new object that lies in no slot and has a positive quantity; an
  item that is moved lies in the slot it names.\<close>

inductive bag_step :: "bag \<Rightarrow> bag \<Rightarrow> bool" where
  setItem: "Some r \<notin> set (store b) \<Longrightarrow> 0 < quantity (heap b r) \<Longrightarrow>
     bag_step b (snd (setItem (Some r) t b))"
| addItem: "Some r \<notin> set (store b) \<Longrightarrow> bag_step b (snd (addItem_3 ty (Some r) i b))"
| removeItem: "bag_step b (snd (removeItem e b))"
| removeByPos: "bag_step b (snd (removeBagItemByPos e t b))"
| removeByPosProto: "bag_step b (snd (removeBagItemByPosProto e t b))"
| removeByNum: "bag_step b (snd (removeBagItemByNum t i b))"
| clearItem: "0 \<le> e \<Longrightarrow> bag_step b (clearItem e t b)"
| changeItemPos: "getItem b t = Some r \<Longrightarrow> isValidPos b i \<Longrightarrow>
     bag_step b (snd (changeItemPos (Some r) t i b))"
| swapItem: "bag_step b (snd (swapItem t i b))"
| equipItem: "bag_step b (snd (equipItem t i b))"
| equipItemForPos: "bag_step b (snd (equipItemForPos t b))"
| unequipItem: "bag_step b (snd (unequipItem r b))"
| putStorage: "getItem b (slotPos (heap b r)) = Some r \<Longrightarrow>
     bag_step b (snd (putItemByStorage (Some r) b))"
| putVIPStorage: "getItem b (slotPos (heap b r)) = Some r \<Longrightarrow>
     bag_step b (snd (putItemByVIPStorage (Some r) b))"
| putHightVIPStorage: "getItem b (slotPos (heap b r)) = Some r \<Longrightarrow>
     bag_step b (snd (putItemByHightVIPStorage (Some r) b))"
| getStorage: "getItem b (slotPos (heap b r)) = Some r \<Longrightarrow>
     bag_step b (snd (getItemByStorage (Some r) b))"
| getVIPStorage: "getItem b (slotPos (heap b r)) = Some r \<Longrightarrow>
     bag_step b (snd (getItemByVIPStorage (Some r) b))"
| getHightVIPStorage: "getItem b (slotPos (heap b r)) = Some r \<Longrightarrow>
     bag_step b (snd (getItemByHightVIPStorage (Some r) b))"
| changeDurability: "bag_step b (changeDurability t i b)"
| checkEquipTimeItem: "bag_step b (checkEquipTimeItem now b)"
| clearStatus: "bag_step b (snd (clearBagAllItemStatus i b))"
| setBagSize: "bag_step b (setBagSize e b)"

lemmas bag_inv_intros =
  bag_inv_setItem bag_inv_addItem_3 bag_inv_removeItem bag_inv_removeBagItemByPos
  bag_inv_removeBagItemByPosProto bag_inv_removeBagItemByNum bag_inv_clearItem
  bag_inv_changeItemPos bag_inv_swapItem bag_inv_equipItem bag_inv_equipItemForPos
  bag_inv_unequipItem bag_inv_storage bag_inv_changeDurability bag_inv_checkEquipTimeItem
  bag_inv_clearBagAllItemStatus

lemma bag_inv_step: "bag_step b b' \<Longrightarrow> bag_inv b \<Longrightarrow> bag_inv b'"
  by (induction rule: bag_step.induct) (simp_all add: bag_inv_intros)

end
