(* ===== verification/BagProps.thy ===== *)
theory BagProps
  imports BagOps
begin

text \<open>
  The properties of the bag: conservation of quantities by removal and by the
  storage transfers, the slot rules of the equipment, wear, and the search for
  free slots.
\<close>

section \<open>Quantities\<close>

text \<open>The number of items with a given id in a list of slots.\<close>

definition slotCount :: "bag \<Rightarrow> int \<Rightarrow> int \<Rightarrow> int" where
  "slotCount b t p =
     (case getItem b p of None \<Rightarrow> 0
      | Some r \<Rightarrow> if item_id (heap b r) = t then quantity (heap b r) else 0)"

definition countId :: "bag \<Rightarrow> int list \<Rightarrow> int \<Rightarrow> int" where
  "countId b ps t = sum_list (map (slotCount b t) ps)"

lemma getItemNumByID_countId: "getItemNumByID b t = countId b [BAG_START..bagEnd b] t"
proof -
  have "sum_list (map (\<lambda>r. quantity (heap b r)) (filter (\<lambda>r. item_id (heap b r) = t) (refsAt b ps)))
      = countId b ps t" for ps
    by (induction ps)
      (auto simp: countId_def slotCount_def refsAt_refs bag_slots.refs_Cons split: option.splits)
  then show ?thesis by (simp add: getItemNumByID_def)
qed

lemma countId_Cons: "countId b (p # ps) t = slotCount b t p + countId b ps t"
  by (simp add: countId_def)

lemma countId_cong:
  "(\<And>p. p \<in> set ps \<Longrightarrow> slotCount b t p = slotCount b' t p) \<Longrightarrow> countId b ps t = countId b' ps t"
  unfolding countId_def by (intro arg_cong [where f = sum_list] map_cong) auto

lemma slotCount_put:
  "isValidPos b i \<Longrightarrow> p \<noteq> i \<Longrightarrow> slotCount (put i v b) t p = slotCount b t p"
  by (simp add: slotCount_def getItem_put split: option.splits)

lemma slotCount_modify:
  "getItem b p \<noteq> Some a \<Longrightarrow> slotCount (modify a f b) t p = slotCount b t p"
  by (simp add: slotCount_def split: option.splits)

lemma slotCount_sendNt [simp]: "slotCount (sendNt n b) t p = slotCount b t p"
  by (simp add: slotCount_def split: option.splits)

lemma slotCount_nonneg: "bag_inv b \<Longrightarrow> 0 \<le> slotCount b t p"
  by (auto simp: slotCount_def dest: bag_invD split: option.splits)

lemma countId_change_one:
  assumes "distinct ps" "p \<in> set ps" "\<And>q. q \<noteq> p \<Longrightarrow> q \<in> set ps \<Longrightarrow> slotCount b' t q = slotCount b t q"
  shows "countId b' ps t = countId b ps t - slotCount b t p + slotCount b' t p"
  unfolding countId_def by (rule sum_list_change_one) (use assms in auto)

lemma countId_sendNt [simp]: "countId (sendNt n b) ps t = countId b ps t"
  by (rule countId_cong) simp

subsection \<open>Removal by number\<close>

text \<open>\<open>took b b' ns t i\<close>: \<open>b'\<close> has exactly \<open>i\<close> items of id \<open>t\<close> fewer in the slots \<open>ns\<close>,
  and nothing else has changed its number.\<close>

definition took :: "bag \<Rightarrow> bag \<Rightarrow> int list \<Rightarrow> int \<Rightarrow> int \<Rightarrow> bool" where
  "took b b' ns t i =
     (countId b' ns t = countId b ns t - i
      \<and> (\<forall>t' p. p \<notin> set ns \<or> t' \<noteq> t \<longrightarrow> slotCount b' t' p = slotCount b t' p))"

lemma took_skip:
  "slotCount b t n = 0 \<Longrightarrow> n \<notin> set ns \<Longrightarrow> took b b' ns t i \<Longrightarrow> took b b' (n # ns) t i"
  by (auto simp: took_def countId_Cons)

lemma took_one:
  assumes "n \<notin> set ns" "\<And>t' p. slotCount b' t' p = slotCount b t' p - (if p = n \<and> t' = t then i else 0)"
  shows "took b b' (n # ns) t i"
proof -
  have "countId b' ns t = countId b ns t" by (rule countId_cong) (use assms in auto)
  with assms show ?thesis by (auto simp: took_def countId_Cons)
qed

lemma took_modify:
  assumes "bag_inv b" "getItem b n = Some a" "item_id (heap b a) = t" "n \<notin> set ns"
  shows "took b (modify a (\<lambda>m. m\<lparr>quantity := quantity m - i\<rparr>) b) (n # ns) t i"
proof (rule took_one [OF assms(4)])
  fix t' p
  have "p = n" if "getItem b p = Some a"
    using that assms(1,2) slots_ok_unaliased unfolding bag_inv_def by metis
  then show "slotCount (modify a (\<lambda>m. m\<lparr>quantity := quantity m - i\<rparr>) b) t' p =
      slotCount b t' p - (if p = n \<and> t' = t then i else 0)"
    using assms(2,3) by (cases "p = n") (auto simp: slotCount_def split: option.splits)
qed

lemma took_clear:
  assumes "getItem b n = Some a" "item_id (heap b a) = t" "n \<notin> set ns"
  shows "took b (put n None b) (n # ns) t (quantity (heap b a))"
  using assms getItem_valid [OF assms(1)]
  by (intro took_one) (auto simp: slotCount_def getItem_put split: option.splits)

lemma took_trans:
  "took b b1 (n # ns) t i \<Longrightarrow> slotCount b1 t n = 0 \<Longrightarrow> n \<notin> set ns \<Longrightarrow> took b1 b' ns t j \<Longrightarrow>
   took b b' (n # ns) t (i + j)"
  by (auto simp: took_def countId_Cons)

lemma removeLoop_exact:
  assumes "bag_inv b" "distinct ns" "0 \<le> i" "i \<le> countId b ns t"
  shows "fst (removeLoop ns t i b) = 1 \<and> took b (snd (removeLoop ns t i b)) ns t i"
  using assms
proof (induction ns t i b rule: removeLoop.induct)
  case (1 t i b)
  then show ?case by (simp add: countId_def took_def)
next
  case (2 n ns t i b)
  have n: "n \<notin> set ns" using "2.prems" by simp
  show ?case
  proof (cases "\<exists>a. getItem b n = Some a \<and> item_id (heap b a) = t")
    case False
    then have z: "slotCount b t n = 0" by (auto simp: slotCount_def split: option.splits)
    then have "i \<le> countId b ns t" using "2.prems" by (simp add: countId_Cons)
    with 2 z n False show ?thesis by (cases "getItem b n") (auto intro: took_skip)
  next
    case True
    then obtain a where a: "getItem b n = Some a" "item_id (heap b a) = t" by blast
    have q: "slotCount b t n = quantity (heap b a)" using a by (simp add: slotCount_def)
    let ?c = "put n None b" and ?i = "i - quantity (heap b a)"
    have clear: "took b ?c (n # ns) t (quantity (heap b a))" using a n by (rule took_clear)
    show ?thesis
    proof (cases "quantity (heap b a) < i")
      case False
      with a n clear "2.prems"(1) show ?thesis by (auto intro: took_modify)
    next
      case less: True
      have v: "isValidPos b n" using a(1) by (rule getItem_valid)
      then have inv: "bag_inv ?c" and z: "slotCount ?c t n = 0"
        using "2.prems"(1)
        by (auto simp: isValidPos_def slotCount_def getItem_put intro: bag_inv_clear)
      have "countId ?c ns t = countId b ns t"
        using clear q z by (simp add: took_def countId_Cons)
      then have "?i \<le> countId ?c ns t" using "2.prems"(4) q by (simp add: countId_Cons)
      with "2.IH"(2)[of a] less a inv "2.prems"(2)
      have "fst (removeLoop ns t ?i ?c) = 1 \<and> took ?c (snd (removeLoop ns t ?i ?c)) ns t ?i"
        by simp
      with took_trans [OF clear z n] less a show ?thesis by fastforce
    qed
  qed
qed

section \<open>Properties of the bag\<close>



text \<open>A small bag for the concrete instances: slots 8 and 10 hold a one-handed
  sword and a hand item, slot 30 a two-handed sword, slot 31 a stack of seven
  potions, slot 32 one of three, slot 33 is free.\<close>

definition demo_item :: "item_ref \<Rightarrow> item" where
  "demo_item r =
     (if r = 0 then new_item\<lparr>item_id := 100, item_type := ITEM_TYPE_WEAPON_ONEHAND_SWORD,
        quantity := 1, stackNum := 1, slotPos := 8, durability := 50, durMax := 40\<rparr>
      else if r = 1 then new_item\<lparr>item_id := 101, item_type := ITEM_TYPE_WEAPON_ONEHAND_HAND,
        quantity := 1, stackNum := 1, slotPos := 10, durability := 5, durMax := 40\<rparr>
      else if r = 2 then new_item\<lparr>item_id := 102, item_type := ITEM_TYPE_WEAPON_TWOHAND_SWORD,
        quantity := 1, stackNum := 1, slotPos := 30, durability := 40, durMax := 40\<rparr>
      else if r = 3 then new_item\<lparr>item_id := 200, item_type := ITEM_TYPE_ANYTIME_USE,
        quantity := 7, stackNum := 20, slotPos := 31,
        powers := no_powers\<lparr>power1 := POWER_HP_PERCENT, powerValue1 := 10\<rparr>\<rparr>
      else new_item\<lparr>item_id := 200, item_type := ITEM_TYPE_ANYTIME_USE,
        quantity := 3, stackNum := 20, slotPos := 32,
        powers := no_powers\<lparr>power1 := POWER_HP_PERCENT, powerValue1 := 30\<rparr>\<rparr>)"

definition demo_bag :: bag where
  "demo_bag =
     \<lparr>heap = demo_item,
      store = replicate 8 None @ [Some 0, None, Some 1] @ replicate 19 None
        @ [Some 2, Some 3, Some 4] @ replicate 853 None,
      bagSize = 4, bagEnd = 33, numStroe = 2, vipLevel = 0, maxVIP = 0, sent = []\<rparr>"

lemma length_demo_bag: "length (store demo_bag) = 886"
  by (simp add: demo_bag_def)

lemma getItem_demo_bag:
  "getItem demo_bag i =
     (if i = 8 then Some 0 else if i = 10 then Some 1 else if i = 30 then Some 2
      else if i = 31 then Some 3 else if i = 32 then Some 4 else None)"
  by (auto simp: getItem_slot demo_bag_def jget_append jget_Cons)

lemma isValidPos_demo_bag: "isValidPos demo_bag i = (0 \<le> i \<and> i < 886)"
  by (simp add: isValidPos_def length_demo_bag)

lemma demo_bag_fields:
  "heap demo_bag = demo_item" "bagEnd demo_bag = 33" "numStroe demo_bag = 2"
  by (simp_all add: demo_bag_def)

lemma bag_inv_demo: "bag_inv demo_bag"
  by (rule bag_invI)
    (auto simp: getItem_demo_bag demo_bag_fields demo_item_def length_demo_bag split: if_splits)

lemmas demo_simps = getItem_demo_bag isValidPos_demo_bag demo_bag_fields demo_item_def

text \<open>C4: removing a number of items by id from the bag takes exactly that number
  when the bag holds enough of them, changes no other number, and refuses
  without a change when it does not.\<close>

theorem removeBagItemByNum_exact:
  assumes "bag_inv b" "0 \<le> i"
  shows "if i \<le> getItemNumByID b t
     then fst (removeBagItemByNum t i b) = 1
       \<and> took b (snd (removeBagItemByNum t i b)) [BAG_START..bagEnd b] t i
     else removeBagItemByNum t i b = (- 1, b)"
proof (cases "i \<le> getItemNumByID b t")
  case True
  have eq: "countId b' (rev ps) t' = countId b' ps t'" for b' ps t'
    by (simp add: countId_def rev_map [symmetric])
  have tk: "took b b' (rev ps) t i = took b b' ps t i" for b' ps
    by (simp add: took_def eq)
  show ?thesis
    using True assms removeLoop_exact [of b "rev [BAG_START..bagEnd b]" i t]
    by (simp add: removeBagItemByNum_def getItemNumByID_countId eq tk)
qed (simp add: removeBagItemByNum_def)

theorem removeBagItemByNum_exact_witness:
  "getItemNumByID demo_bag 200 = 10 \<and> fst (removeBagItemByNum 200 4 demo_bag) = 1
   \<and> took demo_bag (snd (removeBagItemByNum 200 4 demo_bag)) [30..33] 200 4"
proof -
  have n: "getItemNumByID demo_bag 200 = 10"
    by (simp add: getItemNumByID_countId countId_def slotCount_def demo_simps upto_rec1)
  with removeBagItemByNum_exact [OF bag_inv_demo, of 4 200] show ?thesis
    by (simp add: demo_bag_fields)
qed

text \<open>exchanging two valid slots succeeds, exchanges exactly their contents,
  undoes itself, and never raises a durability.\<close>

theorem swapItem_exchange:
  assumes "isValidPos b t" "isValidPos b i"
  shows "fst (swapItem t i b) = 1
    \<and> (\<forall>k. getItem (snd (swapItem t i b)) k =
          (if k = t then getItem b i else if k = i then getItem b t else getItem b k))
    \<and> (\<forall>k. getItem (snd (swapItem t i (snd (swapItem t i b)))) k = getItem b k)
    \<and> (\<forall>r. durability (heap (snd (swapItem t i b)) r) \<le> durability (heap b r))"
proof -
  have mv: "durability (moveTo p m) \<le> durability m" for p m
    by (simp add: moveTo_def Let_def)
  have "durability (heap (snd (swapItem t i b)) r) \<le> durability (heap b r)" for r
    using mv [of t "moveTo i (heap b r)"] mv [of i "heap b r"] mv [of t "heap b r"]
    by (auto simp: swapItem_valid [OF assms] heap_placed)
  moreover have "fst (swapItem t i b) = 1" by (simp add: swapItem_valid [OF assms])
  ultimately show ?thesis using assms by (simp add: getItem_swapItem)
qed

theorem swapItem_exchange_witness:
  "fst (swapItem 8 33 demo_bag) = 1 \<and> getItem (snd (swapItem 8 33 demo_bag)) 33 = Some 0
   \<and> getItem (snd (swapItem 8 33 demo_bag)) 8 = None"
  using swapItem_exchange [of demo_bag 8 33] by (simp add: demo_simps)

section \<open>Free slots\<close>

text \<open>the search for a free slot returns the first free valid slot of the
  range, and -1 exactly when every valid slot of the range is occupied.\<close>

theorem findFreePos_least:
  "if \<exists>i. e \<le> i \<and> i \<le> t \<and> isValidPos b i \<and> getItem b i = None
   then e \<le> findFreePos b e t \<and> findFreePos b e t \<le> t \<and> isValidPos b (findFreePos b e t)
        \<and> getItem b (findFreePos b e t) = None
        \<and> \<not> (\<exists>j. e \<le> j \<and> j < findFreePos b e t \<and> isValidPos b j \<and> getItem b j = None)
   else findFreePos b e t = - 1"
  using findFreePos_cases [of b e t] by auto

text \<open>The position an addition chooses: a stack with room if there is one,
  otherwise the first free slot.\<close>

lemma nextFreePos_found:
  assumes "isValidPos b (nextFreePos b ty (Some r) n True)"
  shows "getItem b (nextFreePos b ty (Some r) n True) = None
    \<or> (\<exists>q. getItem b (nextFreePos b ty (Some r) n True) = Some q \<and> isStackable (heap b r)
        \<and> item_id (heap b q) = item_id (heap b r) \<and> \<not> isShopLocked (heap b q)
        \<and> quantity (heap b q) + n \<le> stackNum (heap b q))"
proof -
  obtain x y where xy: "getStartEndPos b ty = (x, y)" by fastforce
  show ?thesis
  proof (cases "isStackable (heap b r) \<and> find (canMerge b (heap b r) n) [x..y] \<noteq> None")
    case True
    then obtain l where l: "find (canMerge b (heap b r) n) [x..y] = Some l" by auto
    then have m: "canMerge b (heap b r) n l" using find_Some_least by blast
    then have "isValidPos b l" by (simp add: canMerge_def)
    with True l xy have "nextFreePos b ty (Some r) n True = l" by (simp add: nextFreePos_def)
    with m True show ?thesis by (auto simp: canMerge_def getItem_slot split: option.splits)
  next
    case False
    then have "nextFreePos b ty (Some r) n True = findFreePos b x y"
      using xy by (auto simp: nextFreePos_def nextFreePosForType_def)
    with assms findFreePos_cases [of b x y] show ?thesis by auto
  qed
qed

lemma slotCount_raise:
  assumes "bag_inv b" "getItem b p = Some q"
  shows "slotCount (modify q (\<lambda>m. m\<lparr>quantity := quantity m + n\<rparr>) b) t k =
    slotCount b t k + (if k = p \<and> t = item_id (heap b q) then n else 0)"
proof (cases "k = p")
  case False
  have "getItem b k \<noteq> Some q"
    using False assms slots_ok_unaliased unfolding bag_inv_def by metis
  with False show ?thesis by (simp add: slotCount_modify)
qed (use assms in \<open>simp add: slotCount_def\<close>)

text \<open>The object \<open>r\<close> is placed in the free slot \<open>p\<close>; it lies in no other slot than
  possibly \<open>k0\<close>.\<close>

lemma slotCount_place:
  assumes "isValidPos b p" "getItem b p = None" "item_id (f (heap b r)) = item_id (heap b r)"
    "\<And>j. getItem b j = Some r \<Longrightarrow> j = k0" "k \<noteq> k0"
  shows "slotCount (put p (Some r) (modify r f b)) t k =
    slotCount b t k + (if k = p \<and> t = item_id (heap b r) then quantity (f (heap b r)) else 0)"
proof (cases "k = p")
  case False
  with assms(4,5) have "getItem b k \<noteq> Some r" by blast
  with False assms(1) show ?thesis by (simp add: slotCount_put slotCount_modify)
qed (use assms in \<open>simp add: slotCount_def getItem_put\<close>)

text \<open>C34: adding \<open>n\<close> of an item that lies in no slot either leaves the bag
  unchanged with a negative code, or returns a slot of the requested range and
  raises the number of that item in any list of slots that contains it by
  exactly \<open>n\<close> (by one when the item does not stack), changing no other number.\<close>

theorem addItem_3_adds:
  assumes "bag_inv b" "Some r \<notin> set (store b)" "addItem_3 ty (Some r) n b = (c, b')"
  shows "c < 0 \<and> b' = b
    \<or> fst (getStartEndPos b ty) \<le> c \<and> c \<le> snd (getStartEndPos b ty)
      \<and> (\<forall>t p. slotCount b' t p = slotCount b t p
            + (if p = c \<and> t = item_id (heap b r)
               then (if isStackable (heap b r) then n else 1) else 0))"
proof (cases ty "Some r" n b rule: addItem_3_outcome)
  case (refused d)
  with assms(3) show ?thesis by simp
next
  case (merged r' p q)
  have "item_id (heap b q) = item_id (heap b r)"
    using nextFreePos_found [of b ty r n] merged by auto
  with merged assms nextFreePos_range [of b ty "Some r" n True] slotCount_raise [OF assms(1) merged(4)]
  show ?thesis by auto
next
  case (placed r' p)
  let ?f = "\<lambda>m. m\<lparr>quantity := (if \<not> isStackable m then 1 else n), slotPos := p, showNewSign := True\<rparr>"
  have fresh: "getItem b k \<noteq> Some r" for k using assms(2) getItem_in_store by metis
  have "slotCount b' t k = slotCount b t k + (if k = p \<and> t = item_id (heap b r)
      then (if isStackable (heap b r) then n else 1) else 0)" for t k
    using slotCount_place [of b p ?f r "k - 1" k t] placed fresh assms(3) by auto
  then show ?thesis
    using placed assms(3) nextFreePos_range [of b ty "Some r" n True] by auto
qed

theorem addItem_3_adds_witness:
  "\<exists>c b'. addItem_3 TYPE_BAG_POS (Some 5) 2 demo_bag = (c, b') \<and> bag_inv demo_bag
     \<and> (c < 0 \<and> b' = demo_bag \<or> 30 \<le> c \<and> c \<le> 33
        \<and> (\<forall>p. slotCount b' 200 p = slotCount demo_bag 200 p + (if p = c then 2 else 0)))"
proof -
  obtain c b' where e: "addItem_3 TYPE_BAG_POS (Some 5) 2 demo_bag = (c, b')" by fastforce
  have f: "Some 5 \<notin> set (store demo_bag)" by (simp add: demo_bag_def)
  have s: "isStackable (heap demo_bag 5)" "item_id (heap demo_bag 5) = 200"
    by (simp_all add: demo_bag_fields demo_item_def isStackable_def isTimeItem_def isShopLocked_def
        hasStatus_def jand_def new_item_def)
  from addItem_3_adds [OF bag_inv_demo f e] s e show ?thesis
    by (auto simp: getStartEndPos_def demo_bag_fields bag_inv_demo)
qed

section \<open>Storage\<close>

text \<open>What a transfer between two disjoint ranges does, for the shape all six
  transfers share.\<close>

definition moved :: "bag \<Rightarrow> bag \<Rightarrow> item_ref \<Rightarrow> int \<Rightarrow> int \<Rightarrow> bool" where
  "moved b b' r from to =
     (\<forall>t p. slotCount b' t p = slotCount b t p
        + (if p = to \<and> t = item_id (heap b r) then quantity (heap b r) else 0)
        - (if p = from \<and> t = item_id (heap b r) then quantity (heap b r) else 0))"

lemma moved_clear:
  assumes "getItem b k = Some r" "isValidPos b1 k" "p \<noteq> k"
    "\<And>t j. j \<noteq> k \<Longrightarrow> slotCount b1 t j = slotCount b t j
       + (if j = p \<and> t = item_id (heap b r) then quantity (heap b r) else 0)"
  shows "moved b (put k None b1) r k p"
  unfolding moved_def
proof (intro allI)
  fix t j
  show "slotCount (put k None b1) t j = slotCount b t j
        + (if j = p \<and> t = item_id (heap b r) then quantity (heap b r) else 0)
        - (if j = k \<and> t = item_id (heap b r) then quantity (heap b r) else 0)"
  proof (cases "j = k")
    case True
    with assms(1,2,3) show ?thesis by (simp add: slotCount_def getItem_put)
  next
    case False
    with assms show ?thesis by (simp add: slotCount_put)
  qed
qed

lemma transfer_moves:
  assumes inv: "bag_inv b" and r: "getItem b (slotPos (heap b r)) = Some r"
    and one: "isStackable (heap b r) \<or> quantity (heap b r) = 1"
    and add: "add = (\<lambda>e b. case e of None \<Rightarrow> (- 1, b) | Some r \<Rightarrow> addItem_3 ty e (quantity (heap b r)) b)"
    and rng: "\<And>b' p. bagEnd b' = bagEnd b \<Longrightarrow> numStroe b' = numStroe b \<Longrightarrow> maxVIP b' = maxVIP b \<Longrightarrow>
      to_ok b' p = (fst (getStartEndPos b ty) \<le> p \<and> p \<le> snd (getStartEndPos b ty))"
    and pos: "0 \<le> fst (getStartEndPos b ty)"
    and dis: "\<not> to_ok b (slotPos (heap b r))"
    and res: "transfer from_ok add to_ok (Some r) b = (done, b')"
  shows "if done then getItem b' (slotPos (heap b r)) = None
      \<and> (\<exists>p. to_ok b p \<and> moved b b' r (slotPos (heap b r)) p)
    else b' = b"
proof (cases "from_ok b (slotPos (heap b r))")
  case True
  let ?k = "slotPos (heap b r)" and ?n = "quantity (heap b r)"
  have only: "j = ?k" if "getItem b j = Some r" for j
    using that r inv slots_ok_unaliased unfolding bag_inv_def by metis
  have v: "isValidPos b ?k" using r by (rule getItem_valid)
  show ?thesis
  proof (cases ty "Some r" ?n b rule: addItem_3_outcome)
    case (refused c)
    then show ?thesis using res True add rng [OF refl refl refl] pos
      by (auto simp: transfer_def Let_def split: if_splits)
  next
    case (merged r' p q)
    let ?b = "modify q (\<lambda>m. m\<lparr>quantity := quantity m + ?n\<rparr>) b"
    have ok: "to_ok ?b p" "to_ok b p"
      using nextFreePos_range [of b ty "Some r" ?n True] merged(3,7) rng [of ?b p] rng [of b p]
      by simp_all
    have "item_id (heap b q) = item_id (heap b r)"
      using nextFreePos_found [of b ty r ?n] merged by auto
    with ok dis r v slotCount_raise [OF inv merged(4)] have "moved b (put ?k None ?b) r ?k p"
      by (intro moved_clear) auto
    with ok merged res True add v show ?thesis
      by (auto simp: transfer_def Let_def getItem_put)
  next
    case (placed r' p)
    let ?f = "\<lambda>m. m\<lparr>quantity := (if \<not> isStackable m then 1 else ?n), slotPos := p, showNewSign := True\<rparr>"
    let ?b = "sendNt (NEW_EQUIP r) (sendNt (ON_BAG_HINT True) (put p (Some r) (modify r ?f b)))"
    have ok: "to_ok ?b p" "to_ok b p"
      using nextFreePos_range [of b ty "Some r" ?n True] placed(3,5) rng [of ?b p] rng [of b p]
      by simp_all
    have "slotCount ?b t j = slotCount b t j
        + (if j = p \<and> t = item_id (heap b r) then ?n else 0)" if "j \<noteq> ?k" for t j
      using slotCount_place [of b p ?f r ?k j t] placed only that one by auto
    with ok dis r v placed(3) have "moved b (put ?k None ?b) r ?k p"
      by (intro moved_clear) auto
    with ok placed res True add v show ?thesis
      by (auto simp: transfer_def Let_def getItem_put)
  qed
qed (use res in \<open>simp add: transfer_def\<close>)



text \<open>the storage is reported full as soon as every slot but the last is
  occupied, although the search for a free slot still finds the last one.\<close>

theorem isStorageFull_ignores_last:
  assumes "\<And>p. STORE_START \<le> p \<Longrightarrow> p < getStorageEnd b \<Longrightarrow> getItem b p \<noteq> None"
    "1 \<le> numStroe b" "isValidPos b (getStorageEnd b)" "getItem b (getStorageEnd b) = None"
  shows "isStorageFull b \<and> nextFreePosForType b TYPE_STORAGE_POS = getStorageEnd b"
proof -
  have "findFreePos b STORE_START (getStorageEnd b) = getStorageEnd b"
    using findFreePos_cases [of b STORE_START "getStorageEnd b"] assms
    by (smt (verit) getStorageEnd_def)
  with assms(1) show ?thesis
    by (auto simp: isStorageFull_def getStartEndPos_def nextFreePosForType_def list_all_iff)
qed

theorem isStorageFull_ignores_last_witness:
  "numStroe (put 630 (Some 9) demo_bag) = 2 \<and> isStorageFull (put 630 (Some 9) demo_bag)
   \<and> nextFreePosForType (put 630 (Some 9) demo_bag) TYPE_STORAGE_POS = 631"
  using isStorageFull_ignores_last [of "put 630 (Some 9) demo_bag"]
  by (simp add: getStorageEnd_def getItem_put demo_simps)

end
