(* ===== verification/EquipProps.thy ===== *)
theory EquipProps
  imports BagProps
begin

text \<open>
  The rules of the equipment slots: an item is only ever worn in a slot of its
  type, a two-handed weapon leaves the other hand empty, taking an item off
  moves it to a free slot of the bag; and the wear of equipment and the list of
  healing items.
\<close>

section \<open>Slots and types\<close>

text \<open>The slots that have a type.  Slot 17 is filled by the server only.\<close>

definition worn :: "int \<Rightarrow> bool" where
  "worn p = (isValidEquipPos p \<and> p \<noteq> SPIRIT_POS)"

definition equip_ok :: "bag \<Rightarrow> bool" where
  "equip_ok b =
     list_all (\<lambda>p. case getItem b p of None \<Rightarrow> True
               | Some r \<Rightarrow> isValidByEquipTypeAndPos p (item_type (heap b r)))
       (filter worn [EQUIP_POS_START..EQUIP_POS_END - 1])"

definition slotClass :: "int \<Rightarrow> int list" where
  "slotClass p =
     (if p = WEAPON_LEFT_POS \<or> p = WEAPON_RIGHT_POS then [WEAPON_LEFT_POS, WEAPON_RIGHT_POS]
      else if p = ARMOR_RING_LEFT_POS \<or> p = ARMOR_RING_RIGHT_POS
      then [ARMOR_RING_LEFT_POS, ARMOR_RING_RIGHT_POS] else [p])"

lemma equip_ok_iff:
  "equip_ok b = (\<forall>p r. worn p \<longrightarrow> getItem b p = Some r \<longrightarrow>
     isValidByEquipTypeAndPos p (item_type (heap b r)))"
  by (auto simp: equip_ok_def list_all_iff worn_def isValidEquipPos_def split: option.splits)

lemma slotClass_posns:
  "getEquipPosByType ty = Some ps \<Longrightarrow> p \<in> set ps \<Longrightarrow> ps = slotClass p \<and> worn p"
  by (auto simp: getEquipPosByType_def slotClass_def worn_def isValidEquipPos_def split: if_splits)

lemma fits_posns: "isValidByEquipTypeAndPos p ty = (getEquipPosByType ty = Some (slotClass p) \<and> worn p)"
  by (auto simp: isValidByEquipTypeAndPos_def slotClass_def dest: slotClass_posns
      split: option.splits)

lemma fits_worn: "isValidByEquipTypeAndPos p ty \<Longrightarrow> worn p"
  by (simp add: fits_posns)

lemma equip_ok_swap:
  assumes "equip_ok b" "isValidPos b x" "isValidPos b y"
    "\<And>r. getItem b x = Some r \<Longrightarrow> worn y \<Longrightarrow> isValidByEquipTypeAndPos y (item_type (heap b r))"
    "\<And>r. getItem b y = Some r \<Longrightarrow> worn x \<Longrightarrow> isValidByEquipTypeAndPos x (item_type (heap b r))"
  shows "equip_ok (snd (swapItem x y b))"
  using assms by (auto simp: equip_ok_iff getItem_swapItem split: if_splits)

lemma swapItem_invalid:
  "\<not> (isValidPos b x \<and> isValidPos b y) \<Longrightarrow> snd (swapItem x y b) = b \<and> fst (swapItem x y b) \<noteq> 1"
  by (auto simp: swapItem_def)

lemma equip_ok_swap_bag:
  assumes "equip_ok b" "\<not> worn y"
    "\<And>r. getItem b y = Some r \<Longrightarrow> isValidByEquipTypeAndPos x (item_type (heap b r))"
  shows "equip_ok (snd (swapItem x y b))"
  using assms equip_ok_swap [of b x y] swapItem_invalid [of b x y] by fastforce

lemma bag_not_worn [simp]: "30 \<le> t \<Longrightarrow> \<not> worn t"
  by (simp add: worn_def isValidEquipPos_def)

lemma weapon_worn [simp]: "worn 8" "worn 10"
  by (simp_all add: worn_def isValidEquipPos_def)

lemma weapon_class: "isValidByEquipTypeAndPos 8 ty = isValidByEquipTypeAndPos 10 ty"
  by (simp add: fits_posns slotClass_def)

lemma equip_ok_weapon:
  "equip_ok b \<Longrightarrow> getItem b p = Some r \<Longrightarrow> p = 8 \<or> p = 10 \<Longrightarrow>
   isValidByEquipTypeAndPos 8 (item_type (heap b r)) \<and> isValidByEquipTypeAndPos 10 (item_type (heap b r))"
  using weapon_class weapon_worn unfolding equip_ok_iff by metis

lemma nextFree_bag: "isValidPos b (nextFreePosForType b TYPE_BAG_POS) \<Longrightarrow>
   30 \<le> nextFreePosForType b TYPE_BAG_POS \<and> nextFreePosForType b TYPE_BAG_POS \<le> bagEnd b
   \<and> getItem b (nextFreePosForType b TYPE_BAG_POS) = None"
  using findFreePos_cases [of b 30 "bagEnd b"]
  by (auto simp: nextFreePosForType_def getStartEndPos_def)

lemma swapItem_fst: "fst (swapItem x y b) = 1 \<longleftrightarrow> isValidPos b x \<and> isValidPos b y"
  by (simp add: swapItem_def Let_def)

section \<open>Equipping\<close>

text \<open>The three ways \<open>equipWeapon\<close> proceeds for a weapon that lies in the bag.\<close>

lemma equipWeapon_bag:
  assumes "getItem b t = Some r" "30 \<le> t" "equip_ok b"
    "isValidByEquipTypeAndPos 8 (item_type (heap b r))"
  shows "equip_ok (snd (equipWeapon t b))
    \<and> (fst (equipWeapon t b) = 1 \<longrightarrow>
         getItem (snd (equipWeapon t b)) 8 = Some r \<and> getItem (snd (equipWeapon t b)) 10 = None)"
proof -
  have v: "isValidPos b t" using assms(1) by (rule getItem_valid)
  then have v8: "isValidPos b 8" and v10: "isValidPos b 10"
    using assms(2) by (simp_all add: isValidPos_def)
  have used: "countUsedSlot_1 b [8, 10] =
      (if getItem b 8 = None then 0 else 1) + (if getItem b 10 = None then 0 else 1)"
    using v8 v10 by (simp add: countUsedSlot_1_def getItem_slot)
  let ?p = "nextFreePosForType b TYPE_BAG_POS"
  let ?b1 = "snd (swapItem 8 t b)"
  let ?b0 = "snd (swapItem 8 10 b)"
  have ok1: "equip_ok ?b1" using assms by (intro equip_ok_swap_bag [of b t 8]) auto
  have ok0: "equip_ok ?b0"
    using assms(3) v8 v10 by (intro equip_ok_swap) (auto dest: equip_ok_weapon)
  have ok01: "equip_ok (snd (swapItem 8 t ?b0))"
    using ok0 assms v8 v10 by (intro equip_ok_swap_bag [of ?b0 t 8]) (auto simp: getItem_swapItem)
  have free: "getItem ?b1 ?p = None" if "isValidPos b ?p"
    using nextFree_bag [OF that] v v8 assms(1,2) by (auto simp: getItem_swapItem)
  have ok2: "equip_ok (snd (swapItem 10 ?p ?b1))"
    using ok1 free nextFree_bag [of b] swapItem_invalid [of ?b1 10 ?p]
    by (cases "isValidPos b ?p") (auto intro!: equip_ok_swap_bag [of ?b1 ?p 10])
  have pt: "?p \<noteq> t" "?p \<noteq> 8" if "isValidPos b ?p"
    using nextFree_bag [OF that] assms(1) by auto
  have undo: "equip_ok (snd (swapItem t 8 (snd (swapItem 10 ?p ?b1))))" if "\<not> isValidPos b ?p"
  proof -
    have "snd (swapItem 10 ?p ?b1) = ?b1" using that swapItem_invalid [of ?b1 10 ?p] by simp
    moreover have "equip_ok (snd (swapItem t 8 ?b1))"
      using ok1 v v8 assms(1-3)
      by (intro equip_ok_swap [of ?b1 t 8]) (auto simp: getItem_swapItem equip_ok_iff)
    ultimately show ?thesis by simp
  qed
  show ?thesis
    using assms(1-3) v v8 v10 ok1 ok01 ok2 undo pt free
    by (auto simp: equipWeapon_def Let_def case_prod_beta used getItem_swapItem swapItem_fst
        simp flip: getItem_slot)
qed

lemma equipLoop_bag:
  assumes "getItem b t = Some r" "30 \<le> t" "slotPos (heap b r) = t" "equip_ok b"
    "\<And>l. l \<in> set ls \<Longrightarrow> isValidByEquipTypeAndPos l (item_type (heap b r))"
    "equipLoop ls r one b = Some res"
  shows "equip_ok (snd res) \<and> (fst res = 1 \<longrightarrow> (\<exists>l\<in>set ls. getItem (snd res) l = Some r))"
  using assms(5,6)
proof (induction ls)
  case (Cons l ls)
  have v: "isValidPos b t" using assms(1) by (rule getItem_valid)
  have fit: "isValidByEquipTypeAndPos l (item_type (heap b r))" using Cons.prems(1) by simp
  have "worn l" using fit by (rule fits_worn)
  then have vl: "isValidEquipPos l" "isValidPos b l"
    using v assms(2) by (auto simp: worn_def isValidEquipPos_def isValidPos_def)
  have sw: "equip_ok (snd (swapItem l t b))"
    by (rule equip_ok_swap_bag) (use assms(1,2,4) fit in auto)
  have at: "getItem (snd (swapItem l t b)) l = Some r"
    using assms(1) v vl(2) by (simp add: getItem_swapItem)
  consider "res = swapItem l t b" | "equipLoop ls r one b = Some res"
    using Cons.prems(2) vl(1) assms(3) by (auto split: option.splits if_splits)
  then show ?case using Cons.IH Cons.prems(1) sw at by cases auto
qed simp

lemma equip_ok_demo: "equip_ok demo_bag"
  by (auto simp: equip_ok_iff demo_simps isValidByEquipTypeAndPos_def getEquipPosByType_def
      worn_def isValidEquipPos_def)

text \<open>C35: equipping an item of the bag never puts an item into a slot of another
  type, and when it succeeds the item lies in a slot of its type.\<close>

theorem equipItemForPos_slots:
  assumes "bag_inv b" "equip_ok b" "BAG_START \<le> t" "getItem b t = Some r"
  shows "equip_ok (snd (equipItemForPos t b))
    \<and> (fst (equipItemForPos t b) = 1 \<longrightarrow>
         (\<exists>l. isValidByEquipTypeAndPos l (item_type (heap b r))
            \<and> getItem (snd (equipItemForPos t b)) l = Some r))"
proof (cases "getEquipPosByType (item_type (heap b r))")
  case None
  with assms show ?thesis by (simp add: equipItemForPos_def equipItem_def)
next
  case (Some ps)
  have pos: "slotPos (heap b r) = t" using assms by (auto dest: bag_invD)
  have v: "isValidPos b t" using assms(4) by (rule getItem_valid)
  have fits: "isValidByEquipTypeAndPos l (item_type (heap b r))" if "l \<in> set ps" for l
    using that Some by (simp add: isValidByEquipTypeAndPos_def)
  show ?thesis
  proof (cases "ps = []")
    case True
    with assms Some show ?thesis by (simp add: equipItemForPos_def equipItem_def)
  next
    case False
    then have hd: "hd ps \<in> set ps" by simp
    define good where "good = (\<lambda>res :: int \<times> bag. equip_ok (snd res) \<and> (fst res = 1 \<longrightarrow>
      (\<exists>l. isValidByEquipTypeAndPos l (item_type (heap b r)) \<and> getItem (snd res) l = Some r)))"
    have err: "good (c, b)" if "c \<noteq> 1" for c using that assms(2) by (simp add: good_def)
    have "equip_ok (snd (swapItem (hd ps) t b))"
      by (rule equip_ok_swap_bag) (use assms(2-4) fits [OF hd] in auto)
    then have swp: "good (swapItem (hd ps) t b)"
      using fits [OF hd] assms(4) by (auto simp: good_def getItem_swapItem swapItem_fst)
    have wpn: "good (equipWeapon t b)" if "isValidWeaponPos (hd ps)"
    proof -
      have "isValidByEquipTypeAndPos 8 (item_type (heap b r))"
        using that fits [OF hd] by (auto simp: isValidWeaponPos_def weapon_class [symmetric])
      then show ?thesis using equipWeapon_bag [OF assms(4,3,2)] by (auto simp: good_def)
    qed
    have lp: "good res" if "equipLoop ps r one b = Some res" for one res
      using equipLoop_bag [OF assms(4,3) pos assms(2) fits that] fits by (auto simp: good_def)
    have "list_all (\<lambda>p. isValidByEquipTypeAndPos p (item_type (heap b r))) ps"
      using fits by (simp add: list_all_iff)
    then have "good (equipItemForPos t b)"
      using assms(4) False pos err swp wpn lp
      by (simp add: equipItemForPos_def equipItem_def Some Let_def split: option.split)
    then show ?thesis by (simp add: good_def)
  qed
qed

theorem equipItemForPos_slots_witness:
  "bag_inv demo_bag \<and> equip_ok demo_bag \<and> equip_ok (snd (equipItemForPos 30 demo_bag))"
  using equipItemForPos_slots [OF bag_inv_demo equip_ok_demo, of 30 2] bag_inv_demo equip_ok_demo
  by (simp add: demo_simps)

text \<open>when equipping a two-handed weapon from the bag succeeds, it is held in
  the left slot and the right slot is empty.\<close>

theorem equip_two_handed:
  assumes "bag_inv b" "equip_ok b" "BAG_START \<le> t" "getItem b t = Some r"
    "isTwoHandWeaponType (item_type (heap b r))" "fst (equipItemForPos t b) = 1"
  shows "getItem (snd (equipItemForPos t b)) WEAPON_LEFT_POS = Some r
    \<and> getItem (snd (equipItemForPos t b)) WEAPON_RIGHT_POS = None"
proof -
  have ty: "getEquipPosByType (item_type (heap b r)) = Some [8, 10]"
    "\<not> isOneHandWeaponType (item_type (heap b r))" "item_type (heap b r) \<noteq> ITEM_TYPE_WEAPON_ONEHAND_HAND"
    using assms(5) by (auto simp: isTwoHandWeaponType_def getEquipPosByType_def isOneHandWeaponType_def)
  then have fit: "isValidByEquipTypeAndPos 8 (item_type (heap b r))"
    "isValidByEquipTypeAndPos 10 (item_type (heap b r))"
    by (simp_all add: isValidByEquipTypeAndPos_def)
  have "slotPos (heap b r) = t" using assms by (auto dest: bag_invD)
  then have "equipItemForPos t b = equipWeapon t b"
    using assms(4,5) ty fit
    by (simp add: equipItemForPos_def equipItem_def Let_def isValidWeaponPos_def)
  with equipWeapon_bag [OF assms(4,3,2) fit(1)] assms(6) show ?thesis by simp
qed

theorem equip_two_handed_witness:
  "fst (equipItemForPos 30 demo_bag) = 1
   \<and> getItem (snd (equipItemForPos 30 demo_bag)) WEAPON_LEFT_POS = Some 2
   \<and> getItem (snd (equipItemForPos 30 demo_bag)) WEAPON_RIGHT_POS = None"
proof -
  have free: "nextFreePosForType demo_bag TYPE_BAG_POS = 33" "countFreePos demo_bag = 1"
    by (simp_all add: nextFreePosForType_def getStartEndPos_def findFreePos_def countFreePos_def
        demo_simps upto_rec1 flip: getItem_slot)
  have "fst (equipWeapon 30 demo_bag) = 1"
    by (simp add: equipWeapon_def Let_def case_prod_beta countUsedSlot_1_def demo_simps free
        swapItem_fst flip: getItem_slot)
  then have one: "fst (equipItemForPos 30 demo_bag) = 1"
    by (simp add: equipItemForPos_def equipItem_def demo_simps getEquipPosByType_def
        isValidByEquipTypeAndPos_def isHaveEquipOneHandHand_def isOneHandWeaponType_def
        isTwoHandWeaponType_def isValidWeaponPos_def)
  have "isTwoHandWeaponType (item_type (heap demo_bag 2))"
    by (simp add: demo_simps isTwoHandWeaponType_def)
  with equip_two_handed [OF bag_inv_demo equip_ok_demo, of 30 2] one show ?thesis
    by (simp add: demo_simps)
qed

section \<open>Taking off\<close>

text \<open>taking off a worn item that succeeds empties its slot and moves the item
  into a slot of the bag that was free; a one-handed weapon takes the hand item
  with it; no item enters a slot of another type.\<close>

theorem unequipItem_moves:
  assumes "bag_inv b" "equip_ok b" "getItem b i = Some r" "isValidEquipPos i"
    "unequipItem (Some r) b = (c, b')" "0 \<le> c"
  shows "equip_ok b' \<and> getItem b' i = None
    \<and> (\<exists>p. isValidBagPos b p \<and> getItem b p = None \<and> getItem b' p = Some r)
    \<and> (isOneHandWeaponType (item_type (heap b r)) \<longrightarrow> isHaveEquipOneHandHand b > 0 \<longrightarrow>
         getItem b' (isHaveEquipOneHandHand b) = None)"
proof -
  let ?p = "nextFreePosForType b TYPE_BAG_POS" and ?a = "isHaveEquipOneHandHand b"
  let ?n = "isOneHandWeaponType (item_type (heap b r)) \<and> ?a > 0"
  let ?b1 = "snd (swapItem i ?p b)"
  let ?p' = "nextFreePosForType ?b1 TYPE_BAG_POS"
  have pos: "slotPos (heap b r) = i" using assms(1,3) by (rule bag_invD)
  have p0: "0 \<le> ?p" using assms(4-6) pos by (auto simp: unequipItem_def Let_def split: if_splits)
  then have vp: "isValidPos b ?p"
    using findFreePos_cases [of b 30 "bagEnd b"] by (auto simp: nextFreePosForType_def getStartEndPos_def)
  note p = nextFree_bag [OF vp]
  have v: "isValidPos b i" using assms(3) by (rule getItem_valid)
  have ok1: "equip_ok ?b1" by (rule equip_ok_swap_bag) (use assms(2) p in auto)
  have g1: "getItem ?b1 k = (if k = i then None else if k = ?p then Some r else getItem b k)" for k
    using v vp p assms(3) by (simp add: getItem_swapItem)
  have i30: "i < 30" using assms(4) by (simp add: isValidEquipPos_def)
  show ?thesis
  proof (cases ?n)
    case False
    then have "b' = ?b1" using assms(4,5,6) pos p0 by (auto simp: unequipItem_def Let_def split: if_splits)
    with ok1 g1 p i30 False show ?thesis by (auto simp: isValidBagPos_def intro!: exI [of _ ?p])
  next
    case True
    then have hand: "getItem b ?a \<noteq> None" "typeAt b ?a = ITEM_TYPE_WEAPON_ONEHAND_HAND" "?a = 8 \<or> ?a = 10"
      by (auto simp: isHaveEquipOneHandHand_def getItem_slot split: if_splits)
    have ai: "?a \<noteq> i"
      using True hand(2) assms(3) by (auto simp: typeAt_def getItem_slot isOneHandWeaponType_def)
    have c: "c = ?p'" and b': "b' = (if isValidBagPos ?b1 ?p' then snd (swapItem ?a ?p' ?b1) else ?b1)"
      using True assms(4,5,6) pos p0 by (auto simp: unequipItem_def Let_def split: if_splits)
    have vp': "isValidPos ?b1 ?p'"
      using c assms(6) findFreePos_cases [of ?b1 30 "bagEnd b"]
      by (auto simp: nextFreePosForType_def getStartEndPos_def)
    note p' = nextFree_bag [OF vp']
    have va: "isValidPos b ?a" using hand(1) by (auto dest: getItem_valid)
    have ok2: "equip_ok (snd (swapItem ?a ?p' ?b1))"
      by (rule equip_ok_swap_bag) (use ok1 p' in auto)
    have "getItem (snd (swapItem ?a ?p' ?b1)) k =
        (if k = ?a then None else if k = ?p' then getItem b ?a else getItem ?b1 k)" for k
      using va vp' p' hand(3) ai p g1 [of ?a] by (auto simp: getItem_swapItem)
    with b' ok2 g1 p p' ai hand(3) i30 show ?thesis
      by (auto simp: isValidBagPos_def intro!: exI [of _ ?p])
  qed
qed

theorem unequipItem_moves_witness:
  "unequipItem (Some 1) demo_bag = (33, snd (unequipItem (Some 1) demo_bag))
   \<and> getItem (snd (unequipItem (Some 1) demo_bag)) 10 = None"
proof -
  have free: "nextFreePosForType demo_bag TYPE_BAG_POS = 33"
    by (simp add: nextFreePosForType_def getStartEndPos_def findFreePos_def
        demo_simps upto_rec1 flip: getItem_slot)
  have e: "unequipItem (Some 1) demo_bag = (33, snd (unequipItem (Some 1) demo_bag))"
    by (simp add: unequipItem_def Let_def demo_simps isValidEquipPos_def free isOneHandWeaponType_def)
  with unequipItem_moves [OF bag_inv_demo equip_ok_demo, of 10 1] show ?thesis
    by (simp add: demo_simps isValidEquipPos_def)
qed

section \<open>Wear\<close>

lemma wear_bounds: "0 \<le> a \<Longrightarrow> - 100 \<le> t \<Longrightarrow> 0 \<le> wear t i a \<and> wear t i a \<le> a"
proof -
  assume a: "0 \<le> a" "- 100 \<le> t"
  have "a * of_int (100 + t) / 100 \<le> a" if "t < 0"
  proof -
    have "of_int (100 + t) \<le> (100 :: rat)" using that by linarith
    then have "a * of_int (100 + t) \<le> a * 100" using a(1) by (rule mult_left_mono)
    then show ?thesis by simp
  qed
  moreover have "0 \<le> a * of_int (100 + t) / 100"
  proof -
    have "0 \<le> (of_int (100 + t) :: rat)" using a(2) by linarith
    with a(1) show ?thesis by simp
  qed
  ultimately show ?thesis using a(1) by (simp add: wear_def Let_def)
qed

text \<open>the wear of a battle or a death changes no slot, never raises the
  durability of an item nor makes it negative, and leaves the items outside
  the worn slots and the spirit slot alone.\<close>

theorem handlePlayerDurability_bounds:
  assumes "bag_inv b" "\<And>r. 0 \<le> durability (heap b r)"
  shows "(\<forall>i. getItem (handlePlayerDurability dead b) i = getItem b i)
    \<and> (\<forall>r. 0 \<le> durability (heap (handlePlayerDurability dead b) r)
          \<and> durability (heap (handlePlayerDurability dead b) r) \<le> durability (heap b r))
    \<and> (\<forall>i r. getItem b i = Some r \<longrightarrow> \<not> worn i \<longrightarrow> heap (handlePlayerDurability dead b) r = heap b r)"
proof -
  have ok: "slots_ok b" using assms(1) by (simp add: bag_inv_def)
  let ?f = "\<lambda>t i p n. if p \<noteq> SPIRIT_POS \<and> durability n \<noteq> 0
     then n\<lparr>durability := wear t i (durability n)\<rparr> else (n :: item)"
  have h: "heap (changeDurability t i b) r =
      (if \<exists>p\<in>set [EQUIP_POS_START..EQUIP_POS_END - 1]. getItem b p = Some r
       then ?f t i (slotPos (heap b r)) (heap b r) else heap b r)" for t i r
    unfolding changeDurability_def sendNt_simps
    by (rule heap_updateAt [OF ok]) simp_all
  have d: "0 \<le> durability (heap (changeDurability t i b) r)
      \<and> durability (heap (changeDurability t i b) r) \<le> durability (heap b r)" if "- 100 \<le> t" for t i r
    using assms(2) wear_bounds [OF assms(2) that] by (simp add: h)
  have o: "heap (changeDurability t i b) r = heap b r"
    if "getItem b p = Some r" "\<not> worn p" for t i p r
  proof -
    have "q = p" if "getItem b q = Some r" for q
      using slots_ok_unaliased [OF ok that \<open>getItem b p = Some r\<close>] .
    then have "p = SPIRIT_POS \<or> \<not> (\<exists>q\<in>set [EQUIP_POS_START..EQUIP_POS_END - 1]. getItem b q = Some r)"
      using that(2) by (auto simp: worn_def isValidEquipPos_def)
    with slots_okD [OF ok that(1)] show ?thesis
      by (simp only: h) (auto simp del: set_upto)
  qed
  have g: "getItem (changeDurability t i b) = getItem b" for t i
    by (simp add: changeDurability_def)
  show ?thesis using d o g by (auto simp: handlePlayerDurability_def)
qed

theorem handlePlayerDurability_bounds_witness:
  "durability (heap (handlePlayerDurability True demo_bag) 0) \<le> durability (heap demo_bag 0)
   \<and> getItem (handlePlayerDurability True demo_bag) 8 = Some 0"
proof -
  have "0 \<le> durability (heap demo_bag r)" for r
    by (simp add: demo_simps new_item_def)
  from handlePlayerDurability_bounds [OF bag_inv_demo this] show ?thesis
    by (simp add: getItem_demo_bag)
qed

section \<open>The list of healing items\<close>

text \<open>The insertion loop ends for every list: when it runs past the last element
  it has just appended the item itself, on which the comparison succeeds.\<close>

lemma quickInsert_result:
  assumes "k < length xs" "\<And>j. j < k \<Longrightarrow> val (xs ! j) < val l"
  shows "quickInsert val l k xs =
    (case find (\<lambda>j. val l \<le> val (xs ! j)) [0..<length xs] of
       Some j \<Rightarrow> Some (take j xs @ l # drop j xs) | None \<Rightarrow> Some (xs @ [l, l]))"
  using assms
proof (induction "length xs - k" arbitrary: k)
  case 0
  then show ?case by simp
next
  case (Suc n)
  show ?case
  proof (cases "val l \<le> val (xs ! k)")
    case True
    have "find (\<lambda>j. val l \<le> val (xs ! j)) [0..<length xs] = Some k"
      using True Suc.prems by (auto simp: find_Some_iff not_le intro!: exI [of _ k])
    with True Suc.prems show ?thesis by (simp add: quickInsert.simps)
  next
    case False
    show ?thesis
    proof (cases "k = length xs - 1")
      case True
      have "val (xs ! j) < val l" if "j < length xs" for j
        using that True False Suc.prems(2) by (cases "j = k") auto
      then have "find (\<lambda>j. val l \<le> val (xs ! j)) [0..<length xs] = None"
        by (auto simp: find_None_iff not_le)
      moreover have "quickInsert val l (Suc k) (xs @ [l]) = Some (xs @ [l, l])"
        using True Suc.prems(1) by (subst quickInsert.simps) (auto simp: nth_append)
      moreover have "quickInsert val l k xs = quickInsert val l (Suc k) (xs @ [l])"
        using False True Suc.prems(1) by (subst quickInsert.simps) simp
      ultimately show ?thesis by simp
    next
      case other: False
      have "val (xs ! j) < val l" if "j < k + 1" for j
        using that False Suc.prems(2) by (cases "j = k") auto
      with Suc.hyps(1) [of "k + 1"] Suc.hyps(2) Suc.prems(1) other
      have "quickInsert val l (k + 1) xs =
        (case find (\<lambda>j. val l \<le> val (xs ! j)) [0..<length xs] of
           Some j \<Rightarrow> Some (take j xs @ l # drop j xs) | None \<Rightarrow> Some (xs @ [l, l]))"
        by simp
      with False other Suc.prems(1) show ?thesis by (simp add: quickInsert.simps [of val l k])
    qed
  qed
qed

lemma quickInsert_mset:
  assumes "xs \<noteq> []"
  shows "\<exists>ys. quickInsert val l 0 xs = Some ys \<and> set ys = insert l (set xs) \<and> ys \<noteq> []"
proof -
  have set: "set (take j xs @ l # drop j xs) = insert l (set xs)" for j
    by (metis append_take_drop_id set_append Un_insert_right list.simps(15))
  show ?thesis
    using quickInsert_result [of 0 xs val l] assms set
    by (auto split: option.splits)
qed

text \<open>the list of healing items is computed for every bag (the insertion
  loop always ends) and holds exactly the usable healing items of the bag.\<close>

theorem getQuickHPItemVector_total:
  "\<exists>ys. getQuickHPItemVector b = Some ys
    \<and> set ys = {r \<in> set (refsAt b [BAG_START..bagEnd b]).
        0 < getPower1AndPower2 (heap b r) POWER_HP_PERCENT
        \<and> (isCanUse (heap b r) CAN_USE_WORLD \<or> isCanUse (heap b r) CAN_USE_ALL)}"
proof -
  have "\<exists>ys. fold (quickStep val) ls (Some xs) = Some ys \<and> set ys = set xs \<union> set ls" for val ls xs
  proof (induction ls arbitrary: xs)
    case (Cons l ls)
    have "\<exists>ys. quickStep val l (Some xs) = Some ys \<and> set ys = insert l (set xs)"
      using quickInsert_mset [of xs val l] by (auto simp: quickStep_def)
    then obtain ys where "quickStep val l (Some xs) = Some ys" "set ys = insert l (set xs)" by blast
    with Cons.IH [of ys] show ?case by auto
  qed simp
  from this [of "\<lambda>r. getPower1AndPower2 (heap b r) POWER_HP_PERCENT" _ "[]"] show ?thesis
    by (fastforce simp: getQuickHPItemVector_def Let_def not_le)
qed

text \<open>an item stronger than every item already in the list is entered
  twice.\<close>

theorem quickInsert_duplicates_maximum:
  assumes "xs \<noteq> []" "\<And>x. x \<in> set xs \<Longrightarrow> val x < val l"
  shows "quickInsert val l 0 xs = Some (xs @ [l, l])"
proof -
  have "find (\<lambda>j. val l \<le> val (xs ! j)) [0..<length xs] = None"
    using assms(2) by (auto simp: find_None_iff not_le)
  with quickInsert_result [of 0 xs val l] assms(1) show ?thesis by simp
qed

theorem quickInsert_duplicates_maximum_witness:
  "quickInsert (\<lambda>r. getPower1AndPower2 (heap demo_bag r) POWER_HP_PERCENT) 4 0 [3] = Some [3, 4, 4]"
  using quickInsert_duplicates_maximum
    [of "[3]" "\<lambda>r. getPower1AndPower2 (heap demo_bag r) POWER_HP_PERCENT" 4]
  by (simp add: getPower1AndPower2_def demo_simps no_powers_def new_item_def getpowerValueAdd_def
      isBinded_def isAutoBinding_def hasStatus_def jand_def)

end
