(* ===== verification/Tool.thy ===== *)
theory Tool
  imports Arrays "HOL-Library.Word"
begin

text \<open>
  The helper classes \<open>Random\<close> and \<open>Tool\<close> of the client: the linear
  congruential generator that the whole client draws from, the arithmetic and
  bit helpers, the grid geometry and the string substitution.

  \<open>Random\<close> computes with the 64-bit integer class \<open>Long\<close>, which is loaded
  beside the bundle and is not part of it.  It is therefore the parameter \<open>L\<close> of
  the definitions; \<open>long_ok L v\<close> says that its operations are the documented
  two's complement ones, where \<open>v\<close> gives the number a \<open>Long\<close> stands for.
\<close>

section \<open>Random\<close>

record 'l long_ops =
  mkLong :: "int \<Rightarrow> int \<Rightarrow> 'l"
  fromNumber :: "int \<Rightarrow> 'l"
  lxor :: "'l \<Rightarrow> 'l \<Rightarrow> 'l"
  land :: "'l \<Rightarrow> 'l \<Rightarrow> 'l"
  lmultiply :: "'l \<Rightarrow> 'l \<Rightarrow> 'l"
  ladd :: "'l \<Rightarrow> 'l \<Rightarrow> 'l"
  lsubtract :: "'l \<Rightarrow> 'l \<Rightarrow> 'l"
  lshiftLeft :: "'l \<Rightarrow> int \<Rightarrow> 'l"
  lshiftRight :: "'l \<Rightarrow> int \<Rightarrow> 'l"
  toNumber :: "'l \<Rightarrow> int"

definition RANDOM_SEED_MASTER :: "'l long_ops \<Rightarrow> 'l" where
  "RANDOM_SEED_MASTER L = fromNumber L 25214903917"

definition RANDOM_ADDEND :: "'l long_ops \<Rightarrow> 'l" where
  "RANDOM_ADDEND L = fromNumber L 11"

definition RANDOM_SEED_MASK :: "'l long_ops \<Rightarrow> 'l" where
  "RANDOM_SEED_MASK L = lsubtract L (lshiftLeft L (fromNumber L 1) 48) (fromNumber L 1)"

definition setSeed :: "'l long_ops \<Rightarrow> int \<Rightarrow> 'l" where
  "setSeed L t = land L (lxor L (mkLong L t 0) (RANDOM_SEED_MASTER L)) (RANDOM_SEED_MASK L)"

definition unsignedInt2int :: "int \<Rightarrow> int" where
  "unsignedInt2int e =
     (let t = jand 4294967295 e
      in if t > 2147483647 then - (xor (toInt32 4294967295) (toInt32 t) + 1) else t)"

definition random_next :: "'l long_ops \<Rightarrow> int \<Rightarrow> 'l \<Rightarrow> int \<times> 'l" where
  "random_next L t seed =
     (let seed' = land L (ladd L (lmultiply L seed (RANDOM_SEED_MASTER L)) (RANDOM_ADDEND L)) (RANDOM_SEED_MASK L);
          i = toNumber L (lshiftRight L seed' (48 - t))
      in (unsignedInt2int i, seed'))"

definition nextInt :: "'l long_ops \<Rightarrow> 'l \<Rightarrow> int \<times> 'l" where
  "nextInt L seed = random_next L 32 seed"

definition long_ok :: "'l long_ops \<Rightarrow> ('l \<Rightarrow> int) \<Rightarrow> bool" where
  "long_ok L v \<longleftrightarrow>
     (\<forall>x. v (fromNumber L x) = signed_take_bit 63 x) \<and>
     (\<forall>lo hi. v (mkLong L lo hi) = signed_take_bit 63 (hi * 4294967296 + lo mod 4294967296)) \<and>
     (\<forall>a b. v (lxor L a b) = xor (v a) (v b)) \<and>
     (\<forall>a b. v (land L a b) = and (v a) (v b)) \<and>
     (\<forall>a b. v (lmultiply L a b) = signed_take_bit 63 (v a * v b)) \<and>
     (\<forall>a b. v (ladd L a b) = signed_take_bit 63 (v a + v b)) \<and>
     (\<forall>a b. v (lsubtract L a b) = signed_take_bit 63 (v a - v b)) \<and>
     (\<forall>a n. 0 \<le> n \<and> n < 64 \<longrightarrow> v (lshiftLeft L a n) = signed_take_bit 63 (v a * 2 ^ nat n)) \<and>
     (\<forall>a n. 0 \<le> n \<and> n < 64 \<longrightarrow> v (lshiftRight L a n) = v a div 2 ^ nat n) \<and>
     (\<forall>a. \<bar>v a\<bar> < 2 ^ 53 \<longrightarrow> toNumber L a = v a)"

section \<open>Draws\<close>

text \<open>The functions of \<open>Tool\<close> that draw from the shared generator; \<open>rand\<close> with a
  second argument that is missing or zero behaves like \<open>randByRange\<close>.\<close>

definition randByRange :: "'l long_ops \<Rightarrow> int \<Rightarrow> 'l \<Rightarrow> int \<times> 'l" where
  "randByRange L t s = (if t = 0 then (0, s) else (let (k, s') = nextInt L s in (\<bar>jrem k t\<bar>, s')))"

definition randParam_1 :: "'l long_ops \<Rightarrow> int \<Rightarrow> 'l \<Rightarrow> int \<times> 'l" where
  "randParam_1 L t s = (if t = 0 then (0, s) else (let (k, s') = nextInt L s in (\<bar>jrem k t\<bar>, s')))"

definition randParam_2 :: "'l long_ops \<Rightarrow> int \<Rightarrow> int \<Rightarrow> 'l \<Rightarrow> int \<times> 'l" where
  "randParam_2 L t i s =
     (let (k, s') = nextInt L s; k' = (if 0 > k then - k else k) in (jrem k' (i - t + 1) + t, s'))"

definition rand :: "'l long_ops \<Rightarrow> int \<Rightarrow> int option \<Rightarrow> 'l \<Rightarrow> int \<times> 'l" where
  "rand L t i s =
     (if i \<noteq> None \<and> i \<noteq> Some 0 then
        (let (k, s') = nextInt L s; k' = (if 0 > k then - k else k) in (jrem k' (the i - t + 1) + t, s'))
      else if t = 0 then (0, s)
      else (let (k, s') = nextInt L s in (\<bar>jrem k t\<bar>, s')))"

section \<open>Arithmetic and bits\<close>

definition sumValue :: "int \<Rightarrow> int \<Rightarrow> int \<Rightarrow> int \<Rightarrow> int" where
  "sumValue e t i u =
     (let n = e + t; n1 = (if i > n then i else n) in if n1 > u then u else n1)"

definition byte2short :: "int \<Rightarrow> int" where
  "byte2short e = jand 255 e"

definition setKeyXY :: "int \<Rightarrow> int \<Rightarrow> int" where
  "setKeyXY e t = jor (jand 65535 e) (jshl (jand 65535 t) 16)"

definition getXKey :: "int \<Rightarrow> int" where
  "getXKey e = jand 65535 e"

definition getYKey :: "int \<Rightarrow> int" where
  "getYKey e = jand (jshr e 16) 65535"

definition setBit :: "bool \<Rightarrow> int \<Rightarrow> int \<Rightarrow> int" where
  "setBit e t i = (if e then jor i t else jand i (jnot t))"

definition isBit :: "int \<Rightarrow> int \<Rightarrow> bool" where
  "isBit e t = (0 \<noteq> jand t e)"

definition getBitNum :: "int \<Rightarrow> int" where
  "getBitNum t = fold (\<lambda>k i. if isBit (jshl 1 k) t then i + 1 else i) [0..7] 0"

definition nextSeed :: "int \<Rightarrow> int" where
  "nextSeed t = jrem (t + 1) 10000"

definition isArrayIndexOutOfBounds :: "int \<Rightarrow> 'a list option \<Rightarrow> bool" where
  "isArrayIndexOutOfBounds e t =
     (case t of None \<Rightarrow> True
      | Some xs \<Rightarrow> (let i = int (length xs) in if 0 > e \<or> e \<ge> i then True else False))"

definition arraycopy :: "'a option list \<Rightarrow> int \<Rightarrow> 'a option list \<Rightarrow> int \<Rightarrow> int \<Rightarrow> 'a option list" where
  "arraycopy e t i k n = fold (\<lambda>a i. jset i (k + a) (jget e (t + a))) [0..n - 1] i"

definition initTwoDimensionalArray :: "int \<Rightarrow> int \<Rightarrow> 'a \<Rightarrow> 'a list list" where
  "initTwoDimensionalArray e t i = map (\<lambda>_. map (\<lambda>_. i) [0..t - 1]) [0..e - 1]"

section \<open>Geometry\<close>

definition getFaceXY :: "int \<Rightarrow> int \<Rightarrow> int \<Rightarrow> (int \<times> int) option \<Rightarrow> int \<times> int" where
  "getFaceXY e t i n =
     (let (x, y) = (case n of Some p \<Rightarrow> p | None \<Rightarrow> (e, t))
      in if i = 3 then (x, y - 1)
         else if i = 0 then (x + 1, y)
         else if i = 2 then (x, y + 1)
         else if i = 1 then (x - 1, y)
         else if i = 4 then (x - 1, y - 1)
         else if i = 5 then (x - 1, y + 1)
         else if i = 6 then (x + 1, y - 1)
         else if i = 7 then (x + 1, y + 1)
         else (x, y))"

definition isColliding :: "int \<Rightarrow> int \<Rightarrow> int \<Rightarrow> int \<Rightarrow> int \<Rightarrow> int \<Rightarrow> int \<Rightarrow> int \<Rightarrow> bool" where
  "isColliding e t i k n a r s =
     (if n \<ge> e + i then False else if e \<ge> n + r then False
      else if a \<ge> t + k then False else if t \<ge> a + s then False else True)"

definition rectIn :: "int \<Rightarrow> int \<Rightarrow> int \<Rightarrow> int \<Rightarrow> int \<Rightarrow> int \<Rightarrow> bool" where
  "rectIn e t i k n a =
     (if e > n \<or> t > a then False else if n > e + i then False
      else if a > t + k then False else True)"

section \<open>Strings\<close>

text \<open>\<open>jIndexOf\<close> and \<open>jReplace\<close> are the string methods \<open>indexOf\<close> and \<open>replace\<close> (with a
  string pattern: the first occurrence only); \<open>expand\<close> is the substitution that
  \<open>replace\<close> performs on its replacement text, where a dollar sign is special.\<close>

definition occursAt :: "string \<Rightarrow> string \<Rightarrow> nat \<Rightarrow> bool" where
  "occursAt n t k = (take (length t) (drop k n) = t)"

definition jIndexOf :: "string \<Rightarrow> string \<Rightarrow> int" where
  "jIndexOf n t =
     (case find (occursAt n t) [0..<Suc (length n)] of None \<Rightarrow> - 1 | Some k \<Rightarrow> int k)"

fun expand :: "string \<Rightarrow> string \<Rightarrow> string \<Rightarrow> string \<Rightarrow> string" where
  "expand pre m post (c # d # r) =
     (if c = CHR 0x24 then
        (if d = CHR 0x24 then CHR 0x24 # expand pre m post r
         else if d = CHR 0x26 then m @ expand pre m post r
         else if d = CHR 0x60 then pre @ expand pre m post r
         else if d = CHR 0x27 then post @ expand pre m post r
         else c # expand pre m post (d # r))
      else c # expand pre m post (d # r))"
| "expand pre m post s = s"

definition jReplace :: "string \<Rightarrow> string \<Rightarrow> string \<Rightarrow> string" where
  "jReplace n t i =
     (let a = jIndexOf n t
      in if a = - 1 then n
         else (let pre = take (nat a) n; post = drop (nat a + length t) n
               in pre @ expand pre t post i @ post))"

partial_function (option) manageStringFull :: "string \<Rightarrow> string \<Rightarrow> string \<Rightarrow> bool \<Rightarrow> string option" where
  "manageStringFull n t i u =
     (if jIndexOf n t = - 1 then Some n
      else if u then manageStringFull (jReplace n t i) t i u
      else Some (jReplace n t i))"

definition manageString :: "string \<Rightarrow> string \<Rightarrow> bool \<Rightarrow> string option" where
  "manageString t i u = manageStringFull t (CHR 0x25 # ''U'') i u"

fun manageStringList :: "string \<Rightarrow> string list \<Rightarrow> string option" where
  "manageStringList i [] = Some i"
| "manageStringList i (x # xs) =
     (case manageString i x False of None \<Rightarrow> None | Some i' \<Rightarrow> manageStringList i' xs)"

definition isSpace :: "char \<Rightarrow> bool" where
  "isSpace c = (c \<in> {CHR 0x09, CHR 0x0A, CHR 0x0B, CHR 0x0C, CHR 0x0D, CHR 0x20, CHR 0xA0})"

definition jtrim :: "string \<Rightarrow> string" where
  "jtrim s = rev (dropWhile isSpace (rev (dropWhile isSpace s)))"

definition isNullText :: "string option \<Rightarrow> bool" where
  "isNullText e =
     (case e of None \<Rightarrow> True
      | Some s \<Rightarrow> if s = ''null'' then True else if jtrim s = [] then True else False)"

definition isNumberString :: "string option \<Rightarrow> bool" where
  "isNumberString t =
     (if isNullText t then False
      else list_all (\<lambda>c. let k = int (of_char c) in \<not> (48 > k \<or> k > 57)) (the t))"

function convertLastLinefeed :: "string \<Rightarrow> string" where
  "convertLastLinefeed e =
     (if e \<noteq> [] \<and> last e = CHR 0x0A then convertLastLinefeed (butlast e) else e)"
  by auto
termination by (relation "measure length") auto

declare convertLastLinefeed.simps [simp del]

definition getNextColorSignPosition :: "string \<Rightarrow> int" where
  "getNextColorSignPosition e =
     (let t = jIndexOf e ''/c''; i = jIndexOf e ''/p''
      in if t \<ge> 0 \<and> i \<ge> 0 then (if i > t then t else i) else if i \<ge> 0 then i else - 1)"

end
