(* ===== verification/ToolProps.thy ===== *)
theory ToolProps
  imports Tool
begin

text \<open>
  Properties of the helper classes: the generator is the 48-bit linear
  congruential generator of \<open>java.util.Random\<close>, draws stay in their range,
  keys of grid cells can be read back, the collision test decides whether two
  rectangles share a cell, and string substitution ends or not.
\<close>

section \<open>Random\<close>

lemma RANDOM_SEED_MASK_value: "long_ok L v \<Longrightarrow> v (RANDOM_SEED_MASK L) = mask 48"
  by (simp add: long_ok_def RANDOM_SEED_MASK_def mask_eq_exp_minus_1)

lemma RANDOM_SEED_MASTER_value: "long_ok L v \<Longrightarrow> v (RANDOM_SEED_MASTER L) = 25214903917"
  by (simp add: long_ok_def RANDOM_SEED_MASTER_def)

lemma RANDOM_ADDEND_value: "long_ok L v \<Longrightarrow> v (RANDOM_ADDEND L) = 11"
  by (simp add: long_ok_def RANDOM_ADDEND_def)

lemma take_bit_signed: "n \<le> m \<Longrightarrow> take_bit n (signed_take_bit m x) = take_bit n (x::int)"
  by (simp add: take_bit_signed_take_bit)

lemma unsignedInt2int_eq: "unsignedInt2int e = toInt32 e"
proof -
  have "jand 4294967295 e = toInt32 e"
    by (simp add: jand_def toInt32_def)
  moreover have "\<not> toInt32 e > 2147483647"
    by (simp add: not_less)
  ultimately show ?thesis by (simp add: unsignedInt2int_def Let_def)
qed

text \<open>C36: with the documented 64-bit operations of \<open>Long\<close>, a draw of \<open>t\<close> bits
  advances the seed by the step \<open>s \<mapsto> (25214903917 s + 11) mod 2^48\<close> and
  returns the top \<open>t\<close> bits of the new seed as a signed 32-bit number.\<close>

theorem random_next_lcg:
  assumes "long_ok L v" "0 < t" "t \<le> 32"
  shows "v (snd (random_next L t s)) = (v s * 25214903917 + 11) mod 2 ^ 48
    \<and> fst (random_next L t s) = toInt32 ((v s * 25214903917 + 11) mod 2 ^ 48 div 2 ^ nat (48 - t))"
proof -
  let ?n = "(v s * 25214903917 + 11) mod 2 ^ 48"
  let ?s = "snd (random_next L t s)"
  have "v ?s = take_bit 48 (signed_take_bit 63 (signed_take_bit 63 (v s * 25214903917) + 11))"
    using assms(1) by (simp add: random_next_def Let_def long_ok_def take_bit_eq_mask
        RANDOM_SEED_MASK_value [OF assms(1)] RANDOM_SEED_MASTER_value [OF assms(1)] RANDOM_ADDEND_value [OF assms(1)])
  also have "\<dots> = take_bit 48 (signed_take_bit 63 (v s * 25214903917) + 11)"
    by (rule take_bit_signed) simp
  also have "\<dots> = take_bit 48 (take_bit 48 (signed_take_bit 63 (v s * 25214903917)) + take_bit 48 11)"
    by (simp only: take_bit_add)
  also have "\<dots> = take_bit 48 (take_bit 48 (v s * 25214903917) + take_bit 48 11)"
    by (subst take_bit_signed) simp_all
  also have "\<dots> = ?n"
    by (simp only: take_bit_add) (simp add: take_bit_eq_mod)
  finally have seed: "v ?s = ?n" .
  have "v (lshiftRight L ?s (48 - t)) = ?n div 2 ^ nat (48 - t)"
    using assms seed by (simp add: long_ok_def)
  moreover have "0 \<le> ?n div 2 ^ nat (48 - t)" "?n div 2 ^ nat (48 - t) < 2 ^ 53"
    using div_le_dividend [of "nat ?n" "2 ^ nat (48 - t)"]
    by (simp_all add: pos_imp_zdiv_nonneg_iff)
      (smt (verit, best) div_by_1 pos_mod_bound pos_mod_sign zdiv_mono2 one_le_power)
  ultimately have "toNumber L (lshiftRight L ?s (48 - t)) = ?n div 2 ^ nat (48 - t)"
    using assms(1) by (simp add: long_ok_def)
  then have "fst (random_next L t s) = toInt32 (?n div 2 ^ nat (48 - t))"
    by (simp add: random_next_def Let_def unsignedInt2int_eq)
  with seed show ?thesis by blast
qed

definition word_long :: "64 word long_ops" where
  "word_long = \<lparr>mkLong = \<lambda>lo hi. word_of_int (hi * 4294967296 + lo mod 4294967296), fromNumber = word_of_int,
     lxor = xor, land = and, lmultiply = (*), ladd = (+), lsubtract = (-),
     lshiftLeft = \<lambda>a n. push_bit (nat n) a, lshiftRight = \<lambda>a n. signed_drop_bit (nat n) a, toNumber = sint\<rparr>"

lemma sint_word_of_int_64: "sint (word_of_int x :: 64 word) = signed_take_bit 63 x"
  by (simp add: sint_sbintrunc')

lemma word_of_sint_ops:
  "a * b = word_of_int (sint a * sint b)" "a + b = word_of_int (sint a + sint b)"
  "a - b = word_of_int (sint a - sint b)" "push_bit n a = word_of_int (sint a * 2 ^ n)"
  for a b :: "64 word"
  by (simp_all add: push_bit_eq_mult)

lemma long_ok_word: "long_ok word_long sint"
  unfolding long_ok_def
proof (intro conjI allI impI)
  fix a b :: "64 word" and n x :: int
  show "sint (lmultiply word_long a b) = signed_take_bit 63 (sint a * sint b)"
    "sint (ladd word_long a b) = signed_take_bit 63 (sint a + sint b)"
    "sint (lsubtract word_long a b) = signed_take_bit 63 (sint a - sint b)"
    "sint (lshiftLeft word_long a n) = signed_take_bit 63 (sint a * 2 ^ nat n)"
    "sint (mkLong word_long x n) = signed_take_bit 63 (n * 4294967296 + x mod 4294967296)"
    by (simp_all only: word_long_def long_ops.simps word_of_sint_ops sint_word_of_int_64)
  show "sint (lshiftRight word_long a n) = sint a div 2 ^ nat n"
    by (simp add: word_long_def sint_signed_drop_bit_eq drop_bit_eq_div)
qed (simp_all add: word_long_def sint_word_of_int_64 signed_xor_eq signed_and_eq)

theorem random_next_lcg_witness:
  "sint (snd (random_next word_long 32 5)) = 126074519596 \<and> fst (random_next word_long 32 5) = 1923744"
  using random_next_lcg [OF long_ok_word, of 32 "5 :: 64 word"] by (simp add: toInt32_def)

section \<open>Draws\<close>

lemma fst_rand: "i \<noteq> 0 \<Longrightarrow> \<exists>k. 0 \<le> k \<and> fst (rand L t (Some i) s) = jrem k (i - t + 1) + t"
  by (rule exI [of _ "\<bar>fst (nextInt L s)\<bar>"]) (simp add: rand_def Let_def split: prod.splits)

text \<open>a draw from the range \<open>t..i\<close> lies in the range, whatever the generator
  returns, as long as the upper bound is not 0; with the upper bound 0 the call is
  taken for the one-argument form, whose result is never negative.\<close>

theorem rand_bounds:
  assumes "t \<le> i"
  shows "if i = 0 then 0 \<le> fst (rand L t (Some i) s) \<and> fst (rand L t (Some i) s) \<le> - t
    else t \<le> fst (rand L t (Some i) s) \<and> fst (rand L t (Some i) s) \<le> i"
proof (cases "i = 0")
  case True
  obtain k s' where "nextInt L s = (k, s')" by (cases "nextInt L s")
  with True assms jrem_abs_less [of t k] show ?thesis by (cases "t = 0") (simp_all add: rand_def)
next
  case False
  from fst_rand [OF this, of L t s] obtain k where
    k: "0 \<le> k" "fst (rand L t (Some i) s) = jrem k (i - t + 1) + t" by blast
  have "jrem k (i - t + 1) = k mod (i - t + 1)" using k(1) assms by (simp add: js_arith)
  moreover have "0 \<le> k mod (i - t + 1)" "k mod (i - t + 1) < i - t + 1"
    using assms pos_mod_bound [of "i - t + 1" k] by simp_all
  ultimately show ?thesis using k(2) False by simp
qed

theorem rand_bounds_witness:
  "- 3 \<le> (7::int) \<and> - 3 \<le> fst (rand word_long (- 3) (Some 7) 5) \<and> fst (rand word_long (- 3) (Some 7) 5) \<le> 7"
  using rand_bounds [of "- 3" 7 word_long 5] by simp

section \<open>Keys and bits\<close>

lemma jand_mask: "jand (mask n) e = take_bit n e" if "n \<le> 31"
proof (rule bit_eqI)
  fix m show "bit (jand (mask n) e) m = bit (take_bit n e) m"
    using that by (auto simp: jand_def bit_and_iff bit_toInt32 bit_mask_iff bit_take_bit_iff min_def)
qed

lemma jand_commute: "jand a b = jand b a"
  by (simp add: jand_def ac_simps)

lemma bit_jand: "bit (jand a b) n = (bit a (min n 31) \<and> bit b (min n 31))"
  by (simp add: jand_def bit_and_iff bit_toInt32)

lemma bit_jor: "bit (jor a b) n = (bit a (min n 31) \<or> bit b (min n 31))"
  by (simp add: jor_def bit_or_iff bit_toInt32)

lemma jshl_eq: "jshl a n = toInt32 (push_bit (nat (n mod 32)) (toInt32 a))"
  by (simp add: jshl_def push_bit_eq_mult)

lemma bit_jshl: "0 \<le> n \<Longrightarrow> n < 32 \<Longrightarrow>
    bit (jshl a n) m = (nat n \<le> min m 31 \<and> bit a (min m 31 - nat n))"
  by (auto simp: jshl_eq bit_toInt32 bit_push_bit_iff min_def)

lemma bit_jshr: "0 \<le> n \<Longrightarrow> n < 32 \<Longrightarrow> bit (jshr a n) m = bit a (min (m + nat n) 31)"
  by (simp add: jshr_def drop_bit_eq_div [symmetric] bit_drop_bit_eq bit_toInt32 add.commute)

lemma key_low: "getXKey (setKeyXY x y) = take_bit 16 x" and key_high: "getYKey (setKeyXY x y) = take_bit 16 y"
proof -
  have m: "(65535::int) = mask 16" by (simp add: mask_eq_exp_minus_1)
  show "getXKey (setKeyXY x y) = take_bit 16 x"
    unfolding getXKey_def setKeyXY_def m
    by (rule bit_eqI) (auto simp: bit_jand bit_jor bit_jshl bit_mask_iff bit_take_bit_iff min_def)
  show "getYKey (setKeyXY x y) = take_bit 16 y"
    unfolding getYKey_def setKeyXY_def m
    by (rule bit_eqI) (auto simp: bit_jand bit_jor bit_jshl bit_jshr bit_mask_iff bit_take_bit_iff min_def)
qed

lemma key_coords:
  "0 \<le> x \<Longrightarrow> x < 65536 \<Longrightarrow> getXKey (setKeyXY x y) = x" "0 \<le> y \<Longrightarrow> y < 65536 \<Longrightarrow> getYKey (setKeyXY x y) = y"
  by (simp_all add: key_low key_high take_bit_int_eq_self)

text \<open>the key of a grid cell gives back both coordinates, for coordinates of
  16 bits.\<close>

theorem setKeyXY_roundtrip:
  assumes "0 \<le> x" "x < 65536" "0 \<le> y" "y < 65536"
  shows "getXKey (setKeyXY x y) = x \<and> getYKey (setKeyXY x y) = y"
  using assms by (simp add: key_coords)

theorem setKeyXY_roundtrip_witness:
  "getXKey (setKeyXY 640 40000) = 640 \<and> getYKey (setKeyXY 640 40000) = 40000"
  using setKeyXY_roundtrip [of 640 40000] by simp

lemma isBit_shift: "0 \<le> k \<Longrightarrow> k < 8 \<Longrightarrow> isBit (jshl 1 k) t = bit t (nat k)"
proof -
  assume k: "0 \<le> k" "k < 8"
  have "jand t (jshl 1 k) = (if bit t (nat k) then 2 ^ nat k else 0)"
    using k by (intro bit_eqI) (auto simp: bit_jand bit_jshl bit_exp_iff bit_1_iff min_def)
  then show ?thesis by (simp add: isBit_def)
qed

text \<open>\<open>getBitNum\<close> counts the bits set among the low eight.\<close>

theorem getBitNum_count: "getBitNum t = int (card {k. k < 8 \<and> bit t k})"
proof -
  have 1: "fold (\<lambda>k i. if P k then i + 1 else i) ks (n::int) = n + int (length (filter P ks))" for P and ks :: "int list" and n
    by (induction ks arbitrary: n) simp_all
  have 2: "[0..7] = map int [0..<8]" by (simp add: upto.simps upt_rec)
  have "getBitNum t = int (length (filter (\<lambda>k. isBit (jshl 1 k) t) [0..7]))"
    by (simp add: getBitNum_def 1)
  also have "filter (\<lambda>k. isBit (jshl 1 k) t) [0..7] = filter (\<lambda>k. bit t (nat k)) [0..7]"
    by (rule filter_cong) (auto simp: isBit_shift)
  also have "length \<dots> = length (filter (bit t) [0..<8])"
    by (simp only: 2 filter_map length_map) (simp add: comp_def)
  also have "\<dots> = card {k. k < 8 \<and> bit t k}"
    by (subst distinct_card [symmetric]) (auto intro!: arg_cong [where f = card])
  finally show ?thesis .
qed

section \<open>Geometry\<close>

text \<open>the collision test of two rectangles decides exactly whether they have a
  cell in common.\<close>

theorem isColliding_common_cell:
  assumes "0 < w1" "0 < h1" "0 < w2" "0 < h2"
  shows "isColliding x1 y1 w1 h1 x2 y2 w2 h2 \<longleftrightarrow>
    (\<exists>x y. x1 \<le> x \<and> x < x1 + w1 \<and> y1 \<le> y \<and> y < y1 + h1 \<and>
           x2 \<le> x \<and> x < x2 + w2 \<and> y2 \<le> y \<and> y < y2 + h2)"
    (is "?l \<longleftrightarrow> ?r")
proof
  assume ?l
  with assms show ?r
    by (intro exI [of _ "max x1 x2"] exI [of _ "max y1 y2"]) (auto simp: isColliding_def split: if_splits)
qed (auto simp: isColliding_def)

theorem isColliding_common_cell_witness:
  "isColliding 0 0 4 4 3 3 4 4 \<and> (\<exists>x y. (0::int) \<le> x \<and> x < 4 \<and> (0::int) \<le> y \<and> y < 4 \<and> 3 \<le> x \<and> x < 7 \<and> 3 \<le> y \<and> y < 7)"
  using isColliding_common_cell [of 4 4 4 4 0 0 3 3] by (simp add: isColliding_def)

section \<open>Strings\<close>

lemma expand_plain: "CHR 0x24 \<notin> set s \<Longrightarrow> expand pre m post s = s"
  by (induction pre m post s rule: expand.induct) auto

lemma jIndexOf_None: "jIndexOf n t = - 1 \<longleftrightarrow> (\<forall>k\<le>length n. \<not> occursAt n t k)"
  by (auto simp: jIndexOf_def find_None_iff find_Some_iff less_Suc_eq_le simp del: upt_Suc split: option.splits)

lemma jIndexOf_Some:
  assumes "jIndexOf n t \<noteq> - 1"
  obtains k where "jIndexOf n t = int k" "k \<le> length n" "occursAt n t k"
  using assms by (force simp: jIndexOf_def find_Some_iff less_Suc_eq_le simp del: upt_Suc split: option.splits)

lemma occursAt_split: "occursAt n t k \<Longrightarrow> k \<le> length n \<Longrightarrow> n = take k n @ t @ drop (k + length t) n"
  by (metis append_take_drop_id drop_drop occursAt_def add.commute)

lemma occursAt_append: "occursAt (xs @ t @ ys) t (length xs)"
  by (simp add: occursAt_def)

lemma jReplace_plain:
  assumes "jIndexOf n t \<noteq> - 1" "CHR 0x24 \<notin> set i"
  obtains k where "k + length t \<le> length n" "jReplace n t i = take k n @ i @ drop (k + length t) n"
proof -
  from assms(1) obtain k where k: "jIndexOf n t = int k" "k \<le> length n" "occursAt n t k"
    by (rule jIndexOf_Some)
  have "k + length t \<le> length n"
    using occursAt_split [OF k(3,2)] k(2) by (metis le_add1 length_append length_take min_absorb2 add.assoc)
  moreover have "jReplace n t i = take k n @ i @ drop (k + length t) n"
    using k assms by (simp add: jReplace_def Let_def expand_plain)
  ultimately show thesis by (rule that)
qed

lemma contains_self_replaced:
  assumes "jIndexOf n t \<noteq> - 1" "CHR 0x24 \<notin> set i" "jIndexOf i t \<noteq> - 1"
  shows "jIndexOf (jReplace n t i) t \<noteq> - 1"
proof -
  from assms(1,2) obtain k where r: "jReplace n t i = take k n @ i @ drop (k + length t) n"
    by (rule jReplace_plain)
  from assms(3) obtain j where j: "j \<le> length i" "occursAt i t j" by (rule jIndexOf_Some)
  let ?a = "take k n @ take j i" and ?b = "drop (j + length t) i @ drop (k + length t) n"
  have "jReplace n t i = ?a @ t @ ?b"
    unfolding r by (subst occursAt_split [OF j(2,1)]) simp
  then have "occursAt (jReplace n t i) t (length ?a)" "length ?a \<le> length (jReplace n t i)"
    using occursAt_append [of ?a t ?b] by (simp_all only: length_append)
  then show ?thesis by (auto simp: jIndexOf_None)
qed

text \<open>replacing all occurrences never returns when the replacement itself
  contains the pattern (as a player name with the placeholder in it does): the
  loop keeps finding the pattern it has just inserted.\<close>

theorem manageStringFull_diverges:
  assumes "jIndexOf n t \<noteq> - 1" "jIndexOf i t \<noteq> - 1" "CHR 0x24 \<notin> set i"
  shows "manageStringFull n t i True = None"
proof -
  define P where "P n t i u r = (u \<and> jIndexOf i t \<noteq> - 1 \<and> CHR 0x24 \<notin> set i \<longrightarrow> jIndexOf n t = - 1)"
    for n t i :: string and u and r :: string
  have "P n t i u r" if "manageStringFull n t i u = Some r" for n t i u r
  proof (rule manageStringFull.raw_induct [OF _ that])
    show "P n t i u y"
      if "\<And>n t i u y. f n t i u = Some y \<Longrightarrow> P n t i u y"
        "(if jIndexOf n t = - 1 then Some n else if u then f (jReplace n t i) t i u else Some (jReplace n t i)) = Some y"
      for f n t i u y
      using that(2) contains_self_replaced [of n t i] that(1) [of "jReplace n t i" t i u y]
      by (auto simp: P_def split: if_splits)
  qed
  then have "manageStringFull n t i True \<noteq> Some r" for r
    using assms unfolding P_def by blast
  with assms show ?thesis by (metis option.exhaust)
qed

theorem manageStringFull_diverges_witness:
  "manageStringFull ''hi {1}'' ''{1}'' ''x{1}'' True = None"
  by (rule manageStringFull_diverges) (simp_all add: jIndexOf_def occursAt_def upt_rec)

text \<open>with a replacement that is shorter than the pattern the substitution
  always returns, and a full substitution leaves no occurrence of the pattern.\<close>

theorem manageStringFull_returns:
  assumes "length i < length t" "CHR 0x24 \<notin> set i"
  shows "\<exists>r. manageStringFull n t i u = Some r \<and> (u \<longrightarrow> jIndexOf r t = - 1)"
proof (induction "length n" arbitrary: n rule: less_induct)
  case less
  show ?case
  proof (cases "jIndexOf n t = - 1 \<or> \<not> u")
    case True
    then show ?thesis by (subst manageStringFull.simps) auto
  next
    case False
    then obtain k where "k + length t \<le> length n" "jReplace n t i = take k n @ i @ drop (k + length t) n"
      using assms(2) by (blast elim: jReplace_plain)
    then have "length (jReplace n t i) < length n" using assms(1) by simp
    from less [OF this] False show ?thesis by (subst manageStringFull.simps) simp
  qed
qed

theorem manageStringFull_returns_witness:
  "length ''7'' < length ''%U'' \<and> (\<exists>r. manageStringFull ''%U of %U'' ''%U'' ''7'' True = Some r \<and> jIndexOf r ''%U'' = - 1)"
  using manageStringFull_returns [of "''7''" "''%U''" "''%U of %U''" True] by simp

end
