(* ===== verification/ModelConst.thy ===== *)
theory ModelConst
  imports Define
begin

text \<open>
  The constants of the modules \<open>ModelConst\<close> (attribute numbers and their bounds) and
  \<open>BattleConst\<close> (battle field layout, result codes, damage formula numbers and
  effect bits), and the constants of \<open>Define\<close> on skill weapons and monster
  behaviour, with the source's names and values (\<open>STR\<close>, a word of the logic, is \<open>ATTR_STR\<close>).
\<close>

section \<open>Attribute numbers\<close>

abbreviation (input) EXP :: int where "EXP \<equiv> 0"
abbreviation (input) EXPMAX :: int where "EXPMAX \<equiv> 1"
abbreviation (input) HP :: int where "HP \<equiv> 2"
abbreviation (input) MP :: int where "MP \<equiv> 3"
abbreviation (input) CP :: int where "CP \<equiv> 4"
abbreviation (input) SP :: int where "SP \<equiv> 5"
abbreviation (input) ATTR_STR :: int where "ATTR_STR \<equiv> 6"
abbreviation (input) CON :: int where "CON \<equiv> 7"
abbreviation (input) AGI :: int where "AGI \<equiv> 8"
abbreviation (input) ILT :: int where "ILT \<equiv> 9"
abbreviation (input) WIS :: int where "WIS \<equiv> 10"
abbreviation (input) MONEY1 :: int where "MONEY1 \<equiv> 11"
abbreviation (input) MONEY2 :: int where "MONEY2 \<equiv> 12"
abbreviation (input) MONEY3 :: int where "MONEY3 \<equiv> 13"
abbreviation (input) NUM_STROE :: int where "NUM_STROE \<equiv> 15"
abbreviation (input) COUNTRY_HONOR :: int where "COUNTRY_HONOR \<equiv> 16"
abbreviation (input) CITY_ID :: int where "CITY_ID \<equiv> 17"
abbreviation (input) KILL_COUNT :: int where "KILL_COUNT \<equiv> 18"
abbreviation (input) PK_WIN_COUNT :: int where "PK_WIN_COUNT \<equiv> 19"
abbreviation (input) PK_LOSE_COUNT :: int where "PK_LOSE_COUNT \<equiv> 20"
abbreviation (input) TOTAL_ONLINE :: int where "TOTAL_ONLINE \<equiv> 21"
abbreviation (input) PARTNER_ID :: int where "PARTNER_ID \<equiv> 22"
abbreviation (input) HPMAX :: int where "HPMAX \<equiv> 29"
abbreviation (input) MPMAX :: int where "MPMAX \<equiv> 30"
abbreviation (input) SPEED :: int where "SPEED \<equiv> 31"
abbreviation (input) ATK_TYPE :: int where "ATK_TYPE \<equiv> 32"
abbreviation (input) ATK_MIN :: int where "ATK_MIN \<equiv> 33"
abbreviation (input) ATK_MAX :: int where "ATK_MAX \<equiv> 34"
abbreviation (input) ATK_TIME :: int where "ATK_TIME \<equiv> 35"
abbreviation (input) ATK_STR :: int where "ATK_STR \<equiv> 36"
abbreviation (input) ATK_AGI :: int where "ATK_AGI \<equiv> 37"
abbreviation (input) ATK_MAGIC :: int where "ATK_MAGIC \<equiv> 38"
abbreviation (input) DEF_STR :: int where "DEF_STR \<equiv> 39"
abbreviation (input) DEF_AGI :: int where "DEF_AGI \<equiv> 40"
abbreviation (input) DEF_MAGIC :: int where "DEF_MAGIC \<equiv> 41"
abbreviation (input) DODGE :: int where "DODGE \<equiv> 42"
abbreviation (input) HIT_RATE :: int where "HIT_RATE \<equiv> 43"
abbreviation (input) HIT_MAGIC :: int where "HIT_MAGIC \<equiv> 44"
abbreviation (input) CRITICAL :: int where "CRITICAL \<equiv> 45"
abbreviation (input) FORCE_HIT :: int where "FORCE_HIT \<equiv> 46"
abbreviation (input) EXP_UP :: int where "EXP_UP \<equiv> 47"
abbreviation (input) WIL :: int where "WIL \<equiv> 48"
abbreviation (input) TOUGH :: int where "TOUGH \<equiv> 49"
abbreviation (input) BLOCK :: int where "BLOCK \<equiv> 51"
abbreviation (input) BRK_ARMOR :: int where "BRK_ARMOR \<equiv> 52"
abbreviation (input) INSIGHT :: int where "INSIGHT \<equiv> 53"
abbreviation (input) DEF_FIELD :: int where "DEF_FIELD \<equiv> 54"
abbreviation (input) BACK :: int where "BACK \<equiv> 55"
abbreviation (input) MAGIC_BACK :: int where "MAGIC_BACK \<equiv> 56"
abbreviation (input) PET_COLOR :: int where "PET_COLOR \<equiv> 81"
abbreviation (input) PET_GRADE :: int where "PET_GRADE \<equiv> 82"
abbreviation (input) PET_GROW_LEVEL :: int where "PET_GROW_LEVEL \<equiv> 83"
abbreviation (input) LIFE_ABSORPTION :: int where "LIFE_ABSORPTION \<equiv> 57"
abbreviation (input) MANA_ABSORPTION :: int where "MANA_ABSORPTION \<equiv> 58"
abbreviation (input) MAGIC_PENETRATION :: int where "MAGIC_PENETRATION \<equiv> 59"
abbreviation (input) HEAL_RECOVERY :: int where "HEAL_RECOVERY \<equiv> 60"
abbreviation (input) MANA_RECOVERY :: int where "MANA_RECOVERY \<equiv> 61"
abbreviation (input) RECOVERY :: int where "RECOVERY \<equiv> 62"
abbreviation (input) ARGO :: int where "ARGO \<equiv> 63"
abbreviation (input) BACK_MAX :: int where "BACK_MAX \<equiv> 64"
abbreviation (input) MASTER_FLAG :: int where "MASTER_FLAG \<equiv> 65"
abbreviation (input) INTEGRAL :: int where "INTEGRAL \<equiv> 68"
abbreviation (input) LEFT_WEAPON_TYPE :: int where "LEFT_WEAPON_TYPE \<equiv> 71"
abbreviation (input) RIGHT_WEAPON_TYPE :: int where "RIGHT_WEAPON_TYPE \<equiv> 72"
abbreviation (input) LEFT_ATK_MIN :: int where "LEFT_ATK_MIN \<equiv> 73"
abbreviation (input) LEFT_ATK_MAX :: int where "LEFT_ATK_MAX \<equiv> 74"
abbreviation (input) RIGHT_ATK_MIN :: int where "RIGHT_ATK_MIN \<equiv> 75"
abbreviation (input) RIGHT_ATK_MAX :: int where "RIGHT_ATK_MAX \<equiv> 76"
abbreviation (input) LEFT_ATK_TIME :: int where "LEFT_ATK_TIME \<equiv> 77"
abbreviation (input) RIGHT_ATK_TIME :: int where "RIGHT_ATK_TIME \<equiv> 78"
abbreviation (input) BUFFER_REMOVE_STATUS :: int where "BUFFER_REMOVE_STATUS \<equiv> 90"
abbreviation (input) HP_DISPLAY :: int where "HP_DISPLAY \<equiv> 91"
abbreviation (input) MP_DISPLAY :: int where "MP_DISPLAY \<equiv> 92"
abbreviation (input) ID :: int where "ID \<equiv> 102"
abbreviation (input) SEX :: int where "SEX \<equiv> 103"
abbreviation (input) RACE :: int where "RACE \<equiv> 104"
abbreviation (input) JOB :: int where "JOB \<equiv> 105"
abbreviation (input) LEVEL :: int where "LEVEL \<equiv> 106"
abbreviation (input) SETTING :: int where "SETTING \<equiv> 108"
abbreviation (input) STATUS :: int where "STATUS \<equiv> 109"
abbreviation (input) COUNTRY_ID :: int where "COUNTRY_ID \<equiv> 110"
abbreviation (input) COUNTRY_RANK :: int where "COUNTRY_RANK \<equiv> 111"
abbreviation (input) PX :: int where "PX \<equiv> 113"
abbreviation (input) PY :: int where "PY \<equiv> 114"
abbreviation (input) COUNTRY_RANK_SET :: int where "COUNTRY_RANK_SET \<equiv> 115"
abbreviation (input) COUNTRY_ID_SET :: int where "COUNTRY_ID_SET \<equiv> 116"
abbreviation (input) STATUS_SET :: int where "STATUS_SET \<equiv> 117"
abbreviation (input) LEVEL2 :: int where "LEVEL2 \<equiv> 118"
abbreviation (input) EXP2 :: int where "EXP2 \<equiv> 119"
abbreviation (input) EXPMAX2 :: int where "EXPMAX2 \<equiv> 120"
abbreviation (input) ENCHANTVALUE :: int where "ENCHANTVALUE \<equiv> 121"
abbreviation (input) COMBATPOINT :: int where "COMBATPOINT \<equiv> 122"
abbreviation (input) IGNORE_BACK :: int where "IGNORE_BACK \<equiv> 200"
abbreviation (input) IGNORE_MAGIC_BACK :: int where "IGNORE_MAGIC_BACK \<equiv> 201"
abbreviation (input) IGNORE_BLOCK :: int where "IGNORE_BLOCK \<equiv> 202"
abbreviation (input) IGNORE_INSIGHT :: int where "IGNORE_INSIGHT \<equiv> 203"
abbreviation (input) IGNORE_WIL :: int where "IGNORE_WIL \<equiv> 204"
abbreviation (input) IGNORE_TOUCH :: int where "IGNORE_TOUCH \<equiv> 205"
abbreviation (input) KEEPOUT_ATK_TIME :: int where "KEEPOUT_ATK_TIME \<equiv> 250"
abbreviation (input) NEW_REFLECTION :: int where "NEW_REFLECTION \<equiv> 251"
abbreviation (input) SET_EXP :: int where "SET_EXP \<equiv> 5001"
abbreviation (input) SET_EXPMAX :: int where "SET_EXPMAX \<equiv> 5002"
abbreviation (input) SET_EXP2 :: int where "SET_EXP2 \<equiv> 5003"
abbreviation (input) SET_EXPMAX2 :: int where "SET_EXPMAX2 \<equiv> 5004"
abbreviation (input) MAX_STORE_NUM :: int where "MAX_STORE_NUM \<equiv> 60"
abbreviation (input) MAX_PLAYER_HP :: int where "MAX_PLAYER_HP \<equiv> 9999999"
abbreviation (input) MAX_PLAYER_MP :: int where "MAX_PLAYER_MP \<equiv> 9999999"
abbreviation (input) MAX_BASE_ATTRIBUTE :: int where "MAX_BASE_ATTRIBUTE \<equiv> 32767"
abbreviation (input) MAX_OTHER_ATTRIBUTE :: int where "MAX_OTHER_ATTRIBUTE \<equiv> 1000000"
abbreviation (input) MAX_DEF :: int where "MAX_DEF \<equiv> 65535"
abbreviation (input) MIN_HIT_MAGIC :: int where "MIN_HIT_MAGIC \<equiv> 20"
abbreviation (input) MIN_FORCE_HITRATE :: int where "MIN_FORCE_HITRATE \<equiv> 30"
abbreviation (input) MAX_FORCE_RATE :: int where "MAX_FORCE_RATE \<equiv> 70"
abbreviation (input) MIN_HIT_TIME :: int where "MIN_HIT_TIME \<equiv> 1"
abbreviation (input) MAX_HIT_TIME :: int where "MAX_HIT_TIME \<equiv> 99"
abbreviation (input) MAX_ATK :: int where "MAX_ATK \<equiv> 99999999"
abbreviation (input) MAX_KEEPOUT_ATK_TIME :: int where "MAX_KEEPOUT_ATK_TIME \<equiv> 100"
abbreviation (input) MAX_OTHER_PROBABILITY :: int where "MAX_OTHER_PROBABILITY \<equiv> 1000"
abbreviation (input) MIN_DEF_FIELD :: int where "MIN_DEF_FIELD \<equiv> - 999999"
abbreviation (input) MIN_HEAL_RECOVERY :: int where "MIN_HEAL_RECOVERY \<equiv> - 999999"
abbreviation (input) MIN_MANA_RECOVERY :: int where "MIN_MANA_RECOVERY \<equiv> - 999999"
abbreviation (input) BUFFER_DIE_1HP_CHECK :: int where "BUFFER_DIE_1HP_CHECK \<equiv> 134217728"
abbreviation (input) BUFFER_DIE_FULLHP_CHECK :: int where "BUFFER_DIE_FULLHP_CHECK \<equiv> 268435456"
abbreviation (input) BUFFER_DIE_DELAY_CHECK :: int where "BUFFER_DIE_DELAY_CHECK \<equiv> 536870912"
abbreviation (input) TAG_IS_KEEP_OUT :: int where "TAG_IS_KEEP_OUT \<equiv> 1073741824"

section \<open>Battle constants\<close>

abbreviation (input) POSITION_COLUMN_1 :: int where "POSITION_COLUMN_1 \<equiv> 1"
abbreviation (input) POSITION_COLUMN_2 :: int where "POSITION_COLUMN_2 \<equiv> 2"
abbreviation (input) POSITION_COLUMN_3 :: int where "POSITION_COLUMN_3 \<equiv> 3"
abbreviation (input) POSITION_COLUMN_4 :: int where "POSITION_COLUMN_4 \<equiv> 4"
abbreviation (input) DMG_VALUE :: int where "DMG_VALUE \<equiv> 0"
abbreviation (input) DMG_EFFECT :: int where "DMG_EFFECT \<equiv> 1"
abbreviation (input) DMG_BACK_VALUE :: int where "DMG_BACK_VALUE \<equiv> 2"
abbreviation (input) DMG_HP_GET_VALUE :: int where "DMG_HP_GET_VALUE \<equiv> 3"
abbreviation (input) DMG_MP_GET_VALUE :: int where "DMG_MP_GET_VALUE \<equiv> 4"
abbreviation (input) DMG_DATA_SIZE :: int where "DMG_DATA_SIZE \<equiv> 5"
abbreviation (input) LEFT_MAX_POS :: int where "LEFT_MAX_POS \<equiv> 20"
abbreviation (input) MAX_POS :: int where "MAX_POS \<equiv> 34"
abbreviation (input) MAX_ROW_NUM :: int where "MAX_ROW_NUM \<equiv> 10"
abbreviation (input) LEFT_SIDE :: int where "LEFT_SIDE \<equiv> 1"
abbreviation (input) RIGHT_SIDE :: int where "RIGHT_SIDE \<equiv> 2"
abbreviation (input) FIRST_ROUND_PLAN_TIME :: int where "FIRST_ROUND_PLAN_TIME \<equiv> 60000"
abbreviation (input) NORMAL_ROUND_PLAN_TIME :: int where "NORMAL_ROUND_PLAN_TIME \<equiv> 40000"
abbreviation (input) RESULT_NONE :: int where "RESULT_NONE \<equiv> 0"
abbreviation (input) RESULT_LEFT_WIN :: int where "RESULT_LEFT_WIN \<equiv> 1"
abbreviation (input) RESULT_RIGHT_WIN :: int where "RESULT_RIGHT_WIN \<equiv> 2"
abbreviation (input) RESULT_ROUND_OVER :: int where "RESULT_ROUND_OVER \<equiv> 3"
abbreviation (input) RESULT_BOTH_LOSE :: int where "RESULT_BOTH_LOSE \<equiv> 4"
abbreviation (input) ESCAPE_RATE_HIGH :: int where "ESCAPE_RATE_HIGH \<equiv> 95"
abbreviation (input) ESCAPE_RATE_MID :: int where "ESCAPE_RATE_MID \<equiv> 75"
abbreviation (input) ESCAPE_RATE_LOW :: int where "ESCAPE_RATE_LOW \<equiv> 40"
abbreviation (input) MAX_SHOW_HIT :: int where "MAX_SHOW_HIT \<equiv> 5"
abbreviation (input) MAX_SHOW_HIT_2 :: int where "MAX_SHOW_HIT_2 \<equiv> 10"
abbreviation (input) MAX_RATE_WIL :: int where "MAX_RATE_WIL \<equiv> 700"
abbreviation (input) MAX_RATE_TOUCH :: int where "MAX_RATE_TOUCH \<equiv> 700"
abbreviation (input) MAX_RATE_HPMP_GET :: int where "MAX_RATE_HPMP_GET \<equiv> 1000"
abbreviation (input) MAX_BLOCK_TOUCH :: int where "MAX_BLOCK_TOUCH \<equiv> 70"
abbreviation (input) BLOCK_HIT_REDUCE :: int where "BLOCK_HIT_REDUCE \<equiv> 10"
abbreviation (input) MAX_INSIGHT_TOUCH :: int where "MAX_INSIGHT_TOUCH \<equiv> 100"
abbreviation (input) BATTLE_DMG_MIN :: int where "BATTLE_DMG_MIN \<equiv> 95"
abbreviation (input) BATTLE_DMG_MAX :: int where "BATTLE_DMG_MAX \<equiv> 105"
abbreviation (input) BATTLE_RD_MAX :: int where "BATTLE_RD_MAX \<equiv> 75"
abbreviation (input) BATTLE_STR_HITRATE :: int where "BATTLE_STR_HITRATE \<equiv> 1"
abbreviation (input) BATTLE_AGI_HITRATE :: int where "BATTLE_AGI_HITRATE \<equiv> 2"
abbreviation (input) BATTLE_MAGIC_HITRATE :: int where "BATTLE_MAGIC_HITRATE \<equiv> 3"
abbreviation (input) BATTLE_DMG_STR :: int where "BATTLE_DMG_STR \<equiv> 5"
abbreviation (input) BATTLE_DMG_AGI :: int where "BATTLE_DMG_AGI \<equiv> 6"
abbreviation (input) BATTLE_DMG_MAGIC :: int where "BATTLE_DMG_MAGIC \<equiv> 7"
abbreviation (input) BATTLE_RD_STR :: int where "BATTLE_RD_STR \<equiv> 8"
abbreviation (input) BATTLE_RD_AGI :: int where "BATTLE_RD_AGI \<equiv> 9"
abbreviation (input) BATTLE_RD_MAGIC :: int where "BATTLE_RD_MAGIC \<equiv> 10"
abbreviation (input) BATTLE_AP_STR :: int where "BATTLE_AP_STR \<equiv> 11"
abbreviation (input) BATTLE_AP_AGI :: int where "BATTLE_AP_AGI \<equiv> 12"
abbreviation (input) BATTLE_AP_MAGIC :: int where "BATTLE_AP_MAGIC \<equiv> 13"
abbreviation (input) BATTLE_CRI_RATE :: int where "BATTLE_CRI_RATE \<equiv> 14"
abbreviation (input) BATTLE_RAND_ATC :: int where "BATTLE_RAND_ATC \<equiv> 20"
abbreviation (input) BATTLE_BLOCK :: int where "BATTLE_BLOCK \<equiv> 21"
abbreviation (input) BATTLE_INSIGHT :: int where "BATTLE_INSIGHT \<equiv> 22"
abbreviation (input) BATTLE_BACK :: int where "BATTLE_BACK \<equiv> 23"
abbreviation (input) BATTLE_MAGIC_BACK :: int where "BATTLE_MAGIC_BACK \<equiv> 24"
abbreviation (input) BATTLE_DAMAGE :: int where "BATTLE_DAMAGE \<equiv> 30"
abbreviation (input) BATTLE_HITRATE :: int where "BATTLE_HITRATE \<equiv> 31"
abbreviation (input) MAX_ROUND :: int where "MAX_ROUND \<equiv> 30"
abbreviation (input) PLAN_NONE :: int where "PLAN_NONE \<equiv> 0"
abbreviation (input) PLAN_ATTACK :: int where "PLAN_ATTACK \<equiv> 1"
abbreviation (input) PLAN_USE_SKILL :: int where "PLAN_USE_SKILL \<equiv> 2"
abbreviation (input) PLAN_USE_ITEM :: int where "PLAN_USE_ITEM \<equiv> 3"
abbreviation (input) PLAN_ESCAPE :: int where "PLAN_ESCAPE \<equiv> 4"
abbreviation (input) ESCAPE_SUCCESS :: int where "ESCAPE_SUCCESS \<equiv> 1"
abbreviation (input) ESCAPE_FAILED :: int where "ESCAPE_FAILED \<equiv> 0"
abbreviation (input) EFFECT_BLOCK :: int where "EFFECT_BLOCK \<equiv> 1"
abbreviation (input) EFFECT_HIT :: int where "EFFECT_HIT \<equiv> 2"
abbreviation (input) EFFECT_CRITICAL :: int where "EFFECT_CRITICAL \<equiv> 4"
abbreviation (input) EFFECT_DIE :: int where "EFFECT_DIE \<equiv> 8"
abbreviation (input) EFFECT_REBORN :: int where "EFFECT_REBORN \<equiv> 16"
abbreviation (input) EFFECT_STUN :: int where "EFFECT_STUN \<equiv> 32"
abbreviation (input) EFFECT_MP_CHANGE :: int where "EFFECT_MP_CHANGE \<equiv> 64"
abbreviation (input) EFFECT_DEF_FIELD :: int where "EFFECT_DEF_FIELD \<equiv> 128"
abbreviation (input) EFFECT_TOUCH :: int where "EFFECT_TOUCH \<equiv> 256"
abbreviation (input) EFFECT_DIE_DELAY :: int where "EFFECT_DIE_DELAY \<equiv> 512"
abbreviation (input) EFFECT_HAS_ANIME :: int where "EFFECT_HAS_ANIME \<equiv> 1024"
abbreviation (input) EFFECT_BYTE_VALUE :: int where "EFFECT_BYTE_VALUE \<equiv> 2048"
abbreviation (input) EFFECT_SHORT_VALUE :: int where "EFFECT_SHORT_VALUE \<equiv> 4096"
abbreviation (input) EFFECT_INT_VALUE :: int where "EFFECT_INT_VALUE \<equiv> 8192"
abbreviation (input) EFFECT_KEEPOUT :: int where "EFFECT_KEEPOUT \<equiv> 16384"
abbreviation (input) TYPE_BATTLE_SKILL :: int where "TYPE_BATTLE_SKILL \<equiv> 31"
abbreviation (input) TYPE_BATTLE_ESCAPE :: int where "TYPE_BATTLE_ESCAPE \<equiv> 32"
abbreviation (input) TYPE_BATTLE_TARGET_EFFECT :: int where "TYPE_BATTLE_TARGET_EFFECT \<equiv> 33"
abbreviation (input) TYPE_BATTLE_SELF_EFFECT :: int where "TYPE_BATTLE_SELF_EFFECT \<equiv> 34"
abbreviation (input) BUFF_MAX_SIZE :: int where "BUFF_MAX_SIZE \<equiv> 3"

section \<open>Skill weapons, monster behaviour and guards\<close>

abbreviation (input) SPRITE_USE_ITEM :: int where "SPRITE_USE_ITEM \<equiv> 1215"
abbreviation (input) ANIME_TYPE_PHYSIC :: int where "ANIME_TYPE_PHYSIC \<equiv> 0"
abbreviation (input) ANIME_TYPE_MAGIC :: int where "ANIME_TYPE_MAGIC \<equiv> 1"
abbreviation (input) ANIME_TYPE_USE_ITEM :: int where "ANIME_TYPE_USE_ITEM \<equiv> 2"
abbreviation (input) ANIME_TYPE_BACKUP :: int where "ANIME_TYPE_BACKUP \<equiv> 3"
abbreviation (input) SKILL_WEAPON_NONE :: int where "SKILL_WEAPON_NONE \<equiv> 0"
abbreviation (input) SKILL_WEAPON_MELEE_1 :: int where "SKILL_WEAPON_MELEE_1 \<equiv> 1"
abbreviation (input) SKILL_WEAPON_MELEE_2 :: int where "SKILL_WEAPON_MELEE_2 \<equiv> 2"
abbreviation (input) SKILL_WEAPON_MELEE_3 :: int where "SKILL_WEAPON_MELEE_3 \<equiv> 3"
abbreviation (input) SKILL_WEAPON_RANGE :: int where "SKILL_WEAPON_RANGE \<equiv> 4"
abbreviation (input) SKILL_WEAPON_ONE_HAND :: int where "SKILL_WEAPON_ONE_HAND \<equiv> 5"
abbreviation (input) SKILL_WEAPON_ONE_SWORD :: int where "SKILL_WEAPON_ONE_SWORD \<equiv> 6"
abbreviation (input) SKILL_WEAPON_TWO_SWORD :: int where "SKILL_WEAPON_TWO_SWORD \<equiv> 7"
abbreviation (input) SKILL_WEAPON_HEAVY_SWORD :: int where "SKILL_WEAPON_HEAVY_SWORD \<equiv> 8"
abbreviation (input) SKILL_WEAPON_ONE_BLADE :: int where "SKILL_WEAPON_ONE_BLADE \<equiv> 9"
abbreviation (input) SKILL_WEAPON_TWO_BLADE :: int where "SKILL_WEAPON_TWO_BLADE \<equiv> 10"
abbreviation (input) SKILL_WEAPON_HEAVY_BLADE :: int where "SKILL_WEAPON_HEAVY_BLADE \<equiv> 11"
abbreviation (input) SKILL_WEAPON_ONE_HEAVY :: int where "SKILL_WEAPON_ONE_HEAVY \<equiv> 12"
abbreviation (input) SKILL_WEAPON_LANCE :: int where "SKILL_WEAPON_LANCE \<equiv> 13"
abbreviation (input) SKILL_WEAPON_ONE_CROSSBOW :: int where "SKILL_WEAPON_ONE_CROSSBOW \<equiv> 14"
abbreviation (input) SKILL_WEAPON_TOW_CROSSBOW :: int where "SKILL_WEAPON_TOW_CROSSBOW \<equiv> 15"
abbreviation (input) SKILL_WEAPON_HEAVY_CROSSBOW :: int where "SKILL_WEAPON_HEAVY_CROSSBOW \<equiv> 16"
abbreviation (input) SKILL_WEAPON_BOW :: int where "SKILL_WEAPON_BOW \<equiv> 17"
abbreviation (input) SKILL_WEAPON_HAND :: int where "SKILL_WEAPON_HAND \<equiv> 18"
abbreviation (input) SKILL_WEAPON_CANE :: int where "SKILL_WEAPON_CANE \<equiv> 19"
abbreviation (input) SKILL_WEAPON_SWORD :: int where "SKILL_WEAPON_SWORD \<equiv> 20"
abbreviation (input) SKILL_WEAPON_ONE_HAND_BLADE :: int where "SKILL_WEAPON_ONE_HAND_BLADE \<equiv> 21"
abbreviation (input) SKILL_WEAPON_BALL :: int where "SKILL_WEAPON_BALL \<equiv> 22"
abbreviation (input) SKILL_WEAPON_GUN :: int where "SKILL_WEAPON_GUN \<equiv> 23"
abbreviation (input) SKILL_WEAPON_TWO_GUN :: int where "SKILL_WEAPON_TWO_GUN \<equiv> 24"
abbreviation (input) SKILL_WEAPON_HEAVY_GUN :: int where "SKILL_WEAPON_HEAVY_GUN \<equiv> 25"
abbreviation (input) SKILL_WEAPON_HAMMER :: int where "SKILL_WEAPON_HAMMER \<equiv> 26"
abbreviation (input) SKILL_WEAPON_TWO_HAMMER :: int where "SKILL_WEAPON_TWO_HAMMER \<equiv> 27"
abbreviation (input) SKILL_WEAPON_HEAVY_HAMMER :: int where "SKILL_WEAPON_HEAVY_HAMMER \<equiv> 28"
abbreviation (input) SKILL_WEAPON_FAN :: int where "SKILL_WEAPON_FAN \<equiv> 29"
abbreviation (input) SKILL_POS_STAND :: int where "SKILL_POS_STAND \<equiv> 0"
abbreviation (input) SKILL_POS_FRONT :: int where "SKILL_POS_FRONT \<equiv> 1"
abbreviation (input) SKILL_POS_CENTER :: int where "SKILL_POS_CENTER \<equiv> 2"
abbreviation (input) CONDITION_NONE :: int where "CONDITION_NONE \<equiv> 0"
abbreviation (input) CONDITION_HP_BELOW :: int where "CONDITION_HP_BELOW \<equiv> 1"
abbreviation (input) CONDITION_HP_HIGH :: int where "CONDITION_HP_HIGH \<equiv> 2"
abbreviation (input) CONDITION_HELP_RATE :: int where "CONDITION_HELP_RATE \<equiv> 3"
abbreviation (input) CONDITION_ROUND :: int where "CONDITION_ROUND \<equiv> 4"
abbreviation (input) CONDITION_PLAYER_COUNT :: int where "CONDITION_PLAYER_COUNT \<equiv> 5"
abbreviation (input) CONDITION_MONSTER_COUNT :: int where "CONDITION_MONSTER_COUNT \<equiv> 6"

abbreviation (input) SKYARENA :: int where "SKYARENA \<equiv> 70000"
abbreviation (input) ARENA :: int where "ARENA \<equiv> 70001"
abbreviation (input) SCORE_TOWER :: int where "SCORE_TOWER \<equiv> - 6"
abbreviation (input) RICHMAN_SCORE :: int where "RICHMAN_SCORE \<equiv> - 10"

abbreviation (input) BSTATUS_ESCAPE :: int where "BSTATUS_ESCAPE \<equiv> 1"
abbreviation (input) TARGET_ESCAPE :: int where "TARGET_ESCAPE \<equiv> 100"

section \<open>Kinds of characters (MODEL_TYPE)\<close>

abbreviation (input) TYPE_NONE :: int where "TYPE_NONE \<equiv> 0"
abbreviation (input) TYPE_NPC :: int where "TYPE_NPC \<equiv> 1"
abbreviation (input) TYPE_MONSTER :: int where "TYPE_MONSTER \<equiv> 2"
abbreviation (input) TYPE_PLAYER :: int where "TYPE_PLAYER \<equiv> 3"
abbreviation (input) TYPE_PET :: int where "TYPE_PET \<equiv> 4"
abbreviation (input) TYPE_MERCENARY :: int where "TYPE_MERCENARY \<equiv> 5"
abbreviation (input) TYPE_PLAYER_MONSTER :: int where "TYPE_PLAYER_MONSTER \<equiv> 6"
abbreviation (input) TYPE_PET_MONSTER :: int where "TYPE_PET_MONSTER \<equiv> 7"
abbreviation (input) TYPE_PLAYER_COMPETE :: int where "TYPE_PLAYER_COMPETE \<equiv> 8"
abbreviation (input) TYPE_COMPETE_PET :: int where "TYPE_COMPETE_PET \<equiv> 9"
abbreviation (input) TYPE_LEGION :: int where "TYPE_LEGION \<equiv> 10"
abbreviation (input) TYPE_LEGION_PET :: int where "TYPE_LEGION_PET \<equiv> 11"

end
