(* ===== verification/Skill.thy ===== *)
theory Skill
  imports ModelConst
begin

text \<open>
  The class \<open>Skill\<close>: the data of a skill that the attribute and battle code reads,
  its power lookup and the test whether the equipped weapons allow the skill.
  A missing skill and the shared \<open>DUMMY_SKILL\<close> object that stands for it in the
  damage formulas are the value \<open>None\<close> of a \<open>skill option\<close>.
\<close>

record skill =
  skill_id :: int
  skill_level :: int
  addLevel :: int
  skill_name :: string
  skill_type :: int
  skill_money1 :: int
  skill_money2 :: int
  skill_money3 :: int
  skillWeapon :: int
  skillAtkType :: int
  skill_atk_time :: int
  area :: int
  skill_position :: int
  useMP :: int
  useHP :: int
  skill_round :: int
  pow1 :: int
  powValue1 :: int
  statusBit1 :: int
  pow2 :: int
  powValue2 :: int
  statusBit2 :: int
  pow3 :: int
  powValue3 :: int
  statusBit3 :: int
  anime1 :: int
  anime2 :: int
  anime3 :: int

definition DUMMY_SKILL :: skill where
  "DUMMY_SKILL =
     \<lparr>skill_id = 0, skill_level = 0, addLevel = 0, skill_name = [], skill_type = 0,
      skill_money1 = 0, skill_money2 = 0, skill_money3 = 0, skillWeapon = 0, skillAtkType = 0,
      skill_atk_time = 0, area = 0, skill_position = 0, useMP = 0, useHP = 0, skill_round = 0,
      pow1 = 0, powValue1 = 0, statusBit1 = 0, pow2 = 0, powValue2 = 0, statusBit2 = 0,
      pow3 = 0, powValue3 = 0, statusBit3 = 0, anime1 = 0, anime2 = 0, anime3 = 0\<rparr>"

definition isAddSkill :: "skill \<Rightarrow> bool" where
  "isAddSkill s =
     (if addLevel s \<le> 0 then False else if skill_level s - addLevel s > 0 then False else True)"

definition skill_getMoney :: "skill \<Rightarrow> int" where
  "skill_getMoney s =
     (if skill_money1 s > 0 then skill_money1 s
      else if skill_money2 s > 0 then skill_money2 s
      else if skill_money3 s > 0 then skill_money3 s else 0)"

definition skill_getMoneyType :: "skill \<Rightarrow> int" where
  "skill_getMoneyType s =
     (if skill_money1 s > 0 then MONEY1
      else if skill_money2 s > 0 then MONEY2
      else if skill_money3 s > 0 then MONEY3 else MONEY3)"

definition skill_getPowerValue :: "skill \<Rightarrow> int \<Rightarrow> int" where
  "skill_getPowerValue s e =
     (let t = 0;
          t = (if pow1 s = e then t + powValue1 s else t);
          t = (if pow2 s = e then t + powValue2 s else t);
          t = (if pow3 s = e then t + powValue3 s else t)
      in toInt32 t)"

definition skillPower :: "skill option \<Rightarrow> int \<Rightarrow> int" where
  "skillPower s e = skill_getPowerValue (case s of None \<Rightarrow> DUMMY_SKILL | Some s \<Rightarrow> s) e"

definition isRebornSkill :: "skill \<Rightarrow> bool" where
  "isRebornSkill s =
     (if pow1 s = POWER_RECOVER \<or> pow1 s = POWER_RECOVER_PERCENT then True
      else if pow2 s = POWER_RECOVER \<or> pow2 s = POWER_RECOVER_PERCENT then True
      else if pow3 s = POWER_RECOVER \<or> pow3 s = POWER_RECOVER_PERCENT then True
      else False)"

text \<open>\<open>e\<close> is the value of \<open>HP\<close> of the player, \<open>None\<close> when there is no player.\<close>

definition isEnoughHP :: "skill \<Rightarrow> int option \<Rightarrow> bool" where
  "isEnoughHP s e =
     (if useHP s \<le> 0 then True
      else (case e of None \<Rightarrow> False | Some hp \<Rightarrow> hp \<ge> useHP s + 1))"

text \<open>The test exists twice in the source; the copy for a bare weapon class ends
  with the guns, the copy for a skill also has the hammers and the fan.\<close>

definition isValidSkillWeaponUseSkillWeapon :: "int \<Rightarrow> int \<Rightarrow> int \<Rightarrow> bool" where
  "isValidSkillWeaponUseSkillWeapon e t i =
     (if i = SKILL_WEAPON_NONE then True
      else if i = SKILL_WEAPON_MELEE_1 then
        isNullHand e t \<or> isValidSword e t \<or> isValidBlade e t \<or> isValidHeavy e t \<or> isValidLance e t
      else if i = SKILL_WEAPON_MELEE_2 then isValidOneSword e t \<or> isValidOneBlade e t
      else if i = SKILL_WEAPON_MELEE_3 then
        isValidTwoSword e t \<or> isValidTwoBlade e t \<or> isValidTwoHeavy e t \<or> isValidLance e t
      else if i = SKILL_WEAPON_RANGE then isValidCrossrow e t \<or> isValidBow e t
      else if i = SKILL_WEAPON_ONE_HAND then isOneHandWeapon e t \<or> isNullHand e t
      else if i = SKILL_WEAPON_ONE_SWORD then isOneHandWeapon e t \<and> isValidOneSword e t
      else if i = SKILL_WEAPON_TWO_SWORD then
        e = ITEM_TYPE_WEAPON_ONEHAND_SWORD \<and> t = ITEM_TYPE_WEAPON_ONEHAND_SWORD
      else if i = SKILL_WEAPON_HEAVY_SWORD then isValidTwoSword e t
      else if i = SKILL_WEAPON_ONE_BLADE then isValidBlade e t
      else if i = SKILL_WEAPON_TWO_BLADE then
        e = ITEM_TYPE_WEAPON_ONEHAND_BLADE \<and> t = ITEM_TYPE_WEAPON_ONEHAND_BLADE
      else if i = SKILL_WEAPON_HEAVY_BLADE then isValidTwoBlade e t
      else if i = SKILL_WEAPON_ONE_HEAVY then isValidTwoHeavy e t
      else if i = SKILL_WEAPON_LANCE then isValidLance e t
      else if i = SKILL_WEAPON_ONE_CROSSBOW then isValidCrossrow e t
      else if i = SKILL_WEAPON_TOW_CROSSBOW then
        e = ITEM_TYPE_WEAPON_ONEHAND_CROSSBOW \<and> t = ITEM_TYPE_WEAPON_ONEHAND_CROSSBOW
      else if i = SKILL_WEAPON_HEAVY_CROSSBOW then isValidTwoCrossrow e t
      else if i = SKILL_WEAPON_BOW then isValidBow e t
      else if i = SKILL_WEAPON_HAND then isNullHand e t
      else if i = SKILL_WEAPON_CANE then isValidStaff e t
      else if i = SKILL_WEAPON_BALL then isValidBall e t
      else if i = SKILL_WEAPON_SWORD then isValidSword e t
      else if i = SKILL_WEAPON_ONE_HAND_BLADE then isOneHandWeapon e t \<and> isValidOneBlade e t
      else if i = SKILL_WEAPON_GUN then isValidGun e t
      else if i = SKILL_WEAPON_TWO_GUN then
        e = ITEM_TYPE_WEAPON_ONEHAND_GUN \<and> t = ITEM_TYPE_WEAPON_ONEHAND_GUN
      else if i = SKILL_WEAPON_HEAVY_GUN then isValidTwoGun e t
      else False)"

definition isValidSkillWeapon :: "int \<Rightarrow> int \<Rightarrow> skill \<Rightarrow> bool" where
  "isValidSkillWeapon e t s =
     (let i = skillWeapon s
      in if i = SKILL_WEAPON_HAMMER then isValidHammer e t
         else if i = SKILL_WEAPON_TWO_HAMMER then
           e = ITEM_TYPE_WEAPON_ONEHAND_HAMMER \<and> t = ITEM_TYPE_WEAPON_ONEHAND_HAMMER
         else if i = SKILL_WEAPON_HEAVY_HAMMER then isValidTwoHammer e t
         else if i = SKILL_WEAPON_FAN then isValidFan e t
         else isValidSkillWeaponUseSkillWeapon e t i)"

text \<open>the two copies of the weapon test agree, except that the second one never
  accepts a skill for hammers or fans.\<close>

theorem isValidSkillWeapon_copies:
  "isValidSkillWeaponUseSkillWeapon e t (skillWeapon s) \<longleftrightarrow>
     isValidSkillWeapon e t s \<and>
     skillWeapon s \<notin> {SKILL_WEAPON_HAMMER, SKILL_WEAPON_TWO_HAMMER, SKILL_WEAPON_HEAVY_HAMMER, SKILL_WEAPON_FAN}"
proof (cases "skillWeapon s \<in> {26, 27, 28, 29}")
  case True
  then have "\<not> isValidSkillWeaponUseSkillWeapon e t (skillWeapon s)"
    by (auto simp: isValidSkillWeaponUseSkillWeapon_def)
  with True show ?thesis by blast
qed (simp add: isValidSkillWeapon_def Let_def)

lemma skillPower_None [simp]: "t > 0 \<Longrightarrow> skillPower None t = 0"
  by (simp add: skillPower_def skill_getPowerValue_def DUMMY_SKILL_def)

lemma skillPower_range: "int32 (skillPower s e)"
  by (simp add: skillPower_def skill_getPowerValue_def Let_def)

end
