(* ===== verification/Fighter.thy ===== *)
theory Fighter
  imports Bag Skill Tool
begin

text \<open>
  The characters of the game: the classes \<open>ModelVo\<close>, \<open>PlayerVo\<close>, \<open>Monster\<close> and
  \<open>Pet\<close>.

  A character is a value of the record \<open>fighter\<close>.  The fields of \<open>PlayerVo\<close> that
  buffers raise and lower (\<open>speed\<close>, \<open>atk_str\<close>, ...) all behave alike, so they are
  one field \<open>bonus\<close>, a function on the names \<open>battle_attr\<close>.  The fields that only
  the subclass \<open>Monster\<close> has are in \<open>monster\<close>, which is \<open>None\<close> for the other
  characters; the overridden methods of \<open>Monster\<close> select on it.  In the same
  way \<open>fpet\<close> holds the fields of \<open>Pet\<close>.

  The power tables of the singletons \<open>RoleGodData\<close> and \<open>BookGroupModel\<close>, the
  switch of the item upgrades and the table of the special icons are loaded from
  the server; the part that concerns a character is part of its record.  The
  notifications that the setters send to the views are not modelled.
\<close>

section \<open>State\<close>

datatype battle_attr =
    Speed | AtkStr | AtkAgi | AtkMagic | AtkTime | DefStr | DefAgi | DefMagic
  | Dodge | HitRate | HitMagic | Critical | ForceHit | Wil | Tough | Block | BrkArmor
  | Insight | DefField | Back | MagicBack | LifeAbsorption | ManaAbsorption
  | MagicPenetration | HealRecovery | ManaRecovery | KeepoutAtkTime

text \<open>A buffer object: its identity, the attribute it changes, by how much, the
  state it stands for, the rounds it lasts and the slot of the character that
  cast it.\<close>

record buffer =
  bufferId :: nat
  attrID :: int
  addVal :: int
  statusBit :: int
  lastTime :: int
  animeID :: int
  target :: "int option"

record monster_ai =
  conType :: "int list option"
  conValue :: "int list"
  skill1 :: "skill option list option"
  skill2 :: "skill option list option"
  targetType :: "int list option"
  targetPos :: int

record monster_data =
  m_atkType :: int
  m_atkMin :: int
  m_atkMax :: int
  bornStatus :: int
  newReflection :: int
  monsterAI :: "monster_ai option"

record model_vo =
  fid :: int
  ftype :: int
  sex :: int
  race :: int
  job :: int
  level :: int
  level2 :: int
  setting :: int
  fstatus :: int
  countryId :: int
  countryRank :: int
  px :: int
  py :: int
  enchantValue :: int
  intValue1 :: int
  position :: int

record purse =
  money1 :: int
  money2 :: int
  money3 :: int
  p_numStroe :: int
  countryHonor :: int
  cityId :: int
  killCount :: int
  Pkwincount :: int
  Pklosecount :: int
  totalOnline :: int
  partnerId :: int
  masterFlag :: int
  integral :: int
  combatPoint :: int
  skyarenaPoint :: int
  arenaPoint :: int
  towerPoint :: int
  richManPoint :: int
  sp :: int
  cp :: int

record player_vo = model_vo +
  exp :: int
  exp2 :: int
  expMax :: int
  expMax2 :: int
  hp :: int
  mp :: int
  hpDisplay :: int
  mpDisplay :: int
  hpMax :: int
  mpMax :: int
  str :: int
  con :: int
  agi :: int
  ilt :: int
  wis :: int
  argo :: int
  recovery :: int
  exp_up :: int
  readAddValue :: int
  purse :: purse
  bonus :: "battle_attr \<Rightarrow> int"

record turn_monster =
  tpower1 :: int
  tpowerValue1 :: int
  tpower2 :: int
  tpowerValue2 :: int
  tpower3 :: int
  tpowerValue3 :: int

text \<open>The owner of a pet as the pet sees him: whether he is a \<open>PlayerVo\<close>, what his equipment and his
  passive skills add to a power, and his formation.  A pet that fights beside its owner refers to
  him by \<open>ownerVo\<close>; otherwise \<open>owner\<close> looks him up.  \<open>legionMax\<close> holds the maxima of life and mana of
  a pet of a legion (\<open>isLegionPet\<close>).\<close>

record pet_owner =
  o_isPlayer :: bool
  o_add :: "int \<Rightarrow> int"
  o_formation :: "skill option"

record pet_data =
  p_color :: int
  p_grade :: int
  growLevel :: int
  p_atkType :: int
  p_atkMin :: int
  p_atkMax :: int
  petHitrate :: int
  petAtkTime :: int
  p_bornStatus :: int
  legionMax :: "(int \<times> int) option"
  ownerVo :: "pet_owner option"
  p_owner :: "pet_owner option"

record fighter = player_vo +
  skillList :: "skill list option"
  autoSkillID :: "int list option"
  fbag :: "bag option"
  itemSetData :: "int list option"
  power :: int
  powerValue :: int
  titlePower1 :: int
  titlePowerValue1 :: int
  titlePower2 :: int
  titlePowerValue2 :: int
  fightPowerList :: "(int \<times> int) list option"
  countrypowerValue :: int
  formationSkill :: "skill option"
  playerTurnMonster :: "turn_monster option"
  artifactPower :: "(int \<Rightarrow> int option) list"
  bookGroupPower :: "int \<Rightarrow> int option"
  upgradeOpen :: bool
  specialAttr :: "int \<Rightarrow> int option"
  bStatus :: int
  battleBufferList :: "buffer list option"
  nextBufferId :: nat
  ownerPos :: "int option"
  monster :: "monster_data option"
  fpet :: "pet_data option"

section \<open>ModelVo\<close>

definition setTabStatus :: "bool \<Rightarrow> int \<Rightarrow> 'a model_vo_scheme \<Rightarrow> 'a model_vo_scheme" where
  "setTabStatus e t f =
     f\<lparr>intValue1 := (if e then jor (intValue1 f) t else jand (intValue1 f) (jnot t))\<rparr>"

definition isTabStatus :: "'a model_vo_scheme \<Rightarrow> int \<Rightarrow> bool" where
  "isTabStatus f e = (0 \<noteq> jand (intValue1 f) e)"

definition modelVo_get :: "'a model_vo_scheme \<Rightarrow> int \<Rightarrow> int" where
  "modelVo_get f e =
     (if e = ID then fid f
      else if e = SEX then sex f
      else if e = RACE then race f
      else if e = JOB then job f
      else if e = LEVEL then level f
      else if e = LEVEL2 then level2 f
      else if e = SETTING then setting f
      else if e = STATUS then fstatus f
      else if e = COUNTRY_ID then countryId f
      else if e = COUNTRY_RANK then countryRank f
      else if e = PX then px f
      else if e = PY then py f
      else 0)"

definition modelVo_addValue :: "int \<Rightarrow> int \<Rightarrow> 'a model_vo_scheme \<Rightarrow> 'a model_vo_scheme" where
  "modelVo_addValue e t f =
     (if e = LEVEL then (if t > 0 then f\<lparr>level := sumValue (level f) t 0 120\<rparr> else f)
      else if e = LEVEL2 then (if t > 0 then f\<lparr>level2 := sumValue (level2 f) t 0 120\<rparr> else f)
      else if e = ENCHANTVALUE then f\<lparr>enchantValue := enchantValue f + t\<rparr>
      else if e = COUNTRY_RANK_SET then f\<lparr>countryRank := t\<rparr>
      else if e = COUNTRY_ID_SET then f\<lparr>countryId := t\<rparr>
      else if e = STATUS_SET then f\<lparr>fstatus := t\<rparr>
      else f)"

section \<open>Powers of a character\<close>

definition setItemSetDataKey :: "int \<Rightarrow> int \<Rightarrow> int" where
  "setItemSetDataKey e t = jor (jshl (jand 4095 e) 4) (jand 15 t)"

definition getItemSetID' :: "int \<Rightarrow> int" where
  "getItemSetID' e = jand (jshr e 4) 4095"

definition getItemSetNum :: "int \<Rightarrow> int" where
  "getItemSetNum e = jand 15 e"

definition getCountryBuffer :: "fighter \<Rightarrow> int \<Rightarrow> int" where
  "getCountryBuffer f e =
     (if e = POWER_STR_PERCENT \<or> e = POWER_CON_PERCENT \<or> e = POWER_AGI_PERCENT
         \<or> e = POWER_ILT_PERCENT \<or> e = POWER_WIS_PERCENT
      then countrypowerValue f else 0)"

definition roleGod_getPower :: "fighter \<Rightarrow> int \<Rightarrow> int" where
  "roleGod_getPower f i = sum_list (map (\<lambda>m. case m i of None \<Rightarrow> 0 | Some v \<Rightarrow> v) (artifactPower f))"

definition getBookGroupPower :: "fighter \<Rightarrow> int \<Rightarrow> int" where
  "getBookGroupPower f t = (case bookGroupPower f t of None \<Rightarrow> 0 | Some v \<Rightarrow> v)"

definition getPower :: "fighter \<Rightarrow> int \<Rightarrow> int" where
  "getPower f e =
     (if ftype f = TYPE_PLAYER
      then toInt32 (roleGod_getPower f e) + toInt32 (getBookGroupPower f e) else 0)"

definition getSkillPowerValue :: "fighter \<Rightarrow> int \<Rightarrow> int \<Rightarrow> int" where
  "getSkillPowerValue f e t =
     (if 0 \<ge> t then 0
      else let i = getPower f t
           in case skillList f of None \<Rightarrow> i
              | Some [] \<Rightarrow> i
              | Some ss \<Rightarrow> toInt32 (i + sum_list (map (\<lambda>s. skill_getPowerValue s t)
                                              (filter (\<lambda>s. skill_type s = e) ss))))"

definition getPowerValueByBuffer :: "fighter \<Rightarrow> int \<Rightarrow> int" where
  "getPowerValueByBuffer f e =
     (if power f = e then powerValue f else 0)
     + (if titlePower1 f = e then titlePowerValue1 f else 0)
     + (if titlePower2 f = e then titlePowerValue2 f else 0)
     + (case fightPowerList f of None \<Rightarrow> 0
        | Some ps \<Rightarrow> sum_list (map (\<lambda>(k, v). if k = e then v else 0) ps))
     + getCountryBuffer f e"

text \<open>\<open>itemSetData\<close> holds triples of a key, a power and a value; a read past the
  end gives \<open>undefined\<close>, which equals no power.\<close>

fun itemSetPower :: "bag \<Rightarrow> int \<Rightarrow> int list \<Rightarrow> int" where
  "itemSetPower b e (n # a # r # ds) =
     (if a = e \<and> \<not> getEquipItemSetNum b (getItemSetID' n) < getItemSetNum n then r else 0)
     + itemSetPower b e ds"
| "itemSetPower b e ds = 0"

definition getBagEquipPowerValue :: "fighter \<Rightarrow> int \<Rightarrow> bool \<Rightarrow> int" where
  "getBagEquipPowerValue f e i =
     (case fbag f of None \<Rightarrow> 0
      | Some b \<Rightarrow>
          toInt32 (getEquipPowerValue (upgradeOpen f) b e
            + (case itemSetData f of None \<Rightarrow> 0 | Some ds \<Rightarrow> itemSetPower b e ds)
            + (if i then getPowerValueByBuffer f e else 0)))"

definition formationPower :: "fighter \<Rightarrow> int \<Rightarrow> int" where
  "formationPower f t = (case formationSkill f of None \<Rightarrow> 0 | Some u \<Rightarrow> skill_getPowerValue u t)"

definition turnMonster_getPowerValue :: "turn_monster \<Rightarrow> int \<Rightarrow> int" where
  "turnMonster_getPowerValue m e =
     (if tpower1 m = e then tpowerValue1 m else 0)
     + (if tpower2 m = e then tpowerValue2 m else 0)
     + (if tpower3 m = e then tpowerValue3 m else 0)"

definition turnMonsterPower :: "fighter \<Rightarrow> int \<Rightarrow> int" where
  "turnMonsterPower f t =
     (case playerTurnMonster f of None \<Rightarrow> 0 | Some m \<Rightarrow> turnMonster_getPowerValue m t)"

definition getEquipWeaponType :: "fighter \<Rightarrow> int" where
  "getEquipWeaponType f =
     (case fbag f of None \<Rightarrow> BACK_ERROR_NULL_HAND
      | Some b \<Rightarrow>
          (case filter (\<lambda>m. \<not> durability m \<le> 0 \<and> item_type m \<noteq> ITEM_TYPE_WEAPON_ONEHAND_HAND)
                  (map (heap b) (List.map_filter (getItem b) [WEAPON_LEFT_POS, WEAPON_RIGHT_POS]))
           of [] \<Rightarrow> BACK_ERROR_NULL_HAND | m # _ \<Rightarrow> item_type m))"

definition getBaseValue :: "fighter \<Rightarrow> int \<Rightarrow> int \<Rightarrow> int \<Rightarrow> int \<Rightarrow> int \<Rightarrow> int \<Rightarrow> int" where
  "getBaseValue f e t i k n r =
     (let s = toInt32 e + getSkillPowerValue f k t;
          l = getSkillPowerValue f k i + getBagEquipPowerValue f i False;
          s = s + getPowerValueByBuffer f t;
          l = l + getPowerValueByBuffer f i;
          s = s + formationPower f t;
          l = l + formationPower f i;
          s = s + turnMonsterPower f t;
          l = l + turnMonsterPower f i;
          s = s + jdiv (s * l) 100;
          s = s + getBagEquipPowerValue f t False
      in toInt32 (sumValue s 0 n r))"

definition getPowerValue :: "fighter \<Rightarrow> int \<Rightarrow> int \<Rightarrow> int \<Rightarrow> int \<Rightarrow> int \<Rightarrow> int \<Rightarrow> int \<Rightarrow> bool \<Rightarrow> int" where
  "getPowerValue f e t i k r s l u =
     (let v = toInt32 e + getSkillPowerValue f r i;
          d = getSkillPowerValue f r k;
          v = v + getPowerValueByBuffer f i;
          d = d + getPowerValueByBuffer f k;
          v = (if fbag f \<noteq> None then v + getBagEquipPowerValue f i False else v);
          d = (if fbag f \<noteq> None then d + getBagEquipPowerValue f k False else d);
          v = v + formationPower f i;
          d = d + formationPower f k;
          v = v + turnMonsterPower f i;
          d = d + turnMonsterPower f k;
          d = (if u \<and> getEquipWeaponType f = BACK_ERROR_NULL_HAND
               then (if fbag f \<noteq> None then d + getBagEquipPowerValue f POWER_HAND_PERCENT False else d)
                    + getSkillPowerValue f SKILL_TYPE_PASSIVE POWER_HAND_PERCENT
               else d);
          v = v + jdiv (v * d) 100
      in toInt32 (sumValue v t s l))"

end
