(* ===== verification/Attributes.thy ===== *)
theory Attributes
  imports Fighter
begin

text \<open>
  The attributes of a character: \<open>get\<close>, which computes an attribute from the base
  values, the equipment, the skills and the buffers, and \<open>addValue\<close>, which changes
  a stored one, for \<open>PlayerVo\<close> and its subclass \<open>Monster\<close>.  \<open>this.get\<close> selects the
  method of the subclass; \<open>fget\<close> is that selection.
\<close>

section \<open>Weapons\<close>

definition weaponPercentPower :: "int \<Rightarrow> int option" where
  "weaponPercentPower ty =
     (if ty = ITEM_TYPE_WEAPON_ONEHAND_SWORD \<or> ty = ITEM_TYPE_WEAPON_TWOHAND_SWORD then Some POWER_SWORD_PERCENT
      else if ty = ITEM_TYPE_WEAPON_ONEHAND_BLADE \<or> ty = ITEM_TYPE_WEAPON_TWOHAND_BLADE then Some POWER_BLADE_PERCENT
      else if ty = ITEM_TYPE_WEAPON_ONEHAND_HEAVY \<or> ty = ITEM_TYPE_WEAPON_TWOHAND_HEAVY then Some POWER_HEAVY_PERCENT
      else if ty = ITEM_TYPE_WEAPON_TWOHAND_STAFF then Some POWER_STAFF_PERCENT
      else if ty = ITEM_TYPE_WEAPON_BALL then Some POWER_BALL_PERCENT
      else if ty = ITEM_TYPE_WEAPON_TWOHAND_LANCE then Some POWER_LANCE_PERCENT
      else if ty = ITEM_TYPE_WEAPON_ONEHAND_CROSSBOW \<or> ty = ITEM_TYPE_WEAPON_TWOHAND_CROSSBOW
           \<or> ty = ITEM_TYPE_WEAPON_TWOHAND_BOW then Some POWER_BOW_PERCENT
      else if ty = ITEM_TYPE_WEAPON_ONEHAND_HAND then Some POWER_HAND_ITEM_PERCENT
      else if ty = ITEM_TYPE_WEAPON_ONEHAND_GUN \<or> ty = ITEM_TYPE_WEAPON_TWOHAND_GUN then Some POWER_GUN_PERCENT
      else if ty = ITEM_TYPE_WEAPON_ONEHAND_HAMMER \<or> ty = ITEM_TYPE_WEAPON_TWOHAND_HAMMER then Some POWER_HAMMER_PERCENT
      else if ty = ITEM_TYPE_WEAPON_TWOHAND_FAN then Some POWER_FAN_PERCENT
      else None)"

definition addWeaponSkillDamageOrDur :: "fighter \<Rightarrow> int \<Rightarrow> int \<Rightarrow> int" where
  "addWeaponSkillDamageOrDur f e t =
     (if e = 0 then 0
      else case (case fbag f of None \<Rightarrow> None | Some b \<Rightarrow> map_option (heap b) (getItem b t)) of
        None \<Rightarrow> e
      | Some m \<Rightarrow>
          (let k = (case weaponPercentPower (item_type m) of None \<Rightarrow> 0
                    | Some p \<Rightarrow> getSkillPowerValue f SKILL_TYPE_PASSIVE p + getBagEquipPowerValue f p False);
               k = k + getSkillPowerValue f SKILL_TYPE_PASSIVE POWER_ALL_PERCENT
                     + getBagEquipPowerValue f POWER_ALL_PERCENT False
           in if k = 0 then e else e + jdiv (e * k) 100))"

definition weaponTimePower :: "int \<Rightarrow> int option" where
  "weaponTimePower ty =
     (if ty = ITEM_TYPE_WEAPON_ONEHAND_SWORD \<or> ty = ITEM_TYPE_WEAPON_TWOHAND_SWORD then Some POWER_SWORD_ATK_TIME
      else if ty = ITEM_TYPE_WEAPON_ONEHAND_BLADE \<or> ty = ITEM_TYPE_WEAPON_TWOHAND_BLADE then Some POWER_BLADE_ATK_TIME
      else if ty = ITEM_TYPE_WEAPON_ONEHAND_HEAVY \<or> ty = ITEM_TYPE_WEAPON_TWOHAND_HEAVY then Some POWER_HEAVY_ATK_TIME
      else if ty = ITEM_TYPE_WEAPON_TWOHAND_STAFF then Some POWER_STAFF_ATK_TIME
      else if ty = ITEM_TYPE_WEAPON_BALL then Some POWER_BALL_ATK_TIME
      else if ty = ITEM_TYPE_WEAPON_TWOHAND_LANCE then Some POWER_LANCE_ATK_TIME
      else if ty = ITEM_TYPE_WEAPON_ONEHAND_CROSSBOW \<or> ty = ITEM_TYPE_WEAPON_TWOHAND_CROSSBOW
           \<or> ty = ITEM_TYPE_WEAPON_TWOHAND_BOW then Some POWER_BOW_ATK_TIME
      else if ty = ITEM_TYPE_WEAPON_ONEHAND_HAND then Some POWER_HAND_ITEM_ATK_TIME
      else if ty = ITEM_TYPE_WEAPON_ONEHAND_GUN \<or> ty = ITEM_TYPE_WEAPON_TWOHAND_GUN then Some POWER_GUN_ATK_TIME
      else if ty = ITEM_TYPE_WEAPON_ONEHAND_HAMMER \<or> ty = ITEM_TYPE_WEAPON_TWOHAND_HAMMER then Some POWER_HAMMER_ATK_TIME
      else if ty = ITEM_TYPE_WEAPON_TWOHAND_FAN then Some POWER_FAN_ATK_TIME
      else None)"

definition addWeaponSkillAtkTime :: "fighter \<Rightarrow> int \<Rightarrow> int \<Rightarrow> int" where
  "addWeaponSkillAtkTime f e t =
     (let i = (case weaponTimePower t of None \<Rightarrow> 0
               | Some p \<Rightarrow> getSkillPowerValue f SKILL_TYPE_PASSIVE p + getBagEquipPowerValue f p True)
      in e + (i + getSkillPowerValue f SKILL_TYPE_PASSIVE POWER_ALL_ATK_TIME
                + getBagEquipPowerValue f POWER_ALL_ATK_TIME True))"

section \<open>get\<close>

text \<open>The base attributes of players and monsters.\<close>

definition baseAttr :: "fighter \<Rightarrow> int \<Rightarrow> int" where
  "baseAttr f t =
     (if t = ATTR_STR then getBaseValue f (str f) POWER_STR POWER_STR_PERCENT SKILL_TYPE_PASSIVE 0 MAX_BASE_ATTRIBUTE
      else if t = CON then getBaseValue f (con f) POWER_CON POWER_CON_PERCENT SKILL_TYPE_PASSIVE 0 MAX_BASE_ATTRIBUTE
      else if t = AGI then getBaseValue f (agi f) POWER_AGI POWER_AGI_PERCENT SKILL_TYPE_PASSIVE 0 MAX_BASE_ATTRIBUTE
      else if t = ILT then getBaseValue f (ilt f) POWER_ILT POWER_ILT_PERCENT SKILL_TYPE_PASSIVE 0 MAX_BASE_ATTRIBUTE
      else getBaseValue f (wis f) POWER_WIS POWER_WIS_PERCENT SKILL_TYPE_PASSIVE 0 MAX_BASE_ATTRIBUTE)"

text \<open>\<open>get\<close> falls back to the method of \<open>ModelVo\<close> unless the number is that of a
  special icon with a value of its own.\<close>

definition otherAttr :: "fighter \<Rightarrow> int \<Rightarrow> int" where
  "otherAttr f t = (case specialAttr f t of Some v \<Rightarrow> v | None \<Rightarrow> modelVo_get f t)"

definition fullLevel :: "fighter \<Rightarrow> int" where
  "fullLevel f = toInt32 (otherAttr f LEVEL) + toInt32 (otherAttr f LEVEL2)"

definition weaponMinMax :: "fighter \<Rightarrow> int \<Rightarrow> int \<Rightarrow> int" where
  "weaponMinMax f e pos =
     (let i = (case fbag f of None \<Rightarrow> 0
               | Some b \<Rightarrow> (let i = getForPos b e pos; i = (if 0 > i then 0 else i)
                           in addWeaponSkillDamageOrDur f i pos))
      in sumValue i 0 0 MAX_ATK)"

definition weaponTime :: "fighter \<Rightarrow> int \<Rightarrow> int" where
  "weaponTime f pos =
     (case fbag f of None \<Rightarrow> sumValue 1 0 MIN_HIT_TIME MAX_HIT_TIME
      | Some b \<Rightarrow> (let i = getForPos b EQP_HIT_TIME pos
                  in if 0 > i then 0 else sumValue (i + 1) 0 MIN_HIT_TIME MAX_HIT_TIME))"

text \<open>The attributes of the two hands, with the methods of \<open>Monster\<close>.\<close>

definition handAttr :: "fighter \<Rightarrow> int \<Rightarrow> int" where
  "handAttr f t =
     (case monster f of
        Some m \<Rightarrow>
          (if t = LEFT_ATK_MIN then sumValue (m_atkMin m) 0 0 MAX_ATK
           else if t = LEFT_ATK_MAX then sumValue (m_atkMax m) 0 0 MAX_ATK
           else if t = LEFT_ATK_TIME then sumValue (bonus f AtkTime + 1) 0 MIN_HIT_TIME MAX_HIT_TIME
           else 0)
      | None \<Rightarrow>
          toInt32
           (if t = LEFT_ATK_MIN then weaponMinMax f EQP_ATK_MIN WEAPON_LEFT_POS
            else if t = RIGHT_ATK_MIN then weaponMinMax f EQP_ATK_MIN WEAPON_RIGHT_POS
            else if t = LEFT_ATK_MAX then weaponMinMax f EQP_ATK_MAX WEAPON_LEFT_POS
            else if t = RIGHT_ATK_MAX then weaponMinMax f EQP_ATK_MAX WEAPON_RIGHT_POS
            else if t = LEFT_ATK_TIME then weaponTime f WEAPON_LEFT_POS
            else weaponTime f WEAPON_RIGHT_POS))"

definition atkTime :: "fighter \<Rightarrow> int" where
  "atkTime f =
     (let y = getEquipWeaponType f;
          i = (if y = BACK_ERROR_NULL_HAND
               then 1 + getSkillPowerValue f SKILL_TYPE_PASSIVE POWER_HAND_ATK_TIME
                      + getBagEquipPowerValue f POWER_HAND_ATK_TIME True
               else handAttr f LEFT_ATK_TIME + handAttr f RIGHT_ATK_TIME)
      in sumValue (addWeaponSkillAtkTime f i y) (bonus f AtkTime) MIN_HIT_TIME MAX_HIT_TIME)"

definition hitRate :: "fighter \<Rightarrow> int" where
  "hitRate f =
     (let i = (case fbag f of None \<Rightarrow> 0
               | Some b \<Rightarrow>
                   (let i = getForPos b EQP_HITRATE WEAPON_LEFT_POS;
                        i = (if 0 > i then 0 else i);
                        g = getForPos b EQP_HITRATE WEAPON_RIGHT_POS;
                        i = (if g > 0 then (if i > 0 then (if i > g then g else i) else g) else i)
                    in i + jdiv (baseAttr f AGI) 5))
      in getPowerValue f i (bonus f HitRate) POWER_HITRATE POWER_HITRATE_PERCENT SKILL_TYPE_PASSIVE 0
           MAX_BASE_ATTRIBUTE False)"

definition hitMagicAttr :: "fighter \<Rightarrow> int" where
  "hitMagicAttr f =
     getPowerValue f 100 (bonus f HitMagic) POWER_MAGIC_HITRATE POWER_MAGIC_HITRATE_PERCENT SKILL_TYPE_PASSIVE
       MIN_HIT_MAGIC MAX_BASE_ATTRIBUTE False"

definition bagDef :: "fighter \<Rightarrow> int \<Rightarrow> int" where
  "bagDef f e = (case fbag f of None \<Rightarrow> 0 | Some b \<Rightarrow> bag_get b e)"

text \<open>The stored values that \<open>PlayerVo.get\<close> returns as they are.\<close>

definition storedAttr :: "fighter \<Rightarrow> int \<Rightarrow> int option" where
  "storedAttr f t =
     (if t = INTEGRAL then Some (integral (purse f))
      else if t = EXP then Some (exp f)
      else if t = EXP2 then Some (exp2 f)
      else if t = EXPMAX then Some (expMax f)
      else if t = EXPMAX2 then Some (expMax2 f)
      else if t = HP then Some (hp f)
      else if t = HP_DISPLAY then Some (hpDisplay f)
      else if t = MP then Some (mp f)
      else if t = MP_DISPLAY then Some (mpDisplay f)
      else if t = CP then Some (cp (purse f))
      else if t = SP then Some (sp (purse f))
      else if t = COMBATPOINT then Some (combatPoint (purse f))
      else if t = MONEY1 then Some (money1 (purse f))
      else if t = MONEY2 then Some (money2 (purse f))
      else if t = MONEY3 then Some (money3 (purse f))
      else if t = NUM_STROE then Some (p_numStroe (purse f))
      else if t = COUNTRY_HONOR then Some (countryHonor (purse f))
      else if t = CITY_ID then Some (cityId (purse f))
      else if t = KILL_COUNT then Some (killCount (purse f))
      else if t = PK_WIN_COUNT then Some (Pkwincount (purse f))
      else if t = PK_LOSE_COUNT then Some (Pklosecount (purse f))
      else if t = TOTAL_ONLINE then Some (totalOnline (purse f))
      else if t = PARTNER_ID then Some (partnerId (purse f))
      else if t = EXP_UP then Some (exp_up f)
      else if t = RECOVERY then Some (recovery f)
      else if t = ARGO then Some (argo f)
      else if t = BACK_MAX then Some 70
      else if t = SKYARENA then Some (skyarenaPoint (purse f))
      else if t = ARENA then Some (arenaPoint (purse f))
      else if t = SCORE_TOWER then Some (towerPoint (purse f))
      else if t = RICHMAN_SCORE then Some (richManPoint (purse f))
      else None)"

text \<open>The attributes that \<open>PlayerVo.get\<close> computes with \<open>getPowerValue\<close>: the value
  before the powers, the stored bonus, the powers and the range.\<close>

definition pv :: "fighter \<Rightarrow> int \<Rightarrow> battle_attr \<Rightarrow> int \<Rightarrow> int \<Rightarrow> int \<Rightarrow> int \<Rightarrow> int" where
  "pv f v b p pp lo hi = getPowerValue f v (bonus f b) p pp SKILL_TYPE_PASSIVE lo hi False"

text \<open>\<open>PlayerVo.get\<close> asks \<open>this.get\<close> for the attributes that others are computed from; the first
  arguments are the ones that the class \<open>Pet\<close> overrides.\<close>

definition player_attr ::
  "(int \<Rightarrow> int) \<Rightarrow> (int \<Rightarrow> int) \<Rightarrow> int \<Rightarrow> int \<Rightarrow> int \<Rightarrow> fighter \<Rightarrow> int \<Rightarrow> int" where
  "player_attr base hand time rate magic f t =
     (let STR' = base ATTR_STR; CON' = base CON; AGI' = base AGI; ILT' = base ILT; WIS' = base WIS
      in toInt32
       (case storedAttr f t of Some v \<Rightarrow> v | None \<Rightarrow>
        if t = ATTR_STR \<or> t = CON \<or> t = AGI \<or> t = ILT \<or> t = WIS then base t
        else if t = HPMAX then
          getPowerValue f (jdiv (65 * CON') 10 + 3 * STR' + 100 + 40 * (fullLevel f - 1)) (hpMax f)
            POWER_HPMAX POWER_HPMAX_PERCENT SKILL_TYPE_PASSIVE 1 MAX_PLAYER_HP False
        else if t = MPMAX then
          getPowerValue f (jdiv (75 * ILT') 10 + jdiv (35 * WIS') 10 + 50 + 10 * (fullLevel f - 1)) (mpMax f)
            POWER_MPMAX POWER_MPMAX_PERCENT SKILL_TYPE_PASSIVE 1 MAX_PLAYER_MP False
        else if t = SPEED then
          pv f (3 * AGI' + jdiv (15 * WIS') 10) Speed POWER_SPEED POWER_SPEED_PERCENT 0 MAX_OTHER_ATTRIBUTE
        else if t = ATK_TYPE then (case fbag f of None \<Rightarrow> ATKTYPE_STR | Some b \<Rightarrow> bag_get b EQP_ATK_TYPE)
        else if t = LEFT_WEAPON_TYPE then
          (case fbag f of None \<Rightarrow> - 1 | Some b \<Rightarrow> getForPos b EQP_ITEM_TYPE WEAPON_LEFT_POS)
        else if t = RIGHT_WEAPON_TYPE then
          (case fbag f of None \<Rightarrow> - 1 | Some b \<Rightarrow> getForPos b EQP_ITEM_TYPE WEAPON_RIGHT_POS)
        else if t = LEFT_ATK_MIN \<or> t = RIGHT_ATK_MIN \<or> t = LEFT_ATK_MAX \<or> t = RIGHT_ATK_MAX
             \<or> t = LEFT_ATK_TIME \<or> t = RIGHT_ATK_TIME then hand t
        else if t = ATK_MIN then
          (let h = hand LEFT_ATK_MIN; g = hand RIGHT_ATK_MIN in if g > h then g else h)
        else if t = ATK_MAX then
          (let h = hand LEFT_ATK_MAX; g = hand RIGHT_ATK_MAX in if g > h then g else h)
        else if t = ATK_TIME then time
        else if t = ATK_STR then
          getPowerValue f (toInt32 (3 * AGI' + toInt32 (5 * STR'))) (bonus f AtkStr)
            POWER_ATK_STR POWER_ATK_STR_PERCENT SKILL_TYPE_PASSIVE 0 MAX_OTHER_ATTRIBUTE True
        else if t = ATK_AGI then
          getPowerValue f (toInt32 (5 * STR') + toInt32 (5 * AGI')) (bonus f AtkAgi)
            POWER_ATK_AGI POWER_ATK_AGI_PERCENT SKILL_TYPE_PASSIVE 0 MAX_OTHER_ATTRIBUTE True
        else if t = ATK_MAGIC then
          pv f (jdiv ((3 * ILT' + 2 * WIS') * (toInt32 magic + 900)) 1000) AtkMagic
            POWER_ATK_MAGIC POWER_ATK_MAGIC_PERCENT 0 MAX_OTHER_ATTRIBUTE
        else if t = DEF_STR then
          pv f (toInt32 (8 * CON') + bagDef f EQP_DEF_STR) DefStr POWER_DEF_STR POWER_DEF_STR_PERCENT 0 MAX_DEF
        else if t = DEF_AGI then
          pv f (toInt32 (8 * CON') + bagDef f EQP_DEF_AGI) DefAgi POWER_DEF_AGI POWER_DEF_AGI_PERCENT 0 MAX_DEF
        else if t = DEF_MAGIC then
          pv f (toInt32 (2 * (2 * WIS' + ILT')) + bagDef f EQP_DEF_MAGIC) DefMagic
            POWER_DEF_MAGIC POWER_DEF_MAGIC_PERCENT 0 MAX_DEF
        else if t = DODGE then
          pv f (jdiv (10 * (AGI' + WIS')) 25) Dodge POWER_DODGE POWER_DODGE_PERCENT 0 MAX_BASE_ATTRIBUTE
        else if t = HIT_RATE then rate
        else if t = HIT_MAGIC then magic
        else if t = CRITICAL then pv f 0 Critical POWER_CRITICAL POWER_CRITICAL_PERCENT 0 MAX_BASE_ATTRIBUTE
        else if t = FORCE_HIT then
          pv f MIN_FORCE_HITRATE ForceHit POWER_HIT_FORCE POWER_HIT_FORCE_PERCENT 0 MAX_FORCE_RATE
        else if t = WIL then pv f (jdiv (3 * WIS' + ILT') 10) Wil POWER_WIL POWER_WIL_PERCENT 0 MAX_OTHER_ATTRIBUTE
        else if t = TOUGH then
          pv f (jdiv (2 * CON' + STR') 10) Tough POWER_TOUGH POWER_TOUGH_PERCENT 0 MAX_OTHER_ATTRIBUTE
        else if t = BLOCK then pv f (jdiv AGI' 5) Block POWER_BLOCK POWER_BLOCK_PERCENT 0 MAX_BASE_ATTRIBUTE
        else if t = BRK_ARMOR then
          pv f (toInt32 (AGI' + 3 * STR')) BrkArmor POWER_PENETRATION POWER_PENETRATION_PERCENT 0 MAX_BASE_ATTRIBUTE
        else if t = MAGIC_PENETRATION then
          pv f (toInt32 (WIS' + 2 * ILT')) MagicPenetration
            POWER_MAGIC_PENETRATION POWER_MAGIC_PENETRATION_PERCENT 0 MAX_BASE_ATTRIBUTE
        else if t = INSIGHT then
          pv f (jdiv (2 * WIS' + ILT') 10) Insight POWER_INSIGHT POWER_INSIGHT_PERCENT 0 MAX_BASE_ATTRIBUTE
        else if t = DEF_FIELD then
          pv f (toInt32 (2 * ILT' + 3 * WIS')) DefField POWER_DEF_FIELD POWER_DEF_FIELD_PERCENT 0 MAX_BASE_ATTRIBUTE
        else if t = BACK then pv f 0 Back POWER_BACK POWER_BACK_PERCENT 0 MAX_BASE_ATTRIBUTE
        else if t = MAGIC_BACK then
          pv f 0 MagicBack POWER_MAGIC_BACK POWER_MAGIC_BACK_PERCENT 0 MAX_BASE_ATTRIBUTE
        else if t = LIFE_ABSORPTION then
          pv f 0 LifeAbsorption POWER_LIFE_ABSORPTION POWER_LIFE_ABSORPTION_PERCENT 0 MAX_OTHER_PROBABILITY
        else if t = MANA_ABSORPTION then
          pv f 0 ManaAbsorption POWER_MANA_ABSORPTION POWER_MANA_ABSORPTION_PERCENT 0 MAX_OTHER_PROBABILITY
        else if t = HEAL_RECOVERY then
          pv f 0 HealRecovery POWER_HEAL_RECOVERY POWER_HEAL_RECOVERY_PERCENT 0 MAX_BASE_ATTRIBUTE
        else if t = MANA_RECOVERY then
          pv f 0 ManaRecovery POWER_MANA_RECOVERY POWER_MANA_RECOVERY_PERCENT 0 MAX_BASE_ATTRIBUTE
        else if t = IGNORE_BACK then
          getPowerValue f 0 0 POWER_IGNORE_BACK 0 SKILL_TYPE_PASSIVE 0 MAX_BASE_ATTRIBUTE False
        else if t = IGNORE_MAGIC_BACK then
          getPowerValue f 0 0 POWER_IGNORE_MAGIC_BACK 0 SKILL_TYPE_PASSIVE 0 MAX_BASE_ATTRIBUTE False
        else if t = IGNORE_BLOCK then
          getPowerValue f 0 0 POWER_IGNORE_BLOCK 0 SKILL_TYPE_PASSIVE 0 MAX_BASE_ATTRIBUTE False
        else if t = IGNORE_INSIGHT then
          getPowerValue f 0 0 POWER_IGNORE_INSIGHT 0 SKILL_TYPE_PASSIVE 0 MAX_BASE_ATTRIBUTE False
        else if t = IGNORE_WIL then
          getPowerValue f 0 0 POWER_IGNORE_WIL 0 SKILL_TYPE_PASSIVE 0 MAX_BASE_ATTRIBUTE False
        else if t = IGNORE_TOUCH then
          getPowerValue f 0 0 POWER_IGNORE_TOUCH 0 SKILL_TYPE_PASSIVE 0 MAX_BASE_ATTRIBUTE False
        else if t = KEEPOUT_ATK_TIME then
          pv f 0 KeepoutAtkTime POWER_KEEPOUT_ATK_TIME 0 0 MAX_KEEPOUT_ATK_TIME
        else otherAttr f t))"

definition player_get :: "fighter \<Rightarrow> int \<Rightarrow> int" where
  "player_get f t = player_attr (baseAttr f) (handAttr f) (atkTime f) (hitRate f) (hitMagicAttr f) f t"

definition monster_get :: "fighter \<Rightarrow> monster_data \<Rightarrow> int \<Rightarrow> int" where
  "monster_get f m t =
     (if t = NEW_REFLECTION then newReflection m
      else if t = ATK_TYPE then m_atkType m
      else if t = HPMAX then hpMax f
      else if t = MPMAX then mpMax f
      else if t = SPEED then bonus f Speed
      else if t = DODGE then bonus f Dodge
      else if t = LEFT_ATK_MIN \<or> t = LEFT_ATK_MAX \<or> t = RIGHT_ATK_MIN \<or> t = RIGHT_ATK_MAX
           \<or> t = LEFT_ATK_TIME \<or> t = RIGHT_ATK_TIME then handAttr f t
      else if t = ATK_TIME then handAttr f LEFT_ATK_TIME
      else if t = ATK_STR then bonus f AtkStr
      else if t = ATK_AGI then bonus f AtkAgi
      else if t = ATK_MAGIC then bonus f AtkMagic
      else if t = DEF_STR then bonus f DefStr
      else if t = DEF_AGI then bonus f DefAgi
      else if t = DEF_MAGIC then bonus f DefMagic
      else if t = WIL then bonus f Wil
      else if t = TOUGH then bonus f Tough
      else if t = BLOCK then bonus f Block
      else if t = BRK_ARMOR then bonus f BrkArmor
      else if t = MAGIC_PENETRATION then bonus f MagicPenetration
      else if t = INSIGHT then bonus f Insight
      else if t = DEF_FIELD then bonus f DefField
      else if t = BACK then bonus f Back
      else if t = MAGIC_BACK then bonus f MagicBack
      else if t = LIFE_ABSORPTION then bonus f LifeAbsorption
      else if t = MANA_ABSORPTION then bonus f ManaAbsorption
      else if t = FORCE_HIT then MIN_FORCE_HITRATE
      else if t = BACK_MAX then 100
      else player_get f t)"

text \<open>Pets: the base attributes, the hands and the hit rates have formulas of their own, in which the
  owner takes part.\<close>

definition ownerAdd :: "pet_data \<Rightarrow> int \<Rightarrow> int" where
  "ownerAdd d r =
     (case ownerVo d of
        Some v \<Rightarrow> o_add v r
      | None \<Rightarrow> (case p_owner d of Some v \<Rightarrow> if o_isPlayer v then o_add v r else 0 | None \<Rightarrow> 0))"

definition ownerFormation :: "pet_data \<Rightarrow> skill option" where
  "ownerFormation d =
     (case ownerVo d of
        Some v \<Rightarrow> (case o_formation v of Some u \<Rightarrow> Some u | None \<Rightarrow> Option.bind (p_owner d) o_formation)
      | None \<Rightarrow> Option.bind (p_owner d) o_formation)"

definition ownerForm :: "pet_data \<Rightarrow> int \<Rightarrow> int" where
  "ownerForm d t = (case ownerFormation d of None \<Rightarrow> 0 | Some u \<Rightarrow> skill_getPowerValue u t)"

definition getPetBaseValue ::
  "fighter \<Rightarrow> pet_data \<Rightarrow> int \<Rightarrow> int \<Rightarrow> int \<Rightarrow> int \<Rightarrow> int \<Rightarrow> int \<Rightarrow> int \<Rightarrow> int" where
  "getPetBaseValue f d e t i k n a r =
     (let s = e + getSkillPowerValue f k t;
          u = getSkillPowerValue f k i + ownerAdd d r;
          s = (if fbag f \<noteq> None then s + getBagEquipPowerValue f t False else s);
          u = (if fbag f \<noteq> None then u + getBagEquipPowerValue f i False else u);
          s = s + ownerForm d t;
          u = u + ownerForm d i;
          s = (if u > 0 then s + jdiv (s * u) 100 else s)
      in sumValue s 0 n a)"

definition getPetPowerValue ::
  "fighter \<Rightarrow> pet_data \<Rightarrow> int \<Rightarrow> int \<Rightarrow> int \<Rightarrow> int \<Rightarrow> int \<Rightarrow> int \<Rightarrow> int \<Rightarrow> int \<Rightarrow> int" where
  "getPetPowerValue f d e t i k n a r s =
     (let u = e + getSkillPowerValue f n i;
          v = getSkillPowerValue f n k + (if s > 0 then ownerAdd d s else 0);
          u = (if fbag f \<noteq> None then u + getBagEquipPowerValue f i False else u);
          v = (if fbag f \<noteq> None then v + getBagEquipPowerValue f k False else v);
          u = u + ownerForm d i;
          v = v + ownerForm d k;
          u = (if v > 0 then u + jdiv (u * v) 100 else u)
      in sumValue u t a r)"

definition pet_base :: "fighter \<Rightarrow> pet_data \<Rightarrow> int \<Rightarrow> int" where
  "pet_base f d t =
     (let b = (\<lambda>v p pp r. toInt32 (getPetBaseValue f d v p pp SKILL_TYPE_PASSIVE 0 MAX_BASE_ATTRIBUTE r))
      in if t = ATTR_STR then b (str f) POWER_STR POWER_STR_PERCENT POWER_PET_STR_PERCENT
         else if t = CON then b (con f) POWER_CON POWER_CON_PERCENT POWER_PET_CON_PERCENT
         else if t = AGI then b (agi f) POWER_AGI POWER_AGI_PERCENT POWER_PET_AGI_PERCENT
         else if t = ILT then b (ilt f) POWER_ILT POWER_ILT_PERCENT POWER_PET_ILT_PERCENT
         else b (wis f) POWER_WIS POWER_WIS_PERCENT POWER_PET_WIS_PERCENT)"

definition pet_time :: "fighter \<Rightarrow> pet_data \<Rightarrow> int" where
  "pet_time f d =
     toInt32 (sumValue (petAtkTime d + 1) (bonus f AtkTime) MIN_HIT_TIME MAX_HIT_TIME
              + getSkillPowerValue f SKILL_TYPE_PASSIVE POWER_ALL_ATK_TIME)"

definition pet_damage :: "fighter \<Rightarrow> pet_data \<Rightarrow> int \<Rightarrow> int" where
  "pet_damage f d v =
     sumValue (toInt32 (getPetPowerValue f d v 0 POWER_NONE POWER_NONE SKILL_TYPE_PASSIVE 0 MAX_OTHER_ATTRIBUTE POWER_PET_DAMAGE))
       0 0 MAX_ATK"

definition pet_hand :: "fighter \<Rightarrow> pet_data \<Rightarrow> int \<Rightarrow> int" where
  "pet_hand f d t =
     (if t = LEFT_ATK_MIN then pet_damage f d (p_atkMin d)
      else if t = LEFT_ATK_MAX then pet_damage f d (p_atkMax d)
      else if t = LEFT_ATK_TIME then pet_time f d
      else 0)"

definition pet_rate :: "fighter \<Rightarrow> pet_data \<Rightarrow> int" where
  "pet_rate f d =
     toInt32 (getPetPowerValue f d (petHitrate d) (bonus f HitRate) POWER_HITRATE POWER_HITRATE_PERCENT SKILL_TYPE_PASSIVE
       0 MAX_BASE_ATTRIBUTE POWER_NONE)"

definition pet_magic :: "fighter \<Rightarrow> pet_data \<Rightarrow> int" where
  "pet_magic f d =
     toInt32 (getPetPowerValue f d (petHitrate d) (bonus f HitMagic) POWER_MAGIC_HITRATE POWER_MAGIC_HITRATE_PERCENT
       SKILL_TYPE_PASSIVE MIN_HIT_MAGIC MAX_BASE_ATTRIBUTE POWER_NONE)"

text \<open>The other attributes are those of \<open>PlayerVo\<close>, with the formation of the owner.\<close>

definition pet_super :: "fighter \<Rightarrow> pet_data \<Rightarrow> int \<Rightarrow> int" where
  "pet_super f d t =
     player_attr (pet_base f d) (pet_hand f d) (pet_time f d) (pet_rate f d) (pet_magic f d)
       (case ownerVo d of
          Some v \<Rightarrow> f\<lparr>formationSkill := o_formation v\<rparr>
        | None \<Rightarrow> (case p_owner d of Some v \<Rightarrow> f\<lparr>formationSkill := o_formation v\<rparr> | None \<Rightarrow> f)) t"

definition pet_get :: "fighter \<Rightarrow> pet_data \<Rightarrow> int \<Rightarrow> int" where
  "pet_get f d t =
     (if t = PET_COLOR then p_color d
      else if t = PET_GRADE then p_grade d
      else if t = PET_GROW_LEVEL then growLevel d
      else if t = ATK_TYPE then p_atkType d
      else if t = HIT_RATE then pet_rate f d
      else if t = HIT_MAGIC then pet_magic f d
      else if t = ATK_TIME then pet_time f d
      else if t = LEFT_ATK_MIN \<or> t = LEFT_ATK_MAX \<or> t = RIGHT_ATK_MIN \<or> t = RIGHT_ATK_MAX
           \<or> t = LEFT_ATK_TIME \<or> t = RIGHT_ATK_TIME then pet_hand f d t
      else if t = HPMAX then
        (case legionMax d of
           Some (h, _) \<Rightarrow> h
         | None \<Rightarrow>
             toInt32 (getPetPowerValue f d
               (jdiv (65 * pet_base f d CON) 10 + 3 * pet_base f d ATTR_STR + 100 + 20 * (pet_super f d LEVEL - 1)) 0
               POWER_HPMAX POWER_HPMAX_PERCENT SKILL_TYPE_PASSIVE 1 MAX_PLAYER_HP POWER_PET_HPMAX_PERCENT))
      else if t = MPMAX then
        (case legionMax d of
           Some (_, m) \<Rightarrow> m
         | None \<Rightarrow>
             toInt32 (getPetPowerValue f d
               (5 * pet_base f d ILT + 2 * pet_base f d WIS + 40 + 5 * (pet_super f d LEVEL - 1)) 0
               POWER_MPMAX POWER_MPMAX_PERCENT SKILL_TYPE_PASSIVE 1 MAX_PLAYER_MP POWER_PET_MPMAX_PERCENT))
      else if t = ATTR_STR \<or> t = CON \<or> t = AGI \<or> t = ILT \<or> t = WIS then pet_base f d t
      else pet_super f d t)"

definition fget :: "fighter \<Rightarrow> int \<Rightarrow> int" where
  "fget f t =
     (case monster f of
        Some m \<Rightarrow> monster_get f m t
      | None \<Rightarrow> (case fpet f of None \<Rightarrow> player_get f t | Some d \<Rightarrow> pet_get f d t))"

text \<open>What a pet sees of the player who owns it.\<close>

definition ownerOf :: "fighter \<Rightarrow> pet_owner" where
  "ownerOf f = \<lparr>o_isPlayer = True,
     o_add = (\<lambda>r. getBagEquipPowerValue f r False + getSkillPowerValue f SKILL_TYPE_PASSIVE r),
     o_formation = formationSkill f\<rparr>"

definition getAttackType :: "fighter \<Rightarrow> skill option \<Rightarrow> int" where
  "getAttackType f s = (case s of Some s \<Rightarrow> skillAtkType s | None \<Rightarrow> fget f ATK_TYPE)"

definition isValidEquipRequire :: "fighter \<Rightarrow> item \<Rightarrow> bool" where
  "isValidEquipRequire f i =
     (let n = \<not> fget f LEVEL < reqLv i
      in if getItemClass i = ITEM_CLASS_USE_ITEM then n
         else n \<and> \<not> fget f ATTR_STR < reqStr i \<and> \<not> fget f CON < reqCon i \<and> \<not> fget f AGI < reqAgi i
              \<and> \<not> fget f ILT < reqIlt i \<and> \<not> fget f WIS < reqWis i)"

definition skill_isCanUse :: "fighter \<Rightarrow> skill \<Rightarrow> bool" where
  "skill_isCanUse f i =
     (if fget f MP < useMP i then False
      else if \<not> isEnoughHP i (Some (fget f HP)) then False
      else if ftype f = TYPE_PLAYER \<or> ftype f = TYPE_LEGION then
        (let n = fget f LEFT_WEAPON_TYPE; a = fget f RIGHT_WEAPON_TYPE
         in if skill_type i = SKILL_TYPE_ACTIVE
               \<and> (n = BACK_ERROR_DUR \<and> a = BACK_ERROR_DUR \<or> n = BACK_ERROR_DUR \<and> a = - 1
                   \<or> n = - 1 \<and> a = BACK_ERROR_DUR) then False
            else isValidSkillWeapon n a i)
      else True)"

section \<open>addValue\<close>

text \<open>The cases of \<open>addValue\<close> that add to a bonus field within a range and record the
  real change in \<open>readAddValue\<close>.\<close>

definition bonusCase :: "int \<Rightarrow> (battle_attr \<times> int \<times> int) option" where
  "bonusCase t =
     (if t = SPEED then Some (Speed, 0, MAX_OTHER_ATTRIBUTE)
      else if t = ATK_STR then Some (AtkStr, 0, MAX_OTHER_ATTRIBUTE)
      else if t = ATK_TIME then Some (AtkTime, 0, MAX_HIT_TIME)
      else if t = ATK_AGI then Some (AtkAgi, 0, MAX_OTHER_ATTRIBUTE)
      else if t = ATK_MAGIC then Some (AtkMagic, 0, MAX_OTHER_ATTRIBUTE)
      else if t = DEF_STR then Some (DefStr, 0, MAX_OTHER_ATTRIBUTE)
      else if t = DEF_AGI then Some (DefAgi, 0, MAX_OTHER_ATTRIBUTE)
      else if t = DEF_MAGIC then Some (DefMagic, 0, MAX_OTHER_ATTRIBUTE)
      else if t = CRITICAL then Some (Critical, 0, MAX_OTHER_ATTRIBUTE)
      else if t = HIT_MAGIC then Some (HitMagic, 0, MAX_OTHER_ATTRIBUTE)
      else if t = HIT_RATE then Some (HitRate, 0, MAX_OTHER_ATTRIBUTE)
      else if t = FORCE_HIT then Some (ForceHit, 0, MAX_OTHER_ATTRIBUTE)
      else if t = DODGE then Some (Dodge, 0, MAX_OTHER_ATTRIBUTE)
      else if t = WIL then Some (Wil, 0, MAX_OTHER_ATTRIBUTE)
      else if t = TOUGH then Some (Tough, 0, MAX_OTHER_ATTRIBUTE)
      else if t = BRK_ARMOR then Some (BrkArmor, 0, MAX_OTHER_ATTRIBUTE)
      else if t = MAGIC_PENETRATION then Some (MagicPenetration, 0, MAX_OTHER_ATTRIBUTE)
      else if t = BLOCK then Some (Block, 0, MAX_OTHER_ATTRIBUTE)
      else if t = DEF_FIELD then Some (DefField, MIN_DEF_FIELD, MAX_OTHER_ATTRIBUTE)
      else if t = INSIGHT then Some (Insight, 0, MAX_OTHER_ATTRIBUTE)
      else if t = BACK then Some (Back, 0, MAX_OTHER_ATTRIBUTE)
      else if t = MAGIC_BACK then Some (MagicBack, 0, MAX_OTHER_ATTRIBUTE)
      else if t = LIFE_ABSORPTION then Some (LifeAbsorption, 0, MAX_OTHER_ATTRIBUTE)
      else if t = MANA_ABSORPTION then Some (ManaAbsorption, 0, MAX_OTHER_ATTRIBUTE)
      else if t = HEAL_RECOVERY then Some (HealRecovery, MIN_HEAL_RECOVERY, MAX_OTHER_ATTRIBUTE)
      else if t = MANA_RECOVERY then Some (ManaRecovery, MIN_MANA_RECOVERY, MAX_OTHER_ATTRIBUTE)
      else if t = KEEPOUT_ATK_TIME then Some (KeepoutAtkTime, 0, MAX_KEEPOUT_ATK_TIME)
      else None)"

definition addBonus :: "battle_attr \<Rightarrow> int \<Rightarrow> int \<Rightarrow> int \<Rightarrow> fighter \<Rightarrow> fighter" where
  "addBonus a i lo hi f =
     (let n = bonus f a; v = sumValue n i lo hi
      in f\<lparr>bonus := (bonus f)(a := v), readAddValue := v - n\<rparr>)"

text \<open>The setters of \<open>hp\<close>, \<open>mp\<close>, \<open>exp\<close> and their like convert to 32 bits.\<close>

definition set_hp :: "int \<Rightarrow> fighter \<Rightarrow> fighter" where
  "set_hp e f = f\<lparr>hp := toInt32 e\<rparr>"

definition set_mp :: "int \<Rightarrow> fighter \<Rightarrow> fighter" where
  "set_mp e f = f\<lparr>mp := toInt32 e\<rparr>"

definition fitHp :: "fighter \<Rightarrow> fighter" where
  "fitHp f = (let m = fget f HPMAX; f' = (if hp f > m then set_hp m f else f) in f'\<lparr>hpMax := m\<rparr>)"

definition fitMp :: "fighter \<Rightarrow> fighter" where
  "fitMp f = (let m = fget f MPMAX; f' = (if mp f > m then set_mp m f else f) in f'\<lparr>mpMax := m\<rparr>)"

definition onPurse :: "(purse \<Rightarrow> purse) \<Rightarrow> fighter \<Rightarrow> fighter" where
  "onPurse g f = f\<lparr>purse := g (purse f)\<rparr>"

definition addMoney3 :: "int \<Rightarrow> purse \<Rightarrow> purse" where
  "addMoney3 i p =
     (if money3 p > 0 \<and> i > 0 \<and> money3 p + i < 0 then p\<lparr>money3 := 2147483647\<rparr>
      else let m = money3 p + i in p\<lparr>money3 := (if m < 0 then 0 else m)\<rparr>)"

definition purseCase :: "int \<Rightarrow> int \<Rightarrow> purse \<Rightarrow> purse" where
  "purseCase t i p =
     (if t = COMBATPOINT then p\<lparr>combatPoint := i\<rparr>
      else if t = PARTNER_ID then p\<lparr>partnerId := i\<rparr>
      else if t = MASTER_FLAG then p\<lparr>masterFlag := i\<rparr>
      else if t = SP then p\<lparr>sp := sumValue (sp p) i 0 2147483647\<rparr>
      else if t = CP then p\<lparr>cp := sumValue (cp p) i 0 32767\<rparr>
      else if t = MONEY1 then p\<lparr>money1 := sumValue (money1 p) i 0 2147483647\<rparr>
      else if t = MONEY2 then p\<lparr>money2 := sumValue (money2 p) i 0 2147483647\<rparr>
      else if t = MONEY3 then addMoney3 i p
      else if t = NUM_STROE then p\<lparr>p_numStroe := sumValue (p_numStroe p) i 0 MAX_STORE_NUM\<rparr>
      else if t = COUNTRY_HONOR then p\<lparr>countryHonor := sumValue (countryHonor p) i 0 2147483647\<rparr>
      else if t = KILL_COUNT then p\<lparr>killCount := sumValue (killCount p) i 0 2147483647\<rparr>
      else if t = PK_WIN_COUNT then p\<lparr>Pkwincount := sumValue (Pkwincount p) i 0 2147483647\<rparr>
      else if t = PK_LOSE_COUNT then p\<lparr>Pklosecount := sumValue (Pklosecount p) i 0 2147483647\<rparr>
      else p)"

definition playerCase :: "int \<Rightarrow> int \<Rightarrow> fighter \<Rightarrow> fighter" where
  "playerCase t i f =
     (if t = EXP then f\<lparr>exp := toInt32 (sumValue (exp f) i 0 (expMax f))\<rparr>
      else if t = EXP2 then f\<lparr>exp2 := toInt32 (sumValue (exp2 f) i 0 (expMax2 f))\<rparr>
      else if t = SET_EXP then f\<lparr>exp := toInt32 i\<rparr>
      else if t = SET_EXP2 then f\<lparr>exp2 := toInt32 i\<rparr>
      else if t = EXPMAX then f\<lparr>expMax := toInt32 (sumValue (expMax f) i 0 2147483647)\<rparr>
      else if t = SET_EXPMAX then f\<lparr>expMax := toInt32 i\<rparr>
      else if t = SET_EXPMAX2 then f\<lparr>expMax2 := toInt32 i\<rparr>
      else if t = HP then set_hp (sumValue (hp f) i 0 (fget f HPMAX)) f
      else if t = HP_DISPLAY then f\<lparr>hpDisplay := sumValue (hpDisplay f) i 0 (fget f HPMAX)\<rparr>
      else if t = MP then set_mp (sumValue (mp f) i 0 (fget f MPMAX)) f
      else if t = MP_DISPLAY then f\<lparr>mpDisplay := sumValue (mpDisplay f) i 0 (fget f MPMAX)\<rparr>
      else if t = ATTR_STR then fitHp (f\<lparr>str := sumValue (str f) i 0 MAX_BASE_ATTRIBUTE\<rparr>)
      else if t = CON then fitHp (f\<lparr>con := sumValue (con f) i 0 MAX_BASE_ATTRIBUTE\<rparr>)
      else if t = AGI then f\<lparr>agi := sumValue (agi f) i 0 MAX_BASE_ATTRIBUTE\<rparr>
      else if t = ILT then fitMp (f\<lparr>ilt := sumValue (ilt f) i 0 MAX_BASE_ATTRIBUTE\<rparr>)
      else if t = WIS then fitMp (f\<lparr>wis := sumValue (wis f) i 0 MAX_BASE_ATTRIBUTE\<rparr>)
      else if t = ARGO then f\<lparr>argo := sumValue (argo f) i (- 100000) 100000\<rparr>
      else case bonusCase t of Some (a, lo, hi) \<Rightarrow> addBonus a i lo hi f
         | None \<Rightarrow> onPurse (purseCase t i) f)"

definition addValue :: "int \<Rightarrow> int \<Rightarrow> fighter \<Rightarrow> fighter" where
  "addValue t i f =
     (if t = PET_GROW_LEVEL \<and> monster f = None \<and> fpet f \<noteq> None
      then f\<lparr>fpet := map_option (\<lambda>d. d\<lparr>growLevel := sumValue (growLevel d) i 0 120\<rparr>) (fpet f)\<rparr>
      else (let i' = toInt32 i
            in modelVo_addValue t i' (playerCase t i' (f\<lparr>readAddValue := i'\<rparr>))))"

definition resumeHPMP :: "fighter \<Rightarrow> fighter" where
  "resumeHPMP f = (let f = set_hp (fget f HPMAX) f in set_mp (fget f MPMAX) f)"

definition checkHPMP :: "fighter \<Rightarrow> fighter" where
  "checkHPMP f =
     (let e = fget f HPMAX; f = (if hp f > e then set_hp e f else f); t = fget f MPMAX
      in if mp f > t then set_mp t f else f)"

definition setMoneyByType :: "int \<Rightarrow> int \<Rightarrow> fighter \<Rightarrow> fighter" where
  "setMoneyByType e t f =
     (if e = MONEY1 then onPurse (\<lambda>p. p\<lparr>money1 := t\<rparr>) f
      else if e = MONEY2 then onPurse (\<lambda>p. p\<lparr>money2 := t\<rparr>) f
      else if e = MONEY3 then onPurse (\<lambda>p. p\<lparr>money3 := t\<rparr>) f
      else f)"

section \<open>Monster\<close>

text \<open>\<open>setMonsterData\<close> copies a monster, scaled by a percentage when one is given:
  \<open>sc\<close> is then the function \<open>v \<mapsto> v * (t / 100) | 0\<close>, whose product is computed in
  floating point, and the identity otherwise.  The copy starts as a fresh monster,
  whose \<open>newReflection\<close> is 0 and is scaled without having been copied.\<close>

definition setMonsterData :: "(int \<Rightarrow> int) \<Rightarrow> fighter \<Rightarrow> fighter \<Rightarrow> fighter" where
  "setMonsterData sc f e =
     (case (monster f, monster e) of
        (Some m, Some n) \<Rightarrow>
          (e\<lparr>fid := fid f, level := level f, hpMax := sc (hpMax f), mpMax := sc (mpMax f),
                bonus := (\<lambda>a. if a = ForceHit \<or> a = HealRecovery \<or> a = ManaRecovery \<or> a = KeepoutAtkTime
                              then bonus e a else sc (bonus f a)),
                monster := Some (n\<lparr>m_atkType := m_atkType m, m_atkMin := sc (m_atkMin m),
                                   m_atkMax := sc (m_atkMax m), bornStatus := bornStatus m,
                                   newReflection := sc (newReflection n), monsterAI := monsterAI m\<rparr>)\<rparr>)
      | _ \<Rightarrow> e)"

end
