(* ===== verification/Buffers.thy ===== *)
theory Buffers
  imports Attributes
begin

text \<open>
  The states of a character in a battle: the class \<open>Buffer\<close>, the methods of
  \<open>PlayerVo\<close> and \<open>Monster\<close> on the state bits and on the list of buffers, and the
  functions of \<open>FightTool\<close> and \<open>Battle\<close> on one character that the buffers call
  (change of life or mana, revival).

  A buffer object is found in the list by its identity \<open>bufferId\<close>;
  \<open>addBuffer\<close> gives a new buffer the next identity of the character.  The effects
  that a function reports to the battle are returned as a list.
\<close>

section \<open>State bits\<close>

definition isBornStatus :: "fighter \<Rightarrow> int \<Rightarrow> bool" where
  "isBornStatus f e =
     (case monster f of
        Some m \<Rightarrow> 0 \<noteq> jand (bornStatus m) e
      | None \<Rightarrow> (case fpet f of None \<Rightarrow> False | Some d \<Rightarrow> 0 \<noteq> jand (p_bornStatus d) e))"

definition setBattleStatus :: "int \<Rightarrow> fighter \<Rightarrow> bool \<times> fighter" where
  "setBattleStatus t f =
     (if (monster f \<noteq> None \<or> fpet f \<noteq> None) \<and> t \<noteq> BSTATUS_ESCAPE \<and> isBornStatus f t \<and> getBufferType t True = BUFFER_TYPE_DEBUFF
      then (False, f)
      else (True, f\<lparr>bStatus := jor (bStatus f) t\<rparr>))"

definition clearBattleStatus :: "int \<Rightarrow> fighter \<Rightarrow> fighter" where
  "clearBattleStatus e f = f\<lparr>bStatus := jand (bStatus f) (jnot e)\<rparr>"

definition isBattleStatus :: "fighter \<Rightarrow> int \<Rightarrow> bool" where
  "isBattleStatus f t =
     (if monster f = None \<and> fpet f = None \<or> t = BSTATUS_ESCAPE \<or> \<not> isBornStatus f t
         \<or> getBufferType t True \<noteq> BUFFER_TYPE_BUFF \<and> t \<noteq> getBufferBitValue BUFFER_DIE_CANNOT_RELIVE
      then 0 \<noteq> jand (bStatus f) t else True)"

definition hasState :: "fighter \<Rightarrow> int \<Rightarrow> bool" where
  "hasState f s = isBattleStatus f (getBufferBitValue s)"

definition isDead :: "fighter \<Rightarrow> bool" where
  "isDead f = (hp f \<le> 0)"

definition isDeadDelay :: "fighter \<Rightarrow> bool" where
  "isDeadDelay f = (hasState f BUFFER_RESIST_DIE_DELAY \<and> \<not> isTabStatus f BUFFER_DIE_DELAY_CHECK)"

definition isDeadNoWithDelay :: "fighter \<Rightarrow> bool" where
  "isDeadNoWithDelay f = (isDead f \<and> \<not> isDeadDelay f)"

section \<open>Buffer\<close>

definition isPermanentBuffer :: "buffer \<Rightarrow> bool" where
  "isPermanentBuffer u = (attrID u = HP \<or> attrID u = MP \<or> attrID u = BUFFER_REMOVE_STATUS)"

definition buffer_alloc :: "int \<Rightarrow> int \<Rightarrow> int \<Rightarrow> int \<Rightarrow> int \<Rightarrow> int \<Rightarrow> int option \<Rightarrow> buffer" where
  "buffer_alloc i k n a r s l =
     (let u = \<lparr>bufferId = 0, attrID = i, addVal = k, statusBit = n, lastTime = a, animeID = r, target = l\<rparr>
      in if \<not> isPermanentBuffer u then u\<lparr>addVal := s\<rparr> else u)"

definition finish :: "buffer \<Rightarrow> buffer" where
  "finish u = u\<lparr>lastTime := 0\<rparr>"

definition isDieStatus :: "buffer \<Rightarrow> bool" where
  "isDieStatus u =
     (statusBit u = BUFFER_RESIST_DIE_1HP \<or> statusBit u = BUFFER_RESIST_DIE_FULLHP
      \<or> statusBit u = BUFFER_RESIST_DIE_DELAY)"

definition isCannotReliveStatus :: "buffer \<Rightarrow> bool" where
  "isCannotReliveStatus u = (statusBit u = BUFFER_DIE_CANNOT_RELIVE)"

definition clearStatus :: "buffer \<Rightarrow> buffer" where
  "clearStatus u = u\<lparr>statusBit := BUFFER_NONE\<rparr>"

definition isClearStatusBitBuffer :: "buffer \<Rightarrow> bool" where
  "isClearStatusBitBuffer u = (attrID u = BUFFER_REMOVE_STATUS)"

definition useKeeAtkTime :: "buffer \<Rightarrow> bool \<times> buffer" where
  "useKeeAtkTime u =
     (if attrID u \<noteq> KEEPOUT_ATK_TIME then (False, u)
      else if addVal u \<le> 0 then (False, u)
      else (True, u\<lparr>addVal := addVal u - 1\<rparr>))"

definition isSameStatusType :: "buffer \<Rightarrow> int \<Rightarrow> bool" where
  "isSameStatusType u e =
     (let e = jand 255 e
      in if e = BUFFER_TYPE_BUFF \<or> e = BUFFER_TYPE_DEBUFF
         then (if statusBit u = 0 then False else getBufferType (statusBit u) False = e)
         else statusBit u = e)"

definition destroy :: "buffer \<Rightarrow> fighter \<Rightarrow> fighter" where
  "destroy u f = (if isPermanentBuffer u then f else addValue (attrID u) (- addVal u) f)"

section \<open>The list of buffers\<close>

definition bufs :: "fighter \<Rightarrow> buffer list" where
  "bufs f = (case battleBufferList f of None \<Rightarrow> [] | Some us \<Rightarrow> us)"

text \<open>\<open>removeElement\<close> removes the object itself, if the list still has it.\<close>

primrec removeId :: "nat \<Rightarrow> buffer list \<Rightarrow> buffer list" where
  "removeId k [] = []"
| "removeId k (u # us) = (if bufferId u = k then us else u # removeId k us)"

definition removeBuffer :: "buffer \<Rightarrow> fighter \<Rightarrow> fighter" where
  "removeBuffer u f = f\<lparr>battleBufferList := map_option (removeId (bufferId u)) (battleBufferList f)\<rparr>"

definition statusOf :: "buffer \<Rightarrow> int" where
  "statusOf u = getBufferBitValue (statusBit u)"

definition isHaveCanNotReliveBuffer :: "fighter \<Rightarrow> bool" where
  "isHaveCanNotReliveBuffer f =
     (if isBornStatus f (getBufferBitValue BUFFER_DIE_CANNOT_RELIVE) then True
      else list_ex isCannotReliveStatus (bufs f))"

definition getbuffer :: "fighter \<Rightarrow> int \<Rightarrow> buffer option" where
  "getbuffer f e = find (\<lambda>u. statusBit u \<noteq> BUFFER_NONE \<and> statusBit u = e) (rev (bufs f))"

text \<open>\<open>checkBufferSize\<close> walks the list from its end; the recursion is over the
  buffers in that order.\<close>

fun sizeLoop :: "buffer \<Rightarrow> buffer list \<Rightarrow> int \<Rightarrow> fighter \<Rightarrow> int \<times> fighter" where
  "sizeLoop e [] t f = (BUFFER_NONE, f)"
| "sizeLoop e (a # as) t f =
     (if statusBit a \<noteq> BUFFER_NONE then
        (if isDieStatus e \<and> isDieStatus a
         then sizeLoop e as t (removeBuffer a (destroy a (clearBattleStatus (statusOf a) f)))
         else if getBufferType (statusBit a) False = getBufferType (statusBit e) False
         then (if t + 1 \<ge> BUFF_MAX_SIZE then (statusBit a, removeBuffer a (destroy a f))
               else sizeLoop e as (t + 1) f)
         else sizeLoop e as t f)
      else sizeLoop e as t f)"

definition checkBufferSize :: "buffer \<Rightarrow> fighter \<Rightarrow> fighter" where
  "checkBufferSize e f =
     (if statusBit e \<noteq> BUFFER_NONE then
        (let (i, f') = sizeLoop e (rev (bufs f)) 0 f
         in if i \<noteq> BUFFER_NONE then
              (if list_ex (\<lambda>a. statusBit a = i) (bufs f') then f'
               else clearBattleStatus (getBufferBitValue i) f')
            else f')
      else f)"

definition addBuffer :: "buffer \<Rightarrow> fighter \<Rightarrow> fighter" where
  "addBuffer e f =
     (let e = e\<lparr>bufferId := nextBufferId f\<rparr>;
          f = f\<lparr>nextBufferId := Suc (nextBufferId f), battleBufferList := Some (bufs f)\<rparr>
      in if isClearStatusBitBuffer e then f\<lparr>battleBufferList := Some (e # bufs f)\<rparr>
         else (let (t, f) = setBattleStatus (statusOf e) f;
                   (e, f) = (if \<not> t then (clearStatus e, f) else (e, checkBufferSize e f));
                   f = f\<lparr>battleBufferList := Some (bufs f @ [e])\<rparr>
               in if t then snd (setBattleStatus (statusOf e) f) else f))"

fun clearLoop :: "bool \<Rightarrow> buffer list \<Rightarrow> fighter \<Rightarrow> fighter" where
  "clearLoop e [] f = f"
| "clearLoop e (i # is) f =
     (if \<not> e \<and> isCannotReliveStatus i then clearLoop e is f
      else clearLoop e is (clearBattleStatus (statusOf i) (removeBuffer i (destroy i f))))"

definition clearBufferList :: "bool \<Rightarrow> fighter \<Rightarrow> fighter" where
  "clearBufferList e f =
     (case battleBufferList f of None \<Rightarrow> f
      | Some us \<Rightarrow> (let f' = clearLoop e (rev us) f
                   in if bufs f' = [] then f'\<lparr>battleBufferList := None\<rparr> else f'))"

fun removeStatusLoop :: "int \<Rightarrow> buffer list \<Rightarrow> fighter \<Rightarrow> fighter" where
  "removeStatusLoop e [] f = f"
| "removeStatusLoop e (i # is) f =
     (if isSameStatusType i e
      then removeStatusLoop e is (clearBattleStatus (statusOf i) (removeBuffer i (destroy i f)))
      else removeStatusLoop e is f)"

definition removeBufferByStatus :: "int \<Rightarrow> fighter \<Rightarrow> fighter" where
  "removeBufferByStatus e f = removeStatusLoop (jand 255 e) (rev (bufs f)) f"

section \<open>Change of life and mana, revival\<close>

record effect =
  selfEffect :: bool
  effPos :: int
  effCounter :: int
  effValue :: int
  effAnime :: int

definition createBattleTargetEffect :: "int \<Rightarrow> int \<Rightarrow> int \<Rightarrow> int \<Rightarrow> bool \<Rightarrow> effect" where
  "createBattleTargetEffect t i k n a =
     \<lparr>selfEffect = a, effPos = jand 255 t, effCounter = k, effValue = i, effAnime = n\<rparr>"

definition processBattleHpMpPower ::
  "int \<Rightarrow> int \<Rightarrow> int \<Rightarrow> bool \<Rightarrow> fighter \<Rightarrow> bool \<times> fighter \<times> effect list" where
  "processBattleHpMpPower t i k r e =
     (let i = toInt32 i
      in if isDead e then (False, e, [])
         else (let e = addValue t i e;
                   s = (if t = HP then (if isDeadNoWithDelay e then jor EFFECT_HIT EFFECT_DIE else EFFECT_HIT)
                        else jor EFFECT_HIT EFFECT_MP_CHANGE)
               in (True, e, [createBattleTargetEffect (position e) i s k r])))"

definition processBattleReborn :: "int \<Rightarrow> int \<Rightarrow> int \<Rightarrow> fighter \<Rightarrow> bool \<times> fighter \<times> effect list" where
  "processBattleReborn t i n e =
     (if \<not> isDead e then (False, e, [])
      else if hasState e BUFFER_DIE_CANNOT_RELIVE then (False, e, [])
      else (let e = addValue HP t (clearBufferList True e);
                l = createBattleTargetEffect (position e) t (jor EFFECT_HIT EFFECT_REBORN) n False
            in (True, (if i \<noteq> 0 then addValue MP i e else e), [l])))"

definition checkDie1HpOf :: "fighter \<Rightarrow> fighter \<times> effect list" where
  "checkDie1HpOf e =
     (if \<not> isDead e then (e, [])
      else if \<not> isTabStatus e BUFFER_DIE_1HP_CHECK \<and> hasState e BUFFER_RESIST_DIE_1HP
      then (if \<not> isHaveCanNotReliveBuffer e
            then snd (processBattleReborn 1 0 SPRITE_USE_ITEM (setTabStatus True BUFFER_DIE_1HP_CHECK e))
            else (e, []))
      else (e, []))"

section \<open>Running the buffers\<close>

definition setBufferAt :: "nat \<Rightarrow> buffer \<Rightarrow> fighter \<Rightarrow> fighter" where
  "setBufferAt k u f = f\<lparr>battleBufferList := map_option (\<lambda>us. us[k := u]) (battleBufferList f)\<rparr>"

definition runBuffer :: "nat \<Rightarrow> fighter \<Rightarrow> fighter \<times> effect list" where
  "runBuffer k f =
     (let a = bufs f ! k
      in if lastTime a \<le> 0 then (f, [])
         else (let f = setBufferAt k (a\<lparr>lastTime := lastTime a - 1\<rparr>) f
               in if attrID a = HP \<or> attrID a = MP
                  then (let (_, f, es) = processBattleHpMpPower (attrID a) (addVal a) (animeID a) False f;
                            (f, es') = checkDie1HpOf f
                        in (f, es @ es'))
                  else (f, [])))"

text \<open>\<open>finishSame\<close> is the inner loop of a status-clearing buffer \<open>a\<close>: it ends the
  later buffers of the same kind and collects them.\<close>

fun finishSame :: "buffer \<Rightarrow> nat list \<Rightarrow> fighter \<Rightarrow> fighter \<times> buffer list" where
  "finishSame a [] f = (f, [])"
| "finishSame a (r # rs) f =
     (let s = bufs f ! r
      in if isSameStatusType s (jand 255 (addVal a))
         then (let (f', us) = finishSame a rs (setBufferAt r (finish s) f) in (f', finish s # us))
         else finishSame a rs f)"

text \<open>The flag of the result tells that the list was dropped on the way (a revival
  clears it) and the function has returned early.\<close>

fun runLoop :: "nat list \<Rightarrow> fighter \<Rightarrow> effect list \<Rightarrow> buffer list \<Rightarrow> bool \<times> fighter \<times> effect list \<times> buffer list" where
  "runLoop [] f t i = (False, f, t, i)"
| "runLoop (k # ks) f t i =
     (let (f, es) = runBuffer k f
      in if battleBufferList f = None then (True, f, t @ es, i)
         else (let a = bufs f ! k;
                   (f, us) = (if isClearStatusBitBuffer a then finishSame a [k + 1..<length (bufs f)] f else (f, []))
               in runLoop ks f (t @ es) (i @ us)))"

fun dropLoop :: "buffer list \<Rightarrow> fighter \<Rightarrow> fighter" where
  "dropLoop [] f = f"
| "dropLoop (a # as) f = dropLoop as (clearBattleStatus (statusOf a) (removeBuffer a (destroy a f)))"

definition dropAll :: "buffer list \<Rightarrow> fighter \<Rightarrow> fighter" where
  "dropAll i f =
     (if i = [] then f
      else (let f = dropLoop i f in fold (\<lambda>a f. snd (setBattleStatus (statusOf a) f)) (bufs f) f))"

definition runBufferList :: "bool \<Rightarrow> fighter \<Rightarrow> fighter \<times> effect list" where
  "runBufferList e f =
     (case battleBufferList f of None \<Rightarrow> (f, [])
      | Some us \<Rightarrow>
          (if e then
             (let (gone, f, t, i) = runLoop [0..<length us] f [] []
              in if gone then (f, t) else (dropAll i f, t))
           else (dropAll (filter (\<lambda>a. lastTime a \<le> 0) us) f, [])))"

fun useKeepLoop :: "nat list \<Rightarrow> fighter \<Rightarrow> fighter" where
  "useKeepLoop [] f = f"
| "useKeepLoop (k # ks) f =
     (let (used, u) = useKeeAtkTime (bufs f ! k)
      in if used then setBufferAt k u f else useKeepLoop ks f)"

definition doKeepAtkTime :: "fighter \<Rightarrow> fighter" where
  "doKeepAtkTime f =
     (let f = addValue KEEPOUT_ATK_TIME (- 1) f in useKeepLoop (rev [0..<length (bufs f)]) f)"

definition resetBattleBuffer :: "fighter \<Rightarrow> fighter" where
  "resetBattleBuffer f =
     setTabStatus False BUFFER_DIE_DELAY_CHECK (setTabStatus False BUFFER_DIE_FULLHP_CHECK
       (setTabStatus False BUFFER_DIE_1HP_CHECK
         (f\<lparr>bStatus := 0, battleBufferList := None, argo := 0, hpMax := 0, mpMax := 0,
            bonus := (\<lambda>a. 0), recovery := 0\<rparr>)))"

end
