(* ===== verification/Formula.thy ===== *)
theory Formula
  imports Buffers
begin

text \<open>
  The formulas of \<open>Battle.calc\<close> and the layout of the battle field: the sides,
  rows and columns of the 34 positions, and the target areas of the skills.
  Positions 0 to 19 are the left side, 20 to 33 the right side; two neighbouring
  positions form a row.  In the formulas \<open>t\<close> is the character that acts and \<open>i\<close>
  its opponent, as in the source; \<open>h\<close> is the number of hits \<open>totalHitTime\<close>.
\<close>

section \<open>Positions\<close>

definition getPositionSide :: "int \<Rightarrow> int" where
  "getPositionSide e = (if e < LEFT_MAX_POS then LEFT_SIDE else RIGHT_SIDE)"

definition isLeftSide :: "int \<Rightarrow> bool" where
  "isLeftSide t = (getPositionSide t = LEFT_SIDE)"

definition isSameSide :: "int \<Rightarrow> int \<Rightarrow> bool" where
  "isSameSide t i = (let k = getPositionSide t; n = getPositionSide i in k = n)"

definition getPositionColumn :: "int \<Rightarrow> int" where
  "getPositionColumn t =
     (if isLeftSide t then (if 0 = jand 1 t then POSITION_COLUMN_1 else POSITION_COLUMN_2)
      else (if 0 = jand 1 t then POSITION_COLUMN_3 else POSITION_COLUMN_4))"

definition isBattlePos :: "int \<Rightarrow> bool" where
  "isBattlePos e = (if 0 > e \<or> e \<ge> MAX_POS then False else True)"

definition isSidePos :: "int \<Rightarrow> int \<Rightarrow> int \<Rightarrow> bool" where
  "isSidePos rowLeft e t =
     (let (i, k) = (if \<not> isLeftSide e then (LEFT_MAX_POS, MAX_POS) else (0, 2 * rowLeft))
      in if i > t \<or> t \<ge> k then False else True)"

definition getLeftRightTypeTarget :: "int \<Rightarrow> int list" where
  "getLeftRightTypeTarget t = [t, if jrem t 2 = 0 then t + 1 else t - 1]"

definition getColumnTypeTarget :: "int \<Rightarrow> int \<Rightarrow> int \<Rightarrow> bool \<Rightarrow> int list" where
  "getColumnTypeTarget rowLeft e t i =
     concat (map (\<lambda>n. if jrem n 2 = 0 \<and> i \<and> n = 0 then getLeftRightTypeTarget e
                      else let a = (if jrem n 2 = 0 then e - 2 * jdiv n 2 else e + 2 * (jdiv n 2 + 1))
                           in if isSidePos rowLeft e a then [a] else [])
             [0..t - 1])"

definition getRowTypeTarget :: "int \<Rightarrow> int \<Rightarrow> int \<Rightarrow> int list" where
  "getRowTypeTarget rowLeft e t =
     concat (map (\<lambda>k. let a = jdiv k 2; n = (if jrem k 2 = 0 then e - 2 * a else e + 2 * (a + 1))
                      in if isSidePos rowLeft e n then getLeftRightTypeTarget n else [])
             [0..t - 1])"

definition getAllTypeTarget :: "int \<Rightarrow> int \<Rightarrow> int \<Rightarrow> int \<Rightarrow> int \<Rightarrow> int list option" where
  "getAllTypeTarget rowLeft rowRight e t i =
     (let (k, n) = (if e = LEFT_SIDE then (0, 2 * rowLeft)
                    else if e = RIGHT_SIDE then (LEFT_MAX_POS, LEFT_MAX_POS + 2 * rowRight)
                    else (0, MAX_POS));
          s = \<not> (t \<ge> 0 \<and> (i = SKILL_AREA_ME_ALL_NO_SELF \<or> i = SKILL_AREA_ALL_NO_SELF))
      in if 0 \<ge> n - k then None else Some (filter (\<lambda>u. s \<or> u \<noteq> t) [k..n - 1]))"

text \<open>The shape of an area around the cursor \<open>t\<close>: \<open>None\<close> for the areas that cover a
  whole side.\<close>

definition areaShape :: "int \<Rightarrow> int \<Rightarrow> int \<Rightarrow> int list option" where
  "areaShape rowLeft t i =
     (if i \<in> set [SKILL_AREA_SINGLE, SKILL_AREA_ENEMY_SINGLE, SKILL_AREA_ME_SIGHLE]
      then Some (getColumnTypeTarget rowLeft t 1 False)
      else if i \<in> set [SKILL_AREA_PLAYER_AND_PET, SKILL_AREA_FRONT_BACK_TWO,
                       SKILL_AREA_ENEMY_FONT_BACK_TWO, SKILL_AREA_ME_FONT_BACK_TWO]
      then Some (getRowTypeTarget rowLeft t 1)
      else if i \<in> set [SKILL_AREA_UP_DOWN_TWO, SKILL_AREA_ENEMY_UP_DOWN_TWO, SKILL_AREA_ME_UP_DOWN_TWO]
      then Some (getColumnTypeTarget rowLeft t 2 False)
      else if i \<in> set [SKILL_AREA_UP_DOWN_THREE, SKILL_AREA_ENEMY_UP_DOWN_THREE, SKILL_AREA_ME_UP_DOWN_THREE]
      then Some (getColumnTypeTarget rowLeft t 3 False)
      else if i \<in> set [SKILL_AREA_UP_DOWN_FOUR, SKILL_AREA_ENEMY_UP_DOWN_FOUR, SKILL_AREA_ME_UP_DOWN_FOUR]
      then Some (getColumnTypeTarget rowLeft t 4 False)
      else if i \<in> set [SKILL_AREA_UP_DOWN_FIVE, SKILL_AREA_ENEMY_UP_DOWN_FIVE, SKILL_AREA_ME_UP_DOWN_FIVE]
      then Some (getColumnTypeTarget rowLeft t 5 False)
      else if i \<in> set [SKILL_AREA_TEN, SKILL_AREA_ENEMY_TEN, SKILL_AREA_ME_TEN]
      then Some (getColumnTypeTarget rowLeft t 3 True)
      else if i \<in> set [SKILL_AREA_SQUARE, SKILL_AREA_ENEMY_SQUARE, SKILL_AREA_ME_SQUARE]
      then Some (getRowTypeTarget rowLeft t 2)
      else if i \<in> set [SKILL_AREA_AROUND_SIX, SKILL_AREA_ENEMY_AROUND_SIX, SKILL_AREA_ME_AROUND_SIX]
      then Some (getRowTypeTarget rowLeft t 3)
      else None)"

definition selectShape :: "int \<Rightarrow> int \<Rightarrow> int \<Rightarrow> int \<Rightarrow> int \<Rightarrow> int list option" where
  "selectShape rowLeft rowRight e t i =
     (case areaShape rowLeft t i of
        Some a \<Rightarrow>
          (if a = [] then None
           else if i = SKILL_AREA_PLAYER_AND_PET \<and> e \<notin> set a then None
           else Some a)
      | None \<Rightarrow>
          (if i \<in> set [SKILL_AREA_ALL, SKILL_AREA_ENEMY_ALL, SKILL_AREA_ME_ALL,
                       SKILL_AREA_ME_ALL_NO_SELF, SKILL_AREA_ALL_NO_SELF]
           then getAllTypeTarget rowLeft rowRight
                  (if i = SKILL_AREA_ALL \<or> i = SKILL_AREA_ALL_NO_SELF then - 1 else getPositionSide t) e i
           else if i \<in> set [SKILL_AREA_ENEMY_HP_LEAST, SKILL_AREA_ENEMY_HP_MOST,
                            SKILL_AREA_ME_HP_LEAST, SKILL_AREA_ME_HP_MOST]
           then Some [jand 255 t]
           else None))"

definition getSelectArea :: "int \<Rightarrow> int \<Rightarrow> int \<Rightarrow> int \<Rightarrow> int \<Rightarrow> int list option" where
  "getSelectArea rowLeft rowRight e t i =
     (let s = getSearchTypeByArea i
      in if s = SKILL_AREA_SEARCH_ENEMY \<and> isSameSide e t then None
         else if s = SKILL_AREA_SEARCH_FRIEND \<and> \<not> isSameSide e t then None
         else if s = SKILL_AREA_SEARCH_MY_SELF then (if e \<noteq> t then None else Some [jand 255 t])
         else if s = SKILL_AREA_SEARCH_MY_OWNER then Some [jand 255 t]
         else selectShape rowLeft rowRight e t i)"

section \<open>Formulas\<close>

definition getLevelIncludeLevel2 :: "fighter \<Rightarrow> int" where
  "getLevelIncludeLevel2 e = fget e LEVEL + fget e LEVEL2"

definition atLeast1 :: "int \<Rightarrow> int" where
  "atLeast1 r = (if 0 \<ge> r then 1 else r)"

definition calcPhysicHitrate :: "fighter \<Rightarrow> fighter \<Rightarrow> skill option \<Rightarrow> int" where
  "calcPhysicHitrate t i s =
     (let n = fget t HIT_RATE + skillPower s POWER_SKILL_HITRATE - fget i DODGE;
          a = fget t FORCE_HIT;
          a = (if a > MAX_FORCE_RATE then MAX_FORCE_RATE else a);
          a = a + skillPower s POWER_SKILL_HIT_FORCE;
          n = (if a > n then a else n)
      in toInt32 n)"

definition calcMagicHitrate :: "fighter \<Rightarrow> fighter \<Rightarrow> skill option \<Rightarrow> int" where
  "calcMagicHitrate t i s =
     (let n = fget t HIT_MAGIC + skillPower s POWER_SKILL_HITRATE;
          r = atLeast1 (getLevelIncludeLevel2 i)
      in jdiv (10 * n) r)"

definition calcHitrate :: "fighter \<Rightarrow> fighter \<Rightarrow> skill option \<Rightarrow> int" where
  "calcHitrate t i s =
     (let k = getAttackType t s
      in if k = ATKTYPE_STR \<or> k = ATKTYPE_RANGE_STR \<or> k = ATKTYPE_AGI \<or> k = ATKTYPE_RANGE_AGI
         then calcPhysicHitrate t i s
         else if k = ATKTYPE_MAGIC \<or> k = ATKTYPE_CURSE then calcMagicHitrate t i s
         else if k = ATKTYPE_BLESS then 100 else 0)"

text \<open>The three damage reductions differ in the attributes and the power that they
  read.\<close>

definition calcReduce :: "int \<Rightarrow> int \<Rightarrow> int \<Rightarrow> fighter \<Rightarrow> fighter \<Rightarrow> skill option \<Rightarrow> int" where
  "calcReduce df pen pw t i s =
     (let n = jdiv (80 * (fget t df - fget i pen - skillPower s pw)) 100;
          r = atLeast1 (getLevelIncludeLevel2 i + 12);
          n = jdiv n r
      in if n > BATTLE_RD_MAX then BATTLE_RD_MAX else if 0 > n then 0 else n)"

definition calcRdStr :: "fighter \<Rightarrow> fighter \<Rightarrow> skill option \<Rightarrow> int" where
  "calcRdStr = calcReduce DEF_STR BRK_ARMOR POWER_SKILL_BRK_ARMOR"

definition calcRdAgi :: "fighter \<Rightarrow> fighter \<Rightarrow> skill option \<Rightarrow> int" where
  "calcRdAgi = calcReduce DEF_AGI BRK_ARMOR POWER_SKILL_BRK_ARMOR"

definition calcRdMagic :: "fighter \<Rightarrow> fighter \<Rightarrow> skill option \<Rightarrow> int" where
  "calcRdMagic = calcReduce DEF_MAGIC MAGIC_PENETRATION POWER_SKILL_MAGIC_PENETRATION"

text \<open>The attack power; a random weapon damage that is not a number (see
  \<open>randRange\<close>) makes the whole attack power one, which counts as 0.\<close>

definition calcAp :: "int \<Rightarrow> int \<Rightarrow> fighter \<Rightarrow> skill option \<Rightarrow> int option \<Rightarrow> int" where
  "calcAp atk h t s rnd =
     (case rnd of None \<Rightarrow> 0
      | Some r \<Rightarrow> jdiv (fget t atk) h + r + jdiv (skillPower s POWER_SKILL_DAMAGE) h)"

definition calcApStr :: "int \<Rightarrow> fighter \<Rightarrow> skill option \<Rightarrow> int option \<Rightarrow> int" where
  "calcApStr h t s rnd = toInt32 (calcAp ATK_STR h t s rnd)"

definition calcApAgi :: "int \<Rightarrow> fighter \<Rightarrow> skill option \<Rightarrow> int option \<Rightarrow> int" where
  "calcApAgi h t s rnd = calcAp ATK_AGI h t s rnd"

definition usesWeaponMagic :: "fighter \<Rightarrow> bool" where
  "usesWeaponMagic t =
     (if ftype t = TYPE_PLAYER \<and> fbag t \<noteq> None
      then (let R = getEquipWeaponType t
            in \<not> (R \<noteq> ITEM_TYPE_WEAPON_TWOHAND_STAFF \<and> R \<noteq> ITEM_TYPE_WEAPON_BALL))
      else True)"

definition calcApMagic :: "int \<Rightarrow> fighter \<Rightarrow> skill option \<Rightarrow> int option \<Rightarrow> int" where
  "calcApMagic h t s rnd = calcAp ATK_MAGIC h t s (if usesWeaponMagic t then rnd else Some 0)"

text \<open>The damage of one hit from the reduction \<open>s\<close>, the attack power \<open>u\<close> and the
  random percentage \<open>r\<close>.\<close>

definition scaleDamage :: "int \<Rightarrow> int \<Rightarrow> int \<Rightarrow> int" where
  "scaleDamage s u r =
     (let d = toInt32 ((100 - s) * u * r);
          d = (if u > 0 \<and> r > 0 \<and> 100 - s > 0 \<and> 0 > d then 2147483647 else d);
          n = jdiv d 10000
      in if 0 \<ge> n then 1 else n)"

definition calcCriRate :: "fighter \<Rightarrow> fighter \<Rightarrow> skill option \<Rightarrow> int" where
  "calcCriRate t i s =
     (let n = fget t CRITICAL + skillPower s POWER_SELF_CRITICAL;
          r = atLeast1 (getLevelIncludeLevel2 i)
      in jdiv (15 * n) r)"

definition calcResist :: "int \<Rightarrow> int \<Rightarrow> int \<Rightarrow> int \<Rightarrow> fighter \<Rightarrow> fighter \<Rightarrow> skill option \<Rightarrow> int" where
  "calcResist attr pw ign cap t i s =
     (let n = fget t attr - skillPower s pw - fget i ign;
          r = atLeast1 (getLevelIncludeLevel2 i);
          n = jdiv (7 * n) r;
          n = (if 0 > n then 0 else n)
      in if n > cap then cap else n)"

definition calcBlock :: "fighter \<Rightarrow> fighter \<Rightarrow> skill option \<Rightarrow> int" where
  "calcBlock = calcResist BLOCK POWER_SKILL_TARGET_BLOCK IGNORE_BLOCK MAX_BLOCK_TOUCH"

definition calcInsightRate :: "fighter \<Rightarrow> fighter \<Rightarrow> skill option \<Rightarrow> int" where
  "calcInsightRate = calcResist INSIGHT POWER_SKILL_TARGET_INSIGHT IGNORE_INSIGHT MAX_INSIGHT_TOUCH"

definition calcBack :: "fighter \<Rightarrow> fighter \<Rightarrow> skill option \<Rightarrow> int" where
  "calcBack t i s = calcResist BACK POWER_SKILL_TARGET_BACK IGNORE_BACK (fget t BACK_MAX) t i s"

definition calcMagicBack :: "fighter \<Rightarrow> fighter \<Rightarrow> skill option \<Rightarrow> int" where
  "calcMagicBack t i s =
     calcResist MAGIC_BACK POWER_SKILL_TARGET_MAGIC_BACK IGNORE_MAGIC_BACK (fget t BACK_MAX) t i s"

definition calTouch :: "fighter \<Rightarrow> int" where
  "calTouch e =
     (let t = fget e TOUGH;
          t = (if hasState e BUFFER_BLOOD then jdiv t 2 else t);
          t = (if hasState e BUFFER_WEAK then jdiv t 2 else t)
      in if 0 \<ge> t then 0 else toInt32 t)"

text \<open>\<open>other\<close> says that the attacker is another character than the target.\<close>

definition calTouchDmg :: "fighter \<Rightarrow> fighter \<Rightarrow> bool \<Rightarrow> skill option \<Rightarrow> int \<Rightarrow> int" where
  "calTouchDmg e t other i dmg =
     (let n = calTouch e;
          n = (case i of None \<Rightarrow> n | Some s \<Rightarrow> n - skill_getPowerValue s POWER_SKILL_TARGET_TOUCH);
          n = (if other then n - fget t IGNORE_TOUCH else n);
          n = (if n > MAX_RATE_TOUCH then MAX_RATE_TOUCH else n)
      in if 0 \<ge> n then dmg
         else (let a = dmg - jdiv (dmg * n) 1000 in toInt32 (if 0 > a then 0 else a)))"

definition calHPMPGetValue :: "fighter \<Rightarrow> skill option \<Rightarrow> int \<Rightarrow> bool \<Rightarrow> int \<Rightarrow> int" where
  "calHPMPGetValue e t i k n =
     (if isDead e then 0
      else if k \<and> hasState e BUFFER_BURN \<or> \<not> k \<and> hasState e BUFFER_POISON then 0
      else (let n = (if 0 \<ge> n then 1 else n);
                a = (if k then fget e LIFE_ABSORPTION
                               + (case t of None \<Rightarrow> 0 | Some s \<Rightarrow> skill_getPowerValue s POWER_SKILL_LIFE_ABSORPTION)
                     else fget e MANA_ABSORPTION
                               + (case t of None \<Rightarrow> 0 | Some s \<Rightarrow> skill_getPowerValue s POWER_SKILL_MANA_ABSORPTION));
                a = jdiv a n
            in if 0 \<ge> a then 0
               else jdiv (i * (if a > MAX_RATE_HPMP_GET then MAX_RATE_HPMP_GET else a)) 1000))"

end
