(* ===== verification/Battle.thy ===== *)
theory Battle
  imports Formula "HOL-Library.State_Monad"
begin

text \<open>
  The state of a battle (class \<open>Battle\<close>), its random numbers, the choice of
  targets and the effect of one power on a character (\<open>FightTool\<close>).

  The operations run in the state monad over \<open>battle\<close>.  A character object is
  referred to by its slot in \<open>playerList\<close>.  The battle draws from its own generator
  \<open>random\<close>; the values that its \<open>nextInt\<close> returns are the stream \<open>draws\<close>, of which
  \<open>drawn\<close> have been used (\<open>seedDraws\<close> connects it with the class \<open>Random\<close>).
  Where the source would raise a \<open>TypeError\<close> the flag \<open>failed\<close> is set.  The chat
  messages and the clock of the planning phase are not modelled.
\<close>

section \<open>State\<close>

datatype control =
    EffectControl effect
  | SkillControl int int int int int int int "effect list"
  | EscapeControl int int

record plan =
  planKind :: int
  planCursor :: int
  planArg :: int

record battle =
  rowLeft :: int
  rowRight :: int
  round :: int
  result :: int
  playerList :: "fighter option list"
  guardHash :: "int \<Rightarrow> int option"
  playerPlanData :: "plan option list"
  resultControlList :: "control list"
  totalHitTime :: int
  block :: int
  isLeftHand :: bool
  battleAtkType :: int
  randCnt :: int
  waitStatus :: int
  isLeftHavePlayer :: bool
  isRightHavePlayer :: bool
  draws :: "nat \<Rightarrow> int"
  drawn :: nat
  failed :: bool

type_synonym 'a act = "(battle, 'a) state"

definition seedDraws :: "'l long_ops \<Rightarrow> int \<Rightarrow> nat \<Rightarrow> int" where
  "seedDraws L e n = fst (nextInt L (((\<lambda>s. snd (nextInt L s)) ^^ n) (setSeed L e)))"

definition ask :: "(battle \<Rightarrow> 'a) \<Rightarrow> 'a act" where
  "ask h = State (\<lambda>b. (h b, b))"

definition upd :: "(battle \<Rightarrow> battle) \<Rightarrow> unit act" where
  "upd g = State (\<lambda>b. ((), g b))"

abbreviation ret :: "'a \<Rightarrow> 'a act" where
  "ret \<equiv> State_Monad.return"

definition typeError :: "unit act" where
  "typeError = upd (\<lambda>b. b\<lparr>failed := True\<rparr>)"

section \<open>Characters\<close>

definition getPlayerByPos :: "battle \<Rightarrow> int \<Rightarrow> fighter option" where
  "getPlayerByPos b e = (if \<not> isBattlePos e then None else jget (playerList b) e)"

text \<open>\<open>slotFighter\<close> reads the object behind a reference, \<open>onFighter\<close> changes it and
  \<open>runFighter\<close> changes it and returns a result.\<close>

definition slotFighter :: "battle \<Rightarrow> int \<Rightarrow> fighter" where
  "slotFighter b p = the (jget (playerList b) p)"

definition setFighter :: "int \<Rightarrow> fighter \<Rightarrow> battle \<Rightarrow> battle" where
  "setFighter p f b =
     (if jget (playerList b) p = None then b else b\<lparr>playerList := jset (playerList b) p (Some f)\<rparr>)"

definition look :: "int \<Rightarrow> (fighter \<Rightarrow> 'a) \<Rightarrow> 'a act" where
  "look p h = ask (\<lambda>b. h (slotFighter b p))"

definition onFighter :: "int \<Rightarrow> (fighter \<Rightarrow> fighter) \<Rightarrow> unit act" where
  "onFighter p g = upd (\<lambda>b. setFighter p (g (slotFighter b p)) b)"

definition runFighter :: "int \<Rightarrow> (fighter \<Rightarrow> 'a \<times> fighter) \<Rightarrow> 'a act" where
  "runFighter p g = State (\<lambda>b. let (x, f) = g (slotFighter b p) in (x, setFighter p f b))"

definition isValidBattlePlayer :: "fighter option \<Rightarrow> bool" where
  "isValidBattlePlayer e =
     (case e of None \<Rightarrow> False
      | Some f \<Rightarrow> if isDeadNoWithDelay f \<or> isBattleStatus f BSTATUS_ESCAPE then False else True)"

definition getLeftPosNum :: "battle \<Rightarrow> int" where
  "getLeftPosNum b = 2 * rowLeft b"

definition getRightPosNum :: "battle \<Rightarrow> int" where
  "getRightPosNum b = 2 * rowRight b"

definition isHavePlayer :: "battle \<Rightarrow> int \<Rightarrow> int \<Rightarrow> bool" where
  "isHavePlayer b e t =
     list_ex (\<lambda>i. case getPlayerByPos b i of None \<Rightarrow> False | Some f \<Rightarrow> ftype f = TYPE_PLAYER) [e..t - 1]"

definition getActivePlayerNum :: "battle \<Rightarrow> int \<Rightarrow> int \<Rightarrow> bool \<Rightarrow> int" where
  "getActivePlayerNum b e t i =
     int (length (filter (\<lambda>n. case getPlayerByPos b n of None \<Rightarrow> False
                           | Some f \<Rightarrow> \<not> (i \<and> ftype f \<noteq> TYPE_PLAYER) \<and> isValidBattlePlayer (Some f))
                   [e..t - 1]))"

definition getPlayerPet :: "battle \<Rightarrow> int \<Rightarrow> int option" where
  "getPlayerPet b e =
     (case getPlayerByPos b e of None \<Rightarrow> None
      | Some t \<Rightarrow>
          if ftype t \<noteq> TYPE_PLAYER then None
          else (let i = (if isLeftSide e then e + 1 else e - 1)
                in case getPlayerByPos b i of None \<Rightarrow> None
                   | Some k \<Rightarrow> if ftype k \<noteq> TYPE_PET then None else Some i))"

definition rowsNeeded :: "battle \<Rightarrow> (int \<Rightarrow> bool) \<Rightarrow> (int \<Rightarrow> int) \<Rightarrow> int" where
  "rowsNeeded b side row =
     min MAX_ROW_NUM (fold (\<lambda>n e. if getPlayerByPos b n \<noteq> None \<and> side n \<and> row n > e then row n else e)
                        [0..MAX_POS - 1] 5)"

definition initBattleRowNum :: "battle \<Rightarrow> battle" where
  "initBattleRowNum b =
     b\<lparr>rowLeft := rowsNeeded b isLeftSide (\<lambda>n. jdiv n 2 + 1),
       rowRight := rowsNeeded b (\<lambda>n. \<not> isLeftSide n) (\<lambda>n. jdiv (n - LEFT_MAX_POS) 2 + 1)\<rparr>"

definition initKeepoutatktime :: "battle \<Rightarrow> battle" where
  "initKeepoutatktime b =
     b\<lparr>playerList := map (map_option (\<lambda>f. f\<lparr>bonus := (bonus f)(KeepoutAtkTime := fget f KEEPOUT_ATK_TIME)\<rparr>))
                      (playerList b)\<rparr>"

definition new_battle :: "(nat \<Rightarrow> int) \<Rightarrow> fighter option list \<Rightarrow> battle" where
  "new_battle rnd t =
     (let b = initBattleRowNum
            \<lparr>rowLeft = 0, rowRight = 0, round = 0, result = RESULT_NONE, playerList = t,
             guardHash = (\<lambda>_. None), playerPlanData = replicate (nat MAX_POS) None,
             resultControlList = [], totalHitTime = 1, block = 0, isLeftHand = True,
             battleAtkType = 0, randCnt = 0, waitStatus = 0, isLeftHavePlayer = False,
             isRightHavePlayer = False, draws = rnd, drawn = 0, failed = False\<rparr>
      in initKeepoutatktime
           (b\<lparr>isLeftHavePlayer := isHavePlayer b 0 LEFT_MAX_POS,
              isRightHavePlayer := isHavePlayer b LEFT_MAX_POS MAX_POS\<rparr>))"

definition updateBattleResult :: "battle \<Rightarrow> battle" where
  "updateBattleResult b =
     (let i = getActivePlayerNum b 0 (getLeftPosNum b) (isLeftHavePlayer b);
          k = getActivePlayerNum b LEFT_MAX_POS MAX_POS (isRightHavePlayer b)
      in b\<lparr>result := (if 0 \<ge> i \<and> 0 \<ge> k then RESULT_BOTH_LOSE
                      else if 0 \<ge> i then RESULT_RIGHT_WIN
                      else if 0 \<ge> k then RESULT_LEFT_WIN
                      else if round b \<ge> MAX_ROUND then RESULT_ROUND_OVER
                      else RESULT_NONE)\<rparr>)"

definition isBattleFinish :: "battle \<Rightarrow> bool" where
  "isBattleFinish b = (result b \<noteq> RESULT_NONE)"

definition setWaitStatus :: "int \<Rightarrow> battle \<Rightarrow> battle" where
  "setWaitStatus e b = b\<lparr>waitStatus := jor (waitStatus b) (jshl 1 e)\<rparr>"

definition clearWaitStatus :: "int \<Rightarrow> battle \<Rightarrow> battle" where
  "clearWaitStatus e b = b\<lparr>waitStatus := jand (waitStatus b) (jnot (jshl 1 e))\<rparr>"

definition isWaitStatus :: "battle \<Rightarrow> int \<Rightarrow> bool" where
  "isWaitStatus b e = (0 \<noteq> jand (waitStatus b) (jshl 1 e))"

section \<open>Plans and guards\<close>

definition setPlan :: "int \<Rightarrow> plan \<Rightarrow> battle \<Rightarrow> battle" where
  "setPlan e t b =
     (if 0 > e \<or> e \<ge> int (length (playerPlanData b)) then b
      else b\<lparr>playerPlanData := jset (playerPlanData b) e (Some t)\<rparr>)"

definition getPlanData :: "battle \<Rightarrow> int \<Rightarrow> plan option" where
  "getPlanData b e = jget (playerPlanData b) e"

definition clearPlan :: "int \<Rightarrow> battle \<Rightarrow> battle" where
  "clearPlan e b =
     (if 0 > e \<or> e \<ge> int (length (playerPlanData b)) then b
      else b\<lparr>playerPlanData := jset (playerPlanData b) e None\<rparr>)"

definition clearAllPlan :: "battle \<Rightarrow> battle" where
  "clearAllPlan b = b\<lparr>playerPlanData := map (\<lambda>_. None) (playerPlanData b)\<rparr>"

definition addGuardData :: "int \<Rightarrow> int \<Rightarrow> int \<Rightarrow> int \<Rightarrow> battle \<Rightarrow> battle" where
  "addGuardData e t i k b =
     (if 0 > e \<or> e \<ge> MAX_POS then b
      else b\<lparr>guardHash := (guardHash b)(setKeyXY e t := Some (setKeyXY i k))\<rparr>)"

definition setSkillGuardData :: "skill \<Rightarrow> int \<Rightarrow> int list \<Rightarrow> battle \<Rightarrow> battle" where
  "setSkillGuardData e t i b =
     (let p = pow1 e; n = powValue1 e
      in if p < POWER_GUARD_STR_ATTACK \<or> p > POWER_GUARD_ALL_ATTACK then b
         else if 0 \<ge> n then b
         else fold (\<lambda>r. addGuardData r p t n) i b)"

definition guardPower :: "int \<Rightarrow> int option" where
  "guardPower t =
     (if t = ATKTYPE_STR \<or> t = ATKTYPE_RANGE_STR then Some POWER_GUARD_STR_ATTACK
      else if t = ATKTYPE_AGI \<or> t = ATKTYPE_RANGE_AGI then Some POWER_GUARD_AGI_ATTACK
      else if t = ATKTYPE_MAGIC then Some POWER_GUARD_MAGIC_ATTACK
      else if t = ATKTYPE_CURSE then Some POWER_GUARD_CURSE_ATTACK
      else None)"

section \<open>Random numbers\<close>

definition nextDraw :: "int act" where
  "nextDraw = State (\<lambda>b. (draws b (drawn b), b\<lparr>drawn := Suc (drawn b)\<rparr>))"

definition randInt :: "int \<Rightarrow> int act" where
  "randInt e = do { t \<leftarrow> nextDraw; upd (\<lambda>b. b\<lparr>randCnt := randCnt b + 1\<rparr>); ret (jrem \<bar>t\<bar> e) }"

text \<open>The remainder by 0, which the range from \<open>e\<close> to \<open>e - 1\<close> asks for, is not a
  number: \<open>None\<close>.\<close>

definition randRange :: "int \<Rightarrow> int \<Rightarrow> int option act" where
  "randRange e t =
     (if e = t then ret (Some e)
      else do { i \<leftarrow> randInt (t - e + 1); ret (if t - e + 1 = 0 then None else Some (e + i)) })"

definition getGuardPos :: "int \<Rightarrow> int \<Rightarrow> int act" where
  "getGuardPos e t = do {
     g \<leftarrow> ask guardHash;
     (if 0 > e \<or> e \<ge> MAX_POS then ret (- 1)
      else if t = ATKTYPE_BLESS then ret (- 1)
      else (let n = g (setKeyXY e POWER_GUARD_ALL_ATTACK);
                r = (case guardPower t of None \<Rightarrow> None | Some p \<Rightarrow> g (setKeyXY e p))
            in if n = None \<and> r = None then ret (- 1)
               else (let k = (case n of None \<Rightarrow> 0 | Some v \<Rightarrow> v);
                         a = (case r of None \<Rightarrow> 0 | Some v \<Rightarrow> v);
                         s = getXKey k; l = getYKey k; u = getXKey a; v = getYKey a;
                         (v, u) = (if l > v then (l, s) else (v, u))
                     in if v > 0 then do { x \<leftarrow> randInt 100; ret (if x < v then u else - 1) }
                        else ret (- 1)))) }"

section \<open>Choice of targets\<close>

definition searchSide :: "battle \<Rightarrow> int \<Rightarrow> bool \<Rightarrow> int \<times> int" where
  "searchSide b pos enemy =
     (if (if enemy then isLeftSide pos else \<not> isLeftSide pos)
      then (LEFT_MAX_POS, MAX_POS) else (0, getLeftPosNum b))"

text \<open>The positions that the characters in a range of slots report.\<close>

definition candidates :: "battle \<Rightarrow> (fighter \<Rightarrow> bool) \<Rightarrow> int \<Rightarrow> int \<Rightarrow> int list" where
  "candidates b ok n a =
     List.map_filter (\<lambda>u. case getPlayerByPos b u of None \<Rightarrow> None
                          | Some f \<Rightarrow> if ok f then Some (position f) else None) [n..a - 1]"

definition pickRandom :: "int list \<Rightarrow> int \<Rightarrow> int act" where
  "pickRandom r n =
     (if r = [] then ret n
      else if length r = 1 then ret (hd r)
      else do { c \<leftarrow> randRange 0 (int (length r) - 1);
                ret (case c of None \<Rightarrow> n
                     | Some c \<Rightarrow> if isArrayIndexOutOfBounds c (Some r) then n else r ! nat c) })"

definition selectRandTarget :: "int \<Rightarrow> bool \<Rightarrow> int act" where
  "selectRandTarget p enemy = do {
     b \<leftarrow> ask id;
     (let (n, a) = searchSide b (position (slotFighter b p)) enemy
      in pickRandom (candidates b (\<lambda>f. isValidBattlePlayer (Some f)) n a) n) }"

definition selectRandActivePlayer :: "int \<Rightarrow> int act" where
  "selectRandActivePlayer p = do {
     b \<leftarrow> ask id;
     pickRandom (candidates b (\<lambda>f. isValidBattlePlayer (Some f) \<and> position f \<noteq> position (slotFighter b p))
                   0 MAX_POS) 0 }"

definition selectRandDeadFriend :: "int \<Rightarrow> int act" where
  "selectRandDeadFriend p = do {
     b \<leftarrow> ask id;
     (let (n, a) = searchSide b (position (slotFighter b p)) False
      in pickRandom (candidates b (\<lambda>f. \<not> isBattleStatus f BSTATUS_ESCAPE \<and> isDead f) n a) n) }"

definition aiValue :: "int \<Rightarrow> fighter \<Rightarrow> int" where
  "aiValue n p =
     (if n = AI_HATE_MIN \<or> n = AI_HATE_MAX then fget p ARGO
      else if n \<in> set [AI_HP_MIN_ENEMY, AI_HP_MAX_ENEMY, AI_HP_MIN_FRIEND, AI_HP_MAX_FRIEND] then fget p HP
      else if n \<in> set [AI_SPEED_MIN_ENEMY, AI_SPEED_MAX_ENEMY, AI_SPEED_MIN_FRIEND, AI_SPEED_MAX_FRIEND]
      then fget p SPEED else 0)"

definition aiMin :: "int \<Rightarrow> bool" where
  "aiMin n = (n = AI_HATE_MIN \<or> n = AI_HP_MIN_ENEMY \<or> n = AI_SPEED_MIN_ENEMY
              \<or> n = AI_HP_MIN_FRIEND \<or> n = AI_SPEED_MIN_FRIEND)"

definition aiMax :: "int \<Rightarrow> bool" where
  "aiMax n = (n = AI_HATE_MAX \<or> n = AI_HP_MAX_ENEMY \<or> n = AI_SPEED_MAX_ENEMY
              \<or> n = AI_HP_MAX_FRIEND \<or> n = AI_SPEED_MAX_FRIEND)"

text \<open>One step of the search: \<open>u\<close> is the best value so far (-1 when there is none)
  and \<open>t\<close> its slot.\<close>

definition valueStep :: "int \<Rightarrow> int \<Rightarrow> int \<Rightarrow> int \<times> int \<Rightarrow> int \<times> int" where
  "valueStep n c h ut =
     (let (u, t) = ut;
          (u, t) = (if u = - 1 then (h, c) else (u, t));
          (u, t) = (if aiMin n \<and> u > h then (h, c) else (u, t))
      in if aiMax n \<and> h > u then (h, c) else (u, t))"

definition selectValueTarget :: "battle \<Rightarrow> int \<Rightarrow> int \<Rightarrow> bool \<Rightarrow> int" where
  "selectValueTarget b pos n enemy =
     (let (s, l) = searchSide b pos enemy
      in snd (fold (\<lambda>c ut. case getPlayerByPos b c of None \<Rightarrow> ut
                           | Some p \<Rightarrow> if isValidBattlePlayer (Some p) then valueStep n c (aiValue n p) ut else ut)
                [s..l - 1] (- 1, - 1)))"

end
