(* ===== verification/Powers.thy ===== *)
theory Powers
  imports Battle
begin

text \<open>
  \<open>FightTool.processBattlePower\<close>: the effect of one power of a skill or an item on
  a character, with the resistances that can prevent it and the buffer it leaves.
  Most powers add a number or a percentage to one attribute; \<open>powerAttr\<close> is that
  part of the \<open>switch\<close> of the source.
\<close>

section \<open>The table of powers\<close>

definition powerAttr :: "int \<Rightarrow> (int \<times> bool) option" where
  "powerAttr c =
     (if c = POWER_SPEED then Some (SPEED, False)
      else if c = POWER_SPEED_PERCENT then Some (SPEED, True)
      else if c = POWER_ATK_STR then Some (ATK_STR, False)
      else if c = POWER_ATK_STR_PERCENT then Some (ATK_STR, True)
      else if c = POWER_ATK_AGI then Some (ATK_AGI, False)
      else if c = POWER_ATK_AGI_PERCENT then Some (ATK_AGI, True)
      else if c = POWER_ATK_MAGIC then Some (ATK_MAGIC, False)
      else if c = POWER_ATK_MAGIC_PERCENT then Some (ATK_MAGIC, True)
      else if c = POWER_DEF_STR then Some (DEF_STR, False)
      else if c = POWER_DEF_STR_PERCENT then Some (DEF_STR, True)
      else if c = POWER_DEF_AGI then Some (DEF_AGI, False)
      else if c = POWER_DEF_AGI_PERCENT then Some (DEF_AGI, True)
      else if c = POWER_DEF_MAGIC then Some (DEF_MAGIC, False)
      else if c = POWER_DEF_MAGIC_PERCENT then Some (DEF_MAGIC, True)
      else if c = POWER_CRITICAL then Some (CRITICAL, False)
      else if c = POWER_CRITICAL_PERCENT then Some (CRITICAL, True)
      else if c = POWER_MAGIC_HITRATE then Some (HIT_MAGIC, False)
      else if c = POWER_MAGIC_HITRATE_PERCENT then Some (HIT_MAGIC, True)
      else if c = POWER_HITRATE then Some (HIT_RATE, False)
      else if c = POWER_HITRATE_PERCENT then Some (HIT_RATE, True)
      else if c = POWER_HIT_FORCE then Some (FORCE_HIT, False)
      else if c = POWER_HIT_FORCE_PERCENT then Some (FORCE_HIT, True)
      else if c = POWER_DODGE then Some (DODGE, False)
      else if c = POWER_DODGE_PERCENT then Some (DODGE, True)
      else if c = POWER_WIL then Some (WIL, False)
      else if c = POWER_WIL_PERCENT then Some (WIL, True)
      else if c = POWER_TOUGH then Some (TOUGH, False)
      else if c = POWER_TOUGH_PERCENT then Some (TOUGH, True)
      else if c = POWER_PENETRATION then Some (BRK_ARMOR, False)
      else if c = POWER_PENETRATION_PERCENT then Some (BRK_ARMOR, True)
      else if c = POWER_MAGIC_PENETRATION then Some (MAGIC_PENETRATION, False)
      else if c = POWER_MAGIC_PENETRATION_PERCENT then Some (MAGIC_PENETRATION, True)
      else if c = POWER_BLOCK then Some (BLOCK, False)
      else if c = POWER_BLOCK_PERCENT then Some (BLOCK, True)
      else if c = POWER_DEF_FIELD then Some (DEF_FIELD, False)
      else if c = POWER_DEF_FIELD_PERCENT then Some (DEF_FIELD, True)
      else if c = POWER_INSIGHT then Some (INSIGHT, False)
      else if c = POWER_INSIGHT_PERCENT then Some (INSIGHT, True)
      else if c = POWER_BACK then Some (BACK, False)
      else if c = POWER_BACK_PERCENT then Some (BACK, True)
      else if c = POWER_MAGIC_BACK then Some (MAGIC_BACK, False)
      else if c = POWER_MAGIC_BACK_PERCENT then Some (MAGIC_BACK, True)
      else if c = POWER_LIFE_ABSORPTION then Some (LIFE_ABSORPTION, False)
      else if c = POWER_LIFE_ABSORPTION_PERCENT then Some (LIFE_ABSORPTION, True)
      else if c = POWER_MANA_ABSORPTION then Some (MANA_ABSORPTION, False)
      else if c = POWER_MANA_ABSORPTION_PERCENT then Some (MANA_ABSORPTION, True)
      else if c = POWER_HEAL_RECOVERY then Some (HEAL_RECOVERY, False)
      else if c = POWER_HEAL_RECOVERY_PERCENT then Some (HEAL_RECOVERY, True)
      else if c = POWER_MANA_RECOVERY then Some (MANA_RECOVERY, False)
      else if c = POWER_MANA_RECOVERY_PERCENT then Some (MANA_RECOVERY, True)
      else None)"

text \<open>The powers on the number of hits act only with the weapon they are for.\<close>

definition atkTimePower :: "int \<Rightarrow> int \<Rightarrow> bool option" where
  "atkTimePower c w =
     (if c = POWER_SWORD_ATK_TIME then Some (w = ITEM_TYPE_WEAPON_ONEHAND_SWORD \<or> w = ITEM_TYPE_WEAPON_TWOHAND_SWORD)
      else if c = POWER_BLADE_ATK_TIME then Some (w = ITEM_TYPE_WEAPON_ONEHAND_BLADE \<or> w = ITEM_TYPE_WEAPON_TWOHAND_BLADE)
      else if c = POWER_HEAVY_ATK_TIME then Some (w = ITEM_TYPE_WEAPON_ONEHAND_HEAVY \<or> w = ITEM_TYPE_WEAPON_TWOHAND_HEAVY)
      else if c = POWER_LANCE_ATK_TIME then Some (w = ITEM_TYPE_WEAPON_TWOHAND_LANCE)
      else if c = POWER_STAFF_ATK_TIME then Some (w = ITEM_TYPE_WEAPON_TWOHAND_STAFF)
      else if c = POWER_BALL_ATK_TIME then Some (w = ITEM_TYPE_WEAPON_BALL)
      else if c = POWER_GUN_ATK_TIME then Some (w = ITEM_TYPE_WEAPON_ONEHAND_GUN \<or> w = ITEM_TYPE_WEAPON_TWOHAND_GUN)
      else if c = POWER_HAMMER_ATK_TIME then
        Some (w = ITEM_TYPE_WEAPON_ONEHAND_HAMMER \<or> w = ITEM_TYPE_WEAPON_TWOHAND_HAMMER)
      else if c = POWER_FAN_ATK_TIME then Some (w = ITEM_TYPE_WEAPON_TWOHAND_FAN)
      else if c = POWER_HAND_ATK_TIME then Some (w = BACK_ERROR_NULL_HAND)
      else if c = POWER_BOW_ATK_TIME then
        Some (w = ITEM_TYPE_WEAPON_ONEHAND_CROSSBOW \<or> w = ITEM_TYPE_WEAPON_TWOHAND_CROSSBOW \<or> w = ITEM_TYPE_WEAPON_TWOHAND_BOW)
      else if c = POWER_HAND_ITEM_ATK_TIME then Some (w = ITEM_TYPE_WEAPON_ONEHAND_HAND)
      else if c = POWER_ALL_ATK_TIME then Some True
      else None)"

section \<open>Effect on one character\<close>

text \<open>A power either ends the call (\<open>Stop\<close>) or goes on to leave a buffer on the
  attribute \<open>g\<close> (-1 for none) with the value \<open>S\<close>.\<close>

datatype outcome = Stop | Go int int

text \<open>\<open>touch\<close> is what the caster's \<open>IGNORE_TOUCH\<close> takes off, 0 without a caster or
  for a character that acts on itself; the last component of a result are the
  effects that the battle itself records.\<close>

type_synonym power_result = "outcome \<times> fighter \<times> effect list \<times> effect list"

definition processBattleKeepOutPower :: "int \<Rightarrow> fighter \<Rightarrow> bool \<times> fighter \<times> effect list" where
  "processBattleKeepOutPower t e =
     (let t = toInt32 t
      in if t \<ge> 0 then (False, e, [])
         else if bonus e KeepoutAtkTime \<le> 0 then (False, e, [])
         else (let k = (if \<not> isTabStatus e TAG_IS_KEEP_OUT then jor EFFECT_HIT EFFECT_KEEPOUT else EFFECT_HIT)
               in (True, setTabStatus True TAG_IS_KEEP_OUT e,
                   [createBattleTargetEffect (position e) 0 k 0 False])))"

definition addBufferBySpecial :: "int \<Rightarrow> int \<Rightarrow> int \<Rightarrow> int \<Rightarrow> int \<Rightarrow> int option \<Rightarrow> fighter \<Rightarrow> fighter" where
  "addBufferBySpecial e t i a u l r =
     (if a = BUFFER_DIE_CANNOT_RELIVE \<and> e > 0 \<and> t \<ge> 0
      then addBuffer (buffer_alloc t (toInt32 i) a (e - 1) u (toInt32 (readAddValue r)) l) r
      else r)"

definition halveIf :: "bool \<Rightarrow> int \<Rightarrow> int" where
  "halveIf q S = (if S > 0 \<and> q then jdiv S 2 else toInt32 S)"

definition percentOf :: "int \<Rightarrow> int \<Rightarrow> int" where
  "percentOf p m = toInt32 (if jrem m 100 = 0 then p * jdiv m 100 else jdiv (p * m) 100)"

text \<open>The end of the life and mana cases: the change itself, and for life the check
  for a revival.\<close>

definition changeHpMp :: "int \<Rightarrow> int \<Rightarrow> int \<Rightarrow> int \<Rightarrow> int \<Rightarrow> int option \<Rightarrow> effect list \<Rightarrow> fighter \<Rightarrow> power_result" where
  "changeHpMp g S f T E u es e =
     (let (ok, e, y) = processBattleHpMpPower g S E False e
      in if \<not> ok then (Stop, addBufferBySpecial T g S f E u e, es, [])
         else if g = HP then (let (e, cs) = checkDie1HpOf e in (Go g S, e, es @ y, cs))
         else (Go g S, e, es @ y, []))"

definition applyPowerHp :: "bool \<Rightarrow> int \<Rightarrow> int \<Rightarrow> int \<Rightarrow> int \<Rightarrow> int option \<Rightarrow> fighter \<Rightarrow> power_result" where
  "applyPowerHp atOther p f T E u e =
     (let (kept, e, y) = (if atOther then processBattleKeepOutPower (toInt32 p) e else (False, e, []));
          S = (if atOther then toInt32 p else p)
      in if kept then (Go HP S, e, y, [])
         else changeHpMp HP (halveIf (hasState e BUFFER_BURN) S) f T E u y e)"

text \<open>Toughness takes its thousandths off a loss of life.\<close>

definition touchLoss :: "int \<Rightarrow> int \<Rightarrow> int" where
  "touchLoss R S =
     (if 0 > S then
        (let R = (if R > MAX_RATE_TOUCH then MAX_RATE_TOUCH else R)
         in if R > 0 then
              (let k = (if jrem \<bar>S\<bar> 1000 = 0 then toInt32 (jdiv S 1000 * R) else jdiv (S * R) 1000);
                   S = S - k
               in if S > 0 then 0 else S)
            else S)
      else S)"

definition applyPowerHpPercent ::
  "bool \<Rightarrow> int \<Rightarrow> int \<Rightarrow> int \<Rightarrow> int \<Rightarrow> int \<Rightarrow> int option \<Rightarrow> fighter \<Rightarrow> power_result" where
  "applyPowerHpPercent atOther touch p f T E u e =
     (let m = fget e HPMAX;
          S = percentOf p m;
          (kept, e, y) = (if atOther then processBattleKeepOutPower S e else (False, e, []));
          P = fget e NEW_REFLECTION;
          S' = S + toInt32 (if jrem m 100 = 0 then P * jdiv m 100 else jdiv (P * m) 100)
      in if kept \<and> P = 0 then (Go HP S, e, y, [])
         else if kept \<and> S' \<ge> 0 then (Stop, e, y, [])
         else (let S = (if kept then S' else S)
               in changeHpMp HP (halveIf (hasState e BUFFER_BURN) (touchLoss (calTouch e - touch) S)) f T E u y e))"

definition applyPowerMp :: "int \<Rightarrow> int \<Rightarrow> int \<Rightarrow> int \<Rightarrow> int option \<Rightarrow> fighter \<Rightarrow> power_result" where
  "applyPowerMp p f T E u e =
     changeHpMp MP (halveIf (hasState e BUFFER_POISON) p) f T E u [] e"

definition applyPowerMpPercent :: "int \<Rightarrow> int \<Rightarrow> int \<Rightarrow> int \<Rightarrow> int option \<Rightarrow> fighter \<Rightarrow> power_result" where
  "applyPowerMpPercent p f T E u e =
     changeHpMp MP (halveIf (hasState e BUFFER_POISON) (jdiv (p * fget e MPMAX) 100)) f T E u [] e"

definition applyReborn :: "int \<Rightarrow> int \<Rightarrow> int \<Rightarrow> fighter \<Rightarrow> power_result" where
  "applyReborn M N E e =
     (let (ok, e, y) = processBattleReborn M N E e in (if ok then Go (- 1) 0 else Stop, e, y, []))"

definition applyKeepout :: "int \<Rightarrow> fighter \<Rightarrow> power_result" where
  "applyKeepout p e =
     (let v = bonus e KeepoutAtkTime;
          S = (if 0 > p \<and> 0 \<ge> v + p \<and> isTabStatus e TAG_IS_KEEP_OUT then p + 1 else p)
      in (Go KEEPOUT_ATK_TIME S, addValue KEEPOUT_ATK_TIME S e, [], []))"

definition applyPower ::
  "bool \<Rightarrow> int \<Rightarrow> int \<Rightarrow> int \<Rightarrow> int \<Rightarrow> int \<Rightarrow> int \<Rightarrow> int option \<Rightarrow> fighter \<Rightarrow> power_result" where
  "applyPower atOther touch c p f T E u e =
     (case atkTimePower c (getEquipWeaponType e) of
        Some ok \<Rightarrow> if ok then (Go ATK_TIME p, addValue ATK_TIME p e, [], []) else (Stop, e, [], [])
      | None \<Rightarrow>
        (case powerAttr c of
           Some (g, percent) \<Rightarrow>
             (let S = (if percent then jdiv (p * fget e g) 100 else p) in (Go g S, addValue g S e, [], []))
         | None \<Rightarrow>
             (if c = POWER_HP then applyPowerHp atOther p f T E u e
              else if c = POWER_HP_PERCENT then applyPowerHpPercent atOther touch p f T E u e
              else if c = POWER_RECOVER then applyReborn 0 0 E e
              else if c = POWER_RECOVER_PERCENT then
                applyReborn (jdiv (p * fget e HPMAX) 100) (jdiv (p * fget e MPMAX) 100) E e
              else if c = POWER_MP then applyPowerMp p f T E u e
              else if c = POWER_MP_PERCENT then applyPowerMpPercent p f T E u e
              else if c = POWER_REMOVE_STATUS then
                (Go BUFFER_REMOVE_STATUS p, removeBufferByStatus p e, [], [])
              else if c = POWER_KEEPOUT_ATK_TIME then applyKeepout p e
              else (Go (- 1) 0, e, [], []))))"

text \<open>The buffer that a power with a duration \<open>T\<close> leaves; \<open>v\<close> is the number of kept
  attacks before the power.  The log line before \<open>addBuffer\<close> asks the caster for
  its name, which raises a \<open>TypeError\<close> for a power without a caster: the first
  component of the result.\<close>

definition leaveBuffer ::
  "int \<Rightarrow> int \<Rightarrow> int \<Rightarrow> int \<Rightarrow> int \<Rightarrow> int \<Rightarrow> int option \<Rightarrow> int \<Rightarrow> fighter \<Rightarrow> bool \<times> fighter" where
  "leaveBuffer c g S f T E u v e =
     (if T > 0 \<and> g \<ge> 0 then
        (if S = 0 \<and> f = BUFFER_NONE then (False, e)
         else if u = None then (True, e)
         else (let L = (if c = POWER_KEEPOUT_ATK_TIME \<and> 0 > S \<and> isTabStatus e TAG_IS_KEEP_OUT
                        then bonus e KeepoutAtkTime - (v - 1) else readAddValue e)
               in (False, addBuffer (buffer_alloc g (toInt32 S) f (T - 1) E (toInt32 L) u) e)))
      else (False, e))"

definition powerOnFighter ::
  "bool \<Rightarrow> int \<Rightarrow> int \<Rightarrow> int \<Rightarrow> int \<Rightarrow> int \<Rightarrow> int \<Rightarrow> int option \<Rightarrow> fighter
     \<Rightarrow> (bool \<times> effect list \<times> effect list) \<times> fighter" where
  "powerOnFighter atOther touch c p f T E u e =
     (let v = bonus e KeepoutAtkTime
      in case applyPower atOther touch c p f T E u e of
           (Stop, e, y, cs) \<Rightarrow> ((False, y, cs), e)
         | (Go g S, e, y, cs) \<Rightarrow> (let (raised, e) = leaveBuffer c g S f T E u v e in ((raised, y, cs), e)))"

section \<open>Resistances\<close>

text \<open>A revival state that has been used up is not given again.\<close>

definition usedUp :: "fighter \<Rightarrow> int \<Rightarrow> int" where
  "usedUp i f =
     (if f = BUFFER_RESIST_DIE_1HP \<and> isTabStatus i BUFFER_DIE_1HP_CHECK then 0
      else if f = BUFFER_RESIST_DIE_FULLHP \<and> isTabStatus i BUFFER_DIE_FULLHP_CHECK then 0
      else if f = BUFFER_RESIST_DIE_DELAY \<and> isTabStatus i BUFFER_DIE_DELAY_CHECK then 0
      else f)"

definition resistsDebuff :: "fighter \<Rightarrow> int \<Rightarrow> bool" where
  "resistsDebuff i f =
     (hasState i BUFFER_RESIST_DEBUFF
      \<or> f = BUFFER_STUN \<and> hasState i BUFFER_RESIST_STUN
      \<or> f = BUFFER_SILENCE \<and> hasState i BUFFER_RESIST_SILENCE
      \<or> f = BUFFER_CHAO \<and> hasState i BUFFER_RESIST_CHAO
      \<or> f = BUFFER_BLOCK_TALK \<and> hasState i BUFFER_RESIST_TALK
      \<or> f = BUFFER_BLOCK_SKILL \<and> hasState i BUFFER_RESIST_SKILL
      \<or> f = BUFFER_WEAK \<and> hasState i BUFFER_RESIST_WEAK)"

text \<open>\<open>ignoreOf\<close> is an attribute of the caster when it is another character.\<close>

definition ignoreOf :: "battle \<Rightarrow> int \<Rightarrow> int option \<Rightarrow> int \<Rightarrow> int" where
  "ignoreOf b p u attr =
     (case u of None \<Rightarrow> 0 | Some q \<Rightarrow> if p \<noteq> q then fget (slotFighter b q) attr else 0)"

definition isWilSuccess :: "int \<Rightarrow> int option \<Rightarrow> skill option \<Rightarrow> bool act" where
  "isWilSuccess p u s = do {
     k \<leftarrow> ask (\<lambda>b. fget (slotFighter b p) WIL
                   - (case s of None \<Rightarrow> 0 | Some s \<Rightarrow> skill_getPowerValue s POWER_SKILL_TARGET_WIL)
                   - ignoreOf b p u IGNORE_WIL);
     (if 0 \<ge> k then ret False
      else do { n \<leftarrow> randInt 1000; ret ((if k > MAX_RATE_WIL then MAX_RATE_WIL else k) > n) }) }"

definition isResisted :: "int \<Rightarrow> int option \<Rightarrow> skill option \<Rightarrow> int \<Rightarrow> bool act" where
  "isResisted p u s f = do {
     i \<leftarrow> look p id;
     (if f = BUFFER_NONE then ret False
      else if f \<noteq> BUFFER_TYPE_BUFF \<and> f \<noteq> BUFFER_TYPE_DEBUFF \<and> hasState i BUFFER_INVINCIBLE then ret True
      else if getBufferType f False \<noteq> BUFFER_TYPE_DEBUFF then ret False
      else if resistsDebuff i f then ret True
      else do { w \<leftarrow> isWilSuccess p u s;
                ret (w \<or> f = BUFFER_SNEER \<and> hasState i BUFFER_RESIST_SNEER) }) }"

definition addAniControl :: "control \<Rightarrow> unit act" where
  "addAniControl c = upd (\<lambda>b. b\<lparr>resultControlList := resultControlList b @ [c]\<rparr>)"

definition addEffects :: "effect list \<Rightarrow> unit act" where
  "addEffects es = upd (\<lambda>b. b\<lparr>resultControlList := resultControlList b @ map EffectControl es\<rparr>)"

definition checkDie1Hp :: "int \<Rightarrow> unit act" where
  "checkDie1Hp p = do { cs \<leftarrow> runFighter p (\<lambda>e. let (e, cs) = checkDie1HpOf e in (cs, e)); addEffects cs }"

definition processBattlePower ::
  "int \<Rightarrow> int option \<Rightarrow> skill option \<Rightarrow> int \<Rightarrow> int \<Rightarrow> int \<Rightarrow> int \<Rightarrow> int \<Rightarrow> effect list act" where
  "processBattlePower p u s c v f T E =
     (if 0 \<ge> c then ret []
      else do {
        f \<leftarrow> look p (\<lambda>i. usedUp i f);
        r \<leftarrow> isResisted p u s f;
        (if r then ret []
         else do {
           touch \<leftarrow> ask (\<lambda>b. ignoreOf b p u IGNORE_TOUCH);
           (raised, y, cs) \<leftarrow> runFighter p
              (powerOnFighter (case s of None \<Rightarrow> False | Some s \<Rightarrow> area s \<noteq> SKILL_AREA_MY_SELF) touch c v f T E u);
           addEffects cs;
           (if raised then typeError else ret ());
           ret y }) })"

end
