(* ===== verification/Round.thy ===== *)
theory Round
  imports Powers
begin

text \<open>
  The actions of the characters and the course of a round (class \<open>Battle\<close>):
  attacks, skills, items, escape, the behaviour of pets and monsters, and
  \<open>logicRound\<close>, which runs a whole round.
\<close>

section \<open>Merging effects\<close>

definition isEffectStatus :: "int \<Rightarrow> int \<Rightarrow> bool" where
  "isEffectStatus e t = (0 \<noteq> jand e t)"

text \<open>Whether the effect \<open>s\<close> is merged into \<open>k\<close>; \<open>n\<close> and \<open>a\<close> are the bits and the
  animation of \<open>k\<close> before any merge.\<close>

definition mergeable :: "bool \<Rightarrow> int \<Rightarrow> int \<Rightarrow> effect \<Rightarrow> effect \<Rightarrow> bool" where
  "mergeable t n a k s =
     (let l = effValue k; u = effCounter s; v = effValue s; d = effAnime s
      in a = d
         \<and> \<not> (t \<and> isEffectStatus u EFFECT_REBORN
              \<or> isEffectStatus n EFFECT_MP_CHANGE \<noteq> isEffectStatus u EFFECT_MP_CHANGE
              \<or> 0 > l \<and> v \<ge> 0 \<or> l \<ge> 0 \<and> 0 > v)
         \<and> (let c = isEffectStatus n EFFECT_HIT; p = isEffectStatus u EFFECT_HIT
            in c = p \<and> (c \<or> isEffectStatus n EFFECT_BLOCK = isEffectStatus u EFFECT_BLOCK)))"

text \<open>The inner loop runs from the end of the list towards \<open>k\<close>.\<close>

fun mergeRest :: "bool \<Rightarrow> int \<Rightarrow> int \<Rightarrow> effect \<Rightarrow> effect list \<Rightarrow> effect \<times> effect list" where
  "mergeRest t n a k [] = (k, [])"
| "mergeRest t n a k (s # ss) =
     (let (k', ss') = mergeRest t n a k ss
      in if mergeable t n a k' s
         then (k'\<lparr>effCounter := jor (effCounter k') (effCounter s), effValue := effValue k' + effValue s\<rparr>, ss')
         else (k', s # ss'))"

lemma length_mergeRest: "length (snd (mergeRest t n a k ss)) \<le> length ss"
  by (induction ss) (auto simp: Let_def split: prod.splits)

function mergeControlList :: "bool \<Rightarrow> effect list \<Rightarrow> effect list" where
  "mergeControlList t [] = []"
| "mergeControlList t (k # ss) =
     fst (mergeRest t (effCounter k) (effAnime k) k ss)
     # mergeControlList t (snd (mergeRest t (effCounter k) (effAnime k) k ss))"
  by pat_completeness auto
termination
  by (relation "measure (length \<circ> snd)") (auto simp: less_Suc_eq_le length_mergeRest)

section \<open>Damage\<close>

definition calcDamageValue :: "int \<Rightarrow> int \<Rightarrow> skill option \<Rightarrow> int act" where
  "calcDamageValue p q s = do {
     t \<leftarrow> look p id;
     i \<leftarrow> look q id;
     h \<leftarrow> ask totalHitTime;
     (let k = getAttackType t s
      in if k = ATKTYPE_STR \<or> k = ATKTYPE_RANGE_STR \<or> k = ATKTYPE_AGI \<or> k = ATKTYPE_RANGE_AGI \<or> k = ATKTYPE_MAGIC
         then do {
           w \<leftarrow> randRange (fget t ATK_MIN) (fget t ATK_MAX);
           r \<leftarrow> randRange BATTLE_DMG_MIN BATTLE_DMG_MAX;
           (let (rd, ap) = (if k = ATKTYPE_STR \<or> k = ATKTYPE_RANGE_STR then (calcRdStr i t s, calcApStr h t s w)
                            else if k = ATKTYPE_AGI \<or> k = ATKTYPE_RANGE_AGI then (calcRdAgi i t s, calcApAgi h t s w)
                            else (calcRdMagic i t s, calcApMagic h t s w))
            in ret (scaleDamage rd ap (the r))) }
         else ret 0) }"

definition calInsight :: "int \<Rightarrow> int \<Rightarrow> skill option \<Rightarrow> (bool \<times> effect list) act" where
  "calInsight p q s = do {
     atk \<leftarrow> ask battleAtkType;
     e \<leftarrow> look p id;
     t \<leftarrow> look q id;
     (let n = (case s of None \<Rightarrow> 0 | Some s \<Rightarrow> if useMP s > 0 then useMP s else 0);
          a = calcInsightRate t e s
      in if atk \<noteq> ATKTYPE_MAGIC \<and> atk \<noteq> ATKTYPE_CURSE then ret (False, [])
         else if fget t MP < n then ret (False, [])
         else if 0 \<ge> a then ret (False, [])
         else do {
           r \<leftarrow> randInt 100;
           (if a > r then do {
              onFighter q (addValue MP (- n));
              d \<leftarrow> look q (\<lambda>t. if isDeadNoWithDelay t then EFFECT_DIE else 0);
              ps \<leftarrow> look q position;
              ret (True, [createBattleTargetEffect ps 0 d 0 False]) }
            else ret (False, [])) }) }"

definition calBackValue :: "int \<Rightarrow> int \<Rightarrow> skill option \<Rightarrow> int \<Rightarrow> int act" where
  "calBackValue p q s dmg = do {
     n \<leftarrow> ask battleAtkType;
     e \<leftarrow> look p id;
     t \<leftarrow> look q id;
     (let a = (if n = ATKTYPE_MAGIC then
                 (if hasState e BUFFER_RESIST_MAGIC then 0 else calcMagicBack t e s)
               else if isPhysicalAtkType n then
                 (if hasState e BUFFER_RESIST_PHYSIC then 0 else calcBack t e s)
               else 0)
      in if hasState t BUFFER_STUN \<or> hasState e BUFFER_INVINCIBLE then ret 0
         else if 0 \<ge> a then ret 0
         else do { r \<leftarrow> randInt 100; ret (if a > r then jdiv (dmg * a) 100 else 0) }) }"

definition calDefFieldDmg :: "int \<Rightarrow> int \<Rightarrow> int act" where
  "calDefFieldDmg q t = do {
     e \<leftarrow> look q id;
     (let i = fget e DEF_FIELD; n = fget e MP
      in if t = 0 then ret t
         else if 0 \<ge> i then ret t
         else if 0 \<ge> n then ret t
         else (let n = (if n > i then i else n); a = min t n
               in do { onFighter q (\<lambda>e. addValue DEF_FIELD (- a) (addValue MP (- a) e)); ret (t - a) })) }"

text \<open>The result of one hit: the array of the source with the entries value, effect,
  counter damage and the life and mana that the attacker gets.\<close>

record dmg =
  dmgValue :: int
  dmgEffect :: int
  dmgBack :: int
  dmgHpGet :: int
  dmgMpGet :: int

definition calcDirectDamage :: "int \<Rightarrow> int \<Rightarrow> skill option \<Rightarrow> int \<Rightarrow> dmg act" where
  "calcDirectDamage p q s num = do {
     r \<leftarrow> ask (\<lambda>b. calcHitrate (slotFighter b p) (slotFighter b q) s);
     a \<leftarrow> randInt 100;
     l \<leftarrow> calcDamageValue p q s;
     u \<leftarrow> look q (\<lambda>t. (if hasState t BUFFER_WEAK then 20 else 0) + (if hasState t BUFFER_BLOOD then 10 else 0));
     cri \<leftarrow> ask (\<lambda>b. calcCriRate (slotFighter b p) (slotFighter b q) s);
     c \<leftarrow> randInt 100;
     blk \<leftarrow> ask block;
     (let hit = r > a;
          l = (if u > 0 then l + jdiv (l * u) 100 else l);
          crit = cri > c;
          l = (if crit then jdiv (15 * l) 10 else l);
          eff = (if crit then EFFECT_CRITICAL else 0)
      in do {
        (hit, eff) \<leftarrow>
          (if hit \<and> blk > 0 then do { x \<leftarrow> randInt 100; ret (\<not> x < blk, jor eff EFFECT_BLOCK) }
           else ret (hit, eff));
        (if \<not> hit then ret \<lparr>dmgValue = l, dmgEffect = eff, dmgBack = 0, dmgHpGet = 0, dmgMpGet = 0\<rparr>
         else do {
           kept \<leftarrow> look q (\<lambda>t. l > 0 \<and> bonus t KeepoutAtkTime > 0);
           first \<leftarrow> look q (\<lambda>t. \<not> isTabStatus t TAG_IS_KEEP_OUT);
           (if kept then onFighter q (setTabStatus True TAG_IS_KEEP_OUT) else ret ());
           (let eff = (if kept \<and> first then jor eff EFFECT_KEEPOUT else eff); l = (if kept then 0 else l)
            in do {
              bk \<leftarrow> calBackValue p q s l;
              l1 \<leftarrow> ask (\<lambda>b. calTouchDmg (slotFighter b q) (slotFighter b p) (p \<noteq> q) s l);
              l2 \<leftarrow> calDefFieldDmg q l1;
              (let eff = (if l \<noteq> l1 then jor eff EFFECT_TOUCH else eff);
                   eff = (if l1 \<noteq> l2 then jor eff EFFECT_DEF_FIELD else eff)
               in do {
                 hg \<leftarrow> look p (\<lambda>e. calHPMPGetValue e s l2 True num);
                 mg \<leftarrow> look p (\<lambda>e. calHPMPGetValue e s l2 False num);
                 ret \<lparr>dmgValue = l2, dmgEffect = jor eff EFFECT_HIT, dmgBack = bk, dmgHpGet = hg, dmgMpGet = mg\<rparr> }) }) }) }) }"

text \<open>\<open>delDamageEffect\<close> applies a hit; the two results are the effects on the target
  and on the attacker.\<close>

definition delDamageEffect :: "dmg \<Rightarrow> int \<Rightarrow> int \<Rightarrow> (effect list \<times> effect list) act" where
  "delDamageEffect d p q =
     (let l = isEffectStatus (dmgEffect d) EFFECT_HIT; u = - dmgValue d
      in do {
        (if l then do { onFighter q (addValue HP u); onFighter p (addValue ARGO (- u)) } else ret ());
        i \<leftarrow> look q id;
        (let x = createBattleTargetEffect (position i) u
                   (if isDeadNoWithDelay i then jor (dmgEffect d) EFFECT_DIE else dmgEffect d) 0 False
         in if \<not> l then ret ([x], [])
            else do {
              pos \<leftarrow> look p position;
              (if dmgHpGet d > 0 then onFighter p (addValue HP (dmgHpGet d)) else ret ());
              (if dmgMpGet d > 0 then onFighter p (addValue MP (dmgMpGet d)) else ret ());
              (let hs = (if dmgHpGet d > 0 then [createBattleTargetEffect pos (dmgHpGet d) EFFECT_HIT 0 False] else []);
                   ms = (if dmgMpGet d > 0
                         then [createBattleTargetEffect pos (dmgMpGet d) (jor EFFECT_HIT EFFECT_MP_CHANGE) 0 False] else []);
                   bv = - dmgBack d
               in if bv = 0 then ret ([x], hs @ ms)
                  else do {
                    onFighter p (addValue HP bv);
                    onFighter q (addValue ARGO (- bv));
                    die \<leftarrow> look p isDeadNoWithDelay;
                    (if die then checkDie1Hp p else ret ());
                    ret ([x], hs @ ms @
                      [createBattleTargetEffect pos bv (if die then jor EFFECT_HIT EFFECT_DIE else EFFECT_HIT) 0 False]) }) }) })"

text \<open>The loop over the hits of an attack: \<open>m\<close> hits are left, \<open>hitOnce\<close> says that one has
  hit, \<open>c\<close> that both hands attack.\<close>

fun hitLoop ::
  "nat \<Rightarrow> int \<Rightarrow> int \<Rightarrow> skill option \<Rightarrow> int \<Rightarrow> bool \<Rightarrow> bool \<Rightarrow> effect list \<Rightarrow> effect list
     \<Rightarrow> (bool \<times> effect list \<times> effect list) act" where
  "hitLoop 0 p q s num c hitOnce v w = ret (hitOnce, v, w)"
| "hitLoop (Suc m) p q s num c hitOnce v w = do {
     u \<leftarrow> calcDirectDamage p q s num;
     (if c then upd (\<lambda>b. b\<lparr>isLeftHand := \<not> isLeftHand b\<rparr>) else ret ());
     (let hitOnce = hitOnce \<or> isEffectStatus (dmgEffect u) EFFECT_HIT
      in do {
        (if hitOnce then upd (\<lambda>b. b\<lparr>block := block b - BLOCK_HIT_REDUCE\<rparr>) else ret ());
        (v', w') \<leftarrow> delDamageEffect u p q;
        dead \<leftarrow> look q isDead;
        (if dead then do { checkDie1Hp q; ret (hitOnce, v @ v', w @ w') }
         else hitLoop m p q s num c hitOnce (v @ v') (w @ w')) }) }"

definition calDamage :: "int \<Rightarrow> int \<Rightarrow> skill option \<Rightarrow> int \<Rightarrow> (bool \<times> effect list) act" where
  "calDamage p q s num = do {
     k \<leftarrow> ask battleAtkType;
     t \<leftarrow> look q id;
     (let wide = (case s of None \<Rightarrow> False | Some s \<Rightarrow> getSkillAreaPlayerNum (area s) \<noteq> SKILL_AREA_CURSOR_1)
      in if wide \<and> k \<noteq> ATKTYPE_MAGIC \<and> k \<noteq> ATKTYPE_CURSE \<and> hasState t BUFFER_HIDE then ret (False, [])
         else if k = ATKTYPE_BLESS then do {
           (v, w) \<leftarrow> delDamageEffect \<lparr>dmgValue = 0, dmgEffect = EFFECT_HIT, dmgBack = 0, dmgHpGet = 0, dmgMpGet = 0\<rparr> p q;
           ret (True, v @ w) }
         else if hasState t BUFFER_INVINCIBLE then ret (False, [])
         else if hasState t BUFFER_RESIST_MAGIC \<and> \<not> isPhysicalAtkType k then ret (False, [])
         else if hasState t BUFFER_RESIST_PHYSIC \<and> isPhysicalAtkType k then ret (False, [])
         else do {
           (seen, es) \<leftarrow> calInsight p q s;
           (if seen then ret (False, es)
            else do {
              upd (\<lambda>b. let e = slotFighter b p;
                           h = fget e ATK_TIME + (case s of None \<Rightarrow> 0 | Some s \<Rightarrow> skill_atk_time s)
                       in b\<lparr>isLeftHand := True,
                            block := (if isPhysicalAtkType k then calcBlock (slotFighter b q) e s else 0),
                            totalHitTime := sumValue h 0 MIN_HIT_TIME MAX_HIT_TIME\<rparr>);
              lt \<leftarrow> look p (\<lambda>e. fget e LEFT_ATK_TIME);
              rt \<leftarrow> look p (\<lambda>e. fget e RIGHT_ATK_TIME);
              (if 0 \<ge> lt \<and> rt > 0 then upd (\<lambda>b. b\<lparr>isLeftHand := False\<rparr>) else ret ());
              h \<leftarrow> ask totalHitTime;
              (hit, v, w) \<leftarrow> hitLoop (nat h) p q s num (lt > 0 \<and> rt > 0) False [] [];
              (let shown = (case s of None \<Rightarrow> MAX_SHOW_HIT_2
                            | Some s \<Rightarrow> if getSkillAreaPlayerNum (area s) > SKILL_AREA_CURSOR_2
                                       then MAX_SHOW_HIT else MAX_SHOW_HIT_2);
                   v = (if int (length v) \<ge> shown then mergeControlList False v else v)
               in ret (hit, v @ mergeControlList False w)) }) }) }"

section \<open>Guards\<close>

definition isPetSucessGrard :: "fighter \<Rightarrow> fighter \<Rightarrow> int \<Rightarrow> int \<Rightarrow> bool act" where
  "isPetSucessGrard e t i k =
     (let n = getSkillPowerValue e SKILL_TYPE_PASSIVE POWER_PET_GRARD_ALL_ATTACK;
          a = getSkillPowerValue t SKILL_TYPE_PASSIVE POWER_GRARD_MASTER_ALL_ATTACK;
          r = getSkillPowerValue e SKILL_TYPE_PASSIVE i;
          n = (if r > n then r else n);
          r = getSkillPowerValue t SKILL_TYPE_PASSIVE k;
          a = (if r > a then r else a)
      in do {
        x \<leftarrow> (if n > 0 then do { x \<leftarrow> randInt 100; ret (x < n) } else ret False);
        (if x then ret True
         else if a > 0 then do { y \<leftarrow> randInt 100; ret (y < a) } else ret False) })"

definition petGuardPowers :: "int \<Rightarrow> (int \<times> int) option" where
  "petGuardPowers t =
     (if t = ATKTYPE_STR \<or> t = ATKTYPE_RANGE_STR then Some (POWER_PET_GRARD_STR_ATTACK, POWER_GRARD_MASTER_STR_ATTACK)
      else if t = ATKTYPE_AGI \<or> t = ATKTYPE_RANGE_AGI then Some (POWER_PET_GRARD_AGI_ATTACK, POWER_GRARD_MASTER_AGI_ATTACK)
      else if t = ATKTYPE_MAGIC then Some (POWER_PET_GRARD_MAGIC_ATTACK, POWER_GRARD_MASTER_MAGIC_ATTACK)
      else if t = ATKTYPE_CURSE then Some (POWER_PET_GRARD_CURSE_ATTACK, POWER_GRARD_MASTER_CURSE_ATTACK)
      else None)"

definition getGrardPet :: "int \<Rightarrow> int \<Rightarrow> bool \<Rightarrow> int option act" where
  "getGrardPet q t i = do {
     b \<leftarrow> ask id;
     (let e = slotFighter b q
      in if ftype e \<noteq> TYPE_PLAYER \<or> t = ATKTYPE_BLESS \<or> \<not> isValidBattlePlayer (Some e)
            \<or> bonus e KeepoutAtkTime > 0 \<and> i
         then ret None
         else (case getPlayerPet b (position e) of None \<Rightarrow> ret None
               | Some k \<Rightarrow>
                   (let o' = slotFighter b k
                    in if \<not> isValidBattlePlayer (Some o') \<or> hasState o' BUFFER_STUN \<or> hasState o' BUFFER_CHAO
                          \<or> hasState o' BUFFER_SNEER
                       then ret None
                       else (case petGuardPowers t of None \<Rightarrow> ret None
                             | Some (x, y) \<Rightarrow> do { g \<leftarrow> isPetSucessGrard e o' x y; ret (if g then Some k else None) })))) }"

text \<open>The character that takes a blow for the target \<open>q\<close>; \<open>costsHp\<close> says whether the
  blow costs life, so that kept attacks forbid a guard.\<close>

definition guarded :: "int \<Rightarrow> int \<Rightarrow> bool \<Rightarrow> int act" where
  "guarded q k costsHp = do {
     n \<leftarrow> getGrardPet q k costsHp;
     (case n of Some r \<Rightarrow> ret r
      | None \<Rightarrow> do {
          pos \<leftarrow> look q position;
          a \<leftarrow> getGuardPos pos k;
          kept \<leftarrow> look q (\<lambda>t. bonus t KeepoutAtkTime > 0 \<and> costsHp);
          b \<leftarrow> ask id;
          ret (if \<not> kept \<and> a \<ge> 0 \<and> isValidBattlePlayer (getPlayerByPos b a) then a else q) }) }"

section \<open>Attack\<close>

definition getAttakAnimePos :: "fighter \<Rightarrow> int" where
  "getAttakAnimePos f =
     (case monster f of
        Some m \<Rightarrow> if m_atkType m = ATKTYPE_STR \<or> m_atkType m = ATKTYPE_AGI then SKILL_POS_FRONT else SKILL_POS_STAND
      | None \<Rightarrow>
          (let e = getEquipWeaponType f
           in if e \<in> set [ITEM_TYPE_WEAPON_ONEHAND_CROSSBOW, ITEM_TYPE_WEAPON_TWOHAND_CROSSBOW,
                          ITEM_TYPE_WEAPON_TWOHAND_BOW, ITEM_TYPE_WEAPON_TWOHAND_STAFF, ITEM_TYPE_WEAPON_BALL,
                          ITEM_TYPE_WEAPON_ONEHAND_GUN, ITEM_TYPE_WEAPON_TWOHAND_GUN, ITEM_TYPE_WEAPON_TWOHAND_FAN]
              then SKILL_POS_STAND else SKILL_POS_FRONT))"

definition getAttackRangeAnime :: "fighter \<Rightarrow> int" where
  "getAttackRangeAnime f =
     (let e = getEquipWeaponType f
      in if e = ITEM_TYPE_WEAPON_ONEHAND_CROSSBOW \<or> e = ITEM_TYPE_WEAPON_TWOHAND_CROSSBOW then 1300 + 1 else 0)"

text \<open>The control of an action is recorded before the action runs and gets the effects
  of the action at its end.\<close>

definition setSubControlList :: "nat \<Rightarrow> effect list \<Rightarrow> battle \<Rightarrow> battle" where
  "setSubControlList n es b =
     b\<lparr>resultControlList :=
        (if n < length (resultControlList b)
         then (resultControlList b)[n := (case resultControlList b ! n of
                 SkillControl x1 x2 x3 x4 x5 x6 x7 _ \<Rightarrow> SkillControl x1 x2 x3 x4 x5 x6 x7 es | c \<Rightarrow> c)]
         else resultControlList b)\<rparr>"

definition clearKeepOut :: "int \<Rightarrow> unit act" where
  "clearKeepOut q = onFighter q (setTabStatus False TAG_IS_KEEP_OUT)"

definition useKeepOut :: "int \<Rightarrow> unit act" where
  "useKeepOut q = do {
     k \<leftarrow> look q (\<lambda>t. isTabStatus t TAG_IS_KEEP_OUT);
     (if k then do { onFighter q doKeepAtkTime; clearKeepOut q } else ret ()) }"

text \<open>The part of \<open>doAttack\<close> after the target \<open>q\<close> has been fixed.\<close>

definition strike :: "int \<Rightarrow> int \<Rightarrow> int \<Rightarrow> unit act" where
  "strike p q cursor = do {
     k \<leftarrow> look p (\<lambda>e. getAttackType e None);
     upd (\<lambda>b. b\<lparr>battleAtkType := k\<rparr>);
     q \<leftarrow> guarded q k True;
     n \<leftarrow> ask (\<lambda>b. length (resultControlList b));
     c \<leftarrow> look p (\<lambda>e. SkillControl (jand 255 (position e)) cursor (- 1) (getAttakAnimePos e) ANIME_TYPE_PHYSIC
            (getAttackRangeAnime e) 0 []);
     addAniControl c;
     skip \<leftarrow> look q (\<lambda>i. isBattleStatus i BSTATUS_ESCAPE \<or> isDeadNoWithDelay i);
     (if skip then ret ()
      else do {
        clearKeepOut q;
        (_, l) \<leftarrow> calDamage p q None 1;
        useKeepOut q;
        upd (setSubControlList n l) }) }"

definition doAttack :: "int \<Rightarrow> int \<Rightarrow> unit act" where
  "doAttack p t = do {
     e \<leftarrow> look p id;
     (if isDeadNoWithDelay e \<or> isBattleStatus e BSTATUS_ESCAPE \<or> hasState e BUFFER_STUN then ret ()
      else do {
        t \<leftarrow> (if hasState e BUFFER_CHAO then selectRandActivePlayer p else ret t);
        (if \<not> isBattlePos t then ret ()
         else if hasState e BUFFER_SNEER \<and> getbuffer e BUFFER_SNEER = None then typeError
         else do {
           b \<leftarrow> ask id;
           (let i = (if hasState e BUFFER_SNEER then target (the (getbuffer e BUFFER_SNEER))
                     else if getPlayerByPos b t = None then None else Some t)
            in case i of None \<Rightarrow> ret ()
               | Some q \<Rightarrow> do {
                   ok \<leftarrow> look q (\<lambda>i. \<not> isDeadNoWithDelay i \<and> \<not> isBattleStatus i BSTATUS_ESCAPE);
                   (if ok then strike p q t
                    else do {
                      t \<leftarrow> selectRandTarget p True;
                      b \<leftarrow> ask id;
                      (if getPlayerByPos b t = None then ret () else strike p t t) }) }) }) }) }"

section \<open>Skills and items\<close>

definition processSkillPower :: "int \<Rightarrow> int \<Rightarrow> skill \<Rightarrow> effect list act" where
  "processSkillPower q p s = do {
     x \<leftarrow> (if pow1 s > 0 then processBattlePower q (Some p) (Some s) (pow1 s) (powValue1 s) (statusBit1 s) (skill_round s) (anime3 s) else ret []);
     y \<leftarrow> (if pow2 s > 0 then processBattlePower q (Some p) (Some s) (pow2 s) (powValue2 s) (statusBit2 s) (skill_round s) (anime3 s) else ret []);
     z \<leftarrow> (if pow3 s > 0 then processBattlePower q (Some p) (Some s) (pow3 s) (powValue3 s) (statusBit3 s) (skill_round s) (anime3 s) else ret []);
     ret (x @ y @ z) }"

definition processItemPower :: "int \<Rightarrow> item \<Rightarrow> effect list act" where
  "processItemPower q m = do {
     x \<leftarrow> (if power1 (powers m) > 0 then processBattlePower q None None (power1 (powers m)) (powerValue1 (powers m)) 0 (item_round m) 0 else ret []);
     y \<leftarrow> (if power2 (powers m) > 0 then processBattlePower q None None (power2 (powers m)) (powerValue2 (powers m)) 0 (item_round m) 0 else ret []);
     ret (x @ y) }"

definition isExpendHp :: "skill \<Rightarrow> int \<Rightarrow> bool" where
  "isExpendHp e t =
     (if t = ATKTYPE_CURSE \<or> t = ATKTYPE_BLESS then
        (if 0 > skill_getPowerValue e POWER_HP then True
         else if 0 > skill_getPowerValue e POWER_HP_PERCENT then True else False)
      else True)"

definition hpMpPower :: "int \<Rightarrow> int \<Rightarrow> int \<Rightarrow> bool \<Rightarrow> effect list act" where
  "hpMpPower p g v self =
     runFighter p (\<lambda>e. let (_, e, y) = processBattleHpMpPower g v 0 self e in (y, e))"

text \<open>The characters in the area that a skill or item can act on.\<close>

definition canTarget :: "battle \<Rightarrow> bool \<Rightarrow> int \<Rightarrow> bool" where
  "canTarget b reborn pos =
     (case getPlayerByPos b pos of None \<Rightarrow> False
      | Some f \<Rightarrow> \<not> isBattleStatus f BSTATUS_ESCAPE \<and> (isDead f \<longrightarrow> \<not> isDeadDelay f \<and> reborn))"

fun skillLoop :: "int list \<Rightarrow> int \<Rightarrow> skill \<Rightarrow> int \<Rightarrow> bool \<Rightarrow> int \<Rightarrow> bool \<Rightarrow> effect list \<Rightarrow> (bool \<times> effect list) act" where
  "skillLoop [] p s a m num h es = ret (h, es)"
| "skillLoop (q # qs) p s a m num h es = do {
     r \<leftarrow> guarded q a m;
     clearKeepOut r;
     (hit, xs) \<leftarrow> calDamage p r (Some s) num;
     (if hit then do {
        ys \<leftarrow> processSkillPower r p s;
        useKeepOut r;
        skillLoop qs p s a m num True (es @ xs @ ys) }
      else skillLoop qs p s a m num h (es @ xs)) }"

text \<open>What a skill that has hit gives back to its user.\<close>

definition skillGain :: "int \<Rightarrow> skill \<Rightarrow> effect list act" where
  "skillGain p s = do {
     hp' \<leftarrow> look p (\<lambda>e. let v = skill_getPowerValue s POWER_SKILL_HP; v = (if 0 > v then 0 else v);
                               m = skill_getPowerValue s POWER_SKILL_HP_PERCENT
                           in if m > 0 then v + jdiv (m * fget e HPMAX) 100 else v);
     x \<leftarrow> (if hp' > 0 then hpMpPower p HP hp' False else ret []);
     mp' \<leftarrow> look p (\<lambda>e. let v = skill_getPowerValue s POWER_SKILL_MP; v = (if 0 > v then 0 else v);
                               m = skill_getPowerValue s POWER_SKILL_MP_PERCENT
                           in if m > 0 then v + jdiv (m * fget e MPMAX) 100 else v);
     y \<leftarrow> (if mp' > 0 then hpMpPower p MP mp' False else ret []);
     ret (x @ y) }"

definition removeOwnStatus :: "skill \<Rightarrow> fighter \<Rightarrow> fighter" where
  "removeOwnStatus s e =
     (if skill_type s = SKILL_TYPE_ACTIVE then
        (let e = (if pow1 s = POWER_SKILL_REMOVE_STATUS then removeBufferByStatus (powValue1 s) e else e);
             e = (if pow2 s = POWER_SKILL_REMOVE_STATUS then removeBufferByStatus (powValue2 s) e else e)
         in if pow3 s = POWER_SKILL_REMOVE_STATUS then removeBufferByStatus (powValue3 s) e else e)
      else e)"

definition castSkill :: "int \<Rightarrow> skill \<Rightarrow> int \<Rightarrow> unit act" where
  "castSkill p s cursor = do {
     pos \<leftarrow> look p position;
     n \<leftarrow> ask (\<lambda>b. getSelectArea (rowLeft b) (rowRight b) pos cursor (area s));
     (case n of None \<Rightarrow> ret ()
      | Some ns \<Rightarrow> do {
          a \<leftarrow> look p (\<lambda>e. getAttackType e (Some s));
          upd (\<lambda>b. b\<lparr>battleAtkType := a\<rparr>);
          k \<leftarrow> ask (\<lambda>b. length (resultControlList b));
          addAniControl (SkillControl (jand 255 pos) cursor (area s) (skill_position s) (anime1 s) (anime2 s) (anime3 s) []);
          x \<leftarrow> (if useMP s > 0 then hpMpPower p MP (- useMP s) True else ret []);
          y \<leftarrow> (if useHP s > 0 then hpMpPower p HP (- useHP s) True else ret []);
          upd (setSkillGuardData s pos ns);
          onFighter p (removeOwnStatus s);
          qs \<leftarrow> ask (\<lambda>b. filter (canTarget b (isRebornSkill s)) ns);
          (h, es) \<leftarrow> skillLoop qs p s a (isExpendHp s a) (int (length qs)) False (x @ y);
          gs \<leftarrow> (if h then skillGain p s else ret []);
          upd (setSubControlList k (es @ gs)) }) }"

definition attackInstead :: "int \<Rightarrow> skill \<Rightarrow> int option \<Rightarrow> unit act" where
  "attackInstead p s i =
     (if skill_type s = SKILL_TYPE_ROUND then ret ()
      else do {
        pos \<leftarrow> look p position;
        (case i of None \<Rightarrow> typeError
         | Some i \<Rightarrow> if \<not> isSameSide pos i then doAttack p i else ret ()) })"

definition doUseSkill :: "int \<Rightarrow> skill \<Rightarrow> int \<Rightarrow> unit act" where
  "doUseSkill p s i = do {
     e \<leftarrow> look p id;
     b \<leftarrow> ask id;
     (if \<not> isBattlePos i \<or> isDeadNoWithDelay e \<or> isBattleStatus e BSTATUS_ESCAPE
         \<or> skill_type s = SKILL_TYPE_PASSIVE \<or> \<not> skill_isCanUse e s \<or> hasState e BUFFER_STUN
      then ret ()
      else if hasState e BUFFER_SNEER then
        (case getbuffer e BUFFER_SNEER of None \<Rightarrow> typeError
         | Some u \<Rightarrow> attackInstead p s (map_option (\<lambda>q. position (slotFighter b q)) (target u)))
      else if hasState e BUFFER_CHAO then
        (if skill_type s = SKILL_TYPE_ROUND then ret ()
         else do { i \<leftarrow> selectRandActivePlayer p; castSkill p s i })
      else if hasState e BUFFER_SILENCE
           \<or> isPhysicalAtkType (skillAtkType s) \<and> hasState e BUFFER_BLOCK_SKILL
           \<or> \<not> isPhysicalAtkType (skillAtkType s) \<and> hasState e BUFFER_BLOCK_TALK
      then attackInstead p s (Some i)
      else castSkill p s i) }"

definition getSkillByID :: "fighter \<Rightarrow> int \<Rightarrow> skill option" where
  "getSkillByID f e = (case skillList f of None \<Rightarrow> None | Some ss \<Rightarrow> find (\<lambda>s. skill_id s = e) ss)"

definition doUseSkillById :: "int \<Rightarrow> int \<Rightarrow> int \<Rightarrow> unit act" where
  "doUseSkillById p t i = do {
     s \<leftarrow> look p (\<lambda>e. getSkillByID e t);
     (case s of None \<Rightarrow> ret () | Some s \<Rightarrow> doUseSkill p s i) }"

fun itemLoop :: "int list \<Rightarrow> item \<Rightarrow> effect list \<Rightarrow> effect list act" where
  "itemLoop [] m es = ret es"
| "itemLoop (t # ts) m es = do {
     b \<leftarrow> ask id;
     (if canTarget b (isRebornItem m) t
      then do { clearKeepOut t; xs \<leftarrow> processItemPower t m; itemLoop ts m (es @ xs) }
      else itemLoop ts m es) }"

definition doUseItem :: "int \<Rightarrow> int \<Rightarrow> int \<Rightarrow> unit act" where
  "doUseItem p t i = do {
     e \<leftarrow> look p id;
     (if isDeadNoWithDelay e \<or> isBattleStatus e BSTATUS_ESCAPE then ret ()
      else (case fbag e of None \<Rightarrow> ret ()
            | Some bg \<Rightarrow>
                (case getBagItemBySlotPos bg t of None \<Rightarrow> ret ()
                 | Some r \<Rightarrow>
                     (let m = heap bg r
                      in if \<not> isValidEquipRequire e m \<or> \<not> isCanUse m CAN_USE_BATTLE \<or> hasState e BUFFER_STUN
                         then ret ()
                         else do {
                           i \<leftarrow> (if hasState e BUFFER_CHAO then selectRandActivePlayer p else ret i);
                           n \<leftarrow> ask (\<lambda>b. getSelectArea (rowLeft b) (rowRight b) (position e) i (item_area m));
                           (case n of None \<Rightarrow> ret ()
                            | Some ts \<Rightarrow> do {
                                k \<leftarrow> ask (\<lambda>b. length (resultControlList b));
                                addAniControl (SkillControl (jand 255 (position e)) i (item_area m) SKILL_POS_STAND
                                                 ANIME_TYPE_USE_ITEM SPRITE_USE_ITEM 0 []);
                                es \<leftarrow> itemLoop ts m [];
                                upd (setSubControlList k es);
                                onFighter p (\<lambda>e. e\<lparr>fbag := map_option (\<lambda>bg. snd (removeBagItemByPos t 1 bg)) (fbag e)\<rparr>) }) })))) }"

section \<open>Escape\<close>

text \<open>The condition of the source is the assignment \<open>t = !0\<close>, so the chance
  \<open>isEscapeSuccess\<close> is never asked.\<close>

definition isEscapeSuccess :: "int \<Rightarrow> int act" where
  "isEscapeSuccess p = do {
     b \<leftarrow> ask id;
     (let e = slotFighter b p;
          (i, k) = (if isLeftSide (position e) then (LEFT_MAX_POS, MAX_POS) else (0, LEFT_MAX_POS));
          t = fold (\<lambda>a t. case getPlayerByPos b a of None \<Rightarrow> t
                          | Some r \<Rightarrow> let n = fget r LEVEL in if n > t then n else t) [i..k - 1] (- 1);
          n = fget e LEVEL;
          s = (if - 7 \<ge> n - t then ESCAPE_RATE_LOW else if n - t \<ge> 7 then ESCAPE_RATE_HIGH else ESCAPE_RATE_MID)
      in do { x \<leftarrow> randInt 100; ret (if x < s then ESCAPE_SUCCESS else ESCAPE_FAILED) }) }"

definition doEscape :: "int \<Rightarrow> bool \<Rightarrow> unit act" where
  "doEscape p t = do {
     e \<leftarrow> look p id;
     (if isDead e \<or> hasState e BUFFER_STUN then ret ()
      else do {
        i \<leftarrow> (let t = True in if t then ret ESCAPE_SUCCESS else isEscapeSuccess p);
        (if i = ESCAPE_SUCCESS then onFighter p (\<lambda>e. snd (setBattleStatus BSTATUS_ESCAPE e)) else ret ());
        addAniControl (EscapeControl (jand 255 (position e)) i) }) }"

section \<open>Pets and monsters\<close>

definition doPetAI :: "int \<Rightarrow> unit act" where
  "doPetAI p = do {
     ok \<leftarrow> look p (\<lambda>e. isValidBattlePlayer (Some e));
     (if \<not> ok then ret ()
      else do {
        t \<leftarrow> ask (\<lambda>b. selectValueTarget b (position (slotFighter b p)) AI_HATE_MAX True);
        doAttack p t }) }"

definition theAI :: "fighter \<Rightarrow> monster_ai option" where
  "theAI f = (case monster f of None \<Rightarrow> None | Some m \<Rightarrow> monsterAI m)"

definition setTargetPos :: "int \<Rightarrow> fighter \<Rightarrow> fighter" where
  "setTargetPos v f =
     f\<lparr>monster := map_option (\<lambda>m. m\<lparr>monsterAI := map_option (\<lambda>a. a\<lparr>targetPos := v\<rparr>) (monsterAI m)\<rparr>) (monster f)\<rparr>"

definition nthOr :: "'a \<Rightarrow> 'a list \<Rightarrow> nat \<Rightarrow> 'a" where
  "nthOr d xs k = (if k < length xs then xs ! k else d)"

definition isValidConAI :: "int \<Rightarrow> monster_ai \<Rightarrow> nat \<Rightarrow> bool act" where
  "isValidConAI p ai k = do {
     b \<leftarrow> ask id;
     (let t = slotFighter b p;
          c = nthOr (- 1) (case conType ai of None \<Rightarrow> [] | Some cs \<Rightarrow> cs) k;
          r = nthOr 0 (conValue ai) k;
          a = jdiv (100 * fget t HP) (fget t HPMAX);
          left = isLeftSide (position t);
          right = (LEFT_MAX_POS, MAX_POS);
          whole = (0, getLeftPosNum b)
      in if c = CONDITION_NONE then ret True
         else if c = CONDITION_HP_BELOW then ret (a < r)
         else if c = CONDITION_HP_HIGH then ret (a > r)
         else if c = CONDITION_HELP_RATE then do { l \<leftarrow> randInt 100; ret (l < r) }
         else if c = CONDITION_ROUND then ret (r \<le> round b)
         else if c = CONDITION_PLAYER_COUNT then
           (let (x, y) = (if left then right else whole) in ret (r \<le> getActivePlayerNum b x y False))
         else if c = CONDITION_MONSTER_COUNT then
           (let (x, y) = (if \<not> left then right else whole) in ret (r \<le> getActivePlayerNum b x y False))
         else ret False) }"

definition getConSkill :: "monster_ai \<Rightarrow> nat \<Rightarrow> skill option act" where
  "getConSkill ai k =
     (case (skill1 ai, skill2 ai) of
        (Some n, Some a) \<Rightarrow>
          (if n = [] \<or> a = [] then ret None
           else (case (nthOr None n k, nthOr None a k) of
                   (Some r, Some s) \<Rightarrow> do { l \<leftarrow> nextDraw; ret (if 0 = jand 1 l then Some r else Some s) }
                 | (Some r, None) \<Rightarrow> ret (Some r)
                 | (None, s) \<Rightarrow> ret s))
      | _ \<Rightarrow> ret None)"

definition selectAttackTarget :: "int \<Rightarrow> monster_ai \<Rightarrow> nat \<Rightarrow> int act" where
  "selectAttackTarget p ai k =
     (if isArrayIndexOutOfBounds (int k) (targetType ai) then ret (- 1)
      else (let n = the (targetType ai) ! k
            in if n = AI_ESCAPE then ret TARGET_ESCAPE
               else if n \<in> set [AI_HATE_MIN, AI_HATE_MAX, AI_HP_MIN_ENEMY, AI_HP_MAX_ENEMY,
                                AI_SPEED_MIN_ENEMY, AI_SPEED_MAX_ENEMY]
               then ask (\<lambda>b. selectValueTarget b (position (slotFighter b p)) n True)
               else if n \<in> set [AI_HP_MIN_FRIEND, AI_HP_MAX_FRIEND, AI_SPEED_MIN_FRIEND, AI_SPEED_MAX_FRIEND]
               then ask (\<lambda>b. selectValueTarget b (position (slotFighter b p)) n False)
               else if n = AI_RAND_ENEMY then selectRandTarget p True
               else if n = AI_RAND_FRIEND then selectRandTarget p False
               else if n = AI_SELF then look p position
               else if n = AI_RAND_FRIEND_DEAD then selectRandDeadFriend p
               else if n = AI_RAND_ALL_ALIVE then selectRandActivePlayer p
               else ret (- 1)))"

fun battleSkillLoop :: "nat list \<Rightarrow> int \<Rightarrow> monster_ai \<Rightarrow> skill option act" where
  "battleSkillLoop [] p ai = ret None"
| "battleSkillLoop (n # ns) p ai = do {
     ok \<leftarrow> isValidConAI p ai n;
     (if \<not> ok then battleSkillLoop ns p ai
      else do {
        a \<leftarrow> getConSkill ai n;
        (if a = None \<or> skill_type (the a) \<noteq> SKILL_TYPE_ROUND
         then do { t \<leftarrow> selectAttackTarget p ai n; onFighter p (setTargetPos t); ret a }
         else battleSkillLoop ns p ai) }) }"

definition getBattleSkill :: "int \<Rightarrow> monster_ai \<Rightarrow> skill option act" where
  "getBattleSkill p ai =
     (case conType ai of None \<Rightarrow> ret None
      | Some cs \<Rightarrow>
          (if cs = [] then ret None
           else do { onFighter p (setTargetPos (- 1)); battleSkillLoop [0..<length cs] p ai }))"

definition canPay :: "fighter \<Rightarrow> skill \<Rightarrow> bool" where
  "canPay i s = (\<not> useMP s > fget i MP \<and> isEnoughHP s (Some (fget i HP)))"

fun autoSkillLoop :: "nat list \<Rightarrow> int \<Rightarrow> monster_ai \<Rightarrow> skill option act" where
  "autoSkillLoop [] p ai = ret None"
| "autoSkillLoop (n # ns) p ai = do {
     ok \<leftarrow> isValidConAI p ai n;
     (if \<not> ok then autoSkillLoop ns p ai
      else do {
        a \<leftarrow> getConSkill ai n;
        e \<leftarrow> look p id;
        (case a of None \<Rightarrow> autoSkillLoop ns p ai
         | Some s \<Rightarrow> if skill_type s = SKILL_TYPE_ROUND \<and> canPay e s then ret (Some s)
                    else autoSkillLoop ns p ai) }) }"

definition getSkillByAI :: "bool \<Rightarrow> int \<Rightarrow> skill option act" where
  "getSkillByAI auto p = do {
     e \<leftarrow> look p id;
     (case theAI e of None \<Rightarrow> ret None
      | Some ai \<Rightarrow>
          (if auto then autoSkillLoop [0..<length (case conType ai of None \<Rightarrow> [] | Some cs \<Rightarrow> cs)] p ai
           else do {
             s \<leftarrow> getBattleSkill p ai;
             ret (case s of None \<Rightarrow> None | Some k \<Rightarrow> if canPay e k then Some k else None) })) }"

definition getAttackTarget :: "int \<Rightarrow> int act" where
  "getAttackTarget p =
     ask (\<lambda>b. let t = slotFighter b p
              in case theAI t of
                   Some ai \<Rightarrow> if isBattlePos (targetPos ai) then targetPos ai
                              else selectValueTarget b (position t) AI_HATE_MAX True
                 | None \<Rightarrow> selectValueTarget b (position t) AI_HATE_MAX True)"

definition doMonsterAI :: "int \<Rightarrow> unit act" where
  "doMonsterAI p = do {
     ok \<leftarrow> look p (\<lambda>e. isValidBattlePlayer (Some e));
     (if \<not> ok then ret ()
      else do {
        s \<leftarrow> getSkillByAI False p;
        tp \<leftarrow> look p (\<lambda>e. case theAI e of None \<Rightarrow> - 1 | Some ai \<Rightarrow> targetPos ai);
        (if tp = TARGET_ESCAPE then doEscape p True
         else do {
           i \<leftarrow> getAttackTarget p;
           (if \<not> isBattlePos i then ret ()
            else (case s of None \<Rightarrow> doAttack p i | Some s \<Rightarrow> doUseSkill p s i)) }) }) }"

section \<open>Automatic skills\<close>

definition getAutoSkillCount :: "fighter \<Rightarrow> int" where
  "getAutoSkillCount f =
     (case autoSkillID f of None \<Rightarrow> 0 | Some ids \<Rightarrow> int (length (filter (\<lambda>k. k > 0) ids)))"

definition getAutoSkillIDByRound :: "int \<Rightarrow> fighter \<Rightarrow> int" where
  "getAutoSkillIDByRound rnd e =
     (case autoSkillID e of None \<Rightarrow> - 2
      | Some ids \<Rightarrow>
          (let i = getAutoSkillCount e
           in if 0 \<ge> i then - 3
              else (let k = jrem rnd i in if k \<ge> 0 \<and> k < int (length ids) then ids ! nat k else - 1)))"

definition countNotNullPlayerPos :: "battle \<Rightarrow> int list option \<Rightarrow> int" where
  "countNotNullPlayerPos b e =
     (case e of None \<Rightarrow> 0
      | Some ps \<Rightarrow> int (length (filter (\<lambda>p. isValidBattlePlayer (getPlayerByPos b p)) ps)))"

definition getPetOwnerPos :: "fighter \<Rightarrow> int" where
  "getPetOwnerPos e =
     (if ftype e = TYPE_PET then (case ownerPos e of Some p \<Rightarrow> p | None \<Rightarrow> position e) else position e)"

text \<open>The search for the cursor that reaches most characters; \<open>r\<close> is the best cursor
  so far and \<open>s\<close> its number.\<close>

fun cursorLoop :: "battle \<Rightarrow> fighter \<Rightarrow> int \<Rightarrow> int list \<Rightarrow> int \<Rightarrow> int \<Rightarrow> int" where
  "cursorLoop b e t [] r s = r"
| "cursorLoop b e t (k # ks) r s =
     (if getSkillAreaPlayerNum t \<noteq> SKILL_AREA_CURSOR_ALL then
        (let c = countNotNullPlayerPos b (getSelectArea (rowLeft b) (rowRight b) (position e) k t)
         in if c = getSkillAreaPlayerNum t then k
            else if c > s then cursorLoop b e t ks k c
            else cursorLoop b e t ks r s)
      else if (t = SKILL_AREA_ME_ALL_NO_SELF \<or> t = SKILL_AREA_ALL_NO_SELF) \<and> k = position e
      then cursorLoop b e t ks r s
      else if isValidBattlePlayer (getPlayerByPos b k) then k
      else cursorLoop b e t ks r s)"

definition searchAICursor :: "battle \<Rightarrow> fighter \<Rightarrow> int \<Rightarrow> int" where
  "searchAICursor b e t =
     (let pos = position e; a = getSearchTypeByArea t
      in if t = SKILL_AREA_ENEMY_HP_LEAST then selectValueTarget b pos AI_HP_MIN_ENEMY True
         else if t = SKILL_AREA_ENEMY_HP_MOST then selectValueTarget b pos AI_HP_MAX_ENEMY True
         else if t = SKILL_AREA_ME_HP_LEAST then selectValueTarget b pos AI_HP_MIN_FRIEND False
         else if t = SKILL_AREA_ME_HP_MOST then selectValueTarget b pos AI_HP_MAX_FRIEND False
         else if t = SKILL_AREA_PLAYER_AND_PET then pos
         else if a = SKILL_AREA_SEARCH_MY_SELF then pos
         else if a = SKILL_AREA_SEARCH_MY_OWNER then getPetOwnerPos e
         else (let (k, n) = (if a = SKILL_AREA_SEARCH_ENEMY \<or> a = SKILL_AREA_SEARCH_ALL \<and> t = SKILL_AREA_SINGLE
                             then (if isLeftSide pos then (LEFT_MAX_POS, MAX_POS) else (0, LEFT_MAX_POS))
                             else if a = SKILL_AREA_SEARCH_FRIEND
                             then (if isLeftSide pos then (0, LEFT_MAX_POS) else (LEFT_MAX_POS, MAX_POS))
                             else (0, MAX_POS))
               in cursorLoop b e t [k..n - 1] k 0))"

definition doAutoSkill :: "int \<Rightarrow> unit act" where
  "doAutoSkill p = do {
     e \<leftarrow> look p id;
     (if monster e \<noteq> None then do {
        s \<leftarrow> getSkillByAI True p;
        (case s of None \<Rightarrow> ret ()
         | Some s \<Rightarrow> do {
             c \<leftarrow> ask (\<lambda>b. searchAICursor b (slotFighter b p) (area s));
             doUseSkill p s c }) }
      else do {
        k \<leftarrow> ask (\<lambda>b. getAutoSkillIDByRound (round b) e);
        (if 0 > k then ret ()
         else (case getSkillByID e k of None \<Rightarrow> ret ()
               | Some s \<Rightarrow> do {
                   c \<leftarrow> ask (\<lambda>b. searchAICursor b (slotFighter b p) (area s));
                   doUseSkillById p k c })) }) }"

section \<open>The round\<close>

definition doPlayerPlan :: "int \<Rightarrow> plan \<Rightarrow> bool act" where
  "doPlayerPlan p t =
     (if planKind t = PLAN_ATTACK then do { doAttack p (planCursor t); ret True }
      else if planKind t = PLAN_USE_SKILL then do { doUseSkillById p (planArg t) (planCursor t); ret True }
      else if planKind t = PLAN_USE_ITEM then do { doUseItem p (planArg t) (planCursor t); ret True }
      else if planKind t = PLAN_ESCAPE then do { doEscape p False; ret True }
      else if planKind t = PLAN_NONE then ret False
      else ret True)"

definition doRoundHpMp :: "int \<Rightarrow> unit act" where
  "doRoundHpMp p = do {
     t \<leftarrow> look p (\<lambda>e. fget e HEAL_RECOVERY);
     i \<leftarrow> look p (\<lambda>e. fget e MANA_RECOVERY);
     n \<leftarrow> look p (\<lambda>e. t > 0 \<and> \<not> (hasState e BUFFER_BURN \<or> hasState e BUFFER_BLOOD));
     x \<leftarrow> (if n then hpMpPower p HP t False else ret []);
     m \<leftarrow> look p (\<lambda>e. i > 0 \<and> \<not> hasState e BUFFER_POISON);
     y \<leftarrow> (if m then hpMpPower p MP i False else ret []);
     addEffects (x @ y) }"

definition roundBuffer :: "int \<Rightarrow> unit act" where
  "roundBuffer p = do {
     e \<leftarrow> look p id;
     (if isDeadNoWithDelay e then
        (if isHaveCanNotReliveBuffer e then onFighter p (\<lambda>e. fst (runBufferList True e)) else ret ())
      else if isBattleStatus e BSTATUS_ESCAPE then ret ()
      else do {
        es \<leftarrow> runFighter p (\<lambda>e. let (e', es) = runBufferList True e in (es, e'));
        addEffects (mergeControlList True es) }) }"

text \<open>The slots that hold a character, in order.\<close>

definition occupied :: "battle \<Rightarrow> int list" where
  "occupied b = filter (\<lambda>p. jget (playerList b) p \<noteq> None) [0..int (length (playerList b)) - 1]"

primrec forEach :: "(int \<Rightarrow> unit act) \<Rightarrow> int list \<Rightarrow> unit act" where
  "forEach m [] = ret ()"
| "forEach m (p # ps) = do { m p; forEach m ps }"

definition doRoundBuffer :: "unit act" where
  "doRoundBuffer = do { ps \<leftarrow> ask occupied; forEach roundBuffer ps }"

text \<open>Insertion of a slot before the first slower character.\<close>

fun insertBySpeed :: "(int \<Rightarrow> int) \<Rightarrow> int \<Rightarrow> int list \<Rightarrow> int list" where
  "insertBySpeed v k [] = [k]"
| "insertBySpeed v k (a # as) = (if v k > v a then k # a # as else a # insertBySpeed v k as)"

definition sortModelListBySpeed :: "battle \<Rightarrow> int list" where
  "sortModelListBySpeed b =
     fold (insertBySpeed (\<lambda>p. fget (slotFighter b p) SPEED)) (occupied b) []"

definition doCheckWilBufferRemove :: "int \<Rightarrow> unit act" where
  "doCheckWilBufferRemove p = do {
     i \<leftarrow> look p (\<lambda>e. filter (\<lambda>n. statusBit n \<noteq> BUFFER_NONE \<and> getBufferType (statusBit n) False = BUFFER_TYPE_DEBUFF) (bufs e));
     (if i = [] then ret ()
      else do {
        a \<leftarrow> isWilSuccess p None None;
        (if \<not> a then ret ()
         else do {
           r \<leftarrow> randRange 0 (int (length i) - 1);
           (case r of None \<Rightarrow> ret ()
            | Some r \<Rightarrow>
                (if 0 > r \<or> r \<ge> int (length i) then ret ()
                 else (let s = i ! nat r
                       in onFighter p (\<lambda>e.
                            let e = removeBuffer s (destroy s e)
                            in if list_ex (\<lambda>l. statusBit l = statusBit s) (removeId (bufferId s) i) then e
                               else clearBattleStatus (statusOf s) e)))) }) }) }"

definition endCheck :: "int \<Rightarrow> effect list act" where
  "endCheck p = do {
     i \<leftarrow> look p id;
     (let o' = isHaveCanNotReliveBuffer i;
          full = \<not> isTabStatus i BUFFER_DIE_FULLHP_CHECK \<and> hasState i BUFFER_RESIST_DIE_FULLHP;
          leave = onFighter p (\<lambda>e. let e = clearBufferList False e in if o' then fst (runBufferList False e) else e)
      in if isDead i \<and> full \<and> \<not> o' then
           runFighter p (\<lambda>e. let e = setTabStatus True BUFFER_DIE_FULLHP_CHECK e;
                                 (_, e, y) = processBattleReborn (fget e HPMAX) 0 SPRITE_USE_ITEM e in (y, e))
         else if isDead i \<and> \<not> full \<and> isDeadDelay i then do {
           onFighter p (setTabStatus True BUFFER_DIE_DELAY_CHECK);
           leave;
           ret [createBattleTargetEffect (position i) 0 EFFECT_DIE_DELAY 0 False] }
         else if isDead i \<or> isBattleStatus i BSTATUS_ESCAPE then do { leave; ret [] }
         else do {
           onFighter p (\<lambda>e. fst (runBufferList False e));
           doCheckWilBufferRemove p;
           ret [] }) }"

fun endLoop :: "int list \<Rightarrow> effect list \<Rightarrow> effect list act" where
  "endLoop [] es = ret es"
| "endLoop (p # ps) es = do { xs \<leftarrow> endCheck p; endLoop ps (es @ xs) }"

definition doEndRoundCheckBuffer :: "unit act" where
  "doEndRoundCheckBuffer = do { ps \<leftarrow> ask occupied; es \<leftarrow> endLoop ps []; addEffects es }"

definition turn :: "int \<Rightarrow> unit act" where
  "turn p = do {
     i \<leftarrow> look p id;
     o' \<leftarrow> ask (\<lambda>b. getPlanData b (position i));
     n \<leftarrow> (case o' of None \<Rightarrow> ret False | Some t \<Rightarrow> doPlayerPlan p t);
     (if n \<or> ftype i = TYPE_PLAYER then ret ()
      else if ftype i = TYPE_PET then doPetAI p
      else if monster i \<noteq> None then doMonsterAI p
      else ret ()) }"

definition logicRound :: "unit act" where
  "logicRound = do {
     upd (\<lambda>b. b\<lparr>guardHash := (\<lambda>_. None), resultControlList := []\<rparr>);
     doRoundBuffer;
     ps \<leftarrow> ask sortModelListBySpeed;
     forEach doRoundHpMp ps;
     forEach doAutoSkill ps;
     qs \<leftarrow> ask sortModelListBySpeed;
     forEach turn qs;
     doEndRoundCheckBuffer;
     upd (\<lambda>b. updateBattleResult (b\<lparr>round := round b + 1, waitStatus := 0\<rparr>)) }"

end
