(* ===== verification/AttrProps.thy ===== *)
theory AttrProps
  imports Buffers
begin

text \<open>
  Properties of the attributes of a character: the ranges that \<open>get\<close> guarantees,
  what \<open>addValue\<close> does to the attributes that a battle changes, and that the end of
  a buffer undoes its beginning.
\<close>

section \<open>Ranges\<close>

lemma sumValue_range: "lo \<le> hi \<Longrightarrow> lo \<le> sumValue v w lo hi \<and> sumValue v w lo hi \<le> hi"
  by (simp add: sumValue_def Let_def)

lemma sumValue_int32: "int32 lo \<Longrightarrow> int32 hi \<Longrightarrow> lo \<le> hi \<Longrightarrow> int32 (sumValue v w lo hi)"
  using sumValue_range [of lo hi v w] by linarith

lemma toInt32_sumValue [js_arith]:
  "int32 lo \<Longrightarrow> int32 hi \<Longrightarrow> lo \<le> hi \<Longrightarrow> toInt32 (sumValue v w lo hi) = sumValue v w lo hi"
  using sumValue_int32 by (simp add: toInt32_id)

lemma getPowerValue_range:
  assumes "lo \<le> hi" "int32 lo" "int32 hi"
  shows "lo \<le> getPowerValue f e t i k r lo hi u \<and> getPowerValue f e t i k r lo hi u \<le> hi"
  unfolding getPowerValue_def Let_def using assms by (simp add: toInt32_sumValue sumValue_range)

lemma getBaseValue_range:
  assumes "lo \<le> hi" "int32 lo" "int32 hi"
  shows "lo \<le> getBaseValue f e t i k lo hi \<and> getBaseValue f e t i k lo hi \<le> hi"
  unfolding getBaseValue_def Let_def using assms by (simp add: toInt32_sumValue sumValue_range)

lemma toInt32_getPowerValue [simp]: "toInt32 (getPowerValue f e t i k r lo hi u) = getPowerValue f e t i k r lo hi u"
  by (simp add: getPowerValue_def Let_def)

lemma player_HPMAX: "1 \<le> player_get f HPMAX \<and> player_get f HPMAX \<le> MAX_PLAYER_HP"
  by (simp add: player_get_def player_attr_def storedAttr_def Let_def getPowerValue_range)

lemma player_MPMAX: "1 \<le> player_get f MPMAX \<and> player_get f MPMAX \<le> MAX_PLAYER_MP"
  by (simp add: player_get_def player_attr_def storedAttr_def Let_def getPowerValue_range)

lemma getPetPowerValue_range:
  assumes "lo \<le> hi" "int32 lo" "int32 hi"
  shows "lo \<le> toInt32 (getPetPowerValue f d e t i k n lo hi s) \<and> toInt32 (getPetPowerValue f d e t i k n lo hi s) \<le> hi"
  unfolding getPetPowerValue_def Let_def using assms by (simp add: toInt32_sumValue sumValue_range)

lemma pet_HPMAX:
  "legionMax d = Some (h, m) \<Longrightarrow> pet_get f d HPMAX = h"
  "legionMax d = None \<Longrightarrow> 1 \<le> pet_get f d HPMAX \<and> pet_get f d HPMAX \<le> MAX_PLAYER_HP"
  by (simp_all add: pet_get_def getPetPowerValue_range)

lemma pet_MPMAX:
  "legionMax d = Some (h, m) \<Longrightarrow> pet_get f d MPMAX = m"
  "legionMax d = None \<Longrightarrow> 1 \<le> pet_get f d MPMAX \<and> pet_get f d MPMAX \<le> MAX_PLAYER_MP"
  by (simp_all add: pet_get_def getPetPowerValue_range)

lemma baseAttr_range: "0 \<le> baseAttr f t \<and> baseAttr f t \<le> MAX_BASE_ATTRIBUTE"
  by (simp add: baseAttr_def getBaseValue_range)

lemma toInt32_baseAttr [simp]: "toInt32 (baseAttr f t) = baseAttr f t"
  using baseAttr_range [of f t] by (simp add: toInt32_id)

lemma pv_range:
  assumes "lo \<le> hi" "int32 lo" "int32 hi"
  shows "lo \<le> pv f v b p pp lo hi \<and> pv f v b p pp lo hi \<le> hi"
  unfolding pv_def by (rule getPowerValue_range [OF assms])

lemma toInt32_pv [simp]: "toInt32 (pv f v b p pp lo hi) = pv f v b p pp lo hi"
  by (simp add: pv_def)

lemma atkTime_range: "MIN_HIT_TIME \<le> atkTime f \<and> atkTime f \<le> MAX_HIT_TIME"
  unfolding atkTime_def Let_def by (rule sumValue_range) simp

lemma toInt32_atkTime [simp]: "toInt32 (atkTime f) = atkTime f"
  using atkTime_range [of f] by (simp add: toInt32_id)

text \<open>The ranges that the source gives to the computed attributes of a player.\<close>

definition attrRanges :: "(int \<times> int \<times> int) list" where
  "attrRanges =
     [(HPMAX, 1, MAX_PLAYER_HP), (MPMAX, 1, MAX_PLAYER_MP),
      (ATTR_STR, 0, MAX_BASE_ATTRIBUTE), (CON, 0, MAX_BASE_ATTRIBUTE), (AGI, 0, MAX_BASE_ATTRIBUTE),
      (ILT, 0, MAX_BASE_ATTRIBUTE), (WIS, 0, MAX_BASE_ATTRIBUTE), (SPEED, 0, MAX_OTHER_ATTRIBUTE),
      (ATK_TIME, MIN_HIT_TIME, MAX_HIT_TIME), (ATK_STR, 0, MAX_OTHER_ATTRIBUTE),
      (ATK_AGI, 0, MAX_OTHER_ATTRIBUTE), (ATK_MAGIC, 0, MAX_OTHER_ATTRIBUTE),
      (DEF_STR, 0, MAX_DEF), (DEF_AGI, 0, MAX_DEF), (DEF_MAGIC, 0, MAX_DEF),
      (DODGE, 0, MAX_BASE_ATTRIBUTE), (HIT_RATE, 0, MAX_BASE_ATTRIBUTE), (HIT_MAGIC, MIN_HIT_MAGIC, MAX_BASE_ATTRIBUTE),
      (CRITICAL, 0, MAX_BASE_ATTRIBUTE), (FORCE_HIT, 0, MAX_FORCE_RATE), (WIL, 0, MAX_OTHER_ATTRIBUTE),
      (TOUGH, 0, MAX_OTHER_ATTRIBUTE), (BLOCK, 0, MAX_BASE_ATTRIBUTE), (BRK_ARMOR, 0, MAX_BASE_ATTRIBUTE),
      (MAGIC_PENETRATION, 0, MAX_BASE_ATTRIBUTE), (INSIGHT, 0, MAX_BASE_ATTRIBUTE),
      (DEF_FIELD, 0, MAX_BASE_ATTRIBUTE), (BACK, 0, MAX_BASE_ATTRIBUTE), (MAGIC_BACK, 0, MAX_BASE_ATTRIBUTE),
      (LIFE_ABSORPTION, 0, MAX_OTHER_PROBABILITY), (MANA_ABSORPTION, 0, MAX_OTHER_PROBABILITY),
      (HEAL_RECOVERY, 0, MAX_BASE_ATTRIBUTE), (MANA_RECOVERY, 0, MAX_BASE_ATTRIBUTE),
      (IGNORE_BACK, 0, MAX_BASE_ATTRIBUTE), (IGNORE_BLOCK, 0, MAX_BASE_ATTRIBUTE),
      (IGNORE_WIL, 0, MAX_BASE_ATTRIBUTE), (KEEPOUT_ATK_TIME, 0, MAX_KEEPOUT_ATK_TIME)]"


lemma pet_base_range: "0 \<le> pet_base f d t \<and> pet_base f d t \<le> MAX_BASE_ATTRIBUTE"
proof -
  have "0 \<le> toInt32 (getPetBaseValue f d e t i k 0 MAX_BASE_ATTRIBUTE r) \<and>
      toInt32 (getPetBaseValue f d e t i k 0 MAX_BASE_ATTRIBUTE r) \<le> MAX_BASE_ATTRIBUTE" for e t i k r
    unfolding getPetBaseValue_def Let_def by (simp add: toInt32_sumValue sumValue_range)
  then show ?thesis by (simp add: pet_base_def Let_def)
qed

lemma pet_rate_range: "0 \<le> pet_rate f d \<and> pet_rate f d \<le> MAX_BASE_ATTRIBUTE"
  unfolding pet_rate_def by (rule getPetPowerValue_range) simp_all

lemma pet_magic_range: "MIN_HIT_MAGIC \<le> pet_magic f d \<and> pet_magic f d \<le> MAX_BASE_ATTRIBUTE"
  unfolding pet_magic_def by (rule getPetPowerValue_range) simp_all


section \<open>addValue\<close>

text \<open>The attributes that a battle changes.\<close>

definition battleAttr :: "int \<Rightarrow> bool" where
  "battleAttr t = (t = HP \<or> t = MP \<or> t = ARGO \<or> bonusCase t \<noteq> None)"

lemma bonusCase_bounds:
  "bonusCase t = Some (a, lo, hi) \<Longrightarrow> lo \<le> 0 \<and> 0 \<le> hi \<and> int32 lo \<and> int32 hi"
  by (auto simp: bonusCase_def split: if_splits)

lemma modelVo_addValue_id:
  "t \<noteq> LEVEL \<Longrightarrow> t \<noteq> LEVEL2 \<Longrightarrow> t \<noteq> ENCHANTVALUE \<Longrightarrow> t \<noteq> COUNTRY_RANK_SET \<Longrightarrow> t \<noteq> COUNTRY_ID_SET \<Longrightarrow>
   t \<noteq> STATUS_SET \<Longrightarrow> modelVo_addValue t i f = f"
  by (simp add: modelVo_addValue_def)

lemma playerCase_bonus:
  "bonusCase t = Some (a, lo, hi) \<Longrightarrow> playerCase t i f = addBonus a i lo hi f"
  unfolding playerCase_def by (auto simp: bonusCase_def split: if_splits)

lemma modelVo_addValue_bonus: "bonusCase t = Some c \<Longrightarrow> modelVo_addValue t i f = f"
  by (rule modelVo_addValue_id) (auto simp: bonusCase_def)

lemma addValue_bonus:
  "bonusCase t = Some (a, lo, hi) \<Longrightarrow>
   addValue t i f = f\<lparr>bonus := (bonus f)(a := sumValue (bonus f a) (toInt32 i) lo hi),
                      readAddValue := sumValue (bonus f a) (toInt32 i) lo hi - bonus f a\<rparr>"
proof -
  assume b: "bonusCase t = Some (a, lo, hi)"
  then have "t \<noteq> PET_GROW_LEVEL" by (auto simp: bonusCase_def)
  with b show ?thesis by (simp add: addValue_def Let_def playerCase_bonus modelVo_addValue_bonus addBonus_def)
qed

lemma addValue_ARGO: "addValue ARGO i f = f\<lparr>readAddValue := toInt32 i, argo := sumValue (argo f) (toInt32 i) (- 100000) 100000\<rparr>"
  by (simp add: addValue_def Let_def playerCase_def modelVo_addValue_id)

text \<open>The cap of the life and the mana of a character: \<open>HPMAX\<close> and \<open>MPMAX\<close> lie between
  0 and it.\<close>

definition hpCap :: "fighter \<Rightarrow> int" where
  "hpCap f = 
     (if monster f \<noteq> None then hpMax f
      else case Option.bind (fpet f) legionMax of None \<Rightarrow> MAX_PLAYER_HP | Some (h, _) \<Rightarrow> h)"

definition mpCap :: "fighter \<Rightarrow> int" where
  "mpCap f = 
     (if monster f \<noteq> None then mpMax f
      else case Option.bind (fpet f) legionMax of None \<Rightarrow> MAX_PLAYER_MP | Some (_, m) \<Rightarrow> m)"

lemma fget_HPMAX: "0 \<le> hpCap f \<Longrightarrow> 0 \<le> fget f HPMAX \<and> fget f HPMAX \<le> hpCap f"
proof (cases "monster f")
  case None
  assume c: "0 \<le> hpCap f"
  show ?thesis
  proof (cases "fpet f")
    case (Some d)
    then show ?thesis
      using c None pet_HPMAX(1) [of d _ _ f] pet_HPMAX(2) [of d f]
      by (cases "legionMax d") (auto simp: fget_def hpCap_def)
  qed (use None player_HPMAX [of f] in \<open>simp add: fget_def hpCap_def\<close>)
qed (simp add: fget_def hpCap_def monster_get_def)

lemma fget_MPMAX: "0 \<le> mpCap f \<Longrightarrow> 0 \<le> fget f MPMAX \<and> fget f MPMAX \<le> mpCap f"
proof (cases "monster f")
  case None
  assume c: "0 \<le> mpCap f"
  show ?thesis
  proof (cases "fpet f")
    case (Some d)
    then show ?thesis
      using c None pet_MPMAX(1) [of d _ _ f] pet_MPMAX(2) [of d f]
      by (cases "legionMax d") (auto simp: fget_def mpCap_def)
  qed (use None player_MPMAX [of f] in \<open>simp add: fget_def mpCap_def\<close>)
qed (simp add: fget_def mpCap_def monster_get_def)

lemma cap_readAddValue [simp]: "hpCap (f\<lparr>readAddValue := v\<rparr>) = hpCap f" "mpCap (f\<lparr>readAddValue := v\<rparr>) = mpCap f"
  by (simp_all add: hpCap_def mpCap_def)

lemma addValue_HP:
  assumes "0 \<le> hpCap f" "hpCap f \<le> 2147483647"
  obtains v where "0 \<le> v" "v \<le> hpCap f" "addValue HP i f = f\<lparr>readAddValue := toInt32 i, hp := v\<rparr>"
proof -
  let ?m = "fget (f\<lparr>readAddValue := toInt32 i\<rparr>) HPMAX"
  have m: "0 \<le> ?m" "?m \<le> hpCap f"
    using fget_HPMAX [of "f\<lparr>readAddValue := toInt32 i\<rparr>"] assms by simp_all
  have v: "0 \<le> sumValue (hp f) (toInt32 i) 0 ?m" "sumValue (hp f) (toInt32 i) 0 ?m \<le> ?m"
    using sumValue_range [OF m(1)] by simp_all
  show thesis
  proof (rule that)
    show "addValue HP i f = f\<lparr>readAddValue := toInt32 i, hp := toInt32 (sumValue (hp f) (toInt32 i) 0 ?m)\<rparr>"
      by (simp add: addValue_def Let_def playerCase_def modelVo_addValue_id set_hp_def)
  qed (use v m assms in \<open>simp_all add: toInt32_id\<close>)
qed

lemma addValue_MP:
  assumes "0 \<le> mpCap f" "mpCap f \<le> 2147483647"
  obtains v where "0 \<le> v" "v \<le> mpCap f" "addValue MP i f = f\<lparr>readAddValue := toInt32 i, mp := v\<rparr>"
proof -
  let ?m = "fget (f\<lparr>readAddValue := toInt32 i\<rparr>) MPMAX"
  have m: "0 \<le> ?m" "?m \<le> mpCap f"
    using fget_MPMAX [of "f\<lparr>readAddValue := toInt32 i\<rparr>"] assms by simp_all
  have v: "0 \<le> sumValue (mp f) (toInt32 i) 0 ?m" "sumValue (mp f) (toInt32 i) 0 ?m \<le> ?m"
    using sumValue_range [OF m(1)] by simp_all
  show thesis
  proof (rule that)
    show "addValue MP i f = f\<lparr>readAddValue := toInt32 i, mp := toInt32 (sumValue (mp f) (toInt32 i) 0 ?m)\<rparr>"
      by (simp add: addValue_def Let_def playerCase_def modelVo_addValue_id set_mp_def)
  qed (use v m assms in \<open>simp_all add: toInt32_id\<close>)
qed

section \<open>Life, mana and bonuses\<close>

text \<open>The life and the mana of a character, its hate and its bonuses are within their
  limits.  The maxima of a monster are stored and have to be sane themselves.\<close>

definition bonusOk :: "(battle_attr \<Rightarrow> int) \<Rightarrow> bool" where
  "bonusOk h = (\<forall>t a lo hi. bonusCase t = Some (a, lo, hi) \<longrightarrow> lo \<le> h a \<and> h a \<le> hi)"

definition vitalOk :: "fighter \<Rightarrow> bool" where
  "vitalOk f =
     (0 \<le> hpCap f \<and> hpCap f \<le> 2147483647 \<and> 0 \<le> mpCap f \<and> mpCap f \<le> 2147483647
      \<and> 0 \<le> hp f \<and> hp f \<le> hpCap f \<and> 0 \<le> mp f \<and> mp f \<le> mpCap f
      \<and> - 100000 \<le> argo f \<and> argo f \<le> 100000 \<and> bonusOk (bonus f))"

text \<open>Two attribute numbers never share a bonus field.\<close>

primrec bonusNumber :: "battle_attr \<Rightarrow> int" where
  "bonusNumber Speed = SPEED" | "bonusNumber AtkStr = ATK_STR" | "bonusNumber AtkAgi = ATK_AGI"
| "bonusNumber AtkMagic = ATK_MAGIC" | "bonusNumber AtkTime = ATK_TIME" | "bonusNumber DefStr = DEF_STR"
| "bonusNumber DefAgi = DEF_AGI" | "bonusNumber DefMagic = DEF_MAGIC" | "bonusNumber Dodge = DODGE"
| "bonusNumber HitRate = HIT_RATE" | "bonusNumber HitMagic = HIT_MAGIC" | "bonusNumber Critical = CRITICAL"
| "bonusNumber ForceHit = FORCE_HIT" | "bonusNumber Wil = WIL" | "bonusNumber Tough = TOUGH"
| "bonusNumber Block = BLOCK" | "bonusNumber BrkArmor = BRK_ARMOR" | "bonusNumber Insight = INSIGHT"
| "bonusNumber DefField = DEF_FIELD" | "bonusNumber Back = BACK" | "bonusNumber MagicBack = MAGIC_BACK"
| "bonusNumber LifeAbsorption = LIFE_ABSORPTION" | "bonusNumber ManaAbsorption = MANA_ABSORPTION"
| "bonusNumber MagicPenetration = MAGIC_PENETRATION" | "bonusNumber HealRecovery = HEAL_RECOVERY"
| "bonusNumber ManaRecovery = MANA_RECOVERY" | "bonusNumber KeepoutAtkTime = KEEPOUT_ATK_TIME"

lemma bonusCase_number: "bonusCase t = Some (a, r) \<Longrightarrow> t = bonusNumber a"
  by (auto simp: bonusCase_def split: if_splits)

lemma bonusCase_inj: "bonusCase t = Some (a, r) \<Longrightarrow> bonusCase s = Some (a, r') \<Longrightarrow> r = r'"
  by (metis bonusCase_number option.inject prod.inject)

lemma bonusOk_update:
  assumes h: "bonusOk h" and t: "bonusCase t = Some (a, lo, hi)"
  shows "bonusOk (h(a := sumValue v w lo hi))"
  unfolding bonusOk_def
proof (intro allI impI)
  fix s b lo' hi' assume s: "bonusCase s = Some (b, lo', hi')"
  show "lo' \<le> (h(a := sumValue v w lo hi)) b \<and> (h(a := sumValue v w lo hi)) b \<le> hi'"
  proof (cases "b = a")
    case True
    with s have "(lo', hi') = (lo, hi)" by (auto dest: bonusCase_inj [OF t])
    moreover have "lo \<le> hi" using bonusCase_bounds [OF t] by linarith
    ultimately show ?thesis using True sumValue_range [of lo hi v w] by simp
  next
    case False
    with s h show ?thesis by (simp add: bonusOk_def)
  qed
qed

lemma cap_frame [simp]:
  "hpCap (f\<lparr>hp := v\<rparr>) = hpCap f" "mpCap (f\<lparr>hp := v\<rparr>) = mpCap f"
  "hpCap (f\<lparr>mp := v\<rparr>) = hpCap f" "mpCap (f\<lparr>mp := v\<rparr>) = mpCap f"
  "hpCap (f\<lparr>argo := v\<rparr>) = hpCap f" "mpCap (f\<lparr>argo := v\<rparr>) = mpCap f"
  "hpCap (f\<lparr>bonus := h\<rparr>) = hpCap f" "mpCap (f\<lparr>bonus := h\<rparr>) = mpCap f"
  by (simp_all add: hpCap_def mpCap_def)

lemma vitalOk_bonus:
  "vitalOk f \<Longrightarrow> bonusCase t = Some (a, lo, hi) \<Longrightarrow> vitalOk (addValue t i f)"
  by (simp add: addValue_bonus vitalOk_def bonusOk_update)

lemma vitalOk_HP: "vitalOk f \<Longrightarrow> vitalOk (addValue HP i f)"
  by (rule addValue_HP [of f i]) (simp_all add: vitalOk_def)

lemma vitalOk_MP: "vitalOk f \<Longrightarrow> vitalOk (addValue MP i f)"
  by (rule addValue_MP [of f i]) (simp_all add: vitalOk_def)

lemma vitalOk_ARGO: "vitalOk f \<Longrightarrow> vitalOk (addValue ARGO i f)"
  using sumValue_range [of "- 100000" 100000 "argo f" "toInt32 i"] by (simp add: addValue_ARGO vitalOk_def)

lemma vitalOk_addValue:
  assumes "vitalOk f" "battleAttr t"
  shows "vitalOk (addValue t i f)"
  using assms(2) assms(1) vitalOk_bonus unfolding battleAttr_def
  by (elim disjE) (auto intro: vitalOk_HP vitalOk_MP vitalOk_ARGO)

section \<open>A buffer is undone\<close>

lemma sumValue_undo:
  assumes "lo \<le> v" "v \<le> hi"
  shows "sumValue (sumValue v w lo hi) (- (sumValue v w lo hi - v)) lo hi = v"
  using assms by (simp add: sumValue_def Let_def)


text \<open>A new character of level 1 with nothing but its base values.\<close>

definition novice :: fighter where
  "novice =
     \<lparr>fid = 1, ftype = TYPE_PLAYER, sex = 0, race = 0, job = 0, level = 1, level2 = 0, setting = 0, fstatus = 0,
      countryId = 0, countryRank = 0, px = 0, py = 0, enchantValue = 0, intValue1 = 0, position = 0,
      exp = 0, exp2 = 0, expMax = 100, expMax2 = 0, hp = 100, mp = 50, hpDisplay = 100, mpDisplay = 50,
      hpMax = 0, mpMax = 0, str = 0, con = 0, agi = 0, ilt = 0, wis = 0, argo = 0, recovery = 0, exp_up = 0,
      readAddValue = 0,
      purse = \<lparr>money1 = 0, money2 = 0, money3 = 0, p_numStroe = 0, countryHonor = 0, cityId = 0, killCount = 0,
               Pkwincount = 0, Pklosecount = 0, totalOnline = 0, partnerId = 0, masterFlag = 0, integral = 0,
               combatPoint = 0, skyarenaPoint = 0, arenaPoint = 0, towerPoint = 0, richManPoint = 0, sp = 0, cp = 0\<rparr>,
      bonus = (\<lambda>_. 0),
      skillList = None, autoSkillID = None, fbag = None, itemSetData = None, power = 0, powerValue = 0,
      titlePower1 = 0, titlePowerValue1 = 0, titlePower2 = 0, titlePowerValue2 = 0, fightPowerList = None,
      countrypowerValue = 0, formationSkill = None, playerTurnMonster = None, artifactPower = [],
      bookGroupPower = (\<lambda>_. None), upgradeOpen = False, specialAttr = (\<lambda>_. None), bStatus = 0,
      battleBufferList = None, nextBufferId = 0, ownerPos = None, monster = None, fpet = None\<rparr>"

definition demo_pet :: pet_data where
  "demo_pet = \<lparr>p_color = 1, p_grade = 2, growLevel = 3, p_atkType = ATKTYPE_STR, p_atkMin = 4, p_atkMax = 9, petHitrate = 100,
     petAtkTime = 1, p_bornStatus = 0, legionMax = None, ownerVo = Some (ownerOf novice), p_owner = None\<rparr>"




lemma vitalOk_novice: "vitalOk novice"
  by (auto simp: vitalOk_def bonusOk_def hpCap_def mpCap_def novice_def dest: bonusCase_bounds)

section \<open>Two slips of addValue\<close>

lemmas novice_powers =
  getPowerValue_def getBaseValue_def getSkillPowerValue_def getPower_def roleGod_getPower_def getBookGroupPower_def
  getPowerValueByBuffer_def getCountryBuffer_def getBagEquipPowerValue_def formationPower_def turnMonsterPower_def

lemma novice_baseAttr: "baseAttr (novice\<lparr>hpMax := v, readAddValue := w, str := 0\<rparr>) t = 0"
  by (simp add: baseAttr_def novice_powers novice_def Let_def jdiv_def sumValue_def)

lemma novice_HPMAX:
  "fget (novice\<lparr>hpMax := v, readAddValue := w, str := 0\<rparr>) HPMAX = sumValue 100 v 1 MAX_PLAYER_HP"
  unfolding fget_def player_get_def player_attr_def Let_def novice_baseAttr
  by (simp add: storedAttr_def fullLevel_def otherAttr_def modelVo_get_def novice_powers novice_def Let_def jdiv_def
      toInt32_sumValue toInt32_id)

lemma novice_eq: "novice\<lparr>hpMax := 0, readAddValue := 0, str := 0\<rparr> = novice"
  by (simp add: novice_def)

text \<open>a change of strength or constitution by any amount, 0 included, stores the computed maximum of
  life as the bonus on that maximum, so the next computation counts it twice: a new
  character with a maximum of 100 has 200 after a change by nothing, and 300 after
  another.\<close>

theorem addValue_STR_counts_HPMAX_twice:
  "fget novice HPMAX = 100 \<and> fget (addValue ATTR_STR 0 novice) HPMAX = 200
   \<and> fget (addValue ATTR_STR 0 (addValue ATTR_STR 0 novice)) HPMAX = 300"
proof -
  let ?n = "\<lambda>v. novice\<lparr>hpMax := v, readAddValue := 0, str := 0\<rparr>"
  have step: "addValue ATTR_STR 0 (?n v) = ?n (sumValue 100 v 1 MAX_PLAYER_HP)" if "0 \<le> v" for v
  proof -
    have "addValue ATTR_STR 0 (?n v) = fitHp (?n v)"
      by (simp add: addValue_def Let_def playerCase_def modelVo_addValue_id sumValue_def novice_def)
    moreover have "hp (?n v) = 100" by (simp add: novice_def)
    moreover have "100 \<le> sumValue 100 v 1 MAX_PLAYER_HP" using that by (simp add: sumValue_def Let_def)
    ultimately show ?thesis
      by (simp add: fitHp_def Let_def novice_HPMAX)
  qed
  have "addValue ATTR_STR 0 novice = ?n 100" "addValue ATTR_STR 0 (?n 100) = ?n 200"
    using step [of 0] step [of 100] novice_eq by (simp_all add: sumValue_def)
  moreover have "fget novice HPMAX = 100" using novice_HPMAX [of 0 0] novice_eq by (simp add: sumValue_def)
  ultimately show ?thesis by (simp add: novice_HPMAX sumValue_def)
qed

text \<open>the purse of the third currency has no upper limit: the test for an overflow
  asks for a negative sum of two positive numbers, which never happens with the
  numbers of the language.\<close>

theorem addMoney3_unbounded: "money3 (addMoney3 i p) = max 0 (money3 p + i)"
  by (simp add: addMoney3_def Let_def max_def)

end
