(* ===== verification/BufferProps.thy ===== *)
theory BufferProps
  imports AttrProps ToolProps
begin

text \<open>
  Properties of the list of buffers of a character: which fields the operations on
  it leave alone, the limit on the number of buffers, and the state bits.
\<close>

section \<open>Frames\<close>

lemma onPurse_buffers [simp]:
  "battleBufferList (onPurse g f) = battleBufferList f" "nextBufferId (onPurse g f) = nextBufferId f"
  by (simp_all add: onPurse_def)

lemma playerCase_buffers:
  "battleBufferList (playerCase t i f) = battleBufferList f" "nextBufferId (playerCase t i f) = nextBufferId f"
  by (simp_all add: playerCase_def set_hp_def set_mp_def fitHp_def fitMp_def addBonus_def Let_def
      split: option.split prod.split)

lemma modelVo_addValue_buffers:
  "battleBufferList (modelVo_addValue t i f) = battleBufferList f" "nextBufferId (modelVo_addValue t i f) = nextBufferId f"
  by (simp_all add: modelVo_addValue_def)

lemma addValue_buffers [simp]:
  "battleBufferList (addValue t i f) = battleBufferList f" "nextBufferId (addValue t i f) = nextBufferId f"
  by (simp_all add: addValue_def Let_def playerCase_buffers modelVo_addValue_buffers)

lemma destroy_buffers [simp]:
  "battleBufferList (destroy u f) = battleBufferList f" "nextBufferId (destroy u f) = nextBufferId f"
  by (simp_all add: destroy_def)

lemma status_buffers [simp]:
  "battleBufferList (clearBattleStatus s f) = battleBufferList f" "nextBufferId (clearBattleStatus s f) = nextBufferId f"
  "battleBufferList (snd (setBattleStatus s f)) = battleBufferList f" "nextBufferId (snd (setBattleStatus s f)) = nextBufferId f"
  by (simp_all add: clearBattleStatus_def setBattleStatus_def)

lemma removeBuffer_id [simp]: "nextBufferId (removeBuffer u f) = nextBufferId f"
  by (simp add: removeBuffer_def)

lemma bufs_removeBuffer [simp]: "bufs (removeBuffer u f) = removeId (bufferId u) (bufs f)"
  by (simp add: bufs_def removeBuffer_def split: option.split)

lemma bufs_frame [simp]:
  "bufs (addValue t i f) = bufs f" "bufs (destroy u f) = bufs f" "bufs (clearBattleStatus s f) = bufs f"
  "bufs (snd (setBattleStatus s f)) = bufs f" "bufs (f\<lparr>battleBufferList := Some us\<rparr>) = us"
  "bufs (f\<lparr>nextBufferId := k\<rparr>) = bufs f"
  by (simp_all add: bufs_def)

section \<open>The limit on buffers\<close>

abbreviation ofType :: "int \<Rightarrow> buffer \<Rightarrow> bool" where
  "ofType T u \<equiv> statusBit u \<noteq> BUFFER_NONE \<and> getBufferType (statusBit u) False = T"

definition statusCount :: "int \<Rightarrow> buffer list \<Rightarrow> nat" where
  "statusCount T us = length (filter (ofType T) us)"

lemma statusCount_simps [simp]:
  "statusCount T [] = 0" "statusCount T (u # us) = (if ofType T u then Suc (statusCount T us) else statusCount T us)"
  "statusCount T (us @ vs) = statusCount T us + statusCount T vs" "statusCount T (rev us) = statusCount T us"
  by (simp_all add: statusCount_def rev_filter [symmetric])

lemma set_removeId: "set (removeId k us) \<subseteq> set us"
  by (induction us) auto

lemma distinct_removeId: "distinct (map bufferId us) \<Longrightarrow> distinct (map bufferId (removeId k us))"
proof (induction us)
  case (Cons u us)
  then show ?case using set_removeId [of k us] by auto
qed simp

lemma statusCount_removeId_le: "statusCount T (removeId k us) \<le> statusCount T us"
  by (induction us) auto

lemma statusCount_removeId:
  "distinct (map bufferId us) \<Longrightarrow> a \<in> set us \<Longrightarrow> ofType T a \<Longrightarrow>
   Suc (statusCount T (removeId (bufferId a) us)) = statusCount T us"
proof (induction us)
  case (Cons u us)
  show ?case
  proof (cases "u = a")
    case False
    with Cons.prems have "bufferId u \<noteq> bufferId a" "a \<in> set us" by force+
    with Cons show ?thesis by auto
  qed (use Cons.prems in simp)
qed simp

lemma removeId_other: "distinct (map bufferId us) \<Longrightarrow> a \<in> set us \<Longrightarrow> bufferId a \<noteq> k \<Longrightarrow> a \<in> set (removeId k us)"
  by (induction us) auto

text \<open>The walk of \<open>checkBufferSize\<close>: the buffers of the kind that the list still has
  are the counted ones and those to come.\<close>

lemma sizeLoop_count:
  assumes "distinct (map bufferId (bufs f))" "distinct (map bufferId as)" "set as \<subseteq> set (bufs f)"
    "T = getBufferType (statusBit e) False"
    "int (statusCount T (bufs f)) \<le> t + int (statusCount T as)" "t \<le> 2" "statusCount T (bufs f) \<le> 3"
  shows "statusCount T (bufs (snd (sizeLoop e as t f))) \<le> 2"
  using assms
proof (induction e as t f rule: sizeLoop.induct)
  case (1 e t f)
  then show ?case by simp
next
  case (2 e a as t f)
  let ?g = "removeBuffer a (destroy a (clearBattleStatus (statusOf a) f))"
  have sub: "set as \<subseteq> set (removeId (bufferId a) (bufs f))"
  proof
    fix x assume x: "x \<in> set as"
    with "2.prems"(2) have "bufferId x \<noteq> bufferId a" by (metis distinct.simps(2) image_eqI list.set_map list.simps(9))
    with x "2.prems"(1,3) show "x \<in> set (removeId (bufferId a) (bufs f))"
      by (intro removeId_other) auto
  qed
  have le: "statusCount T (removeId (bufferId a) (bufs f)) \<le> statusCount T (bufs f)"
    by (rule statusCount_removeId_le)
  have one: "Suc (statusCount T (removeId (bufferId a) (bufs f))) = statusCount T (bufs f)" if "ofType T a"
    using that "2.prems"(1,3) by (intro statusCount_removeId) auto
  have g: "distinct (map bufferId (bufs ?g))" "set as \<subseteq> set (bufs ?g)"
    "int (statusCount T (bufs ?g)) \<le> t + int (statusCount T as)" "statusCount T (bufs ?g) \<le> 3"
    using "2.prems" sub le one by (auto simp: distinct_removeId split: if_splits)
  consider (none) "statusBit a = BUFFER_NONE" | (die) "statusBit a \<noteq> BUFFER_NONE" "isDieStatus e \<and> isDieStatus a"
    | (kind) "\<not> (isDieStatus e \<and> isDieStatus a)" "ofType T a"
    | (other) "\<not> (isDieStatus e \<and> isDieStatus a)" "statusBit a \<noteq> BUFFER_NONE" "\<not> ofType T a" by blast
  then show ?case
  proof cases
    case none
    with 2 show ?thesis by simp
  next
    case die
    with "2.IH"(1) g "2.prems" show ?thesis by simp
  next
    case kind
    show ?thesis
    proof (cases "t + 1 \<ge> BUFF_MAX_SIZE")
      case True
      with kind one "2.prems" show ?thesis by auto
    next
      case False
      with kind 2 show ?thesis by auto
    qed
  next
    case other
    with 2 show ?thesis by auto
  qed
qed

lemma sizeLoop_bufs:
  "set (bufs (snd (sizeLoop e as t f))) \<subseteq> set (bufs f) \<and> nextBufferId (snd (sizeLoop e as t f)) = nextBufferId f
   \<and> (distinct (map bufferId (bufs f)) \<longrightarrow> distinct (map bufferId (bufs (snd (sizeLoop e as t f)))))
   \<and> statusCount T (bufs (snd (sizeLoop e as t f))) \<le> statusCount T (bufs f)"
proof (induction e as t f rule: sizeLoop.induct)
  case (2 e a as t f)
  let ?us = "removeId (bufferId a) (bufs f)"
  have r: "set ?us \<subseteq> set (bufs f)" "distinct (map bufferId (bufs f)) \<longrightarrow> distinct (map bufferId ?us)"
    "statusCount T ?us \<le> statusCount T (bufs f)"
    by (simp_all add: set_removeId distinct_removeId statusCount_removeId_le)
  show ?case
  proof (cases "statusBit a \<noteq> BUFFER_NONE \<and> isDieStatus e \<and> isDieStatus a")
    case True
    then show ?thesis using "2.IH"(1) r by auto
  next
    case False
    then show ?thesis using "2.IH"(2-4) r by (auto split: if_splits)
  qed
qed simp

definition bufferLimits :: "fighter \<Rightarrow> bool" where
  "bufferLimits f =
     (distinct (map bufferId (bufs f)) \<and> (\<forall>u\<in>set (bufs f). bufferId u < nextBufferId f)
      \<and> (\<forall>T. int (statusCount T (bufs f)) \<le> BUFF_MAX_SIZE))"

lemma checkBufferSize_eq:
  "bufs (checkBufferSize e f) = (if statusBit e = BUFFER_NONE then bufs f else bufs (snd (sizeLoop e (rev (bufs f)) 0 f)))"
  by (simp add: checkBufferSize_def Let_def split: prod.split)

lemma checkBufferSize_id: "nextBufferId (checkBufferSize e f) = nextBufferId f"
proof -
  have "nextBufferId (snd (sizeLoop e (rev (bufs f)) 0 f)) = nextBufferId f" using sizeLoop_bufs by blast
  then show ?thesis by (auto simp: checkBufferSize_def Let_def split: prod.split)
qed

lemma checkBufferSize_bufs:
  "set (bufs (checkBufferSize e f)) \<subseteq> set (bufs f)"
  "distinct (map bufferId (bufs f)) \<Longrightarrow> distinct (map bufferId (bufs (checkBufferSize e f)))"
  "statusCount T (bufs (checkBufferSize e f)) \<le> statusCount T (bufs f)"
  using sizeLoop_bufs [of e "rev (bufs f)" 0 f T] by (auto simp: checkBufferSize_eq)

lemma checkBufferSize_room:
  assumes "bufferLimits f" "statusBit e \<noteq> BUFFER_NONE"
  shows "statusCount (getBufferType (statusBit e) False) (bufs (checkBufferSize e f)) \<le> 2"
proof -
  have "int (statusCount T (bufs f)) \<le> 3" for T using assms(1) by (simp add: bufferLimits_def)
  then have "statusCount T (bufs f) \<le> 3" for T by (metis of_nat_le_iff of_nat_numeral)
  with assms show ?thesis
    unfolding checkBufferSize_eq
    by (simp, intro sizeLoop_count [OF _ _ _ refl]) (auto simp: bufferLimits_def rev_map [symmetric])
qed

lemma bufs_addBuffer:
  fixes e f
  defines "e1 \<equiv> e\<lparr>bufferId := nextBufferId f\<rparr>"
    and "f1 \<equiv> f\<lparr>nextBufferId := Suc (nextBufferId f), battleBufferList := Some (bufs f)\<rparr>"
  shows "bufs (addBuffer e f) =
      (if isClearStatusBitBuffer e1 then e1 # bufs f
       else if fst (setBattleStatus (statusOf e1) f1) then bufs (checkBufferSize e1 (snd (setBattleStatus (statusOf e1) f1))) @ [e1]
       else bufs f @ [clearStatus e1])"
    "nextBufferId (addBuffer e f) = Suc (nextBufferId f)"
  by (simp_all add: addBuffer_def Let_def case_prod_beta checkBufferSize_id e1_def f1_def)

text \<open>a character never has more than three buffers of the good and three of the bad
  kind: adding one beyond the limit makes room first, and the buffers keep distinct
  identities.\<close>

theorem addBuffer_limit:
  assumes lim: "bufferLimits f" and clr: "isClearStatusBitBuffer e \<longrightarrow> statusBit e = BUFFER_NONE"
  shows "bufferLimits (addBuffer e f)"
proof -
  define e1 where "e1 = e\<lparr>bufferId := nextBufferId f\<rparr>"
  define f1 where "f1 = f\<lparr>nextBufferId := Suc (nextBufferId f), battleBufferList := Some (bufs f)\<rparr>"
  define h where "h = snd (setBattleStatus (statusOf e1) f1)"
  define us where "us = bufs (checkBufferSize e1 h)"
  have h: "bufs h = bufs f" "nextBufferId h = Suc (nextBufferId f)" by (simp_all add: h_def f1_def)
  then have lim1: "bufferLimits h" using lim by (auto simp: bufferLimits_def less_SucI)
  have us: "set us \<subseteq> set (bufs f)" "distinct (map bufferId us)" "\<And>T. statusCount T us \<le> statusCount T (bufs f)"
    using checkBufferSize_bufs [where e = e1 and f = h] lim h by (auto simp: us_def bufferLimits_def)
  have room: "statusCount (getBufferType (statusBit e1) False) us \<le> 2" if "statusBit e1 \<noteq> BUFFER_NONE"
    using checkBufferSize_room [OF lim1 that] by (simp add: us_def)
  have id: "bufferId e1 = nextBufferId f" "bufferId (clearStatus e1) = nextBufferId f" "statusBit (clearStatus e1) = BUFFER_NONE"
    by (simp_all add: e1_def clearStatus_def)
  have fresh: "nextBufferId f \<notin> bufferId ` set (bufs f)" "\<forall>u\<in>set (bufs f). bufferId u < Suc (nextBufferId f)"
    using lim by (auto simp: bufferLimits_def less_SucI)
  have cnt: "int (statusCount T (bufs f)) \<le> 3" for T using lim by (simp add: bufferLimits_def)
  then have cnt_us: "int (statusCount T us) \<le> 3" for T
    using us(3) by (meson dual_order.trans of_nat_mono)
  have eq: "bufs (addBuffer e f) = (if isClearStatusBitBuffer e1 then e1 # bufs f
       else if fst (setBattleStatus (statusOf e1) f1) then us @ [e1] else bufs f @ [clearStatus e1])"
    "nextBufferId (addBuffer e f) = Suc (nextBufferId f)"
    using bufs_addBuffer [of e f] by (simp_all add: e1_def f1_def h_def us_def)
  consider (clear) "bufs (addBuffer e f) = e1 # bufs f" "statusBit e1 = BUFFER_NONE"
    | (added) "bufs (addBuffer e f) = us @ [e1]" | (bare) "bufs (addBuffer e f) = bufs f @ [clearStatus e1]"
    using eq clr by (auto simp: e1_def isClearStatusBitBuffer_def split: if_splits)
  then show ?thesis
  proof cases
    case clear
    then show ?thesis using lim fresh cnt eq(2) id by (auto simp: bufferLimits_def)
  next
    case added
    have "bufferId e1 \<notin> bufferId ` set us" using us(1) fresh(1) id by auto
    then show ?thesis using added us fresh(2) cnt_us room eq(2) id
      by (auto simp: bufferLimits_def)
  next
    case bare
    then show ?thesis using lim fresh cnt eq(2) id by (auto simp: bufferLimits_def)
  qed
qed

definition sampleBuffer :: "int \<Rightarrow> int \<Rightarrow> int \<Rightarrow> nat \<Rightarrow> buffer" where
  "sampleBuffer a v st k =
     \<lparr>bufferId = k, attrID = a, addVal = v, statusBit = st, lastTime = 3, animeID = 0, target = Some 20\<rparr>"

theorem addBuffer_limit_witness:
  "bufferLimits novice \<and> bufferLimits (addBuffer (sampleBuffer SPEED 7 BUFFER_HIDE 0) novice)"
proof -
  have n: "bufferLimits novice" by (simp add: bufferLimits_def bufs_def novice_def)
  then show ?thesis
    using addBuffer_limit [OF n, of "sampleBuffer SPEED 7 BUFFER_HIDE 0"]
    by (simp add: sampleBuffer_def isClearStatusBitBuffer_def)
qed

section \<open>Two slips\<close>

lemma escapeStatus: "isBattleStatus (snd (setBattleStatus BSTATUS_ESCAPE g)) BSTATUS_ESCAPE"
proof -
  have "bit (jand (jor x BSTATUS_ESCAPE) BSTATUS_ESCAPE) 0" for x by (simp add: bit_jand bit_jor)
  then have "jand (jor x BSTATUS_ESCAPE) BSTATUS_ESCAPE \<noteq> 0" for x by (metis bit_0_eq bot_apply bot_bool_def)
  then show ?thesis by (simp add: isBattleStatus_def setBattleStatus_def)
qed

text \<open>the state that resists taunts has the number 32, whose bit \<open>1 << 32\<close> is the bit
  of an escaped character: a character that gets this buffer counts as escaped.\<close>

theorem resistSneer_escapes:
  assumes "statusBit e = BUFFER_RESIST_SNEER" "\<not> isClearStatusBitBuffer e"
  shows "isBattleStatus (addBuffer e f) BSTATUS_ESCAPE"
proof -
  have s: "statusOf e = BSTATUS_ESCAPE" using assms(1) by (simp add: statusOf_def getBufferBitValue_def jshl_def)
  have t: "fst (setBattleStatus BSTATUS_ESCAPE g)" for g by (simp add: setBattleStatus_def)
  have "\<exists>g. addBuffer e f = snd (setBattleStatus BSTATUS_ESCAPE g)"
    using assms(2) s by (auto simp: addBuffer_def Let_def case_prod_beta t isClearStatusBitBuffer_def statusOf_def)
  then show ?thesis using escapeStatus by metis
qed

theorem resistSneer_escapes_witness:
  "\<not> isBattleStatus novice BSTATUS_ESCAPE
   \<and> isBattleStatus (addBuffer (sampleBuffer SPEED 7 BUFFER_RESIST_SNEER 0) novice) BSTATUS_ESCAPE"
  using resistSneer_escapes [of "sampleBuffer SPEED 7 BUFFER_RESIST_SNEER 0" novice]
  by (simp add: isBattleStatus_def novice_def jand_def sampleBuffer_def isClearStatusBitBuffer_def)

text \<open>two status-clearing buffers in the same round both collect a buffer of the kind
  they clear, and each time its change is taken back: a bonus of 20 to which the buffer
  contributed 7 drops to 6 instead of 13.\<close>

theorem runBufferList_destroys_twice:
  "bonus (fst (runBufferList True
      (novice\<lparr>bonus := (\<lambda>_. 20), nextBufferId := 3,
              battleBufferList := Some [sampleBuffer BUFFER_REMOVE_STATUS BUFFER_TYPE_BUFF 0 0,
                                        sampleBuffer BUFFER_REMOVE_STATUS BUFFER_TYPE_BUFF 0 1,
                                        sampleBuffer SPEED 7 BUFFER_HIDE 2]\<rparr>))) Speed = 6"
  by code_simp

end
