(* ===== verification/Safety.thy ===== *)
theory Safety
  imports Round BufferProps
begin

text \<open>
  What a round of battle can do to a character.

  The locale \<open>fighter_contract\<close> is the interface between the battle and the
  characters: a predicate \<open>J\<close> on the character of each slot that the elementary
  changes of a character keep.  Inside it, \<open>J\<close> is shown to survive every
  operation on buffers, every power and every action, up to a whole round
  \<open>logicRound\<close>.  The theory \<open>RoundProps\<close> interprets it.
\<close>

section \<open>Preservation by computations\<close>

definition keeps :: "(battle \<Rightarrow> bool) \<Rightarrow> 'a act \<Rightarrow> bool" where
  "keeps I m = (\<forall>b. I b \<longrightarrow> I (snd (run_state m b)))"

lemma keeps_ret [keeps_intro]: "keeps I (ret x)"
  by (simp add: keeps_def State_Monad.return_def)

lemma keeps_bind [keeps_intro]: "keeps I m \<Longrightarrow> (\<And>x. keeps I (g x)) \<Longrightarrow> keeps I (m \<bind> g)"
  by (auto simp: keeps_def State_Monad.bind_def split: prod.split)

lemma keeps_ask [keeps_intro]: "keeps I (ask h)"
  by (simp add: keeps_def ask_def)

lemma keeps_look [keeps_intro]: "keeps I (look p h)"
  by (simp add: look_def keeps_ask)

lemma keeps_upd: "(\<And>b. I b \<Longrightarrow> I (g b)) \<Longrightarrow> keeps I (upd g)"
  by (simp add: keeps_def upd_def)

lemma keeps_if [keeps_intro]:
  "(c \<Longrightarrow> keeps I m) \<Longrightarrow> (\<not> c \<Longrightarrow> keeps I n) \<Longrightarrow> keeps I (if c then m else n)"
  by simp

lemma keeps_prod [keeps_intro]: "(\<And>x y. keeps I (g x y)) \<Longrightarrow> keeps I (case z of (x, y) \<Rightarrow> g x y)"
  by (cases z) simp

lemma keeps_option [keeps_intro]:
  "keeps I m \<Longrightarrow> (\<And>x. keeps I (g x)) \<Longrightarrow> keeps I (case z of None \<Rightarrow> m | Some x \<Rightarrow> g x)"
  by (cases z) simp_all

lemma keeps_let [keeps_intro]: "(\<And>x. keeps I (g x)) \<Longrightarrow> keeps I (Let v g)"
  by simp

lemma keeps_forEach [keeps_intro]: "(\<And>p. keeps I (m p)) \<Longrightarrow> keeps I (forEach m ps)"
  by (induction ps) (simp_all add: keeps_intro)

section \<open>Buffers\<close>

text \<open>A buffer that a battle leaves changes an attribute of the battle or none.\<close>

definition bufferOk :: "buffer \<Rightarrow> bool" where
  "bufferOk u = (battleAttr (attrID u) \<or> isPermanentBuffer u)"

lemma bufferOk_fields [simp]:
  "bufferOk (u\<lparr>lastTime := v\<rparr>) = bufferOk u" "bufferOk (u\<lparr>bufferId := k\<rparr>) = bufferOk u"
  "bufferOk (u\<lparr>addVal := v\<rparr>) = bufferOk u" "bufferOk (clearStatus u) = bufferOk u" "bufferOk (finish u) = bufferOk u"
  by (simp_all add: bufferOk_def isPermanentBuffer_def clearStatus_def finish_def)

lemma bufferOk_alloc: "battleAttr i \<or> i = BUFFER_REMOVE_STATUS \<Longrightarrow> bufferOk (buffer_alloc i k n a r s l)"
  by (auto simp: bufferOk_def buffer_alloc_def Let_def isPermanentBuffer_def)

lemma battleAttr_HP [simp]: "battleAttr HP" and battleAttr_MP [simp]: "battleAttr MP"
  and battleAttr_ARGO [simp]: "battleAttr ARGO"
  by (simp_all add: battleAttr_def)

lemma battleAttr_others [simp]: "battleAttr KEEPOUT_ATK_TIME" "battleAttr ATK_TIME" "battleAttr DEF_FIELD"
  by (simp_all add: battleAttr_def bonusCase_def)

lemma battleAttr_power: "powerAttr c = Some (g, q) \<Longrightarrow> battleAttr g"
  unfolding powerAttr_def battleAttr_def by (auto simp: bonusCase_def split: if_splits)

locale fighter_contract =
  fixes J :: "int \<Rightarrow> fighter \<Rightarrow> bool"
  assumes J_addValue: "J p f \<Longrightarrow> battleAttr t \<Longrightarrow> J p (addValue t i f)"
    and J_bStatus: "J p f \<Longrightarrow> J p (f\<lparr>bStatus := v\<rparr>)"
    and J_tabs: "J p f \<Longrightarrow> J p (f\<lparr>intValue1 := v\<rparr>)"
    and J_buffers: "J p f \<Longrightarrow> J p (f\<lparr>battleBufferList := us\<rparr>)"
    and J_ids: "J p f \<Longrightarrow> J p (f\<lparr>nextBufferId := n\<rparr>)"
    and J_target: "J p f \<Longrightarrow> J p (setTargetPos v f)"
    and J_item: "J p f \<Longrightarrow> fbag f = Some bg \<Longrightarrow> J p (f\<lparr>fbag := Some (snd (removeBagItemByPos t 1 bg))\<rparr>)"
begin

definition K :: "int \<Rightarrow> fighter \<Rightarrow> bool" where
  "K p f = (J p f \<and> list_all bufferOk (bufs f))"

lemma K_addValue: "K p f \<Longrightarrow> battleAttr t \<Longrightarrow> K p (addValue t i f)"
  by (simp add: K_def J_addValue)

lemma K_list: "K p f \<Longrightarrow> list_all bufferOk us \<Longrightarrow> K p (f\<lparr>battleBufferList := Some us\<rparr>)"
  by (simp add: K_def J_buffers)

lemma K_None: "K p f \<Longrightarrow> K p (f\<lparr>battleBufferList := None\<rparr>)"
  by (simp add: K_def J_buffers bufs_def)

lemma K_ids: "K p f \<Longrightarrow> K p (f\<lparr>nextBufferId := n\<rparr>)"
  by (simp add: K_def J_ids)

lemma K_tab: "K p f \<Longrightarrow> K p (setTabStatus e t f)"
  by (simp add: K_def setTabStatus_def J_tabs bufs_def)

lemma K_clear: "K p f \<Longrightarrow> K p (clearBattleStatus s f)"
  by (simp add: K_def clearBattleStatus_def J_bStatus bufs_def)

lemma K_set: "K p f \<Longrightarrow> K p (snd (setBattleStatus s f))"
  by (simp add: K_def setBattleStatus_def J_bStatus bufs_def)

lemma K_destroy: "K p f \<Longrightarrow> bufferOk u \<Longrightarrow> K p (destroy u f)"
  by (auto simp: destroy_def bufferOk_def K_addValue)

lemma K_bufs: "K p f \<Longrightarrow> u \<in> set (bufs f) \<Longrightarrow> bufferOk u"
  by (simp add: K_def list_all_iff)

lemma K_all: "K p f \<Longrightarrow> list_all bufferOk (bufs f)"
  by (simp add: K_def)

lemma K_Some: "K p f \<Longrightarrow> battleBufferList f = Some us \<Longrightarrow> list_all bufferOk us"
  by (simp add: K_def bufs_def)

lemma K_removeBuffer: "K p f \<Longrightarrow> K p (removeBuffer u f)"
  using set_removeId [of "bufferId u" "bufs f"]
  by (auto simp: K_def list_all_iff) (simp add: removeBuffer_def J_buffers)

lemma K_drop: "K p f \<Longrightarrow> bufferOk u \<Longrightarrow> K p (clearBattleStatus s (removeBuffer u (destroy u f)))"
  by (simp add: K_clear K_removeBuffer K_destroy)

lemmas K_basic = K_addValue K_list K_None K_ids K_tab K_clear K_set K_destroy K_removeBuffer K_drop

lemma K_sizeLoop: "K p f \<Longrightarrow> list_all bufferOk as \<Longrightarrow> K p (snd (sizeLoop e as t f))"
  by (induction e as t f rule: sizeLoop.induct) (simp_all add: K_basic)

lemma K_checkBufferSize: "K p f \<Longrightarrow> K p (checkBufferSize e f)"
proof -
  assume f: "K p f"
  then have "K p (snd (sizeLoop e (rev (bufs f)) 0 f))" by (intro K_sizeLoop) (simp_all add: K_def)
  with f show ?thesis by (auto simp: checkBufferSize_def Let_def K_clear split: prod.split)
qed

lemma K_addBuffer:
  assumes "K p f" "bufferOk e"
  shows "K p (addBuffer e f)"
proof -
  have l: "list_all bufferOk (bufs g)" if "K p g" for g using that by (simp add: K_def)
  show ?thesis
    unfolding addBuffer_def Let_def case_prod_beta using assms
    by (simp add: K_basic K_checkBufferSize l)
qed

lemma K_clearLoop: "K p f \<Longrightarrow> list_all bufferOk us \<Longrightarrow> K p (clearLoop e us f)"
  by (induction e us f rule: clearLoop.induct) (simp_all add: K_basic)

lemma K_clearBufferList: "K p f \<Longrightarrow> K p (clearBufferList e f)"
  by (auto simp: clearBufferList_def Let_def K_None K_clearLoop K_Some split: option.split)

lemma K_removeStatusLoop: "K p f \<Longrightarrow> list_all bufferOk us \<Longrightarrow> K p (removeStatusLoop e us f)"
  by (induction e us f rule: removeStatusLoop.induct) (simp_all add: K_basic)

lemma K_removeBufferByStatus: "K p f \<Longrightarrow> K p (removeBufferByStatus e f)"
  by (simp add: removeBufferByStatus_def K_removeStatusLoop K_all)

lemma K_hpMp: "K p f \<Longrightarrow> t = HP \<or> t = MP \<Longrightarrow> K p (fst (snd (processBattleHpMpPower t i k r f)))"
  by (auto simp: processBattleHpMpPower_def Let_def K_addValue)

lemma K_reborn: "K p f \<Longrightarrow> K p (fst (snd (processBattleReborn t i n f)))"
  by (simp add: processBattleReborn_def Let_def K_addValue K_clearBufferList)

lemma K_die: "K p f \<Longrightarrow> K p (fst (checkDie1HpOf f))"
  using K_reborn [OF K_tab] by (simp add: checkDie1HpOf_def prod.case_eq_if)

lemma K_setBufferAt: "K p f \<Longrightarrow> (k < length (bufs f) \<Longrightarrow> bufferOk u) \<Longrightarrow> K p (setBufferAt k u f)"
proof -
  assume f: "K p f" and u: "k < length (bufs f) \<Longrightarrow> bufferOk u"
  have "list_all bufferOk ((bufs f)[k := u])"
    using f u by (cases "k < length (bufs f)") (auto simp: K_def list_all_length nth_list_update)
  then have "list_all bufferOk (bufs (setBufferAt k u f))"
    by (cases "battleBufferList f") (simp_all add: setBufferAt_def bufs_def)
  with f show ?thesis by (simp add: K_def setBufferAt_def J_buffers)
qed

lemma length_setBufferAt [simp]: "length (bufs (setBufferAt k u f)) = length (bufs f)"
  by (simp add: setBufferAt_def bufs_def split: option.split)

lemma K_runBuffer: "K p f \<Longrightarrow> K p (fst (runBuffer k f))"
proof -
  assume f: "K p f"
  let ?a = "bufs f ! k"
  let ?g = "setBufferAt k (?a\<lparr>lastTime := lastTime ?a - 1\<rparr>) f"
  have g: "K p ?g" using f by (intro K_setBufferAt) (auto intro: K_bufs)
  show ?thesis
    using f g K_die [OF K_hpMp [OF g]] by (auto simp: runBuffer_def Let_def prod.case_eq_if)
qed

lemma K_finishSame:
  "K p f \<Longrightarrow> \<forall>r\<in>set rs. r < length (bufs f) \<Longrightarrow>
   K p (fst (finishSame a rs f)) \<and> list_all bufferOk (snd (finishSame a rs f))"
proof (induction a rs f rule: finishSame.induct)
  case (2 a r rs f)
  have s: "bufferOk (bufs f ! r)" using "2.prems" by (auto intro: K_bufs)
  then have "K p (setBufferAt r (finish (bufs f ! r)) f)" using "2.prems"(1) by (intro K_setBufferAt) auto
  with 2 s show ?case by (auto simp: Let_def prod.case_eq_if)
qed simp

lemma K_runLoop:
  "K p f \<Longrightarrow> list_all bufferOk i \<Longrightarrow>
   K p (fst (snd (runLoop ks f t i))) \<and> list_all bufferOk (snd (snd (snd (runLoop ks f t i))))"
proof (induction ks arbitrary: f t i)
  case (Cons k ks)
  let ?f = "fst (runBuffer k f)"
  have f: "K p ?f" by (rule K_runBuffer [OF Cons.prems(1)])
  then have "K p (fst (finishSame a [k + 1..<length (bufs ?f)] ?f))
      \<and> list_all bufferOk (snd (finishSame a [k + 1..<length (bufs ?f)] ?f))" for a
    by (intro K_finishSame) auto
  with Cons f show ?case by (simp add: Let_def prod.case_eq_if)
qed simp

lemma K_dropLoop: "K p f \<Longrightarrow> list_all bufferOk us \<Longrightarrow> K p (dropLoop us f)"
  by (induction us f rule: dropLoop.induct) (simp_all add: K_basic)

lemma K_setAll: "K p f \<Longrightarrow> K p (fold (\<lambda>a f. snd (setBattleStatus (statusOf a) f)) us f)"
  by (induction us arbitrary: f) (simp_all add: K_set)

lemma K_dropAll: "K p f \<Longrightarrow> list_all bufferOk us \<Longrightarrow> K p (dropAll us f)"
  by (simp add: dropAll_def Let_def K_setAll K_dropLoop)

lemma K_runBufferList: "K p f \<Longrightarrow> K p (fst (runBufferList e f))"
proof (cases "battleBufferList f")
  case (Some us)
  assume f: "K p f"
  then have "list_all bufferOk (filter (\<lambda>a. lastTime a \<le> 0) us)"
    using K_Some [OF f Some] by (simp add: list_all_iff)
  with f Some K_runLoop [OF f, of "[]" "[0..<length us]" "[]"] show ?thesis
    by (simp add: runBufferList_def Let_def prod.case_eq_if K_dropAll)
qed (simp add: runBufferList_def)

lemma K_useKeepLoop: "K p f \<Longrightarrow> K p (useKeepLoop ks f)"
proof (induction ks)
  case (Cons k ks)
  have "bufferOk (snd (useKeeAtkTime (bufs f ! k)))" if "k < length (bufs f)"
    using K_bufs [OF Cons.prems, of "bufs f ! k"] that by (simp add: useKeeAtkTime_def)
  then show ?case using Cons by (auto simp: Let_def prod.case_eq_if intro!: K_setBufferAt)
qed simp

lemma K_doKeepAtkTime: "K p f \<Longrightarrow> K p (doKeepAtkTime f)"
  by (simp add: doKeepAtkTime_def Let_def K_useKeepLoop K_addValue)

lemma K_special: "K p f \<Longrightarrow> t = HP \<or> t = MP \<Longrightarrow> K p (addBufferBySpecial e t i a u l f)"
  by (auto simp: addBufferBySpecial_def intro!: K_addBuffer bufferOk_alloc)

lemma K_keepOut: "K p f \<Longrightarrow> K p (fst (snd (processBattleKeepOutPower t f)))"
  by (simp add: processBattleKeepOutPower_def Let_def K_tab)

text \<open>The outcome of a power: a kept character, and a buffer on an attribute of the
  battle if it goes on.\<close>

definition fine :: "int \<Rightarrow> power_result \<Rightarrow> bool" where
  "fine p r = (K p (fst (snd r)) \<and> (\<forall>g S. fst r = Go g S \<longrightarrow> battleAttr g \<or> g = BUFFER_REMOVE_STATUS \<or> g < 0))"

lemma fine_changeHpMp: "K p f \<Longrightarrow> g = HP \<or> g = MP \<Longrightarrow> fine p (changeHpMp g S a T E u es f)"
  using K_hpMp [of p f g S E False] K_special K_die
  by (auto simp: changeHpMp_def fine_def prod.case_eq_if)

lemma fine_hp: "K p f \<Longrightarrow> fine p (applyPowerHp o' q a T E u f)"
  using K_keepOut [of p f "toInt32 q"]
  by (auto simp: applyPowerHp_def Let_def prod.case_eq_if intro!: fine_changeHpMp) (auto simp: fine_def)

lemma fine_hpPercent: "K p f \<Longrightarrow> fine p (applyPowerHpPercent o' tc q a T E u f)"
  using K_keepOut [of p f]
  by (auto simp: applyPowerHpPercent_def Let_def prod.case_eq_if intro!: fine_changeHpMp) (auto simp: fine_def)

lemma fine_reborn: "K p f \<Longrightarrow> fine p (applyReborn M N E f)"
  using K_reborn [of p f M N E] by (auto simp: applyReborn_def fine_def prod.case_eq_if)

lemma fine_keepout: "K p f \<Longrightarrow> fine p (applyKeepout q f)"
  by (simp add: applyKeepout_def fine_def Let_def K_addValue)

lemma fine_Go: "K p f \<Longrightarrow> battleAttr g \<or> g = BUFFER_REMOVE_STATUS \<or> g < 0 \<Longrightarrow> fine p (Go g S, f, y, cs)"
  by (simp add: fine_def)

lemma fine_Stop: "K p f \<Longrightarrow> fine p (Stop, f, y, cs)"
  by (simp add: fine_def)

lemma fine_applyPower:
  assumes f: "K p f"
  shows "fine p (applyPower o' tc c q a T E u f)"
proof (cases "atkTimePower c (getEquipWeaponType f)")
  case (Some ok)
  then show ?thesis using f by (simp add: applyPower_def fine_Go fine_Stop K_addValue)
next
  case time: None
  show ?thesis
  proof (cases "powerAttr c")
    case (Some gp)
    then obtain g q' where "powerAttr c = Some (g, q')" by (cases gp) auto
    with time f battleAttr_power [OF this] show ?thesis
      by (simp add: applyPower_def Let_def fine_Go K_addValue)
  next
    case None
    with time f show ?thesis
      by (simp add: applyPower_def fine_hp fine_hpPercent fine_reborn fine_keepout applyPowerMp_def
          applyPowerMpPercent_def fine_changeHpMp fine_Go K_removeBufferByStatus)
  qed
qed

lemma K_leave:
  "K p f \<Longrightarrow> battleAttr g \<or> g = BUFFER_REMOVE_STATUS \<or> g < 0 \<Longrightarrow> K p (snd (leaveBuffer c g S a T E u v f))"
  by (auto simp: leaveBuffer_def Let_def intro!: K_addBuffer bufferOk_alloc)

lemma K_powerOnFighter: "K p f \<Longrightarrow> K p (snd (powerOnFighter o' tc c q a T E u f))"
proof -
  assume f: "K p f"
  obtain r e y cs where ap: "applyPower o' tc c q a T E u f = (r, e, y, cs)" by (metis prod.exhaust)
  with fine_applyPower [OF f] have e: "K p e" "\<And>g S. r = Go g S \<Longrightarrow> battleAttr g \<or> g = BUFFER_REMOVE_STATUS \<or> g < 0"
    by (metis fine_def fst_conv snd_conv)+
  show ?thesis
  proof (cases r)
    case Stop
    with e ap show ?thesis by (simp add: powerOnFighter_def)
  next
    case (Go g S)
    with K_leave [OF e(1) e(2) [OF Go]] ap show ?thesis
      by (simp add: powerOnFighter_def prod.case_eq_if Let_def)
  qed
qed

end

section \<open>Actions\<close>

text \<open>The part of a battle that only the end of a round changes.\<close>

definition static :: "battle \<Rightarrow> (int \<times> int \<times> int \<times> int) \<times> (plan option list \<times> int \<times> bool \<times> bool) \<times> (nat \<Rightarrow> int) \<times> bool list" where
  "static b = ((rowLeft b, rowRight b, round b, result b),
               (playerPlanData b, waitStatus b, isLeftHavePlayer b, isRightHavePlayer b), draws b,
               map (\<lambda>x. x = None) (playerList b))"

lemma static_fields [simp]:
  "static (b\<lparr>guardHash := x1\<rparr>) = static b" "static (b\<lparr>resultControlList := x2\<rparr>) = static b"
  "static (b\<lparr>totalHitTime := x3\<rparr>) = static b" "static (b\<lparr>block := x4\<rparr>) = static b"
  "static (b\<lparr>isLeftHand := x5\<rparr>) = static b" "static (b\<lparr>battleAtkType := x6\<rparr>) = static b"
  "static (b\<lparr>randCnt := x7\<rparr>) = static b" "static (b\<lparr>drawn := x8\<rparr>) = static b" "static (b\<lparr>failed := x9\<rparr>) = static b"
  by (simp_all add: static_def)

lemma static_setFighter [simp]: "static (setFighter p f b) = static b"
proof -
  have "map (\<lambda>x. x = None) (jset (playerList b) p (Some f)) = map (\<lambda>x. x = None) (playerList b)"
    if "jget (playerList b) p \<noteq> None"
  proof -
    from that have p: "0 \<le> p" "p < int (length (playerList b))" "playerList b ! nat p \<noteq> None"
      by (auto simp: jget_def split: if_splits)
    then have "(map (\<lambda>x. x = None) (playerList b))[nat p := False] = map (\<lambda>x. x = None) (playerList b)"
      by (intro list_update_same_conv [THEN iffD2]) (simp_all add: nat_less_iff)
    with p show ?thesis by (simp add: jset_def map_update)
  qed
  then show ?thesis by (simp add: static_def setFighter_def)
qed

text \<open>A round up to its last step, which counts it and decides the battle.\<close>

definition roundBody :: "unit act" where
  "roundBody = do {
     upd (\<lambda>b. b\<lparr>guardHash := (\<lambda>_. None), resultControlList := []\<rparr>);
     doRoundBuffer;
     ps \<leftarrow> ask sortModelListBySpeed;
     forEach doRoundHpMp ps;
     forEach doAutoSkill ps;
     qs \<leftarrow> ask sortModelListBySpeed;
     forEach turn qs;
     doEndRoundCheckBuffer }"

lemma bind_upd: "snd (run_state (m \<bind> (\<lambda>_. upd g)) b) = g (snd (run_state m b))"
  by (simp add: State_Monad.bind_def upd_def prod.case_eq_if)

lemma logicRound_split:
  "snd (run_state logicRound b) =
     (let b' = snd (run_state roundBody b) in updateBattleResult (b'\<lparr>round := round b' + 1, waitStatus := 0\<rparr>))"
proof -
  have e: "logicRound = roundBody \<bind> (\<lambda>_. upd (\<lambda>b. updateBattleResult (b\<lparr>round := round b + 1, waitStatus := 0\<rparr>)))"
    unfolding logicRound_def roundBody_def by (simp add: State_Monad.bind_assoc)
  show ?thesis unfolding e bind_upd Let_def ..
qed

context fighter_contract
begin

definition safe where
  "safe r b = (static b = r \<and> (\<forall>p f. jget (playerList b) p = Some f \<longrightarrow> K p f))"

lemma safe_setFighter:
  assumes "safe r b" "\<And>f. K p f \<Longrightarrow> K p (g f)"
  shows "safe r (setFighter p (g (slotFighter b p)) b)"
proof (cases "jget (playerList b) p")
  case None
  with assms(1) show ?thesis by (simp add: setFighter_def)
next
  case (Some y)
  then have p: "0 \<le> p" "K p (g y)" using assms by (auto simp: safe_def dest: jget_Some_D)
  have "playerList (setFighter p (g (slotFighter b p)) b) = jset (playerList b) p (Some (g y))"
    using Some by (simp add: setFighter_def slotFighter_def)
  with assms(1) p show ?thesis by (simp add: safe_def jget_jset)
qed

lemma keeps_onFighter: "(\<And>f. K p f \<Longrightarrow> K p (g f)) \<Longrightarrow> keeps (safe r) (onFighter p g)"
  by (simp add: onFighter_def keeps_upd safe_setFighter)

lemma keeps_runFighter: "(\<And>f. K p f \<Longrightarrow> K p (snd (g f))) \<Longrightarrow> keeps (safe r) (runFighter p g)"
  using safe_setFighter [of r _ p "\<lambda>f. snd (g f)"]
  by (simp add: keeps_def runFighter_def Let_def prod.case_eq_if)

lemma safe_fields [simp]:
  "safe r (b\<lparr>guardHash := x1\<rparr>) = safe r b" "safe r (b\<lparr>resultControlList := x2\<rparr>) = safe r b"
  "safe r (b\<lparr>totalHitTime := x3\<rparr>) = safe r b" "safe r (b\<lparr>block := x4\<rparr>) = safe r b"
  "safe r (b\<lparr>isLeftHand := x5\<rparr>) = safe r b" "safe r (b\<lparr>battleAtkType := x6\<rparr>) = safe r b"
  "safe r (b\<lparr>randCnt := x7\<rparr>) = safe r b" "safe r (b\<lparr>drawn := x8\<rparr>) = safe r b" "safe r (b\<lparr>failed := x9\<rparr>) = safe r b"
  by (simp_all add: safe_def)

lemma safe_guard: "safe r (addGuardData e t i k b) = safe r b"
  by (simp add: addGuardData_def)

lemma safe_skillGuard: "safe r (setSkillGuardData s t i b) = safe r b"
proof -
  have "safe r (fold (\<lambda>x. addGuardData x q t n) i b) = safe r b" for q n
    by (induction i arbitrary: b) (simp_all add: safe_guard)
  then show ?thesis by (simp add: setSkillGuardData_def Let_def)
qed

lemma safe_sub [simp]: "safe r (setSubControlList n es b) = safe r b"
  by (simp add: setSubControlList_def)

lemmas keeps_fighter = keeps_onFighter keeps_runFighter
lemmas K_ops = K_basic K_addBuffer K_clearBufferList K_removeBufferByStatus K_doKeepAtkTime K_runBufferList
  K_powerOnFighter K_hpMp K_reborn K_die

lemma keeps_draw [keeps_intro]:
  "keeps (safe r) typeError" "keeps (safe r) nextDraw" "keeps (safe r) (randInt e)" "keeps (safe r) (randRange e t)"
proof -
  show "keeps (safe r) typeError" unfolding typeError_def by (rule keeps_upd) simp
  show n: "keeps (safe r) nextDraw" by (simp add: nextDraw_def keeps_def)
  show "keeps (safe r) (randInt e)" for e
    unfolding randInt_def by (intro keeps_intro n keeps_upd) simp
  then show "keeps (safe r) (randRange e t)" unfolding randRange_def by (intro keeps_intro)
qed

lemma keeps_targets [keeps_intro]:
  "keeps (safe r) (getGuardPos e t)" "keeps (safe r) (pickRandom xs n)" "keeps (safe r) (selectRandTarget p en)"
  "keeps (safe r) (selectRandActivePlayer p)" "keeps (safe r) (selectRandDeadFriend p)"
proof -
  show k: "keeps (safe r) (pickRandom xs n)" for xs n unfolding pickRandom_def by (intro keeps_intro)
  show "keeps (safe r) (getGuardPos e t)" unfolding getGuardPos_def by (intro keeps_intro)
  show "keeps (safe r) (selectRandTarget p en)" "keeps (safe r) (selectRandActivePlayer p)" "keeps (safe r) (selectRandDeadFriend p)"
    unfolding selectRandTarget_def selectRandActivePlayer_def selectRandDeadFriend_def by (intro keeps_intro k)+
qed

lemma keeps_power [keeps_intro]:
  "keeps (safe r) (isWilSuccess p u s)" "keeps (safe r) (isResisted p u s st)" "keeps (safe r) (addAniControl ctl)"
  "keeps (safe r) (addEffects es)" "keeps (safe r) (checkDie1Hp p)" "keeps (safe r) (processBattlePower p u s c v st T E)"
proof -
  show w: "keeps (safe r) (isWilSuccess p u s)" for p u s unfolding isWilSuccess_def by (intro keeps_intro)
  show i: "keeps (safe r) (isResisted p u s st)" for st unfolding isResisted_def by (intro keeps_intro w)
  show "keeps (safe r) (addAniControl ctl)" unfolding addAniControl_def by (rule keeps_upd) simp
  show e: "keeps (safe r) (addEffects es)" for es unfolding addEffects_def by (rule keeps_upd) simp
  show "keeps (safe r) (checkDie1Hp p)"
    unfolding checkDie1Hp_def by (intro keeps_intro e keeps_runFighter) (simp add: K_die prod.case_eq_if)
  show "keeps (safe r) (processBattlePower p u s c v st T E)"
    unfolding processBattlePower_def by (intro keeps_intro i e keeps_runFighter) (simp add: K_powerOnFighter)
qed

lemma keeps_damage [keeps_intro]:
  "keeps (safe r) (calcDamageValue p q s)" "keeps (safe r) (calInsight p q s)" "keeps (safe r) (calBackValue p q s v)"
  "keeps (safe r) (calDefFieldDmg q v)"
  unfolding calcDamageValue_def calInsight_def calBackValue_def calDefFieldDmg_def
  by (intro keeps_intro keeps_onFighter; simp add: K_addValue)+

lemma keeps_direct [keeps_intro]: "keeps (safe r) (calcDirectDamage p q s num)"
  unfolding calcDirectDamage_def by (intro keeps_intro keeps_onFighter; simp add: K_tab)

lemma keeps_delDamage [keeps_intro]: "keeps (safe r) (delDamageEffect d p q)"
  unfolding delDamageEffect_def by (intro keeps_intro keeps_onFighter; simp add: K_addValue)

lemma keeps_hitLoop [keeps_intro]: "keeps (safe r) (hitLoop m p q s num c h v w)"
proof (induction m arbitrary: h v w)
  case (Suc m)
  show ?case unfolding hitLoop.simps by (intro keeps_intro keeps_upd Suc.IH; simp)
qed (simp add: keeps_intro)

lemma keeps_calDamage [keeps_intro]: "keeps (safe r) (calDamage p q s num)"
  unfolding calDamage_def by (intro keeps_intro keeps_upd; simp add: Let_def)

lemma keeps_guarded [keeps_intro]: "keeps (safe r) (guarded q k c)"
  unfolding guarded_def getGrardPet_def isPetSucessGrard_def by (intro keeps_intro)

lemma keeps_keepOut [keeps_intro]: "keeps (safe r) (clearKeepOut q)" "keeps (safe r) (useKeepOut q)"
  unfolding clearKeepOut_def useKeepOut_def
  by (intro keeps_intro keeps_onFighter; simp add: K_tab K_doKeepAtkTime)+

lemma keeps_attack [keeps_intro]: "keeps (safe r) (strike p q c)" "keeps (safe r) (doAttack p t)"
proof -
  show s: "keeps (safe r) (strike p q c)" for q c unfolding strike_def by (intro keeps_intro keeps_upd; simp)
  show "keeps (safe r) (doAttack p t)" unfolding doAttack_def by (intro keeps_intro s)
qed

lemma keeps_powers [keeps_intro]:
  "keeps (safe r) (processSkillPower q p s)" "keeps (safe r) (processItemPower q m)"
  unfolding processSkillPower_def processItemPower_def by (intro keeps_intro)+

lemma keeps_hpMpPower: "g = HP \<or> g = MP \<Longrightarrow> keeps (safe r) (hpMpPower p g v self)"
  unfolding hpMpPower_def by (rule keeps_runFighter) (simp add: K_hpMp prod.case_eq_if)

lemma keeps_skillLoop [keeps_intro]: "keeps (safe r) (skillLoop qs p s a m num h es)"
proof (induction qs arbitrary: h es)
  case (Cons q qs)
  show ?case unfolding skillLoop.simps by (intro keeps_intro Cons.IH)
qed (simp add: keeps_intro)

lemma keeps_skillGain [keeps_intro]: "keeps (safe r) (skillGain p s)"
  unfolding skillGain_def by (intro keeps_intro keeps_hpMpPower; simp)

lemma K_removeOwnStatus: "K p f \<Longrightarrow> K p (removeOwnStatus s f)"
  by (simp add: removeOwnStatus_def Let_def K_removeBufferByStatus)

lemma keeps_cast [keeps_intro]: "keeps (safe r) (castSkill p s i)"
  unfolding castSkill_def
  by (intro keeps_intro keeps_upd keeps_onFighter keeps_hpMpPower; simp add: safe_skillGuard K_removeOwnStatus)

lemma keeps_use [keeps_intro]:
  "keeps (safe r) (attackInstead p s j)" "keeps (safe r) (doUseSkill p s i)" "keeps (safe r) (doUseSkillById p k i)"
proof -
  show a: "keeps (safe r) (attackInstead p s j)" for s j unfolding attackInstead_def by (intro keeps_intro)
  show u: "keeps (safe r) (doUseSkill p s i)" for s unfolding doUseSkill_def by (intro keeps_intro a)
  show "keeps (safe r) (doUseSkillById p k i)" unfolding doUseSkillById_def by (intro keeps_intro u)
qed

lemma keeps_itemLoop [keeps_intro]: "keeps (safe r) (itemLoop ts m es)"
proof (induction ts arbitrary: es)
  case (Cons t ts)
  show ?case unfolding itemLoop.simps by (intro keeps_intro Cons.IH)
qed (simp add: keeps_intro)

lemma K_item: "K p f \<Longrightarrow> K p (f\<lparr>fbag := map_option (\<lambda>bg. snd (removeBagItemByPos t 1 bg)) (fbag f)\<rparr>)"
proof (cases "fbag f")
  case None
  then have "f\<lparr>fbag := map_option (\<lambda>bg. snd (removeBagItemByPos t 1 bg)) (fbag f)\<rparr> = f" by simp
  then show "K p f \<Longrightarrow> ?thesis" by metis
qed (simp add: K_def J_item bufs_def)

lemma keeps_item [keeps_intro]: "keeps (safe r) (doUseItem p t i)"
  unfolding doUseItem_def by (intro keeps_intro keeps_upd keeps_onFighter; simp add: K_item)

lemma keeps_escape [keeps_intro]: "keeps (safe r) (doEscape p t)"
  unfolding doEscape_def isEscapeSuccess_def by (intro keeps_intro keeps_onFighter; simp add: K_set)

lemma K_target: "K p f \<Longrightarrow> K p (setTargetPos v f)"
  using J_target by (simp add: K_def) (simp add: setTargetPos_def bufs_def)

lemma keeps_ai [keeps_intro]:
  "keeps (safe r) (isValidConAI p ai k)" "keeps (safe r) (getConSkill ai k)" "keeps (safe r) (selectAttackTarget p ai k)"
  unfolding isValidConAI_def getConSkill_def selectAttackTarget_def by (intro keeps_intro)+

lemma keeps_battleSkillLoop [keeps_intro]: "keeps (safe r) (battleSkillLoop ns p ai)"
proof (induction ns)
  case (Cons n ns)
  show ?case unfolding battleSkillLoop.simps by (intro keeps_intro Cons.IH keeps_onFighter; simp add: K_target)
qed (simp add: keeps_intro)

lemma keeps_autoSkillLoop [keeps_intro]: "keeps (safe r) (autoSkillLoop ns p ai)"
proof (induction ns)
  case (Cons n ns)
  show ?case unfolding autoSkillLoop.simps by (intro keeps_intro Cons.IH)
qed (simp add: keeps_intro)

lemma keeps_skillByAI [keeps_intro]: "keeps (safe r) (getSkillByAI a p)" "keeps (safe r) (getAttackTarget p)"
  unfolding getSkillByAI_def getBattleSkill_def getAttackTarget_def
  by (intro keeps_intro keeps_onFighter; simp add: K_target)+

lemma keeps_npc [keeps_intro]: "keeps (safe r) (doPetAI p)" "keeps (safe r) (doMonsterAI p)" "keeps (safe r) (doAutoSkill p)"
  unfolding doPetAI_def doMonsterAI_def doAutoSkill_def by (intro keeps_intro)+

lemma keeps_plan [keeps_intro]: "keeps (safe r) (doPlayerPlan p t)" "keeps (safe r) (turn p)"
proof -
  show d: "keeps (safe r) (doPlayerPlan p t)" for t unfolding doPlayerPlan_def by (intro keeps_intro)
  show "keeps (safe r) (turn p)" unfolding turn_def by (intro keeps_intro d)
qed

lemma keeps_roundStart [keeps_intro]: "keeps (safe r) (doRoundHpMp p)" "keeps (safe r) doRoundBuffer"
  unfolding doRoundHpMp_def doRoundBuffer_def roundBuffer_def
  by (intro keeps_intro keeps_hpMpPower keeps_fighter; simp add: K_runBufferList prod.case_eq_if)+

text \<open>What has been read from a character of the slot \<open>p\<close> was read from a kept one,
  unless the slot is empty and nothing happens to it.\<close>

definition slotIn :: "(int \<times> int \<times> int \<times> int) \<times> (plan option list \<times> int \<times> bool \<times> bool) \<times> (nat \<Rightarrow> int) \<times> bool list \<Rightarrow> int \<Rightarrow> bool" where
  "slotIn r p = (case r of (_, _, _, es) \<Rightarrow> 0 \<le> p \<and> p < int (length es) \<and> \<not> es ! nat p)"

lemma slotIn_iff: "safe r b \<Longrightarrow> slotIn r p = (jget (playerList b) p \<noteq> None)"
  by (auto simp: safe_def slotIn_def static_def jget_def nat_less_iff)

lemma keeps_lookAt:
  assumes "\<And>x. (slotIn r p \<Longrightarrow> \<exists>f. K p f \<and> x = h f) \<Longrightarrow> keeps (safe r) (g x)"
  shows "keeps (safe r) (look p h \<bind> g)"
  unfolding keeps_def
proof (intro allI impI)
  fix b assume b: "safe r b"
  have "\<exists>f. K p f \<and> h (slotFighter b p) = h f" if "slotIn r p"
    using that b slotIn_iff [OF b, of p] unfolding safe_def slotFighter_def by fastforce
  then have "keeps (safe r) (g (h (slotFighter b p)))" by (rule assms)
  with b show "safe r (snd (run_state (look p h \<bind> g) b))"
    by (simp add: keeps_def look_def ask_def State_Monad.bind_def)
qed

lemma keeps_onSlot:
  assumes "\<And>f. slotIn r p \<Longrightarrow> K p f \<Longrightarrow> K p (g f)"
  shows "keeps (safe r) (onFighter p g)"
proof (cases "slotIn r p")
  case True
  with assms show ?thesis by (intro keeps_onFighter) auto
next
  case False
  then have "safe r b \<Longrightarrow> setFighter p f b = b" for b f
    using slotIn_iff [of r b p] by (simp add: setFighter_def)
  then show ?thesis by (simp add: onFighter_def upd_def keeps_def)
qed

lemma keeps_wilRemove [keeps_intro]: "keeps (safe r) (doCheckWilBufferRemove p)"
  unfolding doCheckWilBufferRemove_def
proof (rule keeps_lookAt)
  fix i assume i: "slotIn r p \<Longrightarrow> \<exists>f. K p f \<and> i = filter (\<lambda>n. statusBit n \<noteq> BUFFER_NONE \<and> getBufferType (statusBit n) False = BUFFER_TYPE_DEBUFF) (bufs f)"
  have ok: "bufferOk u" if "slotIn r p" "u \<in> set i" for u
    using i [OF that(1)] that(2) by (auto intro: K_bufs)
  have step: "keeps (safe r) (onFighter p (\<lambda>e. if list_ex (\<lambda>l. statusBit l = statusBit (i ! nat k)) (removeId (bufferId (i ! nat k)) i)
       then removeBuffer (i ! nat k) (destroy (i ! nat k) e)
       else clearBattleStatus (statusOf (i ! nat k)) (removeBuffer (i ! nat k) (destroy (i ! nat k) e))))"
    if "\<not> (0 > k \<or> k \<ge> int (length i))" for k
  proof (rule keeps_onSlot)
    fix f assume "slotIn r p" "K p f"
    then have "bufferOk (i ! nat k)" using that by (intro ok) (auto simp: nat_less_iff)
    with \<open>K p f\<close> show "K p (if list_ex (\<lambda>l. statusBit l = statusBit (i ! nat k)) (removeId (bufferId (i ! nat k)) i)
       then removeBuffer (i ! nat k) (destroy (i ! nat k) f)
       else clearBattleStatus (statusOf (i ! nat k)) (removeBuffer (i ! nat k) (destroy (i ! nat k) f)))"
      by (simp add: K_basic)
  qed
  show "keeps (safe r) (if i = [] then ret ()
      else do {
        a \<leftarrow> isWilSuccess p None None;
        (if \<not> a then ret ()
         else do {
           r \<leftarrow> randRange 0 (int (length i) - 1);
           (case r of None \<Rightarrow> ret ()
            | Some r \<Rightarrow>
                (if 0 > r \<or> r \<ge> int (length i) then ret ()
                 else (let s = i ! nat r
                       in onFighter p (\<lambda>e.
                            let e = removeBuffer s (destroy s e)
                            in if list_ex (\<lambda>l. statusBit l = statusBit s) (removeId (bufferId s) i) then e
                               else clearBattleStatus (statusOf s) e)))) }) })"
    unfolding Let_def by (intro keeps_intro step)
qed

lemma keeps_endCheck [keeps_intro]: "keeps (safe r) (endCheck p)"
  unfolding endCheck_def Let_def
  by (intro keeps_intro keeps_fighter; simp add: Let_def K_ops prod.case_eq_if)

lemma keeps_endLoop [keeps_intro]: "keeps (safe r) (endLoop ps es)"
proof (induction ps arbitrary: es)
  case (Cons p ps)
  show ?case unfolding endLoop.simps by (intro keeps_intro Cons.IH)
qed (simp add: keeps_intro)

lemma keeps_end [keeps_intro]: "keeps (safe r) doEndRoundCheckBuffer"
  unfolding doEndRoundCheckBuffer_def by (intro keeps_intro)

lemma keeps_roundBody: "keeps (safe r) roundBody"
  unfolding roundBody_def by (intro keeps_intro keeps_upd; simp)

end

end
