(* ===== verification/FormulaProps.thy ===== *)
theory FormulaProps
  imports Formula AttrProps ToolProps
begin

text \<open>
  Properties of the battle formulas and of the target areas.
\<close>

section \<open>Damage\<close>

lemma jdiv_le: "0 \<le> a \<Longrightarrow> a \<le> 2147483647 \<Longrightarrow> jdiv a 10000 \<le> 214748"
  by (simp add: jdiv_nonneg)

text \<open>a hit of any attack against any defence does at least 1 and at most 214748
  damage.\<close>

theorem scaleDamage_bounds: "1 \<le> scaleDamage s u r \<and> scaleDamage s u r \<le> 214748"
proof -
  have "jdiv d 10000 \<le> 214748" if "int32 d" for d
  proof (cases "0 \<le> d")
    case False
    then have "sgn d = - 1" by simp
    then have "jdiv d 10000 = toInt32 (- (\<bar>d\<bar> div 10000))" by (simp add: jdiv_def)
    moreover have "0 \<le> \<bar>d\<bar> div 10000" "\<bar>d\<bar> div 10000 \<le> 214748" using that False by auto
    ultimately show ?thesis by (simp add: toInt32_id)
  qed (use that in \<open>simp add: jdiv_le\<close>)
  then show ?thesis by (simp add: scaleDamage_def Let_def)
qed



text \<open>beyond 32 bits the product wraps around before the test for an overflow, which
  only notices a negative result: an attack power of 409045 against no defence does
  1 damage, while 4090 does 4294.\<close>

theorem scaleDamage_wraps: "scaleDamage 0 409045 105 = 1 \<and> scaleDamage 0 4090 105 = 4294"
  by (simp add: scaleDamage_def Let_def toInt32_def jdiv_def)

section \<open>Rates\<close>

text \<open>the reduction of damage by armour is a percentage between 0 and 75, so that
  every attack keeps at least a quarter of its power, and the chances of a block, an
  insight and a counter attack of a player lie between 0 and their limits.\<close>

theorem defence_rates:
  "0 \<le> calcReduce df pen pw t i s \<and> calcReduce df pen pw t i s \<le> BATTLE_RD_MAX
   \<and> 0 \<le> calcBlock t i s \<and> calcBlock t i s \<le> MAX_BLOCK_TOUCH
   \<and> 0 \<le> calcInsightRate t i s \<and> calcInsightRate t i s \<le> MAX_INSIGHT_TOUCH
   \<and> 0 \<le> calcBack t i s \<and> calcBack t i s \<le> 100 \<and> 0 \<le> calcMagicBack t i s \<and> calcMagicBack t i s \<le> 100"
proof -
  have m: "fget t BACK_MAX = 70 \<or> fget t BACK_MAX = 100"
    by (auto simp: fget_def player_get_def pet_get_def pet_super_def player_attr_def storedAttr_def monster_get_def toInt32_id Let_def split: option.split)
  have r: "0 \<le> c \<Longrightarrow> 0 \<le> calcResist a p g c t i s \<and> calcResist a p g c t i s \<le> c" for a p g c
    by (simp add: calcResist_def Let_def)
  show ?thesis
    using m r [of 70] r [of 100]
    by (fastforce simp: calcReduce_def Let_def calcBlock_def calcInsightRate_def calcBack_def calcMagicBack_def
        dest: order_trans [of _ 70 100])
qed

section \<open>Target areas\<close>

lemma sidePos_valid:
  "isSidePos rl t a \<Longrightarrow> 0 \<le> t \<Longrightarrow> t < MAX_POS \<Longrightarrow> rl \<le> MAX_ROW_NUM \<Longrightarrow> isBattlePos a \<and> isSameSide a t"
  by (auto simp: isSidePos_def isBattlePos_def isSameSide_def isLeftSide_def getPositionSide_def Let_def split: if_splits)

lemma pairTarget:
  assumes "isBattlePos a" "isSameSide a t"
  shows "distinct (getLeftRightTypeTarget a)" "\<forall>u\<in>set (getLeftRightTypeTarget a). isBattlePos u \<and> isSameSide u t \<and> u div 2 = a div 2"
proof -
  have a: "0 \<le> a" "a < 34" using assms by (auto simp: isBattlePos_def split: if_splits)
  then have "jrem a 2 = a mod 2" by (simp add: jrem_nonneg)
  moreover have "a mod 2 = 0 \<or> a mod 2 = 1" by presburger
  ultimately show "distinct (getLeftRightTypeTarget a)"
    "\<forall>u\<in>set (getLeftRightTypeTarget a). isBattlePos u \<and> isSameSide u t \<and> u div 2 = a div 2"
    using assms a
    by (auto simp: getLeftRightTypeTarget_def isBattlePos_def isSameSide_def getPositionSide_def Let_def
        split: if_splits) presburger+
qed

lemma distinct_blocks:
  assumes "distinct ns" "\<And>n. n \<in> set ns \<Longrightarrow> distinct (h n) \<and> (\<forall>u\<in>set (h n). key u = c n)" "inj_on c (set ns)"
  shows "distinct (concat (map h ns))"
  using assms
proof (induction ns)
  case (Cons n ns)
  have "set (h n) \<inter> set (h m) = {}" if "m \<in> set ns" for m
  proof -
    have "c n \<noteq> c m" using that Cons.prems(1,3) by (auto simp: inj_on_def)
    with Cons.prems(2) [of n] Cons.prems(2) [of m] that show ?thesis by auto
  qed
  with Cons show ?case by (auto simp: inj_on_def)
qed simp

text \<open>The row that the loops visit at step \<open>n\<close>, counted from the row of the cursor:
  0, 1, -1, 2, -2 and so on.\<close>

definition rowOffset :: "int \<Rightarrow> int" where
  "rowOffset n = (if n mod 2 = 0 then - (n div 2) else n div 2 + 1)"

lemma rowOffset_inj: "inj_on rowOffset {0..}"
proof (rule inj_onI)
  fix x y :: int assume "x \<in> {0..}" "y \<in> {0..}" "rowOffset x = rowOffset y"
  then show "x = y" unfolding rowOffset_def by (auto split: if_splits) presburger+
qed

lemma loop_offset:
  assumes "0 \<le> n" "n \<le> 2147483647"
  shows "(if jrem n 2 = 0 then t - 2 * jdiv n 2 else t + 2 * (jdiv n 2 + 1)) = t + 2 * rowOffset n"
  using assms by (simp add: rowOffset_def jrem_nonneg jdiv_nonneg)

lemma area_blocks:
  assumes "\<And>n. 0 \<le> n \<Longrightarrow> n < k \<Longrightarrow>
      distinct (h n) \<and> (\<forall>u\<in>set (h n). isBattlePos u \<and> isSameSide u t \<and> u div 2 = t div 2 + rowOffset n)"
  shows "distinct (concat (map h [0..k - 1]))" "\<forall>u\<in>set (concat (map h [0..k - 1])). isBattlePos u \<and> isSameSide u t"
proof -
  show "distinct (concat (map h [0..k - 1]))"
  proof (rule distinct_blocks [where key = "\<lambda>u. u div 2" and c = "\<lambda>n. t div 2 + rowOffset n"])
    show "inj_on (\<lambda>n. t div 2 + rowOffset n) (set [0..k - 1])"
      using inj_on_subset [OF rowOffset_inj, of "{0..k - 1}"] by (auto simp: inj_on_def)
  qed (use assms in auto)
  show "\<forall>u\<in>set (concat (map h [0..k - 1])). isBattlePos u \<and> isSameSide u t" using assms by auto
qed

lemma jrem_first: "(jrem n 2 = 0 \<and> i \<and> n = 0) = (i \<and> n = 0)"
  by (auto simp: jrem_def)

lemma column_blocks:
  "k \<le> 5 \<Longrightarrow> getColumnTypeTarget rl t k i =
     concat (map (\<lambda>n. if i \<and> n = 0 then getLeftRightTypeTarget t
                      else if isSidePos rl t (t + 2 * rowOffset n) then [t + 2 * rowOffset n] else []) [0..k - 1])"
  unfolding getColumnTypeTarget_def
  by (intro arg_cong [where f = concat] map_cong refl) (simp add: loop_offset jrem_first Let_def)

lemma row_blocks:
  "k \<le> 5 \<Longrightarrow> getRowTypeTarget rl t k =
     concat (map (\<lambda>n. if isSidePos rl t (t + 2 * rowOffset n) then getLeftRightTypeTarget (t + 2 * rowOffset n) else [])
              [0..k - 1])"
  unfolding getRowTypeTarget_def
  by (intro arg_cong [where f = concat] map_cong refl) (simp add: loop_offset Let_def)

lemma columnTarget:
  assumes "0 \<le> t" "t < MAX_POS" "rl \<le> MAX_ROW_NUM" "k \<le> 5"
  shows "distinct (getColumnTypeTarget rl t k i) \<and> (\<forall>u\<in>set (getColumnTypeTarget rl t k i). isBattlePos u \<and> isSameSide u t)"
proof -
  have t: "isBattlePos t" "isSameSide t t" using assms by (simp_all add: isBattlePos_def isSameSide_def)
  show ?thesis
    unfolding column_blocks [OF assms(4)]
    using pairTarget [OF t] sidePos_valid [OF _ assms(1-3)]
    by (intro conjI area_blocks) (auto simp: rowOffset_def split: if_splits)
qed

lemma rowTarget:
  assumes "0 \<le> t" "t < MAX_POS" "rl \<le> MAX_ROW_NUM" "k \<le> 5"
  shows "distinct (getRowTypeTarget rl t k) \<and> (\<forall>u\<in>set (getRowTypeTarget rl t k). isBattlePos u \<and> isSameSide u t)"
proof -
  have b: "distinct (getLeftRightTypeTarget (t + 2 * c))
      \<and> (\<forall>u\<in>set (getLeftRightTypeTarget (t + 2 * c)). isBattlePos u \<and> isSameSide u t \<and> u div 2 = t div 2 + c)"
    if "isSidePos rl t (t + 2 * c)" for c
    using pairTarget [of "t + 2 * c" t] sidePos_valid [OF that assms(1-3)] by simp
  have h: "distinct (if isSidePos rl t (t + 2 * c) then getLeftRightTypeTarget (t + 2 * c) else [])
      \<and> (\<forall>u\<in>set (if isSidePos rl t (t + 2 * c) then getLeftRightTypeTarget (t + 2 * c) else []).
           isBattlePos u \<and> isSameSide u t \<and> u div 2 = t div 2 + c)" for c
    using b [of c] by (cases "isSidePos rl t (t + 2 * c)") simp_all
  show ?thesis unfolding row_blocks [OF assms(4)] by (rule conjI; rule area_blocks, rule h)
qed

lemma areaShape_targets:
  assumes "0 \<le> t" "t < MAX_POS" "rl \<le> MAX_ROW_NUM" "areaShape rl t i = Some ps"
  shows "distinct ps \<and> (\<forall>u\<in>set ps. isBattlePos u \<and> isSameSide u t)"
proof -
  have "ps \<in> {getColumnTypeTarget rl t 1 False, getRowTypeTarget rl t 1, getColumnTypeTarget rl t 2 False,
      getColumnTypeTarget rl t 3 False, getColumnTypeTarget rl t 4 False, getColumnTypeTarget rl t 5 False,
      getColumnTypeTarget rl t 3 True, getRowTypeTarget rl t 2, getRowTypeTarget rl t 3}"
    using assms(4) unfolding areaShape_def by (simp split: if_splits)
  moreover define P where "P ps = (distinct ps \<and> (\<forall>u\<in>set ps. isBattlePos u \<and> isSameSide u t))" for ps
  have "P (getColumnTypeTarget rl t k b)" "P (getRowTypeTarget rl t k)" if "k \<le> 5" for k b
    using columnTarget [OF assms(1-3) that] rowTarget [OF assms(1-3) that] by (simp_all add: P_def)
  ultimately have "P ps" by auto
  then show ?thesis by (simp add: P_def)
qed

lemma allTargets:
  assumes "getAllTypeTarget rl rr sd e i = Some ps" "rl \<le> MAX_ROW_NUM" "rr \<le> 7"
  shows "distinct ps \<and> (\<forall>u\<in>set ps. isBattlePos u \<and> (sd = getPositionSide t \<longrightarrow> isSameSide u t))"
  using assms
  by (auto simp: getAllTypeTarget_def Let_def isBattlePos_def isSameSide_def getPositionSide_def split: if_splits)

lemma jand_255: "0 \<le> t \<Longrightarrow> t < MAX_POS \<Longrightarrow> jand 255 t = t"
  using jand_mask [of 8 t] by (simp add: mask_eq_exp_minus_1 take_bit_int_eq_self_iff)

lemma select_cases:
  assumes "getSelectArea rl rr e t i = Some ps"
  shows "ps = [jand 255 t] \<or> areaShape rl t i = Some ps
    \<or> (\<exists>sd. getAllTypeTarget rl rr sd e i = Some ps
          \<and> (i \<noteq> SKILL_AREA_ALL \<and> i \<noteq> SKILL_AREA_ALL_NO_SELF \<longrightarrow> sd = getPositionSide t))"
proof -
  have "ps = [jand 255 t] \<or> selectShape rl rr e t i = Some ps"
    using assms unfolding getSelectArea_def Let_def by (simp split: if_splits)
  then show ?thesis
    unfolding selectShape_def by (cases "areaShape rl t i") (simp_all split: if_splits, blast+)
qed

text \<open>the target area of a skill or item around a valid cursor holds every position
  at most once, only positions of the battle field, and only positions of the
  cursor's side, except for the two areas that cover both sides.\<close>

theorem getSelectArea_targets:
  assumes "0 \<le> t" "t < MAX_POS" "rl \<le> MAX_ROW_NUM" "rr \<le> 7" "getSelectArea rl rr e t i = Some ps"
  shows "distinct ps
    \<and> (\<forall>u\<in>set ps. isBattlePos u \<and> (i \<noteq> SKILL_AREA_ALL \<and> i \<noteq> SKILL_AREA_ALL_NO_SELF \<longrightarrow> isSameSide u t))"
proof -
  consider (one) "ps = [jand 255 t]" | (shape) "areaShape rl t i = Some ps"
    | (all) sd where "getAllTypeTarget rl rr sd e i = Some ps"
        "i \<noteq> SKILL_AREA_ALL \<and> i \<noteq> SKILL_AREA_ALL_NO_SELF \<longrightarrow> sd = getPositionSide t"
    using select_cases [OF assms(5)] by blast
  then show ?thesis
  proof cases
    case one
    then show ?thesis
      using assms(1,2) by (simp add: jand_255) (simp add: isBattlePos_def isSameSide_def)
  next
    case shape
    from areaShape_targets [OF assms(1-3) shape] show ?thesis by blast
  next
    case all
    from allTargets [OF all(1) assms(3,4), of t] all(2) show ?thesis by blast
  qed
qed

theorem getSelectArea_targets_witness:
  "getSelectArea 5 5 0 20 SKILL_AREA_ENEMY_UP_DOWN_THREE = Some [20, 22] \<and> distinct [20, 22 :: int]
   \<and> isBattlePos 22 \<and> isSameSide 22 20"
proof -
  have s: "getSelectArea 5 5 0 20 SKILL_AREA_ENEMY_UP_DOWN_THREE = Some [20, 22]" by code_simp
  then show ?thesis using getSelectArea_targets [OF _ _ _ _ s] by simp
qed

end
