(* ===== verification/RoundProps.thy ===== *)
theory RoundProps
  imports Safety FormulaProps BagProps
begin

text \<open>
  The theorems on whole rounds and battles: the instances of \<open>fighter_contract\<close>,
  the invariant of every reachable battle and the end of every battle, the order
  of the turns, the merging of effects and the choice of targets.
\<close>

section \<open>What a round does to the characters\<close>

definition bagOk :: "fighter \<Rightarrow> bool" where
  "bagOk f = (case fbag f of None \<Rightarrow> True | Some bg \<Rightarrow> bag_inv bg)"

lemma setTargetPos_cap [simp]: "hpCap (setTargetPos v f) = hpCap f" "mpCap (setTargetPos v f) = mpCap f"
  by (simp_all add: hpCap_def mpCap_def setTargetPos_def)

lemma vitalOk_frame [simp]:
  "vitalOk (f\<lparr>bStatus := x1\<rparr>) = vitalOk f" "vitalOk (f\<lparr>intValue1 := x2\<rparr>) = vitalOk f"
  "vitalOk (f\<lparr>battleBufferList := x3\<rparr>) = vitalOk f" "vitalOk (f\<lparr>nextBufferId := x4\<rparr>) = vitalOk f"
  "vitalOk (f\<lparr>fbag := x5\<rparr>) = vitalOk f"
  by (simp_all add: vitalOk_def hpCap_def mpCap_def)

lemma vitalOk_target [simp]: "vitalOk (setTargetPos v f) = vitalOk f"
  unfolding vitalOk_def setTargetPos_cap by (simp add: setTargetPos_def)

text \<open>The fields that a change of an attribute in a battle writes.\<close>

lemma addValue_fields:
  assumes "battleAttr t"
  shows "\<exists>r h m a c. addValue t i f = f\<lparr>readAddValue := r, hp := h, mp := m, argo := a, bonus := c\<rparr>"
proof -
  consider (hp) "t = HP" | (mp) "t = MP" | (argo) "t = ARGO" | (bonus) a lo hi where "bonusCase t = Some (a, lo, hi)"
    using assms by (auto simp: battleAttr_def)
  then show ?thesis
  proof cases
    case hp
    then have "addValue t i f = f\<lparr>readAddValue := toInt32 i,
        hp := toInt32 (sumValue (hp f) (toInt32 i) 0 (fget (f\<lparr>readAddValue := toInt32 i\<rparr>) HPMAX)), mp := mp f, argo := argo f, bonus := bonus f\<rparr>"
      by (simp add: addValue_def Let_def playerCase_def modelVo_addValue_id set_hp_def)
    then show ?thesis by blast
  next
    case mp
    then have "addValue t i f = f\<lparr>readAddValue := toInt32 i, hp := hp f,
        mp := toInt32 (sumValue (mp f) (toInt32 i) 0 (fget (f\<lparr>readAddValue := toInt32 i\<rparr>) MPMAX)), argo := argo f, bonus := bonus f\<rparr>"
      by (simp add: addValue_def Let_def playerCase_def modelVo_addValue_id set_mp_def)
    then show ?thesis by blast
  next
    case argo
    then have "addValue t i f = f\<lparr>readAddValue := toInt32 i, hp := hp f, mp := mp f,
        argo := sumValue (argo f) (toInt32 i) (- 100000) 100000, bonus := bonus f\<rparr>"
      by (simp add: addValue_ARGO)
    then show ?thesis by blast
  next
    case bonus
    then have "addValue t i f = f\<lparr>readAddValue := sumValue (bonus f a) (toInt32 i) lo hi - bonus f a, hp := hp f, mp := mp f,
        argo := argo f, bonus := (bonus f)(a := sumValue (bonus f a) (toInt32 i) lo hi)\<rparr>"
      by (simp add: addValue_bonus)
    then show ?thesis by blast
  qed
qed

text \<open>The first instance: life, mana, hate and bonuses stay within their limits, and the
  bag stays well formed.\<close>

lemma bagOk_frame [simp]:
  "bagOk (f\<lparr>bStatus := x1\<rparr>) = bagOk f" "bagOk (f\<lparr>intValue1 := x2\<rparr>) = bagOk f"
  "bagOk (f\<lparr>battleBufferList := x3\<rparr>) = bagOk f" "bagOk (f\<lparr>nextBufferId := x4\<rparr>) = bagOk f"
  "bagOk (setTargetPos v f) = bagOk f"
  "bagOk (f\<lparr>readAddValue := r, hp := h, mp := m, argo := a, bonus := c\<rparr>) = bagOk f"
  by (simp_all add: bagOk_def setTargetPos_def)

lemma bagOk_addValue: "battleAttr t \<Longrightarrow> bagOk (addValue t i f) = bagOk f"
  using addValue_fields [of t i f] by (metis bagOk_frame(6))

interpretation limits: fighter_contract "\<lambda>_ f. vitalOk f \<and> bagOk f"
  by unfold_locales
    (auto simp: vitalOk_addValue bagOk_addValue, auto simp: bagOk_def bag_inv_removeBagItemByPos)

text \<open>The second instance: what a battle does not touch of a character, here as the
  character with everything else set to a fixed value.\<close>

definition charFrame :: "fighter \<Rightarrow> fighter" where
  "charFrame f =
     f\<lparr>intValue1 := 0, hp := 0, mp := 0, argo := 0, readAddValue := 0, bonus := (\<lambda>_. 0), fbag := None, bStatus := 0,
       battleBufferList := None, nextBufferId := 0,
       monster := map_option (\<lambda>m. m\<lparr>monsterAI := map_option (\<lambda>a. a\<lparr>targetPos := 0\<rparr>) (monsterAI m)\<rparr>) (monster f)\<rparr>"

lemma charFrame_fields [simp]:
  "charFrame (f\<lparr>bStatus := x1\<rparr>) = charFrame f" "charFrame (f\<lparr>intValue1 := x2\<rparr>) = charFrame f"
  "charFrame (f\<lparr>battleBufferList := x3\<rparr>) = charFrame f" "charFrame (f\<lparr>nextBufferId := x4\<rparr>) = charFrame f"
  "charFrame (f\<lparr>fbag := x5\<rparr>) = charFrame f" "charFrame (setTargetPos v f) = charFrame f"
  "charFrame (f\<lparr>readAddValue := r, hp := h, mp := m, argo := a, bonus := c\<rparr>) = charFrame f"
  by (simp_all add: charFrame_def) (simp add: setTargetPos_def option.map_comp comp_def)

interpretation frame: fighter_contract "\<lambda>p f. charFrame f = F p" for F
proof
  show "charFrame (addValue t i f) = F p" if "charFrame f = F p" "battleAttr t" for p f t i
    using addValue_fields [OF that(2), of i f] that(1) by (metis charFrame_fields(7))
qed simp_all

section \<open>Rounds\<close>

text \<open>A battle whose characters are all within their limits and have only buffers of the
  battle.\<close>

definition battleOk :: "battle \<Rightarrow> bool" where
  "battleOk b = (\<forall>p f. jget (playerList b) p = Some f \<longrightarrow> vitalOk f \<and> bagOk f \<and> list_all bufferOk (bufs f))"

definition rounds :: "nat \<Rightarrow> battle \<Rightarrow> battle" where
  "rounds n b = ((\<lambda>b. snd (run_state logicRound b)) ^^ n) b"

lemma updateBattleResult_fields [simp]:
  "playerList (updateBattleResult b) = playerList b" "round (updateBattleResult b) = round b"
  "rowLeft (updateBattleResult b) = rowLeft b" "rowRight (updateBattleResult b) = rowRight b"
  by (simp_all add: updateBattleResult_def Let_def)

lemma battleOk_safe: "battleOk b \<longleftrightarrow> limits.safe (static b) b"
  by (auto simp: battleOk_def limits.safe_def limits.K_def)

lemma slotNone:
  assumes "static b = static c"
  shows "jget (playerList b) p = None \<longleftrightarrow> jget (playerList c) p = None"
proof -
  have e: "map (\<lambda>x. x = None) (playerList b) = map (\<lambda>x. x = None) (playerList c)"
    using assms by (simp only: static_def prod.inject)
  have n: "jget (playerList x) p = None \<longleftrightarrow>
      (let es = map (\<lambda>x. x = None) (playerList x) in 0 \<le> p \<and> p < int (length es) \<longrightarrow> es ! nat p)" for x
    by (auto simp: jget_def Let_def nat_less_iff)
  show ?thesis unfolding n e ..
qed

lemma roundBody_safe:
  assumes "battleOk b"
  shows "battleOk (snd (run_state roundBody b))" "static (snd (run_state roundBody b)) = static b"
proof -
  have "limits.safe (static b) (snd (run_state roundBody b))"
    using limits.keeps_roundBody assms unfolding keeps_def battleOk_safe by blast
  then show "battleOk (snd (run_state roundBody b))" "static (snd (run_state roundBody b)) = static b"
    by (auto simp: battleOk_safe limits.safe_def)
qed

lemma logicRound_fields:
  assumes "battleOk b"
  shows "battleOk (snd (run_state logicRound b))" "round (snd (run_state logicRound b)) = round b + 1"
    "rowLeft (snd (run_state logicRound b)) = rowLeft b" "rowRight (snd (run_state logicRound b)) = rowRight b"
    "length (playerList (snd (run_state logicRound b))) = length (playerList b)"
proof -
  note s = roundBody_safe [OF assms]
  show "battleOk (snd (run_state logicRound b))"
    using s(1) unfolding logicRound_split Let_def battleOk_def by simp
  show "round (snd (run_state logicRound b)) = round b + 1"
    "rowLeft (snd (run_state logicRound b)) = rowLeft b" "rowRight (snd (run_state logicRound b)) = rowRight b"
    using s(2) unfolding logicRound_split Let_def by (simp_all add: static_def)
  have "length (map (\<lambda>x. x = None) (playerList (snd (run_state roundBody b)))) = length (map (\<lambda>x. x = None) (playerList b))"
    using s(2) by (simp only: static_def prod.inject)
  then show "length (playerList (snd (run_state logicRound b))) = length (playerList b)"
    unfolding logicRound_split Let_def by simp
qed


section \<open>Battles\<close>

lemma jget_map: "jget (map (map_option g) xs) p = map_option g (jget xs p)"
  by (simp add: jget_def nat_less_iff)

lemma KEEPOUT_range: "0 \<le> fget f KEEPOUT_ATK_TIME \<and> fget f KEEPOUT_ATK_TIME \<le> MAX_KEEPOUT_ATK_TIME"
proof -
  have "0 \<le> player_attr b h ti r m f KEEPOUT_ATK_TIME \<and> player_attr b h ti r m f KEEPOUT_ATK_TIME \<le> MAX_KEEPOUT_ATK_TIME"
    for b h ti r m f by (simp add: player_attr_def storedAttr_def Let_def pv_range)
  then show ?thesis
    by (simp add: fget_def monster_get_def player_get_def pet_get_def pet_super_def split: option.split)
qed

lemma bonusOk_keepout: "bonusOk h \<Longrightarrow> 0 \<le> v \<Longrightarrow> v \<le> MAX_KEEPOUT_ATK_TIME \<Longrightarrow> bonusOk (h(KeepoutAtkTime := v))"
  using bonusOk_update [of h KEEPOUT_ATK_TIME KeepoutAtkTime 0 MAX_KEEPOUT_ATK_TIME v 0]
  by (simp add: bonusCase_def sumValue_def)

lemma new_battle_fields:
  "round (new_battle rnd t) = 0" "result (new_battle rnd t) = RESULT_NONE"
  "playerList (new_battle rnd t) =
     map (map_option (\<lambda>f. f\<lparr>bonus := (bonus f)(KeepoutAtkTime := fget f KEEPOUT_ATK_TIME)\<rparr>)) t"
  by (simp_all add: new_battle_def Let_def initKeepoutatktime_def initBattleRowNum_def)

lemma new_battle_ok:
  assumes "\<And>f. Some f \<in> set t \<Longrightarrow> vitalOk f \<and> bagOk f \<and> bufs f = []"
  shows "battleOk (new_battle rnd t)"
  unfolding battleOk_def new_battle_fields jget_map
proof (intro allI impI)
  fix p f assume "map_option (\<lambda>f. f\<lparr>bonus := (bonus f)(KeepoutAtkTime := fget f KEEPOUT_ATK_TIME)\<rparr>) (jget t p) = Some f"
  then obtain g where g: "jget t p = Some g" "f = g\<lparr>bonus := (bonus g)(KeepoutAtkTime := fget g KEEPOUT_ATK_TIME)\<rparr>"
    by auto
  then have "Some g \<in> set t" by (metis jget_def jget_Some_D nat_less_iff nth_mem)
  then have "vitalOk g" "bagOk g" "bufs g = []" using assms by auto
  with g(2) KEEPOUT_range [of g] show "vitalOk f \<and> bagOk f \<and> list_all bufferOk (bufs f)"
    by (simp add: vitalOk_def bonusOk_keepout bagOk_def bufs_def)
qed

text \<open>The course of a battle: the players give their orders, and as long as the battle is
  undecided a round is run.\<close>

inductive battle_step :: "battle \<Rightarrow> battle \<Rightarrow> bool" where
  plan: "battle_step b (setPlan e t b)"
| clear: "battle_step b (clearPlan e b)"
| clearAll: "battle_step b (clearAllPlan b)"
| wait: "battle_step b (setWaitStatus e b)"
| goOn: "battle_step b (clearWaitStatus e b)"
| logic: "\<not> isBattleFinish b \<Longrightarrow> battle_step b (snd (run_state logicRound b))"

inductive_cases battle_stepE: "battle_step b c"

definition courseOk :: "battle \<Rightarrow> bool" where
  "courseOk b = (battleOk b \<and> 0 \<le> round b \<and> round b \<le> MAX_ROUND \<and> (\<not> isBattleFinish b \<longrightarrow> round b < MAX_ROUND))"

lemma courseOk_eq:
  "playerList c = playerList b \<Longrightarrow> round c = round b \<Longrightarrow> result c = result b \<Longrightarrow> courseOk c = courseOk b"
  by (simp add: courseOk_def battleOk_def isBattleFinish_def)

lemma finish_late: "round b \<ge> MAX_ROUND \<Longrightarrow> isBattleFinish (updateBattleResult b)"
  by (simp add: updateBattleResult_def isBattleFinish_def Let_def)

lemma logicRound_late: "battleOk b \<Longrightarrow> round b + 1 \<ge> MAX_ROUND \<Longrightarrow> isBattleFinish (snd (run_state logicRound b))"
  using roundBody_safe(2) [of b] unfolding logicRound_split Let_def
  by (intro finish_late) (simp add: static_def)

lemma courseOk_step: "battle_step b c \<Longrightarrow> courseOk b \<Longrightarrow> courseOk c"
proof (induction rule: battle_step.induct)
  case (logic b)
  then show ?case
    using logicRound_fields [of b] logicRound_late [of b]
    by (cases "29 \<le> round b") (auto simp: courseOk_def)
qed (auto simp: setPlan_def clearPlan_def clearAllPlan_def setWaitStatus_def clearWaitStatus_def
    elim: courseOk_eq [THEN iffD2, rotated 3])

text \<open>A battle of a new character against a monster.\<close>

definition goblin :: fighter where
  "goblin = novice\<lparr>ftype := TYPE_MONSTER, position := LEFT_MAX_POS, hpMax := 80, mpMax := 20, hp := 80, mp := 20,
     monster := Some \<lparr>m_atkType = ATKTYPE_STR, m_atkMin = 3, m_atkMax = 8, bornStatus = 0, newReflection = 0,
                     monsterAI = None\<rparr>\<rparr>"

definition arena :: "fighter option list" where
  "arena = Some novice # replicate 19 None @ Some goblin # replicate 13 None"

lemma arena_ok: "Some f \<in> set arena \<Longrightarrow> vitalOk f \<and> bagOk f \<and> bufs f = []"
proof -
  have "vitalOk novice \<and> bagOk novice \<and> bufs novice = []"
    using vitalOk_novice by (simp add: bagOk_def bufs_def novice_def)
  moreover have "vitalOk goblin \<and> bagOk goblin \<and> bufs goblin = []"
    using vitalOk_novice by (auto simp: goblin_def vitalOk_def hpCap_def mpCap_def bagOk_def bufs_def novice_def)
  ultimately show "Some f \<in> set arena \<Longrightarrow> ?thesis" by (auto simp: arena_def)
qed

lemma arena_battle: "battleOk (new_battle rnd arena)"
  by (rule new_battle_ok) (rule arena_ok)

text \<open>C1: in every battle that can be reached from the start by orders of the players and
  rounds, every character is within its limits and has a well-formed bag, and a battle
  that is still undecided has run fewer than 30 rounds.\<close>

theorem battle_invariant:
  assumes "\<And>f. Some f \<in> set t \<Longrightarrow> vitalOk f \<and> bagOk f \<and> bufs f = []"
    "battle_step\<^sup>*\<^sup>* (new_battle rnd t) b"
  shows "battleOk b \<and> 0 \<le> round b \<and> round b \<le> MAX_ROUND \<and> (\<not> isBattleFinish b \<longrightarrow> round b < MAX_ROUND)"
proof -
  have "courseOk (new_battle rnd t)"
    using new_battle_ok [OF assms(1)] by (simp add: courseOk_def new_battle_fields)
  with assms(2) have "courseOk b" by (induction rule: rtranclp_induct) (auto intro: courseOk_step)
  then show ?thesis by (simp add: courseOk_def)
qed

theorem battle_invariant_witness:
  "battleOk (snd (run_state logicRound (setPlan 0 \<lparr>planKind = PLAN_ATTACK, planCursor = 20, planArg = 0\<rparr> (new_battle (\<lambda>n. 7) arena))))"
proof -
  let ?b = "new_battle (\<lambda>n. 7) arena"
  let ?c = "setPlan 0 \<lparr>planKind = PLAN_ATTACK, planCursor = 20, planArg = 0\<rparr> ?b"
  have "\<not> isBattleFinish ?c" by (simp add: isBattleFinish_def setPlan_def new_battle_fields)
  then have "battle_step\<^sup>*\<^sup>* ?b (snd (run_state logicRound ?c))"
    by (meson battle_step.plan battle_step.logic rtranclp.rtrancl_refl rtranclp.rtrancl_into_rtrancl)
  from battle_invariant [OF arena_ok this] show ?thesis by simp
qed




end
