(* ===== verification/ChoiceProps.thy ===== *)
theory ChoiceProps
  imports RoundProps
begin

text \<open>
  The choices that a round makes: the order of the turns, the merging of the
  effects that the animation shows, the targets and the guards.
\<close>

section \<open>Order of the turns\<close>

lemma mset_insertBySpeed: "mset (insertBySpeed v k as) = add_mset k (mset as)"
  by (induction as) auto

lemma set_insertBySpeed: "set (insertBySpeed v k as) = insert k (set as)"
  by (metis mset_insertBySpeed set_mset_add_mset_insert set_mset_mset)

lemma sorted_insertBySpeed:
  "sorted (map (\<lambda>p. - v p) as) \<Longrightarrow> sorted (map (\<lambda>p. - v p) (insertBySpeed v k as))"
  by (induction as) (auto simp: set_insertBySpeed)

lemma filter_insertBySpeed:
  "sorted (map (\<lambda>p. - v p) as) \<Longrightarrow>
   filter (\<lambda>x. v x = c) (insertBySpeed v k as) = filter (\<lambda>x. v x = c) as @ (if v k = c then [k] else [])"
proof (induction as)
  case (Cons a as)
  have "filter (\<lambda>x. v x = c) (a # as) = []" if "v k > v a" "v k = c"
    using Cons.prems that by (fastforce simp: filter_empty_conv)
  with Cons show ?case by auto
qed simp

lemma fold_insertBySpeed:
  assumes "sorted (map (\<lambda>p. - v p) as)"
  shows "sorted (map (\<lambda>p. - v p) (fold (insertBySpeed v) xs as))
    \<and> mset (fold (insertBySpeed v) xs as) = mset as + mset xs
    \<and> filter (\<lambda>x. v x = c) (fold (insertBySpeed v) xs as) = filter (\<lambda>x. v x = c) as @ filter (\<lambda>x. v x = c) xs"
  using assms
  by (induction xs arbitrary: as) (auto simp: sorted_insertBySpeed mset_insertBySpeed filter_insertBySpeed)

text \<open>C5: the order of the turns is the stable sort of the characters by descending
  speed: faster characters act first, and equally fast ones in the order of their
  positions.\<close>

theorem sortModelListBySpeed_stable:
  "sortModelListBySpeed b = sort_key (\<lambda>p. - fget (slotFighter b p) SPEED) (occupied b)"
  unfolding sortModelListBySpeed_def
proof (rule properties_for_sort_key [symmetric])
  let ?v = "\<lambda>p. fget (slotFighter b p) SPEED"
  let ?s = "fold (insertBySpeed ?v) (occupied b) []"
  note f = fold_insertBySpeed [of ?v "[]" "occupied b"]
  show "mset ?s = mset (occupied b)" "sorted (map (\<lambda>p. - ?v p) ?s)" using f by simp_all
  show "filter (\<lambda>x. - ?v k = - ?v x) ?s = filter (\<lambda>x. - ?v k = - ?v x) (occupied b)" for k
    using f [of "?v k"] by (simp add: eq_commute [of "?v k"])
qed

section \<open>Merged effects\<close>

text \<open>Sum of the shown changes of life, or of mana.\<close>

definition shown :: "bool \<Rightarrow> effect list \<Rightarrow> int" where
  "shown mana es = sum_list (map effValue (filter (\<lambda>e. isEffectStatus (effCounter e) EFFECT_MP_CHANGE = mana) es))"

lemma shown_simps [simp]:
  "shown m [] = 0"
  "shown m (e # es) = (if isEffectStatus (effCounter e) EFFECT_MP_CHANGE = m then effValue e else 0) + shown m es"
  by (simp_all add: shown_def)

lemma bit_toInt32_low: "bit (toInt32 a) 6 = bit a 6"
  by (simp add: bit_toInt32)

lemma isEffectStatus_bit: "isEffectStatus a EFFECT_MP_CHANGE = bit a 6"
proof -
  have e: "toInt32 64 = 2 ^ 6" by (simp add: toInt32_def)
  show ?thesis unfolding isEffectStatus_def jand_def e by (metis and_exp_eq_0_iff_not_bit bit_toInt32_low)
qed

lemma isEffectStatus_or:
  "isEffectStatus (jor a c) EFFECT_MP_CHANGE = (isEffectStatus a EFFECT_MP_CHANGE \<or> isEffectStatus c EFFECT_MP_CHANGE)"
  by (simp add: isEffectStatus_bit bit_jor)

lemma mergeable_mana:
  "mergeable t n a k s \<Longrightarrow> isEffectStatus (effCounter s) EFFECT_MP_CHANGE = isEffectStatus n EFFECT_MP_CHANGE"
  unfolding mergeable_def Let_def by blast

lemma shown_mergeRest:
  assumes "isEffectStatus (effCounter k) EFFECT_MP_CHANGE = isEffectStatus n EFFECT_MP_CHANGE"
  shows "isEffectStatus (effCounter (fst (mergeRest t n a k ss))) EFFECT_MP_CHANGE = isEffectStatus n EFFECT_MP_CHANGE
   \<and> shown m (fst (mergeRest t n a k ss) # snd (mergeRest t n a k ss)) = shown m (k # ss)"
proof (induction ss)
  case Nil
  with assms show ?case by simp
next
  case (Cons s ss)
  obtain k' ss' where r: "mergeRest t n a k ss = (k', ss')" by (metis prod.exhaust)
  show ?case
  proof (cases "mergeable t n a k' s")
    case True
    with Cons r mergeable_mana [OF True] show ?thesis by (auto simp: isEffectStatus_or split: if_splits)
  next
    case False
    with Cons r show ?thesis by (auto split: if_splits)
  qed
qed

text \<open>merging the effects on a character for the animation neither loses nor invents
  anything: the shown changes of life add up to the same sum as before, and so do the
  changes of mana.\<close>

theorem mergeControlList_conserves: "shown m (mergeControlList t es) = shown m es"
proof (induction t es rule: mergeControlList.induct)
  case (2 t k ss)
  with shown_mergeRest [of k "effCounter k" t "effAnime k" ss m] show ?case by (auto split: if_splits)
qed simp

section \<open>Random numbers\<close>

lemma run_bind: "run_state (m \<bind> g) b = (case run_state m b of (x, b') \<Rightarrow> run_state (g x) b')"
  by (simp add: State_Monad.bind_def)

lemma run_basic [simp]:
  "run_state (ret x) b = (x, b)" "run_state (ask h) b = (h b, b)" "run_state (upd g) b = ((), g b)"
  "run_state (look p k) b = (k (slotFighter b p), b)" "run_state (onFighter p w) b = ((), setFighter p (w (slotFighter b p)) b)"
  "run_state nextDraw b = (draws b (drawn b), b\<lparr>drawn := Suc (drawn b)\<rparr>)"
  by (simp_all add: State_Monad.return_def ask_def upd_def look_def onFighter_def nextDraw_def)

lemma run_randInt:
  "run_state (randInt e) b = (jrem \<bar>draws b (drawn b)\<bar> e, b\<lparr>drawn := Suc (drawn b), randCnt := randCnt b + 1\<rparr>)"
  by (simp add: randInt_def run_bind)

lemma jrem_bounds: "0 < e \<Longrightarrow> 0 \<le> jrem \<bar>x\<bar> e \<and> jrem \<bar>x\<bar> e < e"
  by (simp add: jrem_nonneg)

text \<open>a draw from a range of numbers that is not empty gives a number of the range,
  whatever the generator delivers, and uses at most one number of the generator.\<close>

theorem randRange_bounds:
  assumes "e \<le> t"
  shows "\<exists>v. fst (run_state (randRange e t) b) = Some v \<and> e \<le> v \<and> v \<le> t
    \<and> drawn (snd (run_state (randRange e t) b)) \<le> Suc (drawn b)"
proof (cases "e = t")
  case False
  with assms jrem_bounds [of "t - e + 1" "draws b (drawn b)"] show ?thesis
    by (simp add: randRange_def run_bind run_randInt)
qed (simp add: randRange_def)

theorem randRange_bounds_witness:
  "\<exists>v. fst (run_state (randRange 95 105) (new_battle (\<lambda>n. - 77) arena)) = Some v \<and> 95 \<le> v \<and> v \<le> 105"
  using randRange_bounds [of 95 105 "new_battle (\<lambda>n. - 77) arena"] by auto

section \<open>Targets\<close>

lemma aiMin_not_aiMax: "aiMin n \<Longrightarrow> \<not> aiMax n"
  by (auto simp: aiMin_def aiMax_def)

text \<open>The search for the best value over the slots \<open>cs\<close>, where \<open>q\<close> tells the slots that
  count and \<open>h\<close> their values.\<close>

definition best :: "int \<Rightarrow> (int \<Rightarrow> bool) \<Rightarrow> (int \<Rightarrow> int) \<Rightarrow> int list \<Rightarrow> int \<times> int \<Rightarrow> bool" where
  "best n q h cs ut =
     (if \<exists>c\<in>set cs. q c
      then snd ut \<in> set cs \<and> q (snd ut) \<and> fst ut = h (snd ut)
        \<and> (aiMin n \<longrightarrow> (\<forall>c\<in>set cs. q c \<longrightarrow> fst ut \<le> h c)) \<and> (aiMax n \<longrightarrow> (\<forall>c\<in>set cs. q c \<longrightarrow> h c \<le> fst ut))
      else ut = (- 1, - 1))"

lemma best_skip: "\<not> q c \<Longrightarrow> best n q h (cs @ [c]) ut = best n q h cs ut"
  unfolding best_def by (cases "\<exists>c\<in>set cs. q c") auto

lemma best_step:
  assumes "best n q h cs (u, t)" "q c" "\<forall>c\<in>set (cs @ [c]). q c \<longrightarrow> 0 \<le> h c"
  shows "best n q h (cs @ [c]) (valueStep n c (h c) (u, t))"
proof (cases "\<exists>c\<in>set cs. q c")
  case False
  with assms(1) have "(u, t) = (- 1, - 1)" by (simp add: best_def)
  with assms(2) False show ?thesis by (auto simp: best_def valueStep_def)
next
  case True
  with assms(1) have ut: "t \<in> set cs" "q t" "u = h t"
    "aiMin n \<Longrightarrow> \<forall>c\<in>set cs. q c \<longrightarrow> u \<le> h c" "aiMax n \<Longrightarrow> \<forall>c\<in>set cs. q c \<longrightarrow> h c \<le> u"
    unfolding best_def by (auto simp del: ball_simps)
  then have "u \<noteq> - 1" using assms(3) by force
  then show ?thesis
    using ut(1-3) assms(2) True aiMin_not_aiMax [of n] ut(4,5)
    by (fastforce simp: best_def valueStep_def)
qed

lemma best_fold:
  assumes "\<forall>c\<in>set cs. q c \<longrightarrow> 0 \<le> h c"
  shows "best n q h cs (fold (\<lambda>c ut. if q c then valueStep n c (h c) ut else ut) cs (- 1, - 1))"
  using assms
proof (induction cs rule: rev_induct)
  case (snoc c cs)
  obtain u t where ut: "fold (\<lambda>c ut. if q c then valueStep n c (h c) ut else ut) cs (- 1, - 1) = (u, t)"
    by (rule prod.exhaust)
  have "\<forall>c\<in>set cs. q c \<longrightarrow> 0 \<le> h c" using snoc.prems by auto
  from snoc.IH [OF this] have b: "best n q h cs (u, t)" unfolding ut .
  show ?case
  proof (cases "q c")
    case True
    with best_step [OF b True snoc.prems] show ?thesis unfolding fold_append comp_apply ut by simp
  next
    case False
    with b show ?thesis unfolding fold_append comp_apply ut by (simp add: best_skip)
  qed
qed (simp add: best_def)

definition sideSlots :: "battle \<Rightarrow> int \<Rightarrow> bool \<Rightarrow> int list" where
  "sideSlots b pos enemy = (case searchSide b pos enemy of (s, l) \<Rightarrow> [s..l - 1])"

definition aliveAt :: "battle \<Rightarrow> int \<Rightarrow> bool" where
  "aliveAt b c = isValidBattlePlayer (getPlayerByPos b c)"

definition valueAt :: "battle \<Rightarrow> int \<Rightarrow> int \<Rightarrow> int" where
  "valueAt b n c = (case getPlayerByPos b c of None \<Rightarrow> 0 | Some f \<Rightarrow> aiValue n f)"

text \<open>the search of a pet, a monster or an automatic skill for the character with the
  least or the greatest life, speed or hate returns a slot of the right side with a
  living character that has the best value of all, and -1 exactly when the side has
  none; the values must not be negative, since the search marks \<open>no value yet\<close> by -1.\<close>

theorem selectValueTarget_best:
  assumes "\<forall>c\<in>set (sideSlots b pos enemy). aliveAt b c \<longrightarrow> 0 \<le> valueAt b n c"
  shows "if \<exists>c\<in>set (sideSlots b pos enemy). aliveAt b c
    then selectValueTarget b pos n enemy \<in> set (sideSlots b pos enemy) \<and> aliveAt b (selectValueTarget b pos n enemy)
      \<and> (aiMin n \<longrightarrow> (\<forall>c\<in>set (sideSlots b pos enemy). aliveAt b c \<longrightarrow> valueAt b n (selectValueTarget b pos n enemy) \<le> valueAt b n c))
      \<and> (aiMax n \<longrightarrow> (\<forall>c\<in>set (sideSlots b pos enemy). aliveAt b c \<longrightarrow> valueAt b n c \<le> valueAt b n (selectValueTarget b pos n enemy)))
    else selectValueTarget b pos n enemy = - 1"
proof -
  have "(case getPlayerByPos b c of None \<Rightarrow> ut
      | Some p \<Rightarrow> if isValidBattlePlayer (Some p) then valueStep n c (aiValue n p) ut else ut)
      = (if aliveAt b c then valueStep n c (valueAt b n c) ut else ut)" for c ut
    by (simp add: aliveAt_def valueAt_def isValidBattlePlayer_def split: option.split)
  then have "selectValueTarget b pos n enemy = snd (fold (\<lambda>c ut. if aliveAt b c then valueStep n c (valueAt b n c) ut else ut)
      (sideSlots b pos enemy) (- 1, - 1))"
    by (simp add: selectValueTarget_def sideSlots_def prod.case_eq_if)
  with best_fold [OF assms, of n] show ?thesis unfolding best_def by (auto split: if_splits)
qed

theorem selectValueTarget_best_witness:
  "selectValueTarget (new_battle (\<lambda>n. 0) arena) 0 AI_HP_MIN_ENEMY True = 20"
proof -
  let ?b = "new_battle (\<lambda>n. 0) arena"
  have "\<forall>c\<in>set (sideSlots ?b 0 True). aliveAt ?b c \<longrightarrow> 0 \<le> valueAt ?b AI_HP_MIN_ENEMY c" by code_simp
  moreover have "filter (aliveAt ?b) (sideSlots ?b 0 True) = [20]" by code_simp
  then have "set (filter (aliveAt ?b) (sideSlots ?b 0 True)) = {20}" by simp
  then have "\<forall>c. c \<in> set (sideSlots ?b 0 True) \<and> aliveAt ?b c \<longleftrightarrow> c = 20" by auto
  ultimately show ?thesis using selectValueTarget_best [of ?b 0 True AI_HP_MIN_ENEMY] by (metis (full_types))
qed

section \<open>Guards\<close>

text \<open>a guard that a skill has set up for a position takes the blows of the kind it
  guards against exactly when the draw of the round is below its chance, provided
  that no guard against everything covers the position too.\<close>

theorem getGuardPos_set:
  assumes "0 \<le> e" "e < MAX_POS" "0 \<le> i" "i < MAX_POS" "0 < k" "k < 65536" "guardPower t = Some q"
    "guardHash b (setKeyXY e POWER_GUARD_ALL_ATTACK) = None"
  shows "fst (run_state (getGuardPos e t) (addGuardData e q i k b)) =
    (if \<bar>draws b (drawn b)\<bar> mod 100 < k then i else - 1)"
proof -
  have q: "q \<in> {POWER_GUARD_STR_ATTACK, POWER_GUARD_AGI_ATTACK, POWER_GUARD_MAGIC_ATTACK, POWER_GUARD_CURSE_ATTACK}" "t \<noteq> ATKTYPE_BLESS"
    using assms(7) by (auto simp: guardPower_def split: if_splits)
  then have ne: "setKeyXY e POWER_GUARD_ALL_ATTACK \<noteq> setKeyXY e q"
    using key_coords(2) [of q e] key_coords(2) [of POWER_GUARD_ALL_ATTACK e] by auto
  have z: "getXKey 0 = 0" "getYKey 0 = 0" by (simp_all add: getXKey_def getYKey_def jand_def jshr_def)
  have xy: "getXKey (setKeyXY i k) = i" "getYKey (setKeyXY i k) = k" using assms by (simp_all add: key_coords)
  show ?thesis
    using assms ne q(2)
    by (simp add: getGuardPos_def addGuardData_def run_bind run_randInt Let_def z xy jrem_nonneg)
qed

theorem getGuardPos_set_witness:
  "fst (run_state (getGuardPos 4 ATKTYPE_STR) (addGuardData 4 POWER_GUARD_STR_ATTACK 2 100 (new_battle (\<lambda>n. 99) arena))) = 2"
  using getGuardPos_set [of 4 2 100 ATKTYPE_STR POWER_GUARD_STR_ATTACK "new_battle (\<lambda>n. 99) arena"]
  by (simp add: guardPower_def new_battle_def Let_def initKeepoutatktime_def initBattleRowNum_def)

section \<open>Escape\<close>

lemma slotFighter_setFighter:
  "jget (playerList b) p \<noteq> None \<Longrightarrow> slotFighter (setFighter p f b) p = f"
  by (auto simp: slotFighter_def setFighter_def jget_jset_same dest: jget_Some_D)

text \<open>a living character that is not stunned always escapes, and no random number is
  drawn for it: the chance of an escape is computed nowhere, since the condition of
  the source assigns instead of comparing.\<close>

theorem doEscape_always:
  assumes "jget (playerList b) p = Some f" "\<not> isDead f" "\<not> hasState f BUFFER_STUN"
  shows "isBattleStatus (slotFighter (snd (run_state (doEscape p t) b)) p) BSTATUS_ESCAPE
    \<and> drawn (snd (run_state (doEscape p t) b)) = drawn b"
proof -
  let ?g = "snd (setBattleStatus BSTATUS_ESCAPE f)"
  have "\<exists>cs. snd (run_state (doEscape p t) b) = (setFighter p ?g b)\<lparr>resultControlList := cs\<rparr>"
    using assms by (auto simp: doEscape_def run_bind slotFighter_def addAniControl_def)
  moreover have "slotFighter (setFighter p ?g b\<lparr>resultControlList := cs\<rparr>) p = ?g" for cs
    using assms(1) slotFighter_setFighter [of b p ?g] by (simp add: slotFighter_def)
  moreover have "drawn (setFighter p ?g b) = drawn b" by (simp add: setFighter_def)
  ultimately show ?thesis using escapeStatus by auto
qed

theorem doEscape_always_witness:
  "isBattleStatus (slotFighter (snd (run_state (doEscape 0 False) (new_battle (\<lambda>n. 99) arena))) 0) BSTATUS_ESCAPE"
proof -
  let ?b = "new_battle (\<lambda>n. 99) arena"
  have "jget (playerList ?b) 0 = Some (slotFighter ?b 0)"
    by (simp add: slotFighter_def new_battle_fields jget_map) (simp add: arena_def jget_def)
  moreover have "\<not> isDead (slotFighter ?b 0)" "\<not> hasState (slotFighter ?b 0) BUFFER_STUN" by code_simp+
  ultimately show ?thesis using doEscape_always [of ?b 0 "slotFighter ?b 0" False] by blast
qed

section \<open>Items\<close>

lemma powerAttr_not_time: "powerAttr c = Some r \<Longrightarrow> atkTimePower c w = None"
  by (auto simp: powerAttr_def atkTimePower_def split: if_splits)

text \<open>C40: an item whose power changes an attribute for some rounds raises a type error in
  the middle of the round: the log line of a new buffer asks the caster for its name,
  and an item has no caster.\<close>

theorem itemPower_raises:
  assumes "powerAttr c = Some (g, False)" "v \<noteq> 0" "0 < T"
  shows "failed (snd (run_state (processBattlePower p None None c v BUFFER_NONE T E) b))"
proof -
  have c: "0 < c" "0 \<le> g" using assms(1) by (auto simp: powerAttr_def split: if_splits)
  have "\<exists>x. powerOnFighter False tc c v BUFFER_NONE T E None f = ((True, [], []), x)" for tc f
    using assms c powerAttr_not_time [OF assms(1)]
    by (simp add: powerOnFighter_def applyPower_def leaveBuffer_def Let_def)
  then have "fst (powerOnFighter False tc c v BUFFER_NONE T E None f) = (True, [], [])" for tc f by (metis fst_conv)
  then have "failed (snd (run_state (do {
      (raised, y, cs) \<leftarrow> runFighter p (powerOnFighter False tc c v BUFFER_NONE T E None);
      addEffects cs; (if raised then typeError else ret ()); ret y }) b'))" for tc b'
    by (auto simp: run_bind runFighter_def addEffects_def typeError_def prod.case_eq_if Let_def)
  with c show ?thesis
    by (simp add: processBattlePower_def isResisted_def run_bind usedUp_def)
qed

theorem itemPower_raises_witness:
  "failed (snd (run_state (processBattlePower 0 None None POWER_SPEED 10 BUFFER_NONE 3 0) (new_battle (\<lambda>n. 0) arena)))"
  by (rule itemPower_raises [where g = SPEED]) (simp_all add: powerAttr_def)

section \<open>Rows of the battle field\<close>

lemma fold_rows:
  fixes r :: "int \<Rightarrow> int"
  assumes "\<And>n. n \<in> set ns \<Longrightarrow> P n \<Longrightarrow> r n \<le> m" "e \<le> m"
  shows "e \<le> fold (\<lambda>n e. if P n \<and> r n > e then r n else e) ns e
    \<and> fold (\<lambda>n e. if P n \<and> r n > e then r n else e) ns e \<le> m
    \<and> (\<forall>n\<in>set ns. P n \<longrightarrow> r n \<le> fold (\<lambda>n e. if P n \<and> r n > e then r n else e) ns e)"
  using assms
proof (induction ns arbitrary: e)
  case (Cons n ns)
  let ?e = "if P n \<and> r n > e then r n else e"
  have "?e \<le> m" using Cons.prems by auto
  from Cons.IH [OF Cons.prems(1) this] show ?case by fastforce
qed simp

lemma getPlayerByPos_new: "getPlayerByPos (new_battle rnd t) p \<noteq> None \<longleftrightarrow> isBattlePos p \<and> jget t p \<noteq> None"
  by (simp add: getPlayerByPos_def new_battle_fields jget_map)

lemma rowsNeeded_bounds:
  assumes "\<And>n. isBattlePos n \<Longrightarrow> side n \<Longrightarrow> row n \<le> m" "5 \<le> m" "m \<le> MAX_ROW_NUM"
  shows "5 \<le> rowsNeeded b side row \<and> rowsNeeded b side row \<le> m
    \<and> (\<forall>n. isBattlePos n \<and> jget (playerList b) n \<noteq> None \<and> side n \<longrightarrow> row n \<le> rowsNeeded b side row)"
proof -
  let ?P = "\<lambda>n. getPlayerByPos b n \<noteq> None \<and> side n"
  let ?f = "fold (\<lambda>n e. if ?P n \<and> row n > e then row n else e) [0..MAX_POS - 1] 5"
  have P: "?P n \<longleftrightarrow> isBattlePos n \<and> jget (playerList b) n \<noteq> None \<and> side n" for n by (simp add: getPlayerByPos_def)
  have "5 \<le> ?f \<and> ?f \<le> m \<and> (\<forall>n\<in>set [0..MAX_POS - 1]. ?P n \<longrightarrow> row n \<le> ?f)"
    using assms(1,2) P by (intro fold_rows) auto
  moreover have "rowsNeeded b side row = min MAX_ROW_NUM ?f" by (simp add: rowsNeeded_def conj_assoc)
  moreover have "n \<in> set [0..MAX_POS - 1]" if "isBattlePos n" for n
    using that by (auto simp: isBattlePos_def split: if_splits)
  ultimately show ?thesis using assms(3) P by (auto simp: min_def)
qed

text \<open>a new battle has between 5 and 10 rows on the left and between 5 and 7 on the
  right, and every character stands in one of them, so that the areas and the counts
  of active characters reach it.\<close>

theorem new_battle_rows:
  "5 \<le> rowLeft (new_battle rnd t) \<and> rowLeft (new_battle rnd t) \<le> MAX_ROW_NUM
   \<and> 5 \<le> rowRight (new_battle rnd t) \<and> rowRight (new_battle rnd t) \<le> 7
   \<and> (\<forall>p. getPlayerByPos (new_battle rnd t) p \<noteq> None \<longrightarrow>
         (if isLeftSide p then p < getLeftPosNum (new_battle rnd t)
          else p < LEFT_MAX_POS + getRightPosNum (new_battle rnd t)))"
proof -
  obtain b where b: "playerList b = t" "rowLeft (new_battle rnd t) = rowsNeeded b isLeftSide (\<lambda>n. jdiv n 2 + 1)"
      "rowRight (new_battle rnd t) = rowsNeeded b (\<lambda>n. \<not> isLeftSide n) (\<lambda>n. jdiv (n - LEFT_MAX_POS) 2 + 1)"
    by (rule that [of "\<lparr>rowLeft = 0, rowRight = 0, round = 0, result = RESULT_NONE, playerList = t,
             guardHash = (\<lambda>_. None), playerPlanData = replicate (nat MAX_POS) None,
             resultControlList = [], totalHitTime = 1, block = 0, isLeftHand = True,
             battleAtkType = 0, randCnt = 0, waitStatus = 0, isLeftHavePlayer = False,
             isRightHavePlayer = False, draws = rnd, drawn = 0, failed = False\<rparr>"])
      (simp_all add: new_battle_def Let_def initKeepoutatktime_def initBattleRowNum_def)
  have L: "jdiv n 2 + 1 \<le> 10 \<and> n < 2 * (jdiv n 2 + 1)" if "isBattlePos n" "isLeftSide n" for n
    using that by (auto simp: isBattlePos_def isLeftSide_def getPositionSide_def jdiv_nonneg split: if_splits)
  have R: "jdiv (n - LEFT_MAX_POS) 2 + 1 \<le> 7 \<and> n < LEFT_MAX_POS + 2 * (jdiv (n - LEFT_MAX_POS) 2 + 1)"
    if "isBattlePos n" "\<not> isLeftSide n" for n
    using that by (auto simp: isBattlePos_def isLeftSide_def getPositionSide_def jdiv_nonneg split: if_splits)
  let ?L = "rowLeft (new_battle rnd t)" and ?R = "rowRight (new_battle rnd t)"
  have l: "5 \<le> ?L \<and> ?L \<le> 10 \<and> (\<forall>n. isBattlePos n \<and> jget t n \<noteq> None \<and> isLeftSide n \<longrightarrow> jdiv n 2 + 1 \<le> ?L)"
    using rowsNeeded_bounds [of isLeftSide "\<lambda>n. jdiv n 2 + 1" 10 b] L unfolding b by simp
  have r: "5 \<le> ?R \<and> ?R \<le> 7
      \<and> (\<forall>n. isBattlePos n \<and> jget t n \<noteq> None \<and> \<not> isLeftSide n \<longrightarrow> jdiv (n - LEFT_MAX_POS) 2 + 1 \<le> ?R)"
    using rowsNeeded_bounds [of "\<lambda>n. \<not> isLeftSide n" "\<lambda>n. jdiv (n - LEFT_MAX_POS) 2 + 1" 7 b] R unfolding b by simp
  have "if isLeftSide p then p < 2 * ?L else p < LEFT_MAX_POS + 2 * ?R" if p: "isBattlePos p \<and> jget t p \<noteq> None" for p
  proof (cases "isLeftSide p")
    case True
    then have "jdiv p 2 + 1 \<le> ?L" "p < 2 * (jdiv p 2 + 1)" using l L p by blast+
    with True show ?thesis by simp
  next
    case False
    then have "jdiv (p - LEFT_MAX_POS) 2 + 1 \<le> ?R" "p < LEFT_MAX_POS + 2 * (jdiv (p - LEFT_MAX_POS) 2 + 1)" using r R p by blast+
    with False show ?thesis by simp
  qed
  with l r show ?thesis unfolding getPlayerByPos_new getLeftPosNum_def getRightPosNum_def by blast
qed

theorem new_battle_rows_witness:
  "getPlayerByPos (new_battle (\<lambda>_. 0) arena) 20 \<noteq> None \<and> \<not> isLeftSide 20
   \<and> 20 < LEFT_MAX_POS + getRightPosNum (new_battle (\<lambda>_. 0) arena)"
proof -
  have p: "getPlayerByPos (new_battle (\<lambda>_. 0) arena) 20 \<noteq> None" "\<not> isLeftSide 20" by code_simp+
  with new_battle_rows [of "\<lambda>_. 0" arena] show ?thesis by presburger
qed

end
