(* ===== verification/AStarHeap.thy ===== *)
theory AStarHeap
  imports Prelude
begin

text \<open>
  The binary heap of the path search (the second class of the module \<open>AStar\<close>).

  The array \<open>a\<close> has an unused entry \<open>null\<close> at index 0; the parent of index \<open>k\<close> is
  \<open>k >> 1\<close>.  The order \<open>justMinFun\<close> compares the field \<open>f\<close> of two nodes, which the
  search changes while nodes are in the heap, so the operations take the current
  values \<open>f\<close> as an argument.  The contract that the heap fulfils while the values
  stay fixed is the locale \<open>prio_queue\<close>.
\<close>

section \<open>Operations\<close>

definition justMinFun :: "('a \<Rightarrow> int) \<Rightarrow> 'a option \<Rightarrow> 'a option \<Rightarrow> bool" where
  "justMinFun f e t = (f (the e) < f (the t))"

definition swapAt :: "'a list \<Rightarrow> nat \<Rightarrow> nat \<Rightarrow> 'a list" where
  "swapAt a i j = a[i := a ! j, j := a ! i]"

definition new_heap :: "'a option list" where
  "new_heap = [None]"

function siftUp :: "('a \<Rightarrow> int) \<Rightarrow> 'a option list \<Rightarrow> nat \<Rightarrow> 'a option list" where
  "siftUp f a k =
     (if k > 1 \<and> justMinFun f (a ! k) (a ! (k div 2))
      then siftUp f (swapAt a k (k div 2)) (k div 2) else a)"
  by pat_completeness auto
termination by (relation "measure (\<lambda>(f, a, k). k)") auto

definition ins :: "('a \<Rightarrow> int) \<Rightarrow> 'a \<Rightarrow> 'a option list \<Rightarrow> 'a option list" where
  "ins f t a = siftUp f (a @ [Some t]) (length a)"

definition minChild :: "('a \<Rightarrow> int) \<Rightarrow> 'a option list \<Rightarrow> nat \<Rightarrow> nat" where
  "minChild f a n =
     (let r = 2 * n; s = r + 1 in if length a > s \<and> justMinFun f (a ! s) (a ! r) then s else r)"

lemma minChild_bounds:
  assumes "length a > 2 * n" "justMinFun f (a ! minChild f a n) (a ! n)"
  shows "n < minChild f a n" and "minChild f a n < length a" and "minChild f a n div 2 = n"
  using assms by (cases "n = 0"; force simp: minChild_def justMinFun_def Let_def split: if_splits)+

function siftDown :: "('a \<Rightarrow> int) \<Rightarrow> 'a option list \<Rightarrow> nat \<Rightarrow> 'a option list" where
  "siftDown f a n =
     (if length a > 2 * n \<and> justMinFun f (a ! minChild f a n) (a ! n)
      then siftDown f (swapAt a n (minChild f a n)) (minChild f a n) else a)"
  by pat_completeness auto
termination
proof (relation "measure (\<lambda>(f, a, n). length a - n)", goal_cases)
  case (2 f a n)
  with minChild_bounds(1,2) [of n a f] show ?case by (simp add: swapAt_def diff_less_mono2)
qed simp

definition heap_pop :: "('a \<Rightarrow> int) \<Rightarrow> 'a option list \<Rightarrow> 'a option \<times> 'a option list" where
  "heap_pop f a = (a ! 1, siftDown f (butlast (a[1 := last a])) 1)"

declare siftUp.simps [simp del] siftDown.simps [simp del]

section \<open>The contents of the heap\<close>

text \<open>The array holds \<open>null\<close> at index 0 and nodes everywhere else.\<close>

definition heap_shape :: "'a option list \<Rightarrow> bool" where
  "heap_shape a = (\<exists>xs. a = None # map Some xs)"

definition heap_elems :: "'a option list \<Rightarrow> 'a multiset" where
  "heap_elems a = mset (map the (tl a))"

lemma length_swapAt [simp]: "length (swapAt a i j) = length a"
  by (simp add: swapAt_def)

lemma swapAt_nth:
  "i < length a \<Longrightarrow> j < length a \<Longrightarrow> k < length a \<Longrightarrow>
   swapAt a i j ! k = (if k = j then a ! i else if k = i then a ! j else a ! k)"
  by (simp add: swapAt_def nth_list_update)

lemma heap_shape_iff:
  "heap_shape a \<longleftrightarrow> a \<noteq> [] \<and> a ! 0 = None \<and> (\<forall>k. 0 < k \<and> k < length a \<longrightarrow> a ! k \<noteq> None)"
proof
  assume r: "a \<noteq> [] \<and> a ! 0 = None \<and> (\<forall>k. 0 < k \<and> k < length a \<longrightarrow> a ! k \<noteq> None)"
  then obtain b where a: "a = None # b" by (cases a) auto
  have "\<forall>x\<in>set b. x \<noteq> None"
  proof
    fix x assume "x \<in> set b"
    then obtain k where "k < length b" "b ! k = x" by (auto simp: in_set_conv_nth)
    with r a show "x \<noteq> None" by (metis Suc_mono length_Cons nth_Cons_Suc zero_less_Suc)
  qed
  then have "b = map Some (map the b)" by (induction b) auto
  with a show "heap_shape a" unfolding heap_shape_def by blast
qed (auto simp: heap_shape_def nth_Cons')

lemma heap_swap:
  assumes "heap_shape a" "0 < i" "i < length a" "0 < j" "j < length a"
  shows "heap_shape (swapAt a i j)" and "heap_elems (swapAt a i j) = heap_elems a"
proof -
  show "heap_shape (swapAt a i j)"
    using assms by (auto simp: heap_shape_iff swapAt_nth swapAt_def nth_list_update)
  obtain b where a: "a = None # b" using assms(1) by (auto simp: heap_shape_def)
  obtain i' j' where ij: "i = Suc i'" "j = Suc j'" using assms by (meson gr0_implies_Suc)
  have "mset (tl (swapAt a i j)) = mset (tl a)"
    using assms a ij by (simp add: swapAt_def mset_swap)
  then show "heap_elems (swapAt a i j) = heap_elems a" by (simp add: heap_elems_def)
qed

lemma siftUp_contents:
  "heap_shape a \<Longrightarrow> k < length a \<Longrightarrow>
   heap_shape (siftUp f a k) \<and> heap_elems (siftUp f a k) = heap_elems a"
proof (induction f a k rule: siftUp.induct)
  case (1 f a k)
  show ?case
  proof (cases "k > 1 \<and> justMinFun f (a ! k) (a ! (k div 2))")
    case True
    then have k: "0 < k div 2" "k div 2 < length a" using 1 by auto
    with True heap_swap [OF 1(2), of k "k div 2"] 1 show ?thesis
      by (simp add: siftUp.simps [of f a k])
  qed (use 1(2) in \<open>auto simp: siftUp.simps [of f a k]\<close>)
qed

lemma siftDown_contents:
  "heap_shape a \<Longrightarrow> 0 < n \<Longrightarrow>
   heap_shape (siftDown f a n) \<and> heap_elems (siftDown f a n) = heap_elems a"
proof (induction f a n rule: siftDown.induct)
  case (1 f a n)
  show ?case
  proof (cases "length a > 2 * n \<and> justMinFun f (a ! minChild f a n) (a ! n)")
    case True
    note c = minChild_bounds [OF conjunct1 [OF True] conjunct2 [OF True]]
    with heap_swap [OF 1(2), of n "minChild f a n"] True 1 show ?thesis
      by (simp add: siftDown.simps [of f a n])
  qed (use 1(2) in \<open>auto simp: siftDown.simps [of f a n]\<close>)
qed

lemma ins_contents:
  assumes "heap_shape a"
  shows "heap_shape (ins f t a)" and "heap_elems (ins f t a) = add_mset t (heap_elems a)"
proof -
  obtain xs where a: "a = None # map Some xs" using assms by (auto simp: heap_shape_def)
  have "a @ [Some t] = None # map Some (xs @ [t])" by (simp add: a)
  then have s: "heap_shape (a @ [Some t])" unfolding heap_shape_def by blast
  from siftUp_contents [OF s, of "length a" f] a
  show "heap_shape (ins f t a)" "heap_elems (ins f t a) = add_mset t (heap_elems a)"
    by (auto simp: ins_def heap_elems_def)
qed

lemma heap_pop_contents:
  assumes "heap_shape a" "heap_elems a \<noteq> {#}"
  shows "\<exists>x. fst (heap_pop f a) = Some x \<and> heap_shape (snd (heap_pop f a))
      \<and> heap_elems a = add_mset x (heap_elems (snd (heap_pop f a)))"
proof -
  obtain x xs where a: "a = None # map Some (x # xs)"
    using assms unfolding heap_shape_def heap_elems_def by (metis list.exhaust list.sel(3) list.simps(8) mset.simps(1))
  define b where "b = butlast (a[1 := last a])"
  have b: "heap_shape b \<and> heap_elems b = mset xs"
  proof (cases xs rule: rev_exhaust)
    case Nil
    then show ?thesis by (simp add: b_def a heap_shape_def heap_elems_def)
  next
    case (snoc ys y)
    then have "b = None # map Some (y # ys)" by (simp add: b_def a butlast_append)
    with snoc show ?thesis by (auto simp: heap_shape_def heap_elems_def comp_def simp del: list.map)
  qed
  have "heap_elems a = add_mset x (mset xs)" "a ! 1 = Some x" by (simp_all add: a heap_elems_def comp_def)
  with siftDown_contents [of b 1 f] b show ?thesis
    unfolding heap_pop_def b_def [symmetric] by simp
qed

section \<open>The order of the heap\<close>

abbreviation keyAt :: "('a \<Rightarrow> int) \<Rightarrow> 'a option list \<Rightarrow> nat \<Rightarrow> int" where
  "keyAt f a k \<equiv> f (the (a ! k))"

definition heap_ordered :: "('a \<Rightarrow> int) \<Rightarrow> 'a option list \<Rightarrow> bool" where
  "heap_ordered f a = (\<forall>k. 2 \<le> k \<and> k < length a \<longrightarrow> keyAt f a (k div 2) \<le> keyAt f a k)"

text \<open>While a node moves, the order holds everywhere but between it and its parent
  (\<open>up_order\<close>) or between it and its children (\<open>down_order\<close>).\<close>

definition up_order :: "('a \<Rightarrow> int) \<Rightarrow> 'a option list \<Rightarrow> nat \<Rightarrow> bool" where
  "up_order f a k =
     ((\<forall>j. 2 \<le> j \<and> j < length a \<and> j \<noteq> k \<longrightarrow> keyAt f a (j div 2) \<le> keyAt f a j) \<and>
      (\<forall>j. 2 \<le> k \<and> j < length a \<and> j div 2 = k \<longrightarrow> keyAt f a (k div 2) \<le> keyAt f a j))"

definition down_order :: "('a \<Rightarrow> int) \<Rightarrow> 'a option list \<Rightarrow> nat \<Rightarrow> bool" where
  "down_order f a n =
     ((\<forall>j. 2 \<le> j \<and> j < length a \<and> j div 2 \<noteq> n \<longrightarrow> keyAt f a (j div 2) \<le> keyAt f a j) \<and>
      (\<forall>j. 2 \<le> n \<and> j < length a \<and> j div 2 = n \<longrightarrow> keyAt f a (n div 2) \<le> keyAt f a j))"

lemma keyAt_swap:
  "i < length a \<Longrightarrow> j < length a \<Longrightarrow> k < length a \<Longrightarrow>
   keyAt f (swapAt a i j) k = (if k = j then keyAt f a i else if k = i then keyAt f a j else keyAt f a k)"
  by (simp add: swapAt_nth)

lemma up_order_step:
  assumes "up_order f a k" "k < length a" "1 < k" "keyAt f a k < keyAt f a (k div 2)"
  shows "up_order f (swapAt a k (k div 2)) (k div 2)"
proof -
  let ?p = "k div 2" and ?b = "swapAt a k (k div 2)"
  have p: "0 < ?p" "?p < k" "?p < length a" using assms by auto
  note v = keyAt_swap [of k a ?p, OF assms(2) p(3), of _ f]
  have A: "keyAt f a (j div 2) \<le> keyAt f a j" if "2 \<le> j" "j < length a" "j \<noteq> k" for j
    using assms(1) that unfolding up_order_def by blast
  have B: "keyAt f a ?p \<le> keyAt f a j" if "j < length a" "j div 2 = k" for j
    using assms(1,3) that unfolding up_order_def by auto
  have "keyAt f ?b (j div 2) \<le> keyAt f ?b j" if "2 \<le> j" "j < length a" "j \<noteq> ?p" for j
  proof -
    have d: "j div 2 < length a" "j div 2 < j" using that by auto
    consider "j = k" | "j \<noteq> k" "j div 2 = k" | "j \<noteq> k" "j div 2 = ?p" "j div 2 \<noteq> k"
      | "j \<noteq> k" "j div 2 \<noteq> k" "j div 2 \<noteq> ?p" by blast
    then show ?thesis
    proof cases
      case 1
      with assms(2,4) p show ?thesis by (simp add: v [OF p(3)] v [OF assms(2)])
    next
      case 2
      have "k \<noteq> ?p" using p(2) by linarith
      with 2 B [OF that(2)] that p(1) show ?thesis by (simp add: v [OF assms(2)] v [OF that(2)])
    next
      case 3
      with A [OF that(1,2)] assms(4) that p show ?thesis by (simp add: v [OF p(3)] v [OF that(2)])
    next
      case 4
      with A [OF that(1,2)] that show ?thesis by (simp add: v [OF d(1)] v [OF that(2)])
    qed
  qed
  moreover have "keyAt f ?b (?p div 2) \<le> keyAt f ?b j" if "2 \<le> ?p" "j < length a" "j div 2 = ?p" for j
  proof -
    have q: "?p div 2 < length a" "?p div 2 \<noteq> ?p" "?p div 2 \<noteq> k" "j \<noteq> ?p" using that p by auto
    have "keyAt f a (?p div 2) \<le> keyAt f a ?p" using A [of ?p] that p by simp
    moreover have "keyAt f a ?p \<le> keyAt f a j" if "j \<noteq> k" using A [of j] that \<open>j div 2 = ?p\<close> \<open>2 \<le> ?p\<close> \<open>j < length a\<close> by auto
    ultimately show ?thesis using q by (cases "j = k") (simp_all add: v [OF q(1)] v [OF that(2)] v [OF assms(2)])
  qed
  ultimately show ?thesis unfolding up_order_def by simp
qed

lemma siftUp_ordered:
  "up_order f a k \<Longrightarrow> k < length a \<Longrightarrow> heap_ordered f (siftUp f a k)"
proof (induction f a k rule: siftUp.induct)
  case (1 f a k)
  show ?case
  proof (cases "k > 1 \<and> justMinFun f (a ! k) (a ! (k div 2))")
    case True
    with 1 up_order_step [of f a k] show ?thesis by (simp add: siftUp.simps [of f a k] justMinFun_def)
  next
    case False
    then have "heap_ordered f a"
      using 1(2) unfolding heap_ordered_def up_order_def justMinFun_def by (metis linorder_not_less Suc_1 Suc_le_lessD)
    with False show ?thesis by (auto simp: siftUp.simps [of f a k])
  qed
qed

lemma down_order_step:
  assumes "down_order f a n" "0 < n" "length a > 2 * n" "keyAt f a (minChild f a n) < keyAt f a n"
  shows "down_order f (swapAt a n (minChild f a n)) (minChild f a n)"
proof -
  let ?c = "minChild f a n" and ?b = "swapAt a n (minChild f a n)"
  have c: "n < ?c" "?c < length a" "?c div 2 = n"
    using minChild_bounds [of n a f] assms(3,4) by (auto simp: justMinFun_def)
  have n: "n < length a" using c by simp
  have least: "keyAt f a ?c \<le> keyAt f a j" if "j < length a" "j div 2 = n" for j
  proof -
    have "j = 2 * n \<or> j = 2 * n + 1" using that(2) by auto
    with that(1) show ?thesis by (auto simp: minChild_def Let_def justMinFun_def)
  qed
  note v = keyAt_swap [of n a ?c, OF n c(2), of _ f]
  have A: "keyAt f a (j div 2) \<le> keyAt f a j" if "2 \<le> j" "j < length a" "j div 2 \<noteq> n" for j
    using assms(1) that unfolding down_order_def by blast
  have B: "keyAt f a (n div 2) \<le> keyAt f a j" if "2 \<le> n" "j < length a" "j div 2 = n" for j
    using assms(1) that unfolding down_order_def by blast
  have "keyAt f ?b (j div 2) \<le> keyAt f ?b j" if "2 \<le> j" "j < length a" "j div 2 \<noteq> ?c" for j
  proof -
    have d: "j div 2 < length a" "j div 2 < j" using that by auto
    consider "j = ?c" | "j \<noteq> ?c" "j div 2 = n" | "j = n" "j div 2 \<noteq> n" | "j \<noteq> ?c" "j \<noteq> n" "j div 2 \<noteq> n"
      using c by force
    then show ?thesis
    proof cases
      case 1
      with assms(4) c show ?thesis by (simp add: v [OF n] v [OF c(2)])
    next
      case 2
      with least [OF that(2)] that d(2) show ?thesis by (simp add: v [OF n] v [OF that(2)])
    next
      case 3
      have "n div 2 < length a" using n by simp
      from 3 B [of ?c] c that show ?thesis by (simp add: v [OF \<open>n div 2 < length a\<close>] v [OF n])
    next
      case 4
      with A [OF that(1,2)] that show ?thesis by (simp add: v [OF d(1)] v [OF that(2)])
    qed
  qed
  moreover have "keyAt f ?b (?c div 2) \<le> keyAt f ?b j" if "2 \<le> ?c" "j < length a" "j div 2 = ?c" for j
  proof -
    have "j \<noteq> n" "j \<noteq> ?c" "n \<noteq> ?c" using that c by auto
    moreover have "keyAt f a ?c \<le> keyAt f a j" using A [of j] that c by fastforce
    ultimately show ?thesis using c by (simp add: v [OF n] v [OF that(2)])
  qed
  ultimately show ?thesis unfolding down_order_def by simp
qed

lemma siftDown_ordered:
  "down_order f a n \<Longrightarrow> 0 < n \<Longrightarrow> heap_ordered f (siftDown f a n)"
proof (induction f a n rule: siftDown.induct)
  case (1 f a n)
  show ?case
  proof (cases "length a > 2 * n \<and> justMinFun f (a ! minChild f a n) (a ! n)")
    case True
    with 1 down_order_step [of f a n] minChild_bounds(1) [of n a f] show ?thesis
      by (simp add: siftDown.simps [of f a n] justMinFun_def)
  next
    case False
    have "keyAt f a n \<le> keyAt f a j" if "j < length a" "j div 2 = n" for j
    proof -
      have "j = 2 * n \<or> j = 2 * n + 1" using that(2) by auto
      with False that(1) show ?thesis by (auto simp: minChild_def Let_def justMinFun_def split: if_splits)
    qed
    with 1(2) have "heap_ordered f a" unfolding heap_ordered_def down_order_def by metis
    with False show ?thesis by (auto simp: siftDown.simps [of f a n])
  qed
qed

lemma heap_min:
  assumes "heap_ordered f a"
  shows "0 < k \<Longrightarrow> k < length a \<Longrightarrow> keyAt f a 1 \<le> keyAt f a k"
proof (induction k rule: less_induct)
  case (less k)
  show ?case
  proof (cases "k = 1")
    case False
    with less have "keyAt f a 1 \<le> keyAt f a (k div 2)" by auto
    also have "\<dots> \<le> keyAt f a k" using assms less False unfolding heap_ordered_def by simp
    finally show ?thesis .
  qed simp
qed

section \<open>The contract of a priority queue\<close>

text \<open>Taking everything out of a queue, in the order in which it comes.\<close>

primrec drain :: "('q \<Rightarrow> 'a option \<times> 'q) \<Rightarrow> nat \<Rightarrow> 'q \<Rightarrow> 'a option list" where
  "drain get 0 q = []"
| "drain get (Suc n) q = fst (get q) # drain get n (snd (get q))"

locale prio_queue =
  fixes key :: "'a \<Rightarrow> int"
    and add :: "'a \<Rightarrow> 'q \<Rightarrow> 'q"
    and get :: "'q \<Rightarrow> 'a option \<times> 'q"
    and ok :: "'q \<Rightarrow> bool"
    and elems :: "'q \<Rightarrow> 'a multiset"
  assumes ok_add: "ok q \<Longrightarrow> ok (add x q)"
    and elems_add: "ok q \<Longrightarrow> elems (add x q) = add_mset x (elems q)"
    and get_least: "ok q \<Longrightarrow> elems q \<noteq> {#} \<Longrightarrow>
      \<exists>x. fst (get q) = Some x \<and> ok (snd (get q)) \<and> elems q = add_mset x (elems (snd (get q)))
        \<and> (\<forall>y\<in>#elems q. key x \<le> key y)"
begin

lemma fold_add:
  "ok q \<Longrightarrow> ok (fold add xs q) \<and> elems (fold add xs q) = mset xs + elems q"
  by (induction xs arbitrary: q) (auto simp: ok_add elems_add)

lemma drain_sorted:
  "ok q \<Longrightarrow> n = size (elems q) \<Longrightarrow>
   \<exists>ys. drain get n q = map Some ys \<and> mset ys = elems q \<and> sorted (map key ys)"
proof (induction n arbitrary: q)
  case (Suc n)
  then have "elems q \<noteq> {#}" by auto
  with get_least Suc(2) obtain x where x: "fst (get q) = Some x" "ok (snd (get q))"
      "elems q = add_mset x (elems (snd (get q)))" "\<forall>y\<in>#elems q. key x \<le> key y"
    by blast
  with Suc(3) have "n = size (elems (snd (get q)))" by simp
  from Suc(1) [OF x(2) this] obtain ys where ys: "drain get n (snd (get q)) = map Some ys"
      "mset ys = elems (snd (get q))" "sorted (map key ys)"
    by blast
  have "drain get (Suc n) q = map Some (x # ys)" "mset (x # ys) = elems q" using x ys by simp_all
  moreover have "\<forall>y\<in>set ys. key x \<le> key y"
  proof
    fix y assume "y \<in> set ys"
    then have "y \<in># elems q" using ys(2) x(3) by (metis set_mset_mset union_single_eq_member insert_DiffM2 set_mset_add_mset_insert insertI2)
    with x(4) show "key x \<le> key y" by blast
  qed
  ultimately show ?case using ys(3) by (intro exI [of _ "x # ys"]) simp
qed simp

lemma drain_sorts:
  assumes "ok q" "elems q = {#}"
  shows "map (map_option key) (drain get (length xs) (fold add xs q)) = map Some (sort (map key xs))"
proof -
  from fold_add [OF assms(1), of xs] assms(2)
  have o: "ok (fold add xs q)" and e: "elems (fold add xs q) = mset xs" by simp_all
  from drain_sorted [OF o, of "length xs"] e obtain ys
    where ys: "drain get (length xs) (fold add xs q) = map Some ys" "mset ys = mset xs" "sorted (map key ys)"
    by auto
  from ys(2) have "mset (map key ys) = mset (map key xs)" by simp
  with ys(3) have "map key ys = sort (map key xs)" by (metis properties_for_sort)
  then have "map Some (map key ys) = map Some (sort (map key xs))" by (rule arg_cong)
  with ys(1) show ?thesis by (simp add: comp_def)
qed

end

text \<open>The array heap fulfils the contract for fixed values.\<close>

definition heap_ok :: "('a \<Rightarrow> int) \<Rightarrow> 'a option list \<Rightarrow> bool" where
  "heap_ok f a = (heap_shape a \<and> heap_ordered f a)"

lemma heap_ok_new: "heap_ok f new_heap \<and> heap_elems new_heap = {#}"
  by (auto simp: heap_ok_def new_heap_def heap_shape_def heap_ordered_def heap_elems_def)

lemma heap_ok_ins:
  assumes "heap_ok f a"
  shows "heap_ok f (ins f t a)"
proof -
  have "a \<noteq> []" using assms by (auto simp: heap_ok_def heap_shape_def)
  have "up_order f (a @ [Some t]) (length a)"
    using assms unfolding heap_ok_def heap_ordered_def up_order_def
    by (auto simp: nth_append)
  then have "heap_ordered f (ins f t a)" unfolding ins_def by (rule siftUp_ordered) simp
  with assms ins_contents show ?thesis by (auto simp: heap_ok_def)
qed

lemma heap_ok_pop:
  assumes "heap_ok f a" "heap_elems a \<noteq> {#}"
  shows "heap_ok f (snd (heap_pop f a))" and "\<forall>y\<in>#heap_elems a. keyAt f a 1 \<le> f y"
proof -
  let ?b = "butlast (a[1 := last a])"
  have l: "length ?b = length a - 1" by simp
  have k: "?b ! j = a ! j" if "j < length ?b" "j \<noteq> 1" for j
    using that by (simp add: nth_butlast)
  have "down_order f ?b 1"
    using assms(1) k l unfolding heap_ok_def heap_ordered_def down_order_def by auto
  then have "heap_ordered f (snd (heap_pop f a))" unfolding heap_pop_def by (auto intro: siftDown_ordered)
  with assms heap_pop_contents [of a f] show "heap_ok f (snd (heap_pop f a))" by (auto simp: heap_ok_def)
  show "\<forall>y\<in>#heap_elems a. keyAt f a 1 \<le> f y"
  proof
    fix y assume "y \<in># heap_elems a"
    then obtain j where j: "j < length (tl a)" "the (tl a ! j) = y"
      by (auto simp: heap_elems_def in_set_conv_nth)
    then have "a ! Suc j = tl a ! j" "Suc j < length a" by (auto simp: nth_tl)
    with heap_min [of f a "Suc j"] assms(1) j show "keyAt f a 1 \<le> f y" by (auto simp: heap_ok_def)
  qed
qed

interpretation astar_heap: prio_queue f "ins f" "heap_pop f" "heap_ok f" heap_elems for f
proof
  fix q x assume q: "heap_ok f q"
  then show "heap_ok f (ins f x q)" by (rule heap_ok_ins)
  from q show "heap_elems (ins f x q) = add_mset x (heap_elems q)" by (simp add: ins_contents heap_ok_def)
next
  fix q assume q: "heap_ok f q" "heap_elems q \<noteq> {#}"
  then obtain x where "fst (heap_pop f q) = Some x" "heap_elems q = add_mset x (heap_elems (snd (heap_pop f q)))"
    using heap_pop_contents [of q f] by (auto simp: heap_ok_def)
  with heap_ok_pop [OF q] show "\<exists>x. fst (heap_pop f q) = Some x \<and> heap_ok f (snd (heap_pop f q))
      \<and> heap_elems q = add_mset x (heap_elems (snd (heap_pop f q))) \<and> (\<forall>y\<in>#heap_elems q. f x \<le> f y)"
    by (auto simp: heap_pop_def)
qed

text \<open>C13: inserting any nodes into a new heap and taking them out again gives them in
  the order of their values, as long as the values do not change in between.\<close>

theorem heap_sorts:
  "map (map_option f) (drain (heap_pop f) (length xs) (fold (ins f) xs new_heap)) = map Some (sort (map f xs))"
  using heap_ok_new by (intro astar_heap.drain_sorts) auto

end
