(* ===== verification/AStar.thy ===== *)
theory AStar
  imports AStarHeap Arrays
begin

text \<open>
  The path search on the grid of a scene: the static class \<open>AStar\<close> and the part of
  the scene map (modules 357 and 68) that calls it.

  A node object is referred to by its cell \<open>(x, y)\<close>, since \<open>_nodes\<close> holds one node per
  cell.  The nodes live on between two searches; a search recognises the nodes it
  has reached by their \<open>version\<close>.  The callback \<open>ckIsBlock\<close> is the argument \<open>blk\<close>.
  The main loop and \<open>buildPath\<close> may not end for arbitrary nodes, so they are partial
  functions; \<open>Raises\<close> is a \<open>TypeError\<close>.

  The object pool hands out reset nodes, whose \<open>version\<close> is 0 instead of 1; the
  difference is never observed.  \<open>isLinePassable\<close> adds up fractions in floating-point
  arithmetic and is the argument \<open>pass\<close> of the smoothing.
\<close>

section \<open>State\<close>

type_synonym cell = "int \<times> int"

datatype 'a call = Raises | Returns 'a

record anode =
  nf :: int
  ng :: int
  nh :: int
  nparent :: "cell option"
  nversion :: int
  nwalkable :: bool
  linkInited :: bool
  linkNodes :: "cell list"
  linkCost :: "int list"

record astar =
  numCols :: int
  numRows :: int
  isInit :: bool
  anodes :: "cell \<Rightarrow> anode option"
  nowversion :: int

definition new_anode :: "bool \<Rightarrow> anode" where
  "new_anode w = \<lparr>nf = 0, ng = 0, nh = 0, nparent = None, nversion = 1, nwalkable = w,
     linkInited = False, linkNodes = [], linkCost = []\<rparr>"

definition new_astar :: astar where
  "new_astar = \<lparr>numCols = 0, numRows = 0, isInit = False, anodes = (\<lambda>_. None), nowversion = 1\<rparr>"

abbreviation node :: "astar \<Rightarrow> cell \<Rightarrow> anode" where
  "node s c \<equiv> the (anodes s c)"

abbreviation setNode :: "cell \<Rightarrow> anode \<Rightarrow> astar \<Rightarrow> astar" where
  "setNode c n s \<equiv> s\<lparr>anodes := (anodes s)(c \<mapsto> n)\<rparr>"

section \<open>Nodes\<close>

text \<open>\<open>initialize\<close> clears the entries of all columns (not the properties with a
  negative name), and \<open>excInit\<close> cuts the array to the new size.\<close>

definition initialize :: "int \<Rightarrow> int \<Rightarrow> astar \<Rightarrow> astar" where
  "initialize e t s =
     s\<lparr>numCols := e, numRows := t, isInit := False,
       anodes := (\<lambda>c. if snd c \<ge> 0 then None else anodes s c)\<rparr>"

definition excInit :: "astar \<Rightarrow> astar" where
  "excInit s =
     s\<lparr>isInit := True,
       anodes := (\<lambda>c. if fst c < numCols s \<and> snd c < numRows s then anodes s c else None)\<rparr>"

definition getNode :: "(int \<Rightarrow> int \<Rightarrow> bool) \<Rightarrow> int \<Rightarrow> int \<Rightarrow> astar \<Rightarrow> cell option \<times> astar" where
  "getNode blk e t s =
     (if e < 0 \<or> e \<ge> numCols s then (None, s)
      else if anodes s (e, t) \<noteq> None then (Some (e, t), s)
      else (Some (e, t), setNode (e, t) (new_anode (\<not> blk e t)) s))"

definition euclidian2 :: "cell \<Rightarrow> cell \<Rightarrow> int" where
  "euclidian2 e t = (let i = fst e - fst t; j = snd e - snd t in i * i + j * j)"

definition around :: "astar \<Rightarrow> cell \<Rightarrow> cell list" where
  "around s e =
     List.product [max 0 (fst e - 1)..min (numCols s - 1) (fst e + 1)]
                  [max 0 (snd e - 1)..min (numRows s - 1) (snd e + 1)]"

text \<open>One step of the double loop of \<open>initNodeLink8\<close>; its cells lie in the grid, so
  \<open>getNode\<close> always finds or makes a node.\<close>

definition linkStep :: "(int \<Rightarrow> int \<Rightarrow> bool) \<Rightarrow> cell \<Rightarrow> cell \<Rightarrow> astar \<Rightarrow> astar" where
  "linkStep blk e c s =
     (case getNode blk (fst c) (snd c) s of
        (Some d, s) \<Rightarrow>
          if d \<noteq> e \<and> nwalkable (node s d)
          then setNode e ((node s e)\<lparr>linkNodes := linkNodes (node s e) @ [d],
                                     linkCost := linkCost (node s e) @ [1]\<rparr>) s
          else s
      | (None, s) \<Rightarrow> s)"

definition initNodeLink8 :: "(int \<Rightarrow> int \<Rightarrow> bool) \<Rightarrow> cell \<Rightarrow> astar \<Rightarrow> astar" where
  "initNodeLink8 blk e s = fold (linkStep blk e) (around s e) s"

section \<open>The search\<close>

definition relaxNode :: "cell \<Rightarrow> cell \<Rightarrow> cell \<times> int \<Rightarrow> cell option list \<times> astar \<Rightarrow> cell option list \<times> astar" where
  "relaxNode e u = (\<lambda>(c, p) (l, s).
     let n = node s c; h = ng (node s u) + p; f = euclidian2 c e; T = h + f;
         n' = n\<lparr>nf := T, ng := h, nh := f, nparent := Some u\<rparr>
     in if nversion n = nowversion s
        then (if nf n > T then (l, setNode c n' s) else (l, s))
        else (ins (\<lambda>q. nf (node (setNode c n' s) q)) c l,
              setNode c (n'\<lparr>nversion := nowversion s\<rparr>) s))"

definition linkUp :: "(int \<Rightarrow> int \<Rightarrow> bool) \<Rightarrow> cell \<Rightarrow> astar \<Rightarrow> astar" where
  "linkUp blk u s =
     (if linkInited (node s u) then s
      else (let s = initNodeLink8 blk u s in setNode u ((node s u)\<lparr>linkInited := True\<rparr>) s))"

partial_function (option) searchLoop ::
  "(int \<Rightarrow> int \<Rightarrow> bool) \<Rightarrow> cell \<Rightarrow> cell option list \<Rightarrow> cell \<Rightarrow> astar \<Rightarrow> (bool \<times> astar) option" where
  "searchLoop blk e l u s =
     (if u = e then Some (True, s)
      else (let s1 = linkUp blk u s;
                (l1, s2) = fold (relaxNode e u) (zip (linkNodes (node s1 u)) (linkCost (node s1 u))) (l, s1)
            in if length l1 = 1 then Some (False, s2)
               else (let (v, l2) = heap_pop (\<lambda>q. nf (node s2 q)) l1
                     in (case v of None \<Rightarrow> Some (False, s2)
                         | Some u' \<Rightarrow> searchLoop blk e l2 u' s2))))"

partial_function (option) parents :: "astar \<Rightarrow> cell \<Rightarrow> cell \<Rightarrow> cell list \<Rightarrow> cell list call option" where
  "parents s e p acc =
     (if p = e then Some (Returns acc)
      else (case nparent (node s p) of
              None \<Rightarrow> Some Raises
            | Some q \<Rightarrow> parents s e q (q # acc)))"

definition buildPath :: "astar \<Rightarrow> cell \<Rightarrow> cell \<Rightarrow> cell list call option" where
  "buildPath s e t = parents s e t [t]"

definition startSearch :: "cell \<Rightarrow> astar \<Rightarrow> astar" where
  "startSearch a s =
     (let s = s\<lparr>nowversion := nowversion s + 1\<rparr>
      in setNode a ((node s a)\<lparr>ng := 0, nversion := nowversion s\<rparr>) s)"

definition astar_findPath ::
  "(int \<Rightarrow> int \<Rightarrow> bool) \<Rightarrow> int \<Rightarrow> int \<Rightarrow> int \<Rightarrow> int \<Rightarrow> astar \<Rightarrow> (cell list option call \<times> astar) option" where
  "astar_findPath blk e t i k s =
     (let s = (if isInit s then s else excInit s);
          (a, s) = getNode blk (toInt32 e) (toInt32 t) s;
          (b, s) = getNode blk (toInt32 i) (toInt32 k) s
      in (case a of None \<Rightarrow> Some (Raises, s) | Some a \<Rightarrow>
          if \<not> nwalkable (node s a) then Some (Returns None, s)
          else (case b of None \<Rightarrow> Some (Raises, s) | Some b \<Rightarrow>
            if \<not> nwalkable (node s b) then Some (Returns None, s)
            else (case searchLoop blk b new_heap a (startSearch a s) of
                    None \<Rightarrow> None
                  | Some (False, s) \<Rightarrow> Some (Returns None, s)
                  | Some (True, s) \<Rightarrow>
                      (case buildPath s a b of
                         None \<Rightarrow> None
                       | Some Raises \<Rightarrow> Some (Raises, s)
                       | Some (Returns p) \<Rightarrow> Some (Returns (Some p), s))))))"

section \<open>Smoothing\<close>

definition dropAt :: "nat \<Rightarrow> 'a list \<Rightarrow> 'a list" where
  "dropAt k e = take k e @ drop (Suc k) e"

definition floydVector :: "cell \<Rightarrow> cell \<Rightarrow> cell" where
  "floydVector t i = (fst t - fst i, snd t - snd i)"

text \<open>The first loop removes the points in the middle of a straight run; the argument
  \<open>Suc t\<close> stands for the index \<open>t\<close> of the loop.\<close>

fun floydRuns :: "nat \<Rightarrow> cell \<Rightarrow> cell list \<Rightarrow> cell list" where
  "floydRuns 0 a e = e"
| "floydRuns (Suc t) a e =
     (let r = floydVector (e ! (t + 1)) (e ! t)
      in if a = r then floydRuns t a (dropAt (t + 1) e) else floydRuns t r e)"

text \<open>The second loop leaves out the points between two that see each other.\<close>

fun floydLines :: "(cell \<Rightarrow> cell \<Rightarrow> bool) \<Rightarrow> nat \<Rightarrow> cell list \<Rightarrow> cell list" where
  "floydLines pass 0 e = e"
| "floydLines pass (Suc t) e =
     (case List.find (\<lambda>l. pass (e ! t) (e ! l)) [0..<t - 1] of
        None \<Rightarrow> floydLines pass t e
      | Some l \<Rightarrow> if l < t then floydLines pass l (take (l + 1) e @ drop t e) else e)"

definition floyd :: "(cell \<Rightarrow> cell \<Rightarrow> bool) \<Rightarrow> cell list \<Rightarrow> cell list" where
  "floyd pass e =
     (let i = length e;
          e = (if i > 2 then floydRuns (i - 2) (floydVector (e ! (i - 1)) (e ! (i - 2))) e else e)
      in floydLines pass (length e) e)"

section \<open>The scene map\<close>

text \<open>The size of a tile divides the size of the map, so that the numbers of columns
  and rows are integers.\<close>

record map_cfg =
  mW :: int
  mH :: int
  tW :: int
  tH :: int
  cfg_blocks :: "int list"

record scene_map =
  mapId :: "int option"
  mapWidth :: int
  mapHeight :: int
  tileWidth :: int
  tileHeight :: int
  columns :: int
  rows :: int
  blocks :: "int list"

definition getMask :: "scene_map \<Rightarrow> int \<Rightarrow> int \<Rightarrow> int option" where
  "getMask m e t = jget (map Some (blocks m)) (t * columns m + e)"

definition isMask :: "int option \<Rightarrow> int \<Rightarrow> bool" where
  "isMask e t = (0 \<noteq> jand (case e of None \<Rightarrow> 0 | Some v \<Rightarrow> v) t)"

definition isBlock :: "scene_map \<Rightarrow> int \<Rightarrow> int \<Rightarrow> bool" where
  "isBlock m e t = isMask (getMask m e t) 1"

definition isInRange :: "scene_map \<Rightarrow> int \<Rightarrow> int \<Rightarrow> bool" where
  "isInRange m e t = (e \<ge> 0 \<and> t \<ge> 0 \<and> e < columns m \<and> t < rows m)"

definition isPointLegal :: "scene_map \<Rightarrow> int \<Rightarrow> int \<Rightarrow> bool" where
  "isPointLegal m e t = (isInRange m e t \<and> \<not> isBlock m e t)"

definition setSource :: "int \<Rightarrow> map_cfg \<Rightarrow> scene_map \<Rightarrow> astar \<Rightarrow> scene_map \<times> astar" where
  "setSource e t m s =
     (let c = mW t div tW t; r = mH t div tH t
      in (m\<lparr>mapId := Some e, mapWidth := mW t, mapHeight := mH t, tileWidth := tW t, tileHeight := tH t,
            columns := c, rows := r, blocks := map toInt32 (take (nat (c * r)) (cfg_blocks t))\<rparr>,
          initialize c r s))"

definition scene_findPath ::
  "(cell \<Rightarrow> cell \<Rightarrow> bool) \<Rightarrow> scene_map \<Rightarrow> int \<Rightarrow> int \<Rightarrow> int \<Rightarrow> int \<Rightarrow> int \<Rightarrow> bool \<Rightarrow> astar \<Rightarrow>
   (cell list option call \<times> astar) option" where
  "scene_findPath pass m t i n a r l s =
     (if \<not> isPointLegal m t i \<or> \<not> isPointLegal m n a then Some (Returns None, s)
      else (case astar_findPath (isBlock m) t i n a s of
              None \<Rightarrow> None
            | Some (Returns (Some u), s) \<Rightarrow>
                (let u = take (length u - nat r) u
                 in Some (Returns (Some (if l then floyd pass u else u)), s))
            | Some (x, s) \<Rightarrow> Some (x, s)))"

definition getTilePt :: "scene_map \<Rightarrow> int \<Rightarrow> int \<Rightarrow> cell" where
  "getTilePt m e t = (e div tileWidth m, t div tileHeight m)"

abbreviation GRID_WIDTH :: int where "GRID_WIDTH \<equiv> 24"
abbreviation GRID_HEIGHT :: int where "GRID_HEIGHT \<equiv> 24"

definition getWorldPt :: "int \<Rightarrow> int \<Rightarrow> cell" where
  "getWorldPt e i = ((2 * e + 1) * GRID_WIDTH div 2, (2 * i + 1) * GRID_HEIGHT div 2)"

definition getPtByRange :: "scene_map \<Rightarrow> int \<Rightarrow> int \<Rightarrow> int \<Rightarrow> int \<Rightarrow> cell option" where
  "getPtByRange m t i n a = List.find (\<lambda>(r, s). isPointLegal m r s) (List.product [t..n] [i..a])"

text \<open>The first square around the centre, of growing size, that has a legal point.\<close>

definition getPointByCenter :: "scene_map \<Rightarrow> int \<Rightarrow> int \<Rightarrow> int \<Rightarrow> int \<Rightarrow> cell" where
  "getPointByCenter m e t i n =
     (case List.find (\<lambda>d. d \<noteq> None)
        (map (\<lambda>(a, r). getPtByRange m (e - a) (t - r) (e + a) (t + r)) (List.product [1..i] [1..n])) of
        Some (Some d) \<Rightarrow> d
      | _ \<Rightarrow> (e, t))"

text \<open>A random point of a range: at most 51 draws from \<open>randomBetween\<close>, given here as a
  stream of the points they yield, then the centre.\<close>

fun randomPointLoop :: "scene_map \<Rightarrow> cell \<Rightarrow> (nat \<Rightarrow> cell) \<Rightarrow> nat \<Rightarrow> nat \<Rightarrow> cell" where
  "randomPointLoop m z pts k 0 = (if isPointLegal m (fst (pts k)) (snd (pts k)) then pts k else z)"
| "randomPointLoop m z pts k (Suc h) =
     (if isPointLegal m (fst (pts k)) (snd (pts k)) then pts k else randomPointLoop m z pts (Suc k) h)"

definition randomPointByRange :: "scene_map \<Rightarrow> int \<Rightarrow> int \<Rightarrow> (nat \<Rightarrow> cell) \<Rightarrow> cell" where
  "randomPointByRange m t i pts = randomPointLoop m (t, i) pts 0 50"

end
