(* ===== verification/AStarProps.thy ===== *)
theory AStarProps
  imports AStar
begin

text \<open>
  The path search is correct: it always ends, a path that it returns leads from the
  start to the target through free neighbouring cells, and it returns none only
  when the target cannot be reached.
\<close>

declare split_paired_All [simp del] split_paired_Ex [simp del]

section \<open>Cells and nodes\<close>

definition freeCell :: "(int \<Rightarrow> int \<Rightarrow> bool) \<Rightarrow> int \<Rightarrow> int \<Rightarrow> cell \<Rightarrow> bool" where
  "freeCell blk w h c =
     (0 \<le> fst c \<and> fst c < w \<and> 0 \<le> snd c \<and> snd c < h \<and> \<not> blk (fst c) (snd c))"

definition adjacent :: "cell \<Rightarrow> cell \<Rightarrow> bool" where
  "adjacent c d = (c \<noteq> d \<and> \<bar>fst c - fst d\<bar> \<le> 1 \<and> \<bar>snd c - snd d\<bar> \<le> 1)"

abbreviation freeIn :: "(int \<Rightarrow> int \<Rightarrow> bool) \<Rightarrow> astar \<Rightarrow> cell \<Rightarrow> bool" where
  "freeIn blk s \<equiv> freeCell blk (numCols s) (numRows s)"

definition linksOf :: "(int \<Rightarrow> int \<Rightarrow> bool) \<Rightarrow> astar \<Rightarrow> cell \<Rightarrow> cell list" where
  "linksOf blk s u = filter (\<lambda>c. c \<noteq> u \<and> \<not> blk (fst c) (snd c)) (around s u)"

lemma set_linksOf: "freeIn blk s u \<Longrightarrow> set (linksOf blk s u) = {c. adjacent u c \<and> freeIn blk s c}"
  by (auto simp: linksOf_def around_def adjacent_def freeCell_def)

text \<open>A node is well-formed when it belongs to a column of the grid, knows whether its
  cell is free, and its links are not yet set or those to its free neighbours.\<close>

definition nodeOk :: "(int \<Rightarrow> int \<Rightarrow> bool) \<Rightarrow> astar \<Rightarrow> cell \<Rightarrow> anode \<Rightarrow> bool" where
  "nodeOk blk s c n =
     (nwalkable n = (\<not> blk (fst c) (snd c)) \<and> nversion n \<le> nowversion s \<and>
      linkNodes n = (if linkInited n then linksOf blk s c else []) \<and>
      linkCost n = replicate (length (linkNodes n)) 1)"

definition nodesOk :: "(int \<Rightarrow> int \<Rightarrow> bool) \<Rightarrow> astar \<Rightarrow> bool" where
  "nodesOk blk s =
     (isInit s \<and> 1 \<le> nowversion s \<and>
      (\<forall>c n. anodes s c = Some n \<longrightarrow> nodeOk blk s c n \<and> (\<forall>d\<in>set (linkNodes n). anodes s d \<noteq> None)))"

lemma nodesOk_new: "nodesOk blk (excInit (initialize w h new_astar))"
  by (simp add: nodesOk_def excInit_def initialize_def new_astar_def)

lemma nodesOkD: "nodesOk blk s \<Longrightarrow> anodes s c = Some n \<Longrightarrow> nodeOk blk s c n"
  by (simp add: nodesOk_def)

lemma nodesOk_links: "nodesOk blk s \<Longrightarrow> anodes s c = Some n \<Longrightarrow> d \<in> set (linkNodes n) \<Longrightarrow> anodes s d \<noteq> None"
  unfolding nodesOk_def by blast

text \<open>The parts of the state that the nodes do not decide.\<close>

definition sameGrid :: "astar \<Rightarrow> astar \<Rightarrow> bool" where
  "sameGrid s t =
     (numCols t = numCols s \<and> numRows t = numRows s \<and> nowversion t = nowversion s \<and> isInit t = isInit s)"

lemma sameGrid_refl [simp]: "sameGrid s s"
  by (simp add: sameGrid_def)

lemma sameGrid_trans: "sameGrid s t \<Longrightarrow> sameGrid t u \<Longrightarrow> sameGrid s u"
  by (simp add: sameGrid_def)

lemma sameGrid_setNode [simp]: "sameGrid s (setNode c n t) = sameGrid s t"
  by (simp add: sameGrid_def)

lemma sameGridD:
  assumes "sameGrid s t"
  shows "freeIn blk t = freeIn blk s" and "linksOf blk t = linksOf blk s" and "nodeOk blk t = nodeOk blk s"
    and "around t = around s" and "nowversion t = nowversion s"
  using assms by (simp_all add: sameGrid_def linksOf_def around_def nodeOk_def fun_eq_iff)

section \<open>Links\<close>

text \<open>Making links only creates nodes and fills the links of one node.\<close>

definition createsNodes :: "(int \<Rightarrow> int \<Rightarrow> bool) \<Rightarrow> astar \<Rightarrow> astar \<Rightarrow> bool" where
  "createsNodes blk s t =
     (sameGrid s t \<and>
      (\<forall>c. anodes t c = anodes s c \<or> anodes s c = None \<and> anodes t c = Some (new_anode (\<not> blk (fst c) (snd c)))))"

lemma getNode_creates:
  assumes "0 \<le> fst c" "fst c < numCols s"
  shows "\<exists>t. getNode blk (fst c) (snd c) s = (Some c, t) \<and> createsNodes blk s t \<and> anodes t c \<noteq> None"
  using assms by (auto simp: getNode_def createsNodes_def)

definition walkOk :: "(int \<Rightarrow> int \<Rightarrow> bool) \<Rightarrow> astar \<Rightarrow> bool" where
  "walkOk blk s = (\<forall>c m. anodes s c = Some m \<longrightarrow> nwalkable m = (\<not> blk (fst c) (snd c)))"

lemma createsNodes_same: "createsNodes blk s t \<Longrightarrow> anodes s c = Some n \<Longrightarrow> anodes t c = Some n"
  unfolding createsNodes_def by (metis option.discI)

lemma createsNodes_new:
  "createsNodes blk s t \<Longrightarrow> anodes s c = None \<Longrightarrow> anodes t c = Some n \<Longrightarrow> n = new_anode (\<not> blk (fst c) (snd c))"
  unfolding createsNodes_def by (metis option.discI option.inject)

lemma walkOk_creates: "walkOk blk s \<Longrightarrow> createsNodes blk s t \<Longrightarrow> walkOk blk t"
  unfolding createsNodes_def walkOk_def by (metis option.inject new_anode_def anode.select_convs(6))

lemma walkOk_set: "walkOk blk s \<Longrightarrow> nwalkable m = (\<not> blk (fst u) (snd u)) \<Longrightarrow> walkOk blk (setNode u m s)"
  unfolding walkOk_def by simp

lemma linkStep_run:
  assumes "0 \<le> fst c" "fst c < numCols s" "anodes s u = Some n" and walk: "walkOk blk s"
  shows "\<exists>t. createsNodes blk s t \<and> anodes t u = Some n \<and> anodes t c \<noteq> None \<and>
      linkStep blk u c s =
        (if c \<noteq> u \<and> \<not> blk (fst c) (snd c)
         then setNode u (n\<lparr>linkNodes := linkNodes n @ [c], linkCost := linkCost n @ [1]\<rparr>) t else t)"
proof -
  from getNode_creates [OF assms(1,2)] obtain t
    where t: "getNode blk (fst c) (snd c) s = (Some c, t)" "createsNodes blk s t" "anodes t c \<noteq> None" by blast
  from t(2) assms(3) have u: "anodes t u = Some n" by (rule createsNodes_same)
  from t(3) obtain m where m: "anodes t c = Some m" by auto
  with walkOk_creates [OF walk t(2)] have "nwalkable m = (\<not> blk (fst c) (snd c))" by (simp add: walkOk_def)
  with t m u show ?thesis by (auto simp: linkStep_def)
qed

lemma linkFold_run:
  assumes "\<forall>c\<in>set cs. 0 \<le> fst c \<and> fst c < numCols s" "anodes s u = Some n" and "walkOk blk s"
  shows "\<exists>t. createsNodes blk s t \<and> anodes t u = Some n \<and> (\<forall>c\<in>set cs. anodes t c \<noteq> None) \<and>
      fold (linkStep blk u) cs s =
        setNode u (n\<lparr>linkNodes := linkNodes n @ filter (\<lambda>c. c \<noteq> u \<and> \<not> blk (fst c) (snd c)) cs,
          linkCost := linkCost n @ replicate (length (filter (\<lambda>c. c \<noteq> u \<and> \<not> blk (fst c) (snd c)) cs)) 1\<rparr>) t"
  using assms
proof (induction cs arbitrary: s n)
  case Nil
  then show ?case by (intro exI [of _ s]) (auto simp: createsNodes_def fun_upd_idem)
next
  case (Cons c cs)
  let ?P = "\<lambda>c. c \<noteq> u \<and> \<not> blk (fst c) (snd c)"
  from linkStep_run [of c s u n blk] Cons.prems obtain t where
    t: "createsNodes blk s t" "anodes t u = Some n" "anodes t c \<noteq> None" and
    st: "linkStep blk u c s = (if ?P c
         then setNode u (n\<lparr>linkNodes := linkNodes n @ [c], linkCost := linkCost n @ [1]\<rparr>) t else t)"
    by auto
  define m where "m = (if ?P c then n\<lparr>linkNodes := linkNodes n @ [c], linkCost := linkCost n @ [1]\<rparr> else n)"
  have st': "linkStep blk u c s = setNode u m t"
    using st t(2) by (auto simp: m_def fun_upd_idem)
  have "nwalkable m = (\<not> blk (fst u) (snd u))" using Cons.prems(2,3) by (simp add: m_def walkOk_def)
  with walkOk_creates [OF Cons.prems(3) t(1)] have walk: "walkOk blk (setNode u m t)" by (rule walkOk_set)
  have "\<forall>c\<in>set cs. 0 \<le> fst c \<and> fst c < numCols (setNode u m t)"
    using Cons.prems(1) t(1) by (simp add: createsNodes_def sameGrid_def)
  moreover have "anodes (setNode u m t) u = Some m" by simp
  ultimately obtain r where
    r: "createsNodes blk (setNode u m t) r" "anodes r u = Some m" "\<forall>c\<in>set cs. anodes r c \<noteq> None"
      "fold (linkStep blk u) cs (setNode u m t) =
        setNode u (m\<lparr>linkNodes := linkNodes m @ filter ?P cs,
          linkCost := linkCost m @ replicate (length (filter ?P cs)) 1\<rparr>) r"
    using Cons.IH [OF _ _ walk] by blast
  have "createsNodes blk s (setNode u n r)"
    unfolding createsNodes_def
  proof (intro conjI allI)
    show "sameGrid s (setNode u n r)" using r(1) t(1) by (simp add: createsNodes_def sameGrid_def)
    fix d
    show "anodes (setNode u n r) d = anodes s d
        \<or> anodes s d = None \<and> anodes (setNode u n r) d = Some (new_anode (\<not> blk (fst d) (snd d)))"
    proof (cases "d = u")
      case False
      with r(1) have "anodes r d = anodes t d
          \<or> anodes t d = None \<and> anodes r d = Some (new_anode (\<not> blk (fst d) (snd d)))"
        unfolding createsNodes_def by (metis astar.select_convs(4) astar.update_convs(4) astar.surjective fun_upd_other)
      moreover have "anodes t d = anodes s d
          \<or> anodes s d = None \<and> anodes t d = Some (new_anode (\<not> blk (fst d) (snd d)))"
        using t(1) unfolding createsNodes_def by blast
      ultimately show ?thesis using False by auto
    qed (use Cons.prems(2) in simp)
  qed
  moreover have "\<forall>d\<in>set (c # cs). anodes (setNode u n r) d \<noteq> None"
    using r(2,3) createsNodes_same [OF r(1), of c] t(3) by auto
  moreover have "fold (linkStep blk u) (c # cs) s =
        setNode u (n\<lparr>linkNodes := linkNodes n @ filter ?P (c # cs),
          linkCost := linkCost n @ replicate (length (filter ?P (c # cs))) 1\<rparr>) (setNode u n r)"
    using r(4) by (simp add: st' m_def)
  moreover have "anodes (setNode u n r) u = Some n" by simp
  ultimately show ?case by blast
qed

lemma linkUp_run:
  assumes "nodesOk blk s" "anodes s u = Some n" "freeIn blk s u"
  shows "\<exists>t. createsNodes blk s t \<and> anodes t u = Some n \<and>
      (\<forall>c\<in>set (linksOf blk s u). anodes t c \<noteq> None) \<and>
      linkUp blk u s = setNode u (n\<lparr>linkNodes := linksOf blk s u,
         linkCost := replicate (length (linksOf blk s u)) 1, linkInited := True\<rparr>) t"
proof (cases "linkInited n")
  case True
  with nodesOkD [OF assms(1,2)]
  have "n\<lparr>linkNodes := linksOf blk s u, linkCost := replicate (length (linksOf blk s u)) 1, linkInited := True\<rparr> = n"
    by (simp add: nodeOk_def)
  moreover have "\<forall>c\<in>set (linksOf blk s u). anodes s c \<noteq> None"
    using nodesOk_links [OF assms(1,2)] nodesOkD [OF assms(1,2)] True by (simp add: nodeOk_def)
  ultimately show ?thesis using True assms(2)
    by (intro exI [of _ s]) (simp add: createsNodes_def linkUp_def fun_upd_idem)
next
  case False
  have w: "walkOk blk s" using nodesOkD [OF assms(1)] by (simp add: nodeOk_def walkOk_def)
  have c: "\<forall>c\<in>set (around s u). 0 \<le> fst c \<and> fst c < numCols s"
    using assms(3) by (auto simp: around_def freeCell_def)
  from nodesOkD [OF assms(1,2)] False have n: "linkNodes n = []" "linkCost n = []" by (simp_all add: nodeOk_def)
  from linkFold_run [OF c assms(2) w] n obtain t where t: "createsNodes blk s t" "anodes t u = Some n"
      "\<forall>c\<in>set (around s u). anodes t c \<noteq> None"
      "initNodeLink8 blk u s = setNode u (n\<lparr>linkNodes := linksOf blk s u,
          linkCost := replicate (length (linksOf blk s u)) 1\<rparr>) t"
    by (auto simp: initNodeLink8_def linksOf_def)
  then have "\<forall>c\<in>set (linksOf blk s u). anodes t c \<noteq> None" by (auto simp: linksOf_def)
  with t False assms(2) show ?thesis by (intro exI [of _ t]) (simp add: linkUp_def Let_def)
qed

lemma nodesOk_setNode:
  assumes "nodesOk blk s" "nodeOk blk s c n" "\<forall>d\<in>set (linkNodes n). anodes s d \<noteq> None"
  shows "nodesOk blk (setNode c n s)"
proof -
  have "nodeOk blk (setNode c n s) = nodeOk blk s" by (rule sameGridD(3)) simp
  with assms show ?thesis unfolding nodesOk_def by (auto simp del: not_None_eq)
qed

lemma nodesOk_creates:
  assumes "nodesOk blk s" "createsNodes blk s t"
  shows "nodesOk blk t"
proof -
  have g: "sameGrid s t" using assms(2) by (simp add: createsNodes_def)
  have "nodeOk blk t c n \<and> (\<forall>d\<in>set (linkNodes n). anodes t d \<noteq> None)" if "anodes t c = Some n" for c n
  proof (cases "anodes s c")
    case None
    with createsNodes_new [OF assms(2) None that] assms(1) sameGridD(3) [OF g] show ?thesis
      by (simp add: nodeOk_def new_anode_def nodesOk_def)
  next
    case (Some m)
    with createsNodes_same [OF assms(2) Some] that have "m = n" by simp
    with Some nodesOkD [OF assms(1)] nodesOk_links [OF assms(1)] createsNodes_same [OF assms(2)] sameGridD(3) [OF g]
    show ?thesis by (metis not_None_eq)
  qed
  with assms(1) g show ?thesis unfolding nodesOk_def sameGrid_def by auto
qed

section \<open>The state of a search\<close>

definition reached :: "astar \<Rightarrow> cell set" where
  "reached s = {c. \<exists>n. anodes s c = Some n \<and> nversion n = nowversion s}"

definition cost :: "cell \<Rightarrow> astar \<Rightarrow> cell \<Rightarrow> int" where
  "cost a s c = (if c = a then 0 else ng (node s c))"

text \<open>The parents lead from every reached node towards the start, on cells of
  strictly smaller cost.\<close>

definition treeOk :: "(int \<Rightarrow> int \<Rightarrow> bool) \<Rightarrow> cell \<Rightarrow> cell \<Rightarrow> astar \<Rightarrow> bool" where
  "treeOk blk a e s =
     (\<forall>c\<in>reached s. freeIn blk s c \<and>
        (c \<noteq> a \<longrightarrow> nf (node s c) = ng (node s c) + euclidian2 c e \<and>
          (\<exists>p\<in>reached s. nparent (node s c) = Some p \<and> adjacent p c \<and> 0 \<le> cost a s p \<and> cost a s p < cost a s c)))"

definition relaxOk :: "(int \<Rightarrow> int \<Rightarrow> bool) \<Rightarrow> cell \<Rightarrow> cell \<Rightarrow> cell \<Rightarrow> cell option list \<Rightarrow> astar \<Rightarrow> bool" where
  "relaxOk blk a e u l s =
     (nodesOk blk s \<and> 1 < nowversion s \<and> heap_shape l \<and> treeOk blk a e s \<and> a \<in> reached s \<and> u \<in> reached s \<and>
      cost a s u = ng (node s u) \<and> a \<notin># heap_elems l)"

lemma treeOk_cost: "treeOk blk a e s \<Longrightarrow> c \<in> reached s \<Longrightarrow> 0 \<le> cost a s c"
  by (cases "c = a") (simp add: cost_def, force simp: treeOk_def)

lemma treeOk_cong:
  assumes "treeOk blk a e s" "reached t = reached s" "freeIn blk t = freeIn blk s"
    and "\<And>c. c \<in> reached s \<Longrightarrow> nf (node t c) = nf (node s c) \<and> ng (node t c) = ng (node s c) \<and> nparent (node t c) = nparent (node s c)"
  shows "treeOk blk a e t"
  unfolding treeOk_def assms(2,3)
proof (intro ballI conjI impI)
  fix c assume c: "c \<in> reached s"
  show "freeIn blk s c" using assms(1) c by (simp add: treeOk_def)
  assume ca: "c \<noteq> a"
  show "nf (node t c) = ng (node t c) + euclidian2 c e" using assms(1) c ca assms(4) [OF c] by (simp add: treeOk_def)
  from assms(1) c ca obtain p where p: "p \<in> reached s" "nparent (node s c) = Some p" "adjacent p c"
      "0 \<le> cost a s p" "cost a s p < cost a s c"
    unfolding treeOk_def by blast
  with assms(4) [OF c] assms(4) [OF p(1)]
  show "\<exists>p\<in>reached s. nparent (node t c) = Some p \<and> adjacent p c \<and> 0 \<le> cost a t p \<and> cost a t p < cost a t c"
    by (intro bexI [of _ p]) (auto simp: cost_def split: if_splits)
qed

lemma reached_setNode:
  "nversion n = nowversion s \<Longrightarrow> reached (setNode c n s) = insert c (reached s)"
  by (auto simp: reached_def)

lemma treeOk_relax:
  assumes t: "treeOk blk a e s" and u: "u \<in> reached s" "cost a s u = ng (node s u)" and c: "adjacent u c" "freeIn blk s c"
    and n: "nversion n = nowversion s" "ng n = ng (node s u) + 1" "nf n = ng n + euclidian2 c e" "nparent n = Some u"
    and less: "c \<in> reached s \<Longrightarrow> nf n < nf (node s c)"
  shows "treeOk blk a e (setNode c n s)"
proof -
  let ?s = "setNode c n s"
  have uc: "u \<noteq> c" using c by (simp add: adjacent_def)
  have f: "freeIn blk ?s = freeIn blk s" by (rule sameGridD(1)) simp
  have r: "reached ?s = insert c (reached s)" by (rule reached_setNode [OF n(1)])
  have cost_other: "cost a ?s d = cost a s d" if "d \<noteq> c" for d using that by (simp add: cost_def)
  have cost_c: "0 \<le> cost a ?s c" "c \<in> reached s \<Longrightarrow> cost a ?s c \<le> cost a s c"
  proof -
    show "0 \<le> cost a ?s c" using treeOk_cost [OF t u(1)] u(2) n(2) by (simp add: cost_def split: if_splits)
    show "cost a ?s c \<le> cost a s c" if "c \<in> reached s"
      using less [OF that] t that n(3) by (auto simp: cost_def treeOk_def)
  qed
  show ?thesis unfolding treeOk_def
  proof (intro ballI conjI impI)
    fix d assume d: "d \<in> reached ?s"
    show "freeIn blk ?s d" using d r c(2) t f by (auto simp: treeOk_def)
    assume da: "d \<noteq> a"
    show "nf (node ?s d) = ng (node ?s d) + euclidian2 d e"
      using d r t n(3) da by (auto simp: treeOk_def)
    show "\<exists>p\<in>reached ?s. nparent (node ?s d) = Some p \<and> adjacent p d \<and> 0 \<le> cost a ?s p \<and> cost a ?s p < cost a ?s d"
    proof (cases "d = c")
      case True
      have "cost a ?s d = ng (node s u) + 1" using True da n(2) by (simp add: cost_def)
      moreover have "0 \<le> cost a ?s u" "cost a ?s u = ng (node s u)"
        using treeOk_cost [OF t u(1)] u(2) cost_other [OF uc] by simp_all
      ultimately show ?thesis using True n(4) c(1) u(1) r by (intro bexI [of _ u]) simp_all
    next
      case False
      with d r have "d \<in> reached s" by simp
      with t da obtain p where p: "p \<in> reached s" "nparent (node s d) = Some p" "adjacent p d"
          "0 \<le> cost a s p" "cost a s p < cost a s d"
        unfolding treeOk_def by blast
      have "0 \<le> cost a ?s p \<and> cost a ?s p < cost a ?s d"
        using p(1,4,5) cost_c cost_other [of p] cost_other [OF False] by (cases "p = c") auto
      with p False r show ?thesis by (intro bexI [of _ p]) simp_all
    qed
  qed
qed

lemma relaxNode_run:
  assumes ok: "relaxOk blk a e u l s" and c: "adjacent u c" "freeIn blk s c" "anodes s c \<noteq> None"
    and run: "relaxNode e u (c, 1) (l, s) = (l', t)"
  shows "relaxOk blk a e u l' t" and "sameGrid s t" and "reached t = insert c (reached s)"
    and "heap_elems l' = (if c \<in> reached s then heap_elems l else add_mset c (heap_elems l))"
    and "anodes t d = None \<longleftrightarrow> anodes s d = None"
proof -
  note ok' = ok [unfolded relaxOk_def]
  from c(3) obtain m where m: "anodes s c = Some m" by auto
  define n where "n = m\<lparr>nf := ng (node s u) + 1 + euclidian2 c e, ng := ng (node s u) + 1,
      nh := euclidian2 c e, nparent := Some u, nversion := nowversion s\<rparr>"
  have uc: "u \<noteq> c" using c by (simp add: adjacent_def)
  consider (skip) "c \<in> reached s" "l' = l" "t = s"
    | (better) "c \<in> reached s" "l' = l" "t = setNode c n s" "nf n < nf (node s c)"
    | (new) "c \<notin> reached s" "t = setNode c n s"
        "l' = ins (\<lambda>q. nf (node (setNode c (m\<lparr>nf := ng (node s u) + 1 + euclidian2 c e, ng := ng (node s u) + 1,
          nh := euclidian2 c e, nparent := Some u\<rparr>) s) q)) c l"
  proof (cases "nversion m = nowversion s")
    case True
    then have "n = m\<lparr>nf := ng (node s u) + 1 + euclidian2 c e, ng := ng (node s u) + 1,
        nh := euclidian2 c e, nparent := Some u\<rparr>" and "c \<in> reached s"
      using m by (simp_all add: n_def reached_def)
    with run m True that(1,2) show ?thesis by (auto simp: relaxNode_def Let_def split: if_splits)
  next
    case False
    with run m that(3) show ?thesis by (auto simp: relaxNode_def Let_def n_def reached_def)
  qed
  then have *: "(c \<in> reached s \<and> l' = l \<and> t = s)
      \<or> (t = setNode c n s \<and> (c \<in> reached s \<longrightarrow> nf n < nf (node s c)) \<and> heap_shape l' \<and>
         heap_elems l' = (if c \<in> reached s then heap_elems l else add_mset c (heap_elems l)))"
    using ok' by cases (auto simp: ins_contents)
  then show "sameGrid s t" "reached t = insert c (reached s)"
    "heap_elems l' = (if c \<in> reached s then heap_elems l else add_mset c (heap_elems l))"
    "anodes t d = None \<longleftrightarrow> anodes s d = None"
    using m reached_setNode [of n s c] by (auto simp: n_def split: if_splits)
  show "relaxOk blk a e u l' t"
  proof (cases "t = s \<and> l' = l")
    case False
    with * have s: "t = setNode c n s" "c \<in> reached s \<Longrightarrow> nf n < nf (node s c)" "heap_shape l'" by auto
    have "nodeOk blk s c n" using nodesOkD [of blk s c m] ok' m by (simp add: nodeOk_def n_def)
    then have "nodesOk blk t"
      unfolding s(1) by (rule nodesOk_setNode [rotated]) (use ok' m in \<open>auto simp: n_def dest: nodesOk_links\<close>)
    moreover have "treeOk blk a e t"
      unfolding s(1) by (rule treeOk_relax [of blk a e s u]) (use ok' c s(2) in \<open>auto simp: n_def\<close>)
    moreover have "c \<noteq> a \<or> c \<in> reached s" using ok' by auto
    moreover have "cost a t u = ng (node t u)" using ok' uc by (auto simp: s(1) cost_def)
    ultimately show ?thesis
      using ok' s(3) sameGridD(5) [OF \<open>sameGrid s t\<close>] \<open>reached t = insert c (reached s)\<close>
        \<open>heap_elems l' = (if c \<in> reached s then heap_elems l else add_mset c (heap_elems l))\<close>
      unfolding relaxOk_def by auto
  qed (use ok in simp)
qed

text \<open>The number of steps that a search can still make.\<close>

definition stepsLeft :: "(int \<Rightarrow> int \<Rightarrow> bool) \<Rightarrow> cell option list \<Rightarrow> astar \<Rightarrow> nat" where
  "stepsLeft blk l s = card ({c. freeIn blk s c} - reached s) + size (heap_elems l)"

lemma finite_free: "finite {c. freeCell blk w h c}"
proof (rule finite_subset)
  show "{c. freeCell blk w h c} \<subseteq> {0..<w} \<times> {0..<h}" by (auto simp: freeCell_def)
qed simp

lemma relaxFold_run:
  assumes "relaxOk blk a e u l s" "\<forall>c\<in>set cs. adjacent u c \<and> freeIn blk s c \<and> anodes s c \<noteq> None"
    and "fold (relaxNode e u) (zip cs (replicate (length cs) 1)) (l, s) = (l', t)"
  shows "relaxOk blk a e u l' t \<and> sameGrid s t \<and> reached t = reached s \<union> set cs
      \<and> set_mset (heap_elems l) \<subseteq> set_mset (heap_elems l')
      \<and> set_mset (heap_elems l') \<subseteq> set_mset (heap_elems l) \<union> (set cs - reached s)
      \<and> set cs \<subseteq> reached s \<union> set_mset (heap_elems l')
      \<and> stepsLeft blk l' t = stepsLeft blk l s"
  using assms
proof (induction cs arbitrary: l s)
  case (Cons c cs)
  obtain l1 s1 where r: "relaxNode e u (c, 1) (l, s) = (l1, s1)" by fastforce
  have c: "adjacent u c" "freeIn blk s c" "anodes s c \<noteq> None" using Cons.prems(2) by auto
  note one = relaxNode_run [OF Cons.prems(1) c r]
  have "\<forall>d\<in>set cs. adjacent u d \<and> freeIn blk s1 d \<and> anodes s1 d \<noteq> None"
    using Cons.prems(2) one(5) sameGridD(1) [OF one(2), of blk] by auto
  from Cons.IH [OF one(1) this] Cons.prems(3) r
  have ih: "relaxOk blk a e u l' t \<and> sameGrid s1 t \<and> reached t = reached s1 \<union> set cs
      \<and> set_mset (heap_elems l1) \<subseteq> set_mset (heap_elems l')
      \<and> set_mset (heap_elems l') \<subseteq> set_mset (heap_elems l1) \<union> (set cs - reached s1)
      \<and> set cs \<subseteq> reached s1 \<union> set_mset (heap_elems l')
      \<and> stepsLeft blk l' t = stepsLeft blk l1 s1"
    by simp
  have "stepsLeft blk l1 s1 = stepsLeft blk l s"
  proof (cases "c \<in> reached s")
    case True
    then show ?thesis using one(3,4) sameGridD(1) [OF one(2), of blk] by (simp add: stepsLeft_def insert_absorb)
  next
    case False
    have "{d. freeIn blk s d} - insert c (reached s) = ({d. freeIn blk s d} - reached s) - {c}" by auto
    moreover have "c \<in> {d. freeIn blk s d} - reached s" using False c(2) by simp
    moreover have "finite ({d. freeIn blk s d} - reached s)" using finite_free by blast
    ultimately have "card ({d. freeIn blk s d} - reached s) = Suc (card ({d. freeIn blk s d} - insert c (reached s)))"
      using card_Suc_Diff1 by metis
    then show ?thesis using False one(3,4) sameGridD(1) [OF one(2), of blk] by (simp add: stepsLeft_def)
  qed
  with ih one(2-4) show ?case by (auto dest: sameGrid_trans split: if_splits)
qed simp

section \<open>The main loop\<close>

definition searchOk ::
  "(int \<Rightarrow> int \<Rightarrow> bool) \<Rightarrow> cell \<Rightarrow> cell \<Rightarrow> cell set \<Rightarrow> cell option list \<Rightarrow> cell \<Rightarrow> astar \<Rightarrow> bool" where
  "searchOk blk a e K l u s =
     (relaxOk blk a e u l s \<and> reached s = insert u (K \<union> set_mset (heap_elems l)) \<and> e \<notin> K \<and>
      (\<forall>c\<in>K. \<forall>d. adjacent c d \<and> freeIn blk s d \<longrightarrow> d \<in> reached s))"

lemma linkUp_keeps:
  assumes "relaxOk blk a e u l s"
  shows "relaxOk blk a e u l (linkUp blk u s)" and "sameGrid s (linkUp blk u s)"
    and "reached (linkUp blk u s) = reached s"
    and "linkNodes (node (linkUp blk u s) u) = linksOf blk s u"
    and "linkCost (node (linkUp blk u s) u) = replicate (length (linksOf blk s u)) 1"
    and "\<forall>c\<in>set (linksOf blk s u). anodes (linkUp blk u s) c \<noteq> None"
proof -
  note ok = assms [unfolded relaxOk_def]
  from ok obtain n where n: "anodes s u = Some n" "nversion n = nowversion s" by (auto simp: reached_def)
  have free: "freeIn blk s u" using ok by (auto simp: treeOk_def)
  let ?n = "n\<lparr>linkNodes := linksOf blk s u, linkCost := replicate (length (linksOf blk s u)) 1, linkInited := True\<rparr>"
  from linkUp_run [OF _ n(1) free] ok obtain t where t: "createsNodes blk s t" "anodes t u = Some n"
      "\<forall>c\<in>set (linksOf blk s u). anodes t c \<noteq> None" "linkUp blk u s = setNode u ?n t"
    by blast
  let ?s = "setNode u ?n t"
  have g: "sameGrid s t" using t(1) by (simp add: createsNodes_def)
  have "nodeOk blk t u ?n"
    using nodesOkD [of blk s u n] ok n(1) sameGridD(3) [OF g, of blk] by (simp add: nodeOk_def)
  then have nodes: "nodesOk blk ?s"
    using nodesOk_setNode [OF nodesOk_creates [OF _ t(1)], of u ?n] ok t(3) by simp
  have new: "nversion (new_anode w) \<noteq> nowversion s" for w
    using ok by (auto simp: new_anode_def)
  show gs: "sameGrid s (linkUp blk u s)" using g t(4) by simp
  show rs: "reached (linkUp blk u s) = reached s"
  proof -
    have "c \<in> reached t \<longleftrightarrow> c \<in> reached s" for c
      using createsNodes_new [OF t(1), of c] createsNodes_same [OF t(1), of c] new sameGridD(5) [OF g]
      unfolding reached_def by (cases "anodes s c") auto
    then have "reached t = reached s" by blast
    moreover have "reached ?s = insert u (reached t)"
      by (rule reached_setNode) (use n(2) g in \<open>simp add: sameGrid_def\<close>)
    ultimately show ?thesis using t(4) ok by auto
  qed
  have same: "nf (node ?s c) = nf (node s c) \<and> ng (node ?s c) = ng (node s c) \<and> nparent (node ?s c) = nparent (node s c)"
    if "c \<in> reached s" for c
    using that n(1) createsNodes_same [OF t(1), of c] by (auto simp: reached_def)
  have "treeOk blk a e ?s"
    by (rule treeOk_cong [of blk a e s]) (use ok same rs t(4) sameGridD(1) [OF gs, of blk] in simp_all)
  moreover have "cost a ?s u = ng (node ?s u)" using ok same [of u] by (auto simp: cost_def split: if_splits)
  ultimately show "relaxOk blk a e u l (linkUp blk u s)"
    using nodes rs ok t(4) sameGridD(5) [OF gs] unfolding relaxOk_def by simp
  show "linkNodes (node (linkUp blk u s) u) = linksOf blk s u"
    "linkCost (node (linkUp blk u s) u) = replicate (length (linksOf blk s u)) 1"
    "\<forall>c\<in>set (linksOf blk s u). anodes (linkUp blk u s) c \<noteq> None"
    using t(3,4) by auto
qed

lemma length_heap: "heap_shape l \<Longrightarrow> length l = Suc (size (heap_elems l))"
  by (auto simp: heap_shape_def heap_elems_def)

text \<open>One iteration: after the links of \<open>u\<close> have been followed the node is done; the
  heap has no element left, or the next node is taken from it.\<close>

lemma search_step:
  assumes ok: "searchOk blk a e K l u s" and ue: "u \<noteq> e"
    and run: "fold (relaxNode e u) (zip (linkNodes (node (linkUp blk u s) u)) (linkCost (node (linkUp blk u s) u)))
                (l, linkUp blk u s) = (l1, s2)"
  shows "sameGrid s s2" and "relaxOk blk a e u l1 s2"
    and "reached s2 = insert u K \<union> set_mset (heap_elems l1)"
    and "\<forall>c\<in>insert u K. \<forall>d. adjacent c d \<and> freeIn blk s d \<longrightarrow> d \<in> reached s2"
    and "stepsLeft blk l1 s2 = stepsLeft blk l s"
proof -
  let ?s = "linkUp blk u s"
  note o = ok [unfolded searchOk_def]
  note k = linkUp_keeps [OF conjunct1 [OF o]]
  have free: "freeIn blk s u" using o by (auto simp: relaxOk_def treeOk_def)
  have f: "freeIn blk ?s = freeIn blk s" by (rule sameGridD(1) [OF k(2)])
  have cs: "\<forall>c\<in>set (linksOf blk s u). adjacent u c \<and> freeIn blk ?s c \<and> anodes ?s c \<noteq> None"
    using set_linksOf [OF free] k(6) f by auto
  from relaxFold_run [OF k(1) cs] run k(4,5)
  have r: "relaxOk blk a e u l1 s2" "sameGrid ?s s2" "reached s2 = reached s \<union> set (linksOf blk s u)"
      "set_mset (heap_elems l) \<subseteq> set_mset (heap_elems l1)"
      "set_mset (heap_elems l1) \<subseteq> set_mset (heap_elems l) \<union> (set (linksOf blk s u) - reached s)"
      "set (linksOf blk s u) \<subseteq> reached s \<union> set_mset (heap_elems l1)"
      "stepsLeft blk l1 s2 = stepsLeft blk l ?s"
    by (simp_all add: k(3))
  show "sameGrid s s2" using k(2) r(2) by (rule sameGrid_trans)
  show "relaxOk blk a e u l1 s2" by (rule r(1))
  show "reached s2 = insert u K \<union> set_mset (heap_elems l1)" using o r(3-6) by auto
  show "\<forall>c\<in>insert u K. \<forall>d. adjacent c d \<and> freeIn blk s d \<longrightarrow> d \<in> reached s2"
    using o r(3) set_linksOf [OF free] by auto
  show "stepsLeft blk l1 s2 = stepsLeft blk l s" using r(7) k(3) f by (simp add: stepsLeft_def)
qed

definition closedUnder :: "(int \<Rightarrow> int \<Rightarrow> bool) \<Rightarrow> astar \<Rightarrow> cell set \<Rightarrow> bool" where
  "closedUnder blk s S = (\<forall>c\<in>S. \<forall>d. adjacent c d \<and> freeIn blk s d \<longrightarrow> d \<in> S)"

lemma searchLoop_ends:
  assumes "searchOk blk a e K l u s"
  shows "\<exists>r t. searchLoop blk e l u s = Some (r, t) \<and> nodesOk blk t \<and> sameGrid s t \<and>
    (if r then treeOk blk a e t \<and> e \<in> reached t else \<exists>S. a \<in> S \<and> e \<notin> S \<and> closedUnder blk s S)"
  using assms
proof (induction "stepsLeft blk l s" arbitrary: K l u s rule: less_induct)
  case less
  note o = less.prems [unfolded searchOk_def]
  show ?case
  proof (cases "u = e")
    case True
    then have "searchLoop blk e l u s = Some (True, s)" by (simp add: searchLoop.simps)
    with o True show ?thesis by (auto simp: relaxOk_def)
  next
    case False
    obtain l1 s2 where run: "fold (relaxNode e u) (zip (linkNodes (node (linkUp blk u s) u)) (linkCost (node (linkUp blk u s) u)))
                (l, linkUp blk u s) = (l1, s2)" by fastforce
    note st = search_step [OF less.prems False run]
    note ok2 = st(2) [unfolded relaxOk_def]
    show ?thesis
    proof (cases "heap_elems l1 = {#}")
      case True
      then have "searchLoop blk e l u s = Some (False, s2)"
        using False run ok2 by (subst searchLoop.simps) (simp add: Let_def length_heap)
      moreover have "closedUnder blk s (reached s2)" using st(3,4) True by (simp add: closedUnder_def)
      moreover have "a \<in> reached s2" "e \<notin> reached s2" using ok2 st(3) True False o by auto
      ultimately show ?thesis using ok2 st(1) by auto
    next
      case ne: False
      let ?f = "\<lambda>q. nf (node s2 q)"
      obtain v l2 where pop: "heap_pop ?f l1 = (Some v, l2)" "heap_shape l2" "heap_elems l1 = add_mset v (heap_elems l2)"
        using heap_pop_contents [of l1 ?f] ok2 ne by (metis prod.collapse)
      have loop: "searchLoop blk e l u s = searchLoop blk e l2 v s2"
        using False run pop(1) ok2 ne by (subst searchLoop.simps) (simp add: Let_def length_heap)
      have va: "v \<noteq> a" "a \<notin># heap_elems l2" using ok2 pop(3) by auto
      have "v \<in> reached s2" using st(3) pop(3) by simp
      then have "relaxOk blk a e v l2 s2" using ok2 pop(2) va by (simp add: relaxOk_def cost_def)
      moreover have "freeIn blk s2 = freeIn blk s" by (rule sameGridD(1) [OF st(1)])
      ultimately have "searchOk blk a e (insert u K) l2 v s2"
        using st(3,4) pop(3) o False by (auto simp: searchOk_def)
      moreover have "stepsLeft blk l2 s2 < stepsLeft blk l s" using st(5) pop(3) by (simp add: stepsLeft_def)
      ultimately obtain r t where "searchLoop blk e l2 v s2 = Some (r, t)" "nodesOk blk t" "sameGrid s2 t"
          "if r then treeOk blk a e t \<and> e \<in> reached t else \<exists>S. a \<in> S \<and> e \<notin> S \<and> closedUnder blk s2 S"
        using less.hyps by blast
      moreover have "closedUnder blk s2 = closedUnder blk s"
        using sameGridD(1) [OF st(1), of blk] by (simp add: closedUnder_def fun_eq_iff)
      ultimately show ?thesis using loop sameGrid_trans [OF st(1)] by auto
    qed
  qed
qed

section \<open>The path\<close>

definition gridPath :: "(int \<Rightarrow> int \<Rightarrow> bool) \<Rightarrow> int \<Rightarrow> int \<Rightarrow> cell \<Rightarrow> cell \<Rightarrow> cell list \<Rightarrow> bool" where
  "gridPath blk w h a b p =
     (p \<noteq> [] \<and> hd p = a \<and> last p = b \<and> (\<forall>c\<in>set p. freeCell blk w h c) \<and> successively adjacent p)"

lemma parents_path:
  assumes "treeOk blk a e s"
  shows "p \<in> reached s \<Longrightarrow>
    \<exists>q. parents s a p (p # acc) = Some (Returns (q @ acc)) \<and> gridPath blk (numCols s) (numRows s) a p q"
proof (induction "nat (cost a s p)" arbitrary: p acc rule: less_induct)
  case less
  show ?case
  proof (cases "p = a")
    case True
    then show ?thesis using assms less.prems
      by (intro exI [of _ "[p]"]) (simp add: parents.simps gridPath_def treeOk_def)
  next
    case False
    with assms less.prems obtain r where r: "r \<in> reached s" "nparent (node s p) = Some r" "adjacent r p"
        "0 \<le> cost a s r" "cost a s r < cost a s p" and free: "freeIn blk s p"
      unfolding treeOk_def by blast
    then have "nat (cost a s r) < nat (cost a s p)" by simp
    from less.hyps [OF this r(1), of "p # acc"] obtain q
      where q: "parents s a r (r # p # acc) = Some (Returns (q @ p # acc))" "gridPath blk (numCols s) (numRows s) a r q"
      by blast
    have "parents s a p (p # acc) = Some (Returns ((q @ [p]) @ acc))"
      using False r(2) q(1) by (subst parents.simps) simp
    moreover have "gridPath blk (numCols s) (numRows s) a p (q @ [p])"
      using q(2) r(3) free by (simp add: gridPath_def successively_append_iff)
    ultimately show ?thesis by blast
  qed
qed

lemma closed_no_path:
  assumes "closedUnder blk s S" "a \<in> S" "gridPath blk (numCols s) (numRows s) a b p"
  shows "b \<in> S"
proof -
  have "set p \<subseteq> S" if "p \<noteq> []" "hd p \<in> S" "\<forall>c\<in>set p. freeIn blk s c" "successively adjacent p" for p
    using that
  proof (induction p rule: induct_list012)
    case (3 c d ds)
    then have "d \<in> S" using assms(1) by (auto simp: closedUnder_def)
    with 3 show ?case by simp
  qed simp_all
  with assms(2,3) show ?thesis unfolding gridPath_def by (metis last_in_set subsetD)
qed

lemma startSearch_ok:
  assumes "nodesOk blk s" "anodes s a = Some n" "freeIn blk s a"
  shows "searchOk blk a e {} new_heap a (startSearch a s)"
    and "numCols (startSearch a s) = numCols s" and "numRows (startSearch a s) = numRows s"
proof -
  let ?n = "n\<lparr>ng := 0, nversion := nowversion s + 1\<rparr>" and ?t = "startSearch a s"
  have t: "?t = setNode a ?n (s\<lparr>nowversion := nowversion s + 1\<rparr>)"
    using assms(2) by (simp add: startSearch_def Let_def)
  show c: "numCols ?t = numCols s" "numRows ?t = numRows s" by (simp_all add: t)
  have old: "nversion m \<noteq> nowversion s + 1" if "anodes s c = Some m" for c m
    using nodesOkD [OF assms(1) that] by (simp add: nodeOk_def)
  have r: "reached ?t = {a}" using old by (auto simp: reached_def t split: if_splits)
  have "nodeOk blk ?t d m" if "nodeOk blk s d m" for d m
    using that by (auto simp: nodeOk_def linksOf_def around_def t)
  moreover have "nodeOk blk ?t a ?n"
    using nodesOkD [OF assms(1,2)] by (simp add: nodeOk_def linksOf_def around_def t)
  moreover have "\<forall>d\<in>set (linkNodes m). anodes ?t d \<noteq> None" if "anodes s c = Some m" for c m
    using nodesOk_links [OF assms(1) that] by (simp add: t)
  ultimately have "nodesOk blk ?t"
    using assms(1,2) unfolding nodesOk_def by (auto simp: t split: if_splits)
  moreover have "treeOk blk a e ?t" using r assms(3) c by (simp add: treeOk_def)
  moreover have "1 < nowversion ?t" using assms(1) by (simp add: t nodesOk_def)
  moreover have h: "heap_shape (new_heap :: cell option list)" "heap_elems (new_heap :: cell option list) = {#}"
    using heap_ok_new by (auto simp: heap_ok_def)
  ultimately show "searchOk blk a e {} new_heap a ?t"
    using r h by (simp add: searchOk_def relaxOk_def cost_def t)
qed

text \<open>C10: the search between two free cells of the grid always ends without an error; it
  returns a path from the start to the target through free cells, each next to the
  one before, or it returns none and there is no such path; and it leaves the nodes
  in a state in which the next search is correct too.\<close>

theorem astar_findPath_correct:
  assumes "nodesOk blk s" "freeIn blk s (e, t)" "freeIn blk s (i, k)"
    and "numCols s \<le> 2147483648" "numRows s \<le> 2147483648"
  shows "\<exists>r s'. astar_findPath blk e t i k s = Some (Returns r, s') \<and> nodesOk blk s' \<and>
    numCols s' = numCols s \<and> numRows s' = numRows s \<and>
    (case r of Some p \<Rightarrow> gridPath blk (numCols s) (numRows s) (e, t) (i, k) p
     | None \<Rightarrow> \<nexists>p. gridPath blk (numCols s) (numRows s) (e, t) (i, k) p)"
proof -
  have ints: "toInt32 e = e" "toInt32 t = t" "toInt32 i = i" "toInt32 k = k"
    using assms(2-5) by (simp_all add: freeCell_def toInt32_id)
  obtain s1 where s1: "getNode blk e t s = (Some (e, t), s1)" "createsNodes blk s s1" "anodes s1 (e, t) \<noteq> None"
    using getNode_creates [of "(e, t)" s blk] assms(2) by (auto simp: freeCell_def)
  have g1: "sameGrid s s1" using s1(2) by (simp add: createsNodes_def)
  obtain s2 where s2: "getNode blk i k s1 = (Some (i, k), s2)" "createsNodes blk s1 s2" "anodes s2 (i, k) \<noteq> None"
    using getNode_creates [of "(i, k)" s1 blk] assms(3) g1 by (auto simp: freeCell_def sameGrid_def)
  have g2: "sameGrid s s2" using s2(2) g1 by (auto simp: createsNodes_def intro: sameGrid_trans)
  have ok2: "nodesOk blk s2" using assms(1) s1(2) s2(2) by (blast intro: nodesOk_creates)
  obtain n m where n: "anodes s2 (e, t) = Some n" and m: "anodes s2 (i, k) = Some m"
    using s1(3) s2(3) createsNodes_same [OF s2(2), of "(e, t)"] by auto
  have w: "nwalkable n" "nwalkable m"
    using nodesOkD [OF ok2 n] nodesOkD [OF ok2 m] assms(2,3) by (simp_all add: nodeOk_def freeCell_def)
  have free: "freeIn blk s2 (e, t)" using assms(2) sameGridD(1) [OF g2, of blk] by simp
  note start = startSearch_ok(1) [OF ok2 n free, of "(i, k)"] startSearch_ok(2,3) [OF ok2 n free]
  from searchLoop_ends [OF start(1)] obtain r s3 where
    s3: "searchLoop blk (i, k) new_heap (e, t) (startSearch (e, t) s2) = Some (r, s3)" "nodesOk blk s3"
      "sameGrid (startSearch (e, t) s2) s3"
      "if r then treeOk blk (e, t) (i, k) s3 \<and> (i, k) \<in> reached s3
       else \<exists>S. (e, t) \<in> S \<and> (i, k) \<notin> S \<and> closedUnder blk (startSearch (e, t) s2) S"
    by blast
  have dims: "numCols s3 = numCols s" "numRows s3 = numRows s"
      "numCols (startSearch (e, t) s2) = numCols s" "numRows (startSearch (e, t) s2) = numRows s"
    using s3(3) start(2,3) g2 by (simp_all add: sameGrid_def)
  have init: "isInit s" using assms(1) by (simp add: nodesOk_def)
  show ?thesis
  proof (cases r)
    case True
    with parents_path [of blk "(e, t)" "(i, k)" s3 "(i, k)" "[]"] s3(4) dims obtain p
      where p: "buildPath s3 (e, t) (i, k) = Some (Returns p)" "gridPath blk (numCols s) (numRows s) (e, t) (i, k) p"
      by (auto simp: buildPath_def)
    then have "astar_findPath blk e t i k s = Some (Returns (Some p), s3)"
      using True init s1(1) s2(1) n m w s3(1) by (simp add: astar_findPath_def ints)
    with p(2) s3(2) dims show ?thesis by auto
  next
    case False
    then have "astar_findPath blk e t i k s = Some (Returns None, s3)"
      using init s1(1) s2(1) n m w s3(1) by (simp add: astar_findPath_def ints)
    moreover have "\<nexists>p. gridPath blk (numCols s) (numRows s) (e, t) (i, k) p"
      using False s3(4) closed_no_path [of blk "startSearch (e, t) s2" _ "(e, t)" "(i, k)"] dims by auto
    ultimately show ?thesis using s3(2) dims by auto
  qed
qed

text \<open>A scene of three columns and two rows with a wall in the middle of the first row.\<close>

definition wall :: "int \<Rightarrow> int \<Rightarrow> bool" where
  "wall x y = (x = 1 \<and> y = 0)"

theorem astar_findPath_correct_witness:
  "\<exists>p s'. astar_findPath wall 0 0 2 0 (excInit (initialize 3 2 new_astar)) = Some (Returns (Some p), s')
     \<and> gridPath wall 3 2 (0, 0) (2, 0) p"
proof -
  let ?s = "excInit (initialize 3 2 new_astar)"
  have d: "numCols ?s = 3" "numRows ?s = 2" by (simp_all add: excInit_def initialize_def)
  from astar_findPath_correct [OF nodesOk_new, of wall 3 2 0 0 2 0, unfolded d] obtain r s'
    where r: "astar_findPath wall 0 0 2 0 ?s = Some (Returns r, s')"
      "case r of Some p \<Rightarrow> gridPath wall 3 2 (0, 0) (2, 0) p | None \<Rightarrow> \<nexists>p. gridPath wall 3 2 (0, 0) (2, 0) p"
    by (auto simp: freeCell_def wall_def)
  have "gridPath wall 3 2 (0, 0) (2, 0) [(0, 0), (1, 1), (2, 0)]"
    by (simp add: gridPath_def freeCell_def wall_def adjacent_def)
  with r show ?thesis by (cases r) auto
qed

section \<open>Smoothing\<close>

text \<open>A straight step goes along a run of cells of the path.\<close>

definition straight :: "cell set \<Rightarrow> cell \<Rightarrow> cell \<Rightarrow> bool" where
  "straight P x y =
     (\<exists>d k. k \<ge> 1 \<and> y = (fst x + k * fst d, snd x + k * snd d) \<and>
       (\<forall>j\<in>{0..k}. (fst x + j * fst d, snd x + j * snd d) \<in> P))"

definition smooth :: "(cell \<Rightarrow> cell \<Rightarrow> bool) \<Rightarrow> cell list \<Rightarrow> cell list \<Rightarrow> bool" where
  "smooth pass q p =
     (if q = [] then p = []
      else p \<noteq> [] \<and> hd p = hd q \<and> last p = last q \<and> set p \<subseteq> set q \<and>
        successively (\<lambda>x y. straight (set q) x y \<or> pass y x) p)"

text \<open>The first loop as a function that goes through the path from its end.\<close>

fun thin :: "cell list \<Rightarrow> cell \<Rightarrow> cell \<Rightarrow> cell list \<Rightarrow> cell list" where
  "thin [] s a suf = s # suf"
| "thin (q # qs) s a suf =
     (let r = floydVector s q in if a = r then thin qs q a suf else thin qs q r (s # suf))"

lemma floydRuns_thin: "floydRuns (length pre) a (rev pre @ s # suf) = thin pre s a suf"
proof (induction pre arbitrary: s a suf)
  case (Cons q qs)
  let ?e = "rev (q # qs) @ s # suf"
  have "?e ! (length qs + 1) = s" "?e ! length qs = q" "dropAt (length qs + 1) ?e = rev qs @ q # suf"
    by (simp_all add: nth_append dropAt_def)
  moreover have "?e = rev qs @ q # s # suf" by simp
  ultimately show ?case using Cons.IH [of a q suf] Cons.IH [of "floydVector s q" q "s # suf"]
    by (auto simp: Let_def simp del: rev.simps)
qed simp

text \<open>The run that starts at \<open>s\<close> leads in the direction \<open>a\<close> to the next point kept.\<close>

definition runTo :: "cell set \<Rightarrow> cell \<Rightarrow> cell \<Rightarrow> cell \<Rightarrow> bool" where
  "runTo P s a y =
     (\<exists>k\<ge>1. y = (fst s + k * fst a, snd s + k * snd a) \<and>
       (\<forall>j\<in>{0..k}. (fst s + j * fst a, snd s + j * snd a) \<in> P))"

lemma runTo_straight: "runTo P s a y \<Longrightarrow> straight P s y"
  by (auto simp: runTo_def straight_def)

lemma runTo_one: "q \<in> P \<Longrightarrow> s \<in> P \<Longrightarrow> runTo P q (floydVector s q) s"
proof -
  assume "q \<in> P" "s \<in> P"
  moreover have "{0..1 :: int} = {0, 1}" by auto
  ultimately show ?thesis by (cases q; cases s) (auto simp: runTo_def floydVector_def intro!: exI [of _ "1 :: int"])
qed

lemma runTo_Cons:
  assumes "runTo P s (floydVector s q) y" "q \<in> P"
  shows "runTo P q (floydVector s q) y"
proof -
  let ?a = "floydVector s q"
  have s: "fst s = fst q + fst ?a" "snd s = snd q + snd ?a" by (simp_all add: floydVector_def)
  from assms(1) obtain k where k: "k \<ge> 1" "y = (fst s + k * fst ?a, snd s + k * snd ?a)"
      "\<forall>j\<in>{0..k}. (fst s + j * fst ?a, snd s + j * snd ?a) \<in> P"
    unfolding runTo_def by blast
  have "(fst q + j * fst ?a, snd q + j * snd ?a) \<in> P" if "j \<in> {0..k + 1}" for j
  proof (cases "j = 0")
    case False
    with that have "j - 1 \<in> {0..k}" by simp
    then have "(fst s + (j - 1) * fst ?a, snd s + (j - 1) * snd ?a) \<in> P" using k(3) by blast
    then show ?thesis unfolding s by (simp add: algebra_simps)
  qed (use assms(2) in simp)
  moreover have "y = (fst q + (k + 1) * fst ?a, snd q + (k + 1) * snd ?a)"
    using k(2) unfolding s by (simp add: algebra_simps)
  ultimately show ?thesis using k(1) unfolding runTo_def by (intro exI [of _ "k + 1"]) auto
qed

lemma thin_smooth:
  assumes "set qs \<subseteq> P" "s \<in> P" "set suf \<subseteq> P" "suf \<noteq> []" "runTo P s a (hd suf)" "successively (straight P) suf"
  shows "thin qs s a suf \<noteq> [] \<and> hd (thin qs s a suf) = last (s # qs) \<and> last (thin qs s a suf) = last suf
     \<and> set (thin qs s a suf) \<subseteq> insert s (set qs \<union> set suf) \<and> successively (straight P) (thin qs s a suf)"
  using assms
proof (induction qs arbitrary: s a suf)
  case Nil
  then show ?case by (cases suf) (auto dest: runTo_straight)
next
  case (Cons q qs)
  show ?case
  proof (cases "a = floydVector s q")
    case True
    with Cons.prems have "runTo P q a (hd suf)" using runTo_Cons by simp
    with Cons.IH [of q suf a] Cons.prems True show ?thesis by (auto simp: Let_def)
  next
    case False
    have "runTo P q (floydVector s q) (hd (s # suf))" using Cons.prems runTo_one by simp
    moreover have "successively (straight P) (s # suf)"
      using Cons.prems by (cases suf) (auto dest: runTo_straight)
    ultimately show ?thesis using Cons.IH [of q "s # suf" "floydVector s q"] Cons.prems False by (auto simp: Let_def)
  qed
qed

lemma straight_adjacent: "x \<in> P \<Longrightarrow> y \<in> P \<Longrightarrow> straight P x y"
  using runTo_one runTo_straight by blast

lemma smooth_refl: "smooth pass q q"
proof -
  have "successively (straight (set q)) p" if "set p \<subseteq> set q" for p
    using that by (induction p rule: induct_list012) (auto intro: straight_adjacent)
  then have "successively (\<lambda>x y. straight (set q) x y \<or> pass y x) q"
    by (rule successively_mono [OF _ _]) auto
  then show ?thesis by (simp add: smooth_def)
qed

lemma floydRuns_smooth:
  assumes "length e > 2"
  shows "smooth pass e (floydRuns (length e - 2) (floydVector (e ! (length e - 1)) (e ! (length e - 2))) e)"
proof -
  obtain pre s y where e: "e = pre @ [s, y]"
  proof -
    from assms obtain xs y where xs: "e = xs @ [y]" by (cases e rule: rev_exhaust) auto
    with assms obtain pre s where "xs = pre @ [s]" by (cases xs rule: rev_exhaust) auto
    with xs that show ?thesis by simp
  qed
  have i: "e ! (length e - 1) = y" "e ! (length e - 2) = s" "length e - 2 = length (rev pre)" "pre \<noteq> []"
    using assms by (auto simp: e nth_append)
  have "floydRuns (length e - 2) (floydVector (e ! (length e - 1)) (e ! (length e - 2))) e
      = thin (rev pre) s (floydVector y s) [y]"
    unfolding i(1,2) unfolding i(3) using floydRuns_thin [of "rev pre"] by (simp add: e)
  moreover have "runTo (set e) s (floydVector y s) (hd [y])" using runTo_one [of s "set e" y] by (simp add: e)
  with thin_smooth [of "rev pre" "set e" s "[y]" "floydVector y s"]
  have "thin (rev pre) s (floydVector y s) [y] \<noteq> [] \<and> hd (thin (rev pre) s (floydVector y s) [y]) = hd e
     \<and> last (thin (rev pre) s (floydVector y s) [y]) = last e
     \<and> set (thin (rev pre) s (floydVector y s) [y]) \<subseteq> set e
     \<and> successively (straight (set e)) (thin (rev pre) s (floydVector y s) [y])"
    using i(4) by (auto simp: e last_rev)
  ultimately show ?thesis unfolding smooth_def by (auto elim: successively_mono)
qed

lemma successively_cut:
  assumes "successively R e" "l < t" "t < length e" "R (e ! l) (e ! t)"
  shows "successively R (take (l + 1) e @ drop t e)"
proof -
  have "take (l + 1) e = take l e @ [e ! l]" using assms by (simp add: take_Suc_conv_app_nth)
  moreover have "drop t e = e ! t # drop (Suc t) e" using assms by (simp add: Cons_nth_drop_Suc)
  moreover have "successively R (take (l + 1) e)" "successively R (drop t e)"
    using assms(1) by (metis append_take_drop_id successively_append_iff)+
  ultimately show ?thesis using assms(4) by (simp add: successively_append_iff)
qed

lemma floydLines_smooth:
  "t \<le> length e \<Longrightarrow> smooth pass q e \<Longrightarrow> smooth pass q (floydLines pass t e)"
proof (induction pass t e rule: floydLines.induct)
  case (2 pass t e)
  show ?case
  proof (cases "List.find (\<lambda>l. pass (e ! t) (e ! l)) [0..<t - 1]")
    case (Some l)
    then have l: "l < t" "pass (e ! t) (e ! l)" by (auto simp: find_Some_iff)
    let ?e = "take (l + 1) e @ drop t e"
    have t: "t < length e" using 2(3) by simp
    have "smooth pass q ?e"
    proof (cases "q = []")
      case False
      with 2(4) have e: "e \<noteq> []" "hd e = hd q" "last e = last q" "set e \<subseteq> set q"
          "successively (\<lambda>x y. straight (set q) x y \<or> pass y x) e"
        by (simp_all add: smooth_def)
      have "successively (\<lambda>x y. straight (set q) x y \<or> pass y x) ?e"
        by (rule successively_cut [OF e(5) l(1) t]) (use l in simp)
      moreover have "hd ?e = hd e" "last ?e = last e" "?e \<noteq> []" using t e(1) by (cases e; simp)+
      moreover have "set ?e \<subseteq> set e" using set_take_subset set_drop_subset by fastforce
      ultimately show ?thesis using False e by (auto simp: smooth_def)
    qed (use 2(4) t in \<open>simp add: smooth_def\<close>)
    moreover have "l \<le> length ?e" using l t by simp
    ultimately show ?thesis using 2(2) [OF Some l(1)] Some l(1) by simp
  qed (use 2 in simp)
qed simp

lemma floyd_smooth: "smooth pass e (floyd pass e)"
proof (cases "length e > 2")
  case True
  from floydLines_smooth [OF order_refl floydRuns_smooth [OF True, of pass]] True
  show ?thesis by (simp add: floyd_def Let_def)
next
  case False
  then show ?thesis using floydLines_smooth [OF order_refl smooth_refl] by (simp add: floyd_def)
qed


definition demo_scene :: "scene_map \<times> astar" where
  "demo_scene =
     setSource 7 \<lparr>mW = 72, mH = 48, tW = 24, tH = 24, cfg_blocks = [0, 1, 0, 0, 0, 0]\<rparr>
       \<lparr>mapId = None, mapWidth = 0, mapHeight = 0, tileWidth = 0, tileHeight = 0, columns = 0, rows = 0, blocks = []\<rparr>
       new_astar"


end
