(* ===== verification/LinkedList.thy ===== *)
theory LinkedList
  imports Prelude
begin

text \<open>
  The doubly linked list of the client (classes \<open>LinkedNode\<close> and \<open>LinkedList\<close>) on the
  object pool it takes its nodes from (class \<open>Pool\<close>).

  Nodes are objects that several lists and the pool share, so they live in a store
  from references to nodes.  \<open>pool_list\<close> are the nodes that wait for reuse and
  \<open>pool_wait\<close> those released since the last clean-up.  Data is a value or \<open>None\<close>, which
  stands for the values that JavaScript takes for false.  Walking along a chain may
  not end in an arbitrary store, so the searches are partial functions; \<open>Inl ()\<close> is
  the \<open>TypeError\<close> of following a missing node.
\<close>

section \<open>State\<close>

record 'd lnode =
  lprev :: "nat option"
  lnext :: "nat option"
  ldata :: "'d option"

record 'd store =
  lnodes :: "nat \<Rightarrow> 'd lnode"
  fresh :: nat
  pool_list :: "nat list"
  pool_wait :: "nat list"
  aNum :: int
  rTime :: int

record llist =
  lhead :: nat
  ltail :: nat

definition new_node :: "'d lnode" where
  "new_node = \<lparr>lprev = None, lnext = None, ldata = None\<rparr>"

definition new_store :: "int \<Rightarrow> 'd store" where
  "new_store now = \<lparr>lnodes = (\<lambda>_. new_node), fresh = 0, pool_list = [], pool_wait = [], aNum = 0, rTime = now\<rparr>"

abbreviation updNode :: "nat \<Rightarrow> ('d lnode \<Rightarrow> 'd lnode) \<Rightarrow> 'd store \<Rightarrow> 'd store" where
  "updNode t f s \<equiv> s\<lparr>lnodes := (lnodes s)(t := f (lnodes s t))\<rparr>"

section \<open>Nodes\<close>

definition addToTail :: "nat \<Rightarrow> nat \<Rightarrow> 'd store \<Rightarrow> 'd store" where
  "addToTail t e s =
     (let s = updNode t (\<lambda>n. n\<lparr>lprev := Some e\<rparr>) s;
          s = updNode t (\<lambda>n. n\<lparr>lnext := lnext (lnodes s e)\<rparr>) s;
          s = updNode e (\<lambda>n. n\<lparr>lnext := Some t\<rparr>) s
      in (case lnext (lnodes s t) of None \<Rightarrow> s | Some r \<Rightarrow> updNode r (\<lambda>n. n\<lparr>lprev := Some t\<rparr>) s))"

definition removeNode :: "nat \<Rightarrow> 'd store \<Rightarrow> 'd store" where
  "removeNode e s =
     (let s = (case lprev (lnodes s e) of
                 Some p \<Rightarrow>
                   (let s = updNode p (\<lambda>n. n\<lparr>lnext := lnext (lnodes s e)\<rparr>) s
                    in (case lnext (lnodes s e) of None \<Rightarrow> s
                        | Some r \<Rightarrow> updNode r (\<lambda>n. n\<lparr>lprev := lprev (lnodes s e)\<rparr>) s))
               | None \<Rightarrow>
                   (case lnext (lnodes s e) of None \<Rightarrow> s
                    | Some r \<Rightarrow> updNode r (\<lambda>n. n\<lparr>lprev := None\<rparr>) s))
      in updNode e (\<lambda>n. n\<lparr>lprev := None, lnext := None\<rparr>) s)"

definition setData :: "'d option \<Rightarrow> nat \<Rightarrow> 'd store \<Rightarrow> 'd store" where
  "setData e t s = updNode t (\<lambda>n. n\<lparr>ldata := e\<rparr>) s"

definition node_onRelease :: "nat \<Rightarrow> 'd store \<Rightarrow> 'd store" where
  "node_onRelease t s = setData None t (removeNode t s)"

section \<open>The pool\<close>

definition pool_alloc :: "'d store \<Rightarrow> nat \<times> 'd store" where
  "pool_alloc s =
     (let s = s\<lparr>aNum := aNum s + 1\<rparr>
      in if pool_list s \<noteq> [] then (last (pool_list s), s\<lparr>pool_list := butlast (pool_list s)\<rparr>)
         else (fresh s, s\<lparr>lnodes := (lnodes s)(fresh s := new_node), fresh := Suc (fresh s)\<rparr>))"

definition pool_release :: "nat \<Rightarrow> 'd store \<Rightarrow> 'd store" where
  "pool_release e s =
     (if e \<in> set (pool_wait s) then s
      else (let s = node_onRelease e s in s\<lparr>pool_wait := pool_wait s @ [e]\<rparr>))"

text \<open>The clean-up moves the released nodes, last one first, to the nodes for reuse, and
  from time to time cuts them down to the number of recent allocations.\<close>

fun moveWait :: "nat list \<Rightarrow> nat list \<Rightarrow> nat list" where
  "moveWait [] l = l"
| "moveWait (t # w) l = moveWait w (if t \<in> set l then l else l @ [t])"

fun disposeFrom :: "nat list \<Rightarrow> 'd store \<Rightarrow> 'd store" where
  "disposeFrom [] s = s"
| "disposeFrom (t # ts) s = disposeFrom ts (node_onRelease t s)"

definition pool_resize :: "int \<Rightarrow> int \<Rightarrow> int \<Rightarrow> 'd store \<Rightarrow> 'd store" where
  "pool_resize resizeT poolSize e s =
     (let s = s\<lparr>pool_list := moveWait (rev (pool_wait s)) (pool_list s), pool_wait := []\<rparr>
      in if e - rTime s \<ge> resizeT then
           (let a = nat (max (aNum s) poolSize); l = pool_list s
            in disposeFrom (rev (drop a l)) (s\<lparr>aNum := 0, rTime := e, pool_list := take a l\<rparr>))
         else s)"

section \<open>Lists\<close>

definition new_llist :: "'d store \<Rightarrow> llist \<times> 'd store" where
  "new_llist s =
     (let (h, s) = pool_alloc s; (t, s) = pool_alloc s
      in (\<lparr>lhead = h, ltail = t\<rparr>, addToTail t h s))"

definition lpush :: "llist \<Rightarrow> 'd option \<Rightarrow> 'd store \<Rightarrow> nat \<times> 'd store" where
  "lpush L e s =
     (let (t, s) = pool_alloc s; s = setData e t s
      in (t, addToTail t (the (lprev (lnodes s (ltail L)))) s))"

definition lunshift :: "llist \<Rightarrow> 'd option \<Rightarrow> 'd store \<Rightarrow> nat \<times> 'd store" where
  "lunshift L e s =
     (let (t, s) = pool_alloc s; s = setData e t s in (t, addToTail t (lhead L) s))"

partial_function (option) lwalk ::
  "('d option \<Rightarrow> bool) \<Rightarrow> nat \<Rightarrow> nat option \<Rightarrow> 'd store \<Rightarrow> (unit + nat option) option" where
  "lwalk p i t s =
     (if t = Some i then Some (Inr None)
      else (case t of None \<Rightarrow> Some (Inl ())
            | Some r \<Rightarrow> if p (ldata (lnodes s r)) then Some (Inr (Some r)) else lwalk p i (lnext (lnodes s r)) s))"

definition lfind :: "llist \<Rightarrow> 'd option \<Rightarrow> 'd store \<Rightarrow> (unit + nat option) option" where
  "lfind L e s =
     (if e = None then Some (Inr None)
      else lwalk (\<lambda>d. d = e) (ltail L) (lnext (lnodes s (lhead L))) s)"

definition lfind2 :: "llist \<Rightarrow> ('d option \<Rightarrow> bool) \<Rightarrow> 'd store \<Rightarrow> (unit + nat option) option" where
  "lfind2 L p s = lwalk p (ltail L) (lnext (lnodes s (lhead L))) s"

definition lremove :: "llist \<Rightarrow> 'd option \<Rightarrow> 'd store \<Rightarrow> ((unit + bool) \<times> 'd store) option" where
  "lremove L e s =
     (case lfind L e s of
        None \<Rightarrow> None
      | Some (Inl u) \<Rightarrow> Some (Inl u, s)
      | Some (Inr None) \<Rightarrow> Some (Inr False, s)
      | Some (Inr (Some t)) \<Rightarrow> Some (Inr True, pool_release t s))"

partial_function (option) lclear :: "nat \<Rightarrow> nat option \<Rightarrow> 'd store \<Rightarrow> ((unit + unit) \<times> 'd store) option" where
  "lclear i t s =
     (if t = Some i then Some (Inr (), s)
      else (case t of None \<Rightarrow> Some (Inl (), s)
            | Some e \<Rightarrow> lclear i (lnext (lnodes s e)) (pool_release e s)))"

definition llist_onRelease :: "llist \<Rightarrow> 'd store \<Rightarrow> ((unit + unit) \<times> 'd store) option" where
  "llist_onRelease L s = lclear (ltail L) (lnext (lnodes s (lhead L))) s"

partial_function (option) lcopy :: "llist \<Rightarrow> nat \<Rightarrow> nat option \<Rightarrow> 'd store \<Rightarrow> ((unit + unit) \<times> 'd store) option" where
  "lcopy L i t s =
     (if t = Some i then Some (Inr (), s)
      else (case t of None \<Rightarrow> Some (Inl (), s)
            | Some e \<Rightarrow> (let s = snd (lpush L (ldata (lnodes s e)) s) in lcopy L i (lnext (lnodes s e)) s)))"

definition lclone :: "llist \<Rightarrow> 'd store \<Rightarrow> ((unit + llist) \<times> 'd store) option" where
  "lclone L s =
     (let (K, s) = new_llist s
      in (case lcopy K (ltail L) (lnext (lnodes s (lhead L))) s of
            None \<Rightarrow> None
          | Some (Inl u, s) \<Rightarrow> Some (Inl u, s)
          | Some (Inr _, s) \<Rightarrow> Some (Inr K, s)))"

end
