(* ===== verification/LinkedProps.thy ===== *)
theory LinkedProps
  imports LinkedList
begin

text \<open>
  The linked list refines the sequence of its data: adding at both ends, searching,
  removing and clearing do on the chain of nodes what they do on a list, whatever
  other lists share the store and whichever nodes the pool hands out.
\<close>

section \<open>Chains of nodes\<close>

fun dll :: "(nat \<Rightarrow> 'd lnode) \<Rightarrow> nat option \<Rightarrow> nat list \<Rightarrow> nat option \<Rightarrow> bool" where
  "dll h p [] n = True"
| "dll h p (q # qs) n =
     (lprev (h q) = p \<and> lnext (h q) = (case qs of [] \<Rightarrow> n | r # _ \<Rightarrow> Some r) \<and> dll h (Some q) qs n)"

lemma dll_append:
  "dll h p (xs @ ys) n \<longleftrightarrow>
     dll h p xs (case ys of [] \<Rightarrow> n | r # _ \<Rightarrow> Some r) \<and> dll h (if xs = [] then p else Some (last xs)) ys n"
proof (induction xs arbitrary: p)
  case (Cons x xs)
  then show ?case by (cases xs; cases ys) auto
qed simp

lemma dll_cong:
  "(\<And>q. q \<in> set qs \<Longrightarrow> lprev (h q) = lprev (k q) \<and> lnext (h q) = lnext (k q)) \<Longrightarrow> dll h p qs n = dll k p qs n"
  by (induction qs arbitrary: p) auto

text \<open>Inserting a node after another one, and taking one out.\<close>

lemma addToTail_frame:
  assumes "lnext (lnodes s e) = Some y" "t \<noteq> e" "t \<noteq> y" "e \<noteq> y"
  shows "addToTail t e s = s\<lparr>lnodes := (lnodes s)(t := (lnodes s t)\<lparr>lprev := Some e, lnext := Some y\<rparr>,
      e := (lnodes s e)\<lparr>lnext := Some t\<rparr>, y := (lnodes s y)\<lparr>lprev := Some t\<rparr>)\<rparr>"
  using assms by (simp add: addToTail_def Let_def fun_upd_twist)

lemma addToTail_dll:
  assumes d: "dll (lnodes s) p (xs @ e # y # ys) n" and dist: "distinct (xs @ e # y # ys)" "t \<notin> set (xs @ e # y # ys)"
  shows "dll (lnodes (addToTail t e s)) p (xs @ e # t # y # ys) n"
    and "lnext (lnodes s e) = Some y"
proof -
  show y: "lnext (lnodes s e) = Some y" using d by (simp add: dll_append)
  let ?h = "lnodes s" and ?k = "lnodes (addToTail t e s)"
  have k: "?k = ?h(t := (?h t)\<lparr>lprev := Some e, lnext := Some y\<rparr>,
      e := (?h e)\<lparr>lnext := Some t\<rparr>, y := (?h y)\<lparr>lprev := Some t\<rparr>)"
    using addToTail_frame [OF y] dist by auto
  have "dll ?k p (xs @ [e]) (Some t)"
  proof -
    have "dll ?k p xs (Some e) = dll ?h p xs (Some e)" by (rule dll_cong) (use dist k in auto)
    with d dist show ?thesis by (auto simp: dll_append k)
  qed
  moreover have "dll ?k (Some t) (y # ys) n"
  proof -
    have "dll ?k (Some y) ys n = dll ?h (Some y) ys n" by (rule dll_cong) (use dist k in auto)
    with d dist show ?thesis by (auto simp: dll_append k split: list.splits)
  qed
  moreover have "lprev (?k t) = Some e" "lnext (?k t) = Some y" using dist k by auto
  ultimately show "dll ?k p (xs @ e # t # y # ys) n"
    by (auto simp: dll_append)
qed

lemma removeNode_dll:
  assumes d: "dll (lnodes s) p (xs @ x # e # y # ys) n" and dist: "distinct (xs @ x # e # y # ys)"
  shows "dll (lnodes (removeNode e s)) p (xs @ x # y # ys) n"
    and "removeNode e s = s\<lparr>lnodes := (lnodes s)(x := (lnodes s x)\<lparr>lnext := Some y\<rparr>,
      y := (lnodes s y)\<lparr>lprev := Some x\<rparr>, e := (lnodes s e)\<lparr>lprev := None, lnext := None\<rparr>)\<rparr>"
proof -
  let ?h = "lnodes s" and ?k = "lnodes (removeNode e s)"
  have e: "lprev (?h e) = Some x" "lnext (?h e) = Some y" using d by (simp_all add: dll_append)
  show r: "removeNode e s = s\<lparr>lnodes := ?h(x := (?h x)\<lparr>lnext := Some y\<rparr>,
      y := (?h y)\<lparr>lprev := Some x\<rparr>, e := (?h e)\<lparr>lprev := None, lnext := None\<rparr>)\<rparr>"
    using e dist by (simp add: removeNode_def Let_def)
  have "dll ?k p xs (Some x) = dll ?h p xs (Some x)" by (rule dll_cong) (use dist r in auto)
  moreover have "dll ?k (Some y) ys n = dll ?h (Some y) ys n" by (rule dll_cong) (use dist r in auto)
  ultimately show "dll ?k p (xs @ x # y # ys) n"
    using d dist by (auto simp: dll_append r split: list.splits)
qed

section \<open>The store\<close>

text \<open>The list \<open>L\<close> has the nodes \<open>ps\<close>; the nodes \<open>F\<close> belong to others and have the contents
  \<open>M\<close>; the nodes of the pool are reset and belong to nobody.\<close>

definition listAt :: "llist \<Rightarrow> nat set \<Rightarrow> (nat \<Rightarrow> 'd lnode) \<Rightarrow> 'd store \<Rightarrow> nat list \<Rightarrow> bool" where
  "listAt L F M s ps =
     (dll (lnodes s) None (lhead L # ps @ [ltail L]) None \<and>
      distinct (lhead L # ps @ [ltail L]) \<and> distinct (pool_list s @ pool_wait s) \<and>
      set (lhead L # ps @ [ltail L]) \<inter> (set (pool_list s) \<union> set (pool_wait s)) = {} \<and>
      set (lhead L # ps @ [ltail L]) \<union> set (pool_list s) \<union> set (pool_wait s) \<union> F \<subseteq> {..<fresh s} \<and>
      F \<inter> (set (lhead L # ps @ [ltail L]) \<union> set (pool_list s) \<union> set (pool_wait s)) = {} \<and>
      (\<forall>r\<in>F. lnodes s r = M r))"

definition rep :: "llist \<Rightarrow> nat set \<Rightarrow> (nat \<Rightarrow> 'd lnode) \<Rightarrow> 'd store \<Rightarrow> 'd option list \<Rightarrow> bool" where
  "rep L F M s xs = (\<exists>ps. listAt L F M s ps \<and> map (\<lambda>r. ldata (lnodes s r)) ps = xs)"

lemma pool_alloc_fresh:
  assumes "listAt L F M s ps" "pool_alloc s = (t, s')"
  shows "listAt L F M s' ps" and "t < fresh s'" and "t \<notin> set (lhead L # ps @ [ltail L]) \<union> set (pool_list s') \<union> set (pool_wait s') \<union> F"
    and "\<forall>r\<in>set (lhead L # ps @ [ltail L]). lnodes s' r = lnodes s r"
proof -
  let ?U = "set (lhead L # ps @ [ltail L])"
  note l = assms(1) [unfolded listAt_def]
  have "listAt L F M s' ps \<and> t < fresh s' \<and> t \<notin> ?U \<union> set (pool_list s') \<union> set (pool_wait s') \<union> F
      \<and> (\<forall>r\<in>?U. lnodes s' r = lnodes s r)"
  proof (cases "pool_list s = []")
    case True
    then have s': "s' = s\<lparr>aNum := aNum s + 1, lnodes := (lnodes s)(fresh s := new_node), fresh := Suc (fresh s)\<rparr>"
      and t: "t = fresh s"
      using assms(2) by (auto simp: pool_alloc_def Let_def)
    have "\<forall>r\<in>?U \<union> F. lnodes s' r = lnodes s r" using l unfolding s' by auto
    moreover have "dll (lnodes s') None (lhead L # ps @ [ltail L]) None = dll (lnodes s) None (lhead L # ps @ [ltail L]) None"
      by (rule dll_cong) (use l s' in auto)
    ultimately show ?thesis using l True unfolding listAt_def by (auto simp: s' t)
  next
    case False
    then obtain u where u: "pool_list s = u @ [t]" and s': "s' = s\<lparr>aNum := aNum s + 1, pool_list := u\<rparr>"
      using assms(2) by (cases "pool_list s" rule: rev_exhaust) (auto simp: pool_alloc_def Let_def)
    show ?thesis using l unfolding listAt_def s' u by auto
  qed
  then show "listAt L F M s' ps" "t < fresh s'" "t \<notin> ?U \<union> set (pool_list s') \<union> set (pool_wait s') \<union> F"
    "\<forall>r\<in>?U. lnodes s' r = lnodes s r"
    by blast+
qed

lemma insert_listAt:
  assumes l: "listAt L F M s (us @ vs)" and t: "t < fresh s"
    "t \<notin> set (lhead L # (us @ vs) @ [ltail L]) \<union> set (pool_list s) \<union> set (pool_wait s) \<union> F"
    and s': "s' = addToTail t (last (lhead L # us)) (setData d t s)"
  shows "listAt L F M s' (us @ t # vs)" and "ldata (lnodes s' t) = d"
    and "\<forall>r. r \<noteq> t \<longrightarrow> ldata (lnodes s' r) = ldata (lnodes s r)"
proof -
  note l' = l [unfolded listAt_def]
  obtain xs e where xe: "lhead L # us = xs @ [e]" by (metis rev_exhaust list.discI)
  obtain y ys where y: "vs @ [ltail L] = y # ys" by (cases vs) auto
  have c: "lhead L # (us @ vs) @ [ltail L] = xs @ e # y # ys" using xe y by (metis append.assoc append_Cons append_Nil)
  have e: "e = last (lhead L # us)" by (simp add: xe)
  let ?s = "setData d t s"
  have "dll (lnodes ?s) None (xs @ e # y # ys) None = dll (lnodes s) None (xs @ e # y # ys) None"
    by (rule dll_cong) (use t c in \<open>auto simp: setData_def\<close>)
  then have d: "dll (lnodes ?s) None (xs @ e # y # ys) None"
    using conjunct1 [OF l'] unfolding c by blast
  have dist: "distinct (xs @ e # y # ys)" "t \<notin> set (xs @ e # y # ys)" using l' t(2) unfolding c [symmetric] by simp_all
  note add = addToTail_dll [OF d dist]
  have new: "s' = ?s\<lparr>lnodes := (lnodes ?s)(t := (lnodes ?s t)\<lparr>lprev := Some e, lnext := Some y\<rparr>,
      e := (lnodes ?s e)\<lparr>lnext := Some t\<rparr>, y := (lnodes ?s y)\<lparr>lprev := Some t\<rparr>)\<rparr>"
    unfolding s' e [symmetric] by (rule addToTail_frame [OF add(2)]) (use dist in auto)
  have c': "lhead L # (us @ t # vs) @ [ltail L] = xs @ e # t # y # ys" using xe y by (metis append.assoc append_Cons append_Nil)
  have "dll (lnodes s') None (lhead L # (us @ t # vs) @ [ltail L]) None" unfolding c' s' using add(1) e by simp
  moreover have F: "\<forall>r\<in>F. lnodes s' r = M r"
  proof
    fix r assume r: "r \<in> F"
    then have "r \<notin> set (lhead L # (us @ vs) @ [ltail L])" "r \<noteq> t" using l' t(2) by blast+
    then have "r \<noteq> e" "r \<noteq> y" "r \<noteq> t" unfolding c by auto
    with r l' show "lnodes s' r = M r" by (simp add: new setData_def)
  qed
  moreover have pools: "pool_list s' = pool_list s" "pool_wait s' = pool_wait s" "fresh s' = fresh s"
    by (simp_all add: new setData_def)
  ultimately show "listAt L F M s' (us @ t # vs)"
    using l' t unfolding listAt_def pools by (intro conjI) auto
  show "ldata (lnodes s' t) = d" "\<forall>r. r \<noteq> t \<longrightarrow> ldata (lnodes s' r) = ldata (lnodes s r)"
    using dist(2) by (auto simp: new setData_def)
qed

lemma insert_rep:
  assumes l: "listAt L F M s (us @ vs)" and a: "pool_alloc s = (t, s1)"
    and s': "s' = addToTail t (last (lhead L # us)) (setData d t s1)"
  shows "rep L F M s' (map (\<lambda>r. ldata (lnodes s r)) us @ d # map (\<lambda>r. ldata (lnodes s r)) vs)"
proof -
  note al = pool_alloc_fresh [OF l a]
  note ins = insert_listAt [OF al(1-3) s']
  have "\<forall>r\<in>set (us @ vs). ldata (lnodes s' r) = ldata (lnodes s r)"
    using ins(3) al(3,4) by auto
  with ins(1,2) show ?thesis unfolding rep_def by (intro exI [of _ "us @ t # vs"]) auto
qed

lemma lunshift_rep:
  assumes "rep L F M s xs"
  shows "rep L F M (snd (lunshift L d s)) (d # xs)"
proof -
  from assms obtain ps where ps: "listAt L F M s ([] @ ps)" "map (\<lambda>r. ldata (lnodes s r)) ps = xs" by (auto simp: rep_def)
  obtain t s1 where a: "pool_alloc s = (t, s1)" by fastforce
  from insert_rep [OF ps(1) a refl, of d] ps(2) show ?thesis by (simp add: lunshift_def a)
qed

lemma lpush_rep:
  assumes "rep L F M s xs"
  shows "rep L F M (snd (lpush L d s)) (xs @ [d])"
proof -
  from assms obtain ps where ps: "listAt L F M s (ps @ [])" "map (\<lambda>r. ldata (lnodes s r)) ps = xs" by (auto simp: rep_def)
  obtain t s1 where a: "pool_alloc s = (t, s1)" by fastforce
  note al = pool_alloc_fresh [OF ps(1) a]
  have "lprev (lnodes s1 (ltail L)) = Some (last (lhead L # ps))"
    using al(1) dll_append [of "lnodes s1" None "lhead L # ps" "[ltail L]" None] by (simp add: listAt_def)
  moreover have "t \<noteq> ltail L" using al(3) by auto
  ultimately have "lprev (lnodes (setData d t s1) (ltail L)) = Some (last (lhead L # ps))" by (simp add: setData_def)
  with insert_rep [OF ps(1) a refl, of d] ps(2) show ?thesis by (simp add: lpush_def a Let_def)
qed

section \<open>Searching and removing\<close>

lemma lwalk_find:
  assumes "dll (lnodes s) p (ps @ [i]) n" "i \<notin> set ps"
  shows "lwalk P i (Some (hd (ps @ [i]))) s = Some (Inr (List.find (\<lambda>r. P (ldata (lnodes s r))) ps))"
  using assms
proof (induction ps arbitrary: p)
  case Nil
  then show ?case by (simp add: lwalk.simps)
next
  case (Cons q qs)
  then have "lnext (lnodes s q) = Some (hd (qs @ [i]))" by (cases qs) auto
  with Cons show ?case by (subst lwalk.simps) auto
qed

lemma listAt_walk:
  assumes "listAt L F M s ps"
  shows "lnext (lnodes s (lhead L)) = Some (hd (ps @ [ltail L]))"
    and "dll (lnodes s) (Some (lhead L)) (ps @ [ltail L]) None" and "ltail L \<notin> set ps"
  using assms by (auto simp: listAt_def split: list.splits)

lemma lfind_rep:
  assumes "listAt L F M s ps"
  shows "lfind L (Some d) s = Some (Inr (List.find (\<lambda>r. ldata (lnodes s r) = Some d) ps))"
    and "lfind2 L P s = Some (Inr (List.find (\<lambda>r. P (ldata (lnodes s r))) ps))"
  using lwalk_find [OF listAt_walk(2,3) [OF assms]] listAt_walk(1) [OF assms]
  by (simp_all add: lfind_def lfind2_def)

lemma pool_release_listAt:
  assumes l: "listAt L F M s (us @ t # vs)"
  shows "listAt L F M (pool_release t s) (us @ vs)"
    and "\<forall>r. r \<noteq> t \<longrightarrow> ldata (lnodes (pool_release t s) r) = ldata (lnodes s r)"
proof -
  note l' = l [unfolded listAt_def]
  obtain xs x where xe: "lhead L # us = xs @ [x]" by (metis rev_exhaust list.discI)
  obtain y ys where y: "vs @ [ltail L] = y # ys" by (cases vs) auto
  have c: "lhead L # (us @ t # vs) @ [ltail L] = xs @ x # t # y # ys" using xe y by (metis append.assoc append_Cons append_Nil)
  have c': "lhead L # (us @ vs) @ [ltail L] = xs @ x # y # ys" using xe y by (metis append.assoc append_Cons append_Nil)
  have d: "dll (lnodes s) None (xs @ x # t # y # ys) None" "distinct (xs @ x # t # y # ys)"
    using l' unfolding c by blast+
  note rem = removeNode_dll [OF d]
  let ?s = "pool_release t s"
  have tw: "t \<notin> set (pool_wait s)" "t \<notin> set (pool_list s)" "t < fresh s" "t \<notin> F" using l' by auto
  have new: "?s = s\<lparr>lnodes := (lnodes s)(x := (lnodes s x)\<lparr>lnext := Some y\<rparr>,
      y := (lnodes s y)\<lparr>lprev := Some x\<rparr>, t := (lnodes s t)\<lparr>lprev := None, lnext := None, ldata := None\<rparr>),
      pool_wait := pool_wait s @ [t]\<rparr>"
    using tw(1) rem(2) by (simp add: pool_release_def node_onRelease_def setData_def Let_def)
  have "dll (lnodes ?s) None (xs @ x # y # ys) None = dll (lnodes (removeNode t s)) None (xs @ x # y # ys) None"
    by (rule dll_cong) (use d(2) new rem(2) in auto)
  then have "dll (lnodes ?s) None (lhead L # (us @ vs) @ [ltail L]) None" unfolding c' using rem(1) by blast
  moreover have "\<forall>r\<in>F. lnodes ?s r = M r"
  proof
    fix r assume r: "r \<in> F"
    then have "r \<notin> set (lhead L # (us @ t # vs) @ [ltail L])" using l' by blast
    then have "r \<noteq> x" "r \<noteq> y" "r \<noteq> t" unfolding c by auto
    with r l' show "lnodes ?s r = M r" by (simp add: new)
  qed
  moreover have pools: "pool_list ?s = pool_list s" "pool_wait ?s = pool_wait s @ [t]" "fresh ?s = fresh s"
    by (simp_all add: new)
  ultimately show "listAt L F M ?s (us @ vs)"
    using l' tw unfolding listAt_def pools by (intro conjI) auto
  show "\<forall>r. r \<noteq> t \<longrightarrow> ldata (lnodes ?s r) = ldata (lnodes s r)" by (auto simp: new)
qed

lemma lremove_rep:
  assumes "rep L F M s (map Some xs)"
  shows "\<exists>s'. lremove L (Some d) s = Some (Inr (d \<in> set xs), s') \<and> rep L F M s' (map Some (remove1 d xs))"
proof -
  from assms obtain ps where ps: "listAt L F M s ps" and xs: "map (\<lambda>r. ldata (lnodes s r)) ps = map Some xs"
    by (auto simp: rep_def)
  note find = lfind_rep(1) [OF ps, of d]
  show ?thesis
  proof (cases "List.find (\<lambda>r. ldata (lnodes s r) = Some d) ps")
    case None
    then have "\<forall>r\<in>set ps. ldata (lnodes s r) \<noteq> Some d" by (simp add: find_None_iff)
    then have "Some d \<notin> set (map (\<lambda>r. ldata (lnodes s r)) ps)" by auto
    then have "d \<notin> set xs" unfolding xs by auto
    with None find assms show ?thesis by (simp add: lremove_def remove1_idem)
  next
    case (Some t)
    then obtain k where k: "k < length ps" "ldata (lnodes s (ps ! k)) = Some d" "t = ps ! k"
        "\<forall>j<k. ldata (lnodes s (ps ! j)) \<noteq> Some d"
      by (auto simp: find_Some_iff)
    define us vs where "us = take k ps" and "vs = drop (Suc k) ps"
    have split: "ps = us @ t # vs" using k(1,3) by (simp add: us_def vs_def id_take_nth_drop)
    have new: "\<forall>r\<in>set us. ldata (lnodes s r) \<noteq> Some d"
      using k(1,4) by (auto simp: us_def in_set_conv_nth)
    have len: "length xs = length ps" using arg_cong [OF xs, of length] by simp
    define as bs where "as = take k xs" and "bs = drop (Suc k) xs"
    have nth: "ldata (lnodes s (ps ! j)) = Some (xs ! j)" if "j < length ps" for j
      using arg_cong [OF xs, of "\<lambda>l. l ! j"] that len by simp
    have ab: "xs = as @ d # bs" using k(1,2) nth [OF k(1)] len id_take_nth_drop [of k xs] by (simp add: as_def bs_def)
    have us: "map (\<lambda>r. ldata (lnodes s r)) us = map Some as"
      using arg_cong [OF xs, of "take k"] by (simp add: us_def as_def take_map)
    have vs: "map (\<lambda>r. ldata (lnodes s r)) vs = map Some bs"
      using arg_cong [OF xs, of "drop (Suc k)"] by (simp add: vs_def bs_def drop_map)
    have "Some d \<notin> set (map (\<lambda>r. ldata (lnodes s r)) us)" using new by auto
    then have "d \<notin> set as" unfolding us by auto
    with ab have rm: "remove1 d xs = as @ bs" "d \<in> set xs" by (simp_all add: remove1_append)
    note rel = pool_release_listAt [OF ps [unfolded split]]
    have "t \<notin> set us \<union> set vs" using ps unfolding split listAt_def by auto
    then have "map (\<lambda>r. ldata (lnodes (pool_release t s) r)) (us @ vs) = map (\<lambda>r. ldata (lnodes s r)) (us @ vs)"
      using rel(2) by auto
    also have "\<dots> = map Some (remove1 d xs)" using us vs rm(1) by simp
    finally have "map (\<lambda>r. ldata (lnodes (pool_release t s) r)) (us @ vs) = map Some (remove1 d xs)" .
    with rel(1) have "rep L F M (pool_release t s) (map Some (remove1 d xs))" unfolding rep_def by blast
    with find Some rm(2) show ?thesis by (simp add: lremove_def)
  qed
qed

lemma lclear_rep:
  "listAt L F M s ps \<Longrightarrow> \<exists>s'. lclear (ltail L) (Some (hd (ps @ [ltail L]))) s = Some (Inr (), s') \<and> listAt L F M s' []"
proof (induction ps arbitrary: s)
  case Nil
  then show ?case by (simp add: lclear.simps)
next
  case (Cons p ps)
  from pool_release_listAt(1) [of L F M s "[]" p ps] Cons.prems have "listAt L F M (pool_release p s) ps" by simp
  from Cons.IH [OF this] obtain s' where
    s': "lclear (ltail L) (Some (hd (ps @ [ltail L]))) (pool_release p s) = Some (Inr (), s')" "listAt L F M s' []" by blast
  have "lnext (lnodes s p) = Some (hd (ps @ [ltail L]))" using listAt_walk(2) [OF Cons.prems] by (cases ps) auto
  moreover have "p \<noteq> ltail L" using listAt_walk(3) [OF Cons.prems] by auto
  ultimately show ?case using s' by (subst lclear.simps) simp
qed

lemma llist_onRelease_rep:
  assumes "rep L F M s xs"
  shows "\<exists>s'. llist_onRelease L s = Some (Inr (), s') \<and> rep L F M s' []"
proof -
  from assms obtain ps where "listAt L F M s ps" by (auto simp: rep_def)
  with lclear_rep [OF this] listAt_walk(1) [OF this] show ?thesis
    by (auto simp: llist_onRelease_def rep_def)
qed

section \<open>New lists and the clean-up of the pool\<close>

definition poolOk :: "nat set \<Rightarrow> (nat \<Rightarrow> 'd lnode) \<Rightarrow> 'd store \<Rightarrow> bool" where
  "poolOk F M s =
     (distinct (pool_list s @ pool_wait s) \<and> set (pool_list s) \<union> set (pool_wait s) \<union> F \<subseteq> {..<fresh s} \<and>
      F \<inter> (set (pool_list s) \<union> set (pool_wait s)) = {} \<and>
      (\<forall>r\<in>set (pool_list s) \<union> set (pool_wait s). lnodes s r = new_node) \<and> (\<forall>r\<in>F. lnodes s r = M r))"

lemma poolOk_new: "poolOk {} M (new_store now)"
  by (simp add: poolOk_def new_store_def)

lemma poolOk_alloc:
  assumes "poolOk F M s" "pool_alloc s = (t, s')"
  shows "poolOk F M s'" and "lnodes s' t = new_node" and "t < fresh s'"
    and "t \<notin> set (pool_list s') \<union> set (pool_wait s') \<union> F"
    and "\<And>r. r < fresh s \<Longrightarrow> lnodes s' r = lnodes s r" and "fresh s \<le> fresh s'"
proof -
  have "poolOk F M s' \<and> lnodes s' t = new_node \<and> t < fresh s' \<and> t \<notin> set (pool_list s') \<union> set (pool_wait s') \<union> F
      \<and> (\<forall>r<fresh s. lnodes s' r = lnodes s r) \<and> fresh s \<le> fresh s'"
  proof (cases "pool_list s = []")
    case True
    then have "s' = s\<lparr>aNum := aNum s + 1, lnodes := (lnodes s)(fresh s := new_node), fresh := Suc (fresh s)\<rparr>" "t = fresh s"
      using assms(2) by (auto simp: pool_alloc_def Let_def)
    with assms(1) True show ?thesis by (auto simp: poolOk_def)
  next
    case False
    then obtain u where "pool_list s = u @ [t]" "s' = s\<lparr>aNum := aNum s + 1, pool_list := u\<rparr>"
      using assms(2) by (cases "pool_list s" rule: rev_exhaust) (auto simp: pool_alloc_def Let_def)
    with assms(1) show ?thesis by (auto simp: poolOk_def)
  qed
  then show "poolOk F M s'" "lnodes s' t = new_node" "t < fresh s'"
    "t \<notin> set (pool_list s') \<union> set (pool_wait s') \<union> F"
    "\<And>r. r < fresh s \<Longrightarrow> lnodes s' r = lnodes s r" "fresh s \<le> fresh s'" by blast+
qed

lemma new_llist_rep:
  assumes "poolOk F M s" "new_llist s = (L, s')"
  shows "rep L F M s' []"
proof -
  obtain h s1 where a1: "pool_alloc s = (h, s1)" by fastforce
  note p1 = poolOk_alloc [OF assms(1) a1]
  obtain t s2 where a2: "pool_alloc s1 = (t, s2)" by fastforce
  have "poolOk (insert h F) (M(h := new_node)) s1" using p1(1-4) by (auto simp: poolOk_def)
  note p2 = poolOk_alloc [OF this a2]
  have h: "lnodes s2 h = new_node" "h \<noteq> t" "lnodes s2 t = new_node" "h < fresh s2"
    using p2(1-4) by (auto simp: poolOk_def)
  have L: "L = \<lparr>lhead = h, ltail = t\<rparr>" "s' = addToTail t h s2" using assms(2) a1 a2 by (auto simp: new_llist_def)
  have s': "s' = s2\<lparr>lnodes := (lnodes s2)(t := new_node\<lparr>lprev := Some h\<rparr>, h := new_node\<lparr>lnext := Some t\<rparr>)\<rparr>"
    using h by (simp add: L addToTail_def Let_def new_node_def)
  have "\<forall>r\<in>F. lnodes s' r = M r"
  proof
    fix r assume "r \<in> F"
    moreover from this have "r \<noteq> h" "r \<noteq> t" using p1(4) p2(4) by auto
    ultimately show "lnodes s' r = M r" using p2(1) by (auto simp: s' poolOk_def)
  qed
  then have "listAt L F M s' []"
    using p2(1,3,4) p1(4) h unfolding listAt_def by (auto simp: s' L poolOk_def new_node_def)
  then show ?thesis by (auto simp: rep_def)
qed

section \<open>The contract of a sequence\<close>

text \<open>What the users of a list rely on: the operations act on the data in order.  A
  removal reports whether it found the value and takes out its first occurrence.\<close>

datatype 'a list_op = Push 'a | Unshift 'a | Remove 'a

fun spec_op :: "'a list_op \<Rightarrow> 'a list \<Rightarrow> bool \<times> 'a list" where
  "spec_op (Push x) xs = (True, xs @ [x])"
| "spec_op (Unshift x) xs = (True, x # xs)"
| "spec_op (Remove x) xs = (x \<in> set xs, remove1 x xs)"

fun spec_ops :: "'a list_op list \<Rightarrow> 'a list \<Rightarrow> bool list \<times> 'a list" where
  "spec_ops [] xs = ([], xs)"
| "spec_ops (p # ps) xs =
     (let (b, ys) = spec_op p xs; (bs, zs) = spec_ops ps ys in (b # bs, zs))"

text \<open>Running operations on a store; \<open>None\<close> stands for a run that does not end or raises.\<close>

fun store_ops ::
  "('a \<Rightarrow> 's \<Rightarrow> 's) \<Rightarrow> ('a \<Rightarrow> 's \<Rightarrow> 's) \<Rightarrow> ('a \<Rightarrow> 's \<Rightarrow> ((unit + bool) \<times> 's) option) \<Rightarrow>
   'a list_op list \<Rightarrow> 's \<Rightarrow> (bool list \<times> 's) option" where
  "store_ops pu un re [] s = Some ([], s)"
| "store_ops pu un re (Push x # ps) s = map_option (\<lambda>(bs, t). (True # bs, t)) (store_ops pu un re ps (pu x s))"
| "store_ops pu un re (Unshift x # ps) s = map_option (\<lambda>(bs, t). (True # bs, t)) (store_ops pu un re ps (un x s))"
| "store_ops pu un re (Remove x # ps) s =
     (case re x s of
        Some (Inr b, t) \<Rightarrow> map_option (\<lambda>(bs, u). (b # bs, u)) (store_ops pu un re ps t)
      | _ \<Rightarrow> None)"

locale sequence =
  fixes rel :: "'s \<Rightarrow> 'a list \<Rightarrow> bool"
    and pu un :: "'a \<Rightarrow> 's \<Rightarrow> 's"
    and re :: "'a \<Rightarrow> 's \<Rightarrow> ((unit + bool) \<times> 's) option"
  assumes pu: "rel s xs \<Longrightarrow> rel (pu x s) (xs @ [x])"
    and un: "rel s xs \<Longrightarrow> rel (un x s) (x # xs)"
    and re: "rel s xs \<Longrightarrow> \<exists>t. re x s = Some (Inr (x \<in> set xs), t) \<and> rel t (remove1 x xs)"
begin

lemma ops_refine:
  "rel s xs \<Longrightarrow> \<exists>t. store_ops pu un re ps s = Some (fst (spec_ops ps xs), t) \<and> rel t (snd (spec_ops ps xs))"
proof (induction ps arbitrary: s xs)
  case (Cons p ps)
  show ?case
  proof (cases p)
    case (Push x)
    with Cons.IH [OF pu [OF Cons.prems]] show ?thesis by (force simp: case_prod_beta)
  next
    case (Unshift x)
    with Cons.IH [OF un [OF Cons.prems]] show ?thesis by (force simp: case_prod_beta)
  next
    case (Remove x)
    from re [OF Cons.prems, of x] obtain t where t: "re x s = Some (Inr (x \<in> set xs), t)" "rel t (remove1 x xs)" by blast
    with Cons.IH [OF t(2)] Remove show ?thesis by (force simp: case_prod_beta)
  qed
qed simp

end

interpretation linked: sequence "\<lambda>s xs. rep L F M s (map Some xs)" "\<lambda>x s. snd (lpush L (Some x) s)"
    "\<lambda>x s. snd (lunshift L (Some x) s)" "\<lambda>x. lremove L (Some x)" for L F M
proof
  fix s :: "'a store" and xs :: "'a list" and x :: 'a
  assume r: "rep L F M s (map Some xs)"
  from lpush_rep [OF r] show "rep L F M (snd (lpush L (Some x) s)) (map Some (xs @ [x]))" by simp
  from lunshift_rep [OF r] show "rep L F M (snd (lunshift L (Some x) s)) (map Some (x # xs))" by simp
  from lremove_rep [OF r] show "\<exists>t. lremove L (Some x) s = Some (Inr (x \<in> set xs), t) \<and> rep L F M t (map Some (remove1 x xs))" .
qed

text \<open>C12: a linked list implements a sequence: any run of additions at its ends and of
  removals ends without an error, reports for every removal whether the value was
  there, leaves the nodes chained up in both directions with the data that the same
  run leaves in a plain list, and does not touch the nodes of other lists.\<close>

theorem linkedList_refines_list:
  assumes "rep L F M s (map Some xs)"
  shows "\<exists>t. store_ops (\<lambda>x s. snd (lpush L (Some x) s)) (\<lambda>x s. snd (lunshift L (Some x) s)) (\<lambda>x. lremove L (Some x)) ps s
      = Some (fst (spec_ops ps xs), t) \<and> rep L F M t (map Some (snd (spec_ops ps xs)))"
  using assms by (rule linked.ops_refine)

definition demo_list :: "llist \<times> int store" where
  "demo_list = new_llist (new_store 0)"

theorem linkedList_refines_list_witness:
  "\<exists>t. store_ops (\<lambda>x s. snd (lpush (fst demo_list) (Some x) s)) (\<lambda>x s. snd (lunshift (fst demo_list) (Some x) s))
        (\<lambda>x. lremove (fst demo_list) (Some x)) [Push 1, Push 2, Remove 1, Unshift 3, Remove 7] (snd demo_list)
      = Some ([True, True, True, True, False], t)
     \<and> rep (fst demo_list) {} (\<lambda>_. new_node) t [Some 3, Some 2]"
proof -
  have "rep (fst demo_list) {} (\<lambda>_. new_node) (snd demo_list) (map Some ([] :: int list))"
    using new_llist_rep [OF poolOk_new prod.collapse [symmetric]] by (simp add: demo_list_def)
  from linkedList_refines_list [OF this, of "[Push 1, Push 2, Remove 1, Unshift 3, Remove 7]"] show ?thesis by simp
qed

end
