(* ===== verification/WaterPipe.thy ===== *)
theory WaterPipe
  imports Prelude
begin

text \<open>
  The water pipe game (class \<open>WaterPipeGame\<close> and the tap handler of its window).

  The player puts the next piece of the list \<open>vWaterPipeGame\<close> on an empty tile of a
  square board; the game then counts the pieces that water reaches from the inlet in
  the middle of the first row.  A piece object is put on the board once, so on the
  board it is referred to by its tile \<open>(row, col)\<close>.  The search for the reached pieces
  is a loop with a list of pieces still to look at, which may hold a piece more than
  once; it is a partial function.  The messages to the server that start and finish a
  game are not modelled.
\<close>

section \<open>State\<close>

type_synonym tile = "int \<times> int"

record piece =
  imgid :: int
  up :: int
  down :: int
  left :: int
  right :: int
  iscanpass :: bool

record water_game =
  rownum :: int
  vWaterPipeGame :: "piece list"
  waterArray :: "tile \<Rightarrow> piece option"
  nowpassnum :: int
  game_time :: int
  isGameOver :: bool

abbreviation onBoard :: "water_game \<Rightarrow> tile \<Rightarrow> bool" where
  "onBoard g c \<equiv> 0 \<le> fst c \<and> fst c < rownum g \<and> 0 \<le> snd c \<and> snd c < rownum g"

section \<open>Operations\<close>

definition getVWaterPipeGameByArrayIndex :: "water_game \<Rightarrow> int \<Rightarrow> piece option" where
  "getVWaterPipeGameByArrayIndex g e =
     (if e \<ge> rownum g * rownum g then None
      else (let t = jdiv e (rownum g); i = jrem (e - t * rownum g) (rownum g)
            in waterArray g (max 0 t, max 0 i)))"

text \<open>One direction of \<open>doCheckDir\<close>: the piece at \<open>d\<close> is reached when this piece has an opening
  towards it, it has one back, and it has not been looked at.\<close>

definition checkSide ::
  "bool \<Rightarrow> (piece \<Rightarrow> int) \<Rightarrow> tile \<Rightarrow> tile list \<Rightarrow> tile list \<times> water_game \<Rightarrow> tile list \<times> water_game" where
  "checkSide opn bk d i = (\<lambda>(e, g).
     if opn \<and> onBoard g d then
       (case waterArray g d of
          None \<Rightarrow> (e, g)
        | Some n \<Rightarrow>
            if bk n > 0 \<and> d \<notin> set i
            then (e @ [d], g\<lparr>waterArray := (waterArray g)(d \<mapsto> n\<lparr>iscanpass := True\<rparr>)\<rparr>)
            else (e, g))
     else (e, g))"

definition doCheckDir :: "tile list \<Rightarrow> tile \<Rightarrow> tile list \<Rightarrow> water_game \<Rightarrow> tile list \<times> water_game" where
  "doCheckDir e t i g =
     (let n = the (waterArray g t); (r, c) = t
      in checkSide (down n > 0) up (r + 1, c) i
           (checkSide (up n > 0) down (r - 1, c) i
             (checkSide (right n > 0) left (r, c + 1) i
               (checkSide (left n > 0) right (r, c - 1) i (e, g)))))"

partial_function (option) checkLoop :: "tile list \<Rightarrow> tile list \<Rightarrow> water_game \<Rightarrow> (tile list \<times> water_game) option" where
  "checkLoop t i g =
     (case t of
        [] \<Rightarrow> Some (i, g)
      | p # _ \<Rightarrow>
          (let i = (if p \<in> set i then i else i @ [p]);
               (t, g) = doCheckDir t p i g
           in checkLoop (remove1 p t) i g))"

definition doWaterPipeGameCheck :: "tile \<Rightarrow> water_game \<Rightarrow> water_game option" where
  "doWaterPipeGameCheck e g =
     (case checkLoop [e] [] g of
        None \<Rightarrow> None
      | Some (i, g) \<Rightarrow> Some (g\<lparr>nowpassnum := int (length i)\<rparr>))"

definition inlet :: "water_game \<Rightarrow> tile" where
  "inlet g = (0, jdiv (rownum g) 2)"

definition setVWaterPipeGameByArrayIndex :: "int \<Rightarrow> piece \<Rightarrow> water_game \<Rightarrow> water_game option" where
  "setVWaterPipeGameByArrayIndex e t g =
     (if e \<ge> rownum g * rownum g then Some g
      else (let i = jdiv e (rownum g); k = jrem (e - i * rownum g) (rownum g);
                g = g\<lparr>waterArray := (waterArray g)((max 0 i, max 0 k) \<mapsto> t)\<rparr>
            in (case waterArray g (inlet g) of
                  None \<Rightarrow> Some g
                | Some a \<Rightarrow>
                    if up a = 1
                    then doWaterPipeGameCheck (inlet g)
                           (g\<lparr>waterArray := (waterArray g)(inlet g \<mapsto> a\<lparr>iscanpass := True\<rparr>)\<rparr>)
                    else Some g)))"

definition onTapTile :: "int \<Rightarrow> water_game \<Rightarrow> water_game option" where
  "onTapTile idx g =
     (if getVWaterPipeGameByArrayIndex g idx \<noteq> None then Some g
      else (case vWaterPipeGame g of
              [] \<Rightarrow> Some g
            | n # ns \<Rightarrow> setVWaterPipeGameByArrayIndex idx n (g\<lparr>vWaterPipeGame := ns\<rparr>)))"

definition water_logic :: "int \<Rightarrow> water_game \<Rightarrow> water_game" where
  "water_logic now g =
     (if \<not> isGameOver g \<and> (game_time g - now \<le> 0 \<or> vWaterPipeGame g = []) then g\<lparr>isGameOver := True\<rparr> else g)"

section \<open>Reached pieces\<close>

declare split_paired_All [simp del] split_paired_Ex [simp del]

text \<open>Two pieces on neighbouring tiles are connected when both have an opening towards
  the other.\<close>

fun opensTo :: "piece \<Rightarrow> tile \<Rightarrow> tile \<Rightarrow> bool" where
  "opensTo n (r, c) d =
     (d = (r, c - 1) \<and> left n > 0 \<or> d = (r, c + 1) \<and> right n > 0 \<or>
      d = (r - 1, c) \<and> up n > 0 \<or> d = (r + 1, c) \<and> down n > 0)"

definition connected :: "water_game \<Rightarrow> (tile \<times> tile) set" where
  "connected g =
     {(c, d). onBoard g c \<and> onBoard g d \<and>
        (\<exists>n m. waterArray g c = Some n \<and> waterArray g d = Some m \<and> opensTo n c d \<and> opensTo m d c)}"

definition reachedTiles :: "water_game \<Rightarrow> tile \<Rightarrow> tile set" where
  "reachedTiles g e = (connected g)\<^sup>* `` {e}"

text \<open>The search changes the flags \<open>iscanpass\<close> only.\<close>

definition samePipes :: "water_game \<Rightarrow> water_game \<Rightarrow> bool" where
  "samePipes g h =
     (h\<lparr>waterArray := waterArray g\<rparr> = g \<and>
      (\<forall>c. map_option (\<lambda>n. n\<lparr>iscanpass := False\<rparr>) (waterArray h c) =
           map_option (\<lambda>n. n\<lparr>iscanpass := False\<rparr>) (waterArray g c)))"

lemma samePipes_refl [simp]: "samePipes g g"
  by (simp add: samePipes_def)

lemma samePipes_trans:
  assumes "samePipes g h" "samePipes h k"
  shows "samePipes g k"
proof -
  have "k\<lparr>waterArray := waterArray g\<rparr> = (k\<lparr>waterArray := waterArray h\<rparr>)\<lparr>waterArray := waterArray g\<rparr>" by simp
  with assms show ?thesis unfolding samePipes_def by metis
qed

lemma samePipes_flag: "waterArray g d = Some n \<Longrightarrow> samePipes g (g\<lparr>waterArray := (waterArray g)(d \<mapsto> n\<lparr>iscanpass := b\<rparr>)\<rparr>)"
  by (simp add: samePipes_def)

lemma samePipes_piece:
  assumes "samePipes g h"
  shows "rownum h = rownum g" and "waterArray h c = None \<longleftrightarrow> waterArray g c = None"
    and "waterArray g c = Some n \<Longrightarrow> \<exists>b. waterArray h c = Some (n\<lparr>iscanpass := b\<rparr>)"
proof -
  from assms have e: "map_option (\<lambda>n. n\<lparr>iscanpass := False\<rparr>) (waterArray h c) =
      map_option (\<lambda>n. n\<lparr>iscanpass := False\<rparr>) (waterArray g c)" "h\<lparr>waterArray := waterArray g\<rparr> = g"
    by (auto simp: samePipes_def)
  show "rownum h = rownum g" using arg_cong [OF e(2), of rownum] by simp
  show "waterArray h c = None \<longleftrightarrow> waterArray g c = None" using arg_cong [OF e(1), of "\<lambda>x. x = None"] by simp
  assume "waterArray g c = Some n"
  with e(1) obtain m where m: "waterArray h c = Some m" "m\<lparr>iscanpass := False\<rparr> = n\<lparr>iscanpass := False\<rparr>" by auto
  have "m = (m\<lparr>iscanpass := False\<rparr>)\<lparr>iscanpass := iscanpass m\<rparr>" by simp
  also have "\<dots> = n\<lparr>iscanpass := iscanpass m\<rparr>" by (simp add: m(2))
  finally have "Some m = Some (n\<lparr>iscanpass := iscanpass m\<rparr>)" by (rule arg_cong)
  with m(1) have "waterArray h c = Some (n\<lparr>iscanpass := iscanpass m\<rparr>)" by (rule trans)
  then show "\<exists>b. waterArray h c = Some (n\<lparr>iscanpass := b\<rparr>)" ..
qed

lemma opensTo_flag [simp]: "opensTo (n\<lparr>iscanpass := b\<rparr>) c d = opensTo n c d"
  by (cases c) simp

lemma samePipes_sym: "samePipes g h \<Longrightarrow> samePipes h g"
proof -
  assume s: "samePipes g h"
  then have "g\<lparr>waterArray := waterArray h\<rparr> = (h\<lparr>waterArray := waterArray g\<rparr>)\<lparr>waterArray := waterArray h\<rparr>"
    by (simp add: samePipes_def)
  also have "\<dots> = h" by simp
  finally show ?thesis using s by (simp add: samePipes_def)
qed

lemma connected_mono: "samePipes g h \<Longrightarrow> connected g \<subseteq> connected h"
proof
  fix x assume s: "samePipes g h" and x: "x \<in> connected g"
  obtain c d where cd: "x = (c, d)" by (cases x) blast
  with x obtain n m where nm: "onBoard g c" "onBoard g d" "waterArray g c = Some n" "waterArray g d = Some m"
      "opensTo n c d" "opensTo m d c"
    by (auto simp: connected_def)
  from samePipes_piece(3) [OF s nm(3)] samePipes_piece(3) [OF s nm(4)] obtain b b' where
    "waterArray h c = Some (n\<lparr>iscanpass := b\<rparr>)" "waterArray h d = Some (m\<lparr>iscanpass := b'\<rparr>)" by blast
  with nm samePipes_piece(1) [OF s] show "x \<in> connected h" by (simp add: connected_def cd)
qed

lemma connected_same: "samePipes g h \<Longrightarrow> connected h = connected g"
  using connected_mono samePipes_sym by blast

text \<open>A side is taken when its piece is connected and has not been looked at.\<close>

lemma checkSide_run:
  assumes "waterArray g t = Some n" "onBoard g t" "opensTo n t d \<longleftrightarrow> opn" "d \<noteq> t"
    and bk: "\<And>m. bk m > 0 \<longleftrightarrow> opensTo m d t"
  shows "\<exists>h. checkSide opn bk d i (e, g) = (e @ (if (t, d) \<in> connected g \<and> d \<notin> set i then [d] else []), h)
     \<and> samePipes g h"
proof (cases "(t, d) \<in> connected g \<and> d \<notin> set i")
  case True
  then obtain m where "waterArray g d = Some m" "opn" "onBoard g d" "bk m > 0"
    using assms by (auto simp: connected_def)
  with True samePipes_flag [of g d m True] show ?thesis by (auto simp: checkSide_def)
next
  case False
  then show ?thesis using assms by (auto simp: checkSide_def connected_def split: option.splits)
qed

definition sides :: "tile \<Rightarrow> tile list" where
  "sides t = [(fst t, snd t - 1), (fst t, snd t + 1), (fst t - 1, snd t), (fst t + 1, snd t)]"

lemma connected_sides: "(t, d) \<in> connected g \<Longrightarrow> d \<in> set (sides t)"
  by (cases t) (auto simp: connected_def sides_def)

lemma doCheckDir_run:
  assumes "waterArray g t = Some n" "onBoard g t"
  shows "\<exists>h. doCheckDir e t i g = (e @ filter (\<lambda>d. (t, d) \<in> connected g \<and> d \<notin> set i) (sides t), h) \<and> samePipes g h"
proof -
  obtain r c where t: "t = (r, c)" by (cases t) blast
  have step: "\<exists>k. checkSide opn bk d i (e, h) = (e @ (if (t, d) \<in> connected g \<and> d \<notin> set i then [d] else []), k) \<and> samePipes g k"
    if h: "samePipes g h" and oo: "opensTo n t d \<longleftrightarrow> opn" "d \<noteq> t" "\<And>m. bk m > 0 \<longleftrightarrow> opensTo m d t"
    for e h opn bk d
  proof -
    from samePipes_piece(3) [OF h assms(1)] obtain b where "waterArray h t = Some (n\<lparr>iscanpass := b\<rparr>)" by blast
    from checkSide_run [OF this, of d opn bk i e] oo assms(2) samePipes_piece(1) [OF h] connected_same [OF h] samePipes_trans [OF h]
    show ?thesis by auto
  qed
  have L: "opensTo n t (r, c - 1) \<longleftrightarrow> left n > 0" "(r, c - 1) \<noteq> t" "\<And>m. right m > 0 \<longleftrightarrow> opensTo m (r, c - 1) t"
    and R: "opensTo n t (r, c + 1) \<longleftrightarrow> right n > 0" "(r, c + 1) \<noteq> t" "\<And>m. left m > 0 \<longleftrightarrow> opensTo m (r, c + 1) t"
    and U: "opensTo n t (r - 1, c) \<longleftrightarrow> up n > 0" "(r - 1, c) \<noteq> t" "\<And>m. down m > 0 \<longleftrightarrow> opensTo m (r - 1, c) t"
    and D: "opensTo n t (r + 1, c) \<longleftrightarrow> down n > 0" "(r + 1, c) \<noteq> t" "\<And>m. up m > 0 \<longleftrightarrow> opensTo m (r + 1, c) t"
    by (auto simp: t)
  obtain h1 where h1: "checkSide (left n > 0) right (r, c - 1) i (e, g)
      = (e @ (if (t, (r, c - 1)) \<in> connected g \<and> (r, c - 1) \<notin> set i then [(r, c - 1)] else []), h1)" "samePipes g h1"
    using step [OF samePipes_refl L] by blast
  define e1 where "e1 = e @ (if (t, (r, c - 1)) \<in> connected g \<and> (r, c - 1) \<notin> set i then [(r, c - 1)] else [])"
  obtain h2 where h2: "checkSide (right n > 0) left (r, c + 1) i (e1, h1)
      = (e1 @ (if (t, (r, c + 1)) \<in> connected g \<and> (r, c + 1) \<notin> set i then [(r, c + 1)] else []), h2)" "samePipes g h2"
    using step [OF h1(2) R] by blast
  define e2 where "e2 = e1 @ (if (t, (r, c + 1)) \<in> connected g \<and> (r, c + 1) \<notin> set i then [(r, c + 1)] else [])"
  obtain h3 where h3: "checkSide (up n > 0) down (r - 1, c) i (e2, h2)
      = (e2 @ (if (t, (r - 1, c)) \<in> connected g \<and> (r - 1, c) \<notin> set i then [(r - 1, c)] else []), h3)" "samePipes g h3"
    using step [OF h2(2) U] by blast
  define e3 where "e3 = e2 @ (if (t, (r - 1, c)) \<in> connected g \<and> (r - 1, c) \<notin> set i then [(r - 1, c)] else [])"
  obtain h4 where h4: "checkSide (down n > 0) up (r + 1, c) i (e3, h3)
      = (e3 @ (if (t, (r + 1, c)) \<in> connected g \<and> (r + 1, c) \<notin> set i then [(r + 1, c)] else []), h4)" "samePipes g h4"
    using step [OF h3(2) D] by blast
  have "doCheckDir e t i g = (e3 @ (if (t, (r + 1, c)) \<in> connected g \<and> (r + 1, c) \<notin> set i then [(r + 1, c)] else []), h4)"
  proof -
    have "doCheckDir e t i g =
        checkSide (down n > 0) up (r + 1, c) i (checkSide (up n > 0) down (r - 1, c) i
          (checkSide (right n > 0) left (r, c + 1) i (checkSide (left n > 0) right (r, c - 1) i (e, g))))"
      using assms(1) by (simp add: doCheckDir_def Let_def t)
    then show ?thesis by (simp only: h1(1) [folded e1_def] h2(1) [folded e2_def] h3(1) [folded e3_def] h4(1))
  qed
  with h4(2) show ?thesis by (auto simp: sides_def t e1_def e2_def e3_def)
qed

section \<open>The search ends\<close>

definition placed :: "water_game \<Rightarrow> tile set" where
  "placed g = {c. onBoard g c \<and> waterArray g c \<noteq> None}"

lemma placed_same: "samePipes g h \<Longrightarrow> placed h = placed g"
  using samePipes_piece(1,2) by (auto simp: placed_def)

lemma finite_placed: "finite (placed g)"
  by (rule finite_subset [of _ "{0..<rownum g} \<times> {0..<rownum g}"]) (auto simp: placed_def)

lemma connected_placed: "(c, d) \<in> connected g \<Longrightarrow> d \<in> placed g"
  by (auto simp: connected_def placed_def)

text \<open>An entry of the list is labelled with the number of pieces that were not yet looked
  at when it was added.  A piece is looked at after it was added, so the entries it
  adds have smaller labels, and a sum of powers of 5 over the labels decreases.\<close>

definition labelled :: "tile set \<Rightarrow> tile set \<Rightarrow> tile list \<Rightarrow> nat list \<Rightarrow> bool" where
  "labelled N V = list_all2 (\<lambda>p l. card (N - V) \<le> l \<and> (p \<in> V \<longrightarrow> card (N - V) < l))"

lemma labelled_step:
  assumes "labelled N V (p # q) (l # ls)" "p \<in> N" "finite N"
  shows "labelled N (insert p V) q ls" and "card (N - insert p V) < l"
proof -
  have less: "card (N - insert p V) < card (N - V)" if "p \<notin> V"
    using that assms(2,3) by (intro psubset_card_mono) auto
  have same: "insert p V = V" if "p \<in> V" using that by auto
  show "card (N - insert p V) < l"
    using assms(1) less same by (cases "p \<in> V") (auto simp: labelled_def)
  have le: "card (N - insert p V) \<le> card (N - V)" using less same by (cases "p \<in> V") auto
  have "list_all2 (\<lambda>p l. card (N - V) \<le> l \<and> (p \<in> V \<longrightarrow> card (N - V) < l)) q ls"
    using assms(1) by (simp add: labelled_def)
  then show "labelled N (insert p V) q ls"
    unfolding labelled_def by (rule list_all2_mono) (use le less in \<open>auto\<close>)
qed

lemma sum_powers_replicate: "k < l \<Longrightarrow> n \<le> 4 \<Longrightarrow> sum_list (map ((^) 5) (replicate n k)) < (5 :: nat) ^ l"
proof -
  assume "k < l" "n \<le> 4"
  have "sum_list (map ((^) 5) (replicate n k)) = n * 5 ^ k" by (simp add: map_replicate_const sum_list_replicate)
  also have "\<dots> \<le> 4 * 5 ^ k" using \<open>n \<le> 4\<close> by (rule mult_right_mono) simp
  also have "\<dots> < 5 ^ Suc k" by simp
  also have "\<dots> \<le> 5 ^ l" using \<open>k < l\<close> by (intro power_increasing) auto
  finally show ?thesis .
qed

lemma checkLoop_ends:
  assumes "labelled (placed g) (set V) q ls" "set q \<subseteq> placed g" "distinct V"
    and "connected g `` set V \<subseteq> set V \<union> set q"
  shows "\<exists>i h. checkLoop q V g = Some (i, h) \<and> samePipes g h \<and> distinct i \<and> set i = (connected g)\<^sup>* `` (set V \<union> set q)"
  using assms
proof (induction "sum_list (map ((^) (5 :: nat)) ls)" arbitrary: q V g ls rule: less_induct)
  case less
  show ?case
  proof (cases q)
    case Nil
    with less.prems(4) have "(connected g)\<^sup>* `` set V = set V" by (simp add: Image_closed_trancl)
    with Nil less.prems(3) show ?thesis by (subst checkLoop.simps) simp
  next
    case (Cons p q')
    then obtain l ls' where ls: "ls = l # ls'" using less.prems(1) by (cases ls) (auto simp: labelled_def)
    have p: "p \<in> placed g" using less.prems(2) Cons by simp
    then obtain n where n: "waterArray g p = Some n" "onBoard g p" by (auto simp: placed_def)
    define V' where "V' = (if p \<in> set V then V else V @ [p])"
    have V': "set V' = insert p (set V)" "distinct V'" using less.prems(3) by (auto simp: V'_def)
    define new where "new = filter (\<lambda>d. (p, d) \<in> connected g \<and> d \<notin> set V') (sides p)"
    from doCheckDir_run [OF n, of q V'] obtain h where
      h: "doCheckDir q p V' g = (q @ new, h)" "samePipes g h" unfolding new_def by blast
    have loop: "checkLoop q V g = checkLoop (q' @ new) V' h"
      using Cons h(1) by (subst checkLoop.simps) (simp add: V'_def [symmetric] Let_def)
    note lab = labelled_step [OF less.prems(1) [unfolded Cons ls] p finite_placed]
    let ?k = "card (placed g - insert p (set V))"
    have "labelled (placed g) (set V') new (replicate (length new) ?k)"
      unfolding labelled_def V'(1) by (auto simp: list_all2_conv_all_nth new_def V'(1) dest: nth_mem)
    then have l: "labelled (placed h) (set V') (q' @ new) (ls' @ replicate (length new) ?k)"
      using lab(1) unfolding placed_same [OF h(2)] labelled_def V'(1) by (rule list_all2_appendI [rotated])
    have "length new \<le> 4" unfolding new_def by (rule order_trans [OF length_filter_le]) (simp add: sides_def)
    then have m: "sum_list (map ((^) (5 :: nat)) (ls' @ replicate (length new) ?k)) < sum_list (map ((^) 5) ls)"
      using sum_powers_replicate [OF lab(2), of "length new"] ls by simp
    have q: "set (q' @ new) \<subseteq> placed h"
      using less.prems(2) Cons placed_same [OF h(2)] by (auto simp: new_def dest: connected_placed)
    have closed: "connected h `` set V' \<subseteq> set V' \<union> set (q' @ new)"
      unfolding connected_same [OF h(2)] V'(1)
    proof
      fix d assume "d \<in> connected g `` insert p (set V)"
      then consider "(p, d) \<in> connected g" | "d \<in> set V \<union> set q" using less.prems(4) by auto
      then show "d \<in> insert p (set V) \<union> set (q' @ new)"
        using connected_sides [of p d g] V'(1) Cons by cases (auto simp: new_def)
    qed
    from less.hyps [OF m l q V'(2) closed] obtain i k where
      ik: "checkLoop (q' @ new) V' h = Some (i, k)" "samePipes h k" "distinct i"
        "set i = (connected g)\<^sup>* `` (set V' \<union> set (q' @ new))"
      unfolding connected_same [OF h(2)] by blast
    have "(connected g)\<^sup>* `` (set V' \<union> set (q' @ new)) = (connected g)\<^sup>* `` (set V \<union> set q)"
    proof
      show "(connected g)\<^sup>* `` (set V' \<union> set (q' @ new)) \<subseteq> (connected g)\<^sup>* `` (set V \<union> set q)"
        unfolding V'(1) Cons new_def by (auto intro: converse_rtrancl_into_rtrancl)
      show "(connected g)\<^sup>* `` (set V \<union> set q) \<subseteq> (connected g)\<^sup>* `` (set V' \<union> set (q' @ new))"
        unfolding V'(1) Cons by auto
    qed
    with ik loop samePipes_trans [OF h(2)] show ?thesis by auto
  qed
qed

text \<open>C14: whenever a piece is put on the board and the inlet has a piece that opens upwards,
  the search for the reached pieces ends, although its list can hold a piece more than
  once, and the game counts exactly the pieces that are connected to the inlet through
  openings that face each other.\<close>

theorem waterPipe_counts_reached:
  assumes "0 < rownum g" "rownum g \<le> 127" "0 \<le> e" "e < rownum g * rownum g"
    and b: "b = g\<lparr>waterArray := (waterArray g)((e div rownum g, e mod rownum g) \<mapsto> t)\<rparr>"
    and a: "waterArray b (inlet b) = Some a" "up a = 1"
  shows "\<exists>h. setVWaterPipeGameByArrayIndex e t g = Some h \<and> samePipes (b\<lparr>nowpassnum := nowpassnum h\<rparr>) h
     \<and> nowpassnum h = int (card (reachedTiles b (inlet b)))"
proof -
  let ?r = "rownum g"
  have "?r * ?r \<le> 127 * 127" using assms(1,2) by (intro mult_mono) auto
  then have "e \<le> 2147483647" using assms(4) by simp
  then have d: "jdiv e ?r = e div ?r" using assms(1,3) by (simp add: jdiv_nonneg)
  have m: "jrem (e - e div ?r * ?r) ?r = e mod ?r"
    using assms(1,3) by (simp add: minus_div_mult_eq_mod jrem_nonneg)
  have nn: "max 0 (e div ?r) = e div ?r" "max 0 (e mod ?r) = e mod ?r"
    using assms(1,3) by (simp_all add: pos_imp_zdiv_nonneg_iff)
  let ?b = "b\<lparr>waterArray := (waterArray b)(inlet b \<mapsto> a\<lparr>iscanpass := True\<rparr>)\<rparr>"
  have s: "samePipes b ?b" by (rule samePipes_flag [OF a(1)])
  have set: "setVWaterPipeGameByArrayIndex e t g = doWaterPipeGameCheck (inlet b) ?b"
    unfolding setVWaterPipeGameByArrayIndex_def Let_def d m nn b [symmetric] using assms(4) a by simp
  have "inlet b \<in> placed b"
    using a(1) assms(1,2) by (auto simp: placed_def inlet_def b jdiv_nonneg)
  then have p: "inlet b \<in> placed ?b" unfolding placed_same [OF s] .
  have "\<exists>i h. checkLoop [inlet b] [] ?b = Some (i, h) \<and> samePipes ?b h \<and> distinct i
      \<and> set i = (connected ?b)\<^sup>* `` (set [] \<union> set [inlet b])"
    by (rule checkLoop_ends [where ls = "[card (placed ?b)]"]) (use p in \<open>auto simp: labelled_def\<close>)
  then obtain i h where ih: "checkLoop [inlet b] [] ?b = Some (i, h)" "samePipes ?b h" "distinct i"
      "set i = reachedTiles b (inlet b)"
    unfolding connected_same [OF s] reachedTiles_def by auto
  have "samePipes b h" using samePipes_trans [OF s ih(2)] .
  then have "samePipes (b\<lparr>nowpassnum := int (length i)\<rparr>) (h\<lparr>nowpassnum := int (length i)\<rparr>)"
  proof -
    have "h\<lparr>nowpassnum := int (length i)\<rparr>\<lparr>waterArray := waterArray b\<rparr> = (h\<lparr>waterArray := waterArray b\<rparr>)\<lparr>nowpassnum := int (length i)\<rparr>"
      by simp
    with \<open>samePipes b h\<close> show ?thesis by (simp add: samePipes_def)
  qed
  moreover have "length i = card (reachedTiles b (inlet b))" using ih(3,4) distinct_card by metis
  ultimately show ?thesis using set ih(1) by (simp add: doWaterPipeGameCheck_def)
qed

text \<open>A board of two rows: the inlet is the second tile of the first row; the piece below
  it is connected, the piece beside it has no opening towards it.\<close>

definition demo_board :: water_game where
  "demo_board = \<lparr>rownum = 2, vWaterPipeGame = [],
     waterArray = (\<lambda>_. None)((0, 1) \<mapsto> \<lparr>imgid = 1, up = 1, down = 1, left = 1, right = 0, iscanpass = False\<rparr>,
                             (0, 0) \<mapsto> \<lparr>imgid = 2, up = 0, down = 1, left = 0, right = 0, iscanpass = False\<rparr>),
     nowpassnum = 0, game_time = 0, isGameOver = False\<rparr>"

definition demo_piece :: piece where
  "demo_piece = \<lparr>imgid = 3, up = 1, down = 0, left = 0, right = 0, iscanpass = False\<rparr>"

theorem waterPipe_counts_reached_witness:
  "\<exists>h. setVWaterPipeGameByArrayIndex 3 demo_piece demo_board = Some h
     \<and> nowpassnum h = int (card (reachedTiles (demo_board\<lparr>waterArray := (waterArray demo_board)((1, 1) \<mapsto> demo_piece)\<rparr>) (0, 1)))"
proof -
  let ?b = "demo_board\<lparr>waterArray := (waterArray demo_board)((1, 1) \<mapsto> demo_piece)\<rparr>"
  have r: "rownum demo_board = 2" by (simp add: demo_board_def)
  have b: "?b = demo_board\<lparr>waterArray := (waterArray demo_board)((3 div rownum demo_board, 3 mod rownum demo_board) \<mapsto> demo_piece)\<rparr>"
    by (simp add: r)
  have i: "inlet ?b = (0, 1)" by (simp add: inlet_def r jdiv_nonneg)
  have "waterArray ?b (inlet ?b) = Some \<lparr>imgid = 1, up = 1, down = 1, left = 1, right = 0, iscanpass = False\<rparr>"
    unfolding i by (simp add: demo_board_def)
  from waterPipe_counts_reached [OF _ _ _ _ b this] show ?thesis unfolding i by (auto simp: r)
qed

end
