(* ===== verification/Codec.thy ===== *)
theory Codec
  imports Round
begin

text \<open>
  The binary form of the battle commands (class \<open>Control\<close>): a battle that runs on one
  client is sent to the others as a list of these commands.

  The byte arrays are objects of the engine (\<open>egret.ByteArray\<close>), which is not part of
  the bundle, so their operations are the parameter \<open>A\<close>; \<open>bytes_ok A data rest\<close> says that
  they are the documented ones, where \<open>data\<close> gives the bytes of an array and \<open>rest\<close> those
  from its position on.  Numbers are written in big-endian order.  Reading follows the
  nesting of the commands, for which it is given as many levels as the argument says;
  \<open>depth c\<close> levels are enough for the bytes of \<open>c\<close>.
\<close>

section \<open>Byte arrays\<close>

record 'b byte_ops =
  newArray :: 'b
  arrayLength :: "'b \<Rightarrow> int"
  writeByte :: "'b \<Rightarrow> int \<Rightarrow> 'b"
  writeShort :: "'b \<Rightarrow> int \<Rightarrow> 'b"
  writeInt :: "'b \<Rightarrow> int \<Rightarrow> 'b"
  writeBytes :: "'b \<Rightarrow> 'b \<Rightarrow> 'b"
  readByte :: "'b \<Rightarrow> int \<times> 'b"
  readShort :: "'b \<Rightarrow> int \<times> 'b"
  readInt :: "'b \<Rightarrow> int \<times> 'b"
  readBytes :: "'b \<Rightarrow> int \<Rightarrow> 'b \<times> 'b"

definition be16 :: "int \<Rightarrow> int list" where
  "be16 v = [v div 256 mod 256, v mod 256]"

definition be32 :: "int \<Rightarrow> int list" where
  "be32 v = be16 (v div 65536) @ be16 v"

definition bytes_ok :: "'b byte_ops \<Rightarrow> ('b \<Rightarrow> int list) \<Rightarrow> ('b \<Rightarrow> int list) \<Rightarrow> bool" where
  "bytes_ok A data rest \<longleftrightarrow>
     data (newArray A) = [] \<and> rest (newArray A) = [] \<and>
     (\<forall>b. arrayLength A b = int (length (data b))) \<and>
     (\<forall>b v. rest b = [] \<longrightarrow> data (writeByte A b v) = data b @ [v mod 256] \<and> rest (writeByte A b v) = []) \<and>
     (\<forall>b v. rest b = [] \<longrightarrow> data (writeShort A b v) = data b @ be16 v \<and> rest (writeShort A b v) = []) \<and>
     (\<forall>b v. rest b = [] \<longrightarrow> data (writeInt A b v) = data b @ be32 v \<and> rest (writeInt A b v) = []) \<and>
     (\<forall>b c. rest b = [] \<longrightarrow> data (writeBytes A b c) = data b @ data c \<and> rest (writeBytes A b c) = []) \<and>
     (\<forall>b x r. rest b = x # r \<longrightarrow> fst (readByte A b) = signed_take_bit 7 x \<and> rest (snd (readByte A b)) = r) \<and>
     (\<forall>b x y r. rest b = x # y # r \<longrightarrow>
        fst (readShort A b) = signed_take_bit 15 (256 * x + y) \<and> rest (snd (readShort A b)) = r) \<and>
     (\<forall>b x y z w r. rest b = x # y # z # w # r \<longrightarrow>
        fst (readInt A b) = signed_take_bit 31 (16777216 * x + 65536 * y + 256 * z + w) \<and> rest (snd (readInt A b)) = r) \<and>
     (\<forall>b xs r. rest b = xs @ r \<longrightarrow>
        data (fst (readBytes A b (int (length xs)))) = xs \<and> rest (snd (readBytes A b (int (length xs)))) = r)"

section \<open>Commands\<close>

datatype 'b ctl =
  Ctl (ctype: int) (byte0: int) (byte1: int) (counter: int) (int0: int) (int1: int)
      (datas: "'b option") (subControls: "'b ctl option list option")

abbreviation (input) TYPE_NONE_CONTROL :: int where "TYPE_NONE_CONTROL \<equiv> 0"

definition new_ctl :: "int \<Rightarrow> 'b ctl" where
  "new_ctl t = Ctl t 0 0 0 0 0 None None"

text \<open>\<open>toBytesBattleEffect\<close> first sets the bits of the counter that say how the value is
  written and whether there is an animation.\<close>

definition markCounter :: "int \<Rightarrow> int \<Rightarrow> int \<Rightarrow> int" where
  "markCounter c i0 i1 =
     (let c = (if i0 > 30000 \<or> i0 < - 30000 then jor c EFFECT_INT_VALUE
               else if i0 > 120 \<or> i0 < - 120 then jor c EFFECT_SHORT_VALUE
               else jor c EFFECT_BYTE_VALUE)
      in if 0 \<noteq> i1 then jor c EFFECT_HAS_ANIME else c)"

definition toBytesBattleEffect :: "'b byte_ops \<Rightarrow> int \<Rightarrow> int \<Rightarrow> int \<Rightarrow> int \<Rightarrow> 'b \<Rightarrow> 'b" where
  "toBytesBattleEffect A b0 c i0 i1 e =
     (let c = markCounter c i0 i1;
          e = writeShort A (writeByte A e b0) c;
          e = (if isEffectStatus c EFFECT_INT_VALUE then writeInt A e i0
               else if isEffectStatus c EFFECT_SHORT_VALUE then writeShort A e i0
               else if isEffectStatus c EFFECT_BYTE_VALUE then writeByte A e i0 else e)
      in if isEffectStatus c EFFECT_HAS_ANIME then writeShort A e i1 else e)"

definition toBytesBattleEscape :: "'b byte_ops \<Rightarrow> int \<Rightarrow> int \<Rightarrow> 'b \<Rightarrow> 'b" where
  "toBytesBattleEscape A b0 b1 e = writeByte A (writeByte A e b0) b1"

text \<open>The bytes of the sub-commands are given in the order of their list.\<close>

definition toBytesBattleSkill :: "'b byte_ops \<Rightarrow> int \<Rightarrow> 'b option \<Rightarrow> 'b option list option \<Rightarrow> 'b \<Rightarrow> 'b" where
  "toBytesBattleSkill A b0 ds bs t =
     (let t = writeByte A t b0;
          t = writeShort A t (case ds of None \<Rightarrow> 0 | Some d \<Rightarrow> arrayLength A d);
          t = (case ds of None \<Rightarrow> t | Some d \<Rightarrow> writeBytes A t d);
          t = writeByte A t (case bs of None \<Rightarrow> 0 | Some l \<Rightarrow> int (length l))
      in (case bs of
            None \<Rightarrow> t
          | Some l \<Rightarrow> fold (\<lambda>x t. case x of Some y \<Rightarrow> writeBytes A t y | None \<Rightarrow> writeByte A t TYPE_NONE_CONTROL) l t))"

fun toBytes :: "'b byte_ops \<Rightarrow> 'b ctl \<Rightarrow> 'b" where
  "toBytes A (Ctl ty b0 b1 c i0 i1 ds ss) =
     (let t = writeByte A (newArray A) ty
      in if ty = TYPE_BATTLE_SKILL
         then toBytesBattleSkill A b0 ds (map_option (map (map_option (toBytes A))) ss) t
         else if ty = TYPE_BATTLE_ESCAPE then toBytesBattleEscape A b0 b1 t
         else if ty = TYPE_BATTLE_TARGET_EFFECT \<or> ty = TYPE_BATTLE_SELF_EFFECT
         then toBytesBattleEffect A b0 c i0 i1 t
         else t)"

text \<open>Writing a command also leaves the marks in the counters of the command and of its parts:
  \<open>marked c\<close> is the command \<open>c\<close> after \<open>toBytes\<close>.\<close>

fun marked :: "'b ctl \<Rightarrow> 'b ctl" where
  "marked (Ctl ty b0 b1 c i0 i1 ds ss) =
     (if ty = TYPE_BATTLE_SKILL then Ctl ty b0 b1 c i0 i1 ds (map_option (map (map_option marked)) ss)
      else if ty = TYPE_BATTLE_TARGET_EFFECT \<or> ty = TYPE_BATTLE_SELF_EFFECT
      then Ctl ty b0 b1 (markCounter c i0 i1) i0 i1 ds ss
      else Ctl ty b0 b1 c i0 i1 ds ss)"

section \<open>Reading\<close>

definition fromBytesBattleEffect :: "'b byte_ops \<Rightarrow> int \<Rightarrow> 'b \<Rightarrow> 'b ctl \<times> 'b" where
  "fromBytesBattleEffect A ty e =
     (let (b0, e) = readByte A e; (c, e) = readShort A e;
          (i0, e) = (if isEffectStatus c EFFECT_INT_VALUE then readInt A e
                     else if isEffectStatus c EFFECT_SHORT_VALUE then readShort A e
                     else if isEffectStatus c EFFECT_BYTE_VALUE then readByte A e else (0, e));
          (i1, e) = (if isEffectStatus c EFFECT_HAS_ANIME
                     then (let (v, e) = readShort A e in (jand 65535 v, e)) else (0, e))
      in (Ctl ty b0 0 c i0 i1 None None, e))"

definition fromBytesBattleEscape :: "'b byte_ops \<Rightarrow> int \<Rightarrow> 'b \<Rightarrow> 'b ctl \<times> 'b" where
  "fromBytesBattleEscape A ty e =
     (let (b0, e) = readByte A e; (b1, e) = readByte A e in (Ctl ty b0 b1 0 0 0 None None, e))"

function fromBytes :: "'b byte_ops \<Rightarrow> nat \<Rightarrow> 'b \<Rightarrow> ('b ctl \<times> 'b) option"
  and fromBytesBattleSkill :: "'b byte_ops \<Rightarrow> nat \<Rightarrow> 'b \<Rightarrow> ('b ctl \<times> 'b) option"
  and readSubs :: "'b byte_ops \<Rightarrow> nat \<Rightarrow> nat \<Rightarrow> 'b \<Rightarrow> ('b ctl list \<times> 'b) option" where
  "fromBytes A 0 t = None"
| "fromBytes A (Suc n) t =
     (let (ty, t) = readByte A t
      in if ty = TYPE_BATTLE_SKILL then fromBytesBattleSkill A n t
         else if ty = TYPE_BATTLE_ESCAPE then Some (fromBytesBattleEscape A ty t)
         else if ty = TYPE_BATTLE_TARGET_EFFECT \<or> ty = TYPE_BATTLE_SELF_EFFECT
         then Some (fromBytesBattleEffect A ty t)
         else Some (new_ctl ty, t))"
| "fromBytesBattleSkill A n t =
     (let (b0, t) = readByte A t; (i, t) = readShort A t;
          (ds, t) = (if i > 0 then (let (d, t) = readBytes A t i in (Some d, t)) else (None, t));
          (k, t) = readByte A t
      in if k > 0 then
           (case readSubs A n (nat k) t of
              None \<Rightarrow> None
            | Some (l, t) \<Rightarrow> Some (Ctl TYPE_BATTLE_SKILL b0 0 0 0 0 ds (Some (map Some l)), t))
         else Some (Ctl TYPE_BATTLE_SKILL b0 0 0 0 0 ds None, t))"
| "readSubs A n 0 t = Some ([], t)"
| "readSubs A n (Suc k) t =
     (case fromBytes A n t of
        None \<Rightarrow> None
      | Some (c, t) \<Rightarrow>
          (case readSubs A n k t of None \<Rightarrow> None | Some (l, t) \<Rightarrow> Some (c # l, t)))"
  by pat_completeness auto
termination
  by (relation "measures
       [\<lambda>x. case x of Inl (A, n, t) \<Rightarrow> n | Inr (Inl (A, n, t)) \<Rightarrow> n | Inr (Inr (A, n, k, t)) \<Rightarrow> n,
        \<lambda>x. case x of Inl (A, n, t) \<Rightarrow> 0 | Inr (Inl (A, n, t)) \<Rightarrow> 2 | Inr (Inr (A, n, k, t)) \<Rightarrow> 1,
        \<lambda>x. case x of Inr (Inr (A, n, k, t)) \<Rightarrow> k | _ \<Rightarrow> 0]") auto

end
