(* ===== verification/CodecProps.thy ===== *)
theory CodecProps
  imports Codec
begin

text \<open>
  Reading back what was written gives the same command, up to the bits that writing
  sets and to the fields that the type of the command does not transmit.
\<close>

section \<open>Numbers\<close>

lemma signed8: "- 128 \<le> v \<Longrightarrow> v < 128 \<Longrightarrow> signed_take_bit 7 (v mod 256) = (v :: int)"
proof -
  assume v: "- 128 \<le> v" "v < 128"
  have "signed_take_bit 7 (v mod 256) = signed_take_bit 7 (take_bit 8 v)" by (simp add: take_bit_eq_mod)
  also have "\<dots> = signed_take_bit 7 v" by (simp add: signed_take_bit_take_bit)
  also have "\<dots> = v" using v by (simp add: signed_take_bit_int_eq_self_iff)
  finally show ?thesis .
qed

lemma signed16_any: "signed_take_bit 15 (256 * (v div 256 mod 256) + v mod 256) = signed_take_bit 15 (v :: int)"
proof -
  have "256 * (v div 256 mod 256) + v mod 256 = take_bit 16 v"
    using mod_mult2_eq' [of v 256 256] by (simp add: take_bit_eq_mod mod_mult2_eq')
  then show ?thesis by (simp add: signed_take_bit_take_bit)
qed

lemma signed16: "- 32768 \<le> v \<Longrightarrow> v < 32768 \<Longrightarrow> signed_take_bit 15 (256 * (v div 256 mod 256) + v mod 256) = (v :: int)"
  by (simp add: signed16_any signed_take_bit_int_eq_self_iff)

lemma unsigned16: "0 \<le> v \<Longrightarrow> v \<le> 65535 \<Longrightarrow> jand 65535 (signed_take_bit 15 (256 * (v div 256 mod 256) + v mod 256)) = v"
proof -
  assume v: "0 \<le> v" "v \<le> 65535"
  have "jand 65535 (signed_take_bit 15 v) = and 65535 (signed_take_bit 15 v)"
  proof -
    have "int32 (signed_take_bit 15 v)"
      using signed_take_bit_int_greater_eq_minus_exp [of 15 v] signed_take_bit_int_less_exp [of 15 v] by simp
    then show ?thesis by (simp add: jand_def toInt32_id)
  qed
  also have "\<dots> = take_bit 16 (signed_take_bit 15 v)" by (simp add: take_bit_eq_mask mask_eq_exp_minus_1 and.commute)
  also have "\<dots> = take_bit 16 v" by (simp add: take_bit_signed_take_bit)
  also have "\<dots> = v" using v by (simp add: take_bit_int_eq_self_iff)
  finally show ?thesis by (simp add: signed16_any)
qed

lemma signed32:
  assumes "int32 v"
  shows "signed_take_bit 31 (16777216 * (v div 65536 div 256 mod 256) + 65536 * (v div 65536 mod 256)
      + 256 * (v div 256 mod 256) + v mod 256) = v"
proof -
  have lo: "256 * (v div 256 mod 256) + v mod 256 = v mod 65536" using mod_mult2_eq' [of v 256 256] by simp
  have hi: "256 * (v div 65536 div 256 mod 256) + v div 65536 mod 256 = v div 65536 mod 65536"
    using mod_mult2_eq' [of "v div 65536" 256 256] by simp
  have "16777216 * (v div 65536 div 256 mod 256) + 65536 * (v div 65536 mod 256)
      + 256 * (v div 256 mod 256) + v mod 256 = 65536 * (v div 65536 mod 65536) + v mod 65536"
    using lo hi by (simp add: algebra_simps)
  also have "\<dots> = take_bit 32 v" using mod_mult2_eq' [of v 65536 65536] by (simp add: take_bit_eq_mod)
  finally show ?thesis using assms by (simp add: signed_take_bit_take_bit signed_take_bit_int_eq_self_iff)
qed

section \<open>The bits of the counter\<close>

lemma isEffectStatus_bits:
  "isEffectStatus c EFFECT_HAS_ANIME = bit c 10" "isEffectStatus c EFFECT_BYTE_VALUE = bit c 11"
  "isEffectStatus c EFFECT_SHORT_VALUE = bit c 12" "isEffectStatus c EFFECT_INT_VALUE = bit c 13"
proof -
  have "isEffectStatus c (2 ^ k) = bit c k" if "k < 31" for k
  proof -
    have "toInt32 (2 ^ k) = 2 ^ k" using that by (rule toInt32_pow2)
    moreover have "bit (toInt32 c) k = bit c k"
      using that by (simp add: toInt32_signed_take_bit bit_signed_take_bit_iff)
    ultimately show ?thesis by (simp add: isEffectStatus_def jand_def and_exp_eq_0_iff_not_bit)
  qed
  from this [of 10] this [of 11] this [of 12] this [of 13]
  show "isEffectStatus c EFFECT_HAS_ANIME = bit c 10" "isEffectStatus c EFFECT_BYTE_VALUE = bit c 11"
    "isEffectStatus c EFFECT_SHORT_VALUE = bit c 12" "isEffectStatus c EFFECT_INT_VALUE = bit c 13" by simp_all
qed

lemma jor_small: "0 \<le> a \<Longrightarrow> a < 32768 \<Longrightarrow> 0 \<le> b \<Longrightarrow> b < 32768 \<Longrightarrow> jor a b = or a b \<and> 0 \<le> jor a b \<and> jor a b < 32768"
proof -
  assume ab: "0 \<le> a" "a < 32768" "0 \<le> b" "b < 32768"
  have "or a b = take_bit 15 (or a b)" using ab by (simp add: take_bit_or take_bit_int_eq_self)
  also have "\<dots> < 32768" using take_bit_int_less_exp [of 15 "or a b"] by simp
  finally have "or a b < 32768" .
  then show ?thesis using ab by (simp add: jor_def toInt32_id)
qed

lemma bits_or_pow2:
  assumes "0 \<le> c" "c < 32768" "k < 15"
  shows "0 \<le> jor c (2 ^ k)" "jor c (2 ^ k) < 32768" "bit (jor c (2 ^ k)) n = (bit c n \<or> n = k)"
proof -
  have "(2 :: int) ^ k \<le> 2 ^ 14" using assms(3) by (intro power_increasing) auto
  then have e: "jor c (2 ^ k) = or c (2 ^ k)" and "0 \<le> jor c (2 ^ k)" "jor c (2 ^ k) < 32768"
    using jor_small [OF assms(1,2), of "2 ^ k"] by auto
  then show "0 \<le> jor c (2 ^ k)" "jor c (2 ^ k) < 32768" by blast+
  show "bit (jor c (2 ^ k)) n = (bit c n \<or> n = k)" by (auto simp: e bit_or_iff bit_exp_iff)
qed

definition valueBit :: "int \<Rightarrow> nat" where
  "valueBit i = (if i > 30000 \<or> i < - 30000 then 13 else if i > 120 \<or> i < - 120 then 12 else 11)"

lemma markCounter_eq:
  "markCounter c i0 i1 = (let c = jor c (2 ^ valueBit i0) in if i1 = 0 then c else jor c (2 ^ 10))"
  by (auto simp: markCounter_def valueBit_def Let_def)

lemma markCounter_bits:
  assumes "0 \<le> c" "c < 32768"
  shows "0 \<le> markCounter c i0 i1" "markCounter c i0 i1 < 32768"
    and "bit (markCounter c i0 i1) n = (bit c n \<or> n = valueBit i0 \<or> i1 \<noteq> 0 \<and> n = 10)"
proof -
  have k: "valueBit i0 < 15" by (simp add: valueBit_def)
  note a = bits_or_pow2 [OF assms k] and b = bits_or_pow2 [OF a(1,2), of 10]
  show "0 \<le> markCounter c i0 i1" "markCounter c i0 i1 < 32768"
    using a(1,2) b(1,2) by (simp_all add: markCounter_eq Let_def)
  show "bit (markCounter c i0 i1) n = (bit c n \<or> n = valueBit i0 \<or> i1 \<noteq> 0 \<and> n = 10)"
    using a(3) b(3) by (auto simp: markCounter_eq Let_def)
qed

lemma markCounter_ok:
  assumes "0 \<le> c" "c < 32768"
  shows "\<not> bit (markCounter c i0 i1) 10 \<Longrightarrow> i1 = 0"
    and "\<not> bit (markCounter c i0 i1) 13 \<Longrightarrow> - 30000 \<le> i0 \<and> i0 \<le> 30000"
    and "\<not> bit (markCounter c i0 i1) 13 \<Longrightarrow> \<not> bit (markCounter c i0 i1) 12 \<Longrightarrow>
         - 120 \<le> i0 \<and> i0 \<le> 120 \<and> bit (markCounter c i0 i1) 11"
  by (auto simp: markCounter_bits [OF assms] valueBit_def split: if_splits)

section \<open>The bytes of a command\<close>

definition encEffect :: "int \<Rightarrow> int \<Rightarrow> int \<Rightarrow> int \<Rightarrow> int list" where
  "encEffect b0 c i0 i1 = [b0 mod 256] @ be16 c
     @ (if bit c 13 then be32 i0 else if bit c 12 then be16 i0 else if bit c 11 then [i0 mod 256] else [])
     @ (if bit c 10 then be16 i1 else [])"

fun enc :: "int list ctl \<Rightarrow> int list" where
  "enc (Ctl ty b0 b1 c i0 i1 ds ss) =
     [ty mod 256]
     @ (if ty = TYPE_BATTLE_SKILL then
          [b0 mod 256] @ be16 (case ds of None \<Rightarrow> 0 | Some d \<Rightarrow> int (length d)) @ (case ds of None \<Rightarrow> [] | Some d \<Rightarrow> d)
          @ [(case ss of None \<Rightarrow> 0 | Some l \<Rightarrow> int (length l)) mod 256]
          @ (case ss of None \<Rightarrow> [] | Some l \<Rightarrow> concat (map (\<lambda>x. case x of None \<Rightarrow> [0] | Some y \<Rightarrow> enc y) l))
        else if ty = TYPE_BATTLE_ESCAPE then [b0 mod 256, b1 mod 256]
        else if ty = TYPE_BATTLE_TARGET_EFFECT \<or> ty = TYPE_BATTLE_SELF_EFFECT
        then encEffect b0 (markCounter c i0 i1) i0 i1
        else [])"

text \<open>The number of levels of nesting, the commands whose fields fit into the bytes they are
  written to, and what is read of a command.\<close>

fun depth :: "'b ctl \<Rightarrow> nat" where
  "depth (Ctl ty b0 b1 c i0 i1 ds ss) =
     Suc (case ss of None \<Rightarrow> 0
          | Some l \<Rightarrow> foldr max (map (\<lambda>x. case x of None \<Rightarrow> 1 | Some y \<Rightarrow> depth y) l) 0)"

definition int8 :: "int \<Rightarrow> bool" where
  "int8 v \<longleftrightarrow> - 128 \<le> v \<and> v < 128"

fun fits :: "int list ctl \<Rightarrow> bool" where
  "fits (Ctl ty b0 b1 c i0 i1 ds ss) \<longleftrightarrow>
     int8 ty \<and>
     (if ty = TYPE_BATTLE_SKILL then
        int8 b0 \<and> (case ds of None \<Rightarrow> True | Some d \<Rightarrow> length d \<le> 32767)
        \<and> (case ss of None \<Rightarrow> True
           | Some l \<Rightarrow> length l \<le> 127 \<and> (\<forall>x\<in>set l. case x of None \<Rightarrow> True | Some y \<Rightarrow> fits y))
      else if ty = TYPE_BATTLE_ESCAPE then int8 b0 \<and> int8 b1
      else if ty = TYPE_BATTLE_TARGET_EFFECT \<or> ty = TYPE_BATTLE_SELF_EFFECT
      then int8 b0 \<and> 0 \<le> c \<and> c < 32768 \<and> int32 i0 \<and> 0 \<le> i1 \<and> i1 \<le> 65535
      else True)"

fun norm :: "int list ctl \<Rightarrow> int list ctl" where
  "norm (Ctl ty b0 b1 c i0 i1 ds ss) =
     (if ty = TYPE_BATTLE_SKILL then
        Ctl ty b0 0 0 0 0 (if ds = Some [] then None else ds)
          (case ss of None \<Rightarrow> None
           | Some l \<Rightarrow> if l = [] then None
                      else Some (map (\<lambda>x. Some (case x of None \<Rightarrow> new_ctl TYPE_NONE_CONTROL | Some y \<Rightarrow> norm y)) l))
      else if ty = TYPE_BATTLE_ESCAPE then Ctl ty b0 b1 0 0 0 None None
      else if ty = TYPE_BATTLE_TARGET_EFFECT \<or> ty = TYPE_BATTLE_SELF_EFFECT
      then Ctl ty b0 0 c i0 i1 None None
      else new_ctl ty)"

section \<open>Writing\<close>

lemma new_ok:
  assumes "bytes_ok A data rest"
  shows "data (newArray A) = []" "rest (newArray A) = []" "arrayLength A b = int (length (data b))"
  using assms by (simp_all add: bytes_ok_def)

lemma write_ok:
  assumes "bytes_ok A data rest" and "rest b = []"
  shows "data (writeByte A b v) = data b @ [v mod 256]" "rest (writeByte A b v) = []"
    and "data (writeShort A b v) = data b @ be16 v" "rest (writeShort A b v) = []"
    and "data (writeInt A b v) = data b @ be32 v" "rest (writeInt A b v) = []"
    and "data (writeBytes A b e) = data b @ data e" "rest (writeBytes A b e) = []"
  using assms by (simp_all add: bytes_ok_def)

lemma readByte_ok:
  assumes "bytes_ok A data rest" and b: "rest b = x # r"
  obtains b' where "readByte A b = (signed_take_bit 7 x, b')" "rest b' = r"
proof -
  have "\<forall>b x r. rest b = x # r \<longrightarrow> fst (readByte A b) = signed_take_bit 7 x \<and> rest (snd (readByte A b)) = r"
    using assms(1) unfolding bytes_ok_def by (elim conjE)
  with b have e: "fst (readByte A b) = signed_take_bit 7 x \<and> rest (snd (readByte A b)) = r" by blast
  show ?thesis by (rule that [of "snd (readByte A b)"]) (simp_all add: prod_eq_iff e)
qed

lemma readShort_ok:
  assumes "bytes_ok A data rest" and b: "rest b = be16 v @ r"
  obtains b' where "readShort A b = (signed_take_bit 15 v, b')" "rest b' = r"
proof -
  have "\<forall>b x y r. rest b = x # y # r \<longrightarrow>
        fst (readShort A b) = signed_take_bit 15 (256 * x + y) \<and> rest (snd (readShort A b)) = r"
    using assms(1) unfolding bytes_ok_def by (elim conjE)
  then have e: "fst (readShort A b) = signed_take_bit 15 v \<and> rest (snd (readShort A b)) = r"
    using b signed16_any [of v] by (simp add: be16_def)
  show ?thesis by (rule that [of "snd (readShort A b)"]) (simp_all add: prod_eq_iff e)
qed

lemma readInt_ok:
  assumes "bytes_ok A data rest" and b: "rest b = be32 v @ r" and v: "int32 v"
  obtains b' where "readInt A b = (v, b')" "rest b' = r"
proof -
  have "\<forall>b x y z w r. rest b = x # y # z # w # r \<longrightarrow>
        fst (readInt A b) = signed_take_bit 31 (16777216 * x + 65536 * y + 256 * z + w) \<and> rest (snd (readInt A b)) = r"
    using assms(1) unfolding bytes_ok_def by (elim conjE)
  from this [rule_format, OF b [unfolded be32_def be16_def append.simps]]
  have e: "fst (readInt A b) = v \<and> rest (snd (readInt A b)) = r" unfolding signed32 [OF v] .
  show ?thesis by (rule that [of "snd (readInt A b)"]) (simp_all add: prod_eq_iff e)
qed

lemma readBytes_ok:
  assumes "bytes_ok A data rest" and b: "rest b = xs @ r"
  obtains d b' where "readBytes A b (int (length xs)) = (d, b')" "data d = xs" "rest b' = r"
proof -
  have "\<forall>b xs r. rest b = xs @ r \<longrightarrow>
        data (fst (readBytes A b (int (length xs)))) = xs \<and> rest (snd (readBytes A b (int (length xs)))) = r"
    using assms(1) unfolding bytes_ok_def by (elim conjE)
  from this [rule_format, OF b] have e: "data (fst (readBytes A b (int (length xs)))) = xs \<and> rest (snd (readBytes A b (int (length xs)))) = r" .
  show ?thesis by (rule that [of "fst (readBytes A b (int (length xs)))" "snd (readBytes A b (int (length xs)))"]) (simp_all add: e)
qed

lemma toBytesBattleEffect_bytes:
  assumes ok: "bytes_ok A data rest" and e: "rest e = []"
  shows "data (toBytesBattleEffect A b0 c i0 i1 e) = data e @ encEffect b0 (markCounter c i0 i1) i0 i1 \<and>
         rest (toBytesBattleEffect A b0 c i0 i1 e) = []"
  using e by (simp add: toBytesBattleEffect_def encEffect_def Let_def isEffectStatus_bits write_ok [OF ok])

lemma toBytesBattleEscape_bytes:
  assumes ok: "bytes_ok A data rest" and e: "rest e = []"
  shows "data (toBytesBattleEscape A b0 b1 e) = data e @ [b0 mod 256, b1 mod 256] \<and>
         rest (toBytesBattleEscape A b0 b1 e) = []"
  using e by (simp add: toBytesBattleEscape_def write_ok [OF ok])

lemma writeSubs_bytes:
  assumes ok: "bytes_ok A data rest"
  shows "rest t = [] \<Longrightarrow>
    (let t' = fold (\<lambda>x t. case x of Some y \<Rightarrow> writeBytes A t y | None \<Rightarrow> writeByte A t 0) l t
     in data t' = data t @ concat (map (\<lambda>x. case x of None \<Rightarrow> [0] | Some y \<Rightarrow> data y) l) \<and> rest t' = [])"
  by (induction l arbitrary: t) (auto simp: Let_def write_ok [OF ok] split: option.splits)

lemma toBytes_bytes:
  assumes ok: "bytes_ok A data rest"
  shows "data (toBytes A c) = enc (map_ctl data c) \<and> rest (toBytes A c) = []"
proof (induction c)
  case (Ctl ty b0 b1 c i0 i1 ds ss)
  let ?t = "writeByte A (newArray A) ty"
  have t: "data ?t = [ty mod 256]" "rest ?t = []" by (simp_all add: write_ok [OF ok] new_ok [OF ok])
  have subs: "map (\<lambda>x. case x of None \<Rightarrow> [0] | Some y \<Rightarrow> data y) (map (map_option (toBytes A)) l)
      = map (case_option [0] enc \<circ> map_option (map_ctl data)) l" if "ss = Some l" for l
    using Ctl.IH that by (auto simp: option.map_comp split: option.splits)
  show ?case
  proof (cases "ty = TYPE_BATTLE_SKILL")
    case True
    let ?u = "writeByte A ?t b0"
    let ?u = "writeShort A ?u (case ds of None \<Rightarrow> 0 | Some d \<Rightarrow> arrayLength A d)"
    let ?u = "case ds of None \<Rightarrow> ?u | Some d \<Rightarrow> writeBytes A ?u d"
    let ?u = "writeByte A ?u (case ss of None \<Rightarrow> 0 | Some l \<Rightarrow> int (length l))"
    have u: "data ?u = [ty mod 256, b0 mod 256] @ be16 (case ds of None \<Rightarrow> 0 | Some d \<Rightarrow> int (length (data d)))
        @ (case ds of None \<Rightarrow> [] | Some d \<Rightarrow> data d) @ [(case ss of None \<Rightarrow> 0 | Some l \<Rightarrow> int (length l)) mod 256]"
      "rest ?u = []"
      using t by (simp_all add: write_ok [OF ok] new_ok [OF ok] split: option.split)
    show ?thesis
    proof (cases ss)
      case None
      with True u t show ?thesis
        by (cases ds) (simp_all add: toBytesBattleSkill_def Let_def)
    next
      case (Some l)
      note w = writeSubs_bytes [OF ok u(2), of "map (map_option (toBytes A)) l", unfolded subs [OF Some] Let_def]
      from True Some w u(1) show ?thesis
        by (cases ds) (simp_all add: toBytesBattleSkill_def Let_def split: option.splits)
    qed
  next
    case False
    then show ?thesis
      using t toBytesBattleEscape_bytes [OF ok t(2), of b0 b1] toBytesBattleEffect_bytes [OF ok t(2), of b0 c i0 i1]
      by (auto simp: Let_def)
  qed
qed

section \<open>Reading\<close>

lemma signed_short: "0 \<le> v \<Longrightarrow> v < 32768 \<Longrightarrow> signed_take_bit 15 v = (v :: int)"
  by (simp add: signed_take_bit_int_eq_self_iff)

lemma readValue:
  assumes ok: "bytes_ok A data rest"
    and e: "rest e = (if bit c 13 then be32 v else if bit c 12 then be16 v else if bit c 11 then [v mod 256] else []) @ r"
    and short: "\<not> bit c 13 \<Longrightarrow> - 30000 \<le> v \<and> v \<le> 30000"
    and byte: "\<not> bit c 13 \<Longrightarrow> \<not> bit c 12 \<Longrightarrow> - 120 \<le> v \<and> v \<le> 120 \<and> bit c 11"
    and v: "int32 v"
  obtains e' where "(if isEffectStatus c EFFECT_INT_VALUE then readInt A e
        else if isEffectStatus c EFFECT_SHORT_VALUE then readShort A e
        else if isEffectStatus c EFFECT_BYTE_VALUE then readByte A e else (0, e)) = (v, e')" "rest e' = r"
proof -
  consider "bit c 13" | "\<not> bit c 13" "bit c 12" | "\<not> bit c 13" "\<not> bit c 12" by blast
  then show ?thesis
  proof cases
    case 1
    obtain e' where "readInt A e = (v, e')" "rest e' = r" using e 1 by (auto intro: readInt_ok [OF ok _ v])
    then show ?thesis using 1 that by (simp add: isEffectStatus_bits)
  next
    case 2
    obtain e' where "readShort A e = (signed_take_bit 15 v, e')" "rest e' = r"
      using e 2 by (auto intro: readShort_ok [OF ok])
    moreover have "signed_take_bit 15 v = v" using short [OF 2(1)] by (simp add: signed_take_bit_int_eq_self_iff)
    ultimately show ?thesis using 2 that by (simp add: isEffectStatus_bits)
  next
    case 3
    have b: "bit c 11" "- 120 \<le> v" "v \<le> 120" using byte [OF 3] by auto
    have "rest e = v mod 256 # r" using e 3 b by simp
    then obtain e' where "readByte A e = (signed_take_bit 7 (v mod 256), e')" "rest e' = r"
      by (rule readByte_ok [OF ok])
    moreover have "signed_take_bit 7 (v mod 256) = v" using b by (simp add: signed8)
    ultimately show ?thesis using 3 b that by (simp add: isEffectStatus_bits)
  qed
qed

lemma readAnime:
  assumes ok: "bytes_ok A data rest" and e: "rest e = (if bit c 10 then be16 v else []) @ r"
    and z: "\<not> bit c 10 \<Longrightarrow> v = 0" and v: "0 \<le> v" "v \<le> 65535"
  obtains e' where "(if isEffectStatus c EFFECT_HAS_ANIME
        then (let (v, e) = readShort A e in (jand 65535 v, e)) else (0, e)) = (v, e')" "rest e' = r"
proof (cases "bit c 10")
  case True
  obtain e' where "readShort A e = (signed_take_bit 15 v, e')" "rest e' = r"
    using e True by (auto intro: readShort_ok [OF ok])
  moreover have "jand 65535 (signed_take_bit 15 v) = v" using unsigned16 [OF v] by (simp add: signed16_any)
  ultimately show ?thesis using True that by (simp add: isEffectStatus_bits)
next
  case False
  then show ?thesis using that [of e] e z by (simp add: isEffectStatus_bits)
qed

lemma fromBytesBattleEffect_bytes:
  assumes ok: "bytes_ok A data rest" and e: "rest e = encEffect b0 (markCounter c i0 i1) i0 i1 @ r"
    and f: "int8 b0" "0 \<le> c" "c < 32768" "int32 i0" "0 \<le> i1" "i1 \<le> 65535"
  obtains e' where "fromBytesBattleEffect A ty e = (Ctl ty b0 0 (markCounter c i0 i1) i0 i1 None None, e')" "rest e' = r"
proof -
  let ?c = "markCounter c i0 i1"
  let ?v = "if bit ?c 13 then be32 i0 else if bit ?c 12 then be16 i0 else if bit ?c 11 then [i0 mod 256] else []"
  let ?w = "if bit ?c 10 then be16 i1 else []"
  note m = markCounter_bits [OF f(2,3), of i0 i1] and k = markCounter_ok [OF f(2,3), of i0 i1]
  have e0: "rest e = b0 mod 256 # be16 ?c @ ?v @ ?w @ r" using e unfolding encEffect_def by simp
  obtain e1 where e1: "readByte A e = (b0, e1)" "rest e1 = be16 ?c @ ?v @ ?w @ r"
    using readByte_ok [OF ok e0] signed8 [of b0] f(1) by (metis int8_def)
  obtain e2 where e2: "readShort A e1 = (?c, e2)" "rest e2 = ?v @ ?w @ r"
    using readShort_ok [OF ok e1(2)] m(1,2) by (metis signed_short)
  obtain e3 where e3: "(if isEffectStatus ?c EFFECT_INT_VALUE then readInt A e2
        else if isEffectStatus ?c EFFECT_SHORT_VALUE then readShort A e2
        else if isEffectStatus ?c EFFECT_BYTE_VALUE then readByte A e2 else (0, e2)) = (i0, e3)" "rest e3 = ?w @ r"
    using e2(2) k(2,3) f(4) by (rule readValue [OF ok])
  obtain e4 where e4: "(if isEffectStatus ?c EFFECT_HAS_ANIME
        then (let (v, e) = readShort A e3 in (jand 65535 v, e)) else (0, e3)) = (i1, e4)" "rest e4 = r"
    using e3(2) k(1) f(5,6) by (rule readAnime [OF ok])
  show ?thesis
    using that [of e4] e4(2) by (simp add: fromBytesBattleEffect_def e1 e2 e3 e4 Let_def)
qed

lemma readSubs_bytes:
  assumes "\<And>x b r. x \<in> set l \<Longrightarrow> rest b = f x @ r \<Longrightarrow>
      \<exists>c b'. fromBytes A n b = Some (c, b') \<and> map_ctl data c = g x \<and> rest b' = r"
    and "rest b = concat (map f l) @ r"
  shows "\<exists>cs b'. readSubs A n (length l) b = Some (cs, b') \<and> map (map_ctl data) cs = map g l \<and> rest b' = r"
  using assms
proof (induction l arbitrary: b)
  case Nil
  then show ?case by simp
next
  case (Cons x l)
  have "rest b = f x @ concat (map f l) @ r" using Cons.prems(2) by simp
  then obtain c b1 where c: "fromBytes A n b = Some (c, b1)" "map_ctl data c = g x" "rest b1 = concat (map f l) @ r"
    using Cons.prems(1) [of x b] by auto
  have "\<exists>cs b'. readSubs A n (length l) b1 = Some (cs, b') \<and> map (map_ctl data) cs = map g l \<and> rest b' = r"
    using Cons.IH [OF Cons.prems(1) c(3)] by auto
  then obtain cs b2 where "readSubs A n (length l) b1 = Some (cs, b2)" "map (map_ctl data) cs = map g l" "rest b2 = r"
    by blast
  then show ?case using c by simp
qed

lemma signed_int8: "int8 v \<Longrightarrow> signed_take_bit 7 (v mod 256) = v"
  by (simp add: int8_def signed8)

lemma readInt8:
  assumes ok: "bytes_ok A data rest" and b: "rest b = v mod 256 # r" and v: "int8 v"
  obtains b' where "readByte A b = (v, b')" "rest b' = r"
  using readByte_ok [OF ok b] by (simp add: signed_int8 [OF v]) blast

lemma depth_sub: "x \<in> set l \<Longrightarrow> d x \<le> foldr max (map d l) (0 :: nat)"
  by (induction l) auto

lemma readDatas:
  assumes ok: "bytes_ok A data rest"
    and b: "rest b = be16 (case ds of None \<Rightarrow> 0 | Some d \<Rightarrow> int (length d)) @ (case ds of None \<Rightarrow> [] | Some d \<Rightarrow> d) @ r"
    and len: "case ds of None \<Rightarrow> True | Some d \<Rightarrow> length d \<le> 32767"
  obtains i b1 d b2 where "readShort A b = (i, b1)"
    and "(if i > 0 then (let (d, t) = readBytes A b1 i in (Some d, t)) else (None, b1)) = (d, b2)"
    and "map_option data d = (if ds = Some [] then None else ds)" "rest b2 = r"
proof -
  let ?n = "case ds of None \<Rightarrow> 0 | Some d \<Rightarrow> int (length d)"
  have n: "0 \<le> ?n" "?n < 32768" using len by (auto split: option.splits)
  obtain b1 where b1: "readShort A b = (?n, b1)" "rest b1 = (case ds of None \<Rightarrow> [] | Some d \<Rightarrow> d) @ r"
    using readShort_ok [OF ok b] by (simp add: signed_short [OF n]) blast
  show ?thesis
  proof (cases "?n > 0")
    case True
    then obtain xs where xs: "ds = Some xs" "xs \<noteq> []" by (auto split: option.splits)
    obtain d b2 where "readBytes A b1 (int (length xs)) = (d, b2)" "data d = xs" "rest b2 = r"
      using b1(2) xs by (auto intro: readBytes_ok [OF ok])
    then show ?thesis using that [OF b1(1), of "Some d" b2] xs by simp
  next
    case False
    then have "ds = None \<or> ds = Some []" by (auto split: option.splits)
    then show ?thesis using that [OF b1(1), of None b1] b1(2) by auto
  qed
qed

lemma fromBytesBattleSkill_bytes:
  assumes ok: "bytes_ok A data rest"
    and b: "rest b = b0 mod 256 # be16 (case ds of None \<Rightarrow> 0 | Some d \<Rightarrow> int (length d)) @ (case ds of None \<Rightarrow> [] | Some d \<Rightarrow> d)
          @ (case ss of None \<Rightarrow> 0 | Some l \<Rightarrow> int (length l)) mod 256 # (case ss of None \<Rightarrow> [] | Some l \<Rightarrow> concat (map f l)) @ r"
    and b0: "int8 b0" and ds: "case ds of None \<Rightarrow> True | Some d \<Rightarrow> length d \<le> 32767"
    and ss: "case ss of None \<Rightarrow> True | Some l \<Rightarrow> length l \<le> 127"
    and subs: "\<And>l x b r. ss = Some l \<Longrightarrow> x \<in> set l \<Longrightarrow> rest b = f x @ r \<Longrightarrow>
      \<exists>c b'. fromBytes A n b = Some (c, b') \<and> map_ctl data c = g x \<and> rest b' = r"
  shows "\<exists>c b'. fromBytesBattleSkill A n b = Some (c, b') \<and> rest b' = r \<and>
    map_ctl data c = Ctl TYPE_BATTLE_SKILL b0 0 0 0 0 (if ds = Some [] then None else ds)
      (case ss of None \<Rightarrow> None | Some l \<Rightarrow> if l = [] then None else Some (map (Some \<circ> g) l))"
proof -
  let ?k = "case ss of None \<Rightarrow> 0 | Some l \<Rightarrow> int (length l)"
  let ?s = "case ss of None \<Rightarrow> [] | Some l \<Rightarrow> concat (map f l)"
  obtain b1 where b1: "readByte A b = (b0, b1)"
      "rest b1 = be16 (case ds of None \<Rightarrow> 0 | Some d \<Rightarrow> int (length d)) @ (case ds of None \<Rightarrow> [] | Some d \<Rightarrow> d) @ ?k mod 256 # ?s @ r"
    by (rule readInt8 [OF ok b b0])
  obtain i b2 d b3 where b2: "readShort A b1 = (i, b2)"
      "(if i > 0 then (let (d, t) = readBytes A b2 i in (Some d, t)) else (None, b2)) = (d, b3)"
      "map_option data d = (if ds = Some [] then None else ds)" and b3: "rest b3 = ?k mod 256 # ?s @ r"
    by (rule readDatas [OF ok b1(2) ds])
  have k: "int8 ?k" using ss by (auto simp: int8_def split: option.splits)
  obtain b4 where b4: "readByte A b3 = (?k, b4)" "rest b4 = ?s @ r" by (rule readInt8 [OF ok b3 k])
  note reads = b1(1) b2(1,2) b4(1)
  show ?thesis
  proof (cases "?k > 0")
    case True
    then obtain l where l: "ss = Some l" "l \<noteq> []" by (auto split: option.splits)
    have "\<exists>cs b'. readSubs A n (length l) b4 = Some (cs, b') \<and> map (map_ctl data) cs = map g l \<and> rest b' = r"
      using subs [OF l(1)] b4(2) l(1) by (intro readSubs_bytes [where f = f]) auto
    then obtain cs b5 where cs: "readSubs A n (length l) b4 = Some (cs, b5)" "map (map_ctl data) cs = map g l" "rest b5 = r"
      by blast
    have m: "map (map_option (map_ctl data)) (map Some cs) = map (Some \<circ> g) l"
      using arg_cong [OF cs(2), of "map Some"] by (simp add: o_def)
    show ?thesis using reads l cs(1,3) m b2(3) by (simp add: Let_def)
  next
    case False
    then have "ss = None \<or> ss = Some []" by (auto split: option.splits)
    then show ?thesis using reads b4(2) b2(3) by (auto simp: Let_def)
  qed
qed

lemma fromBytes_bytes:
  assumes ok: "bytes_ok A data rest"
  shows "rest b = enc v @ r \<Longrightarrow> fits v \<Longrightarrow> depth v \<le> n \<Longrightarrow>
    \<exists>c b'. fromBytes A n b = Some (c, b') \<and> map_ctl data c = norm (marked v) \<and> rest b' = r"
proof (induction v arbitrary: n b r)
  case (Ctl ty b0 b1 c i0 i1 ds ss)
  obtain n' where n: "n = Suc n'" using Ctl.prems(3) by (cases n) auto
  have ty: "int8 ty" using Ctl.prems(2) by simp
  define tail where "tail = tl (enc (Ctl ty b0 b1 c i0 i1 ds ss)) @ r"
  have "rest b = ty mod 256 # tail" using Ctl.prems(1) by (simp add: tail_def)
  then obtain t where t: "readByte A b = (ty, t)" "rest t = tail" by (rule readInt8 [OF ok _ ty])
  consider "ty = TYPE_BATTLE_SKILL" | "ty = TYPE_BATTLE_ESCAPE"
    | "ty = TYPE_BATTLE_TARGET_EFFECT \<or> ty = TYPE_BATTLE_SELF_EFFECT"
    | "ty \<notin> {TYPE_BATTLE_SKILL, TYPE_BATTLE_ESCAPE, TYPE_BATTLE_TARGET_EFFECT, TYPE_BATTLE_SELF_EFFECT}" by blast
  then show ?case
  proof cases
    case 1
    define f where "f = (\<lambda>x. case x of None \<Rightarrow> [0] | Some y \<Rightarrow> enc y)"
    define g where "g = (\<lambda>x. case x of None \<Rightarrow> new_ctl TYPE_NONE_CONTROL | Some y \<Rightarrow> norm (marked y))"
    have sub: "\<exists>c b'. fromBytes A n' b = Some (c, b') \<and> map_ctl data c = g x \<and> rest b' = r"
      if l: "ss = Some l" and x: "x \<in> set l" and b: "rest b = f x @ r" for l x b r
    proof (cases x)
      case None
      have d: "1 \<le> n'"
        using Ctl.prems(3) l depth_sub [OF x, of "case_option (Suc 0) depth"] by (simp add: n None)
      obtain b' where "readByte A b = (0, b')" "rest b' = r"
        by (rule readInt8 [OF ok, of b 0 r]) (use b None in \<open>simp_all add: f_def int8_def\<close>)
      then show ?thesis using d by (cases n') (simp_all add: g_def None new_ctl_def)
    next
      case (Some y)
      have "depth y \<le> n'"
        using Ctl.prems(3) l depth_sub [OF x, of "case_option (Suc 0) depth"] by (simp add: n Some)
      moreover have "fits y" using Ctl.prems(2) 1 l x Some by auto
      moreover have "rest b = enc y @ r" using b by (simp add: f_def Some)
      ultimately show ?thesis using Ctl.IH [of l x y] l x Some by (simp add: g_def)
    qed
    have "\<exists>c b'. fromBytesBattleSkill A n' t = Some (c, b') \<and> rest b' = r \<and>
        map_ctl data c = Ctl TYPE_BATTLE_SKILL b0 0 0 0 0 (if ds = Some [] then None else ds)
          (case ss of None \<Rightarrow> None | Some l \<Rightarrow> if l = [] then None else Some (map (Some \<circ> g) l))"
      using t(2) Ctl.prems(2) 1
      by (intro fromBytesBattleSkill_bytes [OF ok, where f = f] sub) (auto simp: tail_def f_def split: option.splits)
    moreover have "norm (marked (Ctl ty b0 b1 c i0 i1 ds ss)) =
        Ctl TYPE_BATTLE_SKILL b0 0 0 0 0 (if ds = Some [] then None else ds)
          (case ss of None \<Rightarrow> None | Some l \<Rightarrow> if l = [] then None else Some (map (Some \<circ> g) l))"
      by (cases ss) (auto simp: 1 g_def split: option.splits)
    ultimately show ?thesis using 1 t(1) by (auto simp: n)
  next
    case 2
    then have "rest t = b0 mod 256 # b1 mod 256 # r" "int8 b0" "int8 b1" using t(2) Ctl.prems(2) by (simp_all add: tail_def)
    then obtain t1 t2 where "readByte A t = (b0, t1)" "readByte A t1 = (b1, t2)" "rest t2 = r"
      using readInt8 [OF ok] by metis
    then show ?thesis using 2 t(1) by (simp add: n fromBytesBattleEscape_def)
  next
    case 3
    then have b: "rest t = encEffect b0 (markCounter c i0 i1) i0 i1 @ r"
      and f: "int8 b0" "0 \<le> c" "c < 32768" "int32 i0" "0 \<le> i1" "i1 \<le> 65535"
      using t(2) Ctl.prems(2) by (auto simp: tail_def)
    obtain e where "fromBytesBattleEffect A ty t = (Ctl ty b0 0 (markCounter c i0 i1) i0 i1 None None, e)" "rest e = r"
      by (rule fromBytesBattleEffect_bytes [OF ok b f])
    then show ?thesis using 3 t(1) by (auto simp: n)
  next
    case 4
    then show ?thesis using t by (auto simp: n tail_def new_ctl_def)
  qed
qed

lemma marked_map: "marked (map_ctl f c) = map_ctl f (marked c)"
  by (induction c) (auto simp: option.map_comp o_def intro!: option.map_cong list.map_cong)

lemma depth_map: "depth (map_ctl f c) = depth c"
proof (induction c)
  case (Ctl ty b0 b1 c i0 i1 ds ss)
  have "map (case_option (Suc 0) depth \<circ> map_option (map_ctl f)) l = map (case_option (Suc 0) depth) l" if "ss = Some l" for l
    using Ctl.IH that by (auto split: option.splits)
  then show ?case by (cases ss) (simp_all del: map_eq_conv)
qed

section \<open>The round trip\<close>

text \<open>C11: Let \<open>A\<close> be byte arrays with the documented behaviour, and let \<open>c\<close> be a command whose
  fields fit into the bytes they are written to (at most 127 sub-commands, at most 32767 data
  bytes, and so on, at every level of nesting).  Reading an array whose next bytes are those of
  \<open>toBytes c\<close>, whatever bytes \<open>r\<close> come after them, stops exactly in front of \<open>r\<close> and gives
  the command \<open>c\<close> as \<open>toBytes\<close> left it, with all its sub-commands in their order; only
  fields that the type of the command does not transmit are reset, a missing sub-command
  becomes one of type \<open>TYPE_NONE\<close>, and empty data or lists become null.
\<close>

theorem control_roundtrip:
  assumes "bytes_ok A data rest" and "fits (map_ctl data c)" and "depth c \<le> n"
    and "rest b = data (toBytes A c) @ r"
  shows "\<exists>c' b'. fromBytes A n b = Some (c', b') \<and> rest b' = r \<and>
           map_ctl data c' = norm (map_ctl data (marked c))"
proof -
  have "rest b = enc (map_ctl data c) @ r" using assms(4) toBytes_bytes [OF assms(1), of c] by simp
  moreover have "depth (map_ctl data c) \<le> n" using assms(3) by (simp add: depth_map)
  ultimately have "\<exists>c' b'. fromBytes A n b = Some (c', b') \<and> map_ctl data c' = norm (marked (map_ctl data c)) \<and> rest b' = r"
    by (intro fromBytes_bytes [OF assms(1)] assms(2))
  then show ?thesis by (auto simp: marked_map)
qed

text \<open>Byte arrays as the list of their bytes and the list of those from the position on.\<close>

definition list_bytes :: "(int list \<times> int list) byte_ops" where
  "list_bytes = \<lparr>
     newArray = ([], []),
     arrayLength = (\<lambda>b. int (length (fst b))),
     writeByte = (\<lambda>b v. (fst b @ [v mod 256], [])),
     writeShort = (\<lambda>b v. (fst b @ be16 v, [])),
     writeInt = (\<lambda>b v. (fst b @ be32 v, [])),
     writeBytes = (\<lambda>b c. (fst b @ fst c, [])),
     readByte = (\<lambda>b. (signed_take_bit 7 (snd b ! 0), (fst b, drop 1 (snd b)))),
     readShort = (\<lambda>b. (signed_take_bit 15 (256 * snd b ! 0 + snd b ! 1), (fst b, drop 2 (snd b)))),
     readInt = (\<lambda>b. (signed_take_bit 31 (16777216 * snd b ! 0 + 65536 * snd b ! 1 + 256 * snd b ! 2 + snd b ! 3),
                     (fst b, drop 4 (snd b)))),
     readBytes = (\<lambda>b k. ((take (nat k) (snd b), take (nat k) (snd b)), (fst b, drop (nat k) (snd b)))) \<rparr>"

lemma list_bytes_ok: "bytes_ok list_bytes fst snd"
  by (simp add: bytes_ok_def list_bytes_def)

definition demo_control :: "(int list \<times> int list) ctl" where
  "demo_control =
     Ctl TYPE_BATTLE_SKILL 5 0 0 0 0 (Some ([7, 255], []))
       (Some [Some (Ctl TYPE_BATTLE_TARGET_EFFECT 20 0 3 (- 31000) 40000 None None), None,
              Some (Ctl TYPE_BATTLE_ESCAPE 20 1 0 0 0 None None)])"

theorem control_roundtrip_witness:
  "\<exists>c' b'. fromBytes list_bytes 2 ([], fst (toBytes list_bytes demo_control) @ [9]) = Some (c', b') \<and> snd b' = [9] \<and>
     map_ctl fst c' =
       Ctl TYPE_BATTLE_SKILL 5 0 0 0 0 (Some [7, 255])
         (Some [Some (Ctl TYPE_BATTLE_TARGET_EFFECT 20 0 9219 (- 31000) 40000 None None), Some (new_ctl TYPE_NONE_CONTROL),
                Some (Ctl TYPE_BATTLE_ESCAPE 20 1 0 0 0 None None)])"
proof -
  have "fits (map_ctl fst demo_control)" "depth demo_control \<le> 2" by code_simp+
  moreover have "norm (map_ctl fst (marked demo_control)) =
       Ctl TYPE_BATTLE_SKILL 5 0 0 0 0 (Some [7, 255])
         (Some [Some (Ctl TYPE_BATTLE_TARGET_EFFECT 20 0 9219 (- 31000) 40000 None None), Some (new_ctl TYPE_NONE_CONTROL),
                Some (Ctl TYPE_BATTLE_ESCAPE 20 1 0 0 0 None None)])" by code_simp
  ultimately show ?thesis
    using control_roundtrip [OF list_bytes_ok, of demo_control 2 "([], fst (toBytes list_bytes demo_control) @ [9])" "[9]"]
    by simp
qed

end
