(* ===== verification/Broadcast.thy ===== *)
theory Broadcast
  imports Prelude
begin

text \<open>
  What the notifications and the frame timer share: client code that calls back into them, the
  loop that gives every element of a copied list its turn, and which elements that loop serves.
\<close>

section \<open>Client code\<close>

text \<open>A script is what a method of the client does: it changes the world and makes calls, and
  what it does after a call may depend on the world that the call left.  An exception ends the
  method; its callers catch it.\<close>

datatype ('a, 'w) script =
  Return 'w
| Raise 'w
| Do 'a 'w "'w \<Rightarrow> ('a, 'w) script"

primrec runScript ::
  "('s \<Rightarrow> 'w) \<Rightarrow> ('w \<Rightarrow> 's \<Rightarrow> 's) \<Rightarrow> ('a \<Rightarrow> 's \<Rightarrow> 's option) \<Rightarrow> ('a, 'w) script \<Rightarrow> 's \<Rightarrow> 's option" where
  "runScript get put p (Return w) = (\<lambda>s. Some (put w s))"
| "runScript get put p (Raise w) = (\<lambda>s. Some (put w s))"
| "runScript get put p (Do a w k) =
     (\<lambda>s. case p a (put w s) of None \<Rightarrow> None | Some t \<Rightarrow> runScript get put p (k (get t)) t)"

primrec allActs :: "('a \<Rightarrow> bool) \<Rightarrow> ('a, 'w) script \<Rightarrow> bool" where
  "allActs p (Return w) = True"
| "allActs p (Raise w) = True"
| "allActs p (Do a w k) = (p a \<and> (\<forall>v. allActs p (k v)))"

lemma runScript_induct:
  assumes ind: "\<And>w s. R s (put w s)" "\<And>a s t. P a \<Longrightarrow> p a s = Some t \<Longrightarrow> R s t" "\<And>s t u. R s t \<Longrightarrow> R t u \<Longrightarrow> R s u"
  shows "allActs P sc \<Longrightarrow> runScript get put p sc s = Some t \<Longrightarrow> R s t"
proof (induction sc arbitrary: s)
  case (Do a w k)
  from Do.prems(2) obtain u where u: "p a (put w s) = Some u" "runScript get put p (k (get u)) u = Some t"
    by (auto split: option.splits)
  have "R u t" using Do.IH [OF _ _ u(2)] Do.prems(1) by simp
  moreover have "R (put w s) u" using ind(2) [OF _ u(1)] Do.prems(1) by simp
  ultimately show ?case using ind(1,3) by blast
qed (auto simp: ind(1))

lemma runScript_returns:
  assumes "\<And>a s. P a \<Longrightarrow> p a s \<noteq> None"
  shows "allActs P sc \<Longrightarrow> runScript get put p sc s \<noteq> None"
proof (induction sc arbitrary: s)
  case (Do a w k)
  then obtain t where "p a (put w s) = Some t" using assms [of a "put w s"] by auto
  then show ?case using Do.IH [of "k (get t)" t] Do.prems by auto
qed simp_all

section \<open>Turns\<close>

text \<open>The loop over a copy of a list: every element gets its turn in the state that the
  turns before it left.\<close>

primrec eachTurn :: "('r \<Rightarrow> 's \<Rightarrow> 's option) \<Rightarrow> 'r list \<Rightarrow> 's \<Rightarrow> 's option" where
  "eachTurn turn [] s = Some s"
| "eachTurn turn (r # rs) s = (case turn r s of None \<Rightarrow> None | Some t \<Rightarrow> eachTurn turn rs t)"

lemma eachTurn_returns: "(\<And>r s. turn r s \<noteq> None) \<Longrightarrow> eachTurn turn rs s \<noteq> None"
  by (induction rs arbitrary: s) (auto split: option.splits)

section \<open>Who is served\<close>

text \<open>The interface of a broadcast: a turn of one member may let other members leave, but it
  adds no member, and it logs a member exactly if it is still there at its turn.\<close>

locale broadcast =
  fixes turn :: "'r \<Rightarrow> 's \<Rightarrow> 's option"
    and ok :: "'s \<Rightarrow> bool"
    and member live :: "'s \<Rightarrow> 'r \<Rightarrow> bool"
    and entry :: "'s \<Rightarrow> 'r \<Rightarrow> 'l"
    and log :: "'s \<Rightarrow> 'l list"
  assumes turn_ok: "ok s \<Longrightarrow> member s r \<Longrightarrow> turn r s = Some t \<Longrightarrow> ok t"
    and turn_log: "ok s \<Longrightarrow> member s r \<Longrightarrow> turn r s = Some t \<Longrightarrow> log t = log s @ (if live s r then [entry s r] else [])"
    and turn_member: "ok s \<Longrightarrow> member s r \<Longrightarrow> turn r s = Some t \<Longrightarrow> member s q \<Longrightarrow> member t q"
    and turn_live: "ok s \<Longrightarrow> member s r \<Longrightarrow> turn r s = Some t \<Longrightarrow> member s q \<Longrightarrow> live t q \<Longrightarrow>
        live s q \<and> entry t q = entry s q"
begin

lemma live_before:
  "eachTurn turn rs s = Some t \<Longrightarrow> ok s \<Longrightarrow> \<forall>r\<in>set rs. member s r \<Longrightarrow> member s q \<Longrightarrow> live t q \<Longrightarrow> live s q \<and> entry t q = entry s q"
proof (induction rs arbitrary: s)
  case (Cons r rs)
  then obtain u where u: "turn r s = Some u" "eachTurn turn rs u = Some t" by (auto split: option.splits)
  have r: "member s r" using Cons.prems(3) by simp
  have "ok u" "member u q" "\<forall>r\<in>set rs. member u r"
    using turn_ok [OF Cons.prems(2) r u(1)] turn_member [OF Cons.prems(2) r u(1)] Cons.prems(3,4) by auto
  with Cons.IH [OF u(2)] Cons.prems(5) have "live u q" "entry t q = entry u q" by auto
  with turn_live [OF Cons.prems(2) r u(1) Cons.prems(4)] show ?case by simp
qed simp

lemma all_ok: "eachTurn turn rs s = Some t \<Longrightarrow> ok s \<Longrightarrow> \<forall>r\<in>set rs. member s r \<Longrightarrow> ok t"
proof (induction rs arbitrary: s)
  case (Cons r rs)
  then obtain u where u: "turn r s = Some u" "eachTurn turn rs u = Some t" by (auto split: option.splits)
  have r: "member s r" using Cons.prems(3) by simp
  show ?case
    using Cons.IH [OF u(2)] turn_ok [OF Cons.prems(2) r u(1)] turn_member [OF Cons.prems(2) r u(1)] Cons.prems(3) by simp
qed simp

lemma delivered:
  "eachTurn turn rs s = Some u \<Longrightarrow> ok s \<Longrightarrow> \<forall>r\<in>set rs. member s r \<Longrightarrow> distinct rs \<Longrightarrow>
   log u = log s @ map (entry s) (filter (\<lambda>r. \<exists>t. eachTurn turn (takeWhile (\<lambda>q. q \<noteq> r) rs) s = Some t \<and> live t r) rs) \<and>
   (\<forall>r\<in>set rs. live u r \<longrightarrow> (\<exists>t. eachTurn turn (takeWhile (\<lambda>q. q \<noteq> r) rs) s = Some t \<and> live t r))"
proof (induction rs arbitrary: s)
  case (Cons r rs)
  then obtain v where v: "turn r s = Some v" "eachTurn turn rs v = Some u" by (auto split: option.splits)
  have r: "member s r" using Cons.prems(3) by simp
  have ok: "ok v" "\<forall>q\<in>set rs. member v q"
    using turn_ok [OF Cons.prems(2) r v(1)] turn_member [OF Cons.prems(2) r v(1)] Cons.prems(3) by auto
  define P where "P = (\<lambda>rs s q. \<exists>t. eachTurn turn (takeWhile (\<lambda>p. p \<noteq> q) rs) s = Some t \<and> live t q)"
  have IH: "log u = log v @ map (entry v) (filter (P rs v) rs)" "\<forall>q\<in>set rs. live u q \<longrightarrow> P rs v q"
    using Cons.IH [OF v(2) ok] Cons.prems(4) by (auto simp: P_def)
  have first: "P (r # rs) s r = live s r" by (simp add: P_def)
  have rest: "P (r # rs) s q = P rs v q" if "q \<in> set rs" for q using that Cons.prems(4) v(1) by (auto simp: P_def)
  have same: "entry v q = entry s q" if "q \<in> set rs" "P rs v q" for q
  proof -
    from that(2) obtain t where t: "eachTurn turn (takeWhile (\<lambda>p. p \<noteq> q) rs) v = Some t" "live t q" by (auto simp: P_def)
    have "\<forall>p\<in>set (takeWhile (\<lambda>p. p \<noteq> q) rs). member v p" "member v q" using ok(2) that(1) by (auto dest: set_takeWhileD)
    from live_before [OF t(1) ok(1) this t(2)] have "live v q" by simp
    then show ?thesis using turn_live [OF Cons.prems(2) r v(1)] Cons.prems(3) that(1) by simp
  qed
  have "filter (P (r # rs) s) (r # rs) = (if live s r then [r] else []) @ filter (P rs v) rs"
    using rest by (simp add: first cong: filter_cong)
  moreover have "map (entry v) (filter (P rs v) rs) = map (entry s) (filter (P rs v) rs)" using same by auto
  ultimately have "log u = log s @ map (entry s) (filter (P (r # rs) s) (r # rs))"
    using IH(1) turn_log [OF Cons.prems(2) r v(1)] by simp
  moreover have "\<forall>q\<in>set (r # rs). live u q \<longrightarrow> P (r # rs) s q"
    using IH(2) rest first live_before [OF Cons.prems(1,2,3) r] by auto
  ultimately show ?case by (simp add: P_def)
qed simp

end

end
