(* ===== verification/Facade.thy ===== *)
theory Facade
  imports LinkedList Broadcast
begin

text \<open>
  The notifications of the client: the class \<open>Handler\<close> (a method with the object it is
  called on) and the class \<open>Facade\<close>, through which every module sends notifications
  and registers for them.

  Handlers are pooled objects, so they live in a store, and a released handler can be
  handed out again, but only after the clean-up of the pool at the end of a frame.  The
  linked lists of observers are given as the lists of their data, which they implement
  (\<open>LinkedProps\<close>).  The methods are the code of the whole client: \<open>B m c as nt w\<close> is what
  the method \<open>m\<close> does on the object \<open>c\<close> with the arguments \<open>as\<close> and the notification \<open>nt\<close>
  in the world \<open>w\<close>, as a script of calls to the facade and changes of the world.  A
  notification that never ends (a method that sends the notification it handles) has
  no result: the calls are given a depth, and \<open>None\<close> means that it was exceeded.
  \<open>called\<close> records which methods were called for which notification.
\<close>

section \<open>State\<close>

record ('m, 'c, 'd) handler =
  h_id :: int
  h_context :: "'c option"
  h_method :: "'m option"
  h_args :: "'d list"
  h_once :: bool

record ('e, 'd) notification =
  nt_id :: nat
  nt_type :: 'e
  nt_body :: 'd

record ('e, 'm, 'c, 'd, 'w) facade =
  handlers :: "nat \<Rightarrow> ('m, 'c, 'd) handler"
  hfresh :: nat
  hlist :: "nat list"
  hwait :: "nat list"
  guid :: int
  observerMap :: "'e \<Rightarrow> nat list option"
  protoMap :: "'e \<Rightarrow> nat list option"
  world :: 'w
  nextNt :: nat
  called :: "(nat \<times> nat \<times> 'm \<times> 'c option) list"

datatype ('e, 'm, 'c, 'd) act =
  SendNt 'e 'd
| OnNt 'e 'm "'c option" "'d list"
| OffNt 'e 'm "'c option"
| OnProto 'e 'm "'c option" "'d list" bool
| OffProto 'e
| OffProtoByHandler 'e "'m option" "'c option"

type_synonym ('e, 'm, 'c, 'd, 'w) code =
  "'m \<Rightarrow> 'c option \<Rightarrow> 'd list \<Rightarrow> ('e, 'd) notification \<Rightarrow> 'w \<Rightarrow> (('e, 'm, 'c, 'd) act, 'w) script"

definition new_facade :: "'w \<Rightarrow> ('e, 'm, 'c, 'd, 'w) facade" where
  "new_facade w = \<lparr>handlers = (\<lambda>_. \<lparr>h_id = 0, h_context = None, h_method = None, h_args = [], h_once = False\<rparr>),
     hfresh = 0, hlist = [], hwait = [], guid = 1, observerMap = (\<lambda>_. None), protoMap = (\<lambda>_. None),
     world = w, nextNt = 0, called = []\<rparr>"

section \<open>Handlers\<close>

definition handler_alloc ::
  "'c option \<Rightarrow> 'm \<Rightarrow> 'd list \<Rightarrow> bool \<Rightarrow> ('e, 'm, 'c, 'd, 'w) facade \<Rightarrow> nat \<times> ('e, 'm, 'c, 'd, 'w) facade" where
  "handler_alloc c m a once s =
     (let (r, s) = (if hlist s \<noteq> [] then (last (hlist s), s\<lparr>hlist := butlast (hlist s)\<rparr>)
                    else (hfresh s, s\<lparr>hfresh := Suc (hfresh s)\<rparr>))
      in (r, s\<lparr>handlers := (handlers s)(r :=
                  \<lparr>h_id = guid s, h_context = c, h_method = Some m, h_args = a, h_once = once\<rparr>),
               guid := guid s + 1\<rparr>))"

definition handler_onRelease :: "('m, 'c, 'd) handler \<Rightarrow> ('m, 'c, 'd) handler" where
  "handler_onRelease h = h\<lparr>h_context := None, h_method := None, h_args := [], h_once := False\<rparr>"

definition handler_release :: "nat \<Rightarrow> ('e, 'm, 'c, 'd, 'w) facade \<Rightarrow> ('e, 'm, 'c, 'd, 'w) facade" where
  "handler_release r s =
     (if r \<in> set (hwait s) then s
      else s\<lparr>handlers := (handlers s)(r := handler_onRelease (handlers s r)), hwait := hwait s @ [r]\<rparr>)"

text \<open>The clean-up of the pool makes the released handlers available again and may drop some
  of them; how many it keeps depends on the recent allocations and is the argument \<open>k\<close>.\<close>

definition handler_resize :: "nat \<Rightarrow> ('e, 'm, 'c, 'd, 'w) facade \<Rightarrow> ('e, 'm, 'c, 'd, 'w) facade" where
  "handler_resize k s = s\<lparr>hlist := take k (moveWait (rev (hwait s)) (hlist s)), hwait := []\<rparr>"

definition isOnce :: "('m, 'c, 'd) handler \<Rightarrow> bool" where
  "isOnce h \<longleftrightarrow> h_once h \<or> h_context h = None"

definition equalMethod :: "('m, 'c, 'd) handler \<Rightarrow> 'm option \<Rightarrow> 'c option \<Rightarrow> bool" where
  "equalMethod h m c \<longleftrightarrow> h_method h = m \<and> h_context h = c"

definition exec ::
  "('e, 'm, 'c, 'd, 'w) code
   \<Rightarrow> ((('e, 'm, 'c, 'd) act, 'w) script \<Rightarrow> ('e, 'm, 'c, 'd, 'w) facade \<Rightarrow> ('e, 'm, 'c, 'd, 'w) facade option)
   \<Rightarrow> ('e, 'd) notification \<Rightarrow> nat \<Rightarrow> ('e, 'm, 'c, 'd, 'w) facade \<Rightarrow> ('e, 'm, 'c, 'd, 'w) facade option" where
  "exec B run nt r s =
     (let h = handlers s r
      in (case h_method h of
            None \<Rightarrow> Some s
          | Some m \<Rightarrow>
              (case run (B m (h_context h) (h_args h) nt (world s))
                      (s\<lparr>called := called s @ [(nt_id nt, r, m, h_context h)]\<rparr>) of
                 None \<Rightarrow> None
               | Some t \<Rightarrow>
                   Some (if h_id (handlers t r) = h_id h \<and> isOnce (handlers t r) then handler_release r t else t))))"

section \<open>Sending\<close>

definition notification_alloc ::
  "'e \<Rightarrow> 'd \<Rightarrow> ('e, 'm, 'c, 'd, 'w) facade \<Rightarrow> ('e, 'd) notification \<times> ('e, 'm, 'c, 'd, 'w) facade" where
  "notification_alloc e d s =
     (\<lparr>nt_id = nextNt s, nt_type = e, nt_body = d\<rparr>, s\<lparr>nextNt := Suc (nextNt s)\<rparr>)"

definition execProto ::
  "('e, 'm, 'c, 'd, 'w) code
   \<Rightarrow> ((('e, 'm, 'c, 'd) act, 'w) script \<Rightarrow> ('e, 'm, 'c, 'd, 'w) facade \<Rightarrow> ('e, 'm, 'c, 'd, 'w) facade option)
   \<Rightarrow> 'e \<Rightarrow> 'd \<Rightarrow> ('e, 'm, 'c, 'd, 'w) facade \<Rightarrow> (bool \<times> ('e, 'm, 'c, 'd, 'w) facade) option" where
  "execProto B run e d s =
     (case protoMap s e of
        None \<Rightarrow> Some (False, s)
      | Some [] \<Rightarrow> Some (False, s)
      | Some (r # rs) \<Rightarrow>
          (let (nt, s) = notification_alloc e d (s\<lparr>protoMap := (protoMap s)(e \<mapsto> rs)\<rparr>)
           in (case exec B run nt r s of None \<Rightarrow> None | Some t \<Rightarrow> Some (True, handler_release r t))))"

definition facade_sendNt ::
  "('e, 'm, 'c, 'd, 'w) code
   \<Rightarrow> ((('e, 'm, 'c, 'd) act, 'w) script \<Rightarrow> ('e, 'm, 'c, 'd, 'w) facade \<Rightarrow> ('e, 'm, 'c, 'd, 'w) facade option)
   \<Rightarrow> 'e \<Rightarrow> 'd \<Rightarrow> ('e, 'm, 'c, 'd, 'w) facade \<Rightarrow> ('e, 'm, 'c, 'd, 'w) facade option" where
  "facade_sendNt B run e d s =
     (case execProto B run e d s of
        None \<Rightarrow> None
      | Some (True, s) \<Rightarrow> Some s
      | Some (False, s) \<Rightarrow>
          (case observerMap s e of
             None \<Rightarrow> Some s
           | Some rs \<Rightarrow> (let (nt, s) = notification_alloc e d s in eachTurn (exec B run nt) rs s)))"

section \<open>Registration\<close>

definition onNt ::
  "'e \<Rightarrow> 'm \<Rightarrow> 'c option \<Rightarrow> 'd list \<Rightarrow> ('e, 'm, 'c, 'd, 'w) facade \<Rightarrow> ('e, 'm, 'c, 'd, 'w) facade" where
  "onNt e m c a s =
     (let rs = (case observerMap s e of None \<Rightarrow> [] | Some rs \<Rightarrow> rs);
          s = s\<lparr>observerMap := (observerMap s)(e \<mapsto> rs)\<rparr>
      in (case find (\<lambda>r. equalMethod (handlers s r) (Some m) c) rs of
            Some r \<Rightarrow> s
          | None \<Rightarrow>
              (let (r, s) = handler_alloc c m a False s
               in s\<lparr>observerMap := (observerMap s)(e \<mapsto> rs @ [r])\<rparr>)))"

definition offNt :: "'e \<Rightarrow> 'm \<Rightarrow> 'c option \<Rightarrow> ('e, 'm, 'c, 'd, 'w) facade \<Rightarrow> ('e, 'm, 'c, 'd, 'w) facade" where
  "offNt e m c s =
     (case observerMap s e of
        None \<Rightarrow> s
      | Some rs \<Rightarrow>
          (case find (\<lambda>r. equalMethod (handlers s r) (Some m) c) rs of
             None \<Rightarrow> s
           | Some r \<Rightarrow>
               (let s = handler_release r s in s\<lparr>observerMap := (observerMap s)(e \<mapsto> remove1 r rs)\<rparr>)))"

definition onProto :: "'e \<Rightarrow> nat \<Rightarrow> ('e, 'm, 'c, 'd, 'w) facade \<Rightarrow> ('e, 'm, 'c, 'd, 'w) facade" where
  "onProto e t s =
     (let rs = (case protoMap s e of None \<Rightarrow> [] | Some rs \<Rightarrow> rs)
      in s\<lparr>protoMap := (protoMap s)(e \<mapsto> rs @ [t])\<rparr>)"

definition offProto :: "'e \<Rightarrow> ('e, 'm, 'c, 'd, 'w) facade \<Rightarrow> ('e, 'm, 'c, 'd, 'w) facade" where
  "offProto e s =
     (let s = (case protoMap s e of None \<Rightarrow> s | Some rs \<Rightarrow> fold handler_release rs s)
      in s\<lparr>protoMap := (protoMap s)(e := None)\<rparr>)"

fun lastMatch :: "('r \<Rightarrow> bool) \<Rightarrow> nat \<Rightarrow> 'r list \<Rightarrow> nat option" where
  "lastMatch p 0 rs = None"
| "lastMatch p (Suc k) rs = (if p (rs ! k) then Some k else lastMatch p k rs)"

definition offProtoByHandler ::
  "'e \<Rightarrow> 'm option \<Rightarrow> 'c option \<Rightarrow> ('e, 'm, 'c, 'd, 'w) facade \<Rightarrow> ('e, 'm, 'c, 'd, 'w) facade" where
  "offProtoByHandler e m c s =
     (case protoMap s e of
        None \<Rightarrow> s
      | Some rs \<Rightarrow>
          (case lastMatch (\<lambda>r. equalMethod (handlers s r) m c) (length rs) rs of
             None \<Rightarrow> s
           | Some k \<Rightarrow>
               (let s = handler_release (rs ! k) s
                in s\<lparr>protoMap := (protoMap s)(e \<mapsto> take k rs @ drop (Suc k) rs)\<rparr>)))"

section \<open>Running client code\<close>

abbreviation runCode ::
  "(('e, 'm, 'c, 'd) act \<Rightarrow> ('e, 'm, 'c, 'd, 'w) facade \<Rightarrow> ('e, 'm, 'c, 'd, 'w) facade option)
   \<Rightarrow> (('e, 'm, 'c, 'd) act, 'w) script \<Rightarrow> ('e, 'm, 'c, 'd, 'w) facade \<Rightarrow> ('e, 'm, 'c, 'd, 'w) facade option" where
  "runCode \<equiv> runScript world (\<lambda>w. world_update (\<lambda>_. w))"

definition perform ::
  "('e, 'm, 'c, 'd, 'w) code
   \<Rightarrow> ((('e, 'm, 'c, 'd) act, 'w) script \<Rightarrow> ('e, 'm, 'c, 'd, 'w) facade \<Rightarrow> ('e, 'm, 'c, 'd, 'w) facade option)
   \<Rightarrow> ('e, 'm, 'c, 'd) act \<Rightarrow> ('e, 'm, 'c, 'd, 'w) facade \<Rightarrow> ('e, 'm, 'c, 'd, 'w) facade option" where
  "perform B run a s =
     (case a of
        SendNt e d \<Rightarrow> facade_sendNt B run e d s
      | OnNt e m c as \<Rightarrow> Some (onNt e m c as s)
      | OffNt e m c \<Rightarrow> Some (offNt e m c s)
      | OnProto e m c as once \<Rightarrow> (let (r, s) = handler_alloc c m as once s in Some (onProto e r s))
      | OffProto e \<Rightarrow> Some (offProto e s)
      | OffProtoByHandler e m c \<Rightarrow> Some (offProtoByHandler e m c s))"

primrec doAct ::
  "nat \<Rightarrow> ('e, 'm, 'c, 'd, 'w) code
   \<Rightarrow> ('e, 'm, 'c, 'd) act \<Rightarrow> ('e, 'm, 'c, 'd, 'w) facade \<Rightarrow> ('e, 'm, 'c, 'd, 'w) facade option" where
  "doAct 0 B = (\<lambda>a s. None)"
| "doAct (Suc n) B = perform B (runCode (doAct n B))"

end
