(* ===== verification/FacadeProps.thy ===== *)
theory FacadeProps
  imports Facade
begin

text \<open>
  Notifications are delivered as the modules rely on: to the handlers that are registered
  when the notification is sent and still are when their turn comes, once each and in the
  order of their registration, whatever the called methods register, remove and send.
\<close>

section \<open>The invariant\<close>

text \<open>All lists of handlers in one function: the observers and the waiting answers.\<close>

definition regs :: "('e, 'm, 'c, 'd, 'w) facade \<Rightarrow> 'e + 'e \<Rightarrow> nat list" where
  "regs s x = (case (case x of Inl e \<Rightarrow> observerMap s e | Inr e \<Rightarrow> protoMap s e) of None \<Rightarrow> [] | Some rs \<Rightarrow> rs)"

abbreviation listed :: "('e, 'm, 'c, 'd, 'w) facade \<Rightarrow> 'e \<Rightarrow> nat list" where
  "listed s e \<equiv> regs s (Inl e)"

lemma regs_unfold:
  "observerMap s e = Some rs \<Longrightarrow> regs s (Inl e) = rs" "protoMap s e = Some rs \<Longrightarrow> regs s (Inr e) = rs"
  by (simp_all add: regs_def)

lemma regs_upd [simp]:
  "regs (s\<lparr>observerMap := (observerMap s)(e \<mapsto> rs)\<rparr>) = (regs s)(Inl e := rs)"
  "regs (s\<lparr>protoMap := (protoMap s)(e \<mapsto> rs)\<rparr>) = (regs s)(Inr e := rs)"
  "regs (s\<lparr>protoMap := (protoMap s)(e := None)\<rparr>) = (regs s)(Inr e := [])"
  "regs (s\<lparr>handlers := h\<rparr>) = regs s" "regs (s\<lparr>hfresh := n\<rparr>) = regs s" "regs (s\<lparr>hlist := l\<rparr>) = regs s"
  "regs (s\<lparr>hwait := l\<rparr>) = regs s" "regs (s\<lparr>guid := i\<rparr>) = regs s" "regs (s\<lparr>world := w\<rparr>) = regs s"
  "regs (s\<lparr>nextNt := n\<rparr>) = regs s" "regs (s\<lparr>called := c\<rparr>) = regs s"
  by (auto simp: regs_def fun_eq_iff split: sum.splits)

definition used :: "('e, 'm, 'c, 'd, 'w) facade \<Rightarrow> nat \<Rightarrow> bool" where
  "used s r \<longleftrightarrow> r < hfresh s \<and> r \<notin> set (hlist s)"

definition key :: "('m, 'c, 'd) handler \<Rightarrow> 'm option \<times> 'c option" where
  "key h = (h_method h, h_context h)"

definition active :: "('m, 'c, 'd) handler \<Rightarrow> bool" where
  "active h \<longleftrightarrow> h_method h \<noteq> None \<and> \<not> isOnce h"

definition facade_inv :: "('e, 'm, 'c, 'd, 'w) facade \<Rightarrow> bool" where
  "facade_inv s \<longleftrightarrow>
     distinct (hlist s) \<and> (\<forall>r\<in>set (hlist s). r < hfresh s) \<and>
     (\<forall>r\<in>set (hwait s). used s r \<and> h_method (handlers s r) = None) \<and>
     (\<forall>x. distinct (regs s x) \<and> (\<forall>r\<in>set (regs s x). used s r \<and> r \<notin> set (hwait s))) \<and>
     (\<forall>x y. x \<noteq> y \<longrightarrow> set (regs s x) \<inter> set (regs s y) = {}) \<and>
     (\<forall>e. inj_on (\<lambda>r. key (handlers s r)) (set (listed s e)) \<and> (\<forall>r\<in>set (listed s e). active (handlers s r)))"

lemma facade_invI:
  assumes "distinct (hlist s)" "\<And>r. r \<in> set (hlist s) \<Longrightarrow> r < hfresh s"
    "\<And>r. r \<in> set (hwait s) \<Longrightarrow> used s r \<and> h_method (handlers s r) = None"
    "\<And>x. distinct (regs s x)" "\<And>x r. r \<in> set (regs s x) \<Longrightarrow> used s r \<and> r \<notin> set (hwait s)"
    "\<And>x y r. r \<in> set (regs s x) \<Longrightarrow> r \<in> set (regs s y) \<Longrightarrow> x = y"
    "\<And>e. inj_on (\<lambda>r. key (handlers s r)) (set (listed s e))"
    "\<And>e r. r \<in> set (listed s e) \<Longrightarrow> active (handlers s r)"
  shows "facade_inv s"
  unfolding facade_inv_def using assms by blast

lemma facade_invD:
  assumes "facade_inv s"
  shows "distinct (hlist s)" "\<And>r. r \<in> set (hlist s) \<Longrightarrow> r < hfresh s"
    "\<And>r. r \<in> set (hwait s) \<Longrightarrow> used s r" "\<And>r. r \<in> set (hwait s) \<Longrightarrow> h_method (handlers s r) = None"
    "\<And>x. distinct (regs s x)" "\<And>x r. r \<in> set (regs s x) \<Longrightarrow> used s r" "\<And>x r. r \<in> set (regs s x) \<Longrightarrow> r \<notin> set (hwait s)"
    "\<And>x y r. r \<in> set (regs s x) \<Longrightarrow> r \<in> set (regs s y) \<Longrightarrow> x = y"
    "\<And>e. inj_on (\<lambda>r. key (handlers s r)) (set (listed s e))"
    "\<And>e r. r \<in> set (listed s e) \<Longrightarrow> active (handlers s r)"
  using assms unfolding facade_inv_def by blast+

section \<open>What a call can change\<close>

text \<open>\<open>later n s t\<close>: handlers in use stay as they are or are released, handlers only enter a list
  when they are new, and leave the lists of observers only by a release; the recorded calls belong
  to notifications from number \<open>n\<close> on.\<close>

definition later :: "nat \<Rightarrow> ('e, 'm, 'c, 'd, 'w) facade \<Rightarrow> ('e, 'm, 'c, 'd, 'w) facade \<Rightarrow> bool" where
  "later n s t \<longleftrightarrow>
     hfresh s \<le> hfresh t \<and> set (hlist t) \<subseteq> set (hlist s) \<and> set (hwait s) \<subseteq> set (hwait t) \<and>
     (\<forall>r. used s r \<longrightarrow> handlers t r = handlers s r \<or> r \<in> set (hwait t)) \<and>
     (\<forall>x r. r \<in> set (regs t x) \<longrightarrow> r \<in> set (regs s x) \<or> \<not> used s r) \<and>
     (\<forall>e r. r \<in> set (listed s e) \<longrightarrow> r \<in> set (listed t e) \<or> r \<in> set (hwait t)) \<and>
     nextNt s \<le> nextNt t \<and> (\<exists>l. called t = called s @ l \<and> (\<forall>c\<in>set l. n \<le> fst c \<and> fst c < nextNt t))"

lemma laterD:
  assumes "later n s t"
  shows "hfresh s \<le> hfresh t" "set (hlist t) \<subseteq> set (hlist s)" "set (hwait s) \<subseteq> set (hwait t)"
    "\<And>r. used s r \<Longrightarrow> handlers t r = handlers s r \<or> r \<in> set (hwait t)"
    "\<And>x r. r \<in> set (regs t x) \<Longrightarrow> r \<in> set (regs s x) \<or> \<not> used s r"
    "\<And>e r. r \<in> set (listed s e) \<Longrightarrow> r \<in> set (listed t e) \<or> r \<in> set (hwait t)"
    "nextNt s \<le> nextNt t" "\<exists>l. called t = called s @ l \<and> (\<forall>c\<in>set l. n \<le> fst c \<and> fst c < nextNt t)"
  using assms unfolding later_def by simp_all

lemma used_later: "later n s t \<Longrightarrow> used s r \<Longrightarrow> used t r"
  using laterD(1,2) [of n s t] by (auto simp: used_def)

lemma later_refl [intro, simp]: "later n s s"
  by (simp add: later_def)

lemma later_mono: "later n s t \<Longrightarrow> k \<le> n \<Longrightarrow> later k s t"
  unfolding later_def by (meson order_trans)

lemma later_trans [trans]: "later n s t \<Longrightarrow> later n t u \<Longrightarrow> later n s u"
proof -
  assume a: "later n s t" and b: "later n t u"
  note ut = used_later [OF a]
  have "handlers u r = handlers s r \<or> r \<in> set (hwait u)" if "used s r" for r
    using laterD(4) [OF a that] laterD(4) [OF b ut [OF that]] laterD(3) [OF b] by auto
  moreover have "r \<in> set (regs s x) \<or> \<not> used s r" if "r \<in> set (regs u x)" for x r
    using laterD(5) [OF b that] laterD(5) [OF a, of r x] ut by blast
  moreover have "r \<in> set (listed u e) \<or> r \<in> set (hwait u)" if "r \<in> set (listed s e)" for e r
    using laterD(6) [OF a that] laterD(6) [OF b, of r e] laterD(3) [OF b] by blast
  moreover obtain l l' where "called t = called s @ l" "\<forall>c\<in>set l. n \<le> fst c \<and> fst c < nextNt t"
      "called u = called t @ l'" "\<forall>c\<in>set l'. n \<le> fst c \<and> fst c < nextNt u"
    using laterD(8) [OF a] laterD(8) [OF b] by blast
  then have "\<exists>l. called u = called s @ l \<and> (\<forall>c\<in>set l. n \<le> fst c \<and> fst c < nextNt u)"
    using laterD(7) [OF b] by (intro exI [of _ "l @ l'"]) auto
  moreover have "hfresh s \<le> hfresh u" "nextNt s \<le> nextNt u" "set (hlist u) \<subseteq> set (hlist s)" "set (hwait s) \<subseteq> set (hwait u)"
    using laterD(1,2,3,7) [OF a] laterD(1,2,3,7) [OF b] by auto
  ultimately show ?thesis unfolding later_def by simp
qed

lemma laterI:
  assumes "hfresh s \<le> hfresh t" "set (hlist t) \<subseteq> set (hlist s)" "set (hwait s) \<subseteq> set (hwait t)"
    "\<And>r. used s r \<Longrightarrow> handlers t r = handlers s r \<or> r \<in> set (hwait t)"
    "\<And>x r. r \<in> set (regs t x) \<Longrightarrow> r \<in> set (regs s x) \<or> \<not> used s r"
    "\<And>e r. r \<in> set (listed s e) \<Longrightarrow> r \<in> set (listed t e) \<or> r \<in> set (hwait t)"
    "nextNt s \<le> nextNt t" "called t = called s"
  shows "later n s t"
  using assms unfolding later_def by simp

text \<open>A state transformer is safe if it keeps the invariant and changes only what a call may change.\<close>

definition safe :: "('e, 'm, 'c, 'd, 'w) facade \<Rightarrow> ('e, 'm, 'c, 'd, 'w) facade \<Rightarrow> bool" where
  "safe s t \<longleftrightarrow> (facade_inv s \<longrightarrow> facade_inv t \<and> later (nextNt s) s t)"

lemma safe_refl [intro, simp]: "safe s s"
  by (simp add: safe_def)

lemma safe_trans [trans]: "safe s t \<Longrightarrow> safe t u \<Longrightarrow> safe s u"
  unfolding safe_def using later_trans later_mono laterD(7) by metis

lemma inv_cong:
  assumes "handlers t = handlers s" "hfresh t = hfresh s" "hlist t = hlist s" "hwait t = hwait s" "regs t = regs s"
  shows "facade_inv t = facade_inv s"
  using assms by (simp add: facade_inv_def used_def)

lemma safe_world [simp]: "safe s (s\<lparr>world := w\<rparr>)"
  using inv_cong [of "s\<lparr>world := w\<rparr>" s] by (auto simp: safe_def intro: laterI)

section \<open>Releasing and allocating\<close>

lemma release_inv:
  assumes inv: "facade_inv s" and u: "used s r" "r \<notin> set (hwait s)" and x: "\<And>y. y \<noteq> x \<Longrightarrow> r \<notin> set (regs s y)"
    and ys: "distinct ys" "set ys = set (regs s x) - {r}"
    and t: "handlers t = (handlers s)(r := handler_onRelease (handlers s r))" "hwait t = hwait s @ [r]"
      "hfresh t = hfresh s" "hlist t = hlist s" "regs t = (regs s)(x := ys)"
  shows "facade_inv t"
proof (rule facade_invI)
  have ut: "used t = used s" by (simp add: used_def fun_eq_iff t)
  have sub: "q \<in> set (regs s z) \<and> q \<noteq> r" if "q \<in> set (regs t z)" for q z
    using that ys x [of z] by (auto simp: t split: if_splits)
  show "distinct (hlist t)" "q \<in> set (hlist t) \<Longrightarrow> q < hfresh t" for q using facade_invD(1,2) [OF inv] by (auto simp: t)
  show "used t q \<and> h_method (handlers t q) = None" if "q \<in> set (hwait t)" for q
    using that u facade_invD(3,4) [OF inv] by (auto simp: ut t handler_onRelease_def)
  show "distinct (regs t z)" for z using facade_invD(5) [OF inv] ys by (simp add: t)
  show "used t q \<and> q \<notin> set (hwait t)" if "q \<in> set (regs t z)" for q z
    using sub [OF that] facade_invD(6,7) [OF inv] by (auto simp: ut t)
  show "z = z'" if "q \<in> set (regs t z)" "q \<in> set (regs t z')" for q z z'
    using sub [OF that(1)] sub [OF that(2)] facade_invD(8) [OF inv] by blast
  show "inj_on (\<lambda>r. key (handlers t r)) (set (listed t e))" for e
    using sub [of _ "Inl e"] facade_invD(9) [OF inv, of e] by (auto simp: inj_on_def t(1))
  show "active (handlers t q)" if "q \<in> set (listed t e)" for q e
    using sub [OF that] facade_invD(10) [OF inv] by (auto simp: t)
qed

lemma release_later:
  assumes inv: "facade_inv s" and u: "used s r" and ys: "set ys = set (regs s x) - {r}"
    and t: "handlers t = (handlers s)(r := handler_onRelease (handlers s r))" "hwait t = hwait s @ [r]"
      "hfresh t = hfresh s" "hlist t = hlist s" "regs t = (regs s)(x := ys)" "nextNt t = nextNt s" "called t = called s"
  shows "later n s t"
  by (rule laterI) (use ys in \<open>auto simp: t split: if_splits\<close>)

lemma handler_release_fields:
  assumes "r \<notin> set (hwait s)"
  shows "handlers (handler_release r s) = (handlers s)(r := handler_onRelease (handlers s r))"
    "hwait (handler_release r s) = hwait s @ [r]" "hfresh (handler_release r s) = hfresh s"
    "hlist (handler_release r s) = hlist s" "regs (handler_release r s) = regs s"
    "nextNt (handler_release r s) = nextNt s" "called (handler_release r s) = called s"
    "observerMap (handler_release r s) = observerMap s" "protoMap (handler_release r s) = protoMap s"
  using assms by (simp_all add: handler_release_def)

lemma handler_release_simps [simp]:
  "hfresh (handler_release r s) = hfresh s" "hlist (handler_release r s) = hlist s" "regs (handler_release r s) = regs s"
  "nextNt (handler_release r s) = nextNt s" "called (handler_release r s) = called s"
  "observerMap (handler_release r s) = observerMap s" "protoMap (handler_release r s) = protoMap s"
  "world (handler_release r s) = world s"
  by (simp_all add: handler_release_def)

lemma safe_release:
  assumes "facade_inv s \<Longrightarrow> used s r" and "facade_inv s \<Longrightarrow> \<forall>x. r \<notin> set (regs s x)"
  shows "safe s (handler_release r s)"
proof (cases "r \<in> set (hwait s)")
  case True
  then show ?thesis by (simp add: handler_release_def)
next
  case False
  note f = handler_release_fields [OF False]
  show ?thesis unfolding safe_def
  proof
    assume inv: "facade_inv s"
    note u = assms(1) [OF inv] and no = assms(2) [OF inv, rule_format]
    have e: "set (regs s (Inl undefined)) = set (regs s (Inl undefined)) - {r}" using no by auto
    have "facade_inv (handler_release r s)"
      using no facade_invD(5) [OF inv] by (intro release_inv [OF inv u False _ _ e]) (simp_all add: f)
    moreover have "later (nextNt s) s (handler_release r s)"
      by (rule release_later [OF inv u e]) (simp_all add: f)
    ultimately show "facade_inv (handler_release r s) \<and> later (nextNt s) s (handler_release r s)" ..
  qed
qed

lemma alloc_cases:
  assumes "handler_alloc c m as once s = (r, t)"
  defines "h \<equiv> \<lparr>h_id = guid s, h_context = c, h_method = Some m, h_args = as, h_once = once\<rparr>"
  obtains "hlist s = []" "r = hfresh s" "t = s\<lparr>hfresh := Suc r, handlers := (handlers s)(r := h), guid := guid s + 1\<rparr>"
  | l where "hlist s = l @ [r]" "t = s\<lparr>hlist := l, handlers := (handlers s)(r := h), guid := guid s + 1\<rparr>"
proof (cases "hlist s" rule: rev_cases)
  case Nil
  then show ?thesis using that(1) assms by (auto simp: handler_alloc_def)
next
  case (snoc l x)
  then show ?thesis using that(2) [of l] assms by (auto simp: handler_alloc_def)
qed

lemma alloc_fields:
  assumes inv: "facade_inv s" and a: "handler_alloc c m as once s = (r, t)"
  shows "\<not> used s r" "r \<notin> set (hwait s)" "used t q \<longleftrightarrow> used s q \<or> q = r" "hwait t = hwait s"
    "set (hlist t) = set (hlist s) - {r}" "distinct (hlist t)" "hfresh s \<le> hfresh t" "r < hfresh t"
    "handlers t = (handlers s)(r := \<lparr>h_id = guid s, h_context = c, h_method = Some m, h_args = as, h_once = once\<rparr>)"
    "regs t = regs s" "nextNt t = nextNt s" "called t = called s" "observerMap t = observerMap s" "protoMap t = protoMap s"
proof -
  note i = facade_invD(1,2) [OF inv]
  show n: "\<not> used s r" using a by (cases rule: alloc_cases) (auto simp: used_def)
  then show "r \<notin> set (hwait s)" using facade_invD(3) [OF inv] by blast
  show "set (hlist t) = set (hlist s) - {r}" "distinct (hlist t)" "hfresh s \<le> hfresh t" "r < hfresh t"
    "used t q \<longleftrightarrow> used s q \<or> q = r"
    using a i by (cases rule: alloc_cases; auto simp: used_def)+
  show "handlers t = (handlers s)(r := \<lparr>h_id = guid s, h_context = c, h_method = Some m, h_args = as, h_once = once\<rparr>)"
    "hwait t = hwait s" "regs t = regs s" "nextNt t = nextNt s" "called t = called s"
    "observerMap t = observerMap s" "protoMap t = protoMap s"
    using a by (cases rule: alloc_cases; simp)+
qed

lemma add_inv:
  assumes inv: "facade_inv s" and a: "handler_alloc c m as once s = (r, s1)"
    and x: "\<And>e. x = Inl e \<Longrightarrow> c \<noteq> None \<and> \<not> once \<and> (\<forall>q\<in>set (listed s e). key (handlers s q) \<noteq> (Some m, c))"
    and t: "handlers t = handlers s1" "hwait t = hwait s1" "hfresh t = hfresh s1" "hlist t = hlist s1"
      "regs t = (regs s)(x := regs s x @ [r])"
  shows "facade_inv t"
proof (rule facade_invI)
  note f = alloc_fields [OF inv a]
  have ut: "used t q \<longleftrightarrow> used s q \<or> q = r" for q using f(3) by (simp add: used_def t)
  have new: "r \<notin> set (regs s z)" for z using f(1) facade_invD(6) [OF inv] by blast
  have sub: "q \<in> set (regs s z) \<and> q \<noteq> r \<or> q = r \<and> z = x" if "q \<in> set (regs t z)" for q z
    using that new [of z] by (auto simp: t split: if_splits)
  have h: "q \<noteq> r \<Longrightarrow> handlers t q = handlers s q" for q by (simp add: t f(9))
  show "distinct (hlist t)" "q \<in> set (hlist t) \<Longrightarrow> q < hfresh t" for q
    using f(5-7) facade_invD(2) [OF inv, of q] by (auto simp: t)
  show "used t q \<and> h_method (handlers t q) = None" if "q \<in> set (hwait t)" for q
  proof -
    have "q \<in> set (hwait s)" "q \<noteq> r" using that f(2,4) by (auto simp: t)
    then show ?thesis using facade_invD(3,4) [OF inv, of q] h [of q] by (auto simp: ut)
  qed
  show "distinct (regs t z)" for z using facade_invD(5) [OF inv] new by (simp add: t)
  show "used t q \<and> q \<notin> set (hwait t)" if "q \<in> set (regs t z)" for q z
    using sub [OF that] facade_invD(6,7) [OF inv] f(2,4) by (auto simp: ut t(2))
  show "z = z'" if "q \<in> set (regs t z)" "q \<in> set (regs t z')" for q z z'
    using sub [OF that(1)] sub [OF that(2)] facade_invD(8) [OF inv] new by blast
  show "inj_on (\<lambda>r. key (handlers t r)) (set (listed t e))" for e
  proof -
    have same: "handlers t q = handlers s q" if "q \<in> set (listed s e)" for q using that new [of "Inl e"] by (intro h) auto
    then have old: "inj_on (\<lambda>r. key (handlers t r)) (set (listed s e))"
      using facade_invD(9) [OF inv, of e] by (simp add: inj_on_def)
    show ?thesis
    proof (cases "x = Inl e")
      case True
      have "key (handlers t r) = (Some m, c)" by (simp add: key_def t f(9))
      moreover have "key (handlers t q) \<noteq> (Some m, c)" if "q \<in> set (listed s e)" for q
        using x [OF True] that same by auto
      ultimately have "key (handlers t r) \<notin> (\<lambda>r. key (handlers t r)) ` set (listed s e)" by force
      then show ?thesis using True old new by (auto simp: t(5) inj_on_insert)
    next
      case False
      then show ?thesis using old by (simp add: t(5))
    qed
  qed
  show "active (handlers t q)" if "q \<in> set (listed t e)" for q e
    using sub [OF that] facade_invD(10) [OF inv, of q e] h [of q] x [of e]
    by (auto simp: active_def isOnce_def t f(9))
qed

lemma add_later:
  assumes inv: "facade_inv s" and a: "handler_alloc c m as once s = (r, s1)"
    and t: "handlers t = handlers s1" "hwait t = hwait s1" "hfresh t = hfresh s1" "hlist t = hlist s1"
      "regs t = (regs s)(x := regs s x @ [r])" "nextNt t = nextNt s" "called t = called s"
  shows "later n s t"
  using alloc_fields [OF inv a] by (intro laterI) (auto simp: t split: if_splits)

section \<open>Every call is safe\<close>

definition okAct :: "('e, 'm, 'c, 'd) act \<Rightarrow> bool" where
  "okAct a \<longleftrightarrow> (\<forall>e m c as. a = OnNt e m c as \<longrightarrow> c \<noteq> None)"

lemma safeI: "(facade_inv s \<Longrightarrow> facade_inv t \<and> later (nextNt s) s t) \<Longrightarrow> safe s t"
  by (simp add: safe_def)

lemma safe_cong:
  assumes "handlers t = handlers s" "hfresh t = hfresh s" "hlist t = hlist s" "hwait t = hwait s" "regs t = regs s"
    "nextNt s \<le> nextNt t" "called t = called s"
  shows "safe s t"
  using assms inv_cong [of t s] by (auto intro!: safeI laterI)

lemma safe_add:
  assumes a: "handler_alloc c m as once s = (r, s1)"
    and x: "\<And>e. facade_inv s \<Longrightarrow> x = Inl e \<Longrightarrow> c \<noteq> None \<and> \<not> once \<and> (\<forall>q\<in>set (listed s e). key (handlers s q) \<noteq> (Some m, c))"
    and t: "handlers t = handlers s1" "hwait t = hwait s1" "hfresh t = hfresh s1" "hlist t = hlist s1"
      "nextNt t = nextNt s1" "called t = called s1" "regs t = (regs s1)(x := regs s1 x @ [r])"
  shows "safe s t"
proof (rule safeI)
  assume inv: "facade_inv s"
  note f = alloc_fields [OF inv a]
  have g: "regs t = (regs s)(x := regs s x @ [r])" using t(7) by (simp add: f(10))
  show "facade_inv t \<and> later (nextNt s) s t"
    using add_inv [OF inv a x [OF inv] t(1-4) g] add_later [OF inv a t(1-4) g] by (simp add: t f(11,12))
qed

lemma safe_onNt: "c \<noteq> None \<Longrightarrow> safe s (onNt e m c as s)"
proof -
  assume c: "c \<noteq> None"
  let ?s = "s\<lparr>observerMap := (observerMap s)(e \<mapsto> listed s e)\<rparr>"
  have s1: "safe s ?s" by (rule safe_cong) auto
  have l: "listed s e = (case observerMap s e of None \<Rightarrow> [] | Some rs \<Rightarrow> rs)" by (simp add: regs_def)
  show ?thesis
  proof (cases "find (\<lambda>r. equalMethod (handlers s r) (Some m) c) (listed s e)")
    case None
    obtain r t where a: "handler_alloc c m as False ?s = (r, t)" by force
    have "regs t = regs ?s" using a by (cases rule: alloc_cases) simp_all
    then have "safe ?s (t\<lparr>observerMap := (observerMap t)(e \<mapsto> listed s e @ [r])\<rparr>)"
      using None c by (intro safe_add [OF a, where x = "Inl e"]) (auto simp: find_None_iff equalMethod_def key_def)
    then show ?thesis using s1 a None safe_trans by (fastforce simp: onNt_def l [symmetric] Let_def)
  next
    case (Some r)
    then show ?thesis using s1 by (simp add: onNt_def l [symmetric] Let_def)
  qed
qed

lemma safe_onProto:
  "handler_alloc c m as once s = (r, s1) \<Longrightarrow> safe s (onProto e r s1)"
  by (rule safe_add [where x = "Inr e"]) (auto simp: onProto_def regs_def Let_def split: option.splits sum.splits)

lemma safe_drop:
  assumes r: "r \<in> set (regs s x)" and ys: "facade_inv s \<Longrightarrow> distinct ys \<and> set ys = set (regs s x) - {r}"
    and t: "handlers t = handlers (handler_release r s)" "hwait t = hwait (handler_release r s)"
      "hfresh t = hfresh s" "hlist t = hlist s" "nextNt t = nextNt s" "called t = called s" "regs t = (regs s)(x := ys)"
  shows "safe s t"
proof (rule safeI)
  assume inv: "facade_inv s"
  note u = facade_invD(6) [OF inv r] and w = facade_invD(7) [OF inv r] and y = ys [OF inv]
  have o: "y \<noteq> x \<Longrightarrow> r \<notin> set (regs s y)" for y using facade_invD(8) [OF inv r] by blast
  note f = handler_release_fields(1,2) [OF w]
  show "facade_inv t \<and> later (nextNt s) s t"
    using release_inv [OF inv u w o, of x ys t] release_later [OF inv u, of ys x t] y by (simp add: t f)
qed

lemma regs_release_upd [simp]:
  "regs ((handler_release r s)\<lparr>observerMap := (observerMap s)(e \<mapsto> rs)\<rparr>) = (regs s)(Inl e := rs)"
  "regs ((handler_release r s)\<lparr>protoMap := (protoMap s)(e \<mapsto> rs)\<rparr>) = (regs s)(Inr e := rs)"
  using regs_upd(1,2) [of "handler_release r s" e rs] by simp_all

lemma safe_offNt: "safe s (offNt e m c s)"
proof (cases "observerMap s e")
  case None
  then show ?thesis by (simp add: offNt_def)
next
  case (Some rs)
  show ?thesis
  proof (cases "find (\<lambda>r. equalMethod (handlers s r) (Some m) c) rs")
    case None
    then show ?thesis using Some by (simp add: offNt_def)
  next
    case (Some r)
    have rs: "regs s (Inl e) = rs" using \<open>observerMap s e = Some rs\<close> by (rule regs_unfold)
    have "r \<in> set rs" using Some by (auto simp: find_Some_iff)
    then have "safe s ((handler_release r s)\<lparr>observerMap := (observerMap s)(e \<mapsto> remove1 r rs)\<rparr>)"
      using facade_invD(5) [of s "Inl e"] by (intro safe_drop [of r s "Inl e"]) (simp_all add: rs)
    then show ?thesis using Some \<open>observerMap s e = Some rs\<close> by (simp add: offNt_def Let_def)
  qed
qed

lemma lastMatch_less: "lastMatch p n rs = Some k \<Longrightarrow> k < n"
  by (induction n) (auto split: if_splits)

lemma distinct_drop_nth:
  assumes "distinct rs" "k < length rs"
  shows "distinct (take k rs @ drop (Suc k) rs)" "set (take k rs @ drop (Suc k) rs) = set rs - {rs ! k}"
proof -
  have "distinct (take k rs @ rs ! k # drop (Suc k) rs)" "set rs = set (take k rs @ rs ! k # drop (Suc k) rs)"
    using assms by (simp_all add: id_take_nth_drop [symmetric])
  then show "distinct (take k rs @ drop (Suc k) rs)" "set (take k rs @ drop (Suc k) rs) = set rs - {rs ! k}" by auto
qed

lemma safe_offProtoByHandler: "safe s (offProtoByHandler e m c s)"
proof (cases "protoMap s e")
  case None
  then show ?thesis by (simp add: offProtoByHandler_def)
next
  case (Some rs)
  have rs: "regs s (Inr e) = rs" using Some by (rule regs_unfold)
  show ?thesis
  proof (cases "lastMatch (\<lambda>r. equalMethod (handlers s r) m c) (length rs) rs")
    case None
    then show ?thesis using Some by (simp add: offProtoByHandler_def)
  next
    case (Some k)
    note k = lastMatch_less [OF Some]
    have "safe s ((handler_release (rs ! k) s)\<lparr>protoMap := (protoMap s)(e \<mapsto> take k rs @ drop (Suc k) rs)\<rparr>)"
    proof (rule safe_drop [of "rs ! k" s "Inr e"])
      show "distinct (take k rs @ drop (Suc k) rs) \<and> set (take k rs @ drop (Suc k) rs) = set (regs s (Inr e)) - {rs ! k}"
        if "facade_inv s" using distinct_drop_nth [OF _ k] facade_invD(5) [OF that, of "Inr e"] by (simp add: rs)
    qed (use k in \<open>simp_all add: rs\<close>)
    then show ?thesis using Some \<open>protoMap s e = Some rs\<close> by (simp add: offProtoByHandler_def Let_def)
  qed
qed

lemma fold_release_protoMap:
  "fold handler_release rs (s\<lparr>protoMap := p\<rparr>) = (fold handler_release rs s)\<lparr>protoMap := p\<rparr>"
proof -
  have a: "handler_release r (s\<lparr>protoMap := p\<rparr>) = (handler_release r s)\<lparr>protoMap := p\<rparr>"
    for r and s :: "('a, 'b, 'c, 'd, 'e) facade" by (simp add: handler_release_def)
  show ?thesis by (induction rs arbitrary: s) (simp_all add: a)
qed

lemma protoMap_fold_release [simp]: "protoMap (fold handler_release rs s) = protoMap s"
  by (induction rs arbitrary: s) simp_all

lemma safe_forget: "regs s (Inr e) = [] \<Longrightarrow> safe s (s\<lparr>protoMap := (protoMap s)(e := None)\<rparr>)"
proof (rule safe_cong)
  assume "regs s (Inr e) = []"
  then show "regs (s\<lparr>protoMap := (protoMap s)(e := None)\<rparr>) = regs s" unfolding regs_upd by auto
qed simp_all

lemma safe_offProto: "safe s (offProto e s)"
proof -
  have "safe s ((fold handler_release rs s)\<lparr>protoMap := (protoMap s)(e := None)\<rparr>)" if "protoMap s e = Some rs" for rs
    using that
  proof (induction rs arbitrary: s)
    case Nil
    from safe_forget [OF regs_unfold(2) [OF this]] show ?case by (simp only: fold_simps)
  next
    case (Cons r rs)
    let ?s = "(handler_release r s)\<lparr>protoMap := (protoMap s)(e \<mapsto> rs)\<rparr>"
    have g: "regs s (Inr e) = r # rs" using Cons.prems by (rule regs_unfold)
    have "safe s ?s"
      using facade_invD(5) [of s "Inr e"] by (intro safe_drop [of r s "Inr e"]) (auto simp: g)
    also have "safe ?s ((fold handler_release rs ?s)\<lparr>protoMap := (protoMap ?s)(e := None)\<rparr>)" by (rule Cons.IH) simp
    also have "(fold handler_release rs ?s)\<lparr>protoMap := (protoMap ?s)(e := None)\<rparr>
        = (fold handler_release (r # rs) s)\<lparr>protoMap := (protoMap s)(e := None)\<rparr>" by (simp add: fold_release_protoMap)
    finally show ?case .
  qed
  moreover have "safe s (s\<lparr>protoMap := (protoMap s)(e := None)\<rparr>)" if "protoMap s e = None"
    using that by (intro safe_forget) (simp add: regs_def)
  ultimately show ?thesis by (cases "protoMap s e") (simp_all add: offProto_def Let_def)
qed

section \<open>Executing client code\<close>

definition codeOk :: "('e, 'm, 'c, 'd, 'w) code \<Rightarrow> bool" where
  "codeOk B \<longleftrightarrow> (\<forall>m c as nt w. allActs okAct (B m c as nt w))"

definition runOk ::
  "((('e, 'm, 'c, 'd) act, 'w) script \<Rightarrow> ('e, 'm, 'c, 'd, 'w) facade \<Rightarrow> ('e, 'm, 'c, 'd, 'w) facade option) \<Rightarrow> bool" where
  "runOk run \<longleftrightarrow> (\<forall>sc s t. allActs okAct sc \<longrightarrow> run sc s = Some t \<longrightarrow> safe s t)"

lemma safe_runScript:
  assumes "\<And>a s t. okAct a \<Longrightarrow> p a s = Some t \<Longrightarrow> safe s t"
  shows "allActs okAct sc \<Longrightarrow> runCode p sc s = Some t \<Longrightarrow> safe s t"
  by (rule runScript_induct [of safe "\<lambda>w. world_update (\<lambda>_. w)" okAct p]) (auto intro: assms safe_trans)

text \<open>A handler that gets its turn is in use and no waiting answer.\<close>

definition mayRun :: "('e, 'm, 'c, 'd, 'w) facade \<Rightarrow> nat \<Rightarrow> bool" where
  "mayRun s r \<longleftrightarrow> used s r \<and> (\<forall>e. r \<notin> set (regs s (Inr e)))"

lemma mayRun_later: "later n s t \<Longrightarrow> mayRun s r \<Longrightarrow> mayRun t r"
  using laterD(5) [of n s t] used_later [of n s t r] unfolding mayRun_def by blast

lemma exec_cases:
  assumes "exec B run nt r s = Some t"
  obtains "h_method (handlers s r) = None" "t = s"
  | m u where "h_method (handlers s r) = Some m"
      "run (B m (h_context (handlers s r)) (h_args (handlers s r)) nt (world s))
         (s\<lparr>called := called s @ [(nt_id nt, r, m, h_context (handlers s r))]\<rparr>) = Some u"
      "t = u \<or> isOnce (handlers u r) \<and> t = handler_release r u"
  using assms by (auto simp: exec_def Let_def split: option.splits if_splits)

lemma safe_finish:
  assumes inv: "facade_inv s" "facade_inv u" and l: "later n s u" and r: "mayRun s r" and t: "isOnce (handlers u r)"
  shows "safe u (handler_release r u)"
proof (rule safe_release)
  note m = mayRun_later [OF l r]
  show "used u r" using m by (simp add: mayRun_def)
  show "\<forall>x. r \<notin> set (regs u x)"
  proof
    fix x
    show "r \<notin> set (regs u x)"
    proof (cases x)
      case (Inl e)
      then show ?thesis using facade_invD(10) [OF inv(2), of r e] t by (auto simp: active_def)
    next
      case (Inr e)
      then show ?thesis using m by (simp add: mayRun_def)
    qed
  qed
qed

lemma exec_safe:
  assumes run: "runOk run" and B: "codeOk B"
    and e: "exec B run nt r s = Some t" and inv: "facade_inv s" and r: "mayRun s r" and n: "nt_id nt < nextNt s"
  shows "facade_inv t" "later (nt_id nt) s t"
    and "\<exists>l. called t = called s @ (case h_method (handlers s r) of None \<Rightarrow> [] | Some m \<Rightarrow> [(nt_id nt, r, m, h_context (handlers s r))]) @ l
           \<and> (\<forall>c\<in>set l. nt_id nt < fst c)"
proof -
  let ?c = "\<lambda>m. (nt_id nt, r, m, h_context (handlers s r))"
  have "facade_inv t \<and> later (nt_id nt) s t \<and>
      (\<exists>l. called t = called s @ (case h_method (handlers s r) of None \<Rightarrow> [] | Some m \<Rightarrow> [?c m]) @ l \<and> (\<forall>c\<in>set l. nt_id nt < fst c))"
    using e
  proof (cases rule: exec_cases)
    case 1
    then show ?thesis using inv by simp
  next
    case (2 m u)
    let ?s = "s\<lparr>called := called s @ [?c m]\<rparr>"
    have inv': "facade_inv ?s" using inv inv_cong [of ?s s] by simp
    have "safe ?s u" using B 2(2) run unfolding codeOk_def runOk_def by blast
    then have u: "facade_inv u" "later (nextNt s) ?s u" using inv' by (auto simp: safe_def)
    have l0: "later (nt_id nt) s ?s" using n by (simp add: later_def used_def)
    have l: "later (nt_id nt) s u" using later_trans [OF l0 later_mono [OF u(2)]] n by simp
    obtain k where k: "called u = called s @ [?c m] @ k" "\<forall>c\<in>set k. nextNt s \<le> fst c" using laterD(8) [OF u(2)] by auto
    have ut: "facade_inv t \<and> later (nextNt u) u t \<and> called t = called u"
      using 2(3) safe_finish [OF inv u(1) l r] u(1) by (auto simp: safe_def)
    moreover have "later (nt_id nt) s t"
      using ut later_trans [OF l later_mono] laterD(7) [OF l] n by auto
    ultimately show ?thesis using k n 2(1) by auto
  qed
  then show "facade_inv t" "later (nt_id nt) s t"
    "\<exists>l. called t = called s @ (case h_method (handlers s r) of None \<Rightarrow> [] | Some m \<Rightarrow> [?c m]) @ l \<and> (\<forall>c\<in>set l. nt_id nt < fst c)"
    by auto
qed

text \<open>Runs of turns, and the whole calls.\<close>

lemma eachTurn_safe:
  assumes run: "runOk run" and B: "codeOk B"
  shows "eachTurn (exec B run nt) rs s = Some t \<Longrightarrow> facade_inv s \<Longrightarrow> \<forall>r\<in>set rs. mayRun s r \<Longrightarrow> nt_id nt < nextNt s \<Longrightarrow>
    facade_inv t \<and> later (nt_id nt) s t"
proof (induction rs arbitrary: s)
  case (Cons r rs)
  from Cons.prems(1) obtain u where u: "exec B run nt r s = Some u" "eachTurn (exec B run nt) rs u = Some t"
    by (auto split: option.splits)
  have r: "mayRun s r" using Cons.prems(3) by simp
  note x = exec_safe(1,2) [OF run B u(1) Cons.prems(2) r Cons.prems(4)]
  have "\<forall>r\<in>set rs. mayRun u r" "nt_id nt < nextNt u"
    using Cons.prems(3,4) mayRun_later [OF x(2)] laterD(7) [OF x(2)] by auto
  with Cons.IH [OF u(2) x(1)] show ?case using later_trans [OF x(2)] by blast
qed simp

lemma alloc_nt:
  assumes "notification_alloc e d s = (nt, t)"
  shows "nt_id nt = nextNt s" "safe s t" "nextNt t = Suc (nextNt s)" "regs t = regs s" "handlers t = handlers s"
    "used t = used s" "hwait t = hwait s" "called t = called s" "observerMap t = observerMap s" "nt_type nt = e"
  using assms by (auto simp: notification_alloc_def used_def fun_eq_iff intro: safe_cong)

lemma shift_safe:
  assumes "regs s (Inr e) = r # rs"
  shows "safe s (s\<lparr>protoMap := (protoMap s)(e \<mapsto> rs)\<rparr>)"
proof (rule safeI)
  assume inv: "facade_inv s"
  let ?t = "s\<lparr>protoMap := (protoMap s)(e \<mapsto> rs)\<rparr>"
  have sub: "set (regs ?t x) \<subseteq> set (regs s x)" for x using assms by auto
  have u: "used ?t = used s" by (simp add: used_def fun_eq_iff)
  have d: "distinct (regs ?t x)" for x using facade_invD(5) [OF inv, of x] assms by auto
  have "facade_inv ?t"
  proof (rule facade_invI)
    show "x = y" if "q \<in> set (regs ?t x)" "q \<in> set (regs ?t y)" for x y q
      using facade_invD(8) [OF inv] sub that by blast
    show "used ?t q \<and> q \<notin> set (hwait ?t)" if "q \<in> set (regs ?t x)" for q x
      using facade_invD(6,7) [OF inv, of q x] sub [of x] that by (auto simp: u)
  qed (use facade_invD [OF inv] d u in simp_all)
  moreover have "later (nextNt s) s ?t" by (rule laterI) (use sub in auto)
  ultimately show "facade_inv ?t \<and> later (nextNt s) s ?t" ..
qed

lemma execProto_cases:
  assumes "execProto B run e d s = Some (b, t)"
  obtains "\<not> b" "t = s" "regs s (Inr e) = []"
  | r rs nt s1 u where "b" "regs s (Inr e) = r # rs"
      "notification_alloc e d (s\<lparr>protoMap := (protoMap s)(e \<mapsto> rs)\<rparr>) = (nt, s1)"
      "exec B run nt r s1 = Some u" "t = handler_release r u"
  using assms by (auto simp: execProto_def regs_def split: option.splits list.splits prod.splits)

lemma execProto_safe:
  assumes run: "runOk run" and B: "codeOk B"
    and e: "execProto B run e d s = Some (b, t)"
  shows "safe s t"
  using e
proof (cases rule: execProto_cases)
  case (2 r rs nt s1 u)
  let ?s = "s\<lparr>protoMap := (protoMap s)(e \<mapsto> rs)\<rparr>"
  note a = alloc_nt [OF 2(3)]
  show ?thesis
  proof (rule safeI)
    assume inv: "facade_inv s"
    have s1: "facade_inv s1" "later (nextNt s) s s1"
      using inv safe_trans [OF shift_safe [OF 2(2)] a(2)] by (auto simp: safe_def)
    have "r \<notin> set (regs s1 x)" for x
      using facade_invD(5) [OF inv, of "Inr e"] facade_invD(8) [OF inv, of r "Inr e" x] 2(2) by (auto simp: a)
    moreover have "used s1 r" using facade_invD(6) [OF inv, of r "Inr e"] 2(2) by (simp add: a used_def)
    ultimately have r: "mayRun s1 r" "\<forall>x. r \<notin> set (regs s1 x)" by (auto simp: mayRun_def)
    note x = exec_safe(1,2) [OF run B 2(4) s1(1) r(1)]
    have x: "facade_inv u" "later (nextNt s) s1 u" using x a(1,3) by simp_all
    have "safe u (handler_release r u)"
      using used_later [OF x(2)] laterD(5) [OF x(2), of r] r by (intro safe_release) (auto simp: mayRun_def)
    then have "facade_inv t" "later (nextNt s) u t"
      using x(1) 2(5) later_mono [of "nextNt u" u t "nextNt s"] laterD(7) [OF s1(2)] laterD(7) [OF x(2)]
      by (auto simp: safe_def)
    then show "facade_inv t \<and> later (nextNt s) s t" using later_trans [OF s1(2)] later_trans [OF x(2)] by blast
  qed
qed simp

lemma listed_mayRun: "facade_inv s \<Longrightarrow> r \<in> set (listed s e) \<Longrightarrow> mayRun s r"
  using facade_invD(6,8) [of s r "Inl e"] by (auto simp: mayRun_def)

lemma sendNt_safe:
  assumes run: "runOk run" and B: "codeOk B"
    and e: "facade_sendNt B run e d s = Some t"
  shows "safe s t"
proof -
  from e obtain b u where u: "execProto B run e d s = Some (b, u)"
    by (auto simp: facade_sendNt_def split: option.splits)
  note p = execProto_safe [OF run B u]
  consider "t = u" | rs nt s1 where "\<not> b" "observerMap u e = Some rs" "notification_alloc e d u = (nt, s1)"
      "eachTurn (exec B run nt) rs s1 = Some t"
    using e u by (auto simp: facade_sendNt_def split: option.splits bool.splits prod.splits)
  then show ?thesis
  proof cases
    case 2
    note a = alloc_nt [OF 2(3)]
    have "safe u t"
    proof (rule safeI)
      assume inv: "facade_inv u"
      then have s1: "facade_inv s1" "later (nextNt u) u s1" using a(2) by (auto simp: safe_def)
      have "\<forall>r\<in>set rs. mayRun s1 r" using listed_mayRun [OF s1(1), of _ e] regs_unfold(1) [OF 2(2)] by (simp add: a)
      with eachTurn_safe [OF run B 2(4) s1(1)] show "facade_inv t \<and> later (nextNt u) u t"
        using a(1,3) later_trans [OF s1(2)] by auto
    qed
    with p show ?thesis by (rule safe_trans)
  qed (use p in simp)
qed

lemma doAct_safe:
  assumes B: "codeOk B"
  shows "okAct a \<Longrightarrow> doAct n B a s = Some t \<Longrightarrow> safe s t"
proof (induction n arbitrary: a s t)
  case (Suc n)
  have run: "runOk (runCode (doAct n B))" unfolding runOk_def using safe_runScript [of "doAct n B"] Suc.IH by blast
  show ?case
  proof (cases a)
    case (SendNt e d)
    then show ?thesis using Suc.prems(2) by (auto simp: perform_def intro: sendNt_safe [OF run B])
  next
    case (OnNt e m c as)
    then show ?thesis using Suc.prems by (auto simp: perform_def okAct_def intro: safe_onNt)
  next
    case (OnProto e m c as once)
    then show ?thesis using Suc.prems(2) by (auto simp: perform_def split: prod.splits intro: safe_onProto)
  qed (use Suc.prems(2) in \<open>auto simp: perform_def intro: safe_offNt safe_offProto safe_offProtoByHandler\<close>)
qed simp

section \<open>The invariant holds always\<close>

inductive facade_step ::
  "('e, 'm, 'c, 'd, 'w) code \<Rightarrow> ('e, 'm, 'c, 'd, 'w) facade \<Rightarrow> ('e, 'm, 'c, 'd, 'w) facade \<Rightarrow> bool"
  for B where
  call: "okAct a \<Longrightarrow> doAct n B a s = Some t \<Longrightarrow> facade_step B s t"
| clean: "facade_step B s (handler_resize k s)"
| other: "facade_step B s (s\<lparr>world := w\<rparr>)"

lemma moveWait_distinct: "distinct l \<Longrightarrow> distinct (moveWait w l) \<and> set (moveWait w l) = set w \<union> set l"
  by (induction w l rule: moveWait.induct) auto

lemma resize_inv:
  assumes inv: "facade_inv s"
  shows "facade_inv (handler_resize k s)"
proof (rule facade_invI)
  let ?t = "handler_resize k s"
  have m: "distinct (moveWait (rev (hwait s)) (hlist s))" "set (moveWait (rev (hwait s)) (hlist s)) = set (hwait s) \<union> set (hlist s)"
    using moveWait_distinct [OF facade_invD(1) [OF inv], of "rev (hwait s)"] by auto
  have l: "set (hlist ?t) \<subseteq> set (hwait s) \<union> set (hlist s)" using m set_take_subset by (fastforce simp: handler_resize_def)
  have f: "regs ?t = regs s" "handlers ?t = handlers s" "hfresh ?t = hfresh s" "hwait ?t = []"
    by (simp_all add: handler_resize_def)
  show "distinct (hlist ?t)" using m(1) by (simp add: handler_resize_def)
  show "r < hfresh ?t" if "r \<in> set (hlist ?t)" for r
    using that l facade_invD(2,3) [OF inv, of r] by (auto simp: f used_def)
  show "used ?t r \<and> r \<notin> set (hwait ?t)" if "r \<in> set (regs ?t x)" for r x
    using that l facade_invD(6,7) [OF inv, of r x] by (auto simp: f used_def)
  show "x = y" if "r \<in> set (regs ?t x)" "r \<in> set (regs ?t y)" for r x y
    using that facade_invD(8) [OF inv] by (simp add: f)
qed (use facade_invD [OF inv] in \<open>simp_all add: handler_resize_def\<close>)

lemma new_facade_inv: "facade_inv (new_facade w)"
  by (rule facade_invI) (simp_all add: new_facade_def regs_def split: sum.splits)

lemma reachable_inv:
  assumes B: "codeOk B" and r: "(facade_step B)\<^sup>*\<^sup>* (new_facade w) s"
  shows "facade_inv s"
  using r
proof (induction rule: rtranclp_induct)
  case base
  show ?case by (rule new_facade_inv)
next
  case (step s t)
  from step.hyps(2) show ?case
  proof cases
    case (call a n)
    then show ?thesis using doAct_safe [OF B] step.IH by (auto simp: safe_def)
  next
    case (clean k)
    then show ?thesis using resize_inv step.IH by simp
  next
    case (other w)
    then show ?thesis using safe_world [of s w, unfolded safe_def] step.IH by blast
  qed
qed

lemma called_old:
  assumes B: "codeOk B" and r: "(facade_step B)\<^sup>*\<^sup>* (new_facade w) s"
  shows "\<forall>c\<in>set (called s). fst c < nextNt s"
  using r
proof (induction rule: rtranclp_induct)
  case base
  show ?case by (simp add: new_facade_def)
next
  case (step s t)
  have inv: "facade_inv s" by (rule reachable_inv [OF B step.hyps(1)])
  from step.hyps(2) show ?case
  proof cases
    case (call a n)
    then have l: "later (nextNt s) s t" using doAct_safe [OF B] inv by (auto simp: safe_def)
    show ?thesis using laterD(7,8) [OF l] step.IH by fastforce
  next
    case (clean k)
    then show ?thesis using step.IH by (simp add: handler_resize_def)
  next
    case (other w)
    then show ?thesis using step.IH by simp
  qed
qed

section \<open>Delivery\<close>

definition callsOf :: "nat \<Rightarrow> ('e, 'm, 'c, 'd, 'w) facade \<Rightarrow> (nat \<times> 'm \<times> 'c option) list" where
  "callsOf i s = map snd (filter (\<lambda>c. fst c = i) (called s))"

lemma callsOf_append:
  assumes "called t = called s @ xs @ l" "\<forall>c\<in>set l. i < fst c"
  shows "callsOf i t = callsOf i s @ map snd (filter (\<lambda>c. fst c = i) xs)"
proof -
  have "filter (\<lambda>c. fst c = i) l = []" using assms(2) unfolding filter_empty_conv by blast
  then show ?thesis by (simp add: callsOf_def assms(1))
qed

definition callEntry :: "('e, 'm, 'c, 'd, 'w) facade \<Rightarrow> nat \<Rightarrow> nat \<times> 'm \<times> 'c option" where
  "callEntry s r = (r, the (h_method (handlers s r)), h_context (handlers s r))"

lemma runOk_doAct: "codeOk B \<Longrightarrow> runOk (runCode (doAct n B))"
  unfolding runOk_def using safe_runScript [of "doAct n B"] doAct_safe by blast

lemma waiting_unlisted: "facade_inv s \<Longrightarrow> r \<in> set (hwait s) \<Longrightarrow> r \<notin> set (regs s x)"
  using facade_invD(7) by blast

interpretation observers: broadcast "exec B (runCode (doAct n B)) nt"
    "\<lambda>s. codeOk B \<and> facade_inv s \<and> nt_id nt < nextNt s"
    "\<lambda>s r. mayRun s r \<and> (r \<in> set (listed s e) \<or> r \<in> set (hwait s))" "\<lambda>s r. r \<in> set (listed s e)"
    callEntry "callsOf (nt_id nt)" for B n nt e
proof
  fix s t r q
  assume ok: "codeOk B \<and> facade_inv s \<and> nt_id nt < nextNt s"
    and r: "mayRun s r \<and> (r \<in> set (listed s e) \<or> r \<in> set (hwait s))"
    and t: "exec B (runCode (doAct n B)) nt r s = Some t"
  have inv: "facade_inv s" using ok by simp
  have x: "facade_inv t" "later (nt_id nt) s t"
    "\<exists>l. called t = called s @ (case h_method (handlers s r) of None \<Rightarrow> [] | Some m \<Rightarrow> [(nt_id nt, r, m, h_context (handlers s r))]) @ l
           \<and> (\<forall>c\<in>set l. nt_id nt < fst c)"
    using exec_safe [OF runOk_doAct _ t inv] ok r by blast+
  show "codeOk B \<and> facade_inv t \<and> nt_id nt < nextNt t" using ok x(1) laterD(7) [OF x(2)] by simp
  have "h_method (handlers s r) \<noteq> None \<longleftrightarrow> r \<in> set (listed s e)"
    using r facade_invD(4,10) [OF inv, of r] waiting_unlisted [OF inv, of r "Inl e"] by (auto simp: active_def)
  then have "case_option [] (\<lambda>m. [(nt_id nt, r, m, h_context (handlers s r))]) (h_method (handlers s r))
      = (if r \<in> set (listed s e) then [(nt_id nt, callEntry s r)] else [])" by (auto simp: callEntry_def split: option.splits)
  with x(3) obtain l where l: "called t = called s @ (if r \<in> set (listed s e) then [(nt_id nt, callEntry s r)] else []) @ l"
      "\<forall>c\<in>set l. nt_id nt < fst c" by auto
  from callsOf_append [OF l]
  show "callsOf (nt_id nt) t = callsOf (nt_id nt) s @ (if r \<in> set (listed s e) then [callEntry s r] else [])" by simp
  assume q: "mayRun s q \<and> (q \<in> set (listed s e) \<or> q \<in> set (hwait s))"
  then show "mayRun t q \<and> (q \<in> set (listed t e) \<or> q \<in> set (hwait t))"
    using mayRun_later [OF x(2)] laterD(3) [OF x(2)] laterD(6) [OF x(2), of q e] by blast
  assume l: "q \<in> set (listed t e)"
  have "used s q" using q by (simp add: mayRun_def)
  moreover have "q \<notin> set (hwait t)" using facade_invD(7) [OF x(1) l] .
  ultimately have "handlers t q = handlers s q" using laterD(4) [OF x(2)] by blast
  then show "q \<in> set (listed s e) \<and> callEntry t q = callEntry s q"
    using laterD(5) [OF x(2) l] \<open>used s q\<close> by (simp add: callEntry_def)
qed

text \<open>C17: Registrations never go wrong: in every state that calls of the facade and clean-ups of
  the pool can reach, no notification has two handlers with the same method on the same
  object, and every registered handler has its method, is no one-time handler and has not
  been released; the only condition is that handlers are registered on an object.\<close>

theorem registrations_unique:
  assumes "codeOk B" and "(facade_step B)\<^sup>*\<^sup>* (new_facade w) s"
  shows "distinct (map (\<lambda>r. key (handlers s r)) (listed s e)) \<and>
    (\<forall>r\<in>set (listed s e). active (handlers s r) \<and> r \<notin> set (hwait s) \<and> r \<notin> set (hlist s))"
proof -
  note inv = facade_invD [OF reachable_inv [OF assms]]
  show ?thesis using inv(6,7) [of _ "Inl e"] inv(5) [of "Inl e"] inv(9) [of e] inv(10) [of _ e] by (auto simp: distinct_map used_def)
qed


section \<open>Sending returns\<close>

definition sendsBelow :: "('e \<Rightarrow> nat) \<Rightarrow> nat \<Rightarrow> ('e, 'm, 'c, 'd) act \<Rightarrow> bool" where
  "sendsBelow rank k a \<longleftrightarrow> (\<forall>e d. a = SendNt e d \<longrightarrow> rank e < k)"

lemma sendNt_total:
  assumes run: "\<And>m c as nt v s. nt_type nt = e \<Longrightarrow> run (B m c as nt v) s \<noteq> None"
  shows "facade_sendNt B run e d s \<noteq> None"
proof -
  have x: "exec B run nt r s \<noteq> None" if "nt_type nt = e" for nt r s
  proof (cases "h_method (handlers s r)")
    case (Some m)
    then show ?thesis
      using run [OF that, of m "h_context (handlers s r)" "h_args (handlers s r)" "world s"
          "s\<lparr>called := called s @ [(nt_id nt, r, m, h_context (handlers s r))]\<rparr>"]
      by (auto simp: exec_def)
  qed (simp add: exec_def)
  have "\<exists>t. execProto B run e d s = Some t"
  proof (cases "regs s (Inr e)")
    case Nil
    then show ?thesis by (auto simp: execProto_def regs_def split: option.splits)
  next
    case (Cons r rs)
    let ?s = "s\<lparr>protoMap := (protoMap s)(e \<mapsto> rs)\<rparr>"
    have p: "protoMap s e = Some (r # rs)" using Cons by (simp add: regs_def split: option.splits)
    have "exec B run (fst (notification_alloc e d ?s)) r (snd (notification_alloc e d ?s)) \<noteq> None"
      by (rule x) (simp add: notification_alloc_def)
    then obtain v where "exec B run (fst (notification_alloc e d ?s)) r (snd (notification_alloc e d ?s)) = Some v" by blast
    then have "execProto B run e d s = Some (True, handler_release r v)" by (simp add: execProto_def p case_prod_beta)
    then show ?thesis by blast
  qed
  then obtain b t where t: "execProto B run e d s = Some (b, t)" by auto
  have "eachTurn (exec B run (fst (notification_alloc e d t))) rs u \<noteq> None" for rs u
    by (rule eachTurn_returns) (simp add: x notification_alloc_def)
  then show ?thesis using t
    by (auto simp: facade_sendNt_def notification_alloc_def split: option.splits bool.splits)
qed

text \<open>C18: Sending a notification always returns if the client code has no cycle of notifications:
  when the notifications can be ranked so that every method that handles one only sends
  notifications of a lower rank, a call depth of two more than the rank is enough, whatever
  is registered.\<close>

theorem sendNt_returns:
  assumes "\<And>m c as nt v. allActs (sendsBelow rank (rank (nt_type nt))) (B m c as nt v)"
  shows "doAct (rank e + 2) B (SendNt e d) s \<noteq> None"
proof -
  have "sendsBelow rank k a \<Longrightarrow> doAct (Suc k) B a s \<noteq> None" for k a s
  proof (induction k arbitrary: a s)
    case 0
    then show ?case by (cases a) (auto simp: perform_def sendsBelow_def split: prod.splits)
  next
    case (Suc k)
    show ?case
    proof (cases a)
      case (SendNt e d)
      have "rank e \<le> k" using Suc.prems SendNt by (simp add: sendsBelow_def)
      then have "sendsBelow rank (rank e) b \<Longrightarrow> sendsBelow rank k b" for b
        unfolding sendsBelow_def using less_le_trans by blast
      then have "sendsBelow rank (rank e) b \<Longrightarrow> doAct (Suc k) B b s \<noteq> None" for b s
        using Suc.IH by blast
      then have "runCode (doAct (Suc k) B) (B m c as nt v) s \<noteq> None" if "nt_type nt = e" for m c as nt v s
        using assms [of nt m c as v] that by (intro runScript_returns [of "sendsBelow rank (rank e)"]) simp_all
      then show ?thesis using sendNt_total [of e "runCode (doAct (Suc k) B)" B d s] SendNt by (simp add: perform_def)
    qed (auto simp: perform_def split: prod.splits)
  qed
  from this [of "Suc (rank e)" "SendNt e d" s] show ?thesis by (simp add: sendsBelow_def)
qed

section \<open>Examples\<close>

text \<open>The method 1 removes the handler of the method 2 and registers the method 3; the method 5
  sends the notification 0.\<close>

definition demo_code :: "(nat, nat, nat, nat, nat) code" where
  "demo_code m c as nt w =
     (if m = 1 then Do (OffNt 0 2 (Some 0)) w (\<lambda>w. Do (OnNt 0 3 (Some 0) []) w Return)
      else if m = 5 \<and> nt_type nt = 7 then Do (SendNt 0 0) w Raise
      else Return (Suc w))"

definition demo_acts :: "(nat, nat, nat, nat) act list" where
  "demo_acts = [OnNt 0 1 (Some 0) [], OnNt 0 2 (Some 0) [], OnNt 0 4 (Some 0) [], OnNt 0 2 (Some 0) []]"

definition demo_facade :: "(nat, nat, nat, nat, nat) facade" where
  "demo_facade = the (eachTurn (doAct 1 demo_code) demo_acts (new_facade 0))"

lemma demo_codeOk: "codeOk demo_code"
  by (simp add: codeOk_def demo_code_def okAct_def)

lemma reach_acts:
  "eachTurn (doAct n B) as s = Some t \<Longrightarrow> \<forall>a\<in>set as. okAct a \<Longrightarrow> (facade_step B)\<^sup>*\<^sup>* s t"
proof (induction as arbitrary: s)
  case (Cons a as)
  then obtain u where u: "doAct n B a s = Some u" "eachTurn (doAct n B) as u = Some t" by (auto split: option.splits)
  then have "facade_step B s u" using Cons.prems(2) by (auto intro: facade_step.call)
  then show ?case using Cons.IH [OF u(2)] Cons.prems(2) by (auto intro: converse_rtranclp_into_rtranclp)
qed simp

lemma demo_reach: "(facade_step demo_code)\<^sup>*\<^sup>* (new_facade 0) demo_facade"
proof (rule reach_acts)
  show "eachTurn (doAct 1 demo_code) demo_acts (new_facade 0) = Some demo_facade"
    by (simp add: demo_facade_def demo_acts_def perform_def)
qed (simp add: demo_acts_def okAct_def)

theorem registrations_unique_witness:
  "distinct (map (\<lambda>r. key (handlers demo_facade r)) (listed demo_facade 0)) \<and> listed demo_facade 0 = [0, 1, 2]"
proof -
  have "listed demo_facade 0 = [0, 1, 2]" by code_simp
  then show ?thesis using registrations_unique [OF demo_codeOk demo_reach, of 0] by simp
qed

definition demo_after :: "(nat, nat, nat, nat, nat) facade" where
  "demo_after = the (doAct 2 demo_code (SendNt 0 0) demo_facade)"

lemma demo_after: "doAct (Suc 1) demo_code (SendNt 0 0) demo_facade = Some demo_after"
proof -
  have "\<not> Option.is_none (doAct 2 demo_code (SendNt 0 0) demo_facade)" by code_simp
  then show ?thesis by (simp add: demo_after_def Option.is_none_def numeral_2_eq_2)
qed


theorem sendNt_returns_witness: "doAct (1 + 2) demo_code (SendNt 7 0) demo_facade \<noteq> None"
proof -
  define rank :: "nat \<Rightarrow> nat" where "rank e = (if e = 7 then 1 else 0)" for e
  have "allActs (sendsBelow rank (rank (nt_type nt))) (demo_code m c as nt v)" for m c as nt v
    by (simp add: demo_code_def sendsBelow_def rank_def)
  from sendNt_returns [of rank demo_code, OF this, of 7 0 demo_facade] show ?thesis by (simp only: rank_def) simp
qed


end
