(* ===== verification/Ticker.thy ===== *)
theory Ticker
  imports LinkedList Broadcast
begin

text \<open>
  The frame timer of the client (modules 15 and 327): objects register for a call of their
  \<open>update\<close> method every \<open>interval\<close> milliseconds, and each frame of the engine (\<open>onUpdate\<close>)
  calls the ones that are due.

  As in \<open>Facade\<close> the linked list of items is given as the list of its data, and the \<open>update\<close>
  methods are arbitrary client code: \<open>U i t w\<close> is what the method of the item \<open>i\<close> does at the
  time \<open>t\<close> in the world \<open>w\<close>.  The work that follows the items in a frame (tweens and the
  clean-up of the pools) is the script \<open>F t w\<close>.  \<open>updated\<close> records the calls.
\<close>

section \<open>Time\<close>

record timer =
  serverTime0 :: int
  localTime :: int
  time :: int

definition timer_update :: "int \<Rightarrow> timer \<Rightarrow> timer" where
  "timer_update now t = t\<lparr>time := now\<rparr>"

definition setServerTime :: "int \<Rightarrow> int \<Rightarrow> timer \<Rightarrow> timer" where
  "setServerTime now e t = t\<lparr>localTime := now, serverTime0 := e\<rparr>"

definition timer_serverTime :: "int \<Rightarrow> timer \<Rightarrow> int" where
  "timer_serverTime now t = (if serverTime0 t = 0 then 0 else (let e = now - localTime t in serverTime0 t + e))"

definition timer_serverTimeSecond :: "int \<Rightarrow> timer \<Rightarrow> int" where
  "timer_serverTimeSecond now t = (if serverTime0 t = 0 then 0 else timer_serverTime now t div 1000)"

section \<open>Items\<close>

record upd_data =
  updateCnt :: int
  updateTime :: int
  interval :: int
  elapseTime :: int

definition new_upd_data :: "int \<Rightarrow> upd_data" where
  "new_upd_data e = \<lparr>updateCnt = 0, updateTime = e, interval = 0, elapseTime = 0\<rparr>"

definition clac :: "int \<Rightarrow> upd_data \<Rightarrow> upd_data" where
  "clac e d =
     (let d = d\<lparr>elapseTime := e - updateTime d\<rparr>;
          i = (if interval d = 0 then 1 else elapseTime d div interval d);
          d = (if i > 0 then d\<lparr>updateTime := e\<rparr> else d)
      in d\<lparr>updateCnt := i\<rparr>)"

text \<open>\<open>ownInterval\<close> is the property \<open>interval\<close> of the item itself.\<close>

record ('i, 'w) ticker =
  itemList :: "'i list"
  updData :: "'i \<Rightarrow> upd_data option"
  ownInterval :: "'i \<Rightarrow> int option"
  ttimer :: timer
  lastUpdate :: int
  tworld :: 'w
  updated :: "'i list"

definition new_ticker :: "int \<Rightarrow> 'w \<Rightarrow> ('i, 'w) ticker" where
  "new_ticker now w = \<lparr>itemList = [], updData = (\<lambda>_. None), ownInterval = (\<lambda>_. None),
     ttimer = \<lparr>serverTime0 = 0, localTime = 0, time = now\<rparr>, lastUpdate = 0, tworld = w, updated = []\<rparr>"

definition addUpdateItem :: "int \<Rightarrow> 'i \<Rightarrow> int \<Rightarrow> ('i, 'w) ticker \<Rightarrow> ('i, 'w) ticker" where
  "addUpdateItem frameRate e t s =
     (let t = (if toInt32 t = 0 then 1000 div frameRate else t)
      in if e \<in> set (itemList s) then s\<lparr>ownInterval := (ownInterval s)(e \<mapsto> t)\<rparr>
         else (let a = (new_upd_data (time (ttimer s)))\<lparr>interval := t\<rparr>
               in s\<lparr>updData := (updData s)(e \<mapsto> a), itemList := itemList s @ [e]\<rparr>))"

definition removeUpdateItem :: "'i \<Rightarrow> ('i, 'w) ticker \<Rightarrow> ('i, 'w) ticker" where
  "removeUpdateItem e s =
     (if e \<in> set (itemList s) then s\<lparr>updData := (updData s)(e := None), itemList := remove1 e (itemList s)\<rparr> else s)"

definition hasUpdateItem :: "'i \<Rightarrow> ('i, 'w) ticker \<Rightarrow> bool" where
  "hasUpdateItem e s \<longleftrightarrow> e \<in> set (itemList s)"

definition getCount :: "'i \<Rightarrow> ('i, 'w) ticker \<Rightarrow> int option" where
  "getCount e s = (if e \<notin> set (itemList s) then Some 0 else map_option updateCnt (updData s e))"

definition getElapseTime :: "'i \<Rightarrow> ('i, 'w) ticker \<Rightarrow> int option" where
  "getElapseTime e s = (if e \<notin> set (itemList s) then Some 0 else map_option elapseTime (updData s e))"

section \<open>Frames\<close>

datatype 'i tick_act = AddItem 'i int | RemoveItem 'i

definition tickAct :: "int \<Rightarrow> 'i tick_act \<Rightarrow> ('i, 'w) ticker \<Rightarrow> ('i, 'w) ticker option" where
  "tickAct frameRate a s =
     (case a of AddItem i t \<Rightarrow> Some (addUpdateItem frameRate i t s) | RemoveItem i \<Rightarrow> Some (removeUpdateItem i s))"

abbreviation runTick ::
  "int \<Rightarrow> ('i tick_act, 'w) script \<Rightarrow> ('i, 'w) ticker \<Rightarrow> ('i, 'w) ticker option" where
  "runTick fr \<equiv> runScript tworld (\<lambda>w. tworld_update (\<lambda>_. w)) (tickAct fr)"

definition updateItem ::
  "int \<Rightarrow> ('i \<Rightarrow> int \<Rightarrow> 'w \<Rightarrow> ('i tick_act, 'w) script) \<Rightarrow> 'i \<Rightarrow> ('i, 'w) ticker \<Rightarrow> ('i, 'w) ticker option" where
  "updateItem fr U i s =
     (case updData s i of
        None \<Rightarrow> Some s
      | Some d \<Rightarrow>
          (let d = clac (time (ttimer s)) d; s = s\<lparr>updData := (updData s)(i \<mapsto> d)\<rparr>
           in if updateCnt d > 0
              then runTick fr (U i (time (ttimer s)) (tworld s)) (s\<lparr>updated := updated s @ [i]\<rparr>)
              else Some s))"

definition onUpdate ::
  "int \<Rightarrow> ('i \<Rightarrow> int \<Rightarrow> 'w \<Rightarrow> ('i tick_act, 'w) script) \<Rightarrow> (int \<Rightarrow> 'w \<Rightarrow> ('i tick_act, 'w) script)
   \<Rightarrow> int \<Rightarrow> int \<Rightarrow> ('i, 'w) ticker \<Rightarrow> ('i, 'w) ticker option" where
  "onUpdate fr U F t now s =
     (if t - lastUpdate s < 16 then Some s
      else (let s = s\<lparr>lastUpdate := t, ttimer := timer_update now (ttimer s)\<rparr>
            in (case eachTurn (updateItem fr U) (itemList s) s of
                  None \<Rightarrow> None
                | Some s \<Rightarrow> runTick fr (F (time (ttimer s)) (tworld s)) s)))"

definition onTimeout ::
  "int \<Rightarrow> ('i \<Rightarrow> int \<Rightarrow> 'w \<Rightarrow> ('i tick_act, 'w) script) \<Rightarrow> (int \<Rightarrow> 'w \<Rightarrow> ('i tick_act, 'w) script)
   \<Rightarrow> int \<Rightarrow> int \<Rightarrow> int \<Rightarrow> ('i, 'w) ticker \<Rightarrow> ('i, 'w) ticker option" where
  "onTimeout fr U F t0 t now s =
     (if t0 - lastUpdate s < 30 then Some s else onUpdate fr U F t now s)"

section \<open>The registered items\<close>

definition ticker_inv :: "('i, 'w) ticker \<Rightarrow> bool" where
  "ticker_inv s \<longleftrightarrow> distinct (itemList s) \<and> (\<forall>i. i \<in> set (itemList s) \<longleftrightarrow> updData s i \<noteq> None) \<and>
     (\<forall>i d. updData s i = Some d \<longrightarrow> interval d \<noteq> 0)"

definition due :: "('i, 'w) ticker \<Rightarrow> 'i \<Rightarrow> bool" where
  "due s i \<longleftrightarrow> updData s i \<noteq> None \<and> updateCnt (clac (time (ttimer s)) (the (updData s i))) > 0"

lemma clac_interval [simp]: "interval (clac e d) = interval d"
  by (simp add: clac_def Let_def)

lemma clac_clac: "interval d \<noteq> 0 \<Longrightarrow> updateCnt (clac e d) > 0 \<Longrightarrow> \<not> updateCnt (clac e (clac e d)) > 0"
  by (simp add: clac_def Let_def)

lemma clac_idle: "\<not> updateCnt (clac e d) > 0 \<Longrightarrow> updateCnt (clac e (clac e d)) = updateCnt (clac e d)"
  by (simp add: clac_def Let_def)

text \<open>What the calls of client code can do: the clock stands still, nothing is logged, and an item
  that is due was so before.\<close>

definition tickLater :: "('i, 'w) ticker \<Rightarrow> ('i, 'w) ticker \<Rightarrow> bool" where
  "tickLater s t \<longleftrightarrow> (ticker_inv s \<longrightarrow> ticker_inv t) \<and> ttimer t = ttimer s \<and> updated t = updated s \<and>
     (\<forall>i. due t i \<longrightarrow> due s i)"

lemma tickLater_trans: "tickLater s t \<Longrightarrow> tickLater t u \<Longrightarrow> tickLater s u"
  by (auto simp: tickLater_def)

lemma toInt32_nonzero: "toInt32 t \<noteq> 0 \<Longrightarrow> t \<noteq> 0"
  by (auto simp: toInt32_def)

lemma tickAct_later:
  assumes fr: "0 < fr" "fr \<le> 1000" and a: "tickAct fr a s = Some t"
  shows "tickLater s t"
proof -
  have "1000 div fr \<noteq> 0" using fr pos_imp_zdiv_pos_iff [of fr 1000] by simp
  then have "tickLater s (addUpdateItem fr i n s)" for i n
    using toInt32_nonzero [of n]
    by (auto simp: tickLater_def ticker_inv_def addUpdateItem_def due_def Let_def new_upd_data_def clac_def split: if_splits)
  moreover have "tickLater s (removeUpdateItem i s)" for i
    by (auto simp: tickLater_def ticker_inv_def removeUpdateItem_def due_def split: if_splits)
  ultimately show ?thesis using a by (auto simp: tickAct_def split: tick_act.splits)
qed

lemma runTick_later:
  assumes fr: "0 < fr" "fr \<le> 1000" and r: "runTick fr sc s = Some t"
  shows "tickLater s t"
proof (rule runScript_induct [of tickLater "\<lambda>w. tworld_update (\<lambda>_. w)" "\<lambda>_. True" "tickAct fr", OF _ _ _ _ r])
  show "allActs (\<lambda>_. True) sc" by (induction sc) simp_all
  show "tickLater s (s\<lparr>tworld := w\<rparr>)" for w and s :: "('a, 'b) ticker"
    by (auto simp: tickLater_def ticker_inv_def due_def split: option.splits)
qed (auto intro: tickAct_later [OF fr] tickLater_trans)

lemma runTick_returns: "runTick fr sc s \<noteq> None"
proof (rule runScript_returns [of "\<lambda>_. True"])
  show "allActs (\<lambda>_. True) sc" by (induction sc) simp_all
qed (simp add: tickAct_def split: tick_act.splits)

lemma updateItem_cases:
  assumes "updateItem fr U i s = Some t"
  obtains "updData s i = None" "t = s"
  | d where "updData s i = Some d" "\<not> due s i" "t = s\<lparr>updData := (updData s)(i \<mapsto> clac (time (ttimer s)) d)\<rparr>"
  | d where "updData s i = Some d" "due s i"
      "runTick fr (U i (time (ttimer s)) (tworld s))
         (s\<lparr>updData := (updData s)(i \<mapsto> clac (time (ttimer s)) d), updated := updated s @ [i]\<rparr>) = Some t"
  using assms by (auto simp: updateItem_def due_def Let_def split: option.splits if_splits)

lemma clac_later:
  assumes inv: "ticker_inv s" and d: "updData s i = Some d"
  shows "ticker_inv (s\<lparr>updData := (updData s)(i \<mapsto> clac (time (ttimer s)) d), updated := l\<rparr>)"
    and "due (s\<lparr>updData := (updData s)(i \<mapsto> clac (time (ttimer s)) d), updated := l\<rparr>) q \<Longrightarrow> due s q"
proof -
  have n: "interval d \<noteq> 0" using inv d by (auto simp: ticker_inv_def)
  show "ticker_inv (s\<lparr>updData := (updData s)(i \<mapsto> clac (time (ttimer s)) d), updated := l\<rparr>)"
    using inv d n by (auto simp: ticker_inv_def)
  show "due (s\<lparr>updData := (updData s)(i \<mapsto> clac (time (ttimer s)) d), updated := l\<rparr>) q \<Longrightarrow> due s q"
    using d clac_clac [OF n, of "time (ttimer s)"] clac_idle [of "time (ttimer s)" d]
    by (cases "q = i") (auto simp: due_def split: option.splits)
qed

lemma updateItem_later:
  assumes fr: "0 < fr" "fr \<le> 1000" and inv: "ticker_inv s" and u: "updateItem fr U i s = Some t"
  shows "ticker_inv t" "ttimer t = ttimer s" "updated t = updated s @ (if due s i then [i] else [])" "due t q \<Longrightarrow> due s q"
proof -
  have "ticker_inv t \<and> ttimer t = ttimer s \<and> updated t = updated s @ (if due s i then [i] else []) \<and> (due t q \<longrightarrow> due s q)"
    using u
  proof (cases rule: updateItem_cases)
    case 1
    then show ?thesis using inv by (auto simp: due_def)
  next
    case (2 d)
    then show ?thesis using clac_later(1) [OF inv 2(1), of "updated s"] clac_later(2) [OF inv 2(1), of "updated s" q] by simp
  next
    case (3 d)
    then show ?thesis using clac_later(1) [OF inv 3(1), of "updated s @ [i]"] clac_later(2) [OF inv 3(1), of "updated s @ [i]" q] runTick_later [OF fr 3(3)]
      by (auto simp: tickLater_def)
  qed
  then show "ticker_inv t" "ttimer t = ttimer s" "updated t = updated s @ (if due s i then [i] else [])" "due t q \<Longrightarrow> due s q"
    by auto
qed

interpretation frames: broadcast "updateItem fr U" "\<lambda>s. 0 < fr \<and> fr \<le> 1000 \<and> ticker_inv s" "\<lambda>s i. True" due
    "\<lambda>s i. i" updated for fr U
  by unfold_locales (auto simp: updateItem_later)

lemma updateItem_returns: "updateItem fr U i s \<noteq> None"
  using runTick_returns [of fr] by (auto simp: updateItem_def Let_def split: option.splits)

lemma turns_return: "eachTurn (updateItem fr U) is s \<noteq> None"
  by (rule eachTurn_returns) (rule updateItem_returns)

section \<open>Frames serve the items that are due\<close>

text \<open>An item that no method removes keeps its data until its turn.\<close>

definition keepsItem :: "'i \<Rightarrow> ('i, 'w) ticker \<Rightarrow> ('i, 'w) ticker \<Rightarrow> bool" where
  "keepsItem i s t \<longleftrightarrow>
     (i \<in> set (itemList s) \<longrightarrow> i \<in> set (itemList t) \<and> updData t i = updData s i) \<and> ttimer t = ttimer s"

lemma keepsItem_trans: "keepsItem i s t \<Longrightarrow> keepsItem i t u \<Longrightarrow> keepsItem i s u"
  by (auto simp: keepsItem_def)

lemma runTick_keeps:
  assumes "allActs (\<lambda>a. a \<noteq> RemoveItem i) sc" "runTick fr sc s = Some t"
  shows "keepsItem i s t"
proof (rule runScript_induct [of "keepsItem i" "\<lambda>w. tworld_update (\<lambda>_. w)" "\<lambda>a. a \<noteq> RemoveItem i" "tickAct fr", OF _ _ _ assms])
  show "keepsItem i s t" if "a \<noteq> RemoveItem i" "tickAct fr a s = Some t" for a and s t :: "('a, 'b) ticker"
  proof (cases a)
    case (AddItem j n)
    then show ?thesis using that by (auto simp: keepsItem_def tickAct_def addUpdateItem_def Let_def)
  next
    case (RemoveItem j)
    then show ?thesis using that by (auto simp: keepsItem_def tickAct_def removeUpdateItem_def in_set_remove1)
  qed
qed (auto simp: keepsItem_def intro: keepsItem_trans)

lemma eachTurn_keeps:
  assumes U: "\<And>j x w. allActs (\<lambda>a. a \<noteq> RemoveItem i) (U j x w)"
  shows "eachTurn (updateItem fr U) is s = Some t \<Longrightarrow> i \<notin> set is \<Longrightarrow> keepsItem i s t"
proof (induction "is" arbitrary: s)
  case Nil
  then show ?case by (simp add: keepsItem_def)
next
  case (Cons j "is")
  then obtain u where u: "updateItem fr U j s = Some u" "eachTurn (updateItem fr U) is u = Some t" by (auto split: option.splits)
  have "keepsItem i s u" using u(1)
  proof (cases rule: updateItem_cases)
    case (3 d)
    from runTick_keeps [OF U 3(3)] Cons.prems(2) show ?thesis by (simp add: keepsItem_def)
  qed (use Cons.prems(2) in \<open>auto simp: keepsItem_def\<close>)
  then show ?case using Cons.IH [OF u(2)] Cons.prems(2) keepsItem_trans by auto
qed

text \<open>C19: Every frame that is not dropped for coming too early returns and serves the registered
  objects in the order of their registration: it calls \<open>update\<close> once for each of them that is
  still registered and due when its turn comes, whatever the called methods register, remove or
  throw, and for no other.  An object that no method removes is called exactly if it was due at
  the beginning of the frame.\<close>

theorem onUpdate_serves:
  assumes fr: "0 < fr" "fr \<le> 1000" and inv: "ticker_inv s" and t: "16 \<le> t - lastUpdate s"
  shows "\<exists>u s1 served. onUpdate fr U F t now s = Some u \<and> ticker_inv u \<and>
     s1 = s\<lparr>lastUpdate := t, ttimer := timer_update now (ttimer s)\<rparr> \<and>
     served = filter (\<lambda>i. \<exists>v. eachTurn (updateItem fr U) (takeWhile (\<lambda>q. q \<noteq> i) (itemList s)) s1 = Some v \<and> due v i) (itemList s) \<and>
     updated u = updated s @ served \<and>
     (\<forall>i\<in>set (itemList s). (\<forall>j x w. allActs (\<lambda>a. a \<noteq> RemoveItem i) (U j x w)) \<longrightarrow> (i \<in> set served \<longleftrightarrow> due s1 i))"
proof -
  define s1 where "s1 = s\<lparr>lastUpdate := t, ttimer := timer_update now (ttimer s)\<rparr>"
  have l: "itemList s1 = itemList s" "updated s1 = updated s" by (simp_all add: s1_def)
  have ok: "0 < fr \<and> fr \<le> 1000 \<and> ticker_inv s1" using fr inv by (simp add: s1_def ticker_inv_def)
  obtain v where v: "eachTurn (updateItem fr U) (itemList s) s1 = Some v"
    using turns_return by blast
  obtain u where u: "runTick fr (F (time (ttimer v)) (tworld v)) v = Some u" using runTick_returns by blast
  define served where
    "served = filter (\<lambda>i. \<exists>v. eachTurn (updateItem fr U) (takeWhile (\<lambda>q. q \<noteq> i) (itemList s)) s1 = Some v \<and> due v i) (itemList s)"
  have d: "distinct (itemList s)" using inv by (simp add: ticker_inv_def)
  have "updated v = updated s1 @ map (\<lambda>i. i) served" using frames.delivered [OF v ok _ d] by (simp add: served_def)
  moreover have "ticker_inv v" using frames.all_ok [OF v ok] by simp
  moreover have "onUpdate fr U F t now s = Some u" using t v u by (simp add: onUpdate_def Let_def s1_def)
  moreover have "i \<in> set served \<longleftrightarrow> due s1 i"
    if i: "i \<in> set (itemList s)" and U: "\<forall>j x w. allActs (\<lambda>a. a \<noteq> RemoveItem i) (U j x w)" for i
  proof -
    obtain z where z: "eachTurn (updateItem fr U) (takeWhile (\<lambda>q. q \<noteq> i) (itemList s)) s1 = Some z"
      using turns_return by blast
    have "keepsItem i s1 z" by (rule eachTurn_keeps [OF _ z]) (use U in \<open>auto dest: set_takeWhileD\<close>)
    then have "due z i = due s1 i" using i by (simp add: keepsItem_def due_def l)
    then show ?thesis using z i by (simp add: served_def)
  qed
  moreover have "ticker_inv v \<longrightarrow> ticker_inv u" "updated u = updated v" using runTick_later [OF fr u] by (simp_all add: tickLater_def)
  ultimately show ?thesis
    by (intro exI [of _ u] exI [of _ s1] exI [of _ served] conjI ballI impI) (simp_all add: l(2) s1_def served_def)
qed

definition demo_update :: "nat \<Rightarrow> int \<Rightarrow> nat \<Rightarrow> (nat tick_act, nat) script" where
  "demo_update i t w = (if i = 1 then Do (RemoveItem 2) w (\<lambda>w. Do (AddItem 4 0) w Raise) else Return (w + i))"

definition demo_ticker :: "(nat, nat) ticker" where
  "demo_ticker = fold (\<lambda>i. addUpdateItem 30 i (int i * 10)) [1, 2, 3, 9] (new_ticker 100 0)"

theorem onUpdate_serves_witness:
  "\<exists>u. onUpdate 30 demo_update (\<lambda>t w. Return w) 140 140 demo_ticker = Some u \<and> updated u = [1, 3] \<and> itemList u = [1, 3, 9, 4]"
proof -
  have i: "ticker_inv demo_ticker" by (simp add: demo_ticker_def ticker_inv_def addUpdateItem_def new_ticker_def new_upd_data_def Let_def toInt32_def)
  have "map_option (\<lambda>u. (updated u, itemList u)) (onUpdate 30 demo_update (\<lambda>t w. Return w) 140 140 demo_ticker) = Some ([1, 3], [1, 3, 9, 4])"
    by code_simp
  moreover have "16 \<le> 140 - lastUpdate demo_ticker" by code_simp
  note onUpdate_serves [OF _ _ i this, of 30 demo_update "\<lambda>t w. Return w" 140]
  ultimately show ?thesis by auto
qed

section \<open>How often an item is served\<close>

text \<open>The counts of the calls of \<open>clac\<close> at a sequence of times.\<close>

fun ticks :: "int list \<Rightarrow> upd_data \<Rightarrow> int list" where
  "ticks [] d = []"
| "ticks (t # ts) d = (let d = clac t d in updateCnt d # ticks ts d)"

text \<open>Over any sequence of frames the counts that an item gets never exceed the elapsed time
  divided by its interval; as every frame that serves it starts the next interval anew, each
  such frame may lose up to one millisecond less than the interval, and no more.\<close>

theorem ticks_bounds:
  assumes "sorted (updateTime d # ts)" and "interval d > 0"
  shows "interval d * sum_list (ticks ts d) \<le> last (updateTime d # ts) - updateTime d \<and>
    last (updateTime d # ts) - updateTime d
      \<le> interval d * sum_list (ticks ts d) + (interval d - 1) * (int (length (filter (\<lambda>c. c > 0) (ticks ts d))) + 1)"
  using assms
proof (induction ts arbitrary: d)
  case (Cons t ts)
  define I c where "I = interval d" and "c = (t - updateTime d) div I"
  have I: "I > 0" using Cons.prems(2) by (simp add: I_def)
  have t: "updateTime d \<le> t" "sorted (t # ts)" "sorted (updateTime d # ts)" using Cons.prems(1) by auto
  have c: "I * c \<le> t - updateTime d" "t - updateTime d \<le> I * c + (I - 1)"
  proof -
    have "I * c + (t - updateTime d) mod I = t - updateTime d" unfolding c_def by (rule mult_div_mod_eq)
    moreover have "0 \<le> (t - updateTime d) mod I" "(t - updateTime d) mod I < I" using I by simp_all
    ultimately show "I * c \<le> t - updateTime d" "t - updateTime d \<le> I * c + (I - 1)" by linarith+
  qed
  have f: "interval (clac t d) = I" "updateCnt (clac t d) = c" "updateTime (clac t d) = (if c > 0 then t else updateTime d)"
    using I by (simp_all add: clac_def Let_def I_def c_def)
  define R n where "R = sum_list (ticks ts (clac t d))" and "n = int (length (filter (\<lambda>c. c > 0) (ticks ts (clac t d))))"
  have c0: "0 \<le> c" using I t(1) by (simp add: c_def pos_imp_zdiv_nonneg_iff)
  have IH: "I * R \<le> last (updateTime (clac t d) # ts) - updateTime (clac t d) \<and>
      last (updateTime (clac t d) # ts) - updateTime (clac t d) \<le> I * R + (I - 1) * (n + 1)"
    using Cons.IH [of "clac t d"] t f(1,3) I by (auto simp: R_def n_def)
  show ?case
  proof (cases "c > 0")
    case True
    then have "I * R \<le> last (t # ts) - t" "last (t # ts) - t \<le> I * R + (I - 1) * (n + 1)" using IH f(3) by auto
    then show ?thesis using c True f(2) by (simp add: Let_def R_def [symmetric] n_def [symmetric] I_def [symmetric] algebra_simps)
  next
    case False
    then have c: "c = 0" using c0 by simp
    have "last (updateTime d # ts) = (if ts = [] then updateTime d else last (t # ts))" by simp
    then show ?thesis using IH f(2,3) c \<open>t - updateTime d \<le> I * c + (I - 1)\<close> \<open>I * c \<le> t - updateTime d\<close> I
      by (cases "ts = []") (auto simp: Let_def R_def [symmetric] n_def [symmetric] I_def [symmetric])
  qed
qed simp

theorem ticks_bounds_witness:
  "30 * sum_list (ticks [20, 40, 60, 80, 100] \<lparr>updateCnt = 0, updateTime = 0, interval = 30, elapseTime = 0\<rparr>) \<le> 100 \<and>
   sum_list (ticks [20, 40, 60, 80, 100] \<lparr>updateCnt = 0, updateTime = 0, interval = 30, elapseTime = 0\<rparr>) = 2"
proof -
  have "sum_list (ticks [20, 40, 60, 80, 100] \<lparr>updateCnt = 0, updateTime = 0, interval = 30, elapseTime = 0\<rparr>) = 2" by code_simp
  then show ?thesis using ticks_bounds [of "\<lparr>updateCnt = 0, updateTime = 0, interval = 30, elapseTime = 0\<rparr>" "[20, 40, 60, 80, 100]"] by simp
qed

end
