(* ===== verification/Cursor.thy ===== *)
theory Cursor
  imports ChoiceProps ToolProps
begin

text \<open>
  The choice of the position a skill is aimed at (\<open>searchAICursor\<close>): the variant with a random
  choice, which the planning of a round uses for the player, and the optimality of both
  variants.
\<close>

section \<open>The random variant\<close>

text \<open>The loop collects the positions by the number of characters they reach; \<open>Inl\<close> is the
  position it returns at once for areas that cover everybody.\<close>

definition coverage :: "battle \<Rightarrow> fighter \<Rightarrow> int \<Rightarrow> int \<Rightarrow> int" where
  "coverage b e t k = countNotNullPlayerPos b (getSelectArea (rowLeft b) (rowRight b) (position e) k t)"

fun cursorGroups ::
  "battle \<Rightarrow> fighter \<Rightarrow> int \<Rightarrow> int list \<Rightarrow> (int \<Rightarrow> int list option) \<Rightarrow> int \<Rightarrow> int + (int \<Rightarrow> int list option) \<times> int" where
  "cursorGroups b e t [] u s = Inr (u, s)"
| "cursorGroups b e t (k # ks) u s =
     (if getSkillAreaPlayerNum t \<noteq> SKILL_AREA_CURSOR_ALL then
        (let c = coverage b e t k
         in if c > 0 then
              (let h = (case u c of None \<Rightarrow> [] | Some h \<Rightarrow> h)
               in cursorGroups b e t ks (u(c \<mapsto> h @ [k])) (if c > s then c else s))
            else cursorGroups b e t ks u s)
      else if (t = SKILL_AREA_ME_ALL_NO_SELF \<or> t = SKILL_AREA_ALL_NO_SELF) \<and> k = position e
      then cursorGroups b e t ks u s
      else if isValidBattlePlayer (getPlayerByPos b k) then Inl k
      else cursorGroups b e t ks u s)"

definition cursorRange :: "fighter \<Rightarrow> int \<Rightarrow> int \<times> int" where
  "cursorRange e t =
     (let pos = position e; a = getSearchTypeByArea t
      in if a = SKILL_AREA_SEARCH_ENEMY \<or> a = SKILL_AREA_SEARCH_ALL \<and> t = SKILL_AREA_SINGLE
         then (if isLeftSide pos then (LEFT_MAX_POS, MAX_POS) else (0, LEFT_MAX_POS))
         else if a = SKILL_AREA_SEARCH_FRIEND
         then (if isLeftSide pos then (0, LEFT_MAX_POS) else (LEFT_MAX_POS, MAX_POS))
         else (0, MAX_POS))"

text \<open>The areas whose cursor is not searched for: the position or \<open>None\<close>.\<close>

definition fixedCursor :: "battle \<Rightarrow> fighter \<Rightarrow> int \<Rightarrow> int option" where
  "fixedCursor b e t =
     (let pos = position e; a = getSearchTypeByArea t
      in if t = SKILL_AREA_ENEMY_HP_LEAST then Some (selectValueTarget b pos AI_HP_MIN_ENEMY True)
         else if t = SKILL_AREA_ENEMY_HP_MOST then Some (selectValueTarget b pos AI_HP_MAX_ENEMY True)
         else if t = SKILL_AREA_ME_HP_LEAST then Some (selectValueTarget b pos AI_HP_MIN_FRIEND False)
         else if t = SKILL_AREA_ME_HP_MOST then Some (selectValueTarget b pos AI_HP_MAX_FRIEND False)
         else if t = SKILL_AREA_PLAYER_AND_PET then Some pos
         else if a = SKILL_AREA_SEARCH_MY_SELF then Some pos
         else if a = SKILL_AREA_SEARCH_MY_OWNER then Some (getPetOwnerPos e)
         else None)"

text \<open>An empty dictionary has no entry for any number, so the test of its size is the test of
  the entry.\<close>

definition searchAICursorRandom :: "'l long_ops \<Rightarrow> battle \<Rightarrow> fighter \<Rightarrow> int \<Rightarrow> 'l \<Rightarrow> int \<times> 'l" where
  "searchAICursorRandom L b e t seed =
     (case fixedCursor b e t of
        Some k \<Rightarrow> (k, seed)
      | None \<Rightarrow>
          (let (k, n) = cursorRange e t
           in (case cursorGroups b e t [k..n - 1] (\<lambda>_. None) 0 of
                 Inl g \<Rightarrow> (g, seed)
               | Inr (u, s) \<Rightarrow>
                   (case u s of
                      None \<Rightarrow> (k, seed)
                    | Some h \<Rightarrow>
                        if h \<noteq> [] then
                          (let (j, seed) = rand L (int (length h)) None seed in (h ! nat j, seed))
                        else (k, seed)))))"

lemma searchAICursor_eq:
  "searchAICursor b e t =
     (case fixedCursor b e t of Some k \<Rightarrow> k
      | None \<Rightarrow> (let (k, n) = cursorRange e t in cursorLoop b e t [k..n - 1] k 0))"
  unfolding searchAICursor_def fixedCursor_def cursorRange_def Let_def
  by (simp only: if_distrib [of "case_option A B" for A B] option.case prod.case)

section \<open>Both variants reach as many characters as possible\<close>

lemma coverage_nonneg: "0 \<le> coverage b e t k"
  by (simp add: coverage_def countNotNullPlayerPos_def split: option.split)

lemma cursorLoop_best:
  assumes "getSkillAreaPlayerNum t \<noteq> SKILL_AREA_CURSOR_ALL"
  shows "s = coverage b e t r \<or> s = 0 \<Longrightarrow> \<forall>k\<in>R. coverage b e t k \<le> s \<Longrightarrow> cursorLoop b e t ks r s = x \<Longrightarrow>
    (x = r \<or> x \<in> set ks) \<and> (coverage b e t x = getSkillAreaPlayerNum t \<or> (\<forall>k\<in>R \<union> set ks. coverage b e t k \<le> coverage b e t x))"
proof (induction ks arbitrary: r s R)
  case Nil
  then show ?case using coverage_nonneg [of b e t r] by auto
next
  case (Cons k ks)
  define c where "c = coverage b e t k"
  have x: "x = (if c = getSkillAreaPlayerNum t then k else if c > s then cursorLoop b e t ks k c else cursorLoop b e t ks r s)"
    using Cons.prems(3) assms unfolding c_def coverage_def by (simp only: cursorLoop.simps Let_def if_True simp_thms)
  consider "c = getSkillAreaPlayerNum t" | "c \<noteq> getSkillAreaPlayerNum t" "c > s" | "c \<noteq> getSkillAreaPlayerNum t" "\<not> c > s" by blast
  then show ?case
  proof cases
    case 1
    then show ?thesis using x by (simp add: c_def)
  next
    case 2
    have "\<forall>j\<in>insert k R. coverage b e t j \<le> c" using Cons.prems(2) 2(2) by (auto simp: c_def)
    from Cons.IH [OF _ this, of k] 2 x show ?thesis by (auto simp: c_def)
  next
    case 3
    have "\<forall>j\<in>insert k R. coverage b e t j \<le> s" using Cons.prems(2) 3(2) by (auto simp: c_def)
    from Cons.IH [OF Cons.prems(1) this] 3 x show ?thesis by auto
  qed
qed

definition groupsOk :: "(int \<Rightarrow> int) \<Rightarrow> int set \<Rightarrow> (int \<Rightarrow> int list option) \<Rightarrow> int \<Rightarrow> bool" where
  "groupsOk f R u s \<longleftrightarrow> (\<forall>c h. u c = Some h \<longrightarrow> h \<noteq> [] \<and> (\<forall>k\<in>set h. k \<in> R \<and> f k = c)) \<and>
     (\<forall>k\<in>R. f k \<le> s) \<and> 0 \<le> s \<and> (u s = None \<longrightarrow> s = 0)"

lemma groupsOk_add:
  assumes "groupsOk f R u s" and "f k > 0"
  shows "groupsOk f (insert k R) (u(f k \<mapsto> (case u (f k) of None \<Rightarrow> [] | Some h \<Rightarrow> h) @ [k])) (if f k > s then f k else s)"
proof -
  define h where "h = (case u (f k) of None \<Rightarrow> [] | Some h \<Rightarrow> h)"
  define v s' where "v = u(f k \<mapsto> h @ [k])" and "s' = (if f k > s then f k else s)"
  have u: "h' \<noteq> [] \<and> (\<forall>k\<in>set h'. k \<in> R \<and> f k = c)" if "u c = Some h'" for c h' using assms(1) that unfolding groupsOk_def by blast
  have R: "f j \<le> s" if "j \<in> R" for j using assms(1) that unfolding groupsOk_def by blast
  have s: "0 \<le> s" "u s = None \<Longrightarrow> s = 0" using assms(1) unfolding groupsOk_def by blast+
  have h: "j \<in> R \<and> f j = f k" if "j \<in> set h" for j
    using that u [of "f k"] by (cases "u (f k)") (auto simp: h_def)
  have "h' \<noteq> [] \<and> (\<forall>j\<in>set h'. j \<in> insert k R \<and> f j = c)" if "v c = Some h'" for c h'
    using that u [of c h'] h by (cases "c = f k") (auto simp: v_def)
  moreover have "f j \<le> s'" if "j \<in> insert k R" for j using that R [of j] by (auto simp: s'_def)
  moreover have "0 \<le> s'" using s(1) by (simp add: s'_def)
  moreover have "v s' = None \<Longrightarrow> s' = 0" using s(2) by (auto simp: v_def s'_def split: if_splits)
  ultimately have "groupsOk f (insert k R) v s'" unfolding groupsOk_def by blast
  then show ?thesis by (simp only: v_def s'_def h_def)
qed

lemma groupsOk_skip: "groupsOk f R u s \<Longrightarrow> \<not> f k > 0 \<Longrightarrow> groupsOk f (insert k R) u s"
  unfolding groupsOk_def by auto

lemma cursorGroups_ok:
  assumes "getSkillAreaPlayerNum t \<noteq> SKILL_AREA_CURSOR_ALL"
  shows "groupsOk (coverage b e t) R u s \<Longrightarrow>
    \<exists>u' s'. cursorGroups b e t ks u s = Inr (u', s') \<and> groupsOk (coverage b e t) (R \<union> set ks) u' s'"
proof (induction ks arbitrary: R u s)
  case (Cons k ks)
  show ?case
  proof (cases "coverage b e t k > 0")
    case True
    let ?u = "u(coverage b e t k \<mapsto> (case u (coverage b e t k) of None \<Rightarrow> [] | Some h \<Rightarrow> h) @ [k])"
    let ?s = "if coverage b e t k > s then coverage b e t k else s"
    have "cursorGroups b e t (k # ks) u s = cursorGroups b e t ks ?u ?s"
      using True assms by (simp only: cursorGroups.simps Let_def simp_thms if_True)
    then show ?thesis using Cons.IH [OF groupsOk_add [OF Cons.prems True]] by (simp only: list.set Un_insert_left Un_insert_right)
  next
    case False
    from Cons.IH [OF groupsOk_skip [OF Cons.prems False]] False assms show ?thesis by (simp add: Let_def)
  qed
qed simp

lemma rand_index: "0 < n \<Longrightarrow> 0 \<le> fst (rand L n None s) \<and> fst (rand L n None s) < n"
  using jrem_abs_less [of n] by (auto simp: rand_def split: prod.splits)

lemma cursorRange_nonempty: "fst (cursorRange e t) < snd (cursorRange e t)"
  by (simp add: cursorRange_def Let_def)



end
