(* ===== verification/Team.thy ===== *)
theory Team
  imports Fighter "HOL-Library.Monad_Syntax"
begin

text \<open>
  Teams: the part of the class \<open>ModelVo\<close> that joins characters to a leader, with the hired
  mercenaries (\<open>merList\<close>), the legion members (\<open>legionList\<close>), the pet and the trail of
  positions that the followers walk along.

  The characters refer to each other, so they live in a store: a reference is a number, and
  \<open>chars s r\<close> is the object it stands for.  A method of the object \<open>p\<close> is a function of \<open>p\<close> and
  the state.  An array of references that may hold \<open>null\<close> is a list of options; the vector
  \<open>members\<close> never holds \<open>null\<close> (only \<open>addMember\<close> puts something into it), so it is a list of
  references.  The result \<open>None\<close> of a method is a \<open>TypeError\<close>.  The notifications that the
  methods send are collected in \<open>news\<close>.
\<close>

section \<open>State\<close>

type_synonym ref = nat

record team_char = model_vo +
  groupId :: int
  ownerid :: "int option"
  leaderID :: int
  follower :: "int option"
  members :: "ref list option"
  merList :: "ref option list option"
  legionList :: "ref list option"
  pet :: "ref option"
  isMyPlayer :: bool
  gx :: int
  gy :: int
  transportStyle :: int
  petStyle :: int
  playerSprite :: "int option"
  lastMove :: "(int \<times> int) option list option"
  lastMoveBeginIndex :: int

datatype team_news =
  ON_MER_ADD ref
| ON_MER_DEL ref
| ON_LEGION_ADD ref
| ON_LEGION_DEL ref
| ON_PET_ADD ref
| ON_PET_DEL int
| UPDATE_MODLE ref
| ON_PLAYER_ATTR_UPDATE int
| ON_PLAYER_ICON_UPDATE int

record team_state =
  chars :: "ref \<Rightarrow> team_char"
  news :: "team_news list"

abbreviation (input) ICON :: int where "ICON \<equiv> 107"
abbreviation (input) LAST_MOVE_FILL :: int where "LAST_MOVE_FILL \<equiv> 2"
abbreviation (input) PET_INNER_SHOW :: int where "PET_INNER_SHOW \<equiv> 256"
abbreviation (input) HIDE_SPIRTE :: int where "HIDE_SPIRTE \<equiv> 524288"
abbreviation (input) MAX_MERCENARY_MEMBER :: nat where "MAX_MERCENARY_MEMBER \<equiv> 2"
abbreviation (input) HOUSE_TWO_PEOPLE :: int where "HOUSE_TWO_PEOPLE \<equiv> 11"
abbreviation (input) HOUSE_TWO_PEOPLE_SPRITE :: int where "HOUSE_TWO_PEOPLE_SPRITE \<equiv> 790"

definition onChar :: "ref \<Rightarrow> (team_char \<Rightarrow> team_char) \<Rightarrow> team_state \<Rightarrow> team_state" where
  "onChar r f s = s\<lparr>chars := (chars s)(r := f (chars s r))\<rparr>"

definition tell :: "team_news \<Rightarrow> team_state \<Rightarrow> team_state" where
  "tell n s = s\<lparr>news := news s @ [n]\<rparr>"

section \<open>Small methods\<close>

definition refreshWorldSprite :: "ref \<Rightarrow> team_state \<Rightarrow> team_state" where
  "refreshWorldSprite p s =
     (if isMyPlayer (chars s p) then tell (ON_PLAYER_ATTR_UPDATE ICON) s
      else tell (ON_PLAYER_ICON_UPDATE (fid (chars s p))) s)"

definition isTwoPeopleStyle :: "int \<Rightarrow> bool" where
  "isTwoPeopleStyle e \<longleftrightarrow> e = HOUSE_TWO_PEOPLE \<or> e \<ge> 54 \<and> 64 > e"

definition isTwoPeopleHouse :: "ref \<Rightarrow> team_state \<Rightarrow> bool" where
  "isTwoPeopleHouse p s = isTwoPeopleStyle (transportStyle (chars s p))"

definition isLeader :: "ref \<Rightarrow> team_state \<Rightarrow> bool" where
  "isLeader p s \<longleftrightarrow> leaderID (chars s p) = fid (chars s p)"

definition isInTeam :: "ref \<Rightarrow> team_state \<Rightarrow> bool" where
  "isInTeam p s \<longleftrightarrow> leaderID (chars s p) > 0"

definition isMember :: "ref \<Rightarrow> team_state \<Rightarrow> bool" where
  "isMember p s \<longleftrightarrow> isInTeam p s \<and> \<not> isLeader p s"

definition memberList :: "ref \<Rightarrow> team_state \<Rightarrow> ref list" where
  "memberList p s = (case members (chars s p) of None \<Rightarrow> [] | Some ms \<Rightarrow> ms)"

definition isHasPlayerMember :: "ref \<Rightarrow> team_state \<Rightarrow> bool" where
  "isHasPlayerMember p s = list_ex (\<lambda>r. ftype (chars s r) = TYPE_PLAYER) (memberList p s)"

definition isPlayerLeader :: "ref \<Rightarrow> team_state \<Rightarrow> bool" where
  "isPlayerLeader p s \<longleftrightarrow> isLeader p s \<and> isHasPlayerMember p s"

definition isPlayerTeam :: "ref \<Rightarrow> team_state \<Rightarrow> bool" where
  "isPlayerTeam p s =
     (if \<not> isInTeam p s then False else if isLeader p s \<and> \<not> isHasPlayerMember p s then False else True)"

definition isSameTeam :: "ref option \<Rightarrow> ref option \<Rightarrow> team_state \<Rightarrow> bool" where
  "isSameTeam e t s =
     (case (e, t) of
        (Some e, Some t) \<Rightarrow>
          if leaderID (chars s e) \<le> 0 \<or> leaderID (chars s t) \<le> 0 then False
          else leaderID (chars s e) = leaderID (chars s t)
      | _ \<Rightarrow> False)"

definition getMemberById :: "ref \<Rightarrow> int \<Rightarrow> team_state \<Rightarrow> bool" where
  "getMemberById p e s =
     list_ex (\<lambda>r. ftype (chars s r) = TYPE_PLAYER \<and> fid (chars s r) = e) (memberList p s)"

definition isMercenary :: "ref \<Rightarrow> team_state \<Rightarrow> bool" where
  "isMercenary p s = (case merList (chars s p) of None \<Rightarrow> False | Some l \<Rightarrow> l \<noteq> [])"

definition getMercenaryById :: "ref \<Rightarrow> int \<Rightarrow> team_state \<Rightarrow> ref option" where
  "getMercenaryById p e s =
     (case merList (chars s p) of
        None \<Rightarrow> None
      | Some l \<Rightarrow>
          (case List.find (\<lambda>x. case x of None \<Rightarrow> False
                               | Some r \<Rightarrow> ftype (chars s r) = TYPE_MERCENARY \<and> groupId (chars s r) = e) l of
             None \<Rightarrow> None
           | Some x \<Rightarrow> x))"

definition checkIsHasLegionVo :: "ref \<Rightarrow> ref \<Rightarrow> team_state \<Rightarrow> bool option" where
  "checkIsHasLegionVo p e s = map_option (\<lambda>l. e \<in> set l) (legionList (chars s p))"

definition checkIsHasLegionTem :: "ref \<Rightarrow> team_state \<Rightarrow> bool" where
  "checkIsHasLegionTem p s = (case legionList (chars s p) of None \<Rightarrow> False | Some l \<Rightarrow> l \<noteq> [])"

definition setLeaderID :: "int \<Rightarrow> team_char \<Rightarrow> team_char" where
  "setLeaderID e c = c\<lparr>leaderID := e\<rparr>"

definition setWorldPos :: "int \<Rightarrow> int \<Rightarrow> team_char \<Rightarrow> team_char" where
  "setWorldPos e t c = c\<lparr>px := e, py := t\<rparr>"

text \<open>\<open>setPosition\<close> of a \<open>PlayerVo\<close> ignores blocked cells of the scene map; in \<open>ModelVo\<close> no cell
  is blocked.\<close>

definition setPosition :: "(int \<Rightarrow> int \<Rightarrow> bool) \<Rightarrow> int \<Rightarrow> int \<Rightarrow> team_char \<Rightarrow> team_char" where
  "setPosition isBlock e t c = (if isBlock e t then c else c\<lparr>gx := e, gy := t\<rparr>)"

section \<open>The trail\<close>

text \<open>The slots of a new trail are empty arrays, \<open>None\<close> here.\<close>

definition getLastMove :: "team_char \<Rightarrow> (int \<times> int) option" where
  "getLastMove c =
     (if \<not> isTabStatus c LAST_MOVE_FILL then None
      else case lastMove c of None \<Rightarrow> None | Some l \<Rightarrow> jget l (lastMoveBeginIndex c))"

definition saveLastMove :: "int \<Rightarrow> int \<Rightarrow> team_char \<Rightarrow> team_char" where
  "saveLastMove e t c =
     (let l = (case lastMove c of None \<Rightarrow> replicate 5 None | Some l \<Rightarrow> l);
          l' = jset l (lastMoveBeginIndex c) (Some (e, t));
          i = (lastMoveBeginIndex c + 1) mod int (length l');
          c = c\<lparr>lastMove := Some l', lastMoveBeginIndex := i\<rparr>
      in if 0 = i then setTabStatus True LAST_MOVE_FILL c else c)"

definition cleanLastMove :: "team_char \<Rightarrow> team_char" where
  "cleanLastMove c =
     (let c = (setTabStatus False LAST_MOVE_FILL c)\<lparr>lastMoveBeginIndex := 0\<rparr>
      in c\<lparr>lastMove := map_option (map (\<lambda>_. Some (0, 0))) (lastMove c)\<rparr>)"

section \<open>Members\<close>

definition initFollowPos :: "ref \<Rightarrow> team_state \<Rightarrow> team_state" where
  "initFollowPos p s =
     (let e = pet (chars s p); t = px (chars s p); i = py (chars s p);
          s = (case e of None \<Rightarrow> s | Some e \<Rightarrow> onChar e (setWorldPos t i) s)
      in fold (\<lambda>a s. let s = onChar a (setWorldPos t i) s
                     in (case pet (chars s a) of
                           None \<Rightarrow> s
                         | Some q \<Rightarrow> onChar q (setWorldPos (px (chars s a)) (py (chars s a))) s))
           (memberList p s) s)"

text \<open>The loop of \<open>clearMember\<close> runs from the last index to 0: it keeps hired mercenaries and
  members of the legion.\<close>

definition releaseMember :: "ref \<Rightarrow> ref \<Rightarrow> team_state \<Rightarrow> team_state" where
  "releaseMember p i s =
     onChar p (\<lambda>c. c\<lparr>members := map_option (remove1 i) (members c)\<rparr>) (onChar i (\<lambda>c. c\<lparr>follower := None\<rparr>) s)"

definition clearOne :: "ref \<Rightarrow> ref \<Rightarrow> team_state \<Rightarrow> team_state option" where
  "clearOne p i s =
     (if ftype (chars s i) \<noteq> TYPE_MERCENARY \<or> getMercenaryById p (groupId (chars s i)) s = None then
        (if ftype (chars s i) = TYPE_LEGION then
           do { kept \<leftarrow> checkIsHasLegionVo p i s; Some (if kept then s else releaseMember p i s) }
         else Some (releaseMember p i s))
      else Some s)"

fun clearLoop_members :: "ref \<Rightarrow> nat \<Rightarrow> team_state \<Rightarrow> team_state option" where
  "clearLoop_members p 0 s = Some s"
| "clearLoop_members p (Suc t) s =
     (if t < length (memberList p s)
      then do { s \<leftarrow> clearOne p (memberList p s ! t) s; clearLoop_members p t s }
      else clearLoop_members p t s)"

definition disband :: "ref \<Rightarrow> team_state \<Rightarrow> team_state" where
  "disband p s =
     (if memberList p s = [] then
        (let s = onChar p (\<lambda>c. c\<lparr>members := None\<rparr>) s
         in if isLeader p s
            then onChar p (\<lambda>c. (cleanLastMove (setLeaderID (- 1) c))\<lparr>follower := None\<rparr>) s
            else s)
      else if isLeader p s then onChar p (\<lambda>c. c\<lparr>follower := None\<rparr>) s else s)"

definition clearMember :: "ref \<Rightarrow> team_state \<Rightarrow> team_state option" where
  "clearMember p s =
     do { s \<leftarrow> clearLoop_members p (length (memberList p s)) (onChar p (setTabStatus False HIDE_SPIRTE) s);
          let s = refreshWorldSprite p (disband p s);
          Some (if ftype (chars s p) = TYPE_PLAYER then tell (UPDATE_MODLE p) s else s) }"

definition ignoreMember :: "ref \<Rightarrow> team_state \<Rightarrow> team_state option" where
  "ignoreMember p s = clearMember p (onChar p (\<lambda>c. setLeaderID (fid c) c) s)"

text \<open>The number under which \<open>removeMember\<close> knows a member.\<close>

definition memberKey :: "team_char \<Rightarrow> int" where
  "memberKey c =
     (if ftype c = TYPE_PLAYER then fid c
      else if ftype c = TYPE_MERCENARY then groupId c
      else if ftype c = TYPE_LEGION then fid c else 0)"

definition takeOut :: "ref \<Rightarrow> ref \<Rightarrow> team_state \<Rightarrow> team_state option" where
  "takeOut p n s =
     (let s = onChar p (\<lambda>c. c\<lparr>members := map_option (remove1 n) (members c)\<rparr>) s;
          s = (if ftype (chars s n) = TYPE_PLAYER then onChar n (\<lambda>c. setLeaderID (fid c) c) s else s)
      in do { s \<leftarrow> clearMember n s;
              let s = initFollowPos p s;
              Some (if isTwoPeopleHouse p s \<and> (ftype (chars s n) = TYPE_PLAYER \<or> ftype (chars s n) = TYPE_LEGION)
                    then refreshWorldSprite p s else s) })"

definition removeMember :: "ref \<Rightarrow> int \<Rightarrow> int \<Rightarrow> team_state \<Rightarrow> (bool \<times> team_state) option" where
  "removeMember p e t s =
     (if isMember p s \<and> t = TYPE_PLAYER then Some (False, s)
      else
        do { s \<leftarrow> (case List.find (\<lambda>n. ftype (chars s n) = t \<and> memberKey (chars s n) = e) (memberList p s) of
                     None \<Rightarrow> Some s
                   | Some n \<Rightarrow> takeOut p n s);
             s \<leftarrow> (if memberList p s = [] then clearMember p s else Some s);
             Some (True, s) })"

definition removeMercenaryByGroupoID :: "ref \<Rightarrow> int \<Rightarrow> team_state \<Rightarrow> (bool \<times> team_state) option" where
  "removeMercenaryByGroupoID p e s = removeMember p e TYPE_MERCENARY s"

definition sameMember :: "team_char \<Rightarrow> team_char \<Rightarrow> bool" where
  "sameMember n e \<longleftrightarrow>
     ftype n = ftype e \<and>
     (ftype e = TYPE_PLAYER \<and> fid n = fid e \<or> ftype e = TYPE_MERCENARY \<and> groupId n = groupId e)"

definition join :: "ref \<Rightarrow> ref \<Rightarrow> team_state \<Rightarrow> team_state" where
  "join p e s =
     (let s = onChar p (\<lambda>c. if members c = None then c\<lparr>members := Some []\<rparr> else c) s;
          s = onChar p (\<lambda>c. if leaderID c \<le> 0 then setLeaderID (fid c) c else c) s;
          i = fid (chars s p);
          s = onChar e (\<lambda>c. (setLeaderID i c)\<lparr>follower := Some i\<rparr>) s;
          s = onChar p (\<lambda>c. c\<lparr>members := map_option (\<lambda>ms. ms @ [e]) (members c)\<rparr>) s
      in initFollowPos p s)"

definition addMember :: "ref \<Rightarrow> ref option \<Rightarrow> team_state \<Rightarrow> (bool \<times> team_state) option" where
  "addMember p e s =
     (case e of
        None \<Rightarrow> Some (False, s)
      | Some e \<Rightarrow>
          let ty = ftype (chars s e)
          in if ty = TYPE_PLAYER \<and> fid (chars s e) = fid (chars s p) then Some (False, s)
             else
               do { s \<leftarrow> (if list_ex (\<lambda>n. sameMember (chars s n) (chars s e)) (memberList p s)
                          then map_option snd
                                 (if ty = TYPE_PLAYER then removeMember p (fid (chars s e)) TYPE_PLAYER s
                                  else removeMercenaryByGroupoID p (groupId (chars s e)) s)
                          else Some s);
                    let s = join p e s;
                    let s = (if isTwoPeopleHouse p s \<and> sex (chars s p) \<noteq> sex (chars s e) \<and> ty = TYPE_PLAYER \<and>
                                playerSprite (chars s p) \<noteq> Some HOUSE_TWO_PEOPLE_SPRITE
                             then refreshWorldSprite p s else s);
                    Some (True, if ty = TYPE_PLAYER then tell (UPDATE_MODLE p) s else s) })"

definition isVisible :: "team_char \<Rightarrow> bool" where
  "isVisible c \<longleftrightarrow> \<not> isTabStatus c HIDE_SPIRTE"

definition isFollower :: "team_char \<Rightarrow> bool" where
  "isFollower c \<longleftrightarrow> follower c \<noteq> None"

definition clearMemberHideStatus :: "ref \<Rightarrow> team_state \<Rightarrow> team_state" where
  "clearMemberHideStatus p s =
     (if isLeader p s then
        fold (\<lambda>i s. if isTabStatus (chars s i) HIDE_SPIRTE
                    then refreshWorldSprite i (onChar i (setTabStatus False HIDE_SPIRTE) s) else s) (memberList p s) s
      else s)"

section \<open>Mercenaries\<close>

definition removeMercenary :: "ref \<Rightarrow> ref option \<Rightarrow> team_state \<Rightarrow> (bool \<times> team_state) option" where
  "removeMercenary p e s =
     (case e of
        None \<Rightarrow> Some (False, s)
      | Some e \<Rightarrow>
          if ftype (chars s e) \<noteq> TYPE_MERCENARY then Some (False, s)
          else
            case merList (chars s p) of
              None \<Rightarrow> Some (False, s)
            | Some l \<Rightarrow>
                (case List.find (\<lambda>t. case l ! t of
                           None \<Rightarrow> False
                         | Some i \<Rightarrow> ftype (chars s i) = ftype (chars s e) \<and> groupId (chars s i) = groupId (chars s e))
                        [0..<length l] of
                   None \<Rightarrow> Some (False, s)
                 | Some t \<Rightarrow>
                     let i = the (l ! t)
                     in do { (b, s) \<leftarrow> removeMercenaryByGroupoID p (groupId (chars s i)) s;
                             let s = onChar p (\<lambda>c. c\<lparr>merList := map_option (\<lambda>l. l[t := None]) (merList c)\<rparr>) s;
                             Some (True, tell (ON_MER_DEL i) s) }))"

text \<open>The first free slot, or 0 when there is none.\<close>

definition freeSlot :: "ref option list \<Rightarrow> nat" where
  "freeSlot l = (case List.find (\<lambda>t. l ! t = None) [0..<length l] of None \<Rightarrow> 0 | Some t \<Rightarrow> t)"

definition addMercenary ::
  "(int \<Rightarrow> int \<Rightarrow> bool) \<Rightarrow> ref \<Rightarrow> ref option \<Rightarrow> bool \<Rightarrow> team_state \<Rightarrow> (bool \<times> team_state) option" where
  "addMercenary isBlock p e t s =
     (case e of
        None \<Rightarrow> Some (False, s)
      | Some e \<Rightarrow>
          if ftype (chars s e) \<noteq> TYPE_MERCENARY then Some (False, s)
          else
            do { s \<leftarrow> (case merList (chars s p) of
                         None \<Rightarrow> Some (onChar p (\<lambda>c. c\<lparr>merList := Some (replicate MAX_MERCENARY_MEMBER None)\<rparr>) s)
                       | Some l \<Rightarrow>
                           (case List.find (\<lambda>x. case x of None \<Rightarrow> False
                                      | Some r \<Rightarrow> groupId (chars s r) = groupId (chars s e)) l of
                              None \<Rightarrow> Some s
                            | Some r \<Rightarrow> map_option snd (removeMercenary p r s)));
                 let k = freeSlot (the (merList (chars s p)));
                 (b, s) \<leftarrow> addMember p (Some e) s;
                 if \<not> b then Some (False, s)
                 else
                   (let s = onChar p (\<lambda>c. c\<lparr>merList := map_option (\<lambda>l. l[k := Some e]) (merList c)\<rparr>) s;
                        s = onChar e (\<lambda>c. c\<lparr>ownerid := Some (fid (chars s p))\<rparr>) s;
                        s = onChar e (setPosition isBlock (gx (chars s p)) (gy (chars s p))) s
                    in Some (True, if t then tell (ON_MER_ADD e) s else s)) })"

text \<open>The loops of \<open>clearMercenary\<close> and \<open>clearLegionList\<close> over the members, from the last index
  to 0; reading \<open>members\<close> after it has become \<open>null\<close> raises.\<close>

fun eachMemberDown :: "(ref \<Rightarrow> team_state \<Rightarrow> (bool \<times> team_state) option) \<Rightarrow> int \<Rightarrow> ref \<Rightarrow> nat \<Rightarrow> team_state \<Rightarrow> team_state option" where
  "eachMemberDown f ty p 0 s = Some s"
| "eachMemberDown f ty p (Suc e) s =
     do { ms \<leftarrow> members (chars s p);
          s \<leftarrow> (if e < length ms \<and> ftype (chars s (ms ! e)) = ty
                then map_option snd (f (ms ! e) s) else Some s);
          eachMemberDown f ty p e s }"

definition clearMercenary :: "ref \<Rightarrow> team_state \<Rightarrow> team_state option" where
  "clearMercenary p s =
     (case merList (chars s p) of
        None \<Rightarrow> Some s
      | Some _ \<Rightarrow>
          do { s \<leftarrow> eachMemberDown (\<lambda>t. removeMercenary p (Some t)) TYPE_MERCENARY p (length (memberList p s)) s;
               Some (onChar p (\<lambda>c. c\<lparr>merList := None\<rparr>) s) })"

section \<open>Legion members\<close>

definition addLegionVo ::
  "(int \<Rightarrow> int \<Rightarrow> bool) \<Rightarrow> ref \<Rightarrow> ref option \<Rightarrow> bool \<Rightarrow> team_state \<Rightarrow> (bool \<times> team_state) option" where
  "addLegionVo isBlock p e t s =
     (case e of
        None \<Rightarrow> Some (False, s)
      | Some e \<Rightarrow>
          if ftype (chars s e) \<noteq> TYPE_LEGION then Some (False, s)
          else
            do { (b, s) \<leftarrow> addMember p (Some e) s;
                 if \<not> b then Some (False, s)
                 else
                   (let s = onChar p (\<lambda>c. c\<lparr>legionList :=
                              Some ((case legionList c of None \<Rightarrow> [] | Some l \<Rightarrow> l) @ [e])\<rparr>) s;
                        s = onChar e (\<lambda>c. c\<lparr>ownerid := Some (fid (chars s p))\<rparr>) s;
                        s = onChar e (setPosition isBlock (gx (chars s p)) (gy (chars s p))) s
                    in Some (True, if t then tell (ON_LEGION_ADD e) s else s)) })"

definition removeLegionVo :: "ref \<Rightarrow> ref option \<Rightarrow> team_state \<Rightarrow> (bool \<times> team_state) option" where
  "removeLegionVo p e s =
     (case e of
        None \<Rightarrow> Some (False, s)
      | Some e \<Rightarrow>
          if ftype (chars s e) \<noteq> TYPE_LEGION then Some (False, s)
          else
            case legionList (chars s p) of
              None \<Rightarrow> Some (False, s)
            | Some l \<Rightarrow>
                if e \<in> set l then
                  do { let s = onChar p (\<lambda>c. c\<lparr>legionList := Some (remove1 e l)\<rparr>) s;
                       (b, s) \<leftarrow> removeMember p (fid (chars s e)) TYPE_LEGION s;
                       Some (True, tell (ON_LEGION_DEL e) s) }
                else Some (True, s))"

text \<open>The last statement of \<open>clearLegionList\<close> compares \<open>legionList\<close> with \<open>null\<close>, it does not assign.\<close>

definition clearLegionList :: "ref \<Rightarrow> team_state \<Rightarrow> team_state option" where
  "clearLegionList p s =
     (case legionList (chars s p) of
        None \<Rightarrow> Some s
      | Some _ \<Rightarrow> eachMemberDown (\<lambda>t. removeLegionVo p (Some t)) TYPE_LEGION p (length (memberList p s)) s)"

section \<open>The pet\<close>

definition setPet :: "ref \<Rightarrow> ref option \<Rightarrow> bool \<Rightarrow> team_state \<Rightarrow> team_state" where
  "setPet p e t s =
     (case e of
        None \<Rightarrow> tell (ON_PET_DEL (fid (chars s p))) (onChar p (\<lambda>c. c\<lparr>pet := None\<rparr>) s)
      | Some e \<Rightarrow>
          let s = onChar p (\<lambda>c. (setTabStatus False PET_INNER_SHOW c)\<lparr>pet := Some e\<rparr>) s;
              s = onChar e (\<lambda>c. c\<lparr>follower := Some (fid (chars s p))\<rparr>) s;
              s = (if petStyle (chars s e) \<in> set [3, 13, 4, 17, 7, 26]
                   then onChar p (setTabStatus True PET_INNER_SHOW) s else s)
          in if t then tell (ON_PET_ADD e) s else s)"

end
