(* ===== verification/TeamProps.thy ===== *)
theory TeamProps
  imports Team
begin

text \<open>
  The invariant of a team, kept by every operation of its leader, none of which raises; and the
  trail as a queue of the last five positions.
\<close>

section \<open>What the team operations look at\<close>

definition core :: "team_char \<Rightarrow>
    int \<times> int \<times> int \<times> int \<times> int option \<times> ref list option \<times> ref option list option \<times> ref list option" where
  "core c = (ftype c, fid c, groupId c, leaderID c, follower c, members c, merList c, legionList c)"

definition sameTeam :: "team_state \<Rightarrow> team_state \<Rightarrow> bool" where
  "sameTeam s s' \<longleftrightarrow> (\<forall>r. core (chars s' r) = core (chars s r))"

lemma chars_onChar [simp]: "chars (onChar r f s) x = (if x = r then f (chars s r) else chars s x)"
  by (simp add: onChar_def)

lemma chars_tell [simp]: "chars (tell n s) = chars s"
  by (simp add: tell_def)

lemma chars_refresh [simp]: "chars (refreshWorldSprite p s) = chars s"
  by (simp add: refreshWorldSprite_def)

lemma core_frame [simp]:
  "core (setTabStatus b k c) = core c" "core (setWorldPos e t c) = core c" "core (setPosition isBlock e t c) = core c"
  "core (cleanLastMove c) = core c" "core (c\<lparr>ownerid := w\<rparr>) = core c" "core (c\<lparr>pet := q\<rparr>) = core c"
  by (simp_all add: core_def setTabStatus_def setWorldPos_def setPosition_def cleanLastMove_def Let_def)

lemma sameTeam_refl [simp]: "sameTeam s s"
  by (simp add: sameTeam_def)

lemma sameTeam_trans: "sameTeam s t \<Longrightarrow> sameTeam t u \<Longrightarrow> sameTeam s u"
  by (simp add: sameTeam_def)

lemma sameTeam_onChar: "(\<And>c. core (f c) = core c) \<Longrightarrow> sameTeam s (onChar r f s)"
  by (simp add: sameTeam_def)

lemma sameTeam_out [simp]:
  "sameTeam s (tell n t) = sameTeam s t" "sameTeam s (refreshWorldSprite p t) = sameTeam s t"
  by (simp_all add: sameTeam_def)

lemma sameTeam_fold: "(\<And>x s. sameTeam s (f x s)) \<Longrightarrow> sameTeam s (fold f xs s)"
  by (induction xs arbitrary: s) (auto intro: sameTeam_trans)

lemma sameTeam_initFollowPos: "sameTeam s (initFollowPos p s)"
proof -
  have m: "sameTeam s (onChar r (setWorldPos t i) s)" for r t i s by (rule sameTeam_onChar) simp
  show ?thesis
    unfolding initFollowPos_def Let_def
    by (rule sameTeam_trans [OF _ sameTeam_fold]) (auto split: option.split intro: m sameTeam_trans [OF m])
qed

lemma sameTeamD:
  assumes "sameTeam s s'"
  shows "ftype (chars s' r) = ftype (chars s r)" "fid (chars s' r) = fid (chars s r)"
    "groupId (chars s' r) = groupId (chars s r)" "leaderID (chars s' r) = leaderID (chars s r)"
    "follower (chars s' r) = follower (chars s r)" "members (chars s' r) = members (chars s r)"
    "merList (chars s' r) = merList (chars s r)" "legionList (chars s' r) = legionList (chars s r)"
  using assms by (simp_all add: sameTeam_def core_def)

lemma memberList_same: "sameTeam s s' \<Longrightarrow> memberList p s' = memberList p s"
  by (simp add: memberList_def sameTeamD)

section \<open>Clearing\<close>

definition kept :: "ref \<Rightarrow> team_state \<Rightarrow> ref \<Rightarrow> bool" where
  "kept p s i \<longleftrightarrow>
     ftype (chars s i) = TYPE_MERCENARY \<and> getMercenaryById p (groupId (chars s i)) s \<noteq> None \<or>
     ftype (chars s i) = TYPE_LEGION \<and> (case legionList (chars s p) of None \<Rightarrow> False | Some l \<Rightarrow> i \<in> set l)"

definition legionsListed :: "ref \<Rightarrow> team_state \<Rightarrow> bool" where
  "legionsListed p s \<longleftrightarrow>
     (\<forall>m\<in>set (memberList p s). ftype (chars s m) = TYPE_LEGION \<longrightarrow> legionList (chars s p) \<noteq> None)"

text \<open>The state after the members in \<open>R\<close> have been dropped: \<open>ms\<close> are left.\<close>

definition dropped :: "ref \<Rightarrow> ref list \<Rightarrow> ref set \<Rightarrow> team_state \<Rightarrow> team_state \<Rightarrow> bool" where
  "dropped p ms R s s' \<longleftrightarrow>
     (\<forall>r. core (chars s' r) =
        core (if r = p then (chars s p)\<lparr>members := Some ms\<rparr>
              else if r \<in> R then (chars s r)\<lparr>follower := None\<rparr> else chars s r))"

lemma clearOne_cases:
  assumes "ftype (chars s i) = TYPE_LEGION \<Longrightarrow> legionList (chars s p) \<noteq> None"
  shows "clearOne p i s = Some (if kept p s i then s else releaseMember p i s)"
  using assms by (auto simp: clearOne_def kept_def checkIsHasLegionVo_def split: option.split)

lemma getMercenaryById_cong:
  "merList (chars s' p) = merList (chars s p) \<Longrightarrow> (\<And>r. ftype (chars s' r) = ftype (chars s r)) \<Longrightarrow>
   (\<And>r. groupId (chars s' r) = groupId (chars s r)) \<Longrightarrow> getMercenaryById p g s' = getMercenaryById p g s"
  by (simp add: getMercenaryById_def cong: option.case_cong)

lemma releaseMember_fields:
  "ftype (chars (releaseMember p i s) r) = ftype (chars s r)" "groupId (chars (releaseMember p i s) r) = groupId (chars s r)"
  "merList (chars (releaseMember p i s) r) = merList (chars s r)" "legionList (chars (releaseMember p i s) r) = legionList (chars s r)"
  by (simp_all add: releaseMember_def)

lemma kept_cong:
  assumes "merList (chars s' p) = merList (chars s p)" "legionList (chars s' p) = legionList (chars s p)"
    and "\<And>r. ftype (chars s' r) = ftype (chars s r)" "\<And>r. groupId (chars s' r) = groupId (chars s r)"
  shows "kept p s' = kept p s"
proof
  fix x show "kept p s' x = kept p s x"
    unfolding kept_def assms using getMercenaryById_cong [of s' p s "groupId (chars s x)"] assms by simp
qed

lemma kept_release: "kept p (releaseMember p i s) = kept p s"
  by (rule kept_cong) (simp_all add: releaseMember_fields)

lemma clearLoop_run:
  assumes "members (chars s p) = Some (as @ bs)" "p \<notin> set as"
    and "\<And>m. m \<in> set as \<Longrightarrow> ftype (chars s m) = TYPE_LEGION \<Longrightarrow> legionList (chars s p) \<noteq> None"
  shows "\<exists>s'. clearLoop_members p (length as) s = Some s' \<and>
    dropped p (filter (kept p s) as @ bs) {r \<in> set as. \<not> kept p s r} s s'"
  using assms
proof (induction "length as" arbitrary: s as bs)
  case 0
  then show ?case by (auto simp: dropped_def core_def)
next
  case (Suc t)
  then obtain cs x where as: "as = cs @ [x]" by (metis length_0_conv nat.distinct(1) rev_exhaust)
  with Suc.hyps have t: "t = length cs" by simp
  have at: "memberList p s ! t = x" "t < length (memberList p s)"
    using Suc.prems as t by (simp_all add: memberList_def nth_append)
  have one: "clearOne p x s = Some (if kept p s x then s else releaseMember p x s)"
    using Suc.prems(3) as by (intro clearOne_cases) auto
  have step: "clearLoop_members p (length as) s =
      clearLoop_members p t (if kept p s x then s else releaseMember p x s)"
    unfolding Suc.hyps(2) [symmetric] using at one by simp
  show ?case
  proof (cases "kept p s x")
    case True
    have "\<exists>s'. clearLoop_members p (length cs) s = Some s' \<and>
        dropped p (filter (kept p s) cs @ [x] @ bs) {r \<in> set cs. \<not> kept p s r} s s'"
      using Suc.prems as by (intro Suc.hyps(1) [OF t]) auto
    moreover have "{r \<in> set as. \<not> kept p s r} = {r \<in> set cs. \<not> kept p s r}" using True as by auto
    ultimately show ?thesis using step True as t by simp
  next
    case False
    let ?s = "releaseMember p x s" and ?ds = "remove1 x as"
    have px: "p \<noteq> x" using Suc.prems as by auto
    have m: "members (chars ?s p) = Some (?ds @ bs)"
      using Suc.prems(1) px as by (simp add: releaseMember_def remove1_append)
    have l: "length ?ds = t" using as t by (simp add: length_remove1)
    have "\<exists>s'. clearLoop_members p (length ?ds) ?s = Some s' \<and>
        dropped p (filter (kept p ?s) ?ds @ bs) {r \<in> set ?ds. \<not> kept p ?s r} ?s s'"
      using Suc.prems(2,3) m by (intro Suc.hyps(1)) (auto simp: l releaseMember_fields dest: set_remove1_subset [THEN subsetD])
    then obtain s' where s': "clearLoop_members p t ?s = Some s'"
        "dropped p (filter (kept p s) ?ds @ bs) {r \<in> set ?ds. \<not> kept p s r} ?s s'"
      by (auto simp: l kept_release)
    have f: "filter (kept p s) ?ds = filter (kept p s) as" using False by (simp add: filter_remove1 remove1_idem)
    have R: "insert x {r \<in> set ?ds. \<not> kept p s r} = {r \<in> set as. \<not> kept p s r}"
      using False as by (auto dest: set_remove1_subset [THEN subsetD] simp: in_set_remove1)
    have "dropped p (filter (kept p s) as @ bs) {r \<in> set as. \<not> kept p s r} s s'"
      using s'(2) px unfolding f R [symmetric] dropped_def by (auto simp: releaseMember_def core_def)
    with s'(1) step False show ?thesis by auto
  qed
qed

definition cleared :: "ref \<Rightarrow> team_state \<Rightarrow> team_state \<Rightarrow> bool" where
  "cleared p s s' \<longleftrightarrow>
     (let ks = filter (kept p s) (memberList p s)
      in \<forall>r. core (chars s' r) =
           core (if r = p then
                   (chars s p)\<lparr>members := if ks = [] then None else Some ks,
                     leaderID := if ks = [] \<and> isLeader p s then - 1 else leaderID (chars s p),
                     follower := if isLeader p s then None else follower (chars s p)\<rparr>
                 else if r \<in> set (memberList p s) \<and> \<not> kept p s r then (chars s r)\<lparr>follower := None\<rparr>
                 else chars s r))"

lemma kept_same: "sameTeam s s' \<Longrightarrow> kept p s' = kept p s"
  by (rule kept_cong) (simp_all add: sameTeamD)

lemma clearMember_run:
  assumes "p \<notin> set (memberList p s)" "legionsListed p s"
  shows "\<exists>s'. clearMember p s = Some s' \<and> cleared p s s'"
proof -
  define t where "t = onChar p (setTabStatus False HIDE_SPIRTE) s"
  have st: "sameTeam s t" unfolding t_def by (rule sameTeam_onChar) simp
  obtain u where u: "clearLoop_members p (length (memberList p s)) t = Some u"
      "\<forall>r. core (chars u r) =
         core (if r = p then (if members (chars s p) = None then chars s p else (chars s p)\<lparr>members := Some (filter (kept p s) (memberList p s))\<rparr>)
               else if r \<in> set (memberList p s) \<and> \<not> kept p s r then (chars s r)\<lparr>follower := None\<rparr> else chars s r)"
  proof (cases "members (chars s p)")
    case None
    then show ?thesis using that [of t] st by (simp add: memberList_def sameTeam_def)
  next
    case (Some ms)
    have "\<exists>u. clearLoop_members p (length ms) t = Some u \<and>
        dropped p (filter (kept p t) ms @ []) {r \<in> set ms. \<not> kept p t r} t u"
      using assms Some sameTeamD [OF st] by (intro clearLoop_run) (auto simp: memberList_def legionsListed_def)
    with Some st show ?thesis
      by (auto simp: kept_same [OF st] memberList_def dropped_def sameTeam_def core_def intro!: that)
  qed
  let ?ks = "filter (kept p s) (memberList p s)"
  have p: "core (chars u p) = core (if members (chars s p) = None then chars s p else (chars s p)\<lparr>members := Some ?ks\<rparr>)"
    using u(2) by simp
  have ml: "memberList p u = ?ks" and l: "isLeader p u = isLeader p s"
    using p by (auto simp: memberList_def core_def isLeader_def split: option.splits if_splits)
  have v: "core (chars (disband p u) r) =
      core (if r = p then (chars u p)\<lparr>members := if ?ks = [] then None else members (chars u p),
              leaderID := if ?ks = [] \<and> isLeader p u then - 1 else leaderID (chars u p),
              follower := if isLeader p u then None else follower (chars u p)\<rparr> else chars u r)" for r
    by (simp add: disband_def ml Let_def isLeader_def core_def cleanLastMove_def setLeaderID_def setTabStatus_def)
  obtain s' where s': "clearMember p s = Some s'" "\<forall>r. core (chars s' r) = core (chars (disband p u) r)"
    using u(1) by (simp add: clearMember_def t_def [symmetric] Let_def)
  have "core (chars s' p) = core ((chars s p)\<lparr>members := if ?ks = [] then None else Some ?ks,
      leaderID := if ?ks = [] \<and> isLeader p s then - 1 else leaderID (chars s p),
      follower := if isLeader p s then None else follower (chars s p)\<rparr>)"
  proof (cases "members (chars s p)")
    case None
    then have "?ks = []" by (simp add: memberList_def)
    with None p v [of p] s'(2) l show ?thesis by (simp add: core_def)
  next
    case (Some ms)
    with p v [of p] s'(2) l show ?thesis by (simp add: core_def)
  qed
  moreover have "core (chars s' r) = core (if r \<in> set (memberList p s) \<and> \<not> kept p s r
      then (chars s r)\<lparr>follower := None\<rparr> else chars s r)" if "r \<noteq> p" for r
    using s'(2) u(2) v [of r] that by simp
  ultimately have "cleared p s s'" by (simp add: cleared_def Let_def)
  with s'(1) show ?thesis by blast
qed

section \<open>The invariant\<close>

text \<open>\<open>crew p ms s\<close>: the members \<open>ms\<close> of the leader \<open>p\<close> know him, and no player and no group of
  mercenaries is there twice.\<close>

definition crew :: "ref \<Rightarrow> ref list \<Rightarrow> team_state \<Rightarrow> bool" where
  "crew p ms s \<longleftrightarrow>
     distinct ms \<and> p \<notin> set ms \<and> leaderID (chars s p) = fid (chars s p) \<and>
     (\<forall>m\<in>set ms. leaderID (chars s m) = fid (chars s p) \<and> follower (chars s m) = Some (fid (chars s p))) \<and>
     (\<forall>m\<in>set ms. \<forall>n\<in>set ms. sameMember (chars s m) (chars s n) \<longrightarrow> m = n)"

definition ranks :: "ref \<Rightarrow> team_state \<Rightarrow> bool" where
  "ranks p s \<longleftrightarrow>
     0 < fid (chars s p) \<and> (\<forall>r. r \<noteq> p \<longrightarrow> members (chars s r) = None) \<and>
     (case members (chars s p) of None \<Rightarrow> leaderID (chars s p) = - 1 | Some ms \<Rightarrow> ms \<noteq> [] \<and> crew p ms s)"

text \<open>What stays of every character, and the lists of the leader.\<close>

definition sameOwn :: "ref \<Rightarrow> team_state \<Rightarrow> team_state \<Rightarrow> bool" where
  "sameOwn p s s' \<longleftrightarrow>
     (\<forall>r. ftype (chars s' r) = ftype (chars s r) \<and> fid (chars s' r) = fid (chars s r) \<and>
        groupId (chars s' r) = groupId (chars s r)) \<and>
     merList (chars s' p) = merList (chars s p) \<and> legionList (chars s' p) = legionList (chars s p)"

lemma sameOwn_trans: "sameOwn p s t \<Longrightarrow> sameOwn p t u \<Longrightarrow> sameOwn p s u"
  by (simp add: sameOwn_def)

lemma sameOwn_refl [simp]: "sameOwn p s s"
  by (simp add: sameOwn_def)

lemma sameOwn_same: "sameTeam s s' \<Longrightarrow> sameOwn p s s'"
  by (simp add: sameOwn_def sameTeamD)

lemma sameOwnD:
  assumes "sameOwn p s s'"
  shows "ftype (chars s' r) = ftype (chars s r)" "fid (chars s' r) = fid (chars s r)"
    "groupId (chars s' r) = groupId (chars s r)" "merList (chars s' p) = merList (chars s p)"
    "legionList (chars s' p) = legionList (chars s p)"
  using assms by (simp_all add: sameOwn_def)

lemma crew_less:
  assumes "crew p ms s" "sameOwn p s s'" "set ms' \<subseteq> set ms" "distinct ms'"
    and "leaderID (chars s' p) = leaderID (chars s p)"
    and "\<And>m. m \<in> set ms' \<Longrightarrow> leaderID (chars s' m) = leaderID (chars s m) \<and> follower (chars s' m) = follower (chars s m)"
  shows "crew p ms' s'"
proof -
  have "sameMember (chars s' m) (chars s' n) = sameMember (chars s m) (chars s n)" for m n
    using assms(2) by (simp add: sameMember_def sameOwnD)
  with assms show ?thesis unfolding crew_def by (auto simp: sameOwnD [OF assms(2)]) blast+
qed

lemma crew_same:
  assumes "crew p ms s" "sameTeam s s'"
  shows "crew p ms s'"
proof -
  have "distinct ms" using assms(1) by (simp add: crew_def)
  then show ?thesis
    by (intro crew_less [OF assms(1) sameOwn_same [OF assms(2)]]) (simp_all add: sameTeamD [OF assms(2)])
qed

lemma ranks_same: "ranks p s \<Longrightarrow> sameTeam s s' \<Longrightarrow> ranks p s'"
  by (auto simp: ranks_def sameTeamD crew_same split: option.splits)

lemma ranksD:
  assumes "ranks p s"
  shows "0 < fid (chars s p)" "r \<noteq> p \<Longrightarrow> members (chars s r) = None"
    "members (chars s p) = Some ms \<Longrightarrow> ms \<noteq> [] \<and> crew p ms s"
    "members (chars s p) = None \<Longrightarrow> leaderID (chars s p) = - 1"
  using assms by (simp_all add: ranks_def)

lemma ranks_members:
  assumes "ranks p s"
  shows "p \<notin> set (memberList p s)" "distinct (memberList p s)" "\<not> isMember p s"
  using assms
  by (auto simp: memberList_def ranks_def crew_def isMember_def isInTeam_def isLeader_def split: option.splits)

lemma memberList_eq: "members (chars s p) = Some ms \<Longrightarrow> memberList p s = ms"
  by (simp add: memberList_def)

lemma clearMember_ranks:
  assumes "ranks p s" "legionsListed p s"
  shows "\<exists>s'. clearMember p s = Some s' \<and> ranks p s' \<and> sameOwn p s s' \<and>
    memberList p s' = filter (kept p s) (memberList p s)"
proof -
  obtain s' where s': "clearMember p s = Some s'" "cleared p s s'"
    using clearMember_run ranks_members [OF assms(1)] assms(2) by blast
  let ?ks = "filter (kept p s) (memberList p s)"
  have P: "core (chars s' p) = core ((chars s p)\<lparr>members := if ?ks = [] then None else Some ?ks,
      leaderID := if ?ks = [] \<and> isLeader p s then - 1 else leaderID (chars s p),
      follower := if isLeader p s then None else follower (chars s p)\<rparr>)"
    using s'(2) by (simp add: cleared_def Let_def)
  have R: "core (chars s' r) = core (chars s r) \<or> \<not> kept p s r \<and> core (chars s' r) = core ((chars s r)\<lparr>follower := None\<rparr>)"
    if "r \<noteq> p" for r
    using s'(2) that by (simp add: cleared_def Let_def)
  then have rm: "members (chars s' r) = members (chars s r)" if "r \<noteq> p" for r
    using that by (fastforce simp: core_def)
  have rl: "leaderID (chars s' r) = leaderID (chars s r) \<and> (kept p s r \<longrightarrow> follower (chars s' r) = follower (chars s r))"
    if "r \<noteq> p" for r
    using R [OF that] by (auto simp: core_def)
  have "ftype (chars s' r) = ftype (chars s r) \<and> fid (chars s' r) = fid (chars s r) \<and>
      groupId (chars s' r) = groupId (chars s r)" for r
    using P R [of r] by (cases "r = p") (auto simp: core_def)
  then have own: "sameOwn p s s'" using P by (simp add: sameOwn_def core_def)
  have ml: "memberList p s' = ?ks" using P by (auto simp: core_def memberList_def split: if_splits)
  have "ranks p s'"
  proof (cases "?ks = []")
    case True
    have "leaderID (chars s p) = fid (chars s p) \<or> leaderID (chars s p) = - 1"
      using ranksD(3,4) [OF assms(1)] by (cases "members (chars s p)") (auto simp: crew_def)
    then have "leaderID (chars s' p) = - 1" "members (chars s' p) = None"
      using True P by (auto simp: core_def isLeader_def)
    with rm ranksD [OF assms(1)] own show ?thesis by (simp add: ranks_def sameOwnD)
  next
    case False
    then obtain ms where ms: "members (chars s p) = Some ms" by (auto simp: memberList_def split: option.splits)
    then have c: "crew p ms s" using ranksD(3) [OF assms(1)] by simp
    have lp: "leaderID (chars s' p) = leaderID (chars s p)" and m: "members (chars s' p) = Some ?ks"
      using False P by (auto simp: core_def)
    have rk: "leaderID (chars s' m) = leaderID (chars s m) \<and> follower (chars s' m) = follower (chars s m)"
      if "m \<in> set ?ks" for m
      using rl [of m] that ranks_members(1) [OF assms(1)] by (cases "m = p") auto
    have "crew p ?ks s'"
      using ms ranks_members(2) [OF assms(1)] lp rk by (intro crew_less [OF c own]) (auto simp: memberList_eq)
    with m False rm ranksD [OF assms(1)] own show ?thesis by (simp add: ranks_def sameOwnD)
  qed
  with s'(1) own ml show ?thesis by blast
qed

section \<open>Joining and leaving\<close>

lemma takeOut_run:
  assumes "ranks p s" "n \<in> set (memberList p s)"
  shows "\<exists>s'. takeOut p n s = Some s' \<and> sameOwn p s s' \<and>
    members (chars s' p) = Some (remove1 n (memberList p s)) \<and> leaderID (chars s' p) = leaderID (chars s p) \<and>
    (\<forall>r. r \<noteq> p \<longrightarrow> members (chars s' r) = None) \<and>
    (\<forall>r. r \<noteq> p \<and> r \<noteq> n \<longrightarrow> leaderID (chars s' r) = leaderID (chars s r) \<and> follower (chars s' r) = follower (chars s r))"
proof -
  obtain ms where ms: "members (chars s p) = Some ms" using assms(2) by (cases "members (chars s p)") (auto simp: memberList_def)
  have np: "n \<noteq> p" using assms ranks_members(1) by blast
  define t where "t = onChar p (\<lambda>c. c\<lparr>members := map_option (remove1 n) (members c)\<rparr>) s"
  define u where "u = (if ftype (chars t n) = TYPE_PLAYER then onChar n (\<lambda>c. setLeaderID (fid c) c) t else t)"
  have un: "members (chars u n) = None" and fu: "ftype (chars u r) = ftype (chars s r)" "fid (chars u r) = fid (chars s r)"
      "groupId (chars u r) = groupId (chars s r)" "merList (chars u r) = merList (chars s r)"
      "legionList (chars u r) = legionList (chars s r)" for r
    using np ranksD(2) [OF assms(1), of n] by (simp_all add: u_def t_def setLeaderID_def)
  have cu: "core (chars u r) = core (if r = p then (chars s p)\<lparr>members := Some (remove1 n ms)\<rparr> else chars s r)" if "r \<noteq> n" for r
    using np ms that by (simp add: u_def t_def)
  have mn: "memberList n u = []" using un by (simp add: memberList_def)
  then obtain v where v: "clearMember n u = Some v" "cleared n u v"
    using clearMember_run [of n u] by (auto simp: legionsListed_def)
  have cv: "core (chars v r) = core (chars u r)" if "r \<noteq> n" for r
    using v(2) mn that by (simp add: cleared_def)
  have vn: "core (chars v n) = core ((chars u n)\<lparr>members := None, leaderID := leaderID (chars v n), follower := follower (chars v n)\<rparr>)"
    using v(2) mn by (auto simp: cleared_def core_def)
  obtain s' where s': "takeOut p n s = Some s'" "sameTeam v s'"
  proof -
    have "takeOut p n s = Some (if isTwoPeopleHouse p (initFollowPos p v) \<and>
        (ftype (chars (initFollowPos p v) n) = TYPE_PLAYER \<or> ftype (chars (initFollowPos p v) n) = TYPE_LEGION)
        then refreshWorldSprite p (initFollowPos p v) else initFollowPos p v)"
      by (simp add: takeOut_def v(1) t_def [symmetric] u_def [symmetric] Let_def)
    then show ?thesis
      by (rule that) (simp add: sameTeam_initFollowPos)
  qed
  have c: "core (chars s' r) = core (if r = p then (chars s p)\<lparr>members := Some (remove1 n ms)\<rparr> else chars s r)" if "r \<noteq> n" for r
    using s'(2) cv cu that by (simp add: sameTeam_def)
  have cn: "ftype (chars s' n) = ftype (chars s n)" "fid (chars s' n) = fid (chars s n)"
      "groupId (chars s' n) = groupId (chars s n)" "members (chars s' n) = None"
    using sameTeamD [OF s'(2), of n] vn fu by (simp_all add: core_def)
  have st: "ftype (chars s' r) = ftype (chars s r) \<and> fid (chars s' r) = fid (chars s r) \<and> groupId (chars s' r) = groupId (chars s r)" for r
    using c [of r] cn by (cases "r = n"; cases "r = p") (simp_all add: core_def)
  have p: "members (chars s' p) = Some (remove1 n ms)" "leaderID (chars s' p) = leaderID (chars s p)"
      "merList (chars s' p) = merList (chars s p)" "legionList (chars s' p) = legionList (chars s p)"
    using c [of p] np by (simp_all add: core_def)
  have r: "members (chars s' r) = None" if "r \<noteq> p" for r
    using c [of r] cn(4) ranksD(2) [OF assms(1) that] that by (cases "r = n") (simp_all add: core_def)
  have l: "leaderID (chars s' r) = leaderID (chars s r) \<and> follower (chars s' r) = follower (chars s r)" if "r \<noteq> p \<and> r \<noteq> n" for r
    using c [of r] that by (simp add: core_def)
  have "sameOwn p s s'" using st p by (simp add: sameOwn_def)
  with s'(1) p r l show ?thesis by (simp add: memberList_eq [OF ms])
qed

lemma clearMember_empty:
  assumes "memberList p s = []" "isLeader p s" "\<forall>r. r \<noteq> p \<longrightarrow> members (chars s r) = None" "0 < fid (chars s p)"
  shows "\<exists>s'. clearMember p s = Some s' \<and> ranks p s' \<and> sameOwn p s s' \<and> memberList p s' = []"
proof -
  obtain v where v: "clearMember p s = Some v" "cleared p s v"
    using clearMember_run [of p s] assms(1) by (auto simp: legionsListed_def)
  have vp: "core (chars v p) = core ((chars s p)\<lparr>members := None, leaderID := - 1, follower := None\<rparr>)"
    and vr: "\<And>r. r \<noteq> p \<Longrightarrow> core (chars v r) = core (chars s r)"
    using v(2) assms(1,2) by (simp_all add: cleared_def)
  have "ftype (chars v r) = ftype (chars s r) \<and> fid (chars v r) = fid (chars s r) \<and> groupId (chars v r) = groupId (chars s r)" for r
    using vp vr [of r] by (cases "r = p") (simp_all add: core_def)
  then have own: "sameOwn p s v" using vp by (simp add: sameOwn_def core_def)
  have "members (chars v r) = None" for r using vp vr [of r] assms(3) by (cases "r = p") (simp_all add: core_def)
  then have "ranks p v" "memberList p v = []" using vp assms(4) own by (simp_all add: ranks_def core_def sameOwnD memberList_def)
  with v(1) own show ?thesis by blast
qed

lemma removeMember_ranks:
  assumes "ranks p s"
  shows "\<exists>s'. removeMember p e t s = Some (True, s') \<and> ranks p s' \<and> sameOwn p s s' \<and>
    memberList p s' = (case List.find (\<lambda>n. ftype (chars s n) = t \<and> memberKey (chars s n) = e) (memberList p s) of
       None \<Rightarrow> memberList p s | Some n \<Rightarrow> remove1 n (memberList p s))"
proof -
  have nm: "\<not> (isMember p s \<and> t = TYPE_PLAYER)" using ranks_members(3) [OF assms] by simp
  show ?thesis
  proof (cases "List.find (\<lambda>n. ftype (chars s n) = t \<and> memberKey (chars s n) = e) (memberList p s)")
    case None
    show ?thesis
    proof (cases "memberList p s = []")
      case True
      then have "legionsListed p s" by (simp add: legionsListed_def)
      then obtain u where "clearMember p s = Some u" "ranks p u" "sameOwn p s u" "memberList p u = []"
        using clearMember_ranks [OF assms] True by auto
      with True nm show ?thesis by (simp add: removeMember_def)
    next
      case False
      with None nm assms show ?thesis by (simp add: removeMember_def)
    qed
  next
    case (Some n)
    then have n: "n \<in> set (memberList p s)" by (auto simp: find_Some_iff)
    then obtain ms where ms: "members (chars s p) = Some ms" "n \<in> set ms" by (cases "members (chars s p)") (auto simp: memberList_def)
    have crew: "crew p ms s" using ranksD(3) [OF assms] ms by simp
    obtain u where u: "takeOut p n s = Some u" and own: "sameOwn p s u"
        and p: "members (chars u p) = Some (remove1 n ms)" "leaderID (chars u p) = leaderID (chars s p)"
        and r: "\<forall>r. r \<noteq> p \<longrightarrow> members (chars u r) = None"
        and l: "\<forall>r. r \<noteq> p \<and> r \<noteq> n \<longrightarrow> leaderID (chars u r) = leaderID (chars s r) \<and> follower (chars u r) = follower (chars s r)"
      using takeOut_run [OF assms n] memberList_eq [OF ms(1)] by auto
    have c: "crew p (remove1 n ms) u"
    proof (rule crew_less [OF crew own])
      have d: "distinct ms" "p \<notin> set ms" using crew by (simp_all add: crew_def)
      show "leaderID (chars u m) = leaderID (chars s m) \<and> follower (chars u m) = follower (chars s m)"
        if "m \<in> set (remove1 n ms)" for m
        using l that d by auto
    qed (use crew p in \<open>auto simp: crew_def set_remove1_subset dest: set_remove1_subset [THEN subsetD]\<close>)
    have f: "0 < fid (chars u p)" using ranksD(1) [OF assms] own by (simp add: sameOwnD)
    show ?thesis
    proof (cases "remove1 n ms = []")
      case False
      with c r p f have "ranks p u" by (simp add: ranks_def)
      with False Some nm u own p ms show ?thesis by (simp add: removeMember_def memberList_def)
    next
      case True
      have mu: "memberList p u = []" using p True by (simp add: memberList_def)
      moreover have "isLeader p u" using c by (simp add: crew_def isLeader_def)
      ultimately obtain v where "clearMember p u = Some v" "ranks p v" "sameOwn p u v" "memberList p v = []"
        using clearMember_empty r f by blast
      with True Some nm u mu ms sameOwn_trans [OF own] show ?thesis
        by (auto simp: removeMember_def memberList_eq [OF ms(1)])
    qed
  qed
qed

definition joined :: "ref \<Rightarrow> ref \<Rightarrow> team_state \<Rightarrow> team_state \<Rightarrow> bool" where
  "joined p e s s' \<longleftrightarrow>
     (\<forall>r. core (chars s' r) =
        core (if r = p then (chars s p)\<lparr>members := Some (memberList p s @ [e]),
                leaderID := if leaderID (chars s p) \<le> 0 then fid (chars s p) else leaderID (chars s p)\<rparr>
              else if r = e then (chars s e)\<lparr>leaderID := fid (chars s p), follower := Some (fid (chars s p))\<rparr>
              else chars s r))"

lemma join_run:
  assumes "e \<noteq> p"
  shows "joined p e s (join p e s)"
proof -
  define t where "t = onChar p (\<lambda>c. if members c = None then c\<lparr>members := Some []\<rparr> else c) s"
  define u where "u = onChar p (\<lambda>c. if leaderID c \<le> 0 then setLeaderID (fid c) c else c) t"
  define v where "v = onChar e (\<lambda>c. (setLeaderID (fid (chars u p)) c)\<lparr>follower := Some (fid (chars u p))\<rparr>) u"
  define w where "w = onChar p (\<lambda>c. c\<lparr>members := map_option (\<lambda>ms. ms @ [e]) (members c)\<rparr>) v"
  have "joined p e s w"
    unfolding joined_def using assms
    by (cases "members (chars s p)") (simp_all add: w_def v_def u_def t_def core_def setLeaderID_def memberList_def)
  moreover have "join p e s = initFollowPos p w"
    by (simp add: join_def Let_def w_def v_def u_def t_def)
  ultimately show ?thesis
    using sameTeam_initFollowPos [of w p] by (simp add: joined_def sameTeam_def)
qed

lemma joined_ranks:
  assumes "ranks p s" "e \<noteq> p" "e \<notin> set (memberList p s)" "joined p e s s'"
    and "\<And>n. n \<in> set (memberList p s) \<Longrightarrow> \<not> sameMember (chars s n) (chars s e)"
  shows "ranks p s' \<and> sameOwn p s s' \<and> memberList p s' = memberList p s @ [e]"
proof -
  let ?ms = "memberList p s"
  have J: "core (chars s' r) =
        core (if r = p then (chars s p)\<lparr>members := Some (?ms @ [e]),
                leaderID := if leaderID (chars s p) \<le> 0 then fid (chars s p) else leaderID (chars s p)\<rparr>
              else if r = e then (chars s e)\<lparr>leaderID := fid (chars s p), follower := Some (fid (chars s p))\<rparr>
              else chars s r)" for r
    using assms(4) unfolding joined_def by blast
  have st: "ftype (chars s' r) = ftype (chars s r) \<and> fid (chars s' r) = fid (chars s r) \<and> groupId (chars s' r) = groupId (chars s r)" for r
    using J [of r] by (cases "r = p"; cases "r = e") (simp_all add: core_def)
  have p: "members (chars s' p) = Some (?ms @ [e])" "merList (chars s' p) = merList (chars s p)" "legionList (chars s' p) = legionList (chars s p)"
    "leaderID (chars s' p) = (if leaderID (chars s p) \<le> 0 then fid (chars s p) else leaderID (chars s p))"
    using J [of p] by (simp_all add: core_def)
  have own: "sameOwn p s s'" using st p by (simp add: sameOwn_def)
  have lp: "leaderID (chars s' p) = fid (chars s p)"
    using p(4) ranksD [OF assms(1)] by (cases "members (chars s p)") (auto simp: crew_def)
  have e: "leaderID (chars s' e) = fid (chars s p)" "follower (chars s' e) = Some (fid (chars s p))"
    using J [of e] assms(2) by (simp_all add: core_def)
  have o: "leaderID (chars s' m) = fid (chars s p) \<and> follower (chars s' m) = Some (fid (chars s p))" if "m \<in> set ?ms" for m
  proof -
    have "m \<noteq> p" "m \<noteq> e" using that assms(3) ranks_members(1) [OF assms(1)] by auto
    moreover have "leaderID (chars s m) = fid (chars s p) \<and> follower (chars s m) = Some (fid (chars s p))"
      using that ranksD(3) [OF assms(1)] by (cases "members (chars s p)") (auto simp: memberList_def crew_def)
    ultimately show ?thesis using J [of m] by (simp add: core_def)
  qed
  have sm: "sameMember (chars s' m) (chars s' n) = sameMember (chars s m) (chars s n)" for m n
    using st by (simp add: sameMember_def)
  have u: "m = n" if "m \<in> set ?ms" "n \<in> set ?ms" "sameMember (chars s m) (chars s n)" for m n
    using that ranksD(3) [OF assms(1)] by (cases "members (chars s p)") (auto simp: memberList_def crew_def)
  have sym: "sameMember c d \<Longrightarrow> sameMember d c" for c d by (auto simp: sameMember_def)
  have "crew p (?ms @ [e]) s'"
    unfolding crew_def using ranks_members [OF assms(1)] assms(2,3) lp e o st u assms(5) by (auto simp: sm dest: sym)
  moreover have "members (chars s' r) = None" if "r \<noteq> p" for r
    using J [of r] ranksD(2) [OF assms(1) that] that by (cases "r = e") (simp_all add: core_def)
  ultimately show ?thesis using own p(1) st ranksD(1) [OF assms(1)] by (simp add: ranks_def memberList_eq)
qed

lemma remove_same:
  assumes "distinct ms" "\<And>m n. m \<in> set ms \<Longrightarrow> n \<in> set ms \<Longrightarrow> P m \<Longrightarrow> P n \<Longrightarrow> m = n"
  shows "(case List.find P ms of None \<Rightarrow> ms | Some n \<Rightarrow> remove1 n ms) = filter (\<lambda>n. \<not> P n) ms"
proof (cases "List.find P ms")
  case None
  then have "\<forall>x\<in>set ms. \<not> P x" by (simp add: find_None_iff)
  with None show ?thesis by (simp add: filter_id_conv)
next
  case (Some n)
  then have n: "n \<in> set ms" "P n" by (auto simp: find_Some_iff)
  then have "filter (\<lambda>m. \<not> P m) ms = filter (\<lambda>m. n \<noteq> m) ms"
    using assms(2) by (intro filter_cong) auto
  with Some show ?thesis by (simp add: distinct_remove1_removeAll [OF assms(1)] removeAll_filter_not_eq)
qed

lemma sameMember_cong: "sameOwn p s s' \<Longrightarrow> sameMember (chars s' m) (chars s' n) = sameMember (chars s m) (chars s n)"
  by (simp add: sameMember_def sameOwnD)

lemma ranks_unique:
  assumes "ranks p s" "m \<in> set (memberList p s)" "n \<in> set (memberList p s)"
    and "sameMember (chars s m) c" "sameMember (chars s n) c"
  shows "m = n"
proof -
  have "sameMember (chars s m) (chars s n)" using assms(4,5) by (auto simp: sameMember_def)
  with assms(1-3) show ?thesis by (auto simp: ranks_def crew_def memberList_def split: option.splits)
qed

lemma removeMember_same:
  assumes "ranks p s" and "(t, k) = (TYPE_PLAYER, fid c) \<and> ftype c = TYPE_PLAYER \<or>
    (t, k) = (TYPE_MERCENARY, groupId c) \<and> ftype c = TYPE_MERCENARY"
  shows "\<exists>s'. removeMember p k t s = Some (True, s') \<and> ranks p s' \<and> sameOwn p s s' \<and>
    memberList p s' = filter (\<lambda>n. \<not> sameMember (chars s n) c) (memberList p s) \<and>
    length (memberList p s) \<le> Suc (length (memberList p s'))"
proof -
  have P: "(\<lambda>n. ftype (chars s n) = t \<and> memberKey (chars s n) = k) = (\<lambda>n. sameMember (chars s n) c)"
    using assms(2) by (auto simp: fun_eq_iff sameMember_def memberKey_def)
  let ?rm = "case List.find (\<lambda>n. sameMember (chars s n) c) (memberList p s) of
       None \<Rightarrow> memberList p s | Some n \<Rightarrow> remove1 n (memberList p s)"
  have F: "?rm = filter (\<lambda>n. \<not> sameMember (chars s n) c) (memberList p s)"
    using ranks_members(2) [OF assms(1)] ranks_unique [OF assms(1)] by (intro remove_same) auto
  have "length (memberList p s) \<le> Suc (length ?rm)" by (auto simp: length_remove1 split: option.split)
  with removeMember_ranks [OF assms(1), of k t] show ?thesis unfolding P F by fastforce
qed

lemma addMember_ranks:
  assumes "ranks p s" "e \<noteq> p" "ftype (chars s e) \<in> {TYPE_PLAYER, TYPE_MERCENARY} \<or> e \<notin> set (memberList p s)"
    and "\<not> (ftype (chars s e) = TYPE_PLAYER \<and> fid (chars s e) = fid (chars s p))"
  shows "\<exists>s'. addMember p (Some e) s = Some (True, s') \<and> ranks p s' \<and> sameOwn p s s' \<and>
    memberList p s' = filter (\<lambda>n. \<not> sameMember (chars s n) (chars s e)) (memberList p s) @ [e]"
proof -
  let ?P = "\<lambda>n. sameMember (chars s n) (chars s e)" and ?ty = "ftype (chars s e)"
  have "\<exists>t. (if list_ex ?P (memberList p s)
        then map_option snd (if ?ty = TYPE_PLAYER then removeMember p (fid (chars s e)) TYPE_PLAYER s
                             else removeMercenaryByGroupoID p (groupId (chars s e)) s)
        else Some s) = Some t \<and> ranks p t \<and> sameOwn p s t \<and> memberList p t = filter (\<lambda>n. \<not> ?P n) (memberList p s)"
  proof (cases "list_ex ?P (memberList p s)")
    case False
    then have "filter (\<lambda>n. \<not> ?P n) (memberList p s) = memberList p s" by (auto simp: list_ex_iff filter_id_conv)
    with False assms(1) show ?thesis by simp
  next
    case True
    then have ty: "?ty = TYPE_PLAYER \<or> ?ty = TYPE_MERCENARY" by (auto simp: list_ex_iff sameMember_def)
    then show ?thesis
      using True removeMember_same [OF assms(1), of TYPE_PLAYER "fid (chars s e)" "chars s e"]
        removeMember_same [OF assms(1), of TYPE_MERCENARY "groupId (chars s e)" "chars s e"]
      by (auto simp: removeMercenaryByGroupoID_def)
  qed
  then obtain t where t: "(if list_ex ?P (memberList p s)
        then map_option snd (if ?ty = TYPE_PLAYER then removeMember p (fid (chars s e)) TYPE_PLAYER s
                             else removeMercenaryByGroupoID p (groupId (chars s e)) s)
        else Some s) = Some t" "ranks p t" "sameOwn p s t" "memberList p t = filter (\<lambda>n. \<not> ?P n) (memberList p s)"
    by blast
  have e: "e \<notin> set (memberList p t)" using assms(3) t(4) by (auto simp: sameMember_def)
  have "ranks p (join p e t) \<and> sameOwn p t (join p e t) \<and> memberList p (join p e t) = memberList p t @ [e]"
    using t e assms(2) by (intro joined_ranks join_run) (auto simp: sameMember_cong)
  then have j: "ranks p (join p e t)" "sameOwn p s (join p e t)" "memberList p (join p e t) = memberList p t @ [e]"
    using sameOwn_trans [OF t(3)] by auto
  obtain s' where s': "addMember p (Some e) s = Some (True, s')" "sameTeam (join p e t) s'"
    using t(1) assms(4) by (simp add: addMember_def Let_def)
  with j t(4) show ?thesis
    using ranks_same sameOwn_trans [OF j(2) sameOwn_same] memberList_same by metis
qed

section \<open>Mercenaries\<close>

definition hasGroup :: "ref \<Rightarrow> team_state \<Rightarrow> int \<Rightarrow> bool" where
  "hasGroup p s g \<longleftrightarrow> (\<exists>m\<in>set (memberList p s). ftype (chars s m) = TYPE_MERCENARY \<and> groupId (chars s m) = g)"

text \<open>Every hired mercenary has his group among the members, and no group is hired twice.\<close>

definition hired :: "ref \<Rightarrow> ref option list \<Rightarrow> team_state \<Rightarrow> bool" where
  "hired p l s \<longleftrightarrow>
     (\<forall>i<length l. \<forall>r. l ! i = Some r \<longrightarrow> ftype (chars s r) = TYPE_MERCENARY \<and> hasGroup p s (groupId (chars s r))) \<and>
     (\<forall>i<length l. \<forall>j<length l. \<forall>r q. l ! i = Some r \<longrightarrow> l ! j = Some q \<longrightarrow>
        groupId (chars s r) = groupId (chars s q) \<longrightarrow> i = j)"

definition teamInv :: "ref \<Rightarrow> team_state \<Rightarrow> bool" where
  "teamInv p s \<longleftrightarrow> ranks p s \<and> legionsListed p s \<and>
     (\<forall>l. merList (chars s p) = Some l \<longrightarrow> length l = MAX_MERCENARY_MEMBER \<and> hired p l s)"

lemma hired_cong:
  assumes "sameOwn p s s'"
    and "\<And>i r. i < length l \<Longrightarrow> l ! i = Some r \<Longrightarrow> hasGroup p s (groupId (chars s r)) \<Longrightarrow> hasGroup p s' (groupId (chars s r))"
  shows "hired p l s \<Longrightarrow> hired p l s'"
  using assms unfolding hired_def by (simp add: sameOwnD)

lemma hasGroup_less:
  assumes "sameOwn p s s'" "hasGroup p s g"
    and "\<And>m. m \<in> set (memberList p s) \<Longrightarrow> ftype (chars s m) = TYPE_MERCENARY \<Longrightarrow> groupId (chars s m) = g \<Longrightarrow>
      m \<in> set (memberList p s')"
  shows "hasGroup p s' g"
  using assms by (auto simp: hasGroup_def sameOwnD)

lemma legions_less:
  "legionsListed p s \<Longrightarrow> sameOwn p s s' \<Longrightarrow>
   (\<And>m. m \<in> set (memberList p s') \<Longrightarrow> ftype (chars s m) = TYPE_LEGION \<Longrightarrow> m \<in> set (memberList p s)) \<Longrightarrow> legionsListed p s'"
  by (auto simp: legionsListed_def sameOwnD)

lemma teamInv_less:
  assumes "teamInv p s" "ranks p s'" "sameOwn p s s'"
    and "\<And>m. m \<in> set (memberList p s') \<Longrightarrow> ftype (chars s m) = TYPE_LEGION \<Longrightarrow> m \<in> set (memberList p s)"
    and "\<And>l i r m. merList (chars s p) = Some l \<Longrightarrow> i < length l \<Longrightarrow> l ! i = Some r \<Longrightarrow> m \<in> set (memberList p s) \<Longrightarrow>
      ftype (chars s m) = TYPE_MERCENARY \<Longrightarrow> groupId (chars s m) = groupId (chars s r) \<Longrightarrow> m \<in> set (memberList p s')"
  shows "teamInv p s'"
proof -
  have "hired p l s'" if l: "merList (chars s p) = Some l" for l
  proof (rule hired_cong [OF assms(3)])
    show "hired p l s" using assms(1) l by (simp add: teamInv_def)
    show "hasGroup p s' (groupId (chars s r))" if "i < length l" "l ! i = Some r" "hasGroup p s (groupId (chars s r))" for i r
      using that by (intro hasGroup_less [OF assms(3) that(3)] assms(5) [OF l])
  qed
  with assms show ?thesis by (auto simp: teamInv_def sameOwnD intro: legions_less)
qed

lemma teamInv_same:
  assumes "teamInv p s" "sameTeam s s'"
  shows "teamInv p s'"
proof (rule teamInv_less [OF assms(1)])
  show "ranks p s'" using assms(1) by (intro ranks_same [OF _ assms(2)]) (simp add: teamInv_def)
qed (simp_all add: sameOwn_same [OF assms(2)] memberList_same [OF assms(2)])

lemma teamInvD:
  assumes "teamInv p s"
  shows "ranks p s" "legionsListed p s" "merList (chars s p) = Some l \<Longrightarrow> length l = MAX_MERCENARY_MEMBER \<and> hired p l s"
  using assms by (simp_all add: teamInv_def)

lemma kept_hired:
  assumes "hired p l s" "merList (chars s p) = Some l" "i < length l" "l ! i = Some r"
    and "ftype (chars s m) = TYPE_MERCENARY" "groupId (chars s m) = groupId (chars s r)"
  shows "kept p s m"
proof -
  have r: "ftype (chars s r) = TYPE_MERCENARY" "Some r \<in> set l"
    using assms(1,3,4) nth_mem [OF assms(3)] by (auto simp: hired_def)
  let ?Q = "\<lambda>x. case x of None \<Rightarrow> False | Some q \<Rightarrow> ftype (chars s q) = TYPE_MERCENARY \<and> groupId (chars s q) = groupId (chars s r)"
  have "List.find ?Q l \<noteq> None" using r by (auto simp: find_None_iff)
  then obtain x where x: "List.find ?Q l = Some x" by blast
  then have "?Q x" by (auto simp: find_Some_iff)
  then obtain q where "x = Some q" by (cases x) simp_all
  with x assms(2,5,6) show ?thesis by (simp add: kept_def getMercenaryById_def)
qed

lemma clearMember_inv:
  assumes "teamInv p s"
  shows "\<exists>s'. clearMember p s = Some s' \<and> teamInv p s'"
proof -
  obtain s' where s': "clearMember p s = Some s'" "ranks p s'" "sameOwn p s s'"
      "memberList p s' = filter (kept p s) (memberList p s)"
    using clearMember_ranks teamInvD [OF assms] by blast
  have "teamInv p s'"
  proof (rule teamInv_less [OF assms s'(2,3)])
    show "m \<in> set (memberList p s')"
      if "merList (chars s p) = Some l" "i < length l" "l ! i = Some r" "m \<in> set (memberList p s)"
        "ftype (chars s m) = TYPE_MERCENARY" "groupId (chars s m) = groupId (chars s r)" for l i r m
      using that kept_hired [of p l s i r m] teamInvD(3) [OF assms] s'(4) by auto
  qed (simp add: s'(4))
  with s'(1) show ?thesis by blast
qed

lemma ignoreMember_inv:
  assumes "teamInv p s"
  shows "\<exists>s'. ignoreMember p s = Some s' \<and> teamInv p s'"
proof (cases "members (chars s p)")
  case None
  let ?t = "onChar p (\<lambda>c. setLeaderID (fid c) c) s"
  have r: "\<forall>r. r \<noteq> p \<longrightarrow> members (chars s r) = None" "0 < fid (chars s p)" using assms by (simp_all add: teamInv_def ranks_def)
  have ml: "memberList p s = []" using None by (simp add: memberList_def)
  have st: "sameOwn p s ?t" by (simp add: sameOwn_def setLeaderID_def)
  obtain s' where s': "clearMember p ?t = Some s'" "ranks p s'" "sameOwn p ?t s'" "memberList p s' = []"
    using clearMember_empty [of p ?t] r ml by (auto simp: isLeader_def memberList_def setLeaderID_def)
  have "teamInv p s'"
    by (rule teamInv_less [OF assms s'(2) sameOwn_trans [OF st s'(3)]]) (simp_all add: s'(4) ml)
  with s'(1) show ?thesis by (auto simp: ignoreMember_def)
next
  case (Some ms)
  have "leaderID (chars s p) = fid (chars s p)" using ranksD(3) [OF teamInvD(1) [OF assms] Some] by (simp add: crew_def)
  then have "sameTeam s (onChar p (\<lambda>c. setLeaderID (fid c) c) s)" by (simp add: sameTeam_def core_def setLeaderID_def)
  then show ?thesis unfolding ignoreMember_def by (intro clearMember_inv teamInv_same [OF assms])
qed

lemma addPlayer_inv:
  assumes "teamInv p s" "e \<noteq> p" "ftype (chars s e) = TYPE_PLAYER"
  shows "\<exists>b s'. addMember p (Some e) s = Some (b, s') \<and> teamInv p s'"
proof (cases "fid (chars s e) = fid (chars s p)")
  case True
  with assms show ?thesis by (intro exI [of _ False] exI [of _ s]) (simp add: addMember_def Let_def)
next
  case False
  then obtain s' where s': "addMember p (Some e) s = Some (True, s')" "ranks p s'" "sameOwn p s s'"
      "memberList p s' = filter (\<lambda>n. \<not> sameMember (chars s n) (chars s e)) (memberList p s) @ [e]"
    using addMember_ranks [OF teamInvD(1) [OF assms(1)] assms(2)] assms(3) by auto
  have "teamInv p s'"
    by (rule teamInv_less [OF assms(1) s'(2,3)]) (use s'(4) assms(3) in \<open>auto simp: sameMember_def\<close>)
  with s'(1) show ?thesis by blast
qed

lemma removeMember_inv:
  assumes "teamInv p s" "t \<noteq> TYPE_MERCENARY"
  shows "\<exists>s'. removeMember p k t s = Some (True, s') \<and> teamInv p s' \<and> sameOwn p s s' \<and>
    length (memberList p s) \<le> Suc (length (memberList p s'))"
proof -
  let ?f = "List.find (\<lambda>n. ftype (chars s n) = t \<and> memberKey (chars s n) = k) (memberList p s)"
  obtain s' where s': "removeMember p k t s = Some (True, s')" "ranks p s'" "sameOwn p s s'"
      "memberList p s' = (case ?f of None \<Rightarrow> memberList p s | Some n \<Rightarrow> remove1 n (memberList p s))"
    using removeMember_ranks [OF teamInvD(1) [OF assms(1)]] by blast
  have n: "ftype (chars s n) = t" if "?f = Some n" for n using that by (auto simp: find_Some_iff)
  have sub: "set (memberList p s') \<subseteq> set (memberList p s)"
    using s'(4) set_remove1_subset by (auto split: option.splits dest: set_remove1_subset [THEN subsetD])
  have rest: "m \<in> set (memberList p s')" if "m \<in> set (memberList p s)" "ftype (chars s m) = TYPE_MERCENARY" for m
  proof (cases ?f)
    case (Some n)
    with n assms(2) that have "m \<noteq> n" by auto
    with Some that s'(4) show ?thesis by (simp add: in_set_remove1)
  qed (use that s'(4) in simp)
  have "teamInv p s'"
    using sub by (intro teamInv_less [OF assms(1) s'(2,3)] rest) auto
  moreover have "length (memberList p s) \<le> Suc (length (memberList p s'))"
    using s'(4) by (cases ?f) (auto simp: length_remove1)
  ultimately show ?thesis using s'(1,3) by blast
qed

definition sameKind :: "team_state \<Rightarrow> team_state \<Rightarrow> bool" where
  "sameKind s s' \<longleftrightarrow>
     (\<forall>r. ftype (chars s' r) = ftype (chars s r) \<and> fid (chars s' r) = fid (chars s r) \<and>
        groupId (chars s' r) = groupId (chars s r))"

lemma sameOwn_kind: "sameOwn p s s' \<Longrightarrow> sameKind s s'"
  by (simp add: sameOwn_def sameKind_def)

lemma hired_update:
  assumes "hired p l s" "sameKind s s'"
    and "\<And>i r. i < length l \<Longrightarrow> i \<noteq> k \<Longrightarrow> l ! i = Some r \<Longrightarrow> hasGroup p s' (groupId (chars s r))"
    and "\<And>e. x = Some e \<Longrightarrow> ftype (chars s e) = TYPE_MERCENARY \<and> hasGroup p s' (groupId (chars s e)) \<and>
      (\<forall>i<length l. \<forall>r. i \<noteq> k \<longrightarrow> l ! i = Some r \<longrightarrow> groupId (chars s r) \<noteq> groupId (chars s e))"
  shows "hired p (l[k := x]) s'"
  unfolding hired_def
proof (intro conjI allI impI)
  fix i r assume i: "i < length (l[k := x])" "l[k := x] ! i = Some r"
  have "ftype (chars s r) = TYPE_MERCENARY \<and> hasGroup p s' (groupId (chars s r))"
  proof (cases "i = k")
    case True
    with i assms(4) show ?thesis by simp
  next
    case False
    with i assms(1,3) show ?thesis by (simp add: hired_def)
  qed
  then show "ftype (chars s' r) = TYPE_MERCENARY" "hasGroup p s' (groupId (chars s' r))"
    by (simp_all add: assms(2) [unfolded sameKind_def, rule_format])
next
  fix i j r q
  assume a: "i < length (l[k := x])" "j < length (l[k := x])" "l[k := x] ! i = Some r" "l[k := x] ! j = Some q"
    "groupId (chars s' r) = groupId (chars s' q)"
  have eq: "groupId (chars s r) = groupId (chars s q)" using a(5) by (simp add: assms(2) [unfolded sameKind_def, rule_format])
  show "i = j"
  proof (cases "i = k \<or> j = k")
    case True
    then show ?thesis using a eq assms(4) by (auto simp: nth_list_update split: if_splits) metis+
  next
    case False
    then have "l ! i = Some r" "l ! j = Some q" using a by simp_all
    with a eq assms(1) show ?thesis unfolding hired_def by simp
  qed
qed

lemma ranks_cong:
  assumes "ranks p s" "\<And>r. ftype (chars s' r) = ftype (chars s r)" "\<And>r. fid (chars s' r) = fid (chars s r)"
    "\<And>r. groupId (chars s' r) = groupId (chars s r)" "\<And>r. leaderID (chars s' r) = leaderID (chars s r)"
    "\<And>r. members (chars s' r) = members (chars s r)"
    "\<And>r. r \<in> set (memberList p s) \<Longrightarrow> follower (chars s' r) = follower (chars s r)"
  shows "ranks p s'"
proof (cases "members (chars s p)")
  case None
  with assms show ?thesis by (simp add: ranks_def)
next
  case (Some ms)
  have "sameMember (chars s' m) (chars s' n) = sameMember (chars s m) (chars s n)" for m n
    by (simp add: sameMember_def assms(2-4))
  with Some assms show ?thesis by (simp add: ranks_def crew_def memberList_eq)
qed

lemma hired_kind:
  assumes "sameKind s s'" "memberList p s' = memberList p s"
  shows "hired p l s' = hired p l s"
  unfolding hired_def hasGroup_def assms(2) by (simp add: assms(1) [unfolded sameKind_def, rule_format])

lemma legions_kind:
  assumes "sameKind s s'" "memberList p s' = memberList p s" "legionList (chars s' p) = legionList (chars s p)"
  shows "legionsListed p s' = legionsListed p s"
  unfolding legionsListed_def assms(2,3) by (simp add: assms(1) [unfolded sameKind_def, rule_format])

lemma setMerList_inv:
  assumes "ranks p s" "legionsListed p s" "\<And>l. x = Some l \<Longrightarrow> length l = MAX_MERCENARY_MEMBER \<and> hired p l s"
  shows "teamInv p (onChar p (\<lambda>c. c\<lparr>merList := x\<rparr>) s)"
proof -
  define t where "t = onChar p (\<lambda>c. c\<lparr>merList := x\<rparr>) s"
  have "ranks p t" by (rule ranks_cong [OF assms(1)]) (simp_all add: t_def)
  moreover have k: "sameKind s t" "memberList p t = memberList p s" "legionList (chars t p) = legionList (chars s p)"
    "merList (chars t p) = x"
    by (simp_all add: t_def sameKind_def memberList_def)
  ultimately show ?thesis
    using assms(2,3) unfolding t_def [symmetric] by (simp add: teamInv_def hired_kind [OF k(1,2)] legions_kind [OF k(1-3)])
qed

lemma removeMercenary_inv:
  assumes "teamInv p s"
  shows "\<exists>b s'. removeMercenary p (Some e) s = Some (b, s') \<and> teamInv p s' \<and> sameKind s s' \<and>
    length (memberList p s) \<le> Suc (length (memberList p s')) \<and>
    (merList (chars s' p) = None \<longleftrightarrow> merList (chars s p) = None) \<and>
    (ftype (chars s e) = TYPE_MERCENARY \<longrightarrow>
       (\<forall>l i r. merList (chars s' p) = Some l \<longrightarrow> i < length l \<longrightarrow> l ! i = Some r \<longrightarrow> groupId (chars s r) \<noteq> groupId (chars s e)))"
proof (cases "ftype (chars s e) \<noteq> TYPE_MERCENARY \<or> merList (chars s p) = None")
  case True
  then have "removeMercenary p (Some e) s = Some (False, s)" by (auto simp: removeMercenary_def split: option.split)
  with True assms show ?thesis by (intro exI [of _ False] exI [of _ s]) (auto simp: sameKind_def)
next
  case False
  then obtain l where e: "ftype (chars s e) = TYPE_MERCENARY" and l: "merList (chars s p) = Some l" by auto
  then have h: "hired p l s" "length l = MAX_MERCENARY_MEMBER" using teamInvD(3) [OF assms] by simp_all
  let ?Q = "\<lambda>t. case l ! t of None \<Rightarrow> False
    | Some i \<Rightarrow> ftype (chars s i) = ftype (chars s e) \<and> groupId (chars s i) = groupId (chars s e)"
  show ?thesis
  proof (cases "List.find ?Q [0..<length l]")
    case None
    then have "removeMercenary p (Some e) s = Some (False, s)" using e l by (simp add: removeMercenary_def)
    moreover have "groupId (chars s r) \<noteq> groupId (chars s e)" if "i < length l" "l ! i = Some r" for i r
    proof -
      have "\<not> ?Q i" using None that by (auto simp: find_None_iff simp del: upt_Suc)
      moreover have "ftype (chars s r) = TYPE_MERCENARY" using h(1) that by (simp add: hired_def)
      ultimately show ?thesis using that e by simp
    qed
    ultimately show ?thesis using assms l by (intro exI [of _ False] exI [of _ s]) (simp add: sameKind_def)
  next
    case (Some t)
    then have t: "t < length l" "?Q t" by (auto simp: find_Some_iff)
    then obtain i where i: "l ! t = Some i" "ftype (chars s i) = TYPE_MERCENARY" "groupId (chars s i) = groupId (chars s e)"
      using e by (cases "l ! t") auto
    obtain u where u: "removeMember p (groupId (chars s i)) TYPE_MERCENARY s = Some (True, u)" "ranks p u" "sameOwn p s u"
        "memberList p u = filter (\<lambda>n. \<not> sameMember (chars s n) (chars s i)) (memberList p s)"
        "length (memberList p s) \<le> Suc (length (memberList p u))"
      using removeMember_same [OF teamInvD(1) [OF assms], of TYPE_MERCENARY "groupId (chars s i)" "chars s i"] i(2) by auto
    have other: "groupId (chars s r) \<noteq> groupId (chars s e)" if "j < length l" "j \<noteq> t" "l ! j = Some r" for j r
      using h(1) that t(1) i unfolding hired_def by metis
    have "hired p (l[t := None]) u"
    proof (rule hired_update [OF h(1) sameOwn_kind [OF u(3)]])
      show "hasGroup p u (groupId (chars s r))" if "j < length l" "j \<noteq> t" "l ! j = Some r" for j r
      proof (rule hasGroup_less [OF u(3)])
        show "hasGroup p s (groupId (chars s r))" using h(1) that by (simp add: hired_def)
      qed (use other [OF that] i u(4) in \<open>auto simp: sameMember_def\<close>)
    qed simp
    moreover have "legionsListed p u"
      by (rule legions_less [OF teamInvD(2) [OF assms] u(3)]) (simp add: u(4))
    ultimately have inv: "teamInv p (onChar p (\<lambda>c. c\<lparr>merList := Some (l[t := None])\<rparr>) u)"
      using u(2) h(2) by (intro setMerList_inv) auto
    define v where "v = onChar p (\<lambda>c. c\<lparr>merList := map_option (\<lambda>l. l[t := None]) (merList c)\<rparr>) u"
    have mu: "merList (chars u p) = Some l" using u(3) l by (simp add: sameOwnD)
    have v: "teamInv p v" "sameKind s v" "memberList p v = memberList p u" "merList (chars v p) = Some (l[t := None])"
      using inv mu sameOwn_kind [OF u(3)] by (simp_all add: v_def onChar_def sameKind_def memberList_def)
    have "removeMercenary p (Some e) s = Some (True, tell (ON_MER_DEL i) v)"
      using e l Some i u(1) by (simp add: removeMercenary_def removeMercenaryByGroupoID_def v_def)
    moreover have "teamInv p (tell (ON_MER_DEL i) v)" using v(1) by (rule teamInv_same) simp
    moreover have "groupId (chars s r) \<noteq> groupId (chars s e)" if "j < length l" "l[t := None] ! j = Some r" for j r
      using other [of j r] that by (cases "j = t") simp_all
    ultimately show ?thesis
      using v u(5) l by (intro exI [of _ True] exI [of _ "tell (ON_MER_DEL i) v"]) (simp add: sameKind_def memberList_def)
  qed
qed

text \<open>Hiring someone: first a mercenary of the same group leaves the list.\<close>

lemma makeRoom:
  assumes "teamInv p s" "ftype (chars s e) = TYPE_MERCENARY"
  shows "\<exists>t l. (case merList (chars s p) of
       None \<Rightarrow> Some (onChar p (\<lambda>c. c\<lparr>merList := Some (replicate MAX_MERCENARY_MEMBER None)\<rparr>) s)
     | Some l \<Rightarrow>
         (case List.find (\<lambda>x. case x of None \<Rightarrow> False | Some r \<Rightarrow> groupId (chars s r) = groupId (chars s e)) l of
            None \<Rightarrow> Some s
          | Some r \<Rightarrow> map_option snd (removeMercenary p r s))) = Some t \<and> teamInv p t \<and> sameKind s t \<and>
     merList (chars t p) = Some l \<and> (\<forall>i<length l. \<forall>r. l ! i = Some r \<longrightarrow> groupId (chars s r) \<noteq> groupId (chars s e))"
proof (cases "merList (chars s p)")
  case None
  have "teamInv p (onChar p (\<lambda>c. c\<lparr>merList := Some (replicate MAX_MERCENARY_MEMBER None)\<rparr>) s)"
    using teamInvD [OF assms(1)] by (intro setMerList_inv) (auto simp: hired_def less_Suc_eq numeral_2_eq_2)
  with None show ?thesis
    by (intro exI [of _ "onChar p (\<lambda>c. c\<lparr>merList := Some (replicate MAX_MERCENARY_MEMBER None)\<rparr>) s"] exI)
      (auto simp: sameKind_def less_Suc_eq numeral_2_eq_2)
next
  case (Some l)
  let ?Q = "\<lambda>x. case x of None \<Rightarrow> False | Some r \<Rightarrow> groupId (chars s r) = groupId (chars s e)"
  have h: "hired p l s" using teamInvD(3) [OF assms(1) Some] by simp
  show ?thesis
  proof (cases "List.find ?Q l")
    case None
    have "groupId (chars s r) \<noteq> groupId (chars s e)" if "i < length l" "l ! i = Some r" for i r
      using None nth_mem [OF that(1)] that(2) by (auto simp: find_None_iff)
    with None Some assms(1) show ?thesis by (simp add: sameKind_def)
  next
    case (Some x)
    then obtain k where "k < length l" "?Q (l ! k)" "x = l ! k" by (auto simp: find_Some_iff)
    then obtain r where r: "x = Some r" "groupId (chars s r) = groupId (chars s e)" "ftype (chars s r) = TYPE_MERCENARY"
      using h by (cases "l ! k") (auto simp: hired_def)
    obtain b t where t: "removeMercenary p (Some r) s = Some (b, t)" "teamInv p t" "sameKind s t" "merList (chars t p) \<noteq> None"
        "\<forall>l i q. merList (chars t p) = Some l \<longrightarrow> i < length l \<longrightarrow> l ! i = Some q \<longrightarrow> groupId (chars s q) \<noteq> groupId (chars s r)"
      using removeMercenary_inv [OF assms(1), of r] r(3) \<open>merList (chars s p) = Some l\<close> by auto
    then obtain l' where "merList (chars t p) = Some l'" by blast
    with t r Some \<open>merList (chars s p) = Some l\<close> show ?thesis by (intro exI [of _ t] exI [of _ l']) simp
  qed
qed

lemma addMercenary_inv:
  assumes "teamInv p s" "e \<noteq> p"
  shows "\<exists>b s'. addMercenary isBlock p (Some e) n s = Some (b, s') \<and> teamInv p s'"
proof (cases "ftype (chars s e) = TYPE_MERCENARY")
  case False
  with assms show ?thesis by (intro exI [of _ False] exI [of _ s]) (simp add: addMercenary_def)
next
  case ty: True
  obtain t l where t: "(case merList (chars s p) of
       None \<Rightarrow> Some (onChar p (\<lambda>c. c\<lparr>merList := Some (replicate MAX_MERCENARY_MEMBER None)\<rparr>) s)
     | Some l \<Rightarrow>
         (case List.find (\<lambda>x. case x of None \<Rightarrow> False | Some r \<Rightarrow> groupId (chars s r) = groupId (chars s e)) l of
            None \<Rightarrow> Some s
          | Some r \<Rightarrow> map_option snd (removeMercenary p r s))) = Some t" "teamInv p t" "sameKind s t"
     "merList (chars t p) = Some l" "\<forall>i<length l. \<forall>r. l ! i = Some r \<longrightarrow> groupId (chars s r) \<noteq> groupId (chars s e)"
    using makeRoom [OF assms(1) ty] by blast
  have k: "ftype (chars t r) = ftype (chars s r)" "groupId (chars t r) = groupId (chars s r)" for r
    using t(3) by (simp_all add: sameKind_def)
  obtain u where u: "addMember p (Some e) t = Some (True, u)" "ranks p u" "sameOwn p t u"
      "memberList p u = filter (\<lambda>n. \<not> sameMember (chars t n) (chars t e)) (memberList p t) @ [e]"
    using addMember_ranks [OF teamInvD(1) [OF t(2)] assms(2)] ty k by auto
  have h: "hired p l t" "length l = MAX_MERCENARY_MEMBER" using teamInvD(3) [OF t(2,4)] by simp_all
  let ?k = "freeSlot l"
  have other: "groupId (chars t r) \<noteq> groupId (chars t e)" if "i < length l" "l ! i = Some r" for i r
    using t(5) that by (simp add: k)
  have "hired p (l[?k := Some e]) u"
  proof (rule hired_update [OF h(1) sameOwn_kind [OF u(3)]])
    show "hasGroup p u (groupId (chars t r))" if "i < length l" "i \<noteq> ?k" "l ! i = Some r" for i r
    proof (rule hasGroup_less [OF u(3)])
      show "hasGroup p t (groupId (chars t r))" using h(1) that by (simp add: hired_def)
    qed (use other [of i r] that u(4) in \<open>auto simp: sameMember_def\<close>)
    show "ftype (chars t x) = TYPE_MERCENARY \<and> hasGroup p u (groupId (chars t x)) \<and>
        (\<forall>i<length l. \<forall>r. i \<noteq> ?k \<longrightarrow> l ! i = Some r \<longrightarrow> groupId (chars t r) \<noteq> groupId (chars t x))" if "Some e = Some x" for x
      using that ty other u(4) by (auto simp: k hasGroup_def sameOwnD [OF u(3)])
  qed
  moreover have "legionsListed p u"
    by (rule legions_less [OF teamInvD(2) [OF t(2)] u(3)]) (auto simp: u(4) k ty)
  ultimately have "teamInv p (onChar p (\<lambda>c. c\<lparr>merList := Some (l[?k := Some e])\<rparr>) u)"
    using u(2) h(2) by (intro setMerList_inv) auto
  moreover define v where "v = onChar p (\<lambda>c. c\<lparr>merList := map_option (\<lambda>l. l[?k := Some e]) (merList c)\<rparr>) u"
  moreover have "merList (chars u p) = Some l" using u(3) t(4) by (simp add: sameOwnD)
  ultimately have v: "teamInv p v" by (simp add: onChar_def)
  define w where "w = onChar e (\<lambda>c. c\<lparr>ownerid := Some (fid (chars v p))\<rparr>) v"
  define x where "x = onChar e (setPosition isBlock (gx (chars w p)) (gy (chars w p))) w"
  have "sameTeam v w" "sameTeam w x" by (simp_all add: w_def x_def sameTeam_def)
  then have "teamInv p (if n then tell (ON_MER_ADD e) x else x)"
    using teamInv_same [OF v] sameTeam_trans by simp
  moreover have "addMercenary isBlock p (Some e) n s = Some (True, if n then tell (ON_MER_ADD e) x else x)"
    using t(1,4) ty u(1) by (simp add: addMercenary_def Let_def v_def [symmetric] w_def [symmetric] x_def [symmetric])
  ultimately show ?thesis by blast
qed

section \<open>Emptying the lists\<close>

lemma eachMemberDown_inv:
  assumes f: "\<And>t s. teamInv p s \<Longrightarrow> P s \<Longrightarrow> \<exists>b s'. f t s = Some (b, s') \<and> teamInv p s' \<and> P s' \<and>
      length (memberList p s) \<le> Suc (length (memberList p s'))"
    and "teamInv p s" "P s" "k \<le> length (memberList p s)"
  shows "\<exists>s'. eachMemberDown f ty p k s = Some s' \<and> teamInv p s'"
  using assms(2-)
proof (induction k arbitrary: s)
  case (Suc k)
  then obtain ms where ms: "members (chars s p) = Some ms" "k < length ms"
    by (cases "members (chars s p)") (auto simp: memberList_def)
  show ?case
  proof (cases "ftype (chars s (ms ! k)) = ty")
    case True
    obtain b t where t: "f (ms ! k) s = Some (b, t)" "teamInv p t" "P t" "length (memberList p s) \<le> Suc (length (memberList p t))"
      using f [OF Suc.prems(1,2), of "ms ! k"] by blast
    with True ms Suc.IH [OF t(2,3)] show ?thesis by (auto simp: memberList_eq [OF ms(1)])
  next
    case False
    with ms Suc.IH [OF Suc.prems(1,2)] show ?thesis by (auto simp: memberList_eq [OF ms(1)])
  qed
qed auto

lemma clearMercenary_inv:
  assumes "teamInv p s"
  shows "\<exists>s'. clearMercenary p s = Some s' \<and> teamInv p s'"
proof (cases "merList (chars s p)")
  case (Some l)
  obtain t where t: "eachMemberDown (\<lambda>t. removeMercenary p (Some t)) TYPE_MERCENARY p (length (memberList p s)) s = Some t" "teamInv p t"
    using eachMemberDown_inv [of p "\<lambda>_. True" "\<lambda>t. removeMercenary p (Some t)" s] removeMercenary_inv assms by fastforce
  have "teamInv p (onChar p (\<lambda>c. c\<lparr>merList := None\<rparr>) t)" using teamInvD [OF t(2)] by (intro setMerList_inv) auto
  with Some t(1) show ?thesis by (simp add: clearMercenary_def)
qed (use assms in \<open>simp add: clearMercenary_def\<close>)

lemma setLegionList_inv:
  assumes "ranks p s" "x \<noteq> None" "\<And>l. merList (chars s p) = Some l \<Longrightarrow> length l = MAX_MERCENARY_MEMBER \<and> hired p l s"
  shows "teamInv p (onChar p (\<lambda>c. c\<lparr>legionList := x\<rparr>) s)"
proof -
  define t where "t = onChar p (\<lambda>c. c\<lparr>legionList := x\<rparr>) s"
  have "ranks p t" by (rule ranks_cong [OF assms(1)]) (simp_all add: t_def)
  moreover have k: "sameKind s t" "memberList p t = memberList p s" "merList (chars t p) = merList (chars s p)" "legionList (chars t p) = x"
    by (simp_all add: t_def sameKind_def memberList_def)
  ultimately show ?thesis
    using assms(2,3) unfolding t_def [symmetric] by (simp add: teamInv_def legionsListed_def hired_kind [OF k(1,2)])
qed

lemma addLegionVo_inv:
  assumes "teamInv p s" "e \<noteq> p" "e \<notin> set (memberList p s)"
  shows "\<exists>b s'. addLegionVo isBlock p (Some e) n s = Some (b, s') \<and> teamInv p s'"
proof (cases "ftype (chars s e) = TYPE_LEGION")
  case False
  with assms show ?thesis by (intro exI [of _ False] exI [of _ s]) (simp add: addLegionVo_def)
next
  case ty: True
  obtain u where u: "addMember p (Some e) s = Some (True, u)" "ranks p u" "sameOwn p s u"
      "memberList p u = filter (\<lambda>n. \<not> sameMember (chars s n) (chars s e)) (memberList p s) @ [e]"
    using addMember_ranks [OF teamInvD(1) [OF assms(1)] assms(2)] assms(3) ty by auto
  have h: "hired p l u" "length l = MAX_MERCENARY_MEMBER" if "merList (chars s p) = Some l" for l
  proof -
    have g: "hired p l s" "length l = MAX_MERCENARY_MEMBER" using teamInvD(3) [OF assms(1) that] by simp_all
    then show "length l = MAX_MERCENARY_MEMBER" by simp
    show "hired p l u"
      by (rule hired_cong [OF u(3) _ g(1)], erule hasGroup_less [OF u(3)]) (use u(4) ty in \<open>auto simp: sameMember_def\<close>)
  qed
  define v where "v = onChar p (\<lambda>c. c\<lparr>legionList := Some ((case legionList c of None \<Rightarrow> [] | Some l \<Rightarrow> l) @ [e])\<rparr>) u"
  have "teamInv p (onChar p (\<lambda>c. c\<lparr>legionList := Some ((case legionList (chars u p) of None \<Rightarrow> [] | Some l \<Rightarrow> l) @ [e])\<rparr>) u)"
    using u(2) h by (intro setLegionList_inv) (auto simp: sameOwnD [OF u(3)])
  then have v: "teamInv p v" by (simp add: v_def onChar_def)
  define w where "w = onChar e (\<lambda>c. c\<lparr>ownerid := Some (fid (chars v p))\<rparr>) v"
  define x where "x = onChar e (setPosition isBlock (gx (chars w p)) (gy (chars w p))) w"
  have "sameTeam v w" "sameTeam w x" by (simp_all add: w_def x_def sameTeam_def)
  then have "teamInv p (if n then tell (ON_LEGION_ADD e) x else x)"
    using teamInv_same [OF v] sameTeam_trans by simp
  moreover have "addLegionVo isBlock p (Some e) n s = Some (True, if n then tell (ON_LEGION_ADD e) x else x)"
    using ty u(1) by (simp add: addLegionVo_def Let_def v_def [symmetric] w_def [symmetric] x_def [symmetric])
  ultimately show ?thesis by blast
qed

lemma removeLegionVo_inv:
  assumes "teamInv p s"
  shows "\<exists>b s'. removeLegionVo p (Some e) s = Some (b, s') \<and> teamInv p s' \<and>
    length (memberList p s) \<le> Suc (length (memberList p s'))"
proof (cases "ftype (chars s e) = TYPE_LEGION \<and> (\<exists>l. legionList (chars s p) = Some l \<and> e \<in> set l)")
  case False
  then have "\<exists>b. removeLegionVo p (Some e) s = Some (b, s)"
    by (auto simp: removeLegionVo_def split: option.split)
  with assms show ?thesis by fastforce
next
  case True
  then obtain l where l: "legionList (chars s p) = Some l" "e \<in> set l" "ftype (chars s e) = TYPE_LEGION" by blast
  define t where "t = onChar p (\<lambda>c. c\<lparr>legionList := Some (remove1 e l)\<rparr>) s"
  have t: "teamInv p t" unfolding t_def using teamInvD [OF assms] by (intro setLegionList_inv) auto
  have ml: "memberList p t = memberList p s" by (simp add: t_def memberList_def)
  obtain u where u: "removeMember p (fid (chars t e)) TYPE_LEGION t = Some (True, u)" "teamInv p u"
      "length (memberList p t) \<le> Suc (length (memberList p u))"
    using removeMember_inv [OF t, of TYPE_LEGION] by auto
  have "removeLegionVo p (Some e) s = Some (True, tell (ON_LEGION_DEL e) u)"
    using l u(1) by (simp add: removeLegionVo_def t_def [symmetric])
  moreover have "teamInv p (tell (ON_LEGION_DEL e) u)" using u(2) by (rule teamInv_same) simp
  moreover have "memberList p (tell (ON_LEGION_DEL e) u) = memberList p u" by (simp add: memberList_def)
  ultimately show ?thesis using u(3) ml by auto
qed

lemma clearLegionList_inv:
  assumes "teamInv p s"
  shows "\<exists>s'. clearLegionList p s = Some s' \<and> teamInv p s'"
  using eachMemberDown_inv [of p "\<lambda>_. True" "\<lambda>t. removeLegionVo p (Some t)" s] removeLegionVo_inv assms
  by (cases "legionList (chars s p)") (fastforce simp: clearLegionList_def)+

lemma setPet_inv:
  assumes "teamInv p s"
  shows "teamInv p (setPet p e t s)"
proof -
  have follow: "teamInv p (onChar x (\<lambda>c. c\<lparr>follower := Some (fid (chars s p))\<rparr>) s)" if "teamInv p s" for x s
  proof (rule teamInv_less [OF that])
    have ml: "memberList p (onChar x (\<lambda>c. c\<lparr>follower := Some (fid (chars s p))\<rparr>) s) = memberList p s"
      by (simp add: memberList_def)
    show "m \<in> set (memberList p s)" if "m \<in> set (memberList p (onChar x (\<lambda>c. c\<lparr>follower := Some (fid (chars s p))\<rparr>) s))" for m
      using that unfolding ml .
    show "m \<in> set (memberList p (onChar x (\<lambda>c. c\<lparr>follower := Some (fid (chars s p))\<rparr>) s))" if "m \<in> set (memberList p s)" for m
      using that unfolding ml .
    have "follower (chars s r) = Some (fid (chars s p))" if "r \<in> set (memberList p s)" for r
      using that \<open>teamInv p s\<close> by (auto simp: teamInv_def ranks_def crew_def memberList_def split: option.splits)
    then show "ranks p (onChar x (\<lambda>c. c\<lparr>follower := Some (fid (chars s p))\<rparr>) s)"
      by (intro ranks_cong [OF teamInvD(1) [OF that]]) auto
  qed (simp add: sameOwn_def)
  show ?thesis
  proof (cases e)
    case None
    have "sameTeam s (onChar p (\<lambda>c. c\<lparr>pet := None\<rparr>) s)" by (simp add: sameTeam_def)
    then show ?thesis using None by (simp add: setPet_def teamInv_same [OF assms])
  next
    case (Some x)
    define u where "u = onChar p (\<lambda>c. (setTabStatus False PET_INNER_SHOW c)\<lparr>pet := Some x\<rparr>) s"
    have u: "teamInv p u" by (rule teamInv_same [OF assms]) (simp add: u_def sameTeam_def)
    define v where "v = onChar x (\<lambda>c. c\<lparr>follower := Some (fid (chars u p))\<rparr>) u"
    have v: "teamInv p v" unfolding v_def by (rule follow [OF u])
    have "teamInv p (onChar p (setTabStatus True PET_INNER_SHOW) v)"
      by (rule teamInv_same [OF v]) (simp add: sameTeam_def)
    moreover have "teamInv p (tell (ON_PET_ADD x) w)" if "teamInv p w" for w by (rule teamInv_same [OF that]) simp
    ultimately show ?thesis
      using v Some by (simp add: setPet_def Let_def u_def [symmetric] v_def [symmetric])
  qed
qed

section \<open>Reachable teams\<close>

datatype team_op =
  AddPlayer ref
| RemovePlayer int
| ClearMember
| IgnoreMember
| AddMercenary ref bool
| RemoveMercenary "ref option"
| ClearMercenary
| AddLegion ref bool
| RemoveLegion "ref option"
| ClearLegion
| SetPet "ref option" bool
| Move ref int int
| ShowMembers

fun doTeam :: "(int \<Rightarrow> int \<Rightarrow> bool) \<Rightarrow> ref \<Rightarrow> team_op \<Rightarrow> team_state \<Rightarrow> team_state option" where
  "doTeam isBlock p (AddPlayer e) s = map_option snd (addMember p (Some e) s)"
| "doTeam isBlock p (RemovePlayer i) s = map_option snd (removeMember p i TYPE_PLAYER s)"
| "doTeam isBlock p ClearMember s = clearMember p s"
| "doTeam isBlock p IgnoreMember s = ignoreMember p s"
| "doTeam isBlock p (AddMercenary e n) s = map_option snd (addMercenary isBlock p (Some e) n s)"
| "doTeam isBlock p (RemoveMercenary e) s = map_option snd (removeMercenary p e s)"
| "doTeam isBlock p ClearMercenary s = clearMercenary p s"
| "doTeam isBlock p (AddLegion e n) s = map_option snd (addLegionVo isBlock p (Some e) n s)"
| "doTeam isBlock p (RemoveLegion e) s = map_option snd (removeLegionVo p e s)"
| "doTeam isBlock p ClearLegion s = clearLegionList p s"
| "doTeam isBlock p (SetPet e n) s = Some (setPet p e n s)"
| "doTeam isBlock p (Move r x y) s = Some (onChar r (saveLastMove x y) s)"
| "doTeam isBlock p ShowMembers s = Some (clearMemberHideStatus p s)"

text \<open>Who joins is another character; a member of the legion is a new one each time.\<close>

fun mayDo :: "ref \<Rightarrow> team_op \<Rightarrow> team_state \<Rightarrow> bool" where
  "mayDo p (AddPlayer e) s \<longleftrightarrow> e \<noteq> p \<and> ftype (chars s e) = TYPE_PLAYER"
| "mayDo p (AddMercenary e n) s \<longleftrightarrow> e \<noteq> p"
| "mayDo p (AddLegion e n) s \<longleftrightarrow> e \<noteq> p \<and> e \<notin> set (memberList p s)"
| "mayDo p _ s \<longleftrightarrow> True"

definition alone :: "ref \<Rightarrow> team_state \<Rightarrow> bool" where
  "alone p s \<longleftrightarrow> 0 < fid (chars s p) \<and> leaderID (chars s p) = - 1 \<and> merList (chars s p) = None \<and>
     (\<forall>r. members (chars s r) = None)"

inductive team_reach :: "(int \<Rightarrow> int \<Rightarrow> bool) \<Rightarrow> ref \<Rightarrow> team_state \<Rightarrow> bool" for isBlock p where
  start: "alone p s \<Longrightarrow> team_reach isBlock p s"
| step: "team_reach isBlock p s \<Longrightarrow> mayDo p a s \<Longrightarrow> doTeam isBlock p a s = Some s' \<Longrightarrow> team_reach isBlock p s'"

lemma doTeam_inv:
  assumes "teamInv p s" "mayDo p a s"
  shows "\<exists>s'. doTeam isBlock p a s = Some s' \<and> teamInv p s'"
proof (cases a)
  case (AddPlayer e) with assms addPlayer_inv [of p s e] show ?thesis by auto
next
  case (RemovePlayer i) with assms removeMember_inv [of p s TYPE_PLAYER i] show ?thesis by auto
next
  case (AddMercenary e n) with assms addMercenary_inv [of p s e isBlock n] show ?thesis by auto
next
  case (RemoveMercenary e)
  show ?thesis
  proof (cases e)
    case None
    with RemoveMercenary assms(1) show ?thesis by (simp add: removeMercenary_def)
  next
    case (Some x)
    obtain b s' where "removeMercenary p (Some x) s = Some (b, s')" "teamInv p s'"
      using removeMercenary_inv [OF assms(1), of x] by blast
    with Some RemoveMercenary show ?thesis by simp
  qed
next
  case (AddLegion e n) with assms addLegionVo_inv [of p s e isBlock n] show ?thesis by auto
next
  case (RemoveLegion e)
  show ?thesis
  proof (cases e)
    case None
    with RemoveLegion assms(1) show ?thesis by (simp add: removeLegionVo_def)
  next
    case (Some x)
    obtain b s' where "removeLegionVo p (Some x) s = Some (b, s')" "teamInv p s'"
      using removeLegionVo_inv [OF assms(1), of x] by blast
    with Some RemoveLegion show ?thesis by simp
  qed
next
  case (Move r x y)
  have "sameTeam s (onChar r (saveLastMove x y) s)"
    by (simp add: sameTeam_def core_def saveLastMove_def Let_def setTabStatus_def)
  with Move show ?thesis by (simp add: teamInv_same [OF assms(1)])
next
  case ShowMembers
  have "sameTeam s (clearMemberHideStatus p s)"
    by (auto simp: clearMemberHideStatus_def intro!: sameTeam_fold sameTeam_onChar)
  with ShowMembers show ?thesis by (simp add: teamInv_same [OF assms(1)])
qed (simp_all add: assms(1) clearMember_inv ignoreMember_inv clearMercenary_inv clearLegionList_inv setPet_inv)

lemma alone_inv: "alone p s \<Longrightarrow> teamInv p s"
  by (simp add: alone_def teamInv_def ranks_def legionsListed_def memberList_def)


section \<open>The trail\<close>

definition trail :: "(int \<times> int) list \<Rightarrow> team_char \<Rightarrow> bool" where
  "trail ps c \<longleftrightarrow>
     lastMoveBeginIndex c = int (length ps mod 5) \<and> isTabStatus c LAST_MOVE_FILL = (5 \<le> length ps) \<and>
     (lastMove c = None \<and> ps = [] \<or>
      (\<exists>l. lastMove c = Some l \<and> length l = 5 \<and>
         (\<forall>m<length ps. length ps \<le> m + 5 \<longrightarrow> l ! (m mod 5) = Some (ps ! m))))"

lemma tab_set: "isTabStatus (setTabStatus True LAST_MOVE_FILL c) LAST_MOVE_FILL"
proof -
  have "bit (jand (jor (intValue1 c) 2) 2) 1"
    by (simp add: jand_def jor_def bit_and_iff bit_or_iff bit_toInt32)
  then have "jand (jor (intValue1 c) 2) 2 \<noteq> 0" by auto
  then show ?thesis by (simp add: isTabStatus_def setTabStatus_def)
qed

lemma trail_save:
  assumes "trail ps c"
  shows "trail (ps @ [(x, y)]) (saveLastMove x y c)"
proof -
  let ?n = "length ps"
  define l where "l = (case lastMove c of None \<Rightarrow> replicate 5 None | Some l \<Rightarrow> l)"
  have l: "length l = 5" "\<And>m. m < ?n \<Longrightarrow> ?n \<le> m + 5 \<Longrightarrow> l ! (m mod 5) = Some (ps ! m)"
    using assms by (auto simp: trail_def l_def)
  define l' where "l' = l[?n mod 5 := Some (x, y)]"
  have l': "jset l (lastMoveBeginIndex c) (Some (x, y)) = l'" "length l' = 5"
    using assms l(1) by (simp_all add: trail_def jset_def l'_def)
  have i: "(lastMoveBeginIndex c + 1) mod int (length l') = int (Suc ?n mod 5)"
    using assms l'(2) by (simp add: trail_def mod_Suc_eq zmod_int mod_simps add.commute)
  define c' where "c' = c\<lparr>lastMove := Some l', lastMoveBeginIndex := int (Suc ?n mod 5)\<rparr>"
  have s: "saveLastMove x y c = (if Suc ?n mod 5 = 0 then setTabStatus True LAST_MOVE_FILL c' else c')"
    using l' i by (simp add: saveLastMove_def l_def [symmetric] Let_def c'_def)
  have lf: "l' ! (m mod 5) = Some ((ps @ [(x, y)]) ! m)" if "m < Suc ?n" "Suc ?n \<le> m + 5" for m
  proof (cases "m = ?n")
    case False
    with that have m: "m < ?n" "?n < m + 5" by simp_all
    then have "\<not> 5 dvd ?n - m" using nat_dvd_not_less [of "?n - m" 5] by simp
    with m have "m mod 5 \<noteq> ?n mod 5" using mod_eq_dvd_iff_nat [of m ?n 5] by simp
    with m l show ?thesis by (simp add: l'_def nth_append)
  qed (use l in \<open>simp add: l'_def\<close>)
  have t: "isTabStatus (saveLastMove x y c) LAST_MOVE_FILL = (5 \<le> Suc ?n)"
  proof (cases "Suc ?n mod 5 = 0")
    case True
    then have "5 \<le> Suc ?n" by (metis Suc_not_Zero mod_less not_less)
    with True show ?thesis by (simp add: s tab_set)
  next
    case False
    have "isTabStatus c' LAST_MOVE_FILL = (5 \<le> ?n)" using assms by (simp add: trail_def c'_def isTabStatus_def)
    moreover have "Suc ?n \<noteq> 5"
    proof
      assume "Suc ?n = 5"
      with False show False by simp
    qed
    then have "(5 \<le> Suc ?n) = (5 \<le> ?n)" by linarith
    ultimately show ?thesis using False by (simp only: s if_False)
  qed
  show ?thesis unfolding trail_def
    using t lf l'(2) by (auto simp: s c'_def setTabStatus_def)
qed

text \<open>C23: The followers walk five steps behind: after a character with a fresh or cleared trail
  has made the moves \<open>ps\<close>, \<open>getLastMove\<close> has nothing before the fifth move, and afterwards
  gives the position of the fifth move from the end, however long the walk.\<close>

theorem getLastMove_delay:
  assumes "lastMove c = None \<or> (\<exists>l. lastMove c = Some l \<and> length l = 5)"
  shows "getLastMove (fold (\<lambda>(x, y). saveLastMove x y) ps (cleanLastMove c)) =
    (if length ps < 5 then None else Some (ps ! (length ps - 5)))"
proof -
  have "bit (jand (jand (intValue1 c) (jnot 2)) 2) k = False" for k
    by (auto simp: jand_def jnot_def bit_and_iff bit_not_iff bit_toInt32 simp flip: exp_eq_0_imp_not_bit)
  then have "jand (jand (intValue1 c) (jnot 2)) 2 = 0" by (simp add: bit_eq_iff)
  then have "trail [] (cleanLastMove c)"
    using assms by (auto simp: trail_def cleanLastMove_def Let_def isTabStatus_def setTabStatus_def)
  then have "trail ps (fold (\<lambda>(x, y). saveLastMove x y) ps (cleanLastMove c))"
    by (induction ps rule: rev_induct) (auto simp: trail_save)
  then show ?thesis
    by (auto simp: trail_def getLastMove_def jget_def le_mod_geq)
qed

section \<open>A team\<close>

definition demo_char :: "int \<Rightarrow> int \<Rightarrow> int \<Rightarrow> team_char" where
  "demo_char ty i g =
     \<lparr>fid = i, ftype = ty, sex = 0, race = 0, job = 0, level = 1, level2 = 0, setting = 0, fstatus = 0,
      countryId = - 1, countryRank = - 1, px = i, py = i, enchantValue = 0, intValue1 = 0, position = 0,
      groupId = g, ownerid = None, leaderID = - 1, follower = None, members = None, merList = None,
      legionList = None, pet = None, isMyPlayer = False, gx = 0, gy = 0, transportStyle = 0, petStyle = 0,
      playerSprite = None, lastMove = None, lastMoveBeginIndex = 0\<rparr>"

text \<open>The leader is the reference 0, a player the reference 1; the others are mercenaries.\<close>

definition demo_team :: team_state where
  "demo_team = \<lparr>chars = (\<lambda>r. if r = 0 then demo_char TYPE_PLAYER 7 0 else if r = 1 then demo_char TYPE_PLAYER 8 0
     else demo_char TYPE_MERCENARY 100 (int r)), news = []\<rparr>"

fun doTeams :: "ref \<Rightarrow> team_op list \<Rightarrow> team_state \<Rightarrow> team_state option" where
  "doTeams p [] s = Some s"
| "doTeams p (a # as) s = (if mayDo p a s then do { s \<leftarrow> doTeam (\<lambda>x y. False) p a s; doTeams p as s } else None)"

lemma doTeams_reach: "doTeams p as s = Some s' \<Longrightarrow> team_reach (\<lambda>x y. False) p s \<Longrightarrow> team_reach (\<lambda>x y. False) p s'"
  by (induction as arbitrary: s) (auto split: if_splits bind_splits intro: team_reach.step)

lemma demo_alone: "alone 0 demo_team"
  by (simp add: alone_def demo_team_def demo_char_def)

definition demo_joined :: team_state where
  "demo_joined = the (doTeams 0 [AddPlayer 1, AddMercenary 2 True, AddPlayer 1] demo_team)"

lemma demo_joined_reach: "team_reach (\<lambda>x y. False) 0 demo_joined"
proof -
  have "\<not> Option.is_none (doTeams 0 [AddPlayer 1, AddMercenary 2 True, AddPlayer 1] demo_team)" by code_simp
  then have "doTeams 0 [AddPlayer 1, AddMercenary 2 True, AddPlayer 1] demo_team = Some demo_joined"
    by (simp add: demo_joined_def Option.is_none_def)
  then show ?thesis by (rule doTeams_reach) (rule team_reach.start [OF demo_alone])
qed


theorem getLastMove_delay_witness:
  "getLastMove (fold (\<lambda>(x, y). saveLastMove x y) [(1, 1), (1, 2), (2, 2), (3, 2), (3, 3), (4, 3)]
     (cleanLastMove (demo_char TYPE_PLAYER 7 0))) = Some (1, 2)"
  using getLastMove_delay [of "demo_char TYPE_PLAYER 7 0" "[(1, 1), (1, 2), (2, 2), (3, 2), (3, 3), (4, 3)]"]
  by (simp add: demo_char_def)

text \<open>The list of mercenaries has two places.  A third one is hired in the first place: whoever was
  there stays in the team but is no longer in the list.\<close>

definition demo_hired :: team_state where
  "demo_hired = onChar 0 (\<lambda>c. c\<lparr>merList := Some [Some 2, Some 3], members := Some [2, 3], leaderID := 7\<rparr>) demo_team"

lemma third_mercenary_unlisted:
  "map_option (\<lambda>s. (merList (chars s 0), memberList 0 s)) (doTeams 0 [AddMercenary 4 False] demo_hired) =
   Some (Some [Some 4, Some 3], [2, 3, 4])"
  by code_simp

end
