(* ===== verification/Message.thy ===== *)
theory Message
  imports CodecProps
begin

text \<open>
  The messages between client and server: the fields of a message (class \<open>Message\<close>), its frame
  (\<open>encodeMsg\<close>, \<open>decodeMsg\<close>) and the queue that hands the received messages to the modules.

  As in \<open>Codec\<close> the byte arrays belong to the engine.  \<open>Message\<close> uses more of their operations,
  the parameter \<open>W\<close>; \<open>wire_ok A W before rest\<close> says what these are documented to do, where
  \<open>before\<close> gives the bytes of an array in front of its position and \<open>rest\<close> those from there on.
  Messages that have a protobuf class are encoded by a third-party runtime and not modelled.
\<close>

section \<open>Byte arrays\<close>

text \<open>\<open>setUint16\<close> and \<open>setUint8\<close> store a number at the position through the view of the array and
  move the position behind it; this needs the room that \<open>validateBuffer\<close> has made.  \<open>rewind\<close>
  sets the position to 0.\<close>

record 'b wire_ops =
  validateBuffer :: "'b \<Rightarrow> int \<Rightarrow> 'b"
  setUint16 :: "'b \<Rightarrow> int \<Rightarrow> 'b"
  setUint8 :: "'b \<Rightarrow> int \<Rightarrow> 'b"
  readUnsignedShort :: "'b \<Rightarrow> int \<times> 'b"
  readUnsignedByte :: "'b \<Rightarrow> int \<times> 'b"
  writeBoolean :: "'b \<Rightarrow> bool \<Rightarrow> 'b"
  readBoolean :: "'b \<Rightarrow> bool \<times> 'b"
  rewind :: "'b \<Rightarrow> 'b"

text \<open>\<open>writes before rest f bs\<close>: the operation \<open>f\<close> writes the bytes \<open>bs\<close> at the position, over
  those that are there or beyond the end.\<close>

definition writes :: "('b \<Rightarrow> int list) \<Rightarrow> ('b \<Rightarrow> int list) \<Rightarrow> ('b \<Rightarrow> 'b) \<Rightarrow> int list \<Rightarrow> bool" where
  "writes before rest f bs \<longleftrightarrow>
     (\<forall>b. before (f b) = before b @ bs \<and> rest (f b) = drop (length bs) (rest b))"

definition wire_ok :: "'b byte_ops \<Rightarrow> 'b wire_ops \<Rightarrow> ('b \<Rightarrow> int list) \<Rightarrow> ('b \<Rightarrow> int list) \<Rightarrow> bool" where
  "wire_ok A W before rest \<longleftrightarrow>
     before (newArray A) = [] \<and> rest (newArray A) = [] \<and>
     (\<forall>b. arrayLength A b = int (length (before b @ rest b))) \<and>
     (\<forall>b. before (rewind W b) = [] \<and> rest (rewind W b) = before b @ rest b) \<and>
     (\<forall>v. writes before rest (\<lambda>b. writeByte A b v) [v mod 256]) \<and>
     (\<forall>v. writes before rest (\<lambda>b. writeShort A b v) (be16 v)) \<and>
     (\<forall>v. writes before rest (\<lambda>b. writeInt A b v) (be32 v)) \<and>
     (\<forall>v. writes before rest (\<lambda>b. writeBoolean W b v) [if v then 1 else 0]) \<and>
     (\<forall>b n v w. n \<ge> 3 \<longrightarrow>
        before (setUint8 W (setUint16 W (validateBuffer W b n) v) w) = before b @ be16 v @ [w mod 256]) \<and>
     (\<forall>b x r. rest b = x # r \<longrightarrow> fst (readByte A b) = signed_take_bit 7 x \<and> rest (snd (readByte A b)) = r) \<and>
     (\<forall>b x r. rest b = x # r \<longrightarrow> fst (readUnsignedByte W b) = x \<and> rest (snd (readUnsignedByte W b)) = r) \<and>
     (\<forall>b x r. rest b = x # r \<longrightarrow> fst (readBoolean W b) = (x \<noteq> 0) \<and> rest (snd (readBoolean W b)) = r) \<and>
     (\<forall>b x y r. rest b = x # y # r \<longrightarrow>
        fst (readShort A b) = signed_take_bit 15 (256 * x + y) \<and> rest (snd (readShort A b)) = r) \<and>
     (\<forall>b x y r. rest b = x # y # r \<longrightarrow>
        fst (readUnsignedShort W b) = 256 * x + y \<and> rest (snd (readUnsignedShort W b)) = r) \<and>
     (\<forall>b x y z w r. rest b = x # y # z # w # r \<longrightarrow>
        fst (readInt A b) = signed_take_bit 31 (16777216 * x + 65536 * y + 256 * z + w) \<and>
        rest (snd (readInt A b)) = r)"

section \<open>Fields\<close>

text \<open>\<open>a >>> n\<close>.\<close>

definition jushr :: "int \<Rightarrow> int \<Rightarrow> int" where
  "jushr a n = (toInt32 a mod 4294967296) div 2 ^ nat (n mod 32)"

definition putLength :: "'b wire_ops \<Rightarrow> int \<Rightarrow> 'b \<Rightarrow> 'b" where
  "putLength W e b =
     setUint8 W (setUint16 W (validateBuffer W b (2 * e + 3)) (jand (jushr e 8) 255)) (jand 255 e)"

definition getLength :: "'b wire_ops \<Rightarrow> 'b \<Rightarrow> int \<times> 'b" where
  "getLength W b =
     (let (e, b) = readUnsignedShort W b; (t, b) = readUnsignedByte W b in (jshl e 8 + t, b))"

definition putString :: "'b byte_ops \<Rightarrow> 'b wire_ops \<Rightarrow> int list option \<Rightarrow> 'b \<Rightarrow> 'b" where
  "putString A W e b =
     (let e = (case e of None \<Rightarrow> [] | Some e \<Rightarrow> e)
      in fold (\<lambda>c b. writeShort A b c) e (putLength W (int (length e)) b))"

definition getChar :: "'b byte_ops \<Rightarrow> 'b \<Rightarrow> int \<times> 'b" where
  "getChar A b =
     (let (x, b) = readByte A b; (y, b) = readByte A b in (jshl (jand 255 x) 8 + jand 255 y, b))"

text \<open>A loop that calls a reader a number of times and collects the results.\<close>

fun readTimes :: "nat \<Rightarrow> ('b \<Rightarrow> 'v \<times> 'b) \<Rightarrow> 'b \<Rightarrow> 'v list \<times> 'b" where
  "readTimes 0 g b = ([], b)"
| "readTimes (Suc n) g b = (let (v, b) = g b; (vs, b) = readTimes n g b in (v # vs, b))"

definition getString :: "'b byte_ops \<Rightarrow> 'b wire_ops \<Rightarrow> 'b \<Rightarrow> int list \<times> 'b" where
  "getString A W b = (let (e, b) = getLength W b in readTimes (nat e) (getChar A) b)"

definition putLong :: "'b byte_ops \<Rightarrow> int \<Rightarrow> int \<Rightarrow> 'b \<Rightarrow> 'b" where
  "putLong A high low b = writeInt A (writeInt A b high) low"

definition getLong :: "'b byte_ops \<Rightarrow> 'b \<Rightarrow> (int \<times> int) \<times> 'b" where
  "getLong A b = (let (e, b) = readInt A b; (t, b) = readInt A b in ((e, t), b))"

definition putBytes :: "'b byte_ops \<Rightarrow> 'b wire_ops \<Rightarrow> 'b option \<Rightarrow> 'b \<Rightarrow> 'b" where
  "putBytes A W e b =
     (case e of
        None \<Rightarrow> b
      | Some e \<Rightarrow>
          (let t = arrayLength A e
           in fold (\<lambda>v b. writeByte A b v) (fst (readTimes (nat t) (readByte A) (rewind W e))) (putLength W t b)))"

definition getBytes :: "'b byte_ops \<Rightarrow> 'b wire_ops \<Rightarrow> 'b \<Rightarrow> 'b \<times> 'b" where
  "getBytes A W b =
     (let (t, b) = getLength W b; (vs, b) = readTimes (nat t) (readByte A) b
      in (rewind W (fold (\<lambda>v e. writeByte A e v) vs (newArray A)), b))"

definition getNumbers :: "'b byte_ops \<Rightarrow> 'b wire_ops \<Rightarrow> 'b \<Rightarrow> int list \<times> 'b" where
  "getNumbers A W b =
     (let (e, b) = getLength W b; (vs, b) = readTimes (nat e) (readByte A) b in (map (jand 255) vs, b))"

section \<open>Frames\<close>

definition encodeMsg :: "int \<Rightarrow> int list \<Rightarrow> int list option" where
  "encodeMsg t i = (if t > 0 then Some (be16 (int (length i) + 4) @ be16 t @ i) else None)"

definition decodeMsg :: "int list \<Rightarrow> (int \<times> int list) option" where
  "decodeMsg e = (case e of _ # _ # x # y # o' \<Rightarrow> Some (256 * x + y, o') | _ \<Rightarrow> None)"

section \<open>The queue of received messages\<close>

text \<open>The queue with the part of the login data and of the globals that going to the background
  and coming back changes: \<open>hiddenAt\<close> is the variable \<open>p\<close>, the time of the last change to the
  background, and \<open>reconnects\<close> counts the notifications \<open>TRY_RECONNECT\<close>.  Fields that are not
  set yet are \<open>None\<close>.\<close>

record 'm msg_queue =
  msgs :: "'m list"
  isActive :: bool
  sent :: "'m list"
  reConnectGameCnt :: int
  reConnectLoginCnt :: int
  reSessionID :: "int option"
  serverId :: "int option"
  reconnectId :: "int option"
  hiddenAt :: int
  reconnects :: nat

definition new_queue :: "'m msg_queue" where
  "new_queue = \<lparr>msgs = [], isActive = True, sent = [], reConnectGameCnt = 0, reConnectLoginCnt = 0,
     reSessionID = None, serverId = None, reconnectId = None, hiddenAt = 0, reconnects = 0\<rparr>"

definition sendProto :: "'m \<Rightarrow> 'm msg_queue \<Rightarrow> 'm msg_queue" where
  "sendProto e q = q\<lparr>sent := sent q @ [e]\<rparr>"

definition onMsg :: "'m option \<Rightarrow> 'm msg_queue \<Rightarrow> 'm msg_queue" where
  "onMsg e q =
     (case e of None \<Rightarrow> q | Some e \<Rightarrow> if isActive q then q\<lparr>msgs := msgs q @ [e]\<rparr> else sendProto e q)"

text \<open>The loops that empty the queue.  An answer of \<open>sendNt\<close> always comes back, since the handlers
  catch what the code behind them throws (\<open>Facade\<close>); \<open>clock n\<close> is the time after the message \<open>n\<close>
  of this call.\<close>

fun drain_msgs :: "'m list \<Rightarrow> 'm msg_queue \<Rightarrow> 'm msg_queue" where
  "drain_msgs [] q = q\<lparr>msgs := []\<rparr>"
| "drain_msgs (e # es) q = drain_msgs es (sendProto e q)"

definition msg_onDeactivate :: "'m msg_queue \<Rightarrow> 'm msg_queue" where
  "msg_onDeactivate q = drain_msgs (msgs q) q"

definition protoOnDeactivate :: "int \<Rightarrow> 'm msg_queue \<Rightarrow> 'm msg_queue" where
  "protoOnDeactivate now q = msg_onDeactivate (q\<lparr>isActive := False, hiddenAt := now\<rparr>)"

definition protoOnActivate :: "int \<Rightarrow> 'm msg_queue \<Rightarrow> 'm msg_queue" where
  "protoOnActivate now q =
     (let q = q\<lparr>isActive := True, reConnectGameCnt := 0, reConnectLoginCnt := 0\<rparr>;
          q = (if hiddenAt q \<noteq> 0 \<and> now - hiddenAt q \<ge> 240000
               then q\<lparr>reSessionID := Some 0, serverId := Some 0, reconnectId := Some 0\<rparr> else q)
      in q\<lparr>reconnects := Suc (reconnects q)\<rparr>)"

fun update_msgs :: "int \<Rightarrow> (nat \<Rightarrow> int) \<Rightarrow> nat \<Rightarrow> 'm list \<Rightarrow> 'm msg_queue \<Rightarrow> 'm msg_queue" where
  "update_msgs t0 clock n [] q = q\<lparr>msgs := []\<rparr>"
| "update_msgs t0 clock n (e # es) q =
     (let q = sendProto e q
      in if clock n - t0 > 16 then q\<lparr>msgs := es\<rparr> else update_msgs t0 clock (Suc n) es q)"

definition msg_update :: "int \<Rightarrow> (nat \<Rightarrow> int) \<Rightarrow> 'm msg_queue \<Rightarrow> 'm msg_queue" where
  "msg_update t0 clock q = update_msgs t0 clock 0 (msgs q) q"

end
