(* ===== verification/Mission.thy ===== *)
theory Mission
  imports Attributes Message
begin

text \<open>
  Missions: their conditions (class \<open>Condition\<close>, whose parameters are kept as bytes), the state
  of a mission for a player (class \<open>Mission\<close>), and the list of accepted and the bit field of
  finished missions of a player (class \<open>PlayerVo\<close>).

  The byte arrays of the conditions belong to the engine; \<open>E\<close> has the operations that the
  conditions use and \<open>data_ok E before rest utf\<close> says what they do, as in \<open>Message\<close>.  Every use
  of the bytes of a condition starts with position 0, so the position left by a read is not
  kept.  The missions are objects shared between the player and the characters that offer
  them; they live in a store.  The progress texts and the switching of the automatic player are
  not modelled; what the list tells the automatic player is in \<open>mnews\<close>.
\<close>

section \<open>Conditions\<close>

record 'b data_ops =
  bops :: "'b byte_ops"
  position0 :: "'b \<Rightarrow> 'b"
  readUTF :: "'b \<Rightarrow> int list \<times> 'b"
  writeUTF :: "'b \<Rightarrow> int list \<Rightarrow> 'b"
  clearBytes :: "'b \<Rightarrow> 'b"

definition data_ok :: "'b data_ops \<Rightarrow> ('b \<Rightarrow> int list) \<Rightarrow> ('b \<Rightarrow> int list) \<Rightarrow> (int list \<Rightarrow> int list) \<Rightarrow> bool" where
  "data_ok E before rest utf \<longleftrightarrow>
     (\<forall>b. before (position0 E b) = [] \<and> rest (position0 E b) = before b @ rest b) \<and>
     (\<forall>b. before (clearBytes E b) = [] \<and> rest (clearBytes E b) = []) \<and>
     (\<forall>v. writes before rest (\<lambda>b. writeByte (bops E) b v) [v mod 256]) \<and>
     (\<forall>v. writes before rest (\<lambda>b. writeShort (bops E) b v) (be16 v)) \<and>
     (\<forall>x. writes before rest (\<lambda>b. writeUTF E b x) (utf x)) \<and>
     (\<forall>b x r. rest b = x # r \<longrightarrow>
        fst (readByte (bops E) b) = signed_take_bit 7 x \<and> rest (snd (readByte (bops E) b)) = r) \<and>
     (\<forall>b x y r. rest b = x # y # r \<longrightarrow>
        fst (readShort (bops E) b) = signed_take_bit 15 (256 * x + y) \<and> rest (snd (readShort (bops E) b)) = r) \<and>
     (\<forall>b x r. rest b = utf x @ r \<longrightarrow> fst (readUTF E b) = x \<and> rest (snd (readUTF E b)) = r)"

record 'b condition =
  condType :: int
  condNot :: int
  condData :: 'b

abbreviation (input) CONDITION_NONE :: int where "CONDITION_NONE \<equiv> 0"
abbreviation (input) CONDITION_LEVEL :: int where "CONDITION_LEVEL \<equiv> 1"
abbreviation (input) CONDITION_KILL_MONSTER :: int where "CONDITION_KILL_MONSTER \<equiv> 2"
abbreviation (input) CONDITION_MONEY :: int where "CONDITION_MONEY \<equiv> 3"
abbreviation (input) CONDITION_MONEY2 :: int where "CONDITION_MONEY2 \<equiv> 4"
abbreviation (input) CONDITION_MONEY3 :: int where "CONDITION_MONEY3 \<equiv> 5"
abbreviation (input) CONDITION_HONOR :: int where "CONDITION_HONOR \<equiv> 6"
abbreviation (input) CONDITION_HAVE_ITEM :: int where "CONDITION_HAVE_ITEM \<equiv> 7"
abbreviation (input) CONDITION_EQUIP_ITEM :: int where "CONDITION_EQUIP_ITEM \<equiv> 8"
abbreviation (input) CONDITION_MISSION_DONE :: int where "CONDITION_MISSION_DONE \<equiv> 9"
abbreviation (input) CONDITION_MISSION_DOING :: int where "CONDITION_MISSION_DOING \<equiv> 10"
abbreviation (input) CONDITION_SCHOOL :: int where "CONDITION_SCHOOL \<equiv> 11"
abbreviation (input) CONDITION_IN_MAP :: int where "CONDITION_IN_MAP \<equiv> 12"
abbreviation (input) CONDITION_SEX :: int where "CONDITION_SEX \<equiv> 15"
abbreviation (input) CONDITION_PLAYER_HP :: int where "CONDITION_PLAYER_HP \<equiv> 18"
abbreviation (input) CONDITION_PLAYER_MP :: int where "CONDITION_PLAYER_MP \<equiv> 19"
abbreviation (input) CONDITION_PLAYER_CON :: int where "CONDITION_PLAYER_CON \<equiv> 20"
abbreviation (input) CONDITION_PLAYER_STR :: int where "CONDITION_PLAYER_STR \<equiv> 21"
abbreviation (input) CONDITION_PLAYER_ITL :: int where "CONDITION_PLAYER_ITL \<equiv> 22"
abbreviation (input) CONDITION_PLAYER_AGI :: int where "CONDITION_PLAYER_AGI \<equiv> 23"
abbreviation (input) CONDITION_VIP :: int where "CONDITION_VIP \<equiv> 24"
abbreviation (input) CONDITION_CITY_SCALE :: int where "CONDITION_CITY_SCALE \<equiv> 26"
abbreviation (input) CONDITION_CITY_LEVEL :: int where "CONDITION_CITY_LEVEL \<equiv> 27"
abbreviation (input) CONDITION_CITY_DEGREE :: int where "CONDITION_CITY_DEGREE \<equiv> 29"
abbreviation (input) CONDITION_CITY_ARMY :: int where "CONDITION_CITY_ARMY \<equiv> 30"
abbreviation (input) CONDITION_CITY_ISMASTER :: int where "CONDITION_CITY_ISMASTER \<equiv> 31"
abbreviation (input) CONDITION_JOB :: int where "CONDITION_JOB \<equiv> 32"
abbreviation (input) CONDITION_COUNTRY_RANK :: int where "CONDITION_COUNTRY_RANK \<equiv> 33"
abbreviation (input) CONDITION_COUNTRY_RANK_2 :: int where "CONDITION_COUNTRY_RANK_2 \<equiv> 34"

abbreviation (input) RANK_SOLDIER :: int where "RANK_SOLDIER \<equiv> 8"
abbreviation (input) SEX_MALE :: int where "SEX_MALE \<equiv> 0"
abbreviation (input) STATUS_IS_SOLDIER :: int where "STATUS_IS_SOLDIER \<equiv> 8192"
abbreviation (input) MAX_VALUE_byte :: int where "MAX_VALUE_byte \<equiv> 127"

text \<open>What the conditions read of the global state, and a player with his missions: \<open>body\<close> is the
  character, \<open>isMe\<close> says that it is the player of this client.\<close>

record world =
  curMapID :: int
  orgMapID :: int
  cityScale :: int
  cityLevel :: int
  cityDegree :: int
  cityArmy :: int
  worldPlayerID :: int
  cityMasterId :: int
  serverTime :: int

record quester =
  body :: fighter
  isMe :: bool
  vipLv :: int
  superQqLevel :: int
  missionStatus :: "int list option"
  missionList :: "nat option list option"

record 'b mission =
  mid :: int
  mlevel :: int
  mtype :: int
  canAccept :: "int option"
  msetting :: int
  mapId :: int
  radarMapID :: int
  radarGx :: int
  radarGy :: int
  acceptCondition :: "'b condition list option"
  submitCondition :: "'b condition list option"

type_synonym 'b missions = "nat \<Rightarrow> 'b mission"

section \<open>Finished missions\<close>

definition isMissionFinish :: "quester \<Rightarrow> int \<Rightarrow> bool" where
  "isMissionFinish e t =
     (case missionStatus e of
        None \<Rightarrow> False
      | Some i \<Rightarrow>
          if 0 > t then False
          else (let o' = t div 8; n = t mod 8
                in o' \<ge> 0 \<and> o' < int (length i) \<and> 0 \<noteq> jand (i ! nat o') (jshl 1 n)))"

definition setMissionStatus :: "quester \<Rightarrow> int \<Rightarrow> bool \<Rightarrow> quester" where
  "setMissionStatus e t i =
     (case missionStatus e of
        None \<Rightarrow> e
      | Some o' \<Rightarrow>
          if 0 > t then e
          else (let n = t div 8; a = t mod 8
                in if 0 > n \<or> n \<ge> int (length o') then e
                   else e\<lparr>missionStatus := Some (o'[nat n := if i then jor (o' ! nat n) (jshl 1 a)
                                                             else jand (o' ! nat n) (jnot (jshl 1 a))])\<rparr>))"

definition finishMission :: "quester \<Rightarrow> int \<Rightarrow> quester" where
  "finishMission e t = setMissionStatus e t True"

section \<open>Accepted missions\<close>

definition getMissionById :: "'b missions \<Rightarrow> quester \<Rightarrow> int \<Rightarrow> nat option" where
  "getMissionById M p e =
     (case missionList p of
        None \<Rightarrow> None
      | Some t \<Rightarrow> (case List.find (\<lambda>x. case x of None \<Rightarrow> False | Some r \<Rightarrow> mid (M r) = e) t of None \<Rightarrow> None | Some x \<Rightarrow> x))"

definition hasMission :: "quester \<Rightarrow> bool" where
  "hasMission p = (case missionList p of None \<Rightarrow> False | Some t \<Rightarrow> list_ex (\<lambda>x. x \<noteq> None) t)"

definition getItemNumByIdInBag :: "quester \<Rightarrow> int \<Rightarrow> int" where
  "getItemNumByIdInBag p e = (case fbag (body p) of None \<Rightarrow> 0 | Some b \<Rightarrow> getItemNumByID b e)"

definition equipItemByIdInEquip :: "quester \<Rightarrow> int \<Rightarrow> bool" where
  "equipItemByIdInEquip p e = (case fbag (body p) of None \<Rightarrow> False | Some b \<Rightarrow> isEquipItemByIdInEquip b e)"

definition world_isVip :: "world \<Rightarrow> quester \<Rightarrow> bool" where
  "world_isVip w t =
     (if vipLv t < 1 then False
      else if isMe t \<and> (case fbag (body t) of None \<Rightarrow> True | Some b \<Rightarrow> isVipOverDue (serverTime w) b) then False
      else True)"

definition checkCondition :: "'b data_ops \<Rightarrow> world \<Rightarrow> 'b missions \<Rightarrow> quester \<Rightarrow> 'b condition \<Rightarrow> bool" where
  "checkCondition E w M t c =
     (let A = bops E; i = position0 E (condData c); ty = condType c; g = fget (body t);
          byte = fst (readByte A i); short = fst (readShort A i); num = fst (readInt A i);
          s = (if ty = CONDITION_NONE then True
               else if ty = CONDITION_LEVEL then level (body t) \<ge> byte
               else if ty = CONDITION_KILL_MONSTER then
                 (let (_, i) = readShort A i; (_, i) = readUTF E i; (u, i) = readByte A i; (d, i) = readByte A i in d \<ge> u)
               else if ty = CONDITION_MONEY then g MONEY1 \<ge> num
               else if ty = CONDITION_MONEY2 then g MONEY2 \<ge> num \<or> g MONEY1 \<ge> num
               else if ty = CONDITION_MONEY3 then g MONEY3 \<ge> num
               else if ty = CONDITION_HONOR then g COUNTRY_HONOR \<ge> short
               else if ty = CONDITION_COUNTRY_RANK then
                 (if byte = RANK_SOLDIER then 0 \<noteq> jand (fstatus (body t)) STATUS_IS_SOLDIER else g COUNTRY_RANK = byte)
               else if ty = CONDITION_COUNTRY_RANK_2 then g COUNTRY_RANK \<ge> byte
               else if ty = CONDITION_HAVE_ITEM then
                 (let (e, i) = readInt A i; (_, i) = readUTF E i; (y, i) = readByte A i in getItemNumByIdInBag t e \<ge> y)
               else if ty = CONDITION_EQUIP_ITEM then equipItemByIdInEquip t num
               else if ty = CONDITION_MISSION_DONE then isMissionFinish t short
               else if ty = CONDITION_MISSION_DOING then getMissionById M t short \<noteq> None
               else if ty = CONDITION_SCHOOL then race (body t) = byte
               else if ty = CONDITION_JOB then job (body t) = byte
               else if ty = CONDITION_IN_MAP then curMapID w = short
               else if ty = CONDITION_SEX then g SEX = SEX_MALE
               else if ty = CONDITION_PLAYER_HP then g HP \<ge> num
               else if ty = CONDITION_PLAYER_MP then g MP \<ge> num
               else if ty = CONDITION_PLAYER_CON then g CON \<ge> short
               else if ty = CONDITION_PLAYER_STR then g ATTR_STR \<ge> short
               else if ty = CONDITION_PLAYER_ITL then g ILT \<ge> short
               else if ty = CONDITION_PLAYER_AGI then g AGI \<ge> short
               else if ty = CONDITION_VIP then
                 (if world_isVip w t \<or> superQqLevel t > 0 then vipLv t \<ge> byte \<or> superQqLevel t \<ge> byte else False)
               else if ty = CONDITION_CITY_SCALE then cityScale w \<ge> byte
               else if ty = CONDITION_CITY_LEVEL then cityLevel w \<ge> byte
               else if ty = CONDITION_CITY_DEGREE then cityDegree w \<ge> num
               else if ty = CONDITION_CITY_ARMY then cityArmy w \<ge> num
               else if ty = CONDITION_CITY_ISMASTER then worldPlayerID w = cityMasterId w
               else True)
      in if condNot c = 0 then s else \<not> s)"

text \<open>\<open>fromBytes\<close> of a condition: type, negation, and as many bytes of parameters as announced.\<close>

definition condition_fromBytes :: "'b data_ops \<Rightarrow> 'b \<Rightarrow> 'b condition \<times> 'b" where
  "condition_fromBytes E t =
     (let A = bops E; (ty, t) = readByte A t; (n, t) = readByte A t; (o', t) = readByte A t; k = jand 255 o';
          (d, t) = (if k > 0 then readBytes A t k else (newArray A, t))
      in (\<lparr>condType = ty, condNot = n, condData = d\<rparr>, t))"

text \<open>The number of killed monsters is the last byte of the parameters: all of them are written anew.\<close>

definition setKilledMonsterNum :: "'b data_ops \<Rightarrow> int \<Rightarrow> int \<Rightarrow> bool \<Rightarrow> 'b condition \<Rightarrow> 'b condition" where
  "setKilledMonsterNum E t i clean c =
     (if condType c = CONDITION_KILL_MONSTER then
        (let A = bops E; l = position0 E (condData c);
             (m, l) = readShort A l; (d, l) = readUTF E l; (n, l) = readByte A l; (p, l) = readByte A l
         in if \<not> clean \<and> m \<noteq> t then c
            else (let h = (if clean then 0 else (let f = p + i in if f > MAX_VALUE_byte then MAX_VALUE_byte else f))
                  in c\<lparr>condData := writeByte A (writeByte A (writeUTF E (writeShort A (clearBytes E l) m) d) n) h\<rparr>))
      else c)"

definition cleanKillMonster :: "'b data_ops \<Rightarrow> 'b condition \<Rightarrow> 'b condition" where
  "cleanKillMonster E c = setKilledMonsterNum E 0 0 True c"

definition updateKilledMonsterNum :: "'b data_ops \<Rightarrow> int \<Rightarrow> int \<Rightarrow> 'b condition \<Rightarrow> 'b condition" where
  "updateKilledMonsterNum E e t c = setKilledMonsterNum E e t False c"

definition getKillMonsterId :: "'b data_ops \<Rightarrow> 'b condition \<Rightarrow> int option" where
  "getKillMonsterId E c =
     (if condType c = CONDITION_KILL_MONSTER then Some (fst (readShort (bops E) (position0 E (condData c)))) else None)"

definition getMissionDoneId :: "'b data_ops \<Rightarrow> 'b condition \<Rightarrow> int option" where
  "getMissionDoneId E c =
     (if condType c = CONDITION_MISSION_DONE then Some (fst (readShort (bops E) (position0 E (condData c)))) else None)"

section \<open>The state of a mission\<close>

abbreviation (input) TASK_TYPE_MAIN :: int where "TASK_TYPE_MAIN \<equiv> 6"
abbreviation (input) MISSION_SET_SUBMIT :: int where "MISSION_SET_SUBMIT \<equiv> 1"
abbreviation (input) MISSION_SET_UNLIMITED :: int where "MISSION_SET_UNLIMITED \<equiv> 8"
abbreviation (input) MISSION_SET_UNDELETABLE :: int where "MISSION_SET_UNDELETABLE \<equiv> 16"
abbreviation (input) MISSION_IS_CITY_OR_COUNTRY :: int where "MISSION_IS_CITY_OR_COUNTRY \<equiv> 32"
abbreviation (input) MISSION_IS_ESCORT :: int where "MISSION_IS_ESCORT \<equiv> 64"
abbreviation (input) MISSION_IS_ESTEAM :: int where "MISSION_IS_ESTEAM \<equiv> 128"
abbreviation (input) MAX_MISSION_SIZE :: nat where "MAX_MISSION_SIZE \<equiv> 10"
abbreviation (input) CAN_SUBMIT :: int where "CAN_SUBMIT \<equiv> 0"
abbreviation (input) NOT_CAN_SUBMIT :: int where "NOT_CAN_SUBMIT \<equiv> 1"
abbreviation (input) CAN_ACCEPT :: int where "CAN_ACCEPT \<equiv> 2"
abbreviation (input) NOT_CAN_ACCEPT :: int where "NOT_CAN_ACCEPT \<equiv> 3"
abbreviation (input) MISSION_STATUS_SUBMIT :: int where "MISSION_STATUS_SUBMIT \<equiv> 1"
abbreviation (input) MISSION_STATUS_ACCEPT :: int where "MISSION_STATUS_ACCEPT \<equiv> 2"
abbreviation (input) MISSION_STATUS_NOT_SUBMIT :: int where "MISSION_STATUS_NOT_SUBMIT \<equiv> 4"
abbreviation (input) MISSION_STATUS_NOT_ACCEPT :: int where "MISSION_STATUS_NOT_ACCEPT \<equiv> 8"

definition couldNotDel :: "'b mission \<Rightarrow> bool" where
  "couldNotDel m \<longleftrightarrow> jand (msetting m) MISSION_SET_UNDELETABLE > 0"

definition isDirectSubmit :: "'b mission \<Rightarrow> bool" where
  "isDirectSubmit m \<longleftrightarrow> jand (msetting m) MISSION_SET_SUBMIT > 0"

definition isUnLimitSubmit :: "'b mission \<Rightarrow> bool" where
  "isUnLimitSubmit m \<longleftrightarrow> jand (msetting m) MISSION_SET_UNLIMITED > 0"

definition isEscort :: "'b mission \<Rightarrow> bool" where
  "isEscort m \<longleftrightarrow> jand (msetting m) MISSION_IS_ESCORT > 0"

definition isEscortTeam :: "'b mission \<Rightarrow> bool" where
  "isEscortTeam m \<longleftrightarrow> jand (msetting m) MISSION_IS_ESTEAM > 0"

definition isCityOrCountry :: "'b mission \<Rightarrow> bool" where
  "isCityOrCountry m \<longleftrightarrow> jand (msetting m) MISSION_IS_CITY_OR_COUNTRY > 0"

definition isCanAccept :: "'b data_ops \<Rightarrow> world \<Rightarrow> 'b missions \<Rightarrow> quester \<Rightarrow> 'b mission \<Rightarrow> bool" where
  "isCanAccept E w M e m =
     (if mlevel m > level (body e) then False
      else if mtype m = TASK_TYPE_MAIN \<and> canAccept m = Some 0 then False
      else case acceptCondition m of None \<Rightarrow> True | Some cs \<Rightarrow> list_all (checkCondition E w M e) cs)"

definition isComplete :: "'b data_ops \<Rightarrow> world \<Rightarrow> 'b missions \<Rightarrow> quester \<Rightarrow> 'b mission \<Rightarrow> bool" where
  "isComplete E w M e m =
     (case submitCondition m of None \<Rightarrow> True | Some cs \<Rightarrow> list_all (checkCondition E w M e) cs)"

text \<open>\<open>t\<close> is the list of players who may accept the mission.\<close>

definition getMissionStatus :: "'b data_ops \<Rightarrow> world \<Rightarrow> 'b missions \<Rightarrow> quester \<Rightarrow> int list option \<Rightarrow> 'b mission \<Rightarrow> int" where
  "getMissionStatus E w M e t m =
     (if getMissionById M e (mid m) \<noteq> None then (if isComplete E w M e m then CAN_SUBMIT else NOT_CAN_SUBMIT)
      else (let o' = (case t of None \<Rightarrow> True | Some t \<Rightarrow> t = [] \<or> fid (body e) \<in> set t)
            in if isCanAccept E w M e m \<and> o' then CAN_ACCEPT else NOT_CAN_ACCEPT))"

definition checkPlayerMissionStatus :: "'b data_ops \<Rightarrow> world \<Rightarrow> 'b missions \<Rightarrow> quester \<Rightarrow> int \<Rightarrow> int \<Rightarrow> bool" where
  "checkPlayerMissionStatus E w M t i o' =
     (if 0 \<ge> i then True
      else if 0 \<noteq> jand o' MISSION_STATUS_SUBMIT \<and> isMissionFinish t i then True
      else case getMissionById M t i of
             Some n \<Rightarrow>
               if isComplete E w M t (M n) then 0 \<noteq> jand o' MISSION_STATUS_NOT_SUBMIT
               else 0 \<noteq> jand o' MISSION_STATUS_ACCEPT
           | None \<Rightarrow> 0 \<noteq> jand o' MISSION_STATUS_NOT_ACCEPT \<and> \<not> isMissionFinish t i)"

definition getCurCondition :: "'b data_ops \<Rightarrow> world \<Rightarrow> 'b missions \<Rightarrow> quester \<Rightarrow> 'b mission \<Rightarrow> 'b condition option" where
  "getCurCondition E w M e m =
     (case submitCondition m of
        None \<Rightarrow> None
      | Some cs \<Rightarrow>
          (case List.find (\<lambda>n. condType n = CONDITION_KILL_MONSTER \<and> \<not> checkCondition E w M e n) cs of
             Some n \<Rightarrow> Some n
           | None \<Rightarrow> List.find (\<lambda>n. \<not> checkCondition E w M e n) cs))"

definition getMissionKillMonsterIds :: "'b data_ops \<Rightarrow> world \<Rightarrow> 'b missions \<Rightarrow> quester \<Rightarrow> 'b mission \<Rightarrow> int option list option" where
  "getMissionKillMonsterIds E w M e m =
     (case submitCondition m of
        None \<Rightarrow> None
      | Some cs \<Rightarrow>
          if cs = [] then None
          else Some (map (getKillMonsterId E)
                 (filter (\<lambda>a. \<not> checkCondition E w M e a \<and> condType a = CONDITION_KILL_MONSTER) cs)))"

definition getLocalMapMission :: "world \<Rightarrow> 'b missions \<Rightarrow> quester \<Rightarrow> nat option" where
  "getLocalMapMission w M p =
     (case missionList p of
        None \<Rightarrow> None
      | Some t \<Rightarrow> (case List.find (\<lambda>x. case x of None \<Rightarrow> False | Some r \<Rightarrow> mapId (M r) = orgMapID w) t of None \<Rightarrow> None | Some x \<Rightarrow> x))"

definition getCanSubmitMission :: "'b data_ops \<Rightarrow> world \<Rightarrow> 'b missions \<Rightarrow> quester \<Rightarrow> nat option" where
  "getCanSubmitMission E w M p =
     (case missionList p of
        None \<Rightarrow> None
      | Some t \<Rightarrow>
          (case List.find (\<lambda>x. case x of None \<Rightarrow> False | Some r \<Rightarrow> isComplete E w M p (M r)) t of None \<Rightarrow> None | Some x \<Rightarrow> x))"

definition updateKillMission :: "'b data_ops \<Rightarrow> int \<Rightarrow> int \<Rightarrow> 'b mission \<Rightarrow> 'b mission" where
  "updateKillMission E e t m = m\<lparr>submitCondition := map_option (map (updateKilledMonsterNum E e t)) (submitCondition m)\<rparr>"

definition cleanKillMission :: "'b data_ops \<Rightarrow> 'b mission \<Rightarrow> 'b mission" where
  "cleanKillMission E m = m\<lparr>submitCondition := map_option (map (cleanKillMonster E)) (submitCondition m)\<rparr>"

section \<open>Accepting, dropping and progress\<close>

datatype mission_news =
  ON_MAIN_MISSION_UPDATE "int option"
| SetCurMission int
| ClearMissionById int

record 'b quest_state =
  player :: quester
  mobj :: "'b missions"
  newRadar :: "int \<times> int \<times> int"
  mnews :: "mission_news list"

definition announce :: "mission_news \<Rightarrow> 'b quest_state \<Rightarrow> 'b quest_state" where
  "announce n s = s\<lparr>mnews := mnews s @ [n]\<rparr>"

definition setNewRadar :: "'b mission \<Rightarrow> 'b quest_state \<Rightarrow> 'b quest_state" where
  "setNewRadar e s = (if radarMapID e \<le> 0 then s else s\<lparr>newRadar := (radarMapID e, radarGx e, radarGy e)\<rparr>)"

definition clearNewRadar :: "'b mission \<Rightarrow> 'b quest_state \<Rightarrow> 'b quest_state" where
  "clearNewRadar e s = (if newRadar s = (radarMapID e, radarGx e, radarGy e) then s\<lparr>newRadar := (0, 0, 0)\<rparr> else s)"

text \<open>The result \<open>None\<close> is a \<open>TypeError\<close>: a player without a list gets one, but the local variable
  of the method keeps the missing one, whose length is then read.\<close>

definition addMission :: "nat option \<Rightarrow> bool \<Rightarrow> 'b quest_state \<Rightarrow> bool option \<times> 'b quest_state" where
  "addMission e t s =
     (case e of
        None \<Rightarrow> (Some False, s)
      | Some r \<Rightarrow>
          if isEscort (mobj s r) then (Some True, s)
          else
            case missionList (player s) of
              None \<Rightarrow> (None, s\<lparr>player := (player s)\<lparr>missionList := Some (replicate MAX_MISSION_SIZE None)\<rparr>\<rparr>)
            | Some i \<Rightarrow>
                if getMissionById (mobj s) (player s) (mid (mobj s r)) \<noteq> None then (Some False, s)
                else
                  case List.find (\<lambda>k. i ! k = None) [0..<length i] of
                    None \<Rightarrow> (Some False, s)
                  | Some k \<Rightarrow>
                      (let s = setNewRadar (mobj s r) (s\<lparr>player := (player s)\<lparr>missionList := Some (i[k := Some r])\<rparr>\<rparr>)
                       in (Some True, if t then s else announce (SetCurMission (mid (mobj s r))) s)))"

definition onDelMission :: "nat \<Rightarrow> 'b quest_state \<Rightarrow> 'b quest_state" where
  "onDelMission r s =
     (if isMissionFinish (player s) (mid (mobj s r)) then announce (ClearMissionById (mid (mobj s r))) s
      else announce (ON_MAIN_MISSION_UPDATE None) s)"

definition deleteMissionById :: "'b data_ops \<Rightarrow> int \<Rightarrow> 'b quest_state \<Rightarrow> bool \<times> 'b quest_state" where
  "deleteMissionById E e s =
     (case missionList (player s) of
        None \<Rightarrow> (False, s)
      | Some t \<Rightarrow>
          (case List.find (\<lambda>k. case t ! k of None \<Rightarrow> False | Some r \<Rightarrow> mid (mobj s r) = e) [0..<length t] of
             None \<Rightarrow> (False, s)
           | Some k \<Rightarrow>
               let r = the (t ! k);
                   s = s\<lparr>mobj := (mobj s)(r := cleanKillMission E (mobj s r))\<rparr>;
                   s = clearNewRadar (mobj s r) s;
                   s = s\<lparr>player := (player s)\<lparr>missionList := Some (t[k := None])\<rparr>\<rparr>
               in (True, onDelMission r s)))"

definition deleteMission :: "'b data_ops \<Rightarrow> nat option \<Rightarrow> 'b quest_state \<Rightarrow> bool \<times> 'b quest_state" where
  "deleteMission E e s = (case e of None \<Rightarrow> (False, s) | Some r \<Rightarrow> deleteMissionById E (mid (mobj s r)) s)"

definition submitMission :: "'b data_ops \<Rightarrow> nat option \<Rightarrow> 'b quest_state \<Rightarrow> bool \<times> 'b quest_state" where
  "submitMission E e s = (case e of None \<Rightarrow> (False, s) | Some r \<Rightarrow> deleteMission E (Some r) s)"

text \<open>\<open>updateKillMission\<close> of a mission without conditions does not report.\<close>

definition killStep :: "'b data_ops \<Rightarrow> int \<Rightarrow> int \<Rightarrow> nat option \<Rightarrow> 'b quest_state \<Rightarrow> 'b quest_state" where
  "killStep E n t x s =
     (case x of
        None \<Rightarrow> s
      | Some r \<Rightarrow>
          let s' = s\<lparr>mobj := (mobj s)(r := updateKillMission E n t (mobj s r))\<rparr>
          in if submitCondition (mobj s r) = None then s' else announce (ON_MAIN_MISSION_UPDATE (Some (mid (mobj s r)))) s')"

definition updateAllKillMission :: "'b data_ops \<Rightarrow> int list option \<Rightarrow> int list option \<Rightarrow> 'b quest_state \<Rightarrow> 'b quest_state option" where
  "updateAllKillMission E e t s =
     (case (e, t) of
        (Some e, Some t) \<Rightarrow>
          if length e = length t then
            (case missionList (player s) of
               None \<Rightarrow> if e = [] then Some s else None
             | Some l \<Rightarrow> Some (fold (\<lambda>(n, k). fold (killStep E n k) l) (zip e t) s))
          else Some s
      | _ \<Rightarrow> Some s)"

end
