(* ===== verification/MessageProps.thy ===== *)
theory MessageProps
  imports Message ToolProps
begin

text \<open>
  What is written into a message is read back, field by field; frames keep type and content;
  and the received messages reach the modules in the order of their arrival.
\<close>

section \<open>Fields as values\<close>

datatype 'b field =
  FByte int
| FShort int
| FInt int
| FLong int int
| FString "int list"
| FBytes 'b
| FBool bool

datatype kind = KByte | KShort | KInt | KLong | KString | KBytes | KBool

fun kindOf :: "'b field \<Rightarrow> kind" where
  "kindOf (FByte v) = KByte"
| "kindOf (FShort v) = KShort"
| "kindOf (FInt v) = KInt"
| "kindOf (FLong h l) = KLong"
| "kindOf (FString cs) = KString"
| "kindOf (FBytes d) = KBytes"
| "kindOf (FBool v) = KBool"

fun putField :: "'b byte_ops \<Rightarrow> 'b wire_ops \<Rightarrow> 'b field \<Rightarrow> 'b \<Rightarrow> 'b" where
  "putField A W (FByte v) b = writeByte A b v"
| "putField A W (FShort v) b = writeShort A b v"
| "putField A W (FInt v) b = writeInt A b v"
| "putField A W (FLong h l) b = putLong A h l b"
| "putField A W (FString cs) b = putString A W (Some cs) b"
| "putField A W (FBytes d) b = putBytes A W (Some d) b"
| "putField A W (FBool v) b = writeBoolean W b v"

fun getField :: "'b byte_ops \<Rightarrow> 'b wire_ops \<Rightarrow> kind \<Rightarrow> 'b \<Rightarrow> 'b field \<times> 'b" where
  "getField A W KByte b = (let (v, b) = readByte A b in (FByte v, b))"
| "getField A W KShort b = (let (v, b) = readShort A b in (FShort v, b))"
| "getField A W KInt b = (let (v, b) = readInt A b in (FInt v, b))"
| "getField A W KLong b = (let ((h, l), b) = getLong A b in (FLong h l, b))"
| "getField A W KString b = (let (cs, b) = getString A W b in (FString cs, b))"
| "getField A W KBytes b = (let (d, b) = getBytes A W b in (FBytes d, b))"
| "getField A W KBool b = (let (v, b) = readBoolean W b in (FBool v, b))"

fun getFields :: "'b byte_ops \<Rightarrow> 'b wire_ops \<Rightarrow> kind list \<Rightarrow> 'b \<Rightarrow> 'b field list \<times> 'b" where
  "getFields A W [] b = ([], b)"
| "getFields A W (k # ks) b = (let (f, b) = getField A W k b; (fs, b) = getFields A W ks b in (f # fs, b))"

definition lengthBytes :: "int \<Rightarrow> int list" where
  "lengthBytes n = [0, n div 256 mod 256, n mod 256]"

fun encField :: "int list field \<Rightarrow> int list" where
  "encField (FByte v) = [v mod 256]"
| "encField (FShort v) = be16 v"
| "encField (FInt v) = be32 v"
| "encField (FLong h l) = be32 h @ be32 l"
| "encField (FString cs) = lengthBytes (int (length cs)) @ concat (map be16 cs)"
| "encField (FBytes d) = lengthBytes (int (length d)) @ d"
| "encField (FBool v) = [if v then 1 else 0]"

fun fieldFits :: "int list field \<Rightarrow> bool" where
  "fieldFits (FByte v) \<longleftrightarrow> int8 v"
| "fieldFits (FShort v) \<longleftrightarrow> - 32768 \<le> v \<and> v < 32768"
| "fieldFits (FInt v) \<longleftrightarrow> int32 v"
| "fieldFits (FLong h l) \<longleftrightarrow> int32 h \<and> int32 l"
| "fieldFits (FString cs) \<longleftrightarrow> length cs < 65536 \<and> (\<forall>c\<in>set cs. 0 \<le> c \<and> c < 65536)"
| "fieldFits (FBytes d) \<longleftrightarrow> length d < 65536 \<and> (\<forall>x\<in>set d. 0 \<le> x \<and> x < 256)"
| "fieldFits (FBool v) \<longleftrightarrow> True"

section \<open>Numbers\<close>

lemma jand_255_mod: "jand 255 v = v mod 256" "jand v 255 = v mod 256"
proof -
  have "jand (mask 8) v = take_bit 8 v" by (rule jand_mask) simp
  then show "jand 255 v = v mod 256" by (simp add: mask_eq_exp_minus_1 take_bit_eq_mod)
  then show "jand v 255 = v mod 256" by (simp add: jand_commute [of v])
qed

lemma jushr_8: "jushr v 8 mod 256 = v div 256 mod 256"
proof -
  have "toInt32 v mod 4294967296 = v mod 4294967296"
    by (simp add: toInt32_signed_take_bit take_bit_signed_take_bit flip: take_bit_eq_mod [of 32, simplified])
  then have "jushr v 8 = take_bit 32 v div 256" by (simp add: jushr_def take_bit_eq_mod)
  then have "jushr v 8 mod 256 = take_bit 8 (drop_bit 8 (take_bit 32 v))"
    by (simp add: take_bit_eq_mod drop_bit_eq_div)
  also have "\<dots> = take_bit 8 (drop_bit 8 v)" by (simp add: drop_bit_take_bit)
  finally show ?thesis by (simp add: take_bit_eq_mod drop_bit_eq_div)
qed

lemma jshl_0: "jshl 0 n = 0"
  by (simp add: jshl_def)

lemma length_bytes_back: "0 \<le> n \<Longrightarrow> n < 65536 \<Longrightarrow> jshl (n div 256 mod 256) 8 + n mod 256 = (n :: int)"
proof -
  assume n: "0 \<le> n" "n < 65536"
  then have d: "0 \<le> n div 256" "n div 256 < 256" by simp_all
  then have "jshl (n div 256) 8 = n div 256 * 256"
    by (simp add: jshl_def toInt32_id)
  with d show ?thesis by simp
qed

section \<open>Writing\<close>

lemma wire_okD:
  assumes "wire_ok A W before rest"
  shows wire_new: "before (newArray A) = []" "rest (newArray A) = []"
    and wire_length: "arrayLength A b = int (length (before b @ rest b))"
    and wire_rewind: "rest (rewind W b) = before b @ rest b" "before (rewind W b) = []"
    and wire_writes: "writes before rest (\<lambda>b. writeByte A b v) [v mod 256]"
      "writes before rest (\<lambda>b. writeShort A b v) (be16 v)"
      "writes before rest (\<lambda>b. writeInt A b v) (be32 v)"
      "writes before rest (\<lambda>b. writeBoolean W b t) [if t then 1 else 0]"
    and wire_view: "n \<ge> 3 \<Longrightarrow>
        before (setUint8 W (setUint16 W (validateBuffer W b n) v) w) = before b @ be16 v @ [w mod 256]"
    and wire_readByte: "rest b = x # r \<Longrightarrow> fst (readByte A b) = signed_take_bit 7 x \<and> rest (snd (readByte A b)) = r"
    and wire_readUnsignedByte: "rest b = x # r \<Longrightarrow> fst (readUnsignedByte W b) = x \<and> rest (snd (readUnsignedByte W b)) = r"
    and wire_readBoolean: "rest b = x # r \<Longrightarrow> fst (readBoolean W b) = (x \<noteq> 0) \<and> rest (snd (readBoolean W b)) = r"
    and wire_readShort: "rest b = x # y # r \<Longrightarrow>
        fst (readShort A b) = signed_take_bit 15 (256 * x + y) \<and> rest (snd (readShort A b)) = r"
    and wire_readUnsignedShort: "rest b = x # y # r \<Longrightarrow>
        fst (readUnsignedShort W b) = 256 * x + y \<and> rest (snd (readUnsignedShort W b)) = r"
    and wire_readInt: "rest b = x # y # z # u # r \<Longrightarrow>
        fst (readInt A b) = signed_take_bit 31 (16777216 * x + 65536 * y + 256 * z + u) \<and>
        rest (snd (readInt A b)) = r"
  using assms unfolding wire_ok_def by simp_all

lemma writes_before: "writes before rest f bs \<Longrightarrow> before (f b) = before b @ bs"
  by (simp add: writes_def)

lemma writes_fold:
  assumes "\<And>v. writes before rest (f v) (g v)"
  shows "writes before rest (fold f vs) (concat (map g vs))"
  unfolding writes_def
proof
  fix b show "before (fold f vs b) = before b @ concat (map g vs) \<and>
      rest (fold f vs b) = drop (length (concat (map g vs))) (rest b)"
    using assms by (induction vs arbitrary: b) (simp_all add: writes_def add.commute)
qed

lemma putLength_bytes:
  "wire_ok A W before rest \<Longrightarrow> 0 \<le> e \<Longrightarrow> before (putLength W e b) = before b @ lengthBytes e"
  by (simp add: putLength_def wire_view jand_255_mod jushr_8 lengthBytes_def be16_def div_mult2_eq)

lemma readTimes_bytes:
  assumes r: "\<And>b x r. rest b = en x @ r \<Longrightarrow> x \<in> set xs \<Longrightarrow> fst (g b) = dec x \<and> rest (snd (g b)) = r"
    and "rest b = concat (map en xs) @ r"
  shows "fst (readTimes (length xs) g b) = map dec xs \<and> rest (snd (readTimes (length xs) g b)) = r"
  using assms
proof (induction xs arbitrary: b)
  case (Cons x xs)
  have "fst (g b) = dec x \<and> rest (snd (g b)) = concat (map en xs) @ r"
    using Cons.prems by simp
  moreover from this have "fst (readTimes (length xs) g (snd (g b))) = map dec xs \<and>
      rest (snd (readTimes (length xs) g (snd (g b)))) = r"
    using Cons.prems by (intro Cons.IH) simp_all
  ultimately show ?case by (simp add: Let_def split_beta)
qed simp

lemma byte_mod: "\<forall>x\<in>set d. 0 \<le> x \<and> x < 256 \<Longrightarrow> map (\<lambda>x. signed_take_bit 7 x mod 256) d = (d :: int list)"
proof (induction d)
  case (Cons a d)
  have "signed_take_bit 7 a mod 256 = take_bit 8 (signed_take_bit 7 a)" by (simp add: take_bit_eq_mod)
  also have "\<dots> = a mod 256" by (subst take_bit_signed_take_bit) (simp_all add: take_bit_eq_mod)
  finally show ?case using Cons by simp
qed simp

lemma readTimes_readByte:
  assumes "wire_ok A W before rest" "rest b = d @ r"
  shows "fst (readTimes (length d) (readByte A) b) = map (signed_take_bit 7) d \<and>
    rest (snd (readTimes (length d) (readByte A) b)) = r"
  using assms(2) by (intro readTimes_bytes [where en = "\<lambda>x. [x]"])
    (simp_all add: wire_readByte [OF assms(1)])

lemma putBytes_bytes:
  assumes "wire_ok A W before rest" and "\<forall>x\<in>set (before d @ rest d). 0 \<le> x \<and> x < 256"
  shows "before (putBytes A W (Some d) b) = before b @ lengthBytes (int (length (before d @ rest d))) @ before d @ rest d"
proof -
  let ?d = "before d @ rest d"
  have "fst (readTimes (length ?d) (readByte A) (rewind W d)) = map (signed_take_bit 7) ?d"
    by (rule readTimes_readByte [OF assms(1), where r = "[]", THEN conjunct1]) (simp add: wire_rewind [OF assms(1)])
  moreover have "writes before rest (fold (\<lambda>v b. writeByte A b v) vs) (concat (map (\<lambda>v. [v mod 256]) vs))" for vs
    by (rule writes_fold) (rule wire_writes(1) [OF assms(1)])
  ultimately show ?thesis
    using byte_mod [OF assms(2)]
    by (simp add: putBytes_def wire_length [OF assms(1)] putLength_bytes [OF assms(1)] writes_def comp_def del: map_append length_append)
qed

lemma putString_bytes:
  assumes "wire_ok A W before rest"
  shows "before (putString A W (Some cs) b) = before b @ lengthBytes (int (length cs)) @ concat (map be16 cs)"
  by (simp add: putString_def putLength_bytes [OF assms] writes_before [OF writes_fold, OF wire_writes(2), OF assms])

text \<open>The value of a field: for a byte array its bytes.\<close>

abbreviation content :: "('b \<Rightarrow> int list) \<Rightarrow> ('b \<Rightarrow> int list) \<Rightarrow> 'b \<Rightarrow> int list" where
  "content before rest d \<equiv> before d @ rest d"

lemma putField_bytes:
  assumes "wire_ok A W before rest" and "fieldFits (map_field (content before rest) f)"
  shows "before (putField A W f b) = before b @ encField (map_field (content before rest) f)"
  using assms(2)
  by (cases f) (simp_all add: writes_before [OF wire_writes(1) [OF assms(1)]] writes_before [OF wire_writes(2) [OF assms(1)]]
      writes_before [OF wire_writes(3) [OF assms(1)]] writes_before [OF wire_writes(4) [OF assms(1)]] putLong_def
      putString_bytes [OF assms(1)] putBytes_bytes [OF assms(1)])

lemma putFields_bytes:
  assumes "wire_ok A W before rest" and "\<forall>f\<in>set fs. fieldFits (map_field (content before rest) f)"
  shows "before (fold (putField A W) fs b) = before b @ concat (map (encField \<circ> map_field (content before rest)) fs)"
  using assms(2) by (induction fs arbitrary: b) (simp_all add: putField_bytes [OF assms(1)])

section \<open>Reading\<close>

lemma getLength_bytes:
  assumes "wire_ok A W before rest" and "rest b = lengthBytes n @ r" and "0 \<le> n" "n < 65536"
  shows "fst (getLength W b) = n \<and> rest (snd (getLength W b)) = r"
proof -
  have "fst (readUnsignedShort W b) = n div 256 mod 256 \<and> rest (snd (readUnsignedShort W b)) = n mod 256 # r"
    using wire_readUnsignedShort [OF assms(1), of b 0 "n div 256 mod 256" "n mod 256 # r"] assms(2)
    by (simp add: lengthBytes_def)
  moreover from this have "fst (readUnsignedByte W (snd (readUnsignedShort W b))) = n mod 256 \<and>
      rest (snd (readUnsignedByte W (snd (readUnsignedShort W b)))) = r"
    by (intro wire_readUnsignedByte [OF assms(1)]) simp
  ultimately show ?thesis
    using length_bytes_back [OF assms(3,4)] by (simp add: getLength_def split_beta)
qed

lemma getChar_bytes:
  assumes "wire_ok A W before rest" and "rest b = be16 c @ r" and "0 \<le> c" "c < 65536"
  shows "fst (getChar A b) = c \<and> rest (snd (getChar A b)) = r"
proof -
  let ?x = "c div 256 mod 256"
  have "fst (readByte A b) = signed_take_bit 7 ?x \<and> rest (snd (readByte A b)) = c mod 256 # r"
    using wire_readByte [OF assms(1), of b ?x "c mod 256 # r"] assms(2) by (simp add: be16_def)
  moreover from this have "fst (readByte A (snd (readByte A b))) = signed_take_bit 7 (c mod 256) \<and>
      rest (snd (readByte A (snd (readByte A b)))) = r"
    by (intro wire_readByte [OF assms(1)]) simp
  moreover have "map (\<lambda>x. signed_take_bit 7 x mod 256) [?x, c mod 256] = [?x, c mod 256]"
    by (rule byte_mod) simp
  ultimately show ?thesis
    using length_bytes_back [OF assms(3,4)] by (simp add: getChar_def split_beta jand_255_mod)
qed

lemma getString_bytes:
  assumes "wire_ok A W before rest" and "rest b = lengthBytes (int (length cs)) @ concat (map be16 cs) @ r"
    and "length cs < 65536" "\<forall>c\<in>set cs. 0 \<le> c \<and> c < 65536"
  shows "fst (getString A W b) = cs \<and> rest (snd (getString A W b)) = r"
proof -
  have l: "fst (getLength W b) = int (length cs) \<and> rest (snd (getLength W b)) = concat (map be16 cs) @ r"
    using assms by (intro getLength_bytes) simp_all
  then have "fst (readTimes (length cs) (getChar A) (snd (getLength W b))) = map id cs \<and>
      rest (snd (readTimes (length cs) (getChar A) (snd (getLength W b)))) = r"
    using assms(4) by (intro readTimes_bytes [where en = be16]) (simp_all add: getChar_bytes [OF assms(1)])
  with l show ?thesis by (simp add: getString_def split_beta)
qed

lemma getBytes_bytes:
  assumes "wire_ok A W before rest" and "rest b = lengthBytes (int (length d)) @ d @ r"
    and "length d < 65536" "\<forall>x\<in>set d. 0 \<le> x \<and> x < 256"
  shows "content before rest (fst (getBytes A W b)) = d \<and> rest (snd (getBytes A W b)) = r"
proof -
  have l: "fst (getLength W b) = int (length d) \<and> rest (snd (getLength W b)) = d @ r"
    using assms by (intro getLength_bytes) simp_all
  then have t: "fst (readTimes (length d) (readByte A) (snd (getLength W b))) = map (signed_take_bit 7) d \<and>
      rest (snd (readTimes (length d) (readByte A) (snd (getLength W b)))) = r"
    by (intro readTimes_readByte [OF assms(1)]) simp
  have "writes before rest (fold (\<lambda>v b. writeByte A b v) vs) (concat (map (\<lambda>v. [v mod 256]) vs))" for vs
    by (rule writes_fold) (rule wire_writes(1) [OF assms(1)])
  with l t byte_mod [OF assms(4)] show ?thesis
    by (simp add: getBytes_def split_beta wire_rewind [OF assms(1)] writes_def wire_new [OF assms(1)] comp_def)
qed

lemma readShort_back:
  assumes "wire_ok A W before rest" and "rest b = be16 v @ r" and "- 32768 \<le> v" "v < 32768"
  shows "fst (readShort A b) = v \<and> rest (snd (readShort A b)) = r"
  using wire_readShort [OF assms(1), of b "v div 256 mod 256" "v mod 256" r] assms(2) signed16 [OF assms(3,4)]
  by (simp add: be16_def)

lemma readInt_back:
  assumes "wire_ok A W before rest" and "rest b = be32 v @ r" and "int32 v"
  shows "fst (readInt A b) = v \<and> rest (snd (readInt A b)) = r"
  using wire_readInt [OF assms(1) assms(2) [unfolded be32_def be16_def append.simps], unfolded signed32 [OF assms(3)]] .

lemma getLong_bytes:
  assumes "wire_ok A W before rest" and "rest b = be32 h @ be32 l @ r" and "int32 h" "int32 l"
  shows "fst (getLong A b) = (h, l) \<and> rest (snd (getLong A b)) = r"
proof -
  have 1: "fst (readInt A b) = h \<and> rest (snd (readInt A b)) = be32 l @ r"
    using assms by (intro readInt_back)
  then have "fst (readInt A (snd (readInt A b))) = l \<and> rest (snd (readInt A (snd (readInt A b)))) = r"
    using assms by (intro readInt_back) simp_all
  with 1 show ?thesis by (simp add: getLong_def split_beta)
qed

lemma readByte_back:
  assumes "wire_ok A W before rest" and "rest b = v mod 256 # r" and "int8 v"
  shows "fst (readByte A b) = v \<and> rest (snd (readByte A b)) = r"
  using wire_readByte [OF assms(1,2)] signed_int8 [OF assms(3)] by simp

lemma readBoolean_back:
  assumes "wire_ok A W before rest" and "rest b = (if v then 1 else 0) # r"
  shows "fst (readBoolean W b) = v \<and> rest (snd (readBoolean W b)) = r"
  using wire_readBoolean [OF assms] by simp

lemma getField_bytes:
  assumes w: "wire_ok A W before rest" and "rest b = encField f @ r" and "fieldFits f"
  shows "map_field (content before rest) (fst (getField A W (kindOf f) b)) = f \<and>
    rest (snd (getField A W (kindOf f) b)) = r"
proof (cases f)
  case (FByte v) with assms readByte_back [OF w, of b v r] show ?thesis by (simp add: split_beta)
next
  case (FShort v) with assms readShort_back [OF w, of b v r] show ?thesis by (simp add: split_beta)
next
  case (FInt v) with assms readInt_back [OF w, of b v r] show ?thesis by (simp add: split_beta)
next
  case (FLong h l) with assms getLong_bytes [OF w, of b h l r] show ?thesis by (simp add: split_beta)
next
  case (FString cs) with assms getString_bytes [OF w, of b cs r] show ?thesis by (simp add: split_beta)
next
  case (FBytes d) with assms getBytes_bytes [OF w, of b d r] show ?thesis by (simp add: split_beta)
next
  case (FBool v) with assms readBoolean_back [OF w, of b v r] show ?thesis by (simp add: split_beta)
qed

lemma getFields_bytes:
  assumes "wire_ok A W before rest" and "rest b = concat (map encField fs) @ r" and "\<forall>f\<in>set fs. fieldFits f"
  shows "map (map_field (content before rest)) (fst (getFields A W (map kindOf fs) b)) = fs \<and>
    rest (snd (getFields A W (map kindOf fs) b)) = r"
  using assms(2,3)
proof (induction fs arbitrary: b)
  case (Cons f fs)
  have g: "map_field (content before rest) (fst (getField A W (kindOf f) b)) = f \<and>
      rest (snd (getField A W (kindOf f) b)) = concat (map encField fs) @ r"
    using Cons.prems by (intro getField_bytes [OF assms(1)]) simp_all
  have "map (map_field (content before rest)) (fst (getFields A W (map kindOf fs) (snd (getField A W (kindOf f) b)))) = fs \<and>
      rest (snd (getFields A W (map kindOf fs) (snd (getField A W (kindOf f) b)))) = r"
    using Cons.prems g by (intro Cons.IH) simp_all
  with g show ?case by (simp add: split_beta)
qed simp

section \<open>Frames\<close>

lemma be16_back: "0 \<le> t \<Longrightarrow> t < 65536 \<Longrightarrow> 256 * (t div 256 mod 256) + t mod 256 = (t :: int)"
  using mult_div_mod_eq [of 256 t] by simp

lemma decode_encode: "0 < t \<Longrightarrow> t < 65536 \<Longrightarrow> decodeMsg (the (encodeMsg t i)) = Some (t, i)"
  by (simp add: encodeMsg_def decodeMsg_def be16_def be16_back)

lemma kindOf_map: "kindOf (map_field g f) = kindOf f"
  by (cases f) simp_all

text \<open>C20: A message arrives as it was sent.  When fields within their ranges are put into a new
  message, its bytes are framed with a type between 1 and 65535 and the frame is decoded, then
  the receiver has the same type, and reading fields of the same kinds gives the values that
  were put, strings and nested byte arrays included.\<close>

theorem message_roundtrip:
  assumes "wire_ok A W before rest"
    and "\<forall>f\<in>set fs. fieldFits (map_field (content before rest) f)"
    and "0 < t" "t < 65536"
    and "m = fold (putField A W) fs (newArray A)"
    and "decodeMsg (the (encodeMsg t (content before rest m))) = Some (u, i)"
    and "rest b = i"
  shows "u = t \<and>
    map (map_field (content before rest)) (fst (getFields A W (map kindOf fs) b)) = map (map_field (content before rest)) fs"
proof -
  let ?v = "map_field (content before rest)"
  have "u = t" "i = content before rest m" using assms(6) decode_encode [OF assms(3,4)] by simp_all
  moreover have "before m = concat (map encField (map ?v fs))"
    using putFields_bytes [OF assms(1,2)] by (simp add: assms(5) wire_new [OF assms(1)])
  ultimately have "map ?v (fst (getFields A W (map kindOf (map ?v fs)) b)) = map ?v fs"
    using assms by (intro getFields_bytes [where r = "rest m", THEN conjunct1]) simp_all
  with \<open>u = t\<close> show ?thesis by (simp add: comp_def kindOf_map)
qed

text \<open>Arrays as the bytes before and from the position on; \<open>validateBuffer\<close> leaves zeros behind.\<close>

definition putAt :: "int list \<Rightarrow> int list \<times> int list \<Rightarrow> int list \<times> int list" where
  "putAt bs b = (fst b @ bs, drop (length bs) (snd b))"

definition takeAt :: "nat \<Rightarrow> int list \<times> int list \<Rightarrow> int list \<times> int list" where
  "takeAt n b = (fst b @ take n (snd b), drop n (snd b))"

definition mem_bytes :: "(int list \<times> int list) byte_ops" where
  "mem_bytes = \<lparr>
     newArray = ([], []),
     arrayLength = (\<lambda>b. int (length (fst b @ snd b))),
     writeByte = (\<lambda>b v. putAt [v mod 256] b),
     writeShort = (\<lambda>b v. putAt (be16 v) b),
     writeInt = (\<lambda>b v. putAt (be32 v) b),
     writeBytes = (\<lambda>b c. putAt (fst c @ snd c) b),
     readByte = (\<lambda>b. (signed_take_bit 7 (snd b ! 0), takeAt 1 b)),
     readShort = (\<lambda>b. (signed_take_bit 15 (256 * snd b ! 0 + snd b ! 1), takeAt 2 b)),
     readInt = (\<lambda>b. (signed_take_bit 31 (16777216 * snd b ! 0 + 65536 * snd b ! 1 + 256 * snd b ! 2 + snd b ! 3), takeAt 4 b)),
     readBytes = (\<lambda>b k. ((take (nat k) (snd b), []), takeAt (nat k) b)) \<rparr>"

definition mem_wire :: "(int list \<times> int list) wire_ops" where
  "mem_wire = \<lparr>
     validateBuffer = (\<lambda>b n. (fst b, snd b @ replicate (nat n - length (snd b)) 0)),
     setUint16 = (\<lambda>b v. putAt (be16 v) b),
     setUint8 = (\<lambda>b v. putAt [v mod 256] b),
     readUnsignedShort = (\<lambda>b. (256 * snd b ! 0 + snd b ! 1, takeAt 2 b)),
     readUnsignedByte = (\<lambda>b. (snd b ! 0, takeAt 1 b)),
     writeBoolean = (\<lambda>b v. putAt [if v then 1 else 0] b),
     readBoolean = (\<lambda>b. (snd b ! 0 \<noteq> 0, takeAt 1 b)),
     rewind = (\<lambda>b. ([], fst b @ snd b)) \<rparr>"

lemma mem_wire_ok: "wire_ok mem_bytes mem_wire fst snd"
  by (simp add: wire_ok_def mem_bytes_def mem_wire_def putAt_def takeAt_def writes_def)

definition demo_fields :: "(int list \<times> int list) field list" where
  "demo_fields = [FShort (- 5), FString [72, 20320], FBytes ([1], [255]), FLong 1 (- 1), FBool True]"

theorem message_roundtrip_witness:
  "map (map_field (content fst snd))
      (fst (getFields mem_bytes mem_wire (map kindOf demo_fields)
         ([], content fst snd (fold (putField mem_bytes mem_wire) demo_fields ([], []))))) =
   [FShort (- 5), FString [72, 20320], FBytes [1, 255], FLong 1 (- 1), FBool True]"
proof -
  have "newArray mem_bytes = ([], [])" by (simp add: mem_bytes_def)
  moreover have "\<forall>f\<in>set demo_fields. fieldFits (map_field (content fst snd) f)"
    by (simp add: demo_fields_def int8_def)
  ultimately have "map (map_field (content fst snd))
      (fst (getFields mem_bytes mem_wire (map kindOf demo_fields)
         ([], content fst snd (fold (putField mem_bytes mem_wire) demo_fields ([], []))))) =
      map (map_field (content fst snd)) demo_fields"
    using message_roundtrip [OF mem_wire_ok, of demo_fields 300 _ 300] decode_encode [of 300] by simp
  then show ?thesis by (simp add: demo_fields_def)
qed

section \<open>Lengths\<close>

text \<open>C38: The length in front of a string or a byte array is transmitted modulo 65536, although
  three bytes are written for it and three are read: the upper byte is always 0, so a longer
  text arrives cut off, and what follows it is read from its middle.\<close>

theorem length_wraps:
  assumes "wire_ok A W before rest" and "0 \<le> e" and "rest b = before (putLength W e (newArray A)) @ r"
  shows "fst (getLength W b) = e mod 65536 \<and> rest (snd (getLength W b)) = r"
proof -
  have "e div 256 mod 256 = e mod 65536 div 256" using zmod_zmult2_eq [of 256 e 256] by simp
  then have "lengthBytes e = lengthBytes (e mod 65536)" by (simp add: lengthBytes_def mod_mod_cancel)
  with assms have "rest b = lengthBytes (e mod 65536) @ r"
    by (simp add: putLength_bytes [OF assms(1)] wire_new [OF assms(1)])
  then show ?thesis by (intro getLength_bytes [OF assms(1)]) simp_all
qed

theorem length_wraps_witness:
  "fst (getLength mem_wire ([], fst (putLength mem_wire 70000 ([], [])) @ [9])) = 4464"
  using length_wraps [OF mem_wire_ok, of 70000 "([], fst (putLength mem_wire 70000 ([], [])) @ [9])" "[9]"]
  by (simp add: mem_bytes_def)

section \<open>The queue\<close>

text \<open>What happens to the queue: a message arrives, a frame passes (with the clock it sees), the
  page goes to the background or comes back.\<close>

datatype 'm net_event = Arrive 'm | Frame int "nat \<Rightarrow> int" | Deactivate int | Activate int

fun net_step :: "'m net_event \<Rightarrow> 'm msg_queue \<Rightarrow> 'm msg_queue" where
  "net_step (Arrive e) q = onMsg (Some e) q"
| "net_step (Frame t0 clock) q = msg_update t0 clock q"
| "net_step (Deactivate now) q = protoOnDeactivate now q"
| "net_step (Activate now) q = protoOnActivate now q"

fun arrivals :: "'m net_event list \<Rightarrow> 'm list" where
  "arrivals [] = []"
| "arrivals (Arrive e # es) = e # arrivals es"
| "arrivals (_ # es) = arrivals es"

definition queue_inv :: "'m msg_queue \<Rightarrow> bool" where
  "queue_inv q \<longleftrightarrow> (\<not> isActive q \<longrightarrow> msgs q = [])"

lemma drain_msgs_sent: "drain_msgs es q = q\<lparr>msgs := [], sent := sent q @ es\<rparr>"
  by (induction es arbitrary: q) (simp_all add: sendProto_def)

lemma update_msgs_sent:
  "\<exists>k \<le> length es. (es \<noteq> [] \<longrightarrow> 0 < k) \<and> update_msgs t0 clock n es q = q\<lparr>msgs := drop k es, sent := sent q @ take k es\<rparr>"
proof (induction es arbitrary: n q)
  case (Cons e es)
  show ?case
  proof (cases "clock n - t0 > 16")
    case True
    then show ?thesis by (intro exI [of _ 1]) (simp add: sendProto_def)
  next
    case False
    obtain k where "k \<le> length es" "update_msgs t0 clock (Suc n) es (sendProto e q) =
        (sendProto e q)\<lparr>msgs := drop k es, sent := sent (sendProto e q) @ take k es\<rparr>"
      using Cons.IH [of "Suc n" "sendProto e q"] by blast
    with False show ?thesis by (intro exI [of _ "Suc k"]) (simp add: sendProto_def)
  qed
qed simp

lemma net_step_order:
  assumes "queue_inv q"
  shows "queue_inv (net_step ev q) \<and>
    sent (net_step ev q) @ msgs (net_step ev q) = sent q @ msgs q @ arrivals [ev]"
proof (cases ev)
  case (Frame t0 clock)
  obtain k where "net_step ev q = q\<lparr>msgs := drop k (msgs q), sent := sent q @ take k (msgs q)\<rparr>"
    using update_msgs_sent [of "msgs q" t0 clock 0 q] Frame by (auto simp: msg_update_def)
  with assms Frame show ?thesis by (simp add: queue_inv_def)
qed (use assms in \<open>auto simp: queue_inv_def onMsg_def sendProto_def protoOnDeactivate_def
    protoOnActivate_def Let_def msg_onDeactivate_def drain_msgs_sent\<close>)

lemma arrivals_append: "arrivals (es @ fs) = arrivals es @ arrivals fs"
  by (induction es rule: arrivals.induct) simp_all

text \<open>C21: Whatever arrives is handed on once and in the order of arrival: after any sequence of
  arrivals, frames and switches between foreground and background, the messages handed on
  followed by those still waiting are the messages that arrived, and nothing waits while the
  page is in the background.\<close>

theorem messages_in_order:
  assumes "q = fold net_step es new_queue"
  shows "sent q @ msgs q = arrivals es \<and> (\<not> isActive q \<longrightarrow> msgs q = [])"
proof -
  have "queue_inv (fold net_step es new_queue) \<and>
      sent (fold net_step es new_queue) @ msgs (fold net_step es new_queue) = arrivals es"
  proof (induction es rule: rev_induct)
    case Nil
    show ?case by (simp add: new_queue_def queue_inv_def)
  next
    case (snoc ev es)
    then show ?case using net_step_order [of "fold net_step es new_queue" ev] by (simp add: arrivals_append)
  qed
  with assms show ?thesis by (simp add: queue_inv_def)
qed

theorem messages_in_order_witness:
  "sent (fold net_step [Arrive 1, Arrive 2, Frame 0 (\<lambda>n. 20), Deactivate 30, Arrive (3::nat)] new_queue) = [1, 2, 3]"
  using messages_in_order [of _ "[Arrive 1, Arrive 2, Frame 0 (\<lambda>n. 20), Deactivate 30, Arrive (3::nat)]"]
  by (simp add: new_queue_def onMsg_def sendProto_def protoOnDeactivate_def msg_onDeactivate_def msg_update_def)

text \<open>No message waits for ever: a frame hands on at least one waiting message however slow the
  clock, so after as many frames as there are messages none is left.\<close>

theorem messages_delivered:
  assumes "length (msgs q) \<le> length clocks"
  shows "msgs (fold (\<lambda>(t0, clock). msg_update t0 clock) clocks q) = [] \<and>
    sent (fold (\<lambda>(t0, clock). msg_update t0 clock) clocks q) = sent q @ msgs q"
  using assms
proof (induction clocks arbitrary: q)
  case (Cons c clocks)
  obtain k where k: "msgs q \<noteq> [] \<longrightarrow> 0 < k"
      "msg_update (fst c) (snd c) q = q\<lparr>msgs := drop k (msgs q), sent := sent q @ take k (msgs q)\<rparr>"
    using update_msgs_sent [of "msgs q" "fst c" "snd c" 0 q] by (auto simp: msg_update_def)
  then have "length (msgs (msg_update (fst c) (snd c) q)) \<le> length clocks"
    using Cons.prems by (cases "msgs q") auto
  from Cons.IH [OF this] show ?case by (simp add: split_beta k(2))
qed simp

theorem messages_delivered_witness:
  "sent (fold (\<lambda>(t0, clock). msg_update t0 clock) [(0, \<lambda>n. 99), (99, \<lambda>n. 200)]
     (new_queue\<lparr>msgs := [1, 2 :: nat]\<rparr>)) = [1, 2]"
  using messages_delivered [of "(new_queue\<lparr>msgs := [1, 2 :: nat]\<rparr>)" "[(0, \<lambda>n. 99), (99, \<lambda>n. 200)]"]
  by (simp add: new_queue_def)

end
