(* ===== verification/MissionProps.thy ===== *)
theory MissionProps
  imports Mission MessageProps AttrProps
begin

text \<open>
  The bit field of finished missions is a set; kills are counted exactly up to the largest byte;
  and no mission is in the list of a player twice.
\<close>

section \<open>Finished missions\<close>

definition finishedSet :: "quester \<Rightarrow> int set" where
  "finishedSet p = {t. isMissionFinish p t}"

definition recordable :: "quester \<Rightarrow> int \<Rightarrow> bool" where
  "recordable p t \<longleftrightarrow> 0 \<le> t \<and> (\<exists>l. missionStatus p = Some l \<and> t div 8 < int (length l))"

lemma jshl_1: "0 \<le> a \<Longrightarrow> a < 8 \<Longrightarrow> jshl 1 a = 2 ^ nat a"
proof -
  assume a: "0 \<le> a" "a < 8"
  have "toInt32 (2 ^ nat a) = 2 ^ nat a" using a by (intro toInt32_pow2) simp
  then show ?thesis using a by (simp add: jshl_def)
qed

lemma mission_bit:
  "isMissionFinish p t \<longleftrightarrow> recordable p t \<and> bit (the (missionStatus p) ! nat (t div 8)) (nat (t mod 8))"
proof (cases "recordable p t")
  case True
  then obtain l where l: "missionStatus p = Some l" "0 \<le> t" "t div 8 < int (length l)" by (auto simp: recordable_def)
  have "jand (l ! nat (t div 8)) (jshl 1 (t mod 8)) = jand (l ! nat (t div 8)) (2 ^ nat (t mod 8))"
    by (simp add: jshl_1)
  moreover have "nat (t mod 8) < 31" by (simp add: nat_less_iff order_less_trans [of _ 8])
  moreover have "0 \<le> t div 8" using l(2) by (simp add: pos_imp_zdiv_nonneg_iff)
  ultimately show ?thesis using l True by (simp add: isMissionFinish_def Let_def jand_pow2)
next
  case False
  then show ?thesis by (auto simp: isMissionFinish_def recordable_def Let_def split: option.splits)
qed

lemma mission_split: "t div 8 = u div 8 \<Longrightarrow> t mod 8 = u mod 8 \<Longrightarrow> t = (u :: int)"
  by (metis mult_div_mod_eq)

text \<open>C26: The bit field of finished missions behaves as a set of mission numbers: marking a mission
  inserts its number and unmarking removes it, no other mission is touched, and a number
  outside the field changes nothing.\<close>

theorem setMissionStatus_refines:
  "finishedSet (setMissionStatus p t b) =
     (if recordable p t then (if b then insert t (finishedSet p) else finishedSet p - {t}) else finishedSet p)"
proof (cases "recordable p t")
  case False
  then have "setMissionStatus p t b = p"
    by (auto simp: setMissionStatus_def recordable_def Let_def split: option.splits)
  with False show ?thesis by simp
next
  case True
  then obtain l where l: "missionStatus p = Some l" "0 \<le> t" "t div 8 < int (length l)" by (auto simp: recordable_def)
  let ?n = "nat (t div 8)" and ?a = "nat (t mod 8)"
  define x where "x = (if b then jor (l ! ?n) (2 ^ ?a) else jand (l ! ?n) (jnot (2 ^ ?a)))"
  have s: "missionStatus (setMissionStatus p t b) = Some (l[?n := x])"
    using l pos_imp_zdiv_nonneg_iff [of 8 t] by (simp add: setMissionStatus_def Let_def x_def jshl_1)
  then have r: "recordable (setMissionStatus p t b) u = recordable p u" for u using l by (simp add: recordable_def)
  have a: "?a < 8" by (simp add: nat_less_iff)
  have bx: "bit x k = (if k = ?a then b else bit (l ! ?n) k)" if "k < 8" for k
    using that a by (auto simp: x_def bit_jor bit_jand jnot_def bit_not_iff bit_exp_iff bit_toInt32 jand_def bit_and_iff min_def)
  have n: "?n < length l" using l by (simp add: nat_less_iff)
  have "isMissionFinish (setMissionStatus p t b) u \<longleftrightarrow> (if u = t then b else isMissionFinish p u)" for u
  proof (cases "recordable p u \<and> u div 8 = t div 8")
    case True
    then have "(nat (u mod 8) = ?a) = (u = t)" using mission_split [of u t] by (auto simp: nat_eq_iff)
    with True n l s show ?thesis using bx [of "nat (u mod 8)"] by (simp add: mission_bit r nat_less_iff)
  next
    case other: False
    show ?thesis
    proof (cases "recordable p u")
      case True
      with other have "nat (u div 8) \<noteq> ?n" "u \<noteq> t" using l by (auto simp: recordable_def nat_eq_iff)
      with True l s show ?thesis by (simp add: mission_bit r)
    next
      case False
      with \<open>recordable p t\<close> have "u \<noteq> t" by blast
      with False show ?thesis by (simp add: mission_bit r)
    qed
  qed
  with True show ?thesis by (auto simp: finishedSet_def)
qed

section \<open>Kills\<close>

text \<open>\<open>isKill before rest utf c m d n k\<close>: the condition asks for \<open>n\<close> kills of the monster \<open>m\<close> with
  the name \<open>d\<close>, of which \<open>k\<close> are done.\<close>

definition isKill :: "('b \<Rightarrow> int list) \<Rightarrow> ('b \<Rightarrow> int list) \<Rightarrow> (int list \<Rightarrow> int list) \<Rightarrow> 'b condition \<Rightarrow>
    int \<Rightarrow> int list \<Rightarrow> int \<Rightarrow> int \<Rightarrow> bool" where
  "isKill before rest utf c m d n k \<longleftrightarrow>
     condType c = CONDITION_KILL_MONSTER \<and>
     content before rest (condData c) = be16 m @ utf d @ [n mod 256, k mod 256] \<and>
     - 32768 \<le> m \<and> m < 32768 \<and> int8 n \<and> 0 \<le> k \<and> k \<le> MAX_VALUE_byte"

lemma data_okD:
  assumes "data_ok E before rest utf"
  shows data_pos0: "before (position0 E b) = []" "rest (position0 E b) = before b @ rest b"
    and data_clear: "before (clearBytes E b) = []" "rest (clearBytes E b) = []"
    and data_writes: "writes before rest (\<lambda>b. writeByte (bops E) b v) [v mod 256]"
      "writes before rest (\<lambda>b. writeShort (bops E) b v) (be16 v)"
      "writes before rest (\<lambda>b. writeUTF E b x) (utf x)"
    and data_readByte: "rest b = y # r \<Longrightarrow> fst (readByte (bops E) b) = signed_take_bit 7 y \<and> rest (snd (readByte (bops E) b)) = r"
    and data_readShort: "rest b = y # z # r \<Longrightarrow>
      fst (readShort (bops E) b) = signed_take_bit 15 (256 * y + z) \<and> rest (snd (readShort (bops E) b)) = r"
    and data_readUTF: "rest b = utf x @ r \<Longrightarrow> fst (readUTF E b) = x \<and> rest (snd (readUTF E b)) = r"
  using assms unfolding data_ok_def by simp_all

lemma int8_range: "0 \<le> k \<Longrightarrow> k \<le> MAX_VALUE_byte \<Longrightarrow> int8 k"
  by (simp add: int8_def)

lemma read_kill:
  assumes ok: "data_ok E before rest utf" and c: "isKill before rest utf c m d n k"
  obtains l1 l2 l3 l4 where "readShort (bops E) (position0 E (condData c)) = (m, l1)"
    "readUTF E l1 = (d, l2)" "readByte (bops E) l2 = (n, l3)" "readByte (bops E) l3 = (k, l4)"
proof -
  let ?A = "bops E"
  define l0 where "l0 = position0 E (condData c)"
  define l1 where "l1 = snd (readShort ?A l0)"
  define l2 where "l2 = snd (readUTF E l1)"
  define l3 where "l3 = snd (readByte ?A l2)"
  have l0: "rest l0 = (m div 256 mod 256) # (m mod 256) # utf d @ [n mod 256, k mod 256]"
    using c data_pos0 [OF ok] by (simp add: l0_def isKill_def be16_def)
  have 1: "fst (readShort ?A l0) = m" "rest l1 = utf d @ [n mod 256, k mod 256]"
    using data_readShort [OF ok l0] c signed16 [of m] by (simp_all add: l1_def isKill_def)
  have 2: "fst (readUTF E l1) = d" "rest l2 = n mod 256 # [k mod 256]"
    using data_readUTF [OF ok 1(2)] by (simp_all add: l2_def)
  have 3: "fst (readByte ?A l2) = n" "rest l3 = k mod 256 # []"
    using data_readByte [OF ok 2(2)] c signed_int8 [of n] by (simp_all add: l3_def isKill_def)
  have 4: "fst (readByte ?A l3) = k"
    using data_readByte [OF ok 3(2)] c signed_int8 [of k] int8_range [of k] by (simp add: isKill_def)
  show ?thesis
    by (rule that [of l1 l2 l3 "snd (readByte ?A l3)"])
      (simp_all add: prod_eq_iff 1(1) 2(1) 3(1) 4 l1_def [symmetric] l2_def [symmetric] l3_def [symmetric] l0_def [symmetric])
qed

lemma kill_update:
  assumes ok: "data_ok E before rest utf" and c: "isKill before rest utf c m d n k" and "0 \<le> i"
  shows "isKill before rest utf (updateKilledMonsterNum E t i c) m d n (if m = t then min MAX_VALUE_byte (k + i) else k)"
    and "isKill before rest utf (cleanKillMonster E c) m d n 0"
    and "condNot (updateKilledMonsterNum E t i c) = condNot c"
proof -
  obtain l1 l2 l3 l4 where r: "readShort (bops E) (position0 E (condData c)) = (m, l1)"
      "readUTF E l1 = (d, l2)" "readByte (bops E) l2 = (n, l3)" "readByte (bops E) l3 = (k, l4)"
    using read_kill [OF ok c] .
  have ty: "condType c = CONDITION_KILL_MONSTER" using c by (simp add: isKill_def)
  have w: "content before rest (writeByte (bops E) (writeByte (bops E) (writeUTF E (writeShort (bops E) (clearBytes E l4) m) d) n) h) =
      be16 m @ utf d @ [n mod 256, h mod 256]" for h
    using data_writes(1) [OF ok] data_writes(2) [OF ok] data_writes(3) [OF ok] data_clear [OF ok]
    by (simp add: writes_def)
  show "isKill before rest utf (cleanKillMonster E c) m d n 0"
    using c w [of 0] by (simp add: cleanKillMonster_def setKilledMonsterNum_def Let_def ty r isKill_def)
  show "isKill before rest utf (updateKilledMonsterNum E t i c) m d n (if m = t then min MAX_VALUE_byte (k + i) else k)"
  proof (cases "m = t")
    case True
    have "(if k + i > MAX_VALUE_byte then MAX_VALUE_byte else k + i) = min MAX_VALUE_byte (k + i)" by auto
    with c assms(3) w [of "min MAX_VALUE_byte (k + i)"] True show ?thesis
      by (simp add: updateKilledMonsterNum_def setKilledMonsterNum_def Let_def ty r isKill_def)
  qed (use c in \<open>simp add: updateKilledMonsterNum_def setKilledMonsterNum_def Let_def ty r\<close>)
  show "condNot (updateKilledMonsterNum E t i c) = condNot c"
    by (simp add: updateKilledMonsterNum_def setKilledMonsterNum_def Let_def ty r)
qed

lemma kill_check:
  assumes "data_ok E before rest utf" "isKill before rest utf c m d n k"
  shows "checkCondition E w M p c = (condNot c = 0 \<longleftrightarrow> n \<le> k)"
proof -
  obtain l1 l2 l3 l4 where r: "readShort (bops E) (position0 E (condData c)) = (m, l1)"
      "readUTF E l1 = (d, l2)" "readByte (bops E) l2 = (n, l3)" "readByte (bops E) l3 = (k, l4)"
    using read_kill [OF assms] .
  have ty: "condType c = CONDITION_KILL_MONSTER" using assms(2) by (simp add: isKill_def)
  show ?thesis by (simp add: checkCondition_def Let_def ty r)
qed

definition killsOf :: "int \<Rightarrow> (int \<times> int) list \<Rightarrow> int" where
  "killsOf m ks = sum_list (map snd (filter (\<lambda>x. fst x = m) ks))"

text \<open>A report of kills changes the conditions of the listed missions, each once.\<close>

lemma killStep_other: "x \<noteq> Some r \<Longrightarrow> mobj (killStep E t i x s) r = mobj s r"
  by (cases x) (auto simp: killStep_def Let_def announce_def)

lemma killStep_self: "mobj (killStep E t i (Some r) s) r = updateKillMission E t i (mobj s r)"
  by (simp add: killStep_def Let_def announce_def)

lemma killSteps_absent: "Some r \<notin> set l \<Longrightarrow> mobj (fold (killStep E t i) l s) r = mobj s r"
  by (induction l arbitrary: s) (auto simp: killStep_other)

lemma killSteps_once:
  assumes "distinct (filter (\<lambda>x. x \<noteq> None) l)" "Some r \<in> set l"
  shows "mobj (fold (killStep E t i) l s) r = updateKillMission E t i (mobj s r)"
proof -
  obtain as bs where l: "l = as @ Some r # bs" using split_list [OF assms(2)] by blast
  with assms(1) have "Some r \<notin> set as" "Some r \<notin> set bs" by auto
  with l show ?thesis by (simp add: killSteps_absent killStep_self)
qed

lemma kills_fold:
  assumes ok: "data_ok E before rest utf"
    and l: "distinct (filter (\<lambda>x. x \<noteq> None) l)" "Some r \<in> set l"
    and "submitCondition (mobj s r) = Some cs" "j < length cs" "isKill before rest utf (cs ! j) m d n k"
    and "\<forall>x\<in>set ks. 0 \<le> snd x"
  shows "\<exists>cs'. submitCondition (mobj (fold (\<lambda>(t, i). fold (killStep E t i) l) ks s) r) = Some cs' \<and>
    length cs' = length cs \<and> condNot (cs' ! j) = condNot (cs ! j) \<and>
    isKill before rest utf (cs' ! j) m d n (min MAX_VALUE_byte (k + killsOf m ks))"
  using assms(4-)
proof (induction ks arbitrary: s cs k)
  case Nil
  then have "min MAX_VALUE_byte k = k" by (simp add: isKill_def)
  with Nil show ?case by (simp add: killsOf_def)
next
  case (Cons x ks)
  obtain t i where x: "x = (t, i)" by (cases x)
  define s1 where "s1 = fold (killStep E t i) l s"
  let ?cs = "map (updateKilledMonsterNum E t i) cs" and ?k = "if m = t then min MAX_VALUE_byte (k + i) else k"
  have i: "0 \<le> i" using Cons.prems(4) x by simp
  have s1: "submitCondition (mobj s1 r) = Some ?cs"
    using Cons.prems(1) killSteps_once [OF l, of E t i s] by (simp add: s1_def updateKillMission_def)
  have k: "isKill before rest utf (?cs ! j) m d n ?k" "condNot (?cs ! j) = condNot (cs ! j)"
    using kill_update(1) [OF ok Cons.prems(3) i, of t] kill_update(3) [OF ok Cons.prems(3) i, of t] Cons.prems(2) by simp_all
  have pos: "0 \<le> killsOf m ks" unfolding killsOf_def by (rule sum_list_nonneg) (use Cons.prems(4) in auto)
  have sum: "min MAX_VALUE_byte (?k + killsOf m ks) = min MAX_VALUE_byte (k + killsOf m (x # ks))"
    using pos by (auto simp: x killsOf_def)
  have "\<exists>cs'. submitCondition (mobj (fold (\<lambda>(t, i). fold (killStep E t i) l) ks s1) r) = Some cs' \<and>
      length cs' = length ?cs \<and> condNot (cs' ! j) = condNot (?cs ! j) \<and>
      isKill before rest utf (cs' ! j) m d n (min MAX_VALUE_byte (?k + killsOf m ks))"
    using Cons.prems(2,4) by (intro Cons.IH [OF s1 _ k(1)]) auto
  with k(2) show ?case unfolding sum by (simp add: x s1_def)
qed

text \<open>C24: Kills are counted exactly.  After a battle that reports monsters \<open>es\<close> with numbers \<open>ts\<close>, a
  condition on a monster in any accepted mission has its old count plus all kills of
  that monster (at most 127), and it is satisfied exactly when the required number is
  reached (or, for a negated condition, not reached).\<close>

theorem kills_counted:
  assumes "data_ok E before rest utf"
    and "missionList (player s) = Some l" "distinct (filter (\<lambda>x. x \<noteq> None) l)" "Some r \<in> set l"
    and "submitCondition (mobj s r) = Some cs" "j < length cs" "isKill before rest utf (cs ! j) m d n k"
    and "length es = length ts" "\<forall>t\<in>set ts. 0 \<le> t"
  shows "\<exists>s' cs'. updateAllKillMission E (Some es) (Some ts) s = Some s' \<and> submitCondition (mobj s' r) = Some cs' \<and>
    isKill before rest utf (cs' ! j) m d n (min MAX_VALUE_byte (k + killsOf m (zip es ts))) \<and>
    checkCondition E w M p (cs' ! j) = (condNot (cs ! j) = 0 \<longleftrightarrow> n \<le> k + killsOf m (zip es ts))"
proof -
  have pos: "\<forall>x\<in>set (zip es ts). 0 \<le> snd x" using assms(9) by (auto dest: set_zip_rightD)
  obtain cs' where cs': "submitCondition (mobj (fold (\<lambda>(t, i). fold (killStep E t i) l) (zip es ts) s) r) = Some cs'"
      "condNot (cs' ! j) = condNot (cs ! j)" "isKill before rest utf (cs' ! j) m d n (min MAX_VALUE_byte (k + killsOf m (zip es ts)))"
    using kills_fold [OF assms(1,3-7) pos] by blast
  have "n \<le> MAX_VALUE_byte" using assms(7) by (simp add: isKill_def int8_def)
  then have "checkCondition E w M p (cs' ! j) = (condNot (cs ! j) = 0 \<longleftrightarrow> n \<le> k + killsOf m (zip es ts))"
    using kill_check [OF assms(1) cs'(3)] cs'(2) by auto
  with cs' assms(2,8) show ?thesis by (simp add: updateAllKillMission_def)
qed

section \<open>The list of accepted missions\<close>

definition uniqueIds :: "'b missions \<Rightarrow> nat option list \<Rightarrow> bool" where
  "uniqueIds M l \<longleftrightarrow>
     (\<forall>i<length l. \<forall>j<length l. \<forall>r q. l ! i = Some r \<longrightarrow> l ! j = Some q \<longrightarrow> mid (M r) = mid (M q) \<longrightarrow> i = j)"

definition questInv :: "'b quest_state \<Rightarrow> bool" where
  "questInv s \<longleftrightarrow>
     (\<forall>l. missionList (player s) = Some l \<longrightarrow> length l = MAX_MISSION_SIZE \<and> uniqueIds (mobj s) l)"

datatype quest_op = Accept nat bool | Drop int | Kills "int list" "int list" | Mark int bool

fun doQuest :: "'b data_ops \<Rightarrow> quest_op \<Rightarrow> 'b quest_state \<Rightarrow> 'b quest_state" where
  "doQuest E (Accept r t) s = snd (addMission (Some r) t s)"
| "doQuest E (Drop e) s = snd (deleteMissionById E e s)"
| "doQuest E (Kills es ts) s = (case updateAllKillMission E (Some es) (Some ts) s of None \<Rightarrow> s | Some s' \<Rightarrow> s')"
| "doQuest E (Mark t b) s = s\<lparr>player := setMissionStatus (player s) t b\<rparr>"

inductive quest_reach :: "'b data_ops \<Rightarrow> 'b quest_state \<Rightarrow> bool" for E where
  start: "missionList (player s) = None \<or> missionList (player s) = Some (replicate MAX_MISSION_SIZE None) \<Longrightarrow> quest_reach E s"
| step: "quest_reach E s \<Longrightarrow> quest_reach E (doQuest E a s)"

lemma getMission_Some:
  assumes "missionList p = Some l" "uniqueIds M l"
  shows "getMissionById M p u = Some r \<longleftrightarrow> Some r \<in> set l \<and> mid (M r) = u"
proof -
  let ?Q = "\<lambda>x. case x of None \<Rightarrow> False | Some r \<Rightarrow> mid (M r) = u"
  have u: "q = r" if "Some q \<in> set l" "Some r \<in> set l" "mid (M q) = mid (M r)" for q r
    using that assms(2) unfolding uniqueIds_def in_set_conv_nth by (metis option.inject)
  show ?thesis
  proof (cases "List.find ?Q l")
    case None
    then have "\<forall>x\<in>set l. \<not> ?Q x" by (auto simp: find_None_iff)
    with None assms(1) show ?thesis by (auto simp: getMissionById_def)
  next
    case (Some x)
    then have x: "x \<in> set l" "?Q x" by (auto simp: find_Some_iff)
    from x(2) obtain q where q: "x = Some q" by (cases x) simp_all
    with x have "Some q \<in> set l" "mid (M q) = u" by simp_all
    with Some q assms(1) u show ?thesis by (auto simp: getMissionById_def)
  qed
qed

lemma uniqueIds_mid: "(\<And>r. mid (M' r) = mid (M r)) \<Longrightarrow> uniqueIds M' l = uniqueIds M l"
  by (simp add: uniqueIds_def)

lemma nth_emptied: "i < length l \<Longrightarrow> l[k := None] ! i = Some r \<longleftrightarrow> i \<noteq> k \<and> l ! i = Some r"
  by (cases "i = k") simp_all

lemma uniqueIds_None: "uniqueIds M l \<Longrightarrow> uniqueIds M (l[k := None])"
  unfolding uniqueIds_def by (simp add: nth_emptied)

lemma uniqueIds_Some:
  assumes "uniqueIds M l" "\<And>q. Some q \<in> set l \<Longrightarrow> mid (M q) \<noteq> mid (M r)"
  shows "uniqueIds M (l[k := Some r])"
  unfolding uniqueIds_def
proof (intro allI impI)
  fix i j a b
  assume i: "i < length (l[k := Some r])" and j: "j < length (l[k := Some r])"
    and a: "l[k := Some r] ! i = Some a" and b: "l[k := Some r] ! j = Some b" and eq: "mid (M a) = mid (M b)"
  have "i = k \<Longrightarrow> a = r" "i \<noteq> k \<Longrightarrow> l ! i = Some a" "j = k \<Longrightarrow> b = r" "j \<noteq> k \<Longrightarrow> l ! j = Some b" using i j a b by auto
  moreover have "mid (M q) \<noteq> mid (M r)" if "l ! h = Some q" "h < length l" for h q
    using assms(2) nth_mem [OF that(2)] that(1) by auto
  ultimately show "i = j" using assms(1) i j eq unfolding uniqueIds_def by (metis length_list_update)
qed

lemma kill_frame:
  "mid (mobj (killStep E t i x s) r) = mid (mobj s r)" "player (killStep E t i x s) = player s"
  by (auto simp: killStep_def Let_def announce_def updateKillMission_def split: option.split)

lemma kills_frame:
  "mid (mobj (fold (killStep E t i) l s) r) = mid (mobj s r)" "player (fold (killStep E t i) l s) = player s"
  by (induction l arbitrary: s) (simp_all add: kill_frame)

lemma allKills_frame:
  "mid (mobj (fold (\<lambda>(t, i). fold (killStep E t i) l) ks s) r) = mid (mobj s r)"
  "player (fold (\<lambda>(t, i). fold (killStep E t i) l) ks s) = player s"
  by (induction ks arbitrary: s) (auto simp: kills_frame)

lemma delete_effect:
  assumes "questInv s" "missionList (player s) = Some l" "deleteMissionById E e s = (b, s')"
  shows "\<exists>k. missionList (player s') = Some (if b then l[k := None] else l) \<and> (\<forall>r. mid (mobj s' r) = mid (mobj s r)) \<and>
    (\<forall>q. Some q \<in> set (if b then l[k := None] else l) \<longleftrightarrow> Some q \<in> set l \<and> mid (mobj s q) \<noteq> e)"
proof -
  let ?Q = "\<lambda>k. case l ! k of None \<Rightarrow> False | Some r \<Rightarrow> mid (mobj s r) = e"
  have u: "uniqueIds (mobj s) l" using assms(1,2) by (simp add: questInv_def)
  show ?thesis
  proof (cases "List.find ?Q [0..<length l]")
    case None
    then have "\<not> b" "s' = s" using assms(2,3) by (simp_all add: deleteMissionById_def)
    moreover have "mid (mobj s q) \<noteq> e" if q: "Some q \<in> set l" for q
    proof -
      obtain i where "i < length l" "l ! i = Some q" using q by (auto simp: in_set_conv_nth)
      with None show ?thesis by (auto simp: find_None_iff)
    qed
    ultimately show ?thesis using assms(2) by auto
  next
    case (Some k)
    then have k: "k < length l" "?Q k" by (auto simp: find_Some_iff)
    then obtain r where r: "l ! k = Some r" "mid (mobj s r) = e" by (cases "l ! k") auto
    have s': "b" "missionList (player s') = Some (l[k := None])" "\<forall>r. mid (mobj s' r) = mid (mobj s r)"
      using assms(2,3) Some r
      by (auto simp: deleteMissionById_def Let_def onDelMission_def announce_def clearNewRadar_def cleanKillMission_def split: if_splits)
    have "Some q \<in> set (l[k := None]) \<longleftrightarrow> Some q \<in> set l \<and> mid (mobj s q) \<noteq> e" for q
    proof
      assume "Some q \<in> set (l[k := None])"
      then obtain i where i: "i < length l" "i \<noteq> k" "l ! i = Some q"
        by (auto simp: in_set_conv_nth nth_emptied)
      then have "mid (mobj s q) \<noteq> e" using u k r unfolding uniqueIds_def by metis
      with i show "Some q \<in> set l \<and> mid (mobj s q) \<noteq> e" using nth_mem [OF i(1)] by simp
    next
      assume q: "Some q \<in> set l \<and> mid (mobj s q) \<noteq> e"
      then obtain i where i: "i < length l" "l ! i = Some q" by (auto simp: in_set_conv_nth)
      with q r have "i \<noteq> k" by auto
      with i have "i < length (l[k := None])" "l[k := None] ! i = Some q" by simp_all
      then show "Some q \<in> set (l[k := None])" by (metis nth_mem)
    qed
    with s' show ?thesis by auto
  qed
qed

lemma delete_found:
  assumes "missionList (player s) = Some l" "deleteMissionById E e s = (True, s')"
  shows "\<exists>r. Some r \<in> set l \<and> mid (mobj s r) = e"
proof -
  let ?Q = "\<lambda>k. case l ! k of None \<Rightarrow> False | Some r \<Rightarrow> mid (mobj s r) = e"
  obtain k where "List.find ?Q [0..<length l] = Some k"
    using assms by (cases "List.find ?Q [0..<length l]") (simp_all add: deleteMissionById_def)
  then have "k < length l" "?Q k" by (auto simp: find_Some_iff)
  then show ?thesis using nth_mem [of k l] by (cases "l ! k") auto
qed

lemma addMission_inv:
  assumes "questInv s"
  shows "questInv (snd (addMission (Some r) t s))"
proof (cases "missionList (player s)")
  case None
  then show ?thesis using assms by (auto simp: addMission_def questInv_def uniqueIds_def)
next
  case (Some l)
  have u: "uniqueIds (mobj s) l" "length l = MAX_MISSION_SIZE" using assms Some by (simp_all add: questInv_def)
  show ?thesis
  proof (cases "isEscort (mobj s r) \<or> getMissionById (mobj s) (player s) (mid (mobj s r)) \<noteq> None \<or>
      List.find (\<lambda>k. l ! k = None) [0..<length l] = None")
    case True
    then have "snd (addMission (Some r) t s) = s" using Some by (auto simp: addMission_def)
    with assms show ?thesis by simp
  next
    case False
    then obtain k where k: "List.find (\<lambda>k. l ! k = None) [0..<length l] = Some k" by blast
    let ?s = "snd (addMission (Some r) t s)"
    have s: "missionList (player ?s) = Some (l[k := Some r])" "mobj ?s = mobj s"
      using False k Some by (simp_all add: addMission_def Let_def setNewRadar_def announce_def)
    have "mid (mobj s q) \<noteq> mid (mobj s r)" if "Some q \<in> set l" for q
      using False that getMission_Some [OF Some u(1), of "mid (mobj s r)" q] by auto
    then have "uniqueIds (mobj s) (l[k := Some r])" by (rule uniqueIds_Some [OF u(1)])
    with s u(2) show ?thesis by (simp add: questInv_def)
  qed
qed

lemma doQuest_inv:
  assumes "questInv s"
  shows "questInv (doQuest E a s)"
proof (cases a)
  case (Accept r t)
  with addMission_inv [OF assms] show ?thesis by simp
next
  case (Drop e)
  show ?thesis
  proof (cases "missionList (player s)")
    case None
    with Drop assms show ?thesis by (simp add: deleteMissionById_def)
  next
    case (Some l)
    obtain b s' where d: "deleteMissionById E e s = (b, s')" by fastforce
    obtain k where k: "missionList (player s') = Some (if b then l[k := None] else l)" "\<forall>r. mid (mobj s' r) = mid (mobj s r)"
      using delete_effect [OF assms Some d] by blast
    have "uniqueIds (mobj s') l' = uniqueIds (mobj s) l'" for l' by (rule uniqueIds_mid) (simp add: k(2))
    with k(1) assms Some d Drop show ?thesis by (auto simp: questInv_def uniqueIds_None)
  qed
next
  case (Kills es ts)
  show ?thesis
  proof (cases "length es = length ts \<and> missionList (player s) \<noteq> None")
    case True
    then obtain l where l: "missionList (player s) = Some l" by blast
    define s' where "s' = fold (\<lambda>(t, i). fold (killStep E t i) l) (zip es ts) s"
    have p: "player s' = player s" unfolding s'_def by (rule allKills_frame)
    have "uniqueIds (mobj s') l = uniqueIds (mobj s) l" unfolding s'_def by (rule uniqueIds_mid, rule allKills_frame)
    then have "questInv s'" using assms l by (simp add: questInv_def p)
    moreover have "doQuest E a s = s'" using True l Kills by (simp add: updateAllKillMission_def s'_def)
    ultimately show ?thesis by simp
  qed (use Kills assms in \<open>auto simp: updateAllKillMission_def split: option.splits\<close>)
next
  case (Mark t b)
  have "missionList (setMissionStatus (player s) t b) = missionList (player s)"
    by (auto simp: setMissionStatus_def Let_def split: option.split)
  with Mark assms show ?thesis by (simp add: questInv_def)
qed

lemma option_eqI: "(\<And>q. (o1 = Some q) = (o2 = Some q)) \<Longrightarrow> o1 = o2"
  by (cases o1; cases o2) auto

text \<open>C25: In every list of missions that accepting, dropping, kills and marks can produce, a mission
  number occurs once, so looking up the number of an accepted mission finds this very
  mission; and dropping a mission removes exactly it.\<close>

theorem missions_unique:
  assumes "quest_reach E s" "missionList (player s) = Some l"
  shows "length l = MAX_MISSION_SIZE \<and>
    (\<forall>r. Some r \<in> set l \<longrightarrow> getMissionById (mobj s) (player s) (mid (mobj s r)) = Some r) \<and>
    (\<forall>e b s' u. deleteMissionById E e s = (b, s') \<longrightarrow>
       (b \<longleftrightarrow> getMissionById (mobj s) (player s) e \<noteq> None) \<and>
       getMissionById (mobj s') (player s') u = (if u = e then None else getMissionById (mobj s) (player s) u))"
proof -
  have inv: "questInv s"
    using assms(1)
  proof (induction rule: quest_reach.induct)
    case (start s)
    then show ?case by (auto simp: questInv_def uniqueIds_def)
  qed (rule doQuest_inv)
  then have u: "uniqueIds (mobj s) l" "length l = MAX_MISSION_SIZE" using assms(2) by (simp_all add: questInv_def)
  note get = getMission_Some [OF assms(2) u(1)]
  have "(b \<longleftrightarrow> getMissionById (mobj s) (player s) e \<noteq> None) \<and>
      getMissionById (mobj s') (player s') v = (if v = e then None else getMissionById (mobj s) (player s) v)"
    if d: "deleteMissionById E e s = (b, s')" for e b s' v
  proof -
    obtain k where k: "missionList (player s') = Some (if b then l[k := None] else l)" "\<forall>r. mid (mobj s' r) = mid (mobj s r)"
        "\<forall>q. Some q \<in> set (if b then l[k := None] else l) \<longleftrightarrow> Some q \<in> set l \<and> mid (mobj s q) \<noteq> e"
      using delete_effect [OF inv assms(2) d] by blast
    have "uniqueIds (mobj s') (if b then l[k := None] else l)"
      using u(1) uniqueIds_mid [of "mobj s'" "mobj s"] k(2) by (simp add: uniqueIds_None)
    note get' = getMission_Some [OF k(1) this]
    have g: "getMissionById (mobj s') (player s') v = Some q \<longleftrightarrow> v \<noteq> e \<and> getMissionById (mobj s) (player s) v = Some q" for q
      unfolding get get' using k(2,3) by auto
    have "b \<longleftrightarrow> getMissionById (mobj s) (player s) e \<noteq> None"
    proof (cases b)
      case True
      then obtain r where "Some r \<in> set l" "mid (mobj s r) = e" using delete_found [OF assms(2), of E e s'] d by auto
      then have "getMissionById (mobj s) (player s) e = Some r" by (simp add: get)
      with True show ?thesis by simp
    next
      case False
      then have "mid (mobj s q) \<noteq> e" if "Some q \<in> set l" for q using k(3) that by auto
      then show ?thesis using False get by (cases "getMissionById (mobj s) (player s) e") auto
    qed
    moreover have "getMissionById (mobj s') (player s') v = (if v = e then None else getMissionById (mobj s) (player s) v)"
      by (rule option_eqI) (simp add: g)
    ultimately show ?thesis ..
  qed
  then have "\<forall>e b s' v. deleteMissionById E e s = (b, s') \<longrightarrow>
       (b \<longleftrightarrow> getMissionById (mobj s) (player s) e \<noteq> None) \<and>
       getMissionById (mobj s') (player s') v = (if v = e then None else getMissionById (mobj s) (player s) v)"
    by (intro allI impI)
  moreover have "\<forall>r. Some r \<in> set l \<longrightarrow> getMissionById (mobj s) (player s) (mid (mobj s r)) = Some r"
    by (simp add: get)
  ultimately show ?thesis using u(2) by (intro conjI)
qed

section \<open>An example\<close>

definition mem_utf :: "int list \<Rightarrow> int list" where
  "mem_utf x = replicate (length x) 1 @ 0 # x"

definition mem_data :: "(int list \<times> int list) data_ops" where
  "mem_data = \<lparr>
     bops = mem_bytes,
     position0 = (\<lambda>b. ([], fst b @ snd b)),
     readUTF = (\<lambda>b. let n = length (takeWhile (\<lambda>v. v = 1) (snd b)) in (take n (drop (Suc n) (snd b)), takeAt (2 * n + 1) b)),
     writeUTF = (\<lambda>b x. putAt (mem_utf x) b),
     clearBytes = (\<lambda>b. ([], [])) \<rparr>"

lemma mem_data_ok: "data_ok mem_data fst snd mem_utf"
proof -
  have "takeWhile (\<lambda>v. v = 1) (replicate n (1::int) @ 0 # r) = replicate n 1" for n r by (induction n) simp_all
  then show ?thesis
    by (simp add: data_ok_def mem_data_def mem_bytes_def putAt_def takeAt_def writes_def mem_utf_def Let_def drop_append)
qed

definition demo_kill :: "(int list \<times> int list) condition" where
  "demo_kill = \<lparr>condType = CONDITION_KILL_MONSTER, condNot = 0, condData = (be16 5, mem_utf [65] @ [3, 1])\<rparr>"

definition demo_mission :: "(int list \<times> int list) mission" where
  "demo_mission = \<lparr>mid = 40, mlevel = 1, mtype = 0, canAccept = None, msetting = 0, mapId = 2, radarMapID = 0, radarGx = 0,
     radarGy = 0, acceptCondition = None, submitCondition = Some [demo_kill]\<rparr>"

definition demo_world :: world where
  "demo_world = \<lparr>curMapID = 2, orgMapID = 2, cityScale = 0, cityLevel = 0, cityDegree = 0, cityArmy = 0,
     worldPlayerID = 1, cityMasterId = 2, serverTime = 0\<rparr>"

definition demo_quester :: "nat option list option \<Rightarrow> quester" where
  "demo_quester l = \<lparr>body = novice, isMe = True, vipLv = 0, superQqLevel = 0, missionStatus = Some [0, 0], missionList = l\<rparr>"

definition demo_quest :: "nat option list option \<Rightarrow> (int list \<times> int list) quest_state" where
  "demo_quest l = \<lparr>player = demo_quester l, mobj = (\<lambda>r. demo_mission), newRadar = (0, 0, 0), mnews = []\<rparr>"

theorem kills_counted_witness:
  "\<exists>s' cs'. updateAllKillMission mem_data (Some [5, 9, 5]) (Some [1, 4, 1]) (demo_quest (Some [None, Some 7])) = Some s' \<and>
     submitCondition (mobj s' 7) = Some cs' \<and>
     checkCondition mem_data demo_world (\<lambda>r. demo_mission) (demo_quester None) (cs' ! 0)"
proof -
  have "isKill fst snd mem_utf ([demo_kill] ! 0) 5 [65] 3 1"
    by (simp add: isKill_def demo_kill_def int8_def)
  moreover have "killsOf 5 (zip [5, 9, 5] [1, 4, 1]) = 2" by (simp add: killsOf_def)
  ultimately show ?thesis
    using kills_counted [OF mem_data_ok, of "demo_quest (Some [None, Some 7])" "[None, Some 7]" 7 "[demo_kill]" 0 5 "[65]" 3 1
        "[5, 9, 5]" "[1, 4, 1]" demo_world "\<lambda>r. demo_mission" "demo_quester None"]
    by (auto simp: demo_quest_def demo_quester_def demo_mission_def demo_kill_def)
qed

theorem missions_unique_witness:
  "getMissionById (mobj (doQuest mem_data (Accept 3 True) (demo_quest (Some (replicate 10 None)))))
     (player (doQuest mem_data (Accept 3 True) (demo_quest (Some (replicate 10 None))))) 40 = Some 3"
proof -
  let ?s = "doQuest mem_data (Accept 3 True) (demo_quest (Some (replicate 10 None)))"
  have "missionList (player (demo_quest (Some (replicate 10 None)))) = Some (replicate MAX_MISSION_SIZE None)"
    by (simp add: demo_quest_def demo_quester_def)
  then have "quest_reach mem_data ?s" by (intro quest_reach.step quest_reach.start) simp
  moreover have "missionList (player ?s) = Some (Some 3 # replicate 9 None)" by code_simp
  ultimately have "getMissionById (mobj ?s) (player ?s) (mid (mobj ?s 3)) = Some 3"
    using missions_unique by fastforce
  moreover have "mid (mobj ?s 3) = 40" by code_simp
  ultimately show ?thesis by simp
qed

text \<open>A player who has no list of missions yet cannot accept one: the list is created, but the call
  raises, and only the next one succeeds.\<close>

lemma first_mission_raises:
  assumes "missionList (player s) = None" "\<not> isEscort (mobj s r)"
  shows "fst (addMission (Some r) t s) = None"
  using assms by (simp add: addMission_def)

end
