(* ===== verification/Activity.thy ===== *)
theory Activity
  imports Prelude
begin

text \<open>
  The list of activities (module 48): timed events of the game with the marks of rewards on
  their icons, and the moment at which the next of them opens or closes.

  The server sends an activity as a protobuf object; its numbers of types and a fresh object are
  parameters (record \<open>act_env\<close>), as are the switches of the platform.  What the list reads of
  other components (the lottery, the online reward, the vitality and the sent shop) is in \<open>act_env\<close>
  too.  The list is a JavaScript object indexed by numbers, so its keys are visited in ascending
  order: an association list kept in that order.  \<open>ticking\<close> says that the list is registered with
  the frame timer (an interval of 1000 ms), \<open>now\<close> is the time of the server.
\<close>

section \<open>Activities\<close>

record sub_node =
  node_id :: int
  showRed :: bool

record info =
  itype :: int
  openTime :: int
  closeTime :: int
  limitLv :: int
  hasReward :: bool
  nodes :: "sub_node list"

record act_env =
  FUND :: int
  ATTENTION :: int
  GROUP_BUY :: int
  LOGIN_GIFT :: int
  ACT_SHARE :: int
  DAILY_GAME :: int
  ACTIVITY_OLD_GT :: int
  ACTIVITY_OLD_CP :: int
  newInfo :: info
  openPay :: bool
  isAudit :: bool
  myLevel :: int
  dateNow :: int
  lotteryShown :: bool
  lotteryLeft :: int
  onlineRed :: bool
  vitalityRed :: bool
  sentShop :: nat

abbreviation (input) ACTIVITY_OLD_TU :: int where "ACTIVITY_OLD_TU \<equiv> 5001"
abbreviation (input) ACTIVITY_OLD_ONE :: int where "ACTIVITY_OLD_ONE \<equiv> 5003"
abbreviation (input) ACTIVITY_VITALIY :: int where "ACTIVITY_VITALIY \<equiv> 5004"
abbreviation (input) TALENT :: int where "TALENT \<equiv> 6000"
abbreviation (input) ACTIVITY_SEND_SHOP :: int where "ACTIVITY_SEND_SHOP \<equiv> 50002"

definition clearKey :: "act_env \<Rightarrow> int list" where
  "clearKey C = [ATTENTION C, GROUP_BUY C, LOGIN_GIFT C]"

definition subclassKey :: "act_env \<Rightarrow> int list" where
  "subclassKey C = [FUND C, ACT_SHARE C]"

definition fakeRedKey :: "act_env \<Rightarrow> int list" where
  "fakeRedKey C = [DAILY_GAME C]"

definition isOpenPayKey :: "int list" where
  "isOpenPayKey = [ACTIVITY_OLD_TU]"

datatype act_news = ACTIVITE_RED_UP | ON_MAIN_ICON "int option"

record act_list =
  alist :: "(int \<times> info) list"
  dynClearKey :: "int list"
  atime :: int
  atype :: int
  ticking :: bool
  anews :: "act_news list"

definition new_act_list :: act_list where
  "new_act_list = \<lparr>alist = [], dynClearKey = [], atime = 0, atype = 0, ticking = False, anews = []\<rparr>"

text \<open>Writing a property: an existing key keeps its place, a new one is filed in order.\<close>

fun putKey :: "int \<Rightarrow> 'v \<Rightarrow> (int \<times> 'v) list \<Rightarrow> (int \<times> 'v) list" where
  "putKey k v [] = [(k, v)]"
| "putKey k v ((j, w) # r) = (if k < j then (k, v) # (j, w) # r else if k = j then (k, v) # r else (j, w) # putKey k v r)"

definition removeData :: "int \<Rightarrow> act_list \<Rightarrow> act_list" where
  "removeData e s = s\<lparr>alist := filter (\<lambda>(k, _). k \<noteq> e) (alist s)\<rparr>"

definition addDynClearKey :: "int \<Rightarrow> act_list \<Rightarrow> act_list" where
  "addDynClearKey e s = s\<lparr>dynClearKey := dynClearKey s @ [e]\<rparr>"

section \<open>Marks\<close>

definition fakeInfo :: "act_env \<Rightarrow> int \<Rightarrow> info" where
  "fakeInfo C t =
     (let i = (newInfo C)\<lparr>itype := t\<rparr>
      in if itype i \<in> set (subclassKey C)
         then i\<lparr>nodes := nodes i @ map (\<lambda>o'. \<lparr>node_id = o', showRed = False\<rparr>) [1, 2, 3]\<rparr>
         else i\<lparr>hasReward := False\<rparr>)"

definition setFakeRed :: "act_env \<Rightarrow> act_list \<Rightarrow> act_list" where
  "setFakeRed C s = s\<lparr>alist := fold (\<lambda>t. putKey t (fakeInfo C t)) (fakeRedKey C) (alist s)\<rparr>"

fun markNode :: "bool \<Rightarrow> int \<Rightarrow> sub_node list \<Rightarrow> sub_node list" where
  "markNode e n [] = []"
| "markNode e n (r # rs) = (if node_id r = n then r\<lparr>showRed := e\<rparr> # rs else r # markNode e n rs)"

definition upRed :: "bool \<Rightarrow> info \<Rightarrow> int list \<Rightarrow> info" where
  "upRed e t i = (if i \<noteq> [] then t\<lparr>nodes := fold (markNode e) i (nodes t)\<rparr> else t\<lparr>hasReward := e\<rparr>)"

definition upListData :: "int \<Rightarrow> bool \<Rightarrow> int option \<Rightarrow> int list \<Rightarrow> bool \<Rightarrow> act_list \<Rightarrow> act_list" where
  "upListData e t i o' n s =
     (case map_of (alist s) e of
        None \<Rightarrow> s
      | Some r \<Rightarrow>
          (let s = s\<lparr>alist := putKey e (upRed t r o') (alist s)\<rparr>
           in if n then s\<lparr>anews := anews s @ [ACTIVITE_RED_UP, ON_MAIN_ICON i]\<rparr> else s))"

definition setClearKey :: "int \<Rightarrow> int \<Rightarrow> bool \<Rightarrow> bool \<Rightarrow> int list \<Rightarrow> act_list \<Rightarrow> act_list" where
  "setClearKey e t i o' n s =
     (if i then upListData e o' (Some t) n True s
      else (let s = addDynClearKey e (removeData e s) in s\<lparr>anews := anews s @ [ON_MAIN_ICON (Some t)]\<rparr>))"

section \<open>The next change\<close>

definition getTime :: "int \<Rightarrow> int \<Rightarrow> int \<Rightarrow> int" where
  "getTime now e t =
     (let n = \<bar>t - now\<bar>
      in if now > e then n else min \<bar>now - e\<bar> n)"

text \<open>One pass of the loop of \<open>setTime\<close> over an activity: the delay and the type so far.\<close>

definition timeStep :: "int \<Rightarrow> info \<Rightarrow> int \<times> int \<Rightarrow> int \<times> int" where
  "timeStep now a p =
     (let r = closeTime a; s = openTime a
      in if r = 0 \<or> s = 0 then p
         else if now \<ge> r then p
         else (let l = getTime now s r
               in if fst p = 0 then (l, itype a)
                  else if fst p > l then (l, itype a) else p))"

definition setTime :: "int \<Rightarrow> act_list \<Rightarrow> act_list" where
  "setTime now s =
     (let (d, ty) = fold (timeStep now) (map snd (alist s)) (0, atype s)
      in if d > 0 then s\<lparr>atime := d + now, atype := ty, ticking := True\<rparr>
         else s\<lparr>atime := d, atype := ty, ticking := False\<rparr>)"

definition remove :: "bool \<Rightarrow> act_list \<Rightarrow> act_list" where
  "remove e s =
     (let s = fold (\<lambda>(k, _). removeData k) (alist s) s;
          s = s\<lparr>ticking := False, atime := 0, atype := 0\<rparr>
      in if e then s\<lparr>dynClearKey := []\<rparr> else s)"

definition fileInfo :: "act_env \<Rightarrow> info \<Rightarrow> act_list \<Rightarrow> act_list" where
  "fileInfo C o' s =
     (if itype o' \<in> set (clearKey C) \<or> itype o' \<in> set (dynClearKey s) then s
      else s\<lparr>alist := putKey (itype o') (o'\<lparr>openTime := openTime o' + 30000\<rparr>) (alist s)\<rparr>)"

definition setlist :: "act_env \<Rightarrow> int \<Rightarrow> info list \<Rightarrow> act_list \<Rightarrow> act_list" where
  "setlist C now e s = setTime now (fold (fileInfo C) e (setFakeRed C (remove False s)))"

definition act_update :: "int \<Rightarrow> act_list \<Rightarrow> act_list" where
  "act_update now s =
     (if now \<ge> atime s then (let s = setTime now s in upListData (atype s) False None [] True s) else s)"

section \<open>What is shown\<close>

definition isActivity :: "act_env \<Rightarrow> int \<Rightarrow> info \<Rightarrow> bool" where
  "isActivity C now e =
     (if \<not> openPay C \<and> itype e \<in> set isOpenPayKey then False
      else if isAudit C \<and> itype e \<in> set isOpenPayKey then False
      else (let i = openTime e; n = closeTime e
            in if i = 0 \<or> n = 0 then myLevel C \<ge> limitLv e
               else (let a = (if now = 0 then dateNow C else now)
                     in if a \<ge> i \<and> n \<ge> a then myLevel C \<ge> limitLv e else False)))"

definition isActivityRedArr :: "info \<Rightarrow> bool" where
  "isActivityRedArr e = list_ex showRed (nodes e)"

definition isActivityRed :: "act_env \<Rightarrow> int \<Rightarrow> info \<Rightarrow> bool" where
  "isActivityRed C now e =
     (if isActivity C now e then (if itype e \<in> set (subclassKey C) then isActivityRedArr e else hasReward e)
      else False)"

datatype turn_type = BREAK_TYPE | RETURN_TYPE | CONTINUE_TYPE

text \<open>An icon: whether it is shown, and whether it has a mark.\<close>

record icon =
  isShow :: bool
  red :: bool

definition specialActivity :: "act_env \<Rightarrow> int \<Rightarrow> icon \<Rightarrow> turn_type \<times> icon" where
  "specialActivity C i t =
     (if \<not> openPay C \<and> i \<in> set isOpenPayKey then (CONTINUE_TYPE, t)
      else if isAudit C \<and> i \<in> set isOpenPayKey then (CONTINUE_TYPE, t)
      else if i = ACTIVITY_SEND_SHOP then (CONTINUE_TYPE, t\<lparr>isShow := sentShop C > 0\<rparr>)
      else if i = ACTIVITY_OLD_GT C \<or> i = ACTIVITY_OLD_CP C \<or> i = ACT_SHARE C then (RETURN_TYPE, t)
      else if i \<ge> 5000 \<and> i < 10000 then
        (let (n, a) =
               (if i = ACTIVITY_OLD_TU then (lotteryShown C, lotteryLeft C > 0)
                else if i = ACTIVITY_OLD_ONE then (True, onlineRed C)
                else if i = ACTIVITY_VITALIY then (True, vitalityRed C)
                else if i = TALENT then (True, False)
                else (False, False));
             t = (if isShow t then t else t\<lparr>isShow := n\<rparr>);
             t = (if \<not> red t \<and> isShow t then t\<lparr>red := a\<rparr> else t)
         in (if isShow t \<and> red t then BREAK_TYPE else CONTINUE_TYPE, t))
      else if i \<ge> 10000 then (CONTINUE_TYPE, t\<lparr>isShow := True\<rparr>)
      else (RETURN_TYPE, t))"

text \<open>The icon of one activity, with its times, and the icon of a group; \<open>n\<close> is the length of the
  whole group and \<open>a\<close> the number of activities found so far.\<close>

definition getTypeData :: "act_env \<Rightarrow> int \<Rightarrow> act_list \<Rightarrow> int \<Rightarrow> icon \<times> int \<times> int" where
  "getTypeData C now s t =
     (let (a, o') = specialActivity C t \<lparr>isShow = False, red = False\<rparr>
      in if a \<noteq> RETURN_TYPE then (o', 0, 0)
         else case map_of (alist s) t of
                None \<Rightarrow> (o', 0, 0)
              | Some r \<Rightarrow> (\<lparr>isShow = isActivity C now r, red = isActivityRed C now r\<rparr>, openTime r, closeTime r))"

fun redLoop :: "act_env \<Rightarrow> int \<Rightarrow> (int \<times> info) list \<Rightarrow> nat \<Rightarrow> nat \<Rightarrow> int list \<Rightarrow> icon \<Rightarrow> icon" where
  "redLoop C now l n a [] o' = o'"
| "redLoop C now l n a (s # ss) o' =
     (let (t, o') = specialActivity C s o'
      in if t = CONTINUE_TYPE then redLoop C now l n a ss o'
         else if t = BREAK_TYPE then o'
         else case map_of l s of
                None \<Rightarrow> redLoop C now l n a ss o'
              | Some u \<Rightarrow>
                  (let o' = (if isShow o' then o' else o'\<lparr>isShow := isActivity C now u\<rparr>);
                       o' = (if \<not> red o' \<and> isShow o' then o'\<lparr>red := isActivityRed C now u\<rparr> else o')
                   in if isShow o' \<and> red o' then o'
                      else if Suc a = n then o'
                      else redLoop C now l n (Suc a) ss o'))"

definition getTypeRed :: "act_env \<Rightarrow> int \<Rightarrow> act_list \<Rightarrow> int list \<Rightarrow> icon" where
  "getTypeRed C now s t = redLoop C now (alist s) (length t) 0 t \<lparr>isShow = False, red = False\<rparr>"

definition getActivityData :: "act_list \<Rightarrow> int \<Rightarrow> info option" where
  "getActivityData s e = map_of (alist s) e"

end
