(* ===== verification/ActivityProps.thy ===== *)
theory ActivityProps
  imports Activity
begin

text \<open>
  The list of activities never misses the moment at which one of them opens or closes, apart from
  changes at the very moment of the last look at the list; and the icon of a group shows what its
  activities show.
\<close>

section \<open>The next change\<close>

text \<open>An activity with a change ahead, and the time until then.\<close>

definition ahead :: "int \<Rightarrow> info \<Rightarrow> bool" where
  "ahead now a \<longleftrightarrow> closeTime a \<noteq> 0 \<and> openTime a \<noteq> 0 \<and> now < closeTime a"

definition delay :: "int \<Rightarrow> info \<Rightarrow> int" where
  "delay now a = getTime now (openTime a) (closeTime a)"

lemma timeStep_ahead:
  "timeStep now a p = (if ahead now a \<and> (fst p = 0 \<or> fst p > delay now a) then (delay now a, itype a) else p)"
  by (auto simp: timeStep_def ahead_def delay_def Let_def)

lemma delay_pos: "ahead now a \<Longrightarrow> openTime a \<noteq> now \<Longrightarrow> 0 < delay now a"
  by (auto simp: ahead_def delay_def getTime_def Let_def)

lemma fold_timeStep:
  assumes "\<forall>a\<in>set as. openTime a \<noteq> now" "0 \<le> fst p"
  shows "0 \<le> fst (fold (timeStep now) as p) \<and>
    (fst p > 0 \<longrightarrow> 0 < fst (fold (timeStep now) as p) \<and> fst (fold (timeStep now) as p) \<le> fst p) \<and>
    (\<forall>a\<in>set as. ahead now a \<longrightarrow> 0 < fst (fold (timeStep now) as p) \<and> fst (fold (timeStep now) as p) \<le> delay now a) \<and>
    (fold (timeStep now) as p = p \<or> (\<exists>a\<in>set as. ahead now a \<and> fold (timeStep now) as p = (delay now a, itype a)))"
  using assms
proof (induction as arbitrary: p)
  case (Cons a as)
  define q where "q = timeStep now a p"
  have q: "0 \<le> fst q" "fst p > 0 \<longrightarrow> 0 < fst q \<and> fst q \<le> fst p" "ahead now a \<longrightarrow> 0 < fst q \<and> fst q \<le> delay now a"
      "q = p \<or> ahead now a \<and> q = (delay now a, itype a)"
    using Cons.prems delay_pos [of now a] by (auto simp: q_def timeStep_ahead)
  have IH: "0 \<le> fst (fold (timeStep now) as q)"
      "fst q > 0 \<longrightarrow> 0 < fst (fold (timeStep now) as q) \<and> fst (fold (timeStep now) as q) \<le> fst q"
      "\<forall>a\<in>set as. ahead now a \<longrightarrow> 0 < fst (fold (timeStep now) as q) \<and> fst (fold (timeStep now) as q) \<le> delay now a"
      "fold (timeStep now) as q = q \<or> (\<exists>a\<in>set as. ahead now a \<and> fold (timeStep now) as q = (delay now a, itype a))"
    using Cons.IH [of q] Cons.prems(1) q(1) by auto
  have e: "fold (timeStep now) (a # as) p = fold (timeStep now) as q" by (simp add: q_def)
  show ?case unfolding e using q(2-4) IH by force
qed simp

definition sched :: "int \<Rightarrow> act_list \<Rightarrow> bool" where
  "sched m s \<longleftrightarrow> (ticking s \<longrightarrow> m < atime s) \<and>
     (\<forall>a\<in>snd ` set (alist s). ahead m a \<longrightarrow> ticking s \<and> atime s \<le> m + delay m a)"

text \<open>No activity opens exactly now.\<close>

definition calm :: "int \<Rightarrow> act_list \<Rightarrow> bool" where
  "calm now s \<longleftrightarrow> (\<forall>a\<in>snd ` set (alist s). openTime a \<noteq> now)"

lemma setTime_sched:
  assumes "calm now s"
  shows "sched now (setTime now s)"
proof -
  obtain d ty where r: "fold (timeStep now) (map snd (alist s)) (0, atype s) = (d, ty)" by fastforce
  have d: "0 \<le> d" "\<forall>a\<in>snd ` set (alist s). ahead now a \<longrightarrow> 0 < d \<and> d \<le> delay now a"
    using fold_timeStep [of "map snd (alist s)" now "(0, atype s)"] assms by (auto simp: calm_def r)
  show ?thesis
  proof (cases "d > 0")
    case True
    with d(2) show ?thesis by (auto simp: sched_def setTime_def r)
  next
    case False
    with d(2) show ?thesis by (auto simp: sched_def setTime_def r)
  qed
qed

text \<open>A rescheduled list names an activity that changes at the time it waits for.\<close>

lemma setTime_type:
  assumes "calm now s" "ticking (setTime now s)"
  shows "\<exists>a\<in>snd ` set (alist s). ahead now a \<and> atype (setTime now s) = itype a \<and> atime (setTime now s) = now + delay now a"
proof -
  obtain d ty where r: "fold (timeStep now) (map snd (alist s)) (0, atype s) = (d, ty)" by fastforce
  have "d > 0" using assms(2) by (auto simp: setTime_def r split: if_splits)
  then show ?thesis
    using fold_timeStep [of "map snd (alist s)" now "(0, atype s)"] assms(1) by (auto simp: calm_def r setTime_def)
qed

lemma sched_activity:
  assumes s: "sched m s" and a: "a \<in> snd ` set (alist s)" "closeTime a \<noteq> m" and m: "0 < m" "m \<le> u"
    and d: "isActivity C u a \<noteq> isActivity C m a"
  shows "ticking s \<and> m < atime s \<and> atime s \<le> u"
proof -
  have z: "openTime a \<noteq> 0" "closeTime a \<noteq> 0" using d by (auto simp: isActivity_def Let_def split: if_splits)
  have t: "(openTime a \<le> u \<and> u \<le> closeTime a) \<noteq> (openTime a \<le> m \<and> m \<le> closeTime a)"
    using d m z by (auto simp: isActivity_def Let_def split: if_splits)
  have "ahead m a" using t a(2) m(2) z by (auto simp: ahead_def)
  then have "ticking s" "atime s \<le> m + delay m a" using s a(1) by (auto simp: sched_def)
  moreover have "m + delay m a \<le> u" using t a(2) m(2) by (auto simp: delay_def getTime_def Let_def)
  ultimately show ?thesis using s by (auto simp: sched_def)
qed

section \<open>Other operations\<close>

lemma set_putKey: "set (putKey k v l) \<subseteq> insert (k, v) (set l)"
  by (induction k v l rule: putKey.induct) auto

lemma upRed_times [simp]: "openTime (upRed e t i) = openTime t" "closeTime (upRed e t i) = closeTime t" "itype (upRed e t i) = itype t"
  by (simp_all add: upRed_def)

lemma times_same:
  assumes "openTime a = openTime b" "closeTime a = closeTime b"
  shows "ahead m a = ahead m b" "delay m a = delay m b"
  using assms by (simp_all add: ahead_def delay_def)

lemma upListData_times:
  assumes "a \<in> snd ` set (alist (upListData e t i o' n s))"
  shows "\<exists>b\<in>snd ` set (alist s). openTime a = openTime b \<and> closeTime a = closeTime b"
proof (cases "map_of (alist s) e")
  case None
  with assms show ?thesis by (auto simp: upListData_def)
next
  case (Some r)
  then have "(e, r) \<in> set (alist s)" by (rule map_of_SomeD)
  moreover have "alist (upListData e t i o' n s) = putKey e (upRed t r o') (alist s)"
    using Some by (simp add: upListData_def Let_def)
  ultimately show ?thesis using assms set_putKey [of e "upRed t r o'" "alist s"] by force
qed

lemma upListData_clock [simp]:
  "ticking (upListData e t i o' n s) = ticking s" "atime (upListData e t i o' n s) = atime s" "atype (upListData e t i o' n s) = atype s"
  by (simp_all add: upListData_def Let_def split: option.split)

lemma upListData_sched: "sched m s \<Longrightarrow> sched m (upListData e t i o' n s)"
  unfolding sched_def using upListData_times times_same by (metis upListData_clock(1,2))

lemma setClearKey_sched: "sched m s \<Longrightarrow> sched m (setClearKey e t i o' n s)"
  by (simp add: setClearKey_def upListData_sched Let_def)
     (auto simp: sched_def addDynClearKey_def removeData_def)

lemma removeData_alist: "alist (fold (\<lambda>(k, _). removeData k) l s) = filter (\<lambda>(k, _). k \<notin> fst ` set l) (alist s)"
proof (induction l arbitrary: s)
  case (Cons p l)
  have "alist (fold (\<lambda>(k, _). removeData k) (p # l) s) = filter (\<lambda>(k, _). k \<notin> fst ` set l) (alist (removeData (fst p) s))"
    using Cons.IH [of "removeData (fst p) s"] by (cases p) simp
  also have "\<dots> = filter (\<lambda>(k, _). k \<notin> fst ` set (p # l)) (alist s)"
    by (simp add: removeData_def case_prod_unfold conj_commute)
  finally show ?case .
qed (simp add: case_prod_beta)

lemma remove_alist: "alist (remove e s) = []"
  by (auto simp: remove_def Let_def removeData_alist filter_empty_conv case_prod_beta)

lemma remove_sched: "sched m (remove e s)"
proof -
  have "\<not> ticking (remove e s)" by (simp add: remove_def Let_def)
  then show ?thesis by (simp add: sched_def remove_alist)
qed

section \<open>Histories\<close>

text \<open>A history of the list, with the moment \<open>m\<close> of the last look at its times.  The list from the
  server arrives or the frame timer calls \<open>update\<close> at a time at which no activity just opens.\<close>

inductive act_reach :: "act_env \<Rightarrow> int \<Rightarrow> act_list \<Rightarrow> bool" for C where
  start: "0 < m \<Longrightarrow> act_reach C m new_act_list"
| sent: "act_reach C m s \<Longrightarrow> m \<le> n \<Longrightarrow> calm n (setlist C n e s) \<Longrightarrow> act_reach C n (setlist C n e s)"
| wait: "act_reach C m s \<Longrightarrow> ticking s \<Longrightarrow> n < atime s \<Longrightarrow> act_reach C m (act_update n s)"
| due: "act_reach C m s \<Longrightarrow> ticking s \<Longrightarrow> atime s \<le> n \<Longrightarrow> calm n s \<Longrightarrow> act_reach C n (act_update n s)"
| mark: "act_reach C m s \<Longrightarrow> act_reach C m (upListData e t i o' n s)"
| clear: "act_reach C m s \<Longrightarrow> act_reach C m (setClearKey e t' i' t n s)"
| logout: "act_reach C m s \<Longrightarrow> act_reach C m (remove e s)"

lemma setTime_alist [simp]: "alist (setTime n s) = alist s"
  by (simp add: setTime_def case_prod_beta Let_def)

lemma act_reach_sched:
  assumes "act_reach C m s"
  shows "sched m s \<and> 0 < m"
  using assms
proof (induction rule: act_reach.induct)
  case (start m)
  then show ?case by (simp add: sched_def new_act_list_def)
next
  case (sent m s n e)
  then have "calm n (fold (fileInfo C) e (setFakeRed C (remove False s)))" by (simp add: setlist_def calm_def)
  with sent show ?case by (simp add: setlist_def setTime_sched)
next
  case (wait m s n)
  then show ?case by (simp add: act_update_def)
next
  case (due m s n)
  then have "m < n" by (auto simp: sched_def)
  with due show ?case by (simp add: act_update_def Let_def upListData_sched setTime_sched)
qed (simp_all add: upListData_sched setClearKey_sched remove_sched)

text \<open>C27: Whatever lists the server sends and whatever marks change, the list of activities waits
  for the next change: if an activity of the list is going to open or close after the last
  look at the times, the list is registered with the frame timer and waits for a moment that is not
  later.  (An activity that opens or closes exactly at the moment of a look is excluded.)\<close>

theorem no_change_missed:
  assumes "act_reach C m s" "(k, a) \<in> set (alist s)" "closeTime a \<noteq> m" "m \<le> u"
    and "isActivity D u a \<noteq> isActivity D m a"
  shows "ticking s \<and> m < atime s \<and> atime s \<le> u"
proof -
  have "a \<in> snd ` set (alist s)" using assms(2) by force
  with act_reach_sched [OF assms(1)] assms(3-5) show ?thesis using sched_activity by blast
qed

text \<open>The two exceptions: after a look at the very moment at which the only activity closes, or
  opens, the list does not wait, although the activity is about to close.\<close>

lemma closing_missed:
  assumes "alist s = [(k, a)]" "closeTime a = now" "0 < openTime a" "openTime a \<le> now"
  shows "\<not> ticking (setTime now s) \<and> \<not> isActivity C (now + 1) a"
  using assms by (simp add: setTime_def timeStep_def isActivity_def Let_def)

lemma opening_missed:
  assumes "alist s = [(k, a)]" "openTime a = now" "0 < now" "now < closeTime a"
  shows "\<not> ticking (setTime now s) \<and> \<not> isActivity C (closeTime a + 1) a"
  using assms by (simp add: setTime_def timeStep_def isActivity_def Let_def getTime_def)

text \<open>An update removes the mark of the activity that changes next, not of the one that has
  just changed: the type is read after the list has been rescheduled.\<close>

lemma map_of_putKey: "map_of (putKey k v l) j = (if j = k then Some v else map_of l j)"
  by (induction k v l rule: putKey.induct) auto

lemma update_clears_next:
  assumes "atime s \<le> now" "calm now s" "ticking (setTime now s)" "map_of (alist s) (atype (setTime now s)) = Some r"
  shows "\<exists>b. map_of (alist (act_update now s)) (atype (setTime now s)) = Some b \<and> \<not> hasReward b"
  using assms by (simp add: act_update_def Let_def upListData_def map_of_putKey upRed_def)

section \<open>Groups\<close>

text \<open>What one type contributes to the icon of its group.\<close>

definition hiddenType :: "act_env \<Rightarrow> int \<Rightarrow> bool" where
  "hiddenType C t \<longleftrightarrow> (\<not> openPay C \<or> isAudit C) \<and> t \<in> set isOpenPayKey"

definition listedType :: "act_env \<Rightarrow> int \<Rightarrow> bool" where
  "listedType C t \<longleftrightarrow> t < 5000 \<or> t = ACTIVITY_OLD_GT C \<or> t = ACTIVITY_OLD_CP C \<or> t = ACT_SHARE C"

definition typeShown :: "act_env \<Rightarrow> int \<Rightarrow> act_list \<Rightarrow> int \<Rightarrow> bool" where
  "typeShown C now s t =
     (\<not> hiddenType C t \<and>
      (if listedType C t then (case map_of (alist s) t of None \<Rightarrow> False | Some r \<Rightarrow> isActivity C now r)
       else if t < 10000 then t = ACTIVITY_OLD_TU \<and> lotteryShown C \<or> t \<in> {ACTIVITY_OLD_ONE, ACTIVITY_VITALIY, TALENT}
       else True))"

definition typeMarked :: "act_env \<Rightarrow> int \<Rightarrow> act_list \<Rightarrow> int \<Rightarrow> bool" where
  "typeMarked C now s t =
     (\<not> hiddenType C t \<and>
      (if listedType C t then (case map_of (alist s) t of None \<Rightarrow> False | Some r \<Rightarrow> isActivityRed C now r)
       else t = ACTIVITY_OLD_TU \<and> lotteryLeft C > 0 \<or> t = ACTIVITY_OLD_ONE \<and> onlineRed C \<or> t = ACTIVITY_VITALIY \<and> vitalityRed C))"

lemma specialActivity_listed:
  assumes "listedType C t" "\<not> hiddenType C t" "t \<noteq> ACTIVITY_SEND_SHOP"
  shows "specialActivity C t o' = (RETURN_TYPE, o')"
proof -
  have h: "\<not> (\<not> openPay C \<and> t \<in> set isOpenPayKey)" "\<not> (isAudit C \<and> t \<in> set isOpenPayKey)"
    using assms(2) unfolding hiddenType_def by blast+
  show ?thesis
  proof (cases "t = ACTIVITY_OLD_GT C \<or> t = ACTIVITY_OLD_CP C \<or> t = ACT_SHARE C")
    case True
    then show ?thesis unfolding specialActivity_def using h assms(3) by simp
  next
    case False
    then have "t < 5000" using assms(1) unfolding listedType_def by blast
    with False show ?thesis unfolding specialActivity_def using h assms(3) by simp
  qed
qed

text \<open>The other types: what the lottery and the like show (\<open>n\<close>) and mark (\<open>r\<close>).\<close>

lemma special_icon:
  assumes "r \<Longrightarrow> n" "red o' \<Longrightarrow> isShow o'"
  shows "(let t = (if isShow o' then o' else o'\<lparr>isShow := n\<rparr>); t = (if \<not> red t \<and> isShow t then t\<lparr>red := r\<rparr> else t) in t) =
    \<lparr>isShow = isShow o' \<or> n, red = red o' \<or> r\<rparr>"
  using assms by (cases o') (auto simp: Let_def)

lemma specialActivity_other:
  assumes "\<not> (listedType C t \<and> \<not> hiddenType C t)" "t \<noteq> ACTIVITY_SEND_SHOP" "lotteryLeft C > 0 \<Longrightarrow> lotteryShown C"
    and "red o' \<Longrightarrow> isShow o'"
  shows "\<exists>b. specialActivity C t o' = (b, \<lparr>isShow = isShow o' \<or> typeShown C now s t, red = red o' \<or> typeMarked C now s t\<rparr>) \<and>
    b \<noteq> RETURN_TYPE \<and> (b = BREAK_TYPE \<longrightarrow> red o' \<or> typeMarked C now s t)"
proof (cases "hiddenType C t")
  case True
  then have "specialActivity C t o' = (CONTINUE_TYPE, o')" by (auto simp: specialActivity_def hiddenType_def)
  moreover have "o' = \<lparr>isShow = isShow o' \<or> typeShown C now s t, red = red o' \<or> typeMarked C now s t\<rparr>"
    using True by (cases o') (simp add: typeShown_def typeMarked_def)
  ultimately show ?thesis by simp
next
  case False
  have h: "\<not> (\<not> openPay C \<and> t \<in> set isOpenPayKey)" "\<not> (isAudit C \<and> t \<in> set isOpenPayKey)"
    using False unfolding hiddenType_def by blast+
  have l: "\<not> listedType C t" using assms(1) False by blast
  then have k: "5000 \<le> t" "\<not> (t = ACTIVITY_OLD_GT C \<or> t = ACTIVITY_OLD_CP C \<or> t = ACT_SHARE C)" by (auto simp: listedType_def)
  show ?thesis
  proof (cases "t < 10000")
    case True
    define n where "n = typeShown C now s t"
    define r where "r = typeMarked C now s t"
    have nr: "(if t = ACTIVITY_OLD_TU then (lotteryShown C, lotteryLeft C > 0)
        else if t = ACTIVITY_OLD_ONE then (True, onlineRed C)
        else if t = ACTIVITY_VITALIY then (True, vitalityRed C)
        else if t = TALENT then (True, False) else (False, False)) = (n, r)"
      using True False l by (simp add: n_def r_def typeShown_def typeMarked_def)
    have rn: "r \<Longrightarrow> n" using l False True assms(3) by (auto simp: n_def r_def typeShown_def typeMarked_def)
    let ?o = "\<lparr>isShow = isShow o' \<or> n, red = red o' \<or> r\<rparr>"
    have "specialActivity C t o' = (if isShow ?o \<and> red ?o then BREAK_TYPE else CONTINUE_TYPE, ?o)"
      unfolding specialActivity_def nr if_not_P [OF h(1)] if_not_P [OF h(2)] if_not_P [OF assms(2)] if_not_P [OF k(2)]
      using special_icon [of r n o', OF rn assms(4), unfolded Let_def] k(1) True by (simp only: Let_def split if_True simp_thms)
    then show ?thesis by (simp add: n_def r_def)
  next
    case False
    then have "typeShown C now s t" "\<not> typeMarked C now s t" using l \<open>\<not> hiddenType C t\<close> by (simp_all add: typeShown_def typeMarked_def)
    moreover have "specialActivity C t o' = (CONTINUE_TYPE, o'\<lparr>isShow := True\<rparr>)"
      unfolding specialActivity_def if_not_P [OF h(1)] if_not_P [OF h(2)] if_not_P [OF assms(2)] if_not_P [OF k(2)]
      using False by simp
    ultimately show ?thesis by (cases o') simp
  qed
qed

lemma marked_shown: "(lotteryLeft C > 0 \<Longrightarrow> lotteryShown C) \<Longrightarrow> typeMarked C now s t \<Longrightarrow> typeShown C now s t"
  by (auto simp: typeMarked_def typeShown_def isActivityRed_def split: if_splits option.splits)

lemma redLoop_eq:
  assumes "ACTIVITY_SEND_SHOP \<notin> set ts" "lotteryLeft C > 0 \<Longrightarrow> lotteryShown C" "a + length ts \<le> n" "red o' \<Longrightarrow> isShow o'"
  shows "redLoop C now (alist s) n a ts o' =
    \<lparr>isShow = isShow o' \<or> (\<exists>t\<in>set ts. typeShown C now s t), red = red o' \<or> (\<exists>t\<in>set ts. typeMarked C now s t)\<rparr>"
  using assms
proof (induction ts arbitrary: a o')
  case (Cons t ts)
  define v where "v = \<lparr>isShow = isShow o' \<or> typeShown C now s t, red = red o' \<or> typeMarked C now s t\<rparr>"
  have v: "red v \<Longrightarrow> isShow v" using marked_shown [OF Cons.prems(2)] Cons.prems(4) by (auto simp: v_def)
  have IH: "redLoop C now (alist s) n b ts v =
      \<lparr>isShow = isShow v \<or> (\<exists>t\<in>set ts. typeShown C now s t), red = red v \<or> (\<exists>t\<in>set ts. typeMarked C now s t)\<rparr>"
    if "b + length ts \<le> n" for b
    using Cons.IH [OF _ Cons.prems(2) that v] Cons.prems(1) by simp
  have done_: "v = \<lparr>isShow = isShow v \<or> (\<exists>t\<in>set ts. typeShown C now s t), red = red v \<or> (\<exists>t\<in>set ts. typeMarked C now s t)\<rparr>"
    if "isShow v \<and> red v" using that by (cases v) simp
  have goal: "redLoop C now (alist s) n a (t # ts) o' =
      \<lparr>isShow = isShow v \<or> (\<exists>t\<in>set ts. typeShown C now s t), red = red v \<or> (\<exists>t\<in>set ts. typeMarked C now s t)\<rparr>"
  proof (cases "listedType C t \<and> \<not> hiddenType C t")
    case True
    have sp: "specialActivity C t o' = (RETURN_TYPE, o')" using specialActivity_listed True Cons.prems(1) by simp
    show ?thesis
    proof (cases "map_of (alist s) t")
      case None
      then have "v = o'" using True by (cases o') (simp add: v_def typeShown_def typeMarked_def)
      with None sp IH [of a] Cons.prems(3) show ?thesis by simp
    next
      case (Some u)
      define w where "w = (if isShow o' then o' else o'\<lparr>isShow := isActivity C now u\<rparr>)"
      have "(if \<not> red w \<and> isShow w then w\<lparr>red := isActivityRed C now u\<rparr> else w) = v"
        using Some True Cons.prems(4)
        by (cases o') (auto simp: w_def v_def typeShown_def typeMarked_def isActivityRed_def)
      then have e: "redLoop C now (alist s) n a (t # ts) o' =
          (if isShow v \<and> red v then v else if Suc a = n then v else redLoop C now (alist s) n (Suc a) ts v)"
        using sp Some unfolding redLoop.simps Let_def w_def by simp
      show ?thesis
      proof (cases "isShow v \<and> red v")
        case True
        with e done_ show ?thesis by simp
      next
        case False
        show ?thesis
        proof (cases "Suc a = n")
          case True
          then have "ts = []" using Cons.prems(3) by (cases ts) simp_all
          with e False True show ?thesis by (cases v) simp
        qed (use e False IH [of "Suc a"] Cons.prems(3) in simp)
      qed
    qed
  next
    case False
    obtain b where b: "specialActivity C t o' = (b, v)" "b \<noteq> RETURN_TYPE" "b = BREAK_TYPE \<longrightarrow> red v"
      using specialActivity_other [OF False _ Cons.prems(2) Cons.prems(4), where now = now and s = s] Cons.prems(1)
      by (auto simp: v_def)
    show ?thesis
    proof (cases "b = BREAK_TYPE")
      case True
      then have "isShow v \<and> red v" using b(3) v by simp
      with True b(1) done_ show ?thesis by simp
    next
      case False
      then have "b = CONTINUE_TYPE" using b(2) by (cases b) auto
      with b(1) IH [of a] Cons.prems(3) show ?thesis by simp
    qed
  qed
  then show ?case by (auto simp: v_def)
qed simp

text \<open>C28: The loop over a group, with its early exits, computes the icon of the group: it is shown if
  one of the activities is, and has a mark if one of the activities has one.  (The lottery has a
  mark only where it is shown.)\<close>

theorem group_icon:
  assumes "ACTIVITY_SEND_SHOP \<notin> set ts" "lotteryLeft C > 0 \<longrightarrow> lotteryShown C"
  shows "getTypeRed C now s ts =
    \<lparr>isShow = \<exists>t\<in>set ts. typeShown C now s t, red = \<exists>t\<in>set ts. typeMarked C now s t\<rparr>"
  using redLoop_eq [of ts C 0 "length ts" "\<lparr>isShow = False, red = False\<rparr>"] assms by (simp add: getTypeRed_def)

section \<open>An example\<close>

definition demo_info :: "int \<Rightarrow> int \<Rightarrow> int \<Rightarrow> info" where
  "demo_info t o' c = \<lparr>itype = t, openTime = o', closeTime = c, limitLv = 3, hasReward = True, nodes = []\<rparr>"

definition demo_act_env :: act_env where
  "demo_act_env = \<lparr>FUND = 2, ATTENTION = 8, GROUP_BUY = 9, LOGIN_GIFT = 10, ACT_SHARE = 11, DAILY_GAME = 12,
     ACTIVITY_OLD_GT = 13, ACTIVITY_OLD_CP = 14, newInfo = (demo_info 0 0 0)\<lparr>hasReward := False\<rparr>, openPay = True, isAudit = False,
     myLevel = 5, dateNow = 1, lotteryShown = True, lotteryLeft = 1, onlineRed = False, vitalityRed = False, sentShop = 0\<rparr>"

definition demo_act :: act_list where
  "demo_act = setlist demo_act_env 100000 [demo_info 20 90000 150000, demo_info 4 10000 130000, demo_info 9 10000 20000] new_act_list"

theorem no_change_missed_witness:
  "ticking demo_act \<and> (100000::int) < atime demo_act \<and> atime demo_act \<le> 120000"
proof -
  have "calm 100000 demo_act" by code_simp
  then have "act_reach demo_act_env 100000 demo_act"
    unfolding demo_act_def by (intro act_reach.sent [where m = 1] act_reach.start) simp_all
  moreover have "(20, demo_info 20 120000 150000) \<in> set (alist demo_act)" by code_simp
  moreover have "closeTime (demo_info 20 120000 150000) \<noteq> 100000" by code_simp
  moreover have "isActivity demo_act_env 120000 (demo_info 20 120000 150000) \<noteq> isActivity demo_act_env 100000 (demo_info 20 120000 150000)"
    by code_simp
  ultimately show ?thesis by (intro no_change_missed) simp_all
qed

theorem group_icon_witness:
  "getTypeRed demo_act_env 100000 demo_act [20, 4, 6000] = \<lparr>isShow = True, red = True\<rparr>"
proof -
  have "\<exists>t\<in>set [20, 4, 6000]. typeShown demo_act_env 100000 demo_act t" by code_simp
  moreover have "\<exists>t\<in>set [20, 4, 6000]. typeMarked demo_act_env 100000 demo_act t" by code_simp
  moreover have "lotteryLeft demo_act_env > 0 \<longrightarrow> lotteryShown demo_act_env" by code_simp
  ultimately show ?thesis using group_icon [of "[20, 4, 6000]" demo_act_env 100000 demo_act] by simp
qed

end
