(* ===== verification/Ease.thy ===== *)
theory Ease
  imports Complex_Main
begin

text \<open>
  The easing functions of the tweens (module 143), one definition per function of the classes
  \<open>Back\<close> to \<open>Strong\<close>: \<open>e\<close> is the elapsed time, \<open>t\<close> the initial value, \<open>i\<close> the change, \<open>o'\<close> the
  duration.  The optional arguments (the overshoot \<open>n\<close> of \<open>Back\<close>, amplitude \<open>a\<close> and period \<open>r\<close>
  of \<open>Elastic\<close>) come first.  The floating-point numbers of the source are read as real numbers;
  rounding is not modelled.
\<close>

section \<open>The functions\<close>

definition Back_easeIn :: "real \<Rightarrow> real \<Rightarrow> real \<Rightarrow> real \<Rightarrow> real \<Rightarrow> real" where
  "Back_easeIn n e t i o' =
     (let e = e / o' in i * e * e * ((n + 1) * e - n) + t)"

definition Back_easeOut :: "real \<Rightarrow> real \<Rightarrow> real \<Rightarrow> real \<Rightarrow> real \<Rightarrow> real" where
  "Back_easeOut n e t i o' =
     (let e = e / o' - 1 in i * (e * e * ((n + 1) * e + n) + 1) + t)"

definition Back_easeInOut :: "real \<Rightarrow> real \<Rightarrow> real \<Rightarrow> real \<Rightarrow> real \<Rightarrow> real" where
  "Back_easeInOut n e t i o' =
     (let e = e / (0.5 * o'); n = n * 1.525
      in if e < 1 then 0.5 * i * (e * e * ((n + 1) * e - n)) + t
         else (let e = e - 2 in i / 2 * (e * e * ((n + 1) * e + n) + 2) + t))"

definition Back_easeOutExtra :: "real \<Rightarrow> real \<Rightarrow> real \<Rightarrow> real \<Rightarrow> real \<Rightarrow> real" where
  "Back_easeOutExtra n e t i o' =
     (let e = e / o' - 1 in i * (e * e * ((n + 1) * e + n) + 1) + t)"

definition Bounce_easeOut :: "real \<Rightarrow> real \<Rightarrow> real \<Rightarrow> real \<Rightarrow> real" where
  "Bounce_easeOut e t i o' =
     (let e = e / o'
      in if e < 1 / 2.75 then i * (7.5625 * e * e) + t
         else if 2 / 2.75 > e then (let e = e - 1.5 / 2.75 in i * (7.5625 * e * e + 0.75) + t)
         else if 2.5 / 2.75 > e then (let e = e - 2.25 / 2.75 in i * (7.5625 * e * e + 0.9375) + t)
         else (let e = e - 2.625 / 2.75 in i * (7.5625 * e * e + 0.984375) + t))"

definition Bounce_easeIn :: "real \<Rightarrow> real \<Rightarrow> real \<Rightarrow> real \<Rightarrow> real" where
  "Bounce_easeIn e t i o' =
     i - Bounce_easeOut (o' - e) 0 i o' + t"

definition Bounce_easeInOut :: "real \<Rightarrow> real \<Rightarrow> real \<Rightarrow> real \<Rightarrow> real" where
  "Bounce_easeInOut e t i o' =
     (if 0.5 * o' > e then 0.5 * Bounce_easeIn (2 * e) 0 i o' + t
      else 0.5 * Bounce_easeOut (2 * e - o') 0 i o' + 0.5 * i + t)"

definition Circ_easeIn :: "real \<Rightarrow> real \<Rightarrow> real \<Rightarrow> real \<Rightarrow> real" where
  "Circ_easeIn e t i o' =
     (let e = e / o' in - i * (sqrt (1 - e * e) - 1) + t)"

definition Circ_easeOut :: "real \<Rightarrow> real \<Rightarrow> real \<Rightarrow> real \<Rightarrow> real" where
  "Circ_easeOut e t i o' =
     (let e = e / o' - 1 in i * sqrt (1 - e * e) + t)"

definition Circ_easeInOut :: "real \<Rightarrow> real \<Rightarrow> real \<Rightarrow> real \<Rightarrow> real" where
  "Circ_easeInOut e t i o' =
     (let e = e / (0.5 * o')
      in if e < 1 then 0.5 * - i * (sqrt (1 - e * e) - 1) + t
         else (let e = e - 2 in 0.5 * i * (sqrt (1 - e * e) + 1) + t))"

definition Cubic_easeIn :: "real \<Rightarrow> real \<Rightarrow> real \<Rightarrow> real \<Rightarrow> real" where
  "Cubic_easeIn e t i o' =
     (let e = e / o' in i * e * e * e + t)"

definition Cubic_easeOut :: "real \<Rightarrow> real \<Rightarrow> real \<Rightarrow> real \<Rightarrow> real" where
  "Cubic_easeOut e t i o' =
     (let e = e / o' - 1 in i * (e * e * e + 1) + t)"

definition Cubic_easeInOut :: "real \<Rightarrow> real \<Rightarrow> real \<Rightarrow> real \<Rightarrow> real" where
  "Cubic_easeInOut e t i o' =
     (let e = e / (0.5 * o') in if e < 1 then 0.5 * i * e * e * e + t else (let e = e - 2 in 0.5 * i * (e * e * e + 2) + t))"

definition Elastic_easeIn :: "real \<Rightarrow> real \<Rightarrow> real \<Rightarrow> real \<Rightarrow> real \<Rightarrow> real \<Rightarrow> real" where
  "Elastic_easeIn a r e t i o' =
     (if e = 0 then t
      else (let e = e / o'; r = (if r = 0 then 0.3 * o' else r);
          (a, s) = (if a = 0 \<or> i > 0 \<and> i > a \<or> 0 > i \<and> - i > a then (i, r / 4) else (a, r / (2 * pi) * arcsin (i / a)))
            in if e = 1 then t + i
               else (let e = e - 1 in - (a * 2 powr (10 * e) * sin ((e * o' - s) * (2 * pi) / r)) + t)))"

definition Elastic_easeOut :: "real \<Rightarrow> real \<Rightarrow> real \<Rightarrow> real \<Rightarrow> real \<Rightarrow> real \<Rightarrow> real" where
  "Elastic_easeOut a r e t i o' =
     (if e = 0 then t
      else (let e = e / o'; r = (if r = 0 then 0.3 * o' else r);
          (a, s) = (if a = 0 \<or> i > 0 \<and> i > a \<or> 0 > i \<and> - i > a then (i, r / 4) else (a, r / (2 * pi) * arcsin (i / a)))
            in if e = 1 then t + i
               else a * 2 powr (- 10 * e) * sin ((e * o' - s) * (2 * pi) / r) + i + t))"

definition Elastic_easeInOut :: "real \<Rightarrow> real \<Rightarrow> real \<Rightarrow> real \<Rightarrow> real \<Rightarrow> real \<Rightarrow> real" where
  "Elastic_easeInOut a r e t i o' =
     (if e = 0 then t
      else (let e = e / (0.5 * o'); r = (if r = 0 then o' * (0.3 * 1.5) else r);
          (a, s) = (if a = 0 \<or> i > 0 \<and> i > a \<or> 0 > i \<and> - i > a then (i, r / 4) else (a, r / (2 * pi) * arcsin (i / a)))
            in if e = 2 then t + i
               else (let f = e - 1
                     in if 1 > e then - 0.5 * (a * 2 powr (10 * f) * sin ((f * o' - s) * (2 * pi) / r)) + t
                        else a * 2 powr (- 10 * f) * sin ((f * o' - s) * (2 * pi) / r) * 0.5 + i + t)))"

definition Expo_easeIn :: "real \<Rightarrow> real \<Rightarrow> real \<Rightarrow> real \<Rightarrow> real" where
  "Expo_easeIn e t i o' =
     (if e = 0 then t else i * 2 powr (10 * (e / o' - 1)) + t - 0.001 * i)"

definition Expo_easeOut :: "real \<Rightarrow> real \<Rightarrow> real \<Rightarrow> real \<Rightarrow> real" where
  "Expo_easeOut e t i o' =
     (if e = o' then t + i else i * (- (2 powr (- 10 * e / o')) + 1) + t)"

definition Expo_easeInOut :: "real \<Rightarrow> real \<Rightarrow> real \<Rightarrow> real \<Rightarrow> real" where
  "Expo_easeInOut e t i o' =
     (if e = 0 then t
      else if e = o' then t + i
      else (let e = e / (0.5 * o')
            in if e < 1 then 0.5 * i * 2 powr (10 * (e - 1)) + t
               else (let e = e - 1 in 0.5 * i * (- (2 powr (- 10 * e)) + 2) + t)))"

definition IntegerSine_easeIn :: "real \<Rightarrow> real \<Rightarrow> real \<Rightarrow> real \<Rightarrow> real" where
  "IntegerSine_easeIn e t i o' =
     - i * cos (e / o' * (0.5 * pi)) + i + t"

definition IntegerSine_easeOut :: "real \<Rightarrow> real \<Rightarrow> real \<Rightarrow> real \<Rightarrow> real" where
  "IntegerSine_easeOut e t i o' =
     i * sin (e / o' * (0.5 * pi)) + t"

definition IntegerSine_easeInOut :: "real \<Rightarrow> real \<Rightarrow> real \<Rightarrow> real \<Rightarrow> real" where
  "IntegerSine_easeInOut e t i o' =
     0.5 * - i * (cos (pi * e / o') - 1) + t"

definition Linear_easeNone :: "real \<Rightarrow> real \<Rightarrow> real \<Rightarrow> real \<Rightarrow> real" where
  "Linear_easeNone e t i o' =
     i * e / o' + t"

definition Linear_easeIn :: "real \<Rightarrow> real \<Rightarrow> real \<Rightarrow> real \<Rightarrow> real" where
  "Linear_easeIn e t i o' =
     i * e / o' + t"

definition Linear_easeOut :: "real \<Rightarrow> real \<Rightarrow> real \<Rightarrow> real \<Rightarrow> real" where
  "Linear_easeOut e t i o' =
     i * e / o' + t"

definition Linear_easeInOut :: "real \<Rightarrow> real \<Rightarrow> real \<Rightarrow> real \<Rightarrow> real" where
  "Linear_easeInOut e t i o' =
     i * e / o' + t"

definition Quad_easeIn :: "real \<Rightarrow> real \<Rightarrow> real \<Rightarrow> real \<Rightarrow> real" where
  "Quad_easeIn e t i o' =
     (let e = e / o' in i * e * e + t)"

definition Quad_easeOut :: "real \<Rightarrow> real \<Rightarrow> real \<Rightarrow> real \<Rightarrow> real" where
  "Quad_easeOut e t i o' =
     (let e = e / o' in - i * e * (e - 2) + t)"

definition Quad_easeInOut :: "real \<Rightarrow> real \<Rightarrow> real \<Rightarrow> real \<Rightarrow> real" where
  "Quad_easeInOut e t i o' =
     (let e = e / (0.5 * o')
      in if e < 1 then 0.5 * i * e * e + t
         else (let e = e - 1 in 0.5 * - i * (e * (e - 2) - 1) + t))"

definition Quart_easeIn :: "real \<Rightarrow> real \<Rightarrow> real \<Rightarrow> real \<Rightarrow> real" where
  "Quart_easeIn e t i o' =
     (let e = e / o' in i * e * e * e * e + t)"

definition Quart_easeOut :: "real \<Rightarrow> real \<Rightarrow> real \<Rightarrow> real \<Rightarrow> real" where
  "Quart_easeOut e t i o' =
     (let e = e / o' - 1 in - i * (e * e * e * e - 1) + t)"

definition Quart_easeInOut :: "real \<Rightarrow> real \<Rightarrow> real \<Rightarrow> real \<Rightarrow> real" where
  "Quart_easeInOut e t i o' =
     (let e = e / (0.5 * o') in if e < 1 then 0.5 * i * e * e * e * e + t else (let e = e - 2 in 0.5 * - i * (e * e * e * e - 2) + t))"

definition Quint_easeIn :: "real \<Rightarrow> real \<Rightarrow> real \<Rightarrow> real \<Rightarrow> real" where
  "Quint_easeIn e t i o' =
     (let e = e / o' in i * e * e * e * e * e + t)"

definition Quint_easeOut :: "real \<Rightarrow> real \<Rightarrow> real \<Rightarrow> real \<Rightarrow> real" where
  "Quint_easeOut e t i o' =
     (let e = e / o' - 1 in i * (e * e * e * e * e + 1) + t)"

definition Quint_easeInOut :: "real \<Rightarrow> real \<Rightarrow> real \<Rightarrow> real \<Rightarrow> real" where
  "Quint_easeInOut e t i o' =
     (let e = e / (0.5 * o') in if e < 1 then 0.5 * i * e * e * e * e * e + t else (let e = e - 2 in 0.5 * i * (e * e * e * e * e + 2) + t))"

definition Sine_easeIn :: "real \<Rightarrow> real \<Rightarrow> real \<Rightarrow> real \<Rightarrow> real" where
  "Sine_easeIn e t i o' =
     - i * cos (e / o' * (0.5 * pi)) + i + t"

definition Sine_easeOut :: "real \<Rightarrow> real \<Rightarrow> real \<Rightarrow> real \<Rightarrow> real" where
  "Sine_easeOut e t i o' =
     i * sin (e / o' * (0.5 * pi)) + t"

definition Sine_easeInOut :: "real \<Rightarrow> real \<Rightarrow> real \<Rightarrow> real \<Rightarrow> real" where
  "Sine_easeInOut e t i o' =
     0.5 * - i * (cos (pi * e / o') - 1) + t"

definition Strong_easeIn :: "real \<Rightarrow> real \<Rightarrow> real \<Rightarrow> real \<Rightarrow> real" where
  "Strong_easeIn e t i o' =
     (let e = e / o' in i * e * e * e * e * e + t)"

definition Strong_easeOut :: "real \<Rightarrow> real \<Rightarrow> real \<Rightarrow> real \<Rightarrow> real" where
  "Strong_easeOut e t i o' =
     (let e = e / o' - 1 in i * (e * e * e * e * e + 1) + t)"

definition Strong_easeInOut :: "real \<Rightarrow> real \<Rightarrow> real \<Rightarrow> real \<Rightarrow> real" where
  "Strong_easeInOut e t i o' =
     (let e = e / (0.5 * o') in if e < 1 then 0.5 * i * e * e * e * e * e + t else (let e = e - 2 in 0.5 * i * (e * e * e * e * e + 2) + t))"

section \<open>Where they start and end\<close>

text \<open>What a tween relies on: the value before the step at its start, the value after it at its end.\<close>

definition ease_ok :: "(real \<Rightarrow> real \<Rightarrow> real \<Rightarrow> real \<Rightarrow> real) \<Rightarrow> bool" where
  "ease_ok f \<longleftrightarrow> (\<forall>t i d. d > 0 \<longrightarrow> f 0 t i d = t \<and> f d t i d = t + i)"

text \<open>Every easing function with its default arguments, but one.\<close>

definition easings :: "(real \<Rightarrow> real \<Rightarrow> real \<Rightarrow> real \<Rightarrow> real) list" where
  "easings =
    [Back_easeIn 1.70158, Back_easeOut 1.70158, Back_easeInOut 1.70158, Back_easeOutExtra 8, Bounce_easeOut,
     Bounce_easeIn, Bounce_easeInOut, Circ_easeIn, Circ_easeOut, Circ_easeInOut, Cubic_easeIn, Cubic_easeOut,
     Cubic_easeInOut, Elastic_easeIn 0 0, Elastic_easeOut 0 0, Elastic_easeInOut 0 0, Expo_easeOut,
     Expo_easeInOut, IntegerSine_easeIn, IntegerSine_easeOut, IntegerSine_easeInOut, Linear_easeNone,
     Linear_easeIn, Linear_easeOut, Linear_easeInOut, Quad_easeIn, Quad_easeOut, Quad_easeInOut, Quart_easeIn,
     Quart_easeOut, Quart_easeInOut, Quint_easeIn, Quint_easeOut, Quint_easeInOut, Sine_easeIn, Sine_easeOut,
     Sine_easeInOut, Strong_easeIn, Strong_easeOut, Strong_easeInOut]"

lemma ease_okI: "(\<And>t i d. d > 0 \<Longrightarrow> f 0 t i d = t) \<Longrightarrow> (\<And>t i d. d > 0 \<Longrightarrow> f d t i d = t + i) \<Longrightarrow> ease_ok f"
  by (simp add: ease_ok_def)

lemma Back_easeIn_ok: "ease_ok (Back_easeIn 1.70158)"
  by (rule ease_okI) (simp_all add: Back_easeIn_def Let_def field_simps)

lemma Back_easeOut_ok: "ease_ok (Back_easeOut 1.70158)"
  by (rule ease_okI) (simp_all add: Back_easeOut_def Let_def field_simps)

lemma Back_easeInOut_ok: "ease_ok (Back_easeInOut 1.70158)"
  by (rule ease_okI) (simp_all add: Back_easeInOut_def Let_def field_simps)

lemma Back_easeOutExtra_ok: "ease_ok (Back_easeOutExtra 8)"
  by (rule ease_okI) (simp_all add: Back_easeOutExtra_def Let_def field_simps)

lemma Bounce_easeOut_ok: "ease_ok (Bounce_easeOut)"
  by (rule ease_okI) (simp_all add: Bounce_easeOut_def Let_def field_simps)

lemma Bounce_easeIn_ok: "ease_ok (Bounce_easeIn)"
  by (rule ease_okI) (simp_all add: Bounce_easeIn_def Bounce_easeOut_def Let_def field_simps)

lemma Bounce_easeInOut_ok: "ease_ok (Bounce_easeInOut)"
  by (rule ease_okI) (simp_all add: Bounce_easeInOut_def Bounce_easeIn_def Bounce_easeOut_def Let_def field_simps)

lemma Circ_easeIn_ok: "ease_ok (Circ_easeIn)"
  by (rule ease_okI) (simp_all add: Circ_easeIn_def Let_def field_simps)

lemma Circ_easeOut_ok: "ease_ok (Circ_easeOut)"
  by (rule ease_okI) (simp_all add: Circ_easeOut_def Let_def field_simps)

lemma Circ_easeInOut_ok: "ease_ok (Circ_easeInOut)"
  by (rule ease_okI) (simp_all add: Circ_easeInOut_def Let_def field_simps)

lemma Cubic_easeIn_ok: "ease_ok (Cubic_easeIn)"
  by (rule ease_okI) (simp_all add: Cubic_easeIn_def Let_def field_simps)

lemma Cubic_easeOut_ok: "ease_ok (Cubic_easeOut)"
  by (rule ease_okI) (simp_all add: Cubic_easeOut_def Let_def field_simps)

lemma Cubic_easeInOut_ok: "ease_ok (Cubic_easeInOut)"
  by (rule ease_okI) (simp_all add: Cubic_easeInOut_def Let_def field_simps)

lemma Elastic_easeIn_ok: "ease_ok (Elastic_easeIn 0 0)"
  by (rule ease_okI) (simp_all add: Elastic_easeIn_def Let_def field_simps)

lemma Elastic_easeOut_ok: "ease_ok (Elastic_easeOut 0 0)"
  by (rule ease_okI) (simp_all add: Elastic_easeOut_def Let_def field_simps)

lemma Elastic_easeInOut_ok: "ease_ok (Elastic_easeInOut 0 0)"
  by (rule ease_okI) (simp_all add: Elastic_easeInOut_def Let_def field_simps)

lemma Expo_easeOut_ok: "ease_ok (Expo_easeOut)"
  by (rule ease_okI) (simp_all add: Expo_easeOut_def Let_def field_simps)

lemma Expo_easeInOut_ok: "ease_ok (Expo_easeInOut)"
  by (rule ease_okI) (simp_all add: Expo_easeInOut_def Let_def field_simps)

lemma IntegerSine_easeIn_ok: "ease_ok (IntegerSine_easeIn)"
  by (rule ease_okI) (simp_all add: IntegerSine_easeIn_def Let_def field_simps)

lemma IntegerSine_easeOut_ok: "ease_ok (IntegerSine_easeOut)"
  by (rule ease_okI) (simp_all add: IntegerSine_easeOut_def Let_def field_simps)

lemma IntegerSine_easeInOut_ok: "ease_ok (IntegerSine_easeInOut)"
  by (rule ease_okI) (simp_all add: IntegerSine_easeInOut_def Let_def field_simps)

lemma Linear_easeNone_ok: "ease_ok (Linear_easeNone)"
  by (rule ease_okI) (simp_all add: Linear_easeNone_def Let_def field_simps)

lemma Linear_easeIn_ok: "ease_ok (Linear_easeIn)"
  by (rule ease_okI) (simp_all add: Linear_easeIn_def Let_def field_simps)

lemma Linear_easeOut_ok: "ease_ok (Linear_easeOut)"
  by (rule ease_okI) (simp_all add: Linear_easeOut_def Let_def field_simps)

lemma Linear_easeInOut_ok: "ease_ok (Linear_easeInOut)"
  by (rule ease_okI) (simp_all add: Linear_easeInOut_def Let_def field_simps)

lemma Quad_easeIn_ok: "ease_ok (Quad_easeIn)"
  by (rule ease_okI) (simp_all add: Quad_easeIn_def Let_def field_simps)

lemma Quad_easeOut_ok: "ease_ok (Quad_easeOut)"
  by (rule ease_okI) (simp_all add: Quad_easeOut_def Let_def field_simps)

lemma Quad_easeInOut_ok: "ease_ok (Quad_easeInOut)"
  by (rule ease_okI) (simp_all add: Quad_easeInOut_def Let_def field_simps)

lemma Quart_easeIn_ok: "ease_ok (Quart_easeIn)"
  by (rule ease_okI) (simp_all add: Quart_easeIn_def Let_def field_simps)

lemma Quart_easeOut_ok: "ease_ok (Quart_easeOut)"
  by (rule ease_okI) (simp_all add: Quart_easeOut_def Let_def field_simps)

lemma Quart_easeInOut_ok: "ease_ok (Quart_easeInOut)"
  by (rule ease_okI) (simp_all add: Quart_easeInOut_def Let_def field_simps)

lemma Quint_easeIn_ok: "ease_ok (Quint_easeIn)"
  by (rule ease_okI) (simp_all add: Quint_easeIn_def Let_def field_simps)

lemma Quint_easeOut_ok: "ease_ok (Quint_easeOut)"
  by (rule ease_okI) (simp_all add: Quint_easeOut_def Let_def field_simps)

lemma Quint_easeInOut_ok: "ease_ok (Quint_easeInOut)"
  by (rule ease_okI) (simp_all add: Quint_easeInOut_def Let_def field_simps)

lemma Sine_easeIn_ok: "ease_ok (Sine_easeIn)"
  by (rule ease_okI) (simp_all add: Sine_easeIn_def Let_def field_simps)

lemma Sine_easeOut_ok: "ease_ok (Sine_easeOut)"
  by (rule ease_okI) (simp_all add: Sine_easeOut_def Let_def field_simps)

lemma Sine_easeInOut_ok: "ease_ok (Sine_easeInOut)"
  by (rule ease_okI) (simp_all add: Sine_easeInOut_def Let_def field_simps)

lemma Strong_easeIn_ok: "ease_ok (Strong_easeIn)"
  by (rule ease_okI) (simp_all add: Strong_easeIn_def Let_def field_simps)

lemma Strong_easeOut_ok: "ease_ok (Strong_easeOut)"
  by (rule ease_okI) (simp_all add: Strong_easeOut_def Let_def field_simps)

lemma Strong_easeInOut_ok: "ease_ok (Strong_easeInOut)"
  by (rule ease_okI) (simp_all add: Strong_easeInOut_def Let_def field_simps)


text \<open>\<open>Expo.easeIn\<close> subtracts a thousandth of the change, also at the end.\<close>

lemma Expo_easeIn_short: "d > 0 \<Longrightarrow> Expo_easeIn d t i d = t + 0.999 * i"
  by (simp add: Expo_easeIn_def)

end
