(* ===== verification/Tween.thy ===== *)
theory Tween
  imports Prelude Ease
begin

text \<open>
  A tween (module 47): a sequence of steps that move properties of a target object over time, wait,
  or call a handler, and the advance of a frame.

  A step has the times \<open>st\<close> and \<open>et\<close>; \<open>to\<close> and \<open>from\<close> give one end of the movement, the other one
  is read from the target when the step begins.  The properties of the target are numbers.  The
  code behind the handlers is arbitrary: \<open>H h (p, w)\<close> is what the handler \<open>h\<close> makes of the
  properties \<open>p\<close> and the rest \<open>w\<close> of the world, and whether it removes the tween; \<open>calls\<close> records
  the calls with the index of the current step.  The counter of targets that have left the stage
  only leads to a message and is not modelled, nor is the list of all tweens.
\<close>

section \<open>Steps\<close>

type_synonym propmap = "(string \<times> real) list"
type_synonym props = "string \<Rightarrow> real"
type_synonym ease = "real \<Rightarrow> real \<Rightarrow> real \<Rightarrow> real \<Rightarrow> real"

record 'h tstep =
  st :: int
  et :: int
  sto :: "propmap option"
  sfrom :: "propmap option"
  se :: ease
  sh :: "'h option"

record ('h, 'w) tween =
  steps :: "'h tstep list"
  tloop :: bool
  curIdx :: nat
  curTime :: int
  isComplete :: bool
  ttarget :: props
  outside :: 'w
  calls :: "(nat \<times> 'h) list"

type_synonym ('h, 'w) handlers = "'h \<Rightarrow> props \<times> 'w \<Rightarrow> (props \<times> 'w) \<times> bool"

definition tween_get :: "bool \<Rightarrow> props \<Rightarrow> 'w \<Rightarrow> ('h, 'w) tween" where
  "tween_get l p w = \<lparr>steps = [], tloop = l, curIdx = 0, curTime = 0, isComplete = False, ttarget = p, outside = w, calls = []\<rparr>"

definition checkDuration :: "int \<Rightarrow> int" where
  "checkDuration e = (let e = toInt32 e in if 0 > e then 0 else e)"

definition getTotalTime :: "'h tstep list \<Rightarrow> int" where
  "getTotalTime e = (if e = [] then 0 else et (last e))"

definition copyFrom :: "propmap \<Rightarrow> props \<Rightarrow> propmap" where
  "copyFrom e t = map (\<lambda>(n, _). (n, t n)) e"

section \<open>Building a tween\<close>

definition pushStep :: "int \<Rightarrow> propmap option \<Rightarrow> propmap option \<Rightarrow> ease \<Rightarrow> 'h option \<Rightarrow> ('h, 'w) tween \<Rightarrow> ('h, 'w) tween" where
  "pushStep d t f e h s =
     (let a = getTotalTime (steps s)
      in s\<lparr>steps := steps s @ [\<lparr>st = a, et = a + d, sto = t, sfrom = f, se = e, sh = h\<rparr>]\<rparr>)"

definition tween_to :: "propmap \<Rightarrow> int \<Rightarrow> 'h option \<Rightarrow> ease \<Rightarrow> ('h, 'w) tween \<Rightarrow> ('h, 'w) tween" where
  "tween_to t i o' n s = pushStep (checkDuration i) (Some t) None n o' s"

definition tween_from :: "propmap \<Rightarrow> int \<Rightarrow> 'h option \<Rightarrow> ease \<Rightarrow> ('h, 'w) tween \<Rightarrow> ('h, 'w) tween" where
  "tween_from t i o' n s = pushStep (checkDuration i) None (Some t) n o' s"

definition tween_delay :: "int \<Rightarrow> ('h, 'w) tween \<Rightarrow> ('h, 'w) tween" where
  "tween_delay t s = pushStep (checkDuration t) None None Linear_easeNone None s"

definition tween_exec :: "'h option \<Rightarrow> ('h, 'w) tween \<Rightarrow> ('h, 'w) tween" where
  "tween_exec e s = pushStep 0 None None Linear_easeNone e s"

section \<open>A frame\<close>

definition tween_dispose :: "('h, 'w) tween \<Rightarrow> ('h, 'w) tween" where
  "tween_dispose s = s\<lparr>steps := []\<rparr>"

definition callHandler :: "('h, 'w) handlers \<Rightarrow> 'h option \<Rightarrow> ('h, 'w) tween \<Rightarrow> ('h, 'w) tween" where
  "callHandler H h s =
     (case h of
        None \<Rightarrow> s
      | Some h \<Rightarrow>
          (let ((p, w), gone) = H h (ttarget s, outside s);
               s = s\<lparr>ttarget := p, outside := w, calls := calls s @ [(curIdx s, h)]\<rparr>
           in if gone then tween_dispose s else s))"

text \<open>The ends of the movement that a step fills in when it begins.\<close>

definition beginStep :: "props \<Rightarrow> 'h tstep \<Rightarrow> 'h tstep" where
  "beginStep p o' =
     (let o' = (case (sfrom o', sto o') of (None, Some t) \<Rightarrow> o'\<lparr>sfrom := Some (copyFrom t p)\<rparr> | _ \<Rightarrow> o')
      in case (sfrom o', sto o') of (Some f, None) \<Rightarrow> o'\<lparr>sto := Some (copyFrom f p)\<rparr> | _ \<Rightarrow> o')"

definition moveProps :: "int \<Rightarrow> 'h tstep \<Rightarrow> propmap \<Rightarrow> props \<Rightarrow> props" where
  "moveProps now o' f =
     (let n = (if now > et o' then et o' else now); a = et o' - st o'; r = n - st o'
      in fold (\<lambda>(s, u) p.
           let l = (case map_of f s of Some l \<Rightarrow> l | None \<Rightarrow> 0)
           in p(s := se o' (of_int r) l (u - l) (of_int a))) (case sto o' of None \<Rightarrow> [] | Some t \<Rightarrow> t))"

definition applyCur :: "('h, 'w) handlers \<Rightarrow> bool \<Rightarrow> ('h, 'w) tween \<Rightarrow> ('h, 'w) tween" where
  "applyCur H t s =
     (if curIdx s < length (steps s) then
        (let o' = steps s ! curIdx s
         in if t \<and> sto o' = None \<and> sfrom o' = None then callHandler H (sh o') s
            else (let o' = (if t then beginStep (ttarget s) o' else o');
                      s = s\<lparr>steps := (steps s)[curIdx s := o']\<rparr>
                  in case sfrom o' of
                       None \<Rightarrow> s
                     | Some f \<Rightarrow> callHandler H (sh o') (s\<lparr>ttarget := moveProps (curTime s) o' f (ttarget s)\<rparr>)))
      else s)"

text \<open>The loop over the steps that the frame finishes; \<open>None\<close> would be an endless loop.\<close>

partial_function (option) stepLoop :: "('h, 'w) handlers \<Rightarrow> nat \<Rightarrow> int \<Rightarrow> ('h, 'w) tween \<Rightarrow> ('h, 'w) tween option" where
  "stepLoop H i o' s =
     (if curIdx s < length (steps s) \<and> curTime s \<ge> et (steps s ! curIdx s) then
        if curIdx s = i then
          if \<not> tloop s then Some (s\<lparr>isComplete := True, curTime := o'\<rparr>)
          else stepLoop H i o' (s\<lparr>curTime := curTime s - o', curIdx := 0\<rparr>)
        else stepLoop H i o' (applyCur H True (s\<lparr>curIdx := curIdx s + 1\<rparr>))
      else Some s)"

declare stepLoop.simps [code]

definition advanceTime :: "('h, 'w) handlers \<Rightarrow> int \<Rightarrow> ('h, 'w) tween \<Rightarrow> ('h, 'w) tween option" where
  "advanceTime H e s =
     (if 0 \<ge> e \<or> isComplete s then Some s
      else if steps s = [] then Some s
      else (let i = length (steps s) - 1;
                o' = getTotalTime (steps s);
                s = (if tloop s \<and> curTime s \<ge> o' then s\<lparr>curTime := 0, curIdx := 0\<rparr> else s);
                s = applyCur H (0 = curTime s) s
            in if curTime s < o' then
                 (case stepLoop H i o' (applyCur H False (s\<lparr>curTime := curTime s + e\<rparr>)) of
                    None \<Rightarrow> None
                  | Some s \<Rightarrow> Some (if curIdx s = i \<and> curTime s = o' then s\<lparr>isComplete := True\<rparr> else s))
               else Some s))"

end
