(* ===== verification/TweenProps.thy ===== *)
theory TweenProps
  imports Tween
begin

text \<open>
  The frames of a tween: every frame returns, whatever the handlers do; and a tween that does not
  loop is where it should be at every time, however that time is divided into frames.
\<close>

section \<open>The steps of a tween\<close>

definition isTimed :: "'h tstep \<Rightarrow> bool" where
  "isTimed k \<longleftrightarrow> sto k \<noteq> None \<or> sfrom k \<noteq> None"

fun chain :: "int \<Rightarrow> 'h tstep list \<Rightarrow> bool" where
  "chain a [] = True"
| "chain a (k # ks) = (st k = a \<and> a \<le> et k \<and> chain (et k) ks)"

lemma chain_append: "chain a (xs @ ys) = (chain a xs \<and> chain (if xs = [] then a else et (last xs)) ys)"
  by (induction xs arbitrary: a) auto

text \<open>Every tween that the operations build is a chain.\<close>

lemma pushStep_chain: "chain 0 (steps s) \<Longrightarrow> 0 \<le> d \<Longrightarrow> chain 0 (steps (pushStep d t f e h s))"
  by (simp add: pushStep_def Let_def chain_append getTotalTime_def)

lemma built_chain:
  assumes "chain 0 (steps s)"
  shows "chain 0 (steps (tween_to t i o' n s))" "chain 0 (steps (tween_from t i o' n s))"
    "chain 0 (steps (tween_delay i s))" "chain 0 (steps (tween_exec o' s))"
  using assms by (simp_all add: tween_to_def tween_from_def tween_delay_def tween_exec_def pushStep_chain checkDuration_def Let_def)

lemma chain_start: "chain a ks \<Longrightarrow> j < length ks \<Longrightarrow> st (ks ! j) = (if j = 0 then a else et (ks ! (j - 1)))"
  by (induction ks arbitrary: a j) (auto simp: nth_Cons split: nat.splits)

lemma chain_ends:
  assumes "chain a ks" "i \<le> j" "j < length ks"
  shows "et (ks ! i) \<le> et (ks ! j)" and "a \<le> et (ks ! j)"
proof -
  have "a \<le> et (ks ! j) \<and> (i \<le> j \<longrightarrow> et (ks ! i) \<le> et (ks ! j))"
    using assms(1,3)
  proof (induction ks arbitrary: a i j)
    case (Cons k ks)
    show ?case
    proof (cases j)
      case 0
      with Cons.prems show ?thesis by simp
    next
      case (Suc j')
      have "et k \<le> et (ks ! j') \<and> (i - 1 \<le> j' \<longrightarrow> et (ks ! (i - 1)) \<le> et (ks ! j'))"
        using Cons.IH [of "et k" j' "i - 1"] Cons.prems Suc by simp
      with Suc Cons.prems show ?thesis by (cases i) auto
    qed
  qed simp
  with assms(2) show "et (ks ! i) \<le> et (ks ! j)" "a \<le> et (ks ! j)" by auto
qed

lemma total_last: "ks \<noteq> [] \<Longrightarrow> getTotalTime ks = et (ks ! (length ks - 1))"
  by (simp add: getTotalTime_def last_conv_nth)

section \<open>Every frame returns\<close>

lemma beginStep_et [simp]: "et (beginStep p k) = et k" "st (beginStep p k) = st k"
  by (simp_all add: beginStep_def Let_def split: option.split)

lemma callHandler_frame:
  "curIdx (callHandler H h s) = curIdx s" "curTime (callHandler H h s) = curTime s" "tloop (callHandler H h s) = tloop s"
  "steps (callHandler H h s) = [] \<or> steps (callHandler H h s) = steps s"
  by (simp_all add: callHandler_def tween_dispose_def Let_def case_prod_beta split: option.split)

lemma applyCur_frame:
  "curIdx (applyCur H t s) = curIdx s" "curTime (applyCur H t s) = curTime s" "tloop (applyCur H t s) = tloop s"
  by (simp_all add: applyCur_def Let_def callHandler_frame split: option.split)

lemma applyCur_steps: "steps (applyCur H t s) = [] \<or> map et (steps (applyCur H t s)) = map et (steps s)"
proof -
  have e: "map et ((steps s)[curIdx s := if t then beginStep (ttarget s) (steps s ! curIdx s) else steps s ! curIdx s]) = map et (steps s)"
    by (cases "curIdx s < length (steps s)") (simp_all add: map_update list_update_same_conv list_update_beyond)
  have c: "steps (callHandler H h v) = [] \<or> map et (steps (callHandler H h v)) = map et (steps s)"
    if "map et (steps v) = map et (steps s)" for h v
    using callHandler_frame(4) [of H h v] that by auto
  show ?thesis
    unfolding applyCur_def Let_def using e by (auto split: option.split intro!: c)
qed

definition frameInv :: "nat \<Rightarrow> ('h, 'w) tween \<Rightarrow> bool" where
  "frameInv i s \<longleftrightarrow> (steps s = [] \<or> length (steps s) = Suc i) \<and> curIdx s \<le> i \<and> 0 \<le> curTime s"

lemma stepLoop_returns:
  assumes "steps s = [] \<or> length (steps s) = Suc i \<and> et (steps s ! i) = o'" "0 < o'" "curIdx s \<le> i" "0 \<le> curTime s"
  shows "\<exists>t. stepLoop H i o' s = Some t \<and> frameInv i t"
  using assms
proof (induction "nat (curTime s) * Suc i + (i - curIdx s)" arbitrary: s rule: less_induct)
  case less
  show ?case
  proof (cases "curIdx s < length (steps s) \<and> curTime s \<ge> et (steps s ! curIdx s)")
    case True
    then have l: "length (steps s) = Suc i" "et (steps s ! i) = o'" using less.prems(1) by auto
    show ?thesis
    proof (cases "curIdx s = i")
      case at: True
      show ?thesis
      proof (cases "tloop s")
        case lo: True
        define v where "v = s\<lparr>curTime := curTime s - o', curIdx := 0\<rparr>"
        have c: "o' \<le> curTime s" using True at l by simp
        have "nat (curTime s - o') + 1 \<le> nat (curTime s)" using c less.prems(2) by simp
        then have "(nat (curTime s - o') + 1) * Suc i \<le> nat (curTime s) * Suc i" by (rule mult_le_mono1)
        then have "nat (curTime v) * Suc i + (i - curIdx v) < nat (curTime s) * Suc i + (i - curIdx s)"
          by (simp add: v_def at)
        then have "\<exists>t. stepLoop H i o' v = Some t \<and> frameInv i t"
          by (rule less.hyps) (use l c less.prems in \<open>simp_all add: v_def\<close>)
        moreover have "stepLoop H i o' s = stepLoop H i o' v" using True at lo by (subst stepLoop.simps) (simp add: v_def)
        ultimately show ?thesis by simp
      next
        case False
        with True at have "stepLoop H i o' s = Some (s\<lparr>isComplete := True, curTime := o'\<rparr>)" by (subst stepLoop.simps) simp
        with l at less.prems(2) show ?thesis by (simp add: frameInv_def)
      qed
    next
      case False
      define v where "v = applyCur H True (s\<lparr>curIdx := curIdx s + 1\<rparr>)"
      have v: "curIdx v = curIdx s + 1" "curTime v = curTime s" by (simp_all add: v_def applyCur_frame)
      have "steps v = [] \<or> map et (steps v) = map et (steps s)"
        using applyCur_steps [of H True "s\<lparr>curIdx := curIdx s + 1\<rparr>"] by (simp add: v_def)
      then have "steps v = [] \<or> length (steps v) = Suc i \<and> et (steps v ! i) = o'"
        using l by (metis length_map lessI nth_map)
      moreover have "nat (curTime v) * Suc i + (i - curIdx v) < nat (curTime s) * Suc i + (i - curIdx s)"
        using False less.prems(3) by (simp add: v)
      ultimately have "\<exists>t. stepLoop H i o' v = Some t \<and> frameInv i t" using less.hyps [of v] less.prems False by (simp add: v)
      moreover have "stepLoop H i o' s = stepLoop H i o' v" using True False by (subst stepLoop.simps) (simp add: v_def)
      ultimately show ?thesis by simp
    qed
  next
    case False
    then have "stepLoop H i o' s = Some s" by (subst stepLoop.simps) auto
    with less.prems show ?thesis by (auto simp: frameInv_def)
  qed
qed

text \<open>The phases of a frame that is not skipped.\<close>

lemma advanceTime_eq:
  assumes "v = (if tloop s \<and> curTime s \<ge> getTotalTime (steps s) then s\<lparr>curTime := 0, curIdx := 0\<rparr> else s)"
    and "w = applyCur H (0 = curTime v) v" "x = applyCur H False (w\<lparr>curTime := curTime w + e\<rparr>)"
    and "0 < e" "\<not> isComplete s" "length (steps s) = Suc i"
  shows "advanceTime H e s = (if curTime w < getTotalTime (steps s) then
      (case stepLoop H i (getTotalTime (steps s)) x of
         None \<Rightarrow> None
       | Some s' \<Rightarrow> Some (if curIdx s' = i \<and> curTime s' = getTotalTime (steps s) then s'\<lparr>isComplete := True\<rparr> else s'))
      else Some w)"
proof -
  have "length (steps s) - 1 = i" "\<not> (0 \<ge> e \<or> isComplete s)" "steps s \<noteq> []" using assms(4-6) by auto
  then show ?thesis unfolding advanceTime_def Let_def assms(1-3) by (simp only: if_False)
qed

lemma advanceTime_returns:
  assumes "frameInv i s"
  shows "\<exists>t. advanceTime H e s = Some t \<and> frameInv i t"
proof (cases "0 \<ge> e \<or> isComplete s \<or> steps s = []")
  case True
  with assms show ?thesis by (auto simp: advanceTime_def)
next
  case False
  define o' where "o' = getTotalTime (steps s)"
  define v where "v = (if tloop s \<and> curTime s \<ge> o' then s\<lparr>curTime := 0, curIdx := 0\<rparr> else s)"
  define w where "w = applyCur H (0 = curTime v) v"
  define x where "x = applyCur H False (w\<lparr>curTime := curTime w + e\<rparr>)"
  have l: "length (steps s) = Suc i" "et (steps s ! i) = o'" using assms False by (auto simp: frameInv_def o'_def total_last)
  have c: "0 \<le> curTime w" "curIdx w \<le> i" using assms by (auto simp: w_def v_def applyCur_frame frameInv_def)
  have vs: "steps v = steps s" by (simp add: v_def)
  have sw: "steps w = [] \<or> map et (steps w) = map et (steps s)" using applyCur_steps [of H "0 = curTime v" v] by (simp add: w_def vs)
  then have sx: "steps x = [] \<or> map et (steps x) = map et (steps s)"
    using applyCur_steps [of H False "w\<lparr>curTime := curTime w + e\<rparr>"] by (auto simp: x_def)
  have same: "length ks = Suc i \<and> et (ks ! i) = o'" if "map et ks = map et (steps s)" for ks :: "'a tstep list"
    using that l by (metis length_map lessI nth_map)
  have "steps x = [] \<or> length (steps x) = Suc i \<and> et (steps x ! i) = o'" using sx same by blast
  moreover have "curIdx x \<le> i" "0 \<le> curTime x" using c False by (simp_all add: x_def applyCur_frame)
  ultimately have x: "curTime w < o' \<Longrightarrow> \<exists>t. stepLoop H i o' x = Some t \<and> frameInv i t"
    using stepLoop_returns [of x i o' H] c(1) by simp
  have "advanceTime H e s = (if curTime w < o' then
      (case stepLoop H i o' x of None \<Rightarrow> None | Some s \<Rightarrow> Some (if curIdx s = i \<and> curTime s = o' then s\<lparr>isComplete := True\<rparr> else s))
      else Some w)"
    unfolding o'_def by (rule advanceTime_eq [OF v_def [unfolded o'_def] w_def x_def]) (use False l(1) in auto)
  moreover have "frameInv i w" using c sw same by (auto simp: frameInv_def)
  ultimately show ?thesis using x by (cases "curTime w < o'") (auto simp: frameInv_def)
qed

primrec runFrames :: "('h, 'w) handlers \<Rightarrow> int list \<Rightarrow> ('h, 'w) tween \<Rightarrow> ('h, 'w) tween option" where
  "runFrames H [] s = Some s"
| "runFrames H (d # ds) s = (case advanceTime H d s of None \<Rightarrow> None | Some t \<Rightarrow> runFrames H ds t)"

text \<open>C30: Every frame of every tween returns, of one that loops too, whatever times its steps have and
  whatever the handlers do to the target or to the tween itself.\<close>

theorem frames_return:
  "\<exists>t. runFrames H ds ((tween_get l p w)\<lparr>steps := ks\<rparr>) = Some t"
proof -
  have "frameInv (length ks - 1) s \<Longrightarrow> \<exists>t. runFrames H ds s = Some t" for s
  proof (induction ds arbitrary: s)
    case (Cons d ds)
    then show ?case using advanceTime_returns [OF Cons.prems, of H d] by auto
  qed simp
  moreover have "frameInv (length ks - 1) ((tween_get l p w)\<lparr>steps := ks\<rparr>)"
    by (cases ks) (simp_all add: frameInv_def tween_get_def)
  ultimately show ?thesis by blast
qed

section \<open>Where a tween is at a time\<close>

text \<open>The properties during a step that began with \<open>p\<close>, after it, and at a time of the whole tween.\<close>

definition interp :: "'h tstep \<Rightarrow> int \<Rightarrow> props \<Rightarrow> props" where
  "interp k t p = (if isTimed k then moveProps t (beginStep p k) (the (sfrom (beginStep p k))) p else p)"

definition finish :: "'h tstep \<Rightarrow> props \<Rightarrow> props" where
  "finish k p = interp k (et k) p"

fun posAt :: "'h tstep list \<Rightarrow> int \<Rightarrow> props \<Rightarrow> props" where
  "posAt [] t p = p"
| "posAt (k # ks) t p = (if t < et k then interp k t p else posAt ks t (finish k p))"

text \<open>The handlers among the given steps that stand alone, with their indices.\<close>

definition execs :: "'h tstep list \<Rightarrow> nat list \<Rightarrow> (nat \<times> 'h) list" where
  "execs ks js = concat (map (\<lambda>j. case sh (ks ! j) of None \<Rightarrow> [] | Some h \<Rightarrow> if isTimed (ks ! j) then [] else [(j, h)]) js)"

text \<open>Handlers that neither touch the target nor remove the tween.\<close>

definition quiet :: "('h, 'w) handlers \<Rightarrow> bool" where
  "quiet H \<longleftrightarrow> (\<forall>h p w. fst (fst (H h (p, w))) = p \<and> \<not> snd (H h (p, w)))"

lemma callHandler_quiet:
  assumes "quiet H"
  shows "ttarget (callHandler H h s) = ttarget s" "steps (callHandler H h s) = steps s" "isComplete (callHandler H h s) = isComplete s"
    "calls (callHandler H h s) = calls s @ map (Pair (curIdx s)) (case h of None \<Rightarrow> [] | Some h \<Rightarrow> [h])"
  using assms by (auto simp: callHandler_def quiet_def Let_def case_prod_beta split: option.split)

lemma beginStep_timed:
  assumes "isTimed k"
  shows "\<exists>f t. sfrom (beginStep p k) = Some f \<and> sto (beginStep p k) = Some t"
    and "sh (beginStep p k) = sh k" "se (beginStep p k) = se k"
  using assms by (auto simp: beginStep_def isTimed_def Let_def split: option.split)

lemma fold_upd: "fold (\<lambda>(s, u) p. p(s := g s u)) l p x = (case map_of (rev l) x of None \<Rightarrow> p x | Some u \<Rightarrow> g x u)"
  by (induction l arbitrary: p rule: rev_induct) (auto split: option.split)

lemma moveProps_upd:
  "moveProps t k f p = fold (\<lambda>(s, u) p. p(s := se k (of_int ((if t > et k then et k else t) - st k))
     (case map_of f s of Some l \<Rightarrow> l | None \<Rightarrow> 0) (u - (case map_of f s of Some l \<Rightarrow> l | None \<Rightarrow> 0)) (of_int (et k - st k))))
     (case sto k of None \<Rightarrow> [] | Some t \<Rightarrow> t) p"
  by (simp add: moveProps_def Let_def)

lemma moveProps_again: "moveProps t k f (moveProps t' k f p) = moveProps t k f p"
  unfolding moveProps_upd by (rule ext, unfold fold_upd) (simp split: option.split)

lemma interp_late: "et k \<le> t \<Longrightarrow> interp k t p = finish k p"
  by (auto simp: interp_def finish_def moveProps_def Let_def)

section \<open>One step at a time\<close>

text \<open>The step \<open>k\<close> of the tween \<open>ks\<close> has begun and its time is \<open>t\<close>.\<close>

definition before :: "'h tstep list \<Rightarrow> nat \<Rightarrow> props \<Rightarrow> props" where
  "before ks k p = fold finish (take k ks) p"

definition entered :: "'h tstep \<Rightarrow> props \<Rightarrow> 'h tstep" where
  "entered k p = (if isTimed k then beginStep p k else k)"

definition inStep :: "'h tstep list \<Rightarrow> props \<Rightarrow> nat \<Rightarrow> int \<Rightarrow> ('h, 'w) tween \<Rightarrow> bool" where
  "inStep ks p k t s \<longleftrightarrow> k < length ks \<and> curIdx s = k \<and> curTime s = t \<and> \<not> tloop s \<and> \<not> isComplete s \<and>
     map et (steps s) = map et ks \<and> steps s ! k = entered (ks ! k) (before ks k p) \<and>
     drop (Suc k) (steps s) = drop (Suc k) ks \<and> ttarget s = interp (ks ! k) t (before ks k p) \<and>
     filter (\<lambda>(j, h). \<not> isTimed (ks ! j)) (calls s) = execs ks [0..<Suc k]"

text \<open>Beginning a step.\<close>

lemma begin_step:
  assumes q: "quiet H" and k: "k < length ks" "curIdx s = k" "\<not> tloop s" "\<not> isComplete s"
    and st: "map et (steps s) = map et ks" "drop k (steps s) = drop k ks" and p: "ttarget s = before ks k p"
    and c: "filter (\<lambda>(j, h). \<not> isTimed (ks ! j)) (calls s) = execs ks [0..<k]"
  shows "inStep ks p k (curTime s) (applyCur H True s)"
proof -
  have l: "length (steps s) = length ks" using st(1) by (metis length_map)
  have n: "steps s ! k = ks ! k" "drop (Suc k) (steps s) = drop (Suc k) ks"
    using st(2) k(1) l by (metis nth_via_drop Cons_nth_drop_Suc, metis drop_Suc tl_drop drop_drop)
  define v where "v = (if isTimed (ks ! k) then s\<lparr>steps := (steps s)[k := beginStep (ttarget s) (ks ! k)],
      ttarget := interp (ks ! k) (curTime s) (ttarget s)\<rparr> else s)"
  have v: "steps v ! k = entered (ks ! k) (before ks k p)" "drop (Suc k) (steps v) = drop (Suc k) ks" "map et (steps v) = map et ks"
      "ttarget v = interp (ks ! k) (curTime s) (before ks k p)" "curIdx v = k" "calls v = calls s"
      "curTime v = curTime s" "\<not> tloop v" "\<not> isComplete v"
    using k l n st(1) p by (auto simp: v_def entered_def map_update interp_def list_update_same_conv)
  have "applyCur H True s = callHandler H (sh (ks ! k)) v"
  proof (cases "isTimed (ks ! k)")
    case True
    then obtain f where f: "sfrom (beginStep (ttarget s) (ks ! k)) = Some f" using beginStep_timed by blast
    have "\<not> (sto (ks ! k) = None \<and> sfrom (ks ! k) = None)" using True by (simp add: isTimed_def)
    with True f k l n(1) beginStep_timed(2) [OF True] show ?thesis
      by (auto simp: applyCur_def Let_def v_def interp_def)
  next
    case False
    with k l n(1) show ?thesis by (simp add: applyCur_def v_def isTimed_def)
  qed
  moreover have "filter (\<lambda>(j, h). \<not> isTimed (ks ! j)) (calls s @ map (Pair k) (case sh (ks ! k) of None \<Rightarrow> [] | Some h \<Rightarrow> [h])) = execs ks [0..<Suc k]"
    using c by (auto simp: execs_def split: option.split)
  ultimately show ?thesis
    using k(1) v by (simp add: inStep_def callHandler_quiet [OF q] callHandler_frame)
qed

lemma stay_step:
  assumes q: "quiet H" and s: "inStep ks p k t s"
  shows "inStep ks p k t' (applyCur H False (s\<lparr>curTime := t'\<rparr>))"
proof -
  note s' = s [unfolded inStep_def]
  have l: "length (steps s) = length ks" using s' by (metis length_map)
  have i: "curIdx s = k" "k < length (steps s)" using s' l by simp_all
  let ?k = "steps s ! k"
  show ?thesis
  proof (cases "isTimed (ks ! k)")
    case True
    then have e: "?k = beginStep (before ks k p) (ks ! k)" using s' by (simp add: entered_def)
    obtain f where f: "sfrom ?k = Some f" using beginStep_timed(1) [OF True] e by metis
    define v where "v = s\<lparr>curTime := t', ttarget := moveProps t' ?k f (ttarget s)\<rparr>"
    have a: "applyCur H False (s\<lparr>curTime := t'\<rparr>) = callHandler H (sh ?k) v"
      using i f by (simp add: applyCur_def Let_def v_def)
    have "ttarget v = interp (ks ! k) t' (before ks k p)"
      using s' True f e by (simp add: v_def interp_def moveProps_again)
    moreover have "filter (\<lambda>(j, h). \<not> isTimed (ks ! j)) (calls s @ map (Pair k) (case sh ?k of None \<Rightarrow> [] | Some h \<Rightarrow> [h])) = execs ks [0..<Suc k]"
      using s' True by (simp split: option.split)
    ultimately show ?thesis
      using s' unfolding a by (simp add: inStep_def callHandler_quiet [OF q] callHandler_frame v_def)
  next
    case False
    then have "sfrom ?k = None" using s' by (simp add: entered_def isTimed_def)
    then have "applyCur H False (s\<lparr>curTime := t'\<rparr>) = s\<lparr>curTime := t'\<rparr>"
      using i by (simp add: applyCur_def Let_def)
    with s' False show ?thesis by (simp add: inStep_def interp_def)
  qed
qed

lemma next_step:
  assumes q: "quiet H" and s: "inStep ks p k t s" and k: "Suc k < length ks" "et (ks ! k) \<le> t"
  shows "inStep ks p (Suc k) t (applyCur H True (s\<lparr>curIdx := Suc k\<rparr>))"
proof -
  note s' = s [unfolded inStep_def]
  have "before ks (Suc k) p = interp (ks ! k) t (before ks k p)"
    using k by (simp add: before_def take_Suc_conv_app_nth interp_late)
  then show ?thesis
    using begin_step [OF q k(1), of "s\<lparr>curIdx := Suc k\<rparr>" p] s' by simp
qed

lemma loop_steps:
  assumes q: "quiet H" and s: "inStep ks p k t s" "\<forall>j<k. et (ks ! j) \<le> t"
  shows "\<exists>u m. stepLoop H (length ks - 1) o' s = Some u \<and> (\<forall>j<m. et (ks ! j) \<le> t) \<and>
    (if isComplete u then Suc m = length ks \<and> et (ks ! m) \<le> t \<and> curTime u = o' \<and> inStep ks p m t (u\<lparr>isComplete := False, curTime := t\<rparr>)
     else t < et (ks ! m) \<and> inStep ks p m t u)"
  using s
proof (induction "length ks - k" arbitrary: k s rule: less_induct)
  case less
  note s' = less.prems(1) [unfolded inStep_def]
  have l: "length (steps s) = length ks" using s' by (metis length_map)
  have e: "et (steps s ! k) = et (ks ! k)" using s' l by (metis nth_map)
  show ?case
  proof (cases "et (ks ! k) \<le> t")
    case late: True
    show ?thesis
    proof (cases "Suc k = length ks")
      case True
      then have "stepLoop H (length ks - 1) o' s = Some (s\<lparr>isComplete := True, curTime := o'\<rparr>)"
        using s' l e late by (subst stepLoop.simps) auto
      moreover have "s\<lparr>isComplete := False, curTime := t\<rparr> = s" using s' by (cases s) simp
      ultimately show ?thesis using True late less.prems by (intro exI [of _ "s\<lparr>isComplete := True, curTime := o'\<rparr>"] exI [of _ k]) simp
    next
      case False
      then have k: "Suc k < length ks" using s' by simp
      define v where "v = applyCur H True (s\<lparr>curIdx := Suc k\<rparr>)"
      have "inStep ks p (Suc k) t v" unfolding v_def by (rule next_step [OF q less.prems(1) k late])
      moreover have "\<forall>j<Suc k. et (ks ! j) \<le> t" using less.prems(2) late less_Suc_eq by auto
      moreover have "stepLoop H (length ks - 1) o' s = stepLoop H (length ks - 1) o' v"
        using s' l e late False by (subst stepLoop.simps) (auto simp: v_def)
      ultimately show ?thesis using less.hyps [of "Suc k" v] k by simp
    qed
  next
    case False
    then have "stepLoop H (length ks - 1) o' s = Some s" using s' e by (subst stepLoop.simps) auto
    with False less.prems s' show ?thesis by (intro exI [of _ s] exI [of _ k]) simp
  qed
qed

section \<open>Frames\<close>

text \<open>The state of a tween at the time \<open>t\<close> after its start.\<close>

definition stateAt :: "'h tstep list \<Rightarrow> props \<Rightarrow> int \<Rightarrow> ('h, 'w) tween \<Rightarrow> bool" where
  "stateAt ks p t s \<longleftrightarrow> (\<exists>m. (\<forall>j<m. et (ks ! j) \<le> t) \<and>
    (if isComplete s then Suc m = length ks \<and> et (ks ! m) \<le> t \<and> curTime s = getTotalTime ks \<and> inStep ks p m t (s\<lparr>isComplete := False, curTime := t\<rparr>)
     else t < et (ks ! m) \<and> inStep ks p m t s))"

lemma inStep_later:
  assumes "inStep ks p k t s" "et (ks ! k) \<le> t" "et (ks ! k) \<le> t'"
  shows "inStep ks p k t' (s\<lparr>curTime := t'\<rparr>)"
  using assms by (simp add: inStep_def interp_late)

lemma frame_step:
  assumes q: "quiet H" and d: "0 < d" and s: "\<not> tloop s" "\<not> isComplete s" "map et (steps s) = map et ks"
    and w: "inStep ks p k t (applyCur H (0 = curTime s) s)" "\<forall>j<k. et (ks ! j) \<le> t" "0 \<le> t" "t < getTotalTime ks"
  shows "\<exists>u. advanceTime H d s = Some u \<and> stateAt ks p (t + d) u"
proof -
  define x where "x = applyCur H False ((applyCur H (0 = curTime s) s)\<lparr>curTime := curTime (applyCur H (0 = curTime s) s) + d\<rparr>)"
  have ks: "ks \<noteq> []" "length (steps s) = length ks" using w(1) s(3) by (auto simp: inStep_def dest: map_eq_imp_length_eq)
  have o': "getTotalTime (steps s) = getTotalTime ks" using ks s(3) by (metis getTotalTime_def last_map length_0_conv)
  have ct: "curTime (applyCur H (0 = curTime s) s) = t" using w(1) by (simp add: inStep_def)
  have "inStep ks p k (t + d) x" unfolding x_def ct by (rule stay_step [OF q w(1)])
  moreover have "\<forall>j<k. et (ks ! j) \<le> t + d" using w(2) d by force
  ultimately obtain u m where u: "stepLoop H (length ks - 1) (getTotalTime ks) x = Some u" "\<forall>j<m. et (ks ! j) \<le> t + d"
      "if isComplete u then Suc m = length ks \<and> et (ks ! m) \<le> t + d \<and> curTime u = getTotalTime ks \<and>
         inStep ks p m (t + d) (u\<lparr>isComplete := False, curTime := t + d\<rparr>)
       else t + d < et (ks ! m) \<and> inStep ks p m (t + d) u"
    using loop_steps [OF q, of ks p k "t + d" x "getTotalTime ks"] by blast
  have c: "(if curIdx u = length ks - 1 \<and> curTime u = getTotalTime ks then u\<lparr>isComplete := True\<rparr> else u) = u"
  proof (cases "isComplete u")
    case False
    then have "\<not> (curIdx u = length ks - 1 \<and> curTime u = getTotalTime ks)" using u(3) ks(1) by (auto simp: inStep_def total_last)
    then show ?thesis by (simp only: if_False)
  qed (cases u, simp)
  have "advanceTime H d s = Some u"
    using advanceTime_eq [where s = s and H = H and i = "length ks - 1", OF refl refl refl d s(2)] ks s(1) o' ct w(4) u(1) c
    by (simp add: x_def)
  moreover have "stateAt ks p (t + d) u" unfolding stateAt_def using u(2,3) by blast
  ultimately show ?thesis by blast
qed

lemma stateAt_first:
  assumes q: "quiet H" and ks: "ks \<noteq> []" "0 < getTotalTime ks" and d: "0 < d"
  shows "\<exists>s. advanceTime H d ((tween_get False p w)\<lparr>steps := ks\<rparr>) = Some s \<and> stateAt ks p d s"
proof -
  let ?s = "(tween_get False p w)\<lparr>steps := ks\<rparr>"
  have "inStep ks p 0 (curTime ?s) (applyCur H True ?s)"
    by (rule begin_step [OF q]) (use ks in \<open>simp_all add: tween_get_def before_def execs_def\<close>)
  then have "inStep ks p 0 0 (applyCur H (0 = curTime ?s) ?s)" by (simp add: tween_get_def)
  from frame_step [OF q d _ _ _ this] ks show ?thesis by (simp add: tween_get_def)
qed

lemma stateAt_next:
  assumes q: "quiet H" and ks: "chain 0 ks" and d: "0 < d" and s: "0 < t" "stateAt ks p t s"
  shows "\<exists>u. advanceTime H d s = Some u \<and> stateAt ks p (t + d) u"
proof (cases "isComplete s")
  case True
  then obtain m where m: "\<forall>j<m. et (ks ! j) \<le> t" "Suc m = length ks" "et (ks ! m) \<le> t" "curTime s = getTotalTime ks"
      "inStep ks p m t (s\<lparr>isComplete := False, curTime := t\<rparr>)"
    using s(2) unfolding stateAt_def by auto
  have "inStep ks p m (t + d) (s\<lparr>isComplete := False, curTime := t + d\<rparr>)"
    using inStep_later [OF m(5) m(3), of "t + d"] m(3) d by simp
  then have "stateAt ks p (t + d) s" using True m d unfolding stateAt_def by (intro exI [of _ m]) auto
  with True show ?thesis by (simp add: advanceTime_def)
next
  case False
  then obtain m where m: "\<forall>j<m. et (ks ! j) \<le> t" "t < et (ks ! m)" "inStep ks p m t s"
    using s(2) unfolding stateAt_def by auto
  note s' = m(3) [unfolded inStep_def]
  have "inStep ks p m t (applyCur H False (s\<lparr>curTime := t\<rparr>))" by (rule stay_step [OF q m(3)])
  moreover have "s\<lparr>curTime := t\<rparr> = s" using s' by (cases s) simp
  ultimately have "inStep ks p m t (applyCur H (0 = curTime s) s)" using s' s(1) by simp
  moreover have "t < getTotalTime ks"
  proof -
    have "ks \<noteq> []" "m \<le> length ks - 1" "length ks - 1 < length ks" using s' by auto
    then have "et (ks ! m) \<le> getTotalTime ks" using chain_ends(1) [OF ks, of m "length ks - 1"] by (simp add: total_last)
    with m(2) show ?thesis by simp
  qed
  ultimately show ?thesis using frame_step [OF q d _ _ _ _ m(1)] s' s(1) by simp
qed

lemma stateAt_run:
  assumes q: "quiet H" and ks: "chain 0 ks"
  shows "\<forall>d\<in>set ds. 0 < d \<Longrightarrow> 0 < t \<Longrightarrow> stateAt ks p t s \<Longrightarrow> \<exists>u. runFrames H ds s = Some u \<and> stateAt ks p (t + sum_list ds) u"
proof (induction ds arbitrary: t s)
  case (Cons d ds)
  obtain v where v: "advanceTime H d s = Some v" "stateAt ks p (t + d) v"
    using stateAt_next [OF q ks _ Cons.prems(2,3), of d] Cons.prems(1) by auto
  have "0 < t + d" "\<forall>d\<in>set ds. 0 < d" using Cons.prems(1,2) by auto
  then show ?case using Cons.IH [OF _ _ v(2)] v(1) by (simp add: add.assoc)
qed simp

section \<open>What a state says\<close>

lemma posAt_step:
  assumes "k < length ks" "\<forall>j<k. et (ks ! j) \<le> t" "t < et (ks ! k) \<or> Suc k = length ks"
  shows "posAt ks t p = interp (ks ! k) t (before ks k p)"
  using assms
proof (induction ks arbitrary: k p)
  case (Cons a ks)
  show ?case
  proof (cases k)
    case 0
    then show ?thesis using Cons.prems by (auto simp: before_def interp_late)
  next
    case (Suc j)
    have "posAt ks t (finish a p) = interp (ks ! j) t (before ks j (finish a p))"
      by (rule Cons.IH) (use Cons.prems Suc in auto)
    moreover have "et a \<le> t" using Cons.prems(2) Suc by auto
    ultimately show ?thesis using Suc by (simp add: before_def)
  qed
qed simp

lemma begun_steps:
  assumes c: "chain 0 ks" and k: "k < length ks" "\<forall>j<k. et (ks ! j) \<le> t" "t < et (ks ! k) \<or> Suc k = length ks" and t: "0 \<le> t"
  shows "filter (\<lambda>j. st (ks ! j) \<le> t) [0..<length ks] = [0..<Suc k]"
proof -
  have "st (ks ! j) \<le> t \<longleftrightarrow> j < Suc k" if j: "j < length ks" for j
  proof (cases "j < Suc k")
    case True
    then show ?thesis using chain_start [OF c j] k(2) t by (cases j) auto
  next
    case False
    then have "t < et (ks ! k)" using k(3) j by auto
    moreover have "et (ks ! k) \<le> et (ks ! (j - 1))" using chain_ends(1) [OF c, of k "j - 1"] False j by auto
    ultimately show ?thesis using False chain_start [OF c j] by simp
  qed
  then have "filter (\<lambda>j. st (ks ! j) \<le> t) [0..<length ks] = filter (\<lambda>j. j < Suc k) [0..<length ks]" by (intro filter_cong) auto
  moreover have "[0..<length ks] = [0..<Suc k] @ [Suc k..<length ks]"
    using k(1) by (metis Suc_leI upt_add_eq_append zero_le le_add_diff_inverse)
  moreover have "filter (\<lambda>j. j < Suc k) ([0..<Suc k] @ [Suc k..<length ks]) = [0..<Suc k]"
    by (simp add: filter_empty_conv)
  ultimately show ?thesis by metis
qed

text \<open>The properties that a step leaves, if its easing function ends at the target: those of \<open>to\<close> have the
  given values, those of \<open>from\<close> the values that they had before.\<close>

definition settle :: "'h tstep \<Rightarrow> props \<Rightarrow> props" where
  "settle k p = (case (sfrom k, sto k) of (None, Some m) \<Rightarrow> fold (\<lambda>(s, u) p. p(s := u)) m p | _ \<Rightarrow> p)"

definition wellEased :: "'h tstep \<Rightarrow> bool" where
  "wellEased k \<longleftrightarrow> isTimed k \<longrightarrow> (sfrom k = None \<or> sto k = None) \<and> st k < et k \<and> ease_ok (se k)"

lemma map_of_copyFrom: "map_of (copyFrom m p) s = (if s \<in> fst ` set m then Some (p s) else None)"
  by (induction m) (auto simp: copyFrom_def)

lemma copy_again: "fold (\<lambda>(s, u) q. q(s := u)) (copyFrom m p) p = p"
proof
  fix x
  have "map_of (rev (copyFrom m p)) x = (if x \<in> fst ` set (rev m) then Some (p x) else None)"
    using map_of_copyFrom [of "rev m" p x] by (simp add: copyFrom_def rev_map)
  then show "fold (\<lambda>(s, u) q. q(s := u)) (copyFrom m p) p x = p x"
    using fold_upd [of "\<lambda>s u. u" "copyFrom m p" p x] by simp
qed

lemma finish_settle:
  assumes "wellEased k"
  shows "finish k p = settle k p"
proof (cases "isTimed k")
  case True
  have "(0::real) < of_int (et k - st k)" using assms True by (simp add: wellEased_def)
  then have "se k (of_int (et k - st k)) l c (of_int (et k - st k)) = l + c" for l c
    using assms True unfolding wellEased_def ease_ok_def by blast
  then have e: "se k (of_int (et k) - of_int (st k)) l c (of_int (et k) - of_int (st k)) = l + c" for l c by simp
  have f: "finish k p = fold (\<lambda>(s, u) q. q(s := u)) (the (sto (beginStep p k))) p"
    using beginStep_timed [OF True, of p] True by (auto simp: finish_def interp_def moveProps_upd e)
  show ?thesis
  proof (cases "sfrom k")
    case None
    with True f show ?thesis by (auto simp: settle_def beginStep_def isTimed_def)
  next
    case (Some m)
    with True assms have "sto k = None" by (simp add: wellEased_def)
    with Some f show ?thesis by (simp add: settle_def beginStep_def copy_again)
  qed
next
  case False
  then show ?thesis by (simp add: finish_def interp_def settle_def isTimed_def)
qed

lemma posAt_end: "\<forall>k\<in>set ks. et k \<le> t \<Longrightarrow> posAt ks t p = fold finish ks p"
  by (induction ks arbitrary: p) auto


text \<open>A tween of handlers only, whose time is 0, is never complete and calls its first handler in every
  frame.\<close>

lemma handler_repeats:
  assumes "quiet H" "steps s = [k]" "\<not> isTimed k" "et k = 0" "sh k = Some h" "curIdx s = 0" "curTime s = 0" "\<not> tloop s"
    "\<not> isComplete s" "0 < d"
  shows "\<exists>u. advanceTime H d s = Some u \<and> calls u = calls s @ [(0, h)] \<and> steps u = [k] \<and> curIdx u = 0 \<and> curTime u = 0 \<and> \<not> isComplete u"
proof -
  have "applyCur H True s = callHandler H (Some h) s" using assms by (simp add: applyCur_def isTimed_def)
  then have "advanceTime H d s = Some (callHandler H (Some h) s)"
    using assms by (simp add: advanceTime_def getTotalTime_def callHandler_frame)
  with assms show ?thesis by (simp add: callHandler_quiet callHandler_frame)
qed

section \<open>An example\<close>

definition demo_handlers :: "(nat, nat) handlers" where
  "demo_handlers h = (\<lambda>(p, w). ((p, w + h), False))"

definition demo_steps :: "nat tstep list" where
  "demo_steps = steps (tween_from [(''y'', 2)] 50 (Some 4) Quad_easeIn (tween_exec (Some 7)
     (tween_to [(''x'', 10)] 100 None Linear_easeNone (tween_get False (\<lambda>_. 0) 0 :: (nat, nat) tween))))"

lemma demo_steps_eq: "demo_steps =
  [\<lparr>st = 0, et = 100, sto = Some [(''x'', 10)], sfrom = None, se = Linear_easeNone, sh = None\<rparr>,
   \<lparr>st = 100, et = 100, sto = None, sfrom = None, se = Linear_easeNone, sh = Some 7\<rparr>,
   \<lparr>st = 100, et = 150, sto = None, sfrom = Some [(''y'', 2)], se = Quad_easeIn, sh = Some 4\<rparr>]"
  by (simp add: demo_steps_def tween_from_def tween_exec_def tween_to_def tween_get_def pushStep_def getTotalTime_def
      checkDuration_def toInt32_def Let_def)


text \<open>A tween that loops does not begin its first step anew when a frame runs over its end: a handler
  at the beginning is called in the first round only.\<close>

lemma loop_skips_handler:
  "map_option calls (runFrames demo_handlers [60, 60, 60, 60]
     (tween_delay 100 (tween_exec (Some 7) (tween_get True (\<lambda>_. 0) 0)))) = Some [(0, 7)]"
  by code_simp

end
