(* ===== verification/Spec2Isabelle.thy ===== *)
theory Spec2Isabelle
  imports EquipProps ToolProps ChoiceProps AStarProps LinkedProps WaterPipe CodecProps FacadeProps Ticker Cursor TeamProps MissionProps ActivityProps TweenProps
begin

text \<open>
  Verification of the game client in \<^verbatim>\<open>src/98aa1845d65f6ebb3859c15175ba2856.js\<close>.

  The file is a bundle of some four hundred modules (functions of one array, referred to here
  by the line numbers of the bundle and by the names of their classes) of a role-playing game:
  the characters with their items and skills, the battles that the client computes itself from
  a random seed and exchanges as lists of commands, the scenes the characters walk in, small
  games, and under all of them a library of pooled objects, lists and notifications.  The other
  directories of the repository hold the server framework mqant in Go.

  \<^bold>\<open>Language.\<close>  \<open>Prelude\<close> holds what the models use of JavaScript: numbers of the modelled code are
  integers, the bitwise operators convert to 32 bits (\<open>toInt32\<close>, \<open>jand\<close>, \<open>jor\<close>, \<open>jshl\<close>),
  \<open>a / b | 0\<close> truncates, a read outside an array is \<open>undefined\<close>.  Objects that several places
  refer to live in stores indexed by references (the items of a bag, the nodes of a list, the
  handlers, the fighters of a battle); \<open>null\<close> and \<open>undefined\<close> are \<open>None\<close>; an exception is a
  value of a sum type.  \<open>Arrays\<close> has \<open>ArrayUtil\<close> and \<open>Vector\<close>.

  \<^bold>\<open>Items and the bag.\<close>  \<open>Define\<close> and \<open>ModelConst\<close> have the constants and the predicates on
  item types, slots, buffers and areas (\<open>Define\<close>, \<open>ModelConst\<close>).  \<open>Item\<close> models \<open>ItemData\<close>,
  \<open>Bag\<close> the class \<open>PlayerBag\<close>: one array of slots for worn equipment, bag and storages, with
  every operation that changes it (adding, removing, swapping, equipping, storages, wear).
  \<open>Slots\<close> states what the operations rely on as the locales \<open>slot_store\<close> and \<open>object_store\<close>
  and interprets them on the bag; \<open>BagOps\<close> describes every operation branch by branch and has
  the step relation \<open>bag_step\<close>; \<open>BagProps\<close> and \<open>EquipProps\<close> show that in every reachable bag
  an item knows its slot and lies in one slot only, that removing, adding and the storages
  conserve quantities exactly, and that equipment only enters slots of its type.

  \<^bold>\<open>Characters and battles.\<close>  \<open>Skill\<close>, \<open>Fighter\<close> and \<open>Attributes\<close> model the data of \<open>Skill\<close>,
  \<open>ModelVo\<close>, \<open>PlayerVo\<close>, \<open>Monster\<close> and \<open>Pet\<close> with the computation of attributes (\<open>get\<close>,
  \<open>addValue\<close>; a pet sees its owner as he was when the battle began);
  \<open>Buffers\<close> the class \<open>Buffer\<close> and the buffer list of a character; \<open>Formula\<close>,
  \<open>Powers\<close>, \<open>Battle\<close> and \<open>Round\<close> the classes \<open>Battle\<close> and \<open>FightTool\<close>: hit rates and
  damage, the effects of powers, targets and guards, the orders of the players and the
  whole round (\<open>logicRound\<close>) with the plans of monsters and pets, skills, items, escapes,
  counter attacks and the result.  The random numbers are those of \<open>Tool\<close>'s \<open>Random\<close>.  \<open>AttrProps\<close>,
  \<open>BufferProps\<close> and \<open>FormulaProps\<close> give ranges of attributes, the undoing of buffers, the limits
  on their number and the bounds of the formulas.  The locale \<open>fighter_contract\<close> of \<open>Safety\<close> is
  the interface between the battle and its characters: whatever predicate the elementary
  changes of a character keep, a whole round keeps; \<open>RoundProps\<close> interprets it twice (limits,
  frame) and shows that every reachable battle is within its limits and that battles end.
  \<open>ChoiceProps\<close> treats the order of turns, targets, guards and the merging of effects, \<open>Cursor\<close>
  the two variants of the search for a position from which a skill reaches most characters.
  \<open>Codec\<close> models the bytes of battle commands (\<open>Control.toBytes\<close>, \<open>fromBytes\<close>) over the
  engine's byte arrays, which are a parameter with the hypothesis \<open>bytes_ok\<close>; \<open>CodecProps\<close> is
  the round trip.

  \<^bold>\<open>Teams.\<close>  \<open>Team\<close> models the part of \<open>ModelVo\<close> that joins characters to a leader, with
  mercenaries, legion members, pet and the trail of positions, over a store of characters that
  refer to each other; \<open>TeamProps\<close> has the step relation \<open>team_reach\<close> of a leader's operations
  and the invariant of a team, and shows that no operation raises.

  \<^bold>\<open>Missions.\<close>  \<open>Mission\<close> models \<open>Condition\<close>, \<open>Mission\<close> and the missions of a player: the check
  of every kind of condition, the progress kept in the bytes of a condition, the list of
  accepted missions and the bit field of finished ones.  \<open>MissionProps\<close> shows that kills are
  counted where they belong, that a mission occurs once in the list, and that the bit field
  refines a set of numbers.

  \<^bold>\<open>Activities.\<close>  \<open>Activity\<close> models the list of timed events with the marks on their icons and the
  time of the next change; \<open>ActivityProps\<close> shows that no change is missed, except by a look at the
  list at the very moment of the change, and what the icon of a group of activities shows.

  \<^bold>\<open>Scenes and small games.\<close>  \<open>AStarHeap\<close> is the binary heap of the path search as an
  implementation of the locale \<open>prio_queue\<close>; \<open>AStar\<close> the search on the grid, its node cache and
  the smoothing of paths, with the scene map that calls it; \<open>AStarProps\<close> shows that a path is
  found exactly when there is one.  \<open>WaterPipe\<close> is the water pipe game; its search ends and
  counts the connected pieces.

  \<^bold>\<open>Library.\<close>  \<open>LinkedList\<close> is the doubly linked list on pooled nodes; \<open>LinkedProps\<close> shows that
  it refines a sequence (locale \<open>sequence\<close>).  \<open>Facade\<close> models the notifications between
  modules over those lists, for arbitrary code behind the handlers; \<open>FacadeProps\<close> shows
  who is called for a notification, in which order, and when sending returns.  \<open>Ticker\<close> has the
  update items of a frame.  Both pass over a copy of a list while the code they call changes the
  list itself; \<open>Broadcast\<close> has that loop and its laws, the locale \<open>broadcast\<close>, which both
  interpret.  \<open>Message\<close> models the fields and frames of the messages between client and server
  and the queue of received messages; \<open>MessageProps\<close> shows that they are read as they were
  written and handed on in the order of their arrival.  \<open>Tool\<close> and \<open>ToolProps\<close> have the random generator, bit fields, rectangles and the
  substitution in texts.

  \<^bold>\<open>Tweens.\<close>  \<open>Ease\<close> has the easing functions over the real numbers and where they start and end;
  \<open>Tween\<close> the building of a tween and its frames.  \<open>TweenProps\<close> shows that every frame returns and
  that the state of a tween depends on the time that has passed and not on its frames.

  \<^bold>\<open>Fuel.\<close>  Loops are recursive functions with a termination proof; where a loop of the source
  may run for ever, the model is a partial function or has a depth argument, and a theorem says
  when it returns: the string substitution (\<open>manageStringFull_returns\<close> and
  \<open>manageStringFull_diverges\<close>), nested commands (\<open>depth c\<close> levels), nested notifications (two more than
  the rank), the search loops (proved to return for every map and board).

  \<^bold>\<open>Parameters.\<close>  Code that is not in the repository is a parameter: the 64-bit integers of
  \<open>Long\<close> (hypothesis \<open>long_ok\<close>), the byte arrays of the engine (\<open>bytes_ok\<close>, \<open>wire_ok\<close>, \<open>data_ok\<close>), the outcome of
  \<open>Math.random\<close>.  The line test of the path smoothing adds up fractions in floating point and is
  a parameter too; the theorem on paths holds for every line test.  The easing functions are read
  over the real numbers, without rounding.

  \<^bold>\<open>Not modelled.\<close>  Views, mediators, windows and everything that draws (the larger part of the
  bundle) only build objects of the egret engine; resources, sprites and sound belong to
  it; the proxies exchange messages with a server that is not here; the protobuf runtime
  is third-party code; texts and tables are data.  Of the modelled classes the descriptions,
  menus, parsers of server messages and the battle log are left out.  The Go packages are
  network code around goroutines.
\<close>

end
